(* ===== verification/Prelude.thy ===== *)
theory Prelude
  imports Main "HOL-Library.Finite_Map"
begin

text \<open>
  Shared base of the development: the state-and-error computations in which the services are
  written, the rules that carry an invariant through them, and generic facts on lists and
  finite maps. Nothing here is specific to the migration manager.
\<close>

named_theorems run_simps "equations that run a computation on a state"
named_theorems keeps_intros "rules showing that a computation keeps an invariant"
named_theorems ro_intros "rules showing that a computation does not write the state"

section \<open>Computations over a state that can fail\<close>

text \<open>
  A Go method with receiver state that returns \<open>(value, error)\<close> becomes a function from the
  state to a sum (\<open>Inl\<close> the error) and the state after the call. The state is returned on
  both outcomes, because in-memory caches written before an error stay written.
\<close>

type_synonym ('s, 'e, 'a) act = "'s \<Rightarrow> ('e + 'a) \<times> 's"

definition ret :: "'a \<Rightarrow> ('s, 'e, 'a) act" where
  "ret a = (\<lambda>s. (Inr a, s))"

definition throw :: "'e \<Rightarrow> ('s, 'e, 'a) act" where
  "throw e = (\<lambda>s. (Inl e, s))"

definition bindm :: "('s, 'e, 'a) act \<Rightarrow> ('a \<Rightarrow> ('s, 'e, 'b) act) \<Rightarrow> ('s, 'e, 'b) act" where
  "bindm m f = (\<lambda>s. case m s of (Inl e, s') \<Rightarrow> (Inl e, s') | (Inr a, s') \<Rightarrow> f a s')"

definition andthen :: "('s, 'e, 'a) act \<Rightarrow> ('s, 'e, 'b) act \<Rightarrow> ('s, 'e, 'b) act" where
  "andthen m n = bindm m (\<lambda>_. n)"

definition gets :: "('s \<Rightarrow> 'a) \<Rightarrow> ('s, 'e, 'a) act" where
  "gets f = (\<lambda>s. (Inr (f s), s))"

definition modify :: "('s \<Rightarrow> 's) \<Rightarrow> ('s, 'e, unit) act" where
  "modify f = (\<lambda>s. (Inr (), f s))"

text \<open>A pure result, and the early return \<open>if bad { return err }\<close>.\<close>

definition lift :: "'e + 'a \<Rightarrow> ('s, 'e, 'a) act" where
  "lift r = (\<lambda>s. (r, s))"

definition fail_if :: "bool \<Rightarrow> 'e \<Rightarrow> ('s, 'e, unit) act" where
  "fail_if b e = (if b then throw e else ret ())"

definition fail_on :: "'e option \<Rightarrow> ('s, 'e, unit) act" where
  "fail_on r = (case r of None \<Rightarrow> ret () | Some e \<Rightarrow> throw e)"

text \<open>\<open>if err != nil { return fmt.Errorf(..., err) }\<close>: the error is replaced, the state kept.\<close>

definition wrap_err :: "('e \<Rightarrow> 'f) \<Rightarrow> ('s, 'e, 'a) act \<Rightarrow> ('s, 'f, 'a) act" where
  "wrap_err f m = (\<lambda>s. case m s of (Inl e, s') \<Rightarrow> (Inl (f e), s') | (Inr a, s') \<Rightarrow> (Inr a, s'))"

text \<open>The error as a value, for the callers that inspect it.\<close>

definition attempt :: "('s, 'e, 'a) act \<Rightarrow> ('s, 'f, 'e + 'a) act" where
  "attempt m = (\<lambda>s. case m s of (r, s') \<Rightarrow> (Inr r, s'))"

text \<open>A \<open>for _, x := range xs\<close> whose body may return an error.\<close>

fun for_each :: "'a list \<Rightarrow> ('a \<Rightarrow> ('s, 'e, unit) act) \<Rightarrow> ('s, 'e, unit) act" where
  "for_each [] f = ret ()"
| "for_each (x # xs) f = andthen (f x) (for_each xs f)"

lemma ret_run [run_simps]: "ret a s = (Inr a, s)"
  by (simp add: ret_def)

lemma throw_run [run_simps]: "throw e s = (Inl e, s)"
  by (simp add: throw_def)

lemma bindm_run [run_simps]:
  "bindm m f s = (case m s of (Inl e, s') \<Rightarrow> (Inl e, s') | (Inr a, s') \<Rightarrow> f a s')"
  by (simp add: bindm_def)

lemma andthen_run [run_simps]:
  "andthen m n s = (case m s of (Inl e, s') \<Rightarrow> (Inl e, s') | (Inr a, s') \<Rightarrow> n s')"
  by (simp add: andthen_def bindm_def)

lemma gets_run [run_simps]: "gets f s = (Inr (f s), s)"
  by (simp add: gets_def)

lemma modify_run [run_simps]: "modify f s = (Inr (), f s)"
  by (simp add: modify_def)

lemma lift_run [run_simps]: "lift r s = (r, s)"
  by (simp add: lift_def)

lemma fail_if_run [run_simps]: "fail_if b e s = ((if b then Inl e else Inr ()), s)"
  by (simp add: fail_if_def run_simps)

lemma fail_on_run [run_simps]:
  "fail_on r s = ((case r of None \<Rightarrow> Inr () | Some e \<Rightarrow> Inl e), s)"
  by (simp add: fail_on_def run_simps split: option.splits)

lemma wrap_err_run [run_simps]:
  "wrap_err f m s = (case m s of (Inl e, s') \<Rightarrow> (Inl (f e), s') | (Inr a, s') \<Rightarrow> (Inr a, s'))"
  by (simp add: wrap_err_def)

lemma attempt_run [run_simps]: "attempt m s = (case m s of (r, s') \<Rightarrow> (Inr r, s'))"
  by (simp add: attempt_def)

lemma for_each_run [run_simps]:
  "for_each [] f s = (Inr (), s)"
  "for_each (x # xs) f s =
     (case f x s of (Inl e, s') \<Rightarrow> (Inl e, s') | (Inr a, s') \<Rightarrow> for_each xs f s')"
  by (simp_all add: run_simps)

text \<open>Inversion of a successful run: the forms the property proofs use.\<close>

lemma bindm_ok:
  "bindm m f s = (Inr b, t) \<longleftrightarrow> (\<exists>a u. m s = (Inr a, u) \<and> f a u = (Inr b, t))"
  by (auto simp: bindm_run split: prod.splits sum.splits)

lemma andthen_ok:
  "andthen m n s = (Inr b, t) \<longleftrightarrow> (\<exists>a u. m s = (Inr a, u) \<and> n u = (Inr b, t))"
  by (auto simp: andthen_run split: prod.splits sum.splits)

lemma wrap_err_ok: "wrap_err f m s = (Inr b, t) \<longleftrightarrow> m s = (Inr b, t)"
  by (auto simp: wrap_err_run split: prod.splits sum.splits)

lemma fail_if_ok: "fail_if b e s = (Inr u, t) \<longleftrightarrow> \<not> b \<and> t = s"
  by (auto simp: fail_if_run)

lemma fail_on_ok: "fail_on r s = (Inr u, t) \<longleftrightarrow> r = None \<and> t = s"
  by (auto simp: fail_on_run split: option.splits)

lemma ret_ok: "ret a s = (Inr b, t) \<longleftrightarrow> b = a \<and> t = s"
  by (auto simp: ret_run)

lemma gets_ok: "gets f s = (Inr b, t) \<longleftrightarrow> b = f s \<and> t = s"
  by (auto simp: gets_run)

lemma modify_ok: "modify f s = (Inr u, t) \<longleftrightarrow> t = f s"
  by (auto simp: modify_run)

lemma lift_ok: "lift r s = (Inr b, t) \<longleftrightarrow> r = Inr b \<and> t = s"
  by (auto simp: lift_run)

lemma throw_ok: "throw e s \<noteq> (Inr b, t)"
  by (simp add: throw_run)

lemmas ok_simps = bindm_ok andthen_ok wrap_err_ok fail_if_ok fail_on_ok ret_ok gets_ok
  modify_ok lift_ok throw_ok

section \<open>Keeping an invariant\<close>

text \<open>
  \<open>keeps I m\<close>: \<open>m\<close> keeps the state predicate \<open>I\<close>, on success and on failure.
\<close>

definition keeps :: "('s \<Rightarrow> bool) \<Rightarrow> ('s, 'e, 'a) act \<Rightarrow> bool" where
  "keeps I m \<longleftrightarrow> (\<forall>s. I s \<longrightarrow> I (snd (m s)))"

lemma keepsI [intro?]: "(\<And>s. I s \<Longrightarrow> I (snd (m s))) \<Longrightarrow> keeps I m"
  by (simp add: keeps_def)

lemma keepsD: "keeps I m \<Longrightarrow> I s \<Longrightarrow> I (snd (m s))"
  by (simp add: keeps_def)

lemma keeps_run: "keeps I m \<Longrightarrow> I s \<Longrightarrow> m s = (r, t) \<Longrightarrow> I t"
  by (metis keepsD snd_conv)

lemma keeps_pure [keeps_intros]:
  "keeps I (ret a)" "keeps I (throw e)" "keeps I (gets f)" "keeps I (lift r)"
  "keeps I (fail_if b e)" "keeps I (fail_on x)"
  by (simp_all add: keeps_def run_simps)

lemma keeps_bindm [keeps_intros]:
  "keeps I m \<Longrightarrow> (\<And>a. keeps I (f a)) \<Longrightarrow> keeps I (bindm m f)"
  unfolding keeps_def bindm_run by (fastforce split: prod.splits sum.splits)

lemma keeps_andthen [keeps_intros]: "keeps I m \<Longrightarrow> keeps I n \<Longrightarrow> keeps I (andthen m n)"
  by (simp add: andthen_def keeps_bindm)

lemma keeps_wrap_err [keeps_intros]: "keeps I m \<Longrightarrow> keeps I (wrap_err f m)"
  unfolding keeps_def wrap_err_run by (fastforce split: prod.splits sum.splits)

lemma keeps_attempt [keeps_intros]: "keeps I m \<Longrightarrow> keeps I (attempt m)"
  unfolding keeps_def attempt_run by (fastforce split: prod.splits)

lemma keeps_if [keeps_intros]:
  "(b \<Longrightarrow> keeps I m) \<Longrightarrow> (\<not> b \<Longrightarrow> keeps I n) \<Longrightarrow> keeps I (if b then m else n)"
  by simp

lemma keeps_modify: "(\<And>s. I s \<Longrightarrow> I (f s)) \<Longrightarrow> keeps I (modify f)"
  by (simp add: keeps_def run_simps)

lemma keeps_for_each [keeps_intros]:
  "(\<And>x. x \<in> set xs \<Longrightarrow> keeps I (f x)) \<Longrightarrow> keeps I (for_each xs f)"
  by (induction xs) (auto intro: keeps_intros)

text \<open>\<open>ro m\<close>: \<open>m\<close> only reads.\<close>

definition ro :: "('s, 'e, 'a) act \<Rightarrow> bool" where
  "ro m \<longleftrightarrow> (\<forall>s. snd (m s) = s)"

lemma roD: "ro m \<Longrightarrow> m s = (r, t) \<Longrightarrow> t = s"
  by (metis ro_def snd_conv)

lemma ro_keeps: "ro m \<Longrightarrow> keeps I m"
  by (simp add: ro_def keeps_def)

lemma ro_pure [ro_intros]:
  "ro (ret a)" "ro (throw e)" "ro (gets f)" "ro (lift r)" "ro (fail_if b e)" "ro (fail_on x)"
  by (simp_all add: ro_def run_simps)

lemma ro_bindm [ro_intros]: "ro m \<Longrightarrow> (\<And>a. ro (f a)) \<Longrightarrow> ro (bindm m f)"
  unfolding ro_def bindm_run by (auto split: prod.splits sum.splits; metis snd_conv)

lemma ro_andthen [ro_intros]: "ro m \<Longrightarrow> ro n \<Longrightarrow> ro (andthen m n)"
  by (simp add: andthen_def ro_bindm)

lemma ro_wrap_err [ro_intros]: "ro m \<Longrightarrow> ro (wrap_err f m)"
  unfolding ro_def wrap_err_run by (auto split: prod.splits sum.splits; metis snd_conv)

lemma ro_attempt [ro_intros]: "ro m \<Longrightarrow> ro (attempt m)"
  unfolding ro_def attempt_run by (auto split: prod.splits; metis snd_conv)

lemma ro_if [ro_intros]: "(b \<Longrightarrow> ro m) \<Longrightarrow> (\<not> b \<Longrightarrow> ro n) \<Longrightarrow> ro (if b then m else n)"
  by simp

lemma ro_for_each [ro_intros]: "(\<And>x. x \<in> set xs \<Longrightarrow> ro (f x)) \<Longrightarrow> ro (for_each xs f)"
  by (induction xs) (auto intro: ro_intros)

section \<open>Pure results\<close>

text \<open>Checks that return an error or nothing (Go's plain \<open>error\<close>) are options: \<open>None\<close> is nil.\<close>

definition first_err :: "'e option list \<Rightarrow> 'e option" where
  "first_err rs = (case filter (\<lambda>r. r \<noteq> None) rs of [] \<Rightarrow> None | r # _ \<Rightarrow> r)"

lemma first_err_simps [simp]:
  "first_err [] = None"
  "first_err (None # rs) = first_err rs"
  "first_err (Some e # rs) = Some e"
  by (simp_all add: first_err_def)

lemma first_err_None: "first_err rs = None \<longleftrightarrow> (\<forall>r \<in> set rs. r = None)"
proof (induction rs)
  case (Cons r rs)
  then show ?case by (cases r) auto
qed simp

definition err_when :: "bool \<Rightarrow> 'e \<Rightarrow> 'e option" where
  "err_when b e = (if b then Some e else None)"

lemma err_when_simps [simp]: "err_when True e = Some e" "err_when False e = None"
  by (simp_all add: err_when_def)

lemma err_when_None [simp]: "err_when b e = None \<longleftrightarrow> \<not> b"
  by (simp add: err_when_def)

lemma if_err_None: "(if b then Some e else r) = None \<longleftrightarrow> \<not> b \<and> r = None"
  by simp

lemma if_err2_None: "(if b then (if c then Some e else Some e') else r) = None \<longleftrightarrow> \<not> b \<and> r = None"
  by simp

lemma ignore_None: "(if b then None else r) = None \<longleftrightarrow> b \<or> r = None"
  by simp

lemma case_err_None: "(case o1 of None \<Rightarrow> r | Some e \<Rightarrow> Some (f e)) = None \<longleftrightarrow> o1 = None \<and> r = None"
  by (simp split: option.split)

lemma checked_ok: "(case o1 of None \<Rightarrow> Inr a | Some e \<Rightarrow> Inl e) = Inr b \<longleftrightarrow> o1 = None \<and> b = a"
  by (auto split: option.split)

lemma all_checks_None:
  "first_err [] = None \<longleftrightarrow> True"
  "first_err (r # rs) = None \<longleftrightarrow> r = None \<and> first_err rs = None"
  by (simp_all add: first_err_None)

section \<open>Lists keyed by a field\<close>

lemma find_key_unique:
  "distinct (map key xs) \<Longrightarrow> x \<in> set xs \<Longrightarrow> find (\<lambda>y. key y = key x) xs = Some x"
  by (induction xs) (auto simp: image_iff)

lemma find_key_unique_such:
  "distinct (map key xs) \<Longrightarrow> x \<in> set xs \<Longrightarrow> P x \<Longrightarrow> find (\<lambda>y. key y = key x \<and> P y) xs = Some x"
  by (induction xs) (auto simp: image_iff)

lemma find_SomeD: "find P xs = Some x \<Longrightarrow> x \<in> set xs \<and> P x"
  by (auto simp: find_Some_iff)

lemma find_NoneD: "find P xs = None \<Longrightarrow> x \<in> set xs \<Longrightarrow> \<not> P x"
  by (auto simp: find_None_iff)

lemma distinct_map_inj: "distinct (map f xs) \<Longrightarrow> x \<in> set xs \<Longrightarrow> y \<in> set xs \<Longrightarrow> f x = f y \<Longrightarrow> x = y"
  by (meson distinct_map inj_on_eq_iff)

section \<open>Finite maps\<close>

lemma fmran_fmupd_fresh: "k |\<notin>| fmdom m \<Longrightarrow> fmran (fmupd k v m) = finsert v (fmran m)"
  by (auto simp: fset_eq_iff fmlookup_ran_iff fmdom_notD split: if_splits)
    (metis fmdom_notD option.distinct(1))

lemma fmsubset_fmupd_fresh: "k |\<notin>| fmdom m \<Longrightarrow> m \<subseteq>\<^sub>f fmupd k v m"
  unfolding fmsubset.rep_eq map_le_def by (auto simp: fmdom_notD fmlookup_dom'_iff)

lemma fmsubset_trans: "m \<subseteq>\<^sub>f n \<Longrightarrow> n \<subseteq>\<^sub>f p \<Longrightarrow> m \<subseteq>\<^sub>f p"
  unfolding fmsubset.rep_eq by (rule map_le_trans)

end
