(* ===== verification/Go_Runtime.thy ===== *)
theory Go_Runtime
  imports Prelude "HOL-Library.Word" "HOL-Library.Sublist" "HOL-Library.AList"
begin

text \<open>
  The parts of Go's standard library that the program's logic rests on: 64-bit durations and
  instants (\<^verbatim>\<open>time\<close>), byte strings (\<^verbatim>\<open>strings\<close>, \<^verbatim>\<open>strconv\<close>, \<^verbatim>\<open>path/filepath\<close>), UUIDs, and
  errors with their wrapping and their text (\<^verbatim>\<open>errors\<close>, \<^verbatim>\<open>fmt\<close>).
\<close>

section \<open>Time\<close>

text \<open>
  An instant (\<^verbatim>\<open>time.Time\<close>) is the number of nanoseconds since Go's zero time, so that
  \<open>IsZero\<close> is equality with 0. A \<^verbatim>\<open>time.Duration\<close> is an int64 number of nanoseconds: its
  addition wraps around, and \<open>Time.Sub\<close> saturates at the ends of the range.
\<close>

type_synonym time = int
type_synonym duration = int

definition wrap64 :: "int \<Rightarrow> int" where
  "wrap64 x = (x + 2 ^ 63) mod 2 ^ 64 - 2 ^ 63"

definition dur_add :: "duration \<Rightarrow> duration \<Rightarrow> duration" where
  "dur_add a b = wrap64 (a + b)"

definition time_is_zero :: "time \<Rightarrow> bool" where
  "time_is_zero t \<longleftrightarrow> t = 0"

definition time_before :: "time \<Rightarrow> time \<Rightarrow> bool" where
  "time_before t u \<longleftrightarrow> t < u"

definition time_after :: "time \<Rightarrow> time \<Rightarrow> bool" where
  "time_after t u \<longleftrightarrow> u < t"

definition time_add :: "time \<Rightarrow> duration \<Rightarrow> time" where
  "time_add t d = t + d"

definition time_sub :: "time \<Rightarrow> time \<Rightarrow> duration" where
  "time_sub t u = max (- (2 ^ 63)) (min (2 ^ 63 - 1) (t - u))"

definition nanosecond :: duration where "nanosecond = 1"
definition second :: duration where "second = 1000000000"
definition minute :: duration where "minute = 60 * second"

lemma wrap64_id: "- (2 ^ 63) \<le> x \<Longrightarrow> x < 2 ^ 63 \<Longrightarrow> wrap64 x = x"
  by (simp add: wrap64_def)

lemma wrap64_range: "- (2 ^ 63) \<le> wrap64 x" "wrap64 x < 2 ^ 63"
  by (simp_all add: wrap64_def)

lemma time_sub_sign:
  "0 < time_sub t u \<longleftrightarrow> u < t" "time_sub t u < 0 \<longleftrightarrow> t < u"
  by (auto simp: time_sub_def)

lemmas time_simps = time_is_zero_def time_before_def time_after_def time_add_def

section \<open>Strings\<close>

text \<open>
  Go strings are byte sequences, as HOL's \<open>string\<close> is. Case folding is that of ASCII; bytes
  of multi-byte characters are left alone.
\<close>

definition lower_char :: "char \<Rightarrow> char" where
  "lower_char c = (let n = (of_char c :: nat) in if 65 \<le> n \<and> n \<le> 90 then char_of (n + 32) else c)"

definition to_lower :: "string \<Rightarrow> string" where
  "to_lower s = map lower_char s"

definition str_contains :: "string \<Rightarrow> string \<Rightarrow> bool" where
  "str_contains s sub \<longleftrightarrow> sublist sub s"

definition has_prefix :: "string \<Rightarrow> string \<Rightarrow> bool" where
  "has_prefix s p \<longleftrightarrow> prefix p s"

text \<open>Decimal numbers (\<^verbatim>\<open>strconv.Itoa\<close>, \<open>%d\<close>).\<close>

definition digit_char :: "nat \<Rightarrow> char" where
  "digit_char d = char_of (48 + d)"

fun show_nat :: "nat \<Rightarrow> string" where
  "show_nat n = (if n < 10 then [digit_char n] else show_nat (n div 10) @ [digit_char (n mod 10)])"

declare show_nat.simps [simp del]

definition show_int :: "int \<Rightarrow> string" where
  "show_int i = (if i < 0 then CHR ''-'' # show_nat (nat (- i)) else show_nat (nat i))"

definition is_digit :: "char \<Rightarrow> bool" where
  "is_digit c \<longleftrightarrow> (let n = (of_char c :: nat) in 48 \<le> n \<and> n \<le> 57)"

definition digit_val :: "char \<Rightarrow> nat" where
  "digit_val c = of_char c - 48"

definition read_nat :: "string \<Rightarrow> nat" where
  "read_nat s = foldl (\<lambda>n c. 10 * n + digit_val c) 0 s"

lemma digit_char_digit [simp]: "d < 10 \<Longrightarrow> is_digit (digit_char d)"
  by (simp add: is_digit_def digit_char_def)

lemma digit_val_char [simp]: "d < 10 \<Longrightarrow> digit_val (digit_char d) = d"
  by (simp add: digit_val_def digit_char_def)

lemma read_show_nat: "read_nat (show_nat n) = n"
proof (induction n rule: show_nat.induct)
  case (1 n)
  then show ?case
    by (cases "n < 10") (simp_all add: show_nat.simps [of n] read_nat_def)
qed

lemma show_nat_inj: "show_nat m = show_nat n \<longleftrightarrow> m = n"
  by (metis read_show_nat)

lemma show_nat_digits: "\<forall>c \<in> set (show_nat n). is_digit c"
proof (induction n rule: show_nat.induct)
  case (1 n)
  then show ?case
    by (cases "n < 10") (auto simp: show_nat.simps [of n])
qed

lemma show_nat_not_Nil [simp]: "show_nat n \<noteq> []"
  by (subst show_nat.simps) simp

text \<open>
  Two texts \<open>number ++ "." ++ rest\<close> agree only if number and rest do: the digits end where the
  dot is.
\<close>

lemma digits_dot_inj:
  assumes "\<forall>c \<in> set a. is_digit c" and "\<forall>c \<in> set b. is_digit c"
    and "a @ CHR ''.'' # r = b @ CHR ''.'' # s"
  shows "a = b \<and> r = s"
  using assms
proof (induction a arbitrary: b)
  case Nil
  then show ?case by (cases b) (auto simp: is_digit_def)
next
  case (Cons c a)
  then show ?case by (cases b) (auto simp: is_digit_def)
qed

text \<open>
  \<^verbatim>\<open>strconv.Quote\<close> (\<open>%q\<close>): a double-quoted text with escapes. Bytes from 0x80 on belong to
  multi-byte characters and are kept as they are.
\<close>

definition hex_char :: "nat \<Rightarrow> char" where
  "hex_char d = (if d < 10 then char_of (48 + d) else char_of (87 + d))"

definition quote_char :: "char \<Rightarrow> string" where
  "quote_char c = (let n = (of_char c :: nat) in
     if n = 34 then [char_of (92::nat), c]
     else if n = 92 then [c, c]
     else if n = 7 then [char_of (92::nat), CHR ''a'']
     else if n = 8 then [char_of (92::nat), CHR ''b'']
     else if n = 12 then [char_of (92::nat), CHR ''f'']
     else if n = 10 then [char_of (92::nat), CHR ''n'']
     else if n = 13 then [char_of (92::nat), CHR ''r'']
     else if n = 9 then [char_of (92::nat), CHR ''t'']
     else if n = 11 then [char_of (92::nat), CHR ''v'']
     else if n < 32 \<or> n = 127 then [char_of (92::nat), CHR ''x'', hex_char (n div 16), hex_char (n mod 16)]
     else [c])"

definition go_quote :: "string \<Rightarrow> string" where
  "go_quote s = char_of (34::nat) # concat (map quote_char s) @ [char_of (34::nat)]"

text \<open>A single quote, which a literal cannot contain.\<close>

definition squote :: string where
  "squote = [char_of (39::nat)]"

text \<open>\<^verbatim>\<open>filepath.Base\<close>: the last element of a path, trailing slashes dropped.\<close>

definition is_slash :: "char \<Rightarrow> bool" where
  "is_slash c \<longleftrightarrow> c = CHR ''/''"

definition path_base :: "string \<Rightarrow> string" where
  "path_base p = (if p = [] then ''.''
     else let q = rev (dropWhile is_slash (rev p))
          in if q = [] then ''/'' else rev (takeWhile (\<lambda>c. \<not> is_slash c) (rev q)))"

text \<open>\<^verbatim>\<open>strings.Split\<close> with a one-character separator.\<close>

fun str_split :: "char \<Rightarrow> string \<Rightarrow> string list" where
  "str_split d [] = [[]]"
| "str_split d (c # cs) =
     (if c = d then [] # str_split d cs
      else (case str_split d cs of [] \<Rightarrow> [[c]] | p # ps \<Rightarrow> (c # p) # ps))"

text \<open>\<^verbatim>\<open>strings.ReplaceAll\<close> for single characters, and \<^verbatim>\<open>strings.Join\<close>.\<close>

definition replace_char :: "char \<Rightarrow> char \<Rightarrow> string \<Rightarrow> string" where
  "replace_char a b s = map (\<lambda>c. if c = a then b else c) s"

fun str_join :: "string \<Rightarrow> string list \<Rightarrow> string" where
  "str_join sep [] = []"
| "str_join sep [x] = x"
| "str_join sep (x # y # xs) = x @ sep @ str_join sep (y # xs)"

lemma str_split_not_Nil [simp]: "str_split d s \<noteq> []"
  by (induction s) (auto split: list.splits)

lemma str_split_join: "str_join [d] (str_split d s) = s"
proof (induction s)
  case (Cons c s)
  obtain p ps where sp: "str_split d s = p # ps"
    using str_split_not_Nil [of d s] by (cases "str_split d s") auto
  from Cons.IH sp show ?case by (cases ps) auto
qed simp

text \<open>
  \<^verbatim>\<open>filepath.Clean\<close> on the elements of a path, and \<^verbatim>\<open>filepath.Dir\<close>: everything up to the last
  slash, cleaned.
\<close>

fun clean_elems :: "bool \<Rightarrow> string list \<Rightarrow> string list \<Rightarrow> string list" where
  "clean_elems rooted out [] = rev out"
| "clean_elems rooted out (e # es) =
     (if e = '''' \<or> e = ''.'' then clean_elems rooted out es
      else if e = ''..'' then
        (case out of
           [] \<Rightarrow> clean_elems rooted (if rooted then [] else [''..'']) es
         | o1 # os \<Rightarrow> clean_elems rooted (if o1 = ''..'' then ''..'' # out else os) es)
      else clean_elems rooted (e # out) es)"

definition path_clean :: "string \<Rightarrow> string" where
  "path_clean p =
     (let rooted = has_prefix p ''/'';
          body = str_join ''/'' (clean_elems rooted [] (str_split (CHR ''/'') p))
      in if rooted then CHR ''/'' # body else if body = '''' then ''.'' else body)"

definition path_dir :: "string \<Rightarrow> string" where
  "path_dir p = path_clean (rev (dropWhile (\<lambda>c. \<not> is_slash c) (rev p)))"

section \<open>Maps\<close>

text \<open>
  A map that is iterated over is the list of its pairs, without a key twice; the order of the list is
  that of the iteration. The order Go takes is random: the tasks get it as a function that reorders
  the maps.
\<close>

type_synonym ('k, 'v) gomap = "('k \<times> 'v) list"

definition gm_get :: "'v \<Rightarrow> ('k, 'v) gomap \<Rightarrow> 'k \<Rightarrow> 'v" where
  "gm_get zero m k = (case map_of m k of None \<Rightarrow> zero | Some v \<Rightarrow> v)"

definition gm_set :: "'k \<Rightarrow> 'v \<Rightarrow> ('k, 'v) gomap \<Rightarrow> ('k, 'v) gomap" where
  "gm_set k v m = AList.update k v m"

definition gm_delete :: "'k \<Rightarrow> ('k, 'v) gomap \<Rightarrow> ('k, 'v) gomap" where
  "gm_delete k m = AList.delete k m"

lemma map_of_gm_delete [simp]: "map_of (gm_delete k m) = (map_of m)(k := None)"
  by (simp add: gm_delete_def delete_conv')

lemma gm_get_set [simp]: "gm_get z (gm_set k v m) j = (if j = k then v else gm_get z m j)"
  by (simp add: gm_get_def gm_set_def update_conv')

lemma map_of_gm_set [simp]: "map_of (gm_set k v m) = (map_of m)(k \<mapsto> v)"
  by (simp add: gm_set_def update_conv')

section \<open>UUIDs\<close>

text \<open>A UUID is its 128 bits; \<open>uuid_nil\<close> is \<^verbatim>\<open>uuid.Nil\<close>.\<close>

type_synonym uuid = "128 word"

definition uuid_nil :: uuid where
  "uuid_nil = 0"

definition uuid_hex :: "uuid \<Rightarrow> nat \<Rightarrow> char" where
  "uuid_hex u i = hex_char (unat (drop_bit (4 * (31 - i)) u) mod 16)"

definition uuid_string :: "uuid \<Rightarrow> string" where
  "uuid_string u =
     map (uuid_hex u) [0..<8] @ [CHR ''-''] @ map (uuid_hex u) [8..<12] @ [CHR ''-''] @
     map (uuid_hex u) [12..<16] @ [CHR ''-''] @ map (uuid_hex u) [16..<20] @ [CHR ''-''] @
     map (uuid_hex u) [20..<32]"

section \<open>Errors\<close>

text \<open>
  An error value keeps the format and the arguments it was made from, so that both its text and
  the chain that \<^verbatim>\<open>errors.Is\<close> walks can be read off. The sentinels and the two error types are those of
  \<^verbatim>\<open>internal/migration/errors.go\<close>; \<open>StatusErr\<close> is an error with an HTTP status (Incus'
  \<^verbatim>\<open>StatusErrorf\<close>) and \<open>ExternalErr\<close> one made by code outside the repository, known by its text.
\<close>

datatype sentinel = ErrNotFound | ErrConstraintViolation | ErrOperationNotPermitted

datatype disabled_reason =
    DISABLEDREASON_MANUALLY_DISABLED
  | DISABLEDREASON_INVALID_HOSTNAME
  | DISABLEDREASON_UNKNOWN_OS
  | DISABLEDREASON_UNKNOWN_ARCHITECTURE
  | DISABLEDREASON_UNKNOWN_IP_ADDRESS
  | DISABLEDREASON_VERIFYING_BACKGROUND_IMPORT
  | DISABLEDREASON_UNSUPPORTED_BACKGROUND_IMPORT
  | DISABLEDREASON_UNSUPPORTED_DISK_SNAPSHOT

datatype err =
    Sentinel sentinel
  | Errorf string "arg list"
  | ErrValidation string "arg list"
  | ErrDisabled disabled_reason string "arg list"
  | StatusErr nat string "arg list"
  | ExternalErr string
and arg =
    AStr string
  | AInt int
  | AUuid uuid
  | AErr err      \<comment> \<open>formatted with \<open>%v\<close>, \<open>%s\<close> or \<open>%q\<close>: text only\<close>
  | AWrap err     \<comment> \<open>formatted with \<open>%w\<close>: text, and part of the chain\<close>

fun disabled_reason_text :: "disabled_reason \<Rightarrow> string" where
  "disabled_reason_text DISABLEDREASON_MANUALLY_DISABLED = ''Manually disabled''"
| "disabled_reason_text DISABLEDREASON_INVALID_HOSTNAME = ''Invalid hostname''"
| "disabled_reason_text DISABLEDREASON_UNKNOWN_OS = ''Unknown OS''"
| "disabled_reason_text DISABLEDREASON_UNKNOWN_ARCHITECTURE = ''Unknown architecture''"
| "disabled_reason_text DISABLEDREASON_UNKNOWN_IP_ADDRESS = ''Unknown IP address''"
| "disabled_reason_text DISABLEDREASON_VERIFYING_BACKGROUND_IMPORT = ''Verifying background import''"
| "disabled_reason_text DISABLEDREASON_UNSUPPORTED_BACKGROUND_IMPORT = ''Unsupported background import''"
| "disabled_reason_text DISABLEDREASON_UNSUPPORTED_DISK_SNAPSHOT = ''Unsupported disk snapshot''"

text \<open>\<^verbatim>\<open>fmt.Sprintf\<close> on argument texts: \<open>%q\<close> quotes, every other verb prints the text.\<close>

fun sprintf :: "string \<Rightarrow> string list \<Rightarrow> string" where
  "sprintf [] as = []"
| "sprintf [c] as = [c]"
| "sprintf (c # v # f) as =
     (if c = CHR ''%'' then
        (case as of
           [] \<Rightarrow> c # v # sprintf f []
         | a # as' \<Rightarrow> (if v = CHR ''q'' then go_quote a else a) @ sprintf f as')
      else c # sprintf (v # f) as)"

fun sentinel_text :: "sentinel \<Rightarrow> string" where
  "sentinel_text ErrNotFound = ''Not found''"
| "sentinel_text ErrConstraintViolation = ''Constraint violation''"
| "sentinel_text ErrOperationNotPermitted = ''Operation not permitted''"

text \<open>\<open>err.Error()\<close>.\<close>

fun err_text :: "err \<Rightarrow> string" and arg_text :: "arg \<Rightarrow> string" where
  "err_text (Sentinel s) = sentinel_text s"
| "err_text (Errorf f as) = sprintf f (map arg_text as)"
| "err_text (ErrValidation f as) = sprintf f (map arg_text as)"
| "err_text (ErrDisabled r f as) = sprintf f (map arg_text as)"
| "err_text (StatusErr n f as) = sprintf f (map arg_text as)"
| "err_text (ExternalErr t) = t"
| "arg_text (AStr s) = s"
| "arg_text (AInt i) = show_int i"
| "arg_text (AUuid u) = uuid_string u"
| "arg_text (AErr e) = err_text e"
| "arg_text (AWrap e) = err_text e"

text \<open>\<open>errors.Is(err, sentinel)\<close>: the error or one it wraps.\<close>

fun err_is :: "sentinel \<Rightarrow> err \<Rightarrow> bool" and arg_is :: "sentinel \<Rightarrow> arg \<Rightarrow> bool" where
  "err_is s (Sentinel t) = (s = t)"
| "err_is s (Errorf f as) = (\<exists>a \<in> set as. arg_is s a)"
| "err_is s (ErrValidation f as) = False"
| "err_is s (ErrDisabled r f as) = (\<exists>a \<in> set as. arg_is s a)"
| "err_is s (StatusErr n f as) = False"
| "err_is s (ExternalErr t) = False"
| "arg_is s (AWrap e) = err_is s e"
| "arg_is s (AStr x) = False"
| "arg_is s (AInt i) = False"
| "arg_is s (AUuid u) = False"
| "arg_is s (AErr e) = False"

text \<open>\<^verbatim>\<open>incusAPI.StatusErrorCheck(err, status)\<close>, which looks through wrapped errors.\<close>

fun err_status :: "nat \<Rightarrow> err \<Rightarrow> bool" and arg_status :: "nat \<Rightarrow> arg \<Rightarrow> bool" where
  "err_status n (StatusErr m f as) = (n = m)"
| "err_status n (Errorf f as) = (\<exists>a \<in> set as. arg_status n a)"
| "err_status n (ErrDisabled r f as) = (\<exists>a \<in> set as. arg_status n a)"
| "err_status n (Sentinel s) = False"
| "err_status n (ErrValidation f as) = False"
| "err_status n (ExternalErr t) = False"
| "arg_status n (AWrap e) = err_status n e"
| "arg_status n (AStr x) = False"
| "arg_status n (AInt i) = False"
| "arg_status n (AUuid u) = False"
| "arg_status n (AErr e) = False"

definition http_not_found :: nat where "http_not_found = 404"

lemma wrapped_is [simp]: "err_is s (Errorf f (as @ [AWrap e])) \<longleftrightarrow> (\<exists>a \<in> set as. arg_is s a) \<or> err_is s e"
  by auto

end
