(* ===== verification/Concurrent.thy ===== *)
theory Concurrent
  imports Go_Runtime
begin

text \<open>
  The concurrency helpers of \<^verbatim>\<open>internal/util/concurrent.go\<close>: the locked cache that the services
  keep their counters in, the runners that start one goroutine per entity, and the lock that is
  keyed by an identifier (\<^verbatim>\<open>IDLock\<close>) as a system of threads. The locale \<open>import_counter\<close> is the
  contract of the counters that four services build on the cache.
\<close>

section \<open>Cache\<close>

text \<open>
  The map behind the mutex. Reading a missing key gives Go's zero value, here the first
  argument of the operations that need it.
\<close>

type_synonym ('k, 'v) cache = "'k \<rightharpoonup> 'v"

definition new_cache :: "('k, 'v) cache" where
  "new_cache = Map.empty"

definition cache_replace :: "('k, 'v) cache option \<Rightarrow> ('k, 'v) cache \<Rightarrow> (err + unit) \<times> ('k, 'v) cache" where
  "cache_replace new c =
     (case new of None \<Rightarrow> (Inl (Errorf ''Cache is nil'' []), c) | Some c' \<Rightarrow> (Inr (), c'))"

definition cache_read :: "'v \<Rightarrow> ('k, 'v) cache \<Rightarrow> 'k \<Rightarrow> 'v \<times> bool" where
  "cache_read zero c k = (case c k of None \<Rightarrow> (zero, False) | Some v \<Rightarrow> (v, True))"

definition cache_write ::
    "'v \<Rightarrow> ('k, 'v) cache \<Rightarrow> 'k \<Rightarrow> 'v \<Rightarrow> ('v \<Rightarrow> 'v \<Rightarrow> 'v) option \<Rightarrow> ('k, 'v) cache" where
  "cache_write zero c k v f =
     (case f of Some g \<Rightarrow> c(k \<mapsto> g (fst (cache_read zero c k)) v) | None \<Rightarrow> c(k \<mapsto> v))"

definition cache_delete :: "('k, 'v) cache \<Rightarrow> 'k \<Rightarrow> ('k, 'v) cache" where
  "cache_delete c k = c(k := None)"

text \<open>
  The two update functions that every counter passes to \<open>Write\<close>: add one, and subtract one
  unless the count is not positive.
\<close>

definition count_up :: "int \<Rightarrow> int \<Rightarrow> int" where
  "count_up existing new = existing + new"

definition count_down :: "int \<Rightarrow> int \<Rightarrow> int" where
  "count_down existing new = (if existing > 0 then existing - new else existing)"

definition counter_get :: "('k, int) cache \<Rightarrow> 'k \<Rightarrow> int" where
  "counter_get c k = fst (cache_read 0 c k)"

definition counter_record :: "'k \<Rightarrow> ('k, int) cache \<Rightarrow> ('k, int) cache" where
  "counter_record k c = cache_write 0 c k 1 (Some count_up)"

definition counter_remove :: "'k \<Rightarrow> ('k, int) cache \<Rightarrow> ('k, int) cache" where
  "counter_remove k c = cache_write 0 c k 1 (Some count_down)"

lemma counter_get_simps [simp]:
  "counter_get new_cache k = 0"
  "counter_get (counter_record k c) k' = counter_get c k' + (if k' = k then 1 else 0)"
  "counter_get (counter_remove k c) k' =
     (if k' = k \<and> 0 < counter_get c k then counter_get c k - 1 else counter_get c k')"
  by (auto simp: counter_get_def counter_record_def counter_remove_def cache_write_def
      cache_read_def new_cache_def count_up_def count_down_def)

section \<open>The contract of a counter\<close>

text \<open>
  What a client may rely on: recording adds one to its own key, removing takes one away but never
  goes below zero, and no operation touches another key.
\<close>

locale import_counter =
  fixes cget :: "'c \<Rightarrow> 'k \<Rightarrow> int"
    and crecord :: "'k \<Rightarrow> 'c \<Rightarrow> 'c"
    and cremove :: "'k \<Rightarrow> 'c \<Rightarrow> 'c"
  assumes cget_record: "cget (crecord k c) k' = cget c k' + (if k' = k then 1 else 0)"
    and cget_remove: "cget (cremove k c) k' =
          (if k' = k \<and> 0 < cget c k then cget c k - 1 else cget c k')"
begin

lemma remove_record: "0 \<le> cget c k \<Longrightarrow> cget (cremove k (crecord k c)) k' = cget c k'"
  by (simp add: cget_record cget_remove)

lemma record_nonneg: "0 \<le> cget c k' \<Longrightarrow> 0 \<le> cget (crecord k c) k'"
  by (simp add: cget_record)

lemma remove_nonneg: "0 \<le> cget c k' \<Longrightarrow> 0 \<le> cget (cremove k c) k'"
  by (simp add: cget_remove)

lemma remove_at_zero: "cget c k = 0 \<Longrightarrow> cget (cremove k c) k' = cget c k'"
  by (simp add: cget_remove)

text \<open>A history of records (\<open>True\<close>) and removals (\<open>False\<close>) of one key.\<close>

lemma history_nonneg:
  "0 \<le> cget c k' \<Longrightarrow> 0 \<le> cget (fold (\<lambda>b. if b then crecord k else cremove k) hs c) k'"
  by (induction hs arbitrary: c) (auto simp: record_nonneg remove_nonneg)

text \<open>
  As long as no prefix of the history removes more than it recorded, the counter is exact: the
  start value plus the records minus the removals.
\<close>

lemma history_exact:
  assumes "0 \<le> cget c k"
    and "\<And>n. n \<le> length hs \<Longrightarrow>
           int (count_list (take n hs) False) \<le> cget c k + int (count_list (take n hs) True)"
  shows "cget (fold (\<lambda>b. if b then crecord k else cremove k) hs c) k =
           cget c k + int (count_list hs True) - int (count_list hs False)"
  using assms
proof (induction hs arbitrary: c)
  case Nil
  then show ?case by simp
next
  case (Cons b hs)
  let ?c = "(if b then crecord k else cremove k) c"
  have first: "cget ?c k = cget c k + (if b then 1 else - 1)"
  proof (cases b)
    case True
    then show ?thesis by (simp add: cget_record)
  next
    case False
    with Cons.prems(2) [of 1] have "0 < cget c k" by simp
    with False show ?thesis by (simp add: cget_remove)
  qed
  have "0 \<le> cget ?c k"
    using Cons.prems(1) by (cases b) (auto simp: record_nonneg remove_nonneg)
  moreover have "int (count_list (take n hs) False) \<le> cget ?c k + int (count_list (take n hs) True)"
    if "n \<le> length hs" for n
    using Cons.prems(2) [of "Suc n"] that first by (cases b) auto
  ultimately have "cget (fold (\<lambda>b. if b then crecord k else cremove k) hs ?c) k =
      cget ?c k + int (count_list hs True) - int (count_list hs False)"
    by (rule Cons.IH)
  with first show ?case by (cases b) auto
qed

end

interpretation cache_counter: import_counter counter_get counter_record counter_remove
  by unfold_locales auto

section \<open>Concurrent runners\<close>

text \<open>
  One goroutine per entity, all of them run, and the errors are collected in the order in which
  the goroutines finish. The first argument is that order (a permutation of the entities), which
  the Go runtime chooses; each action is one atomic step of it. The error reported is the last
  one collected.
\<close>

fun run_all :: "'a list \<Rightarrow> ('a \<Rightarrow> ('s, err, unit) act) \<Rightarrow> 's \<Rightarrow> err list \<times> 's" where
  "run_all [] f s = ([], s)"
| "run_all (x # xs) f s =
     (case f x s of
        (Inl e, s') \<Rightarrow> (case run_all xs f s' of (es, t) \<Rightarrow> (e # es, t))
      | (Inr u, s') \<Rightarrow> run_all xs f s')"

definition run_concurrent_list :: "'a list \<Rightarrow> ('a \<Rightarrow> ('s, err, unit) act) \<Rightarrow> ('s, err, unit) act" where
  "run_concurrent_list entities f = (\<lambda>s.
     if entities = [] then (Inr (), s)
     else (case run_all entities f s of
        (errs, t) \<Rightarrow>
          (if errs \<noteq> []
           then Inl (Errorf ''Failed to run %d concurrent actions. Last error: %w''
                       [AInt (int (length errs)), AWrap (last errs)])
           else Inr (), t)))"

definition run_concurrent_map ::
    "('k \<times> 'v) list \<Rightarrow> ('k \<Rightarrow> 'v \<Rightarrow> ('s, err, unit) act) \<Rightarrow> ('s, err, unit) act" where
  "run_concurrent_map entities f = (\<lambda>s.
     if entities = [] then (Inr (), s)
     else (case run_all entities (\<lambda>(k, v). f k v) s of
        (errs, t) \<Rightarrow>
          (if errs \<noteq> []
           then Inl (Errorf ''Failed to run %d concurrent actions. Last error: %w''
                       [AInt (int (length errs)), AWrap (last errs)])
           else Inr (), t)))"

lemma run_all_keeps: "(\<And>x. x \<in> set xs \<Longrightarrow> keeps I (f x)) \<Longrightarrow> I s \<Longrightarrow> I (snd (run_all xs f s))"
proof (induction xs arbitrary: s)
  case (Cons x xs)
  obtain r t where r: "f x s = (r, t)" by (cases "f x s")
  with Cons.prems have "I t" by (auto intro: keeps_run)
  with Cons have "I (snd (run_all xs f t))" by auto
  with r show ?case by (cases r) (auto split: prod.splits)
qed simp

lemma keeps_run_concurrent_list [keeps_intros]:
  assumes "\<And>x. x \<in> set xs \<Longrightarrow> keeps I (f x)"
  shows "keeps I (run_concurrent_list xs f)"
proof
  fix s assume "I s"
  with assms have "I (snd (run_all xs f s))" by (rule run_all_keeps)
  with \<open>I s\<close> show "I (snd (run_concurrent_list xs f s))"
    by (auto simp: run_concurrent_list_def split: prod.splits)
qed

lemma run_concurrent_map_list:
  "run_concurrent_map xs f = run_concurrent_list xs (\<lambda>(k, v). f k v)"
  by (simp add: run_concurrent_map_def run_concurrent_list_def)

lemma run_all_no_error:
  "run_all xs f s = ([], t) \<longleftrightarrow> for_each xs f s = (Inr (), t)"
proof (induction xs arbitrary: s)
  case Nil
  then show ?case by (simp add: run_simps)
next
  case (Cons x xs)
  obtain r u where r: "f x s = (r, u)" by (cases "f x s")
  show ?case
  proof (cases r)
    case (Inl e)
    with r show ?thesis by (simp add: andthen_run split: prod.splits)
  next
    case (Inr v)
    with r Cons.IH [of u] show ?thesis by (simp add: andthen_run)
  qed
qed

text \<open>
  A concurrent run succeeds exactly when running the actions one after the other does: unlike the
  sequential loop it does not stop at an error, but without an error the two agree.
\<close>

lemma run_concurrent_list_ok:
  "run_concurrent_list xs f s = (Inr (), t) \<longleftrightarrow> for_each xs f s = (Inr (), t)"
proof (cases xs)
  case Nil
  then show ?thesis by (simp add: run_concurrent_list_def run_simps)
next
  case (Cons y ys)
  obtain es u where r: "run_all xs f s = (es, u)" by (cases "run_all xs f s")
  have "xs \<noteq> []" using Cons by simp
  then have "run_concurrent_list xs f s = (Inr (), t) \<longleftrightarrow> es = [] \<and> u = t"
    by (simp add: run_concurrent_list_def r)
  also have "\<dots> \<longleftrightarrow> for_each xs f s = (Inr (), t)"
    using r run_all_no_error [of xs f s t] by auto
  finally show ?thesis .
qed

section \<open>Locks keyed by an identifier\<close>

text \<open>
  \<^verbatim>\<open>refMutex\<close>: whether some thread holds the mutex, and the number of uses. The map holds pointers, so
  mutex objects live at addresses, and an object taken out of the map can still be pointed to.
\<close>

record ref_mutex =
  rm_locked :: bool
  rm_uses :: int

record 'k idlock =
  il_lockMap :: "'k \<rightharpoonup> nat"
  il_heap :: "nat \<Rightarrow> ref_mutex"
  il_next :: nat

definition new_idlock :: "'k idlock" where
  "new_idlock = \<lparr>il_lockMap = Map.empty, il_heap = (\<lambda>_. \<lparr>rm_locked = False, rm_uses = 0\<rparr>), il_next = 0\<rparr>"

text \<open>
  \<open>Lock\<close> up to its \<open>accessLock.Unlock()\<close>: fetch or create the mutex and count the use. The
  pointer is what the thread then blocks on.
\<close>

definition idlock_fetch :: "'k \<Rightarrow> 'k idlock \<Rightarrow> nat \<times> 'k idlock" where
  "idlock_fetch k l =
     (let (a, l1) = (case il_lockMap l k of
            Some a \<Rightarrow> (a, l)
          | None \<Rightarrow> (il_next l, l\<lparr>il_lockMap := (il_lockMap l)(k \<mapsto> il_next l),
                        il_heap := (il_heap l)(il_next l := \<lparr>rm_locked = False, rm_uses = 0\<rparr>),
                        il_next := Suc (il_next l)\<rparr>))
      in (a, l1\<lparr>il_heap := (il_heap l1)(a := (il_heap l1 a)\<lparr>rm_uses := rm_uses (il_heap l1 a) + 1\<rparr>)\<rparr>))"

text \<open>
  \<open>Unlock\<close>, all of it under \<open>accessLock\<close>. \<open>None\<close> is the fatal error of unlocking a mutex that
  is not locked.
\<close>

definition idlock_unlock :: "'k \<Rightarrow> 'k idlock \<Rightarrow> 'k idlock option" where
  "idlock_unlock k l =
     (case il_lockMap l k of
        None \<Rightarrow> Some l
      | Some a \<Rightarrow>
          if \<not> rm_locked (il_heap l a) then None
          else let uses = rm_uses (il_heap l a) - 1;
                   l1 = l\<lparr>il_heap := (il_heap l)(a := \<lparr>rm_locked = False, rm_uses = uses\<rparr>)\<rparr>
               in Some (if uses = 0 then l1\<lparr>il_lockMap := (il_lockMap l1)(k := None)\<rparr> else l1))"

text \<open>
  The system: numbered threads, each outside, blocked in \<open>Lock\<close> on the mutex it fetched, or past
  \<open>Lock\<close>. Only a thread past \<open>Lock(k)\<close> calls \<open>Unlock(k)\<close>, as every caller in the program does.
\<close>

datatype 'k lock_pc = Outside | Blocked 'k nat | Holding 'k nat

record 'k lock_sys =
  ls_lock :: "'k idlock"
  ls_pc :: "nat \<Rightarrow> 'k lock_pc"

definition init_lock_sys :: "'k lock_sys" where
  "init_lock_sys = \<lparr>ls_lock = new_idlock, ls_pc = (\<lambda>_. Outside)\<rparr>"

inductive lock_step :: "'k lock_sys \<Rightarrow> 'k lock_sys \<Rightarrow> bool" where
  fetch: "ls_pc s t = Outside \<Longrightarrow> idlock_fetch k (ls_lock s) = (a, l) \<Longrightarrow>
     lock_step s (s\<lparr>ls_lock := l, ls_pc := (ls_pc s)(t := Blocked k a)\<rparr>)"
| acquire: "ls_pc s t = Blocked k a \<Longrightarrow> \<not> rm_locked (il_heap (ls_lock s) a) \<Longrightarrow>
     lock_step s (s\<lparr>ls_lock := (ls_lock s)\<lparr>il_heap := (il_heap (ls_lock s))
         (a := (il_heap (ls_lock s) a)\<lparr>rm_locked := True\<rparr>)\<rparr>, ls_pc := (ls_pc s)(t := Holding k a)\<rparr>)"
| release: "ls_pc s t = Holding k a \<Longrightarrow> idlock_unlock k (ls_lock s) = Some l \<Longrightarrow>
     lock_step s (s\<lparr>ls_lock := l, ls_pc := (ls_pc s)(t := Outside)\<rparr>)"

inductive lock_reachable :: "'k lock_sys \<Rightarrow> bool" where
  start: "lock_reachable init_lock_sys"
| step: "lock_reachable s \<Longrightarrow> lock_step s s' \<Longrightarrow> lock_reachable s'"

definition lock_users :: "'k lock_sys \<Rightarrow> 'k \<Rightarrow> nat set" where
  "lock_users s k = {t. \<exists>a. ls_pc s t = Blocked k a \<or> ls_pc s t = Holding k a}"

text \<open>
  The invariant: a thread inside \<open>Lock(k) ... Unlock(k)\<close> points to the mutex that the map holds
  for \<open>k\<close>; mutexes of different keys are different objects; the use count is the number of such
  threads, which is never 0 while the entry exists; and the mutex is locked by exactly the one
  thread past \<open>Lock\<close>, if there is one.
\<close>

definition lock_inv :: "'k lock_sys \<Rightarrow> bool" where
  "lock_inv s \<longleftrightarrow>
     (\<forall>t k a. ls_pc s t = Blocked k a \<or> ls_pc s t = Holding k a \<longrightarrow> il_lockMap (ls_lock s) k = Some a) \<and>
     (\<forall>k a. il_lockMap (ls_lock s) k = Some a \<longrightarrow> a < il_next (ls_lock s)) \<and>
     (\<forall>k k' a. il_lockMap (ls_lock s) k = Some a \<longrightarrow> il_lockMap (ls_lock s) k' = Some a \<longrightarrow> k = k') \<and>
     (\<forall>k. finite (lock_users s k)) \<and>
     (\<forall>k a. il_lockMap (ls_lock s) k = Some a \<longrightarrow>
        rm_uses (il_heap (ls_lock s) a) = int (card (lock_users s k)) \<and> lock_users s k \<noteq> {}) \<and>
     (\<forall>k a. il_lockMap (ls_lock s) k = Some a \<longrightarrow>
        rm_locked (il_heap (ls_lock s) a) = (\<exists>t. ls_pc s t = Holding k a)) \<and>
     (\<forall>t t' k a. ls_pc s t = Holding k a \<longrightarrow> ls_pc s t' = Holding k a \<longrightarrow> t = t')"

lemma lock_invD:
  assumes "lock_inv s"
  shows "ls_pc s t = Blocked k a \<Longrightarrow> il_lockMap (ls_lock s) k = Some a"
    and "ls_pc s t = Holding k a \<Longrightarrow> il_lockMap (ls_lock s) k = Some a"
    and "il_lockMap (ls_lock s) k = Some a \<Longrightarrow> a < il_next (ls_lock s)"
    and "il_lockMap (ls_lock s) k = Some a \<Longrightarrow> il_lockMap (ls_lock s) k' = Some a \<Longrightarrow> k = k'"
    and "finite (lock_users s k)"
    and "il_lockMap (ls_lock s) k = Some a \<Longrightarrow>
           rm_uses (il_heap (ls_lock s) a) = int (card (lock_users s k))"
    and "il_lockMap (ls_lock s) k = Some a \<Longrightarrow> lock_users s k \<noteq> {}"
    and "il_lockMap (ls_lock s) k = Some a \<Longrightarrow>
           rm_locked (il_heap (ls_lock s) a) = (\<exists>t. ls_pc s t = Holding k a)"
    and "ls_pc s t = Holding k a \<Longrightarrow> ls_pc s t' = Holding k a \<Longrightarrow> t = t'"
  using assms unfolding lock_inv_def by blast+

lemma lock_invI:
  assumes "\<And>t k a. ls_pc s t = Blocked k a \<or> ls_pc s t = Holding k a \<Longrightarrow> il_lockMap (ls_lock s) k = Some a"
    and "\<And>k a. il_lockMap (ls_lock s) k = Some a \<Longrightarrow> a < il_next (ls_lock s)"
    and "\<And>k k' a. il_lockMap (ls_lock s) k = Some a \<Longrightarrow> il_lockMap (ls_lock s) k' = Some a \<Longrightarrow> k = k'"
    and "\<And>k. finite (lock_users s k)"
    and "\<And>k a. il_lockMap (ls_lock s) k = Some a \<Longrightarrow>
           rm_uses (il_heap (ls_lock s) a) = int (card (lock_users s k)) \<and> lock_users s k \<noteq> {}"
    and "\<And>k a. il_lockMap (ls_lock s) k = Some a \<Longrightarrow>
           rm_locked (il_heap (ls_lock s) a) = (\<exists>t. ls_pc s t = Holding k a)"
    and "\<And>t t' k a. ls_pc s t = Holding k a \<Longrightarrow> ls_pc s t' = Holding k a \<Longrightarrow> t = t'"
  shows "lock_inv s"
  using assms unfolding lock_inv_def by blast

lemma lock_users_upd:
  "lock_users (s\<lparr>ls_lock := l, ls_pc := (ls_pc s)(t := Outside)\<rparr>) k = lock_users s k - {t}"
  "lock_users (s\<lparr>ls_lock := l, ls_pc := (ls_pc s)(t := Blocked k' a)\<rparr>) k =
     (if k = k' then insert t (lock_users s k) else lock_users s k - {t})"
  "lock_users (s\<lparr>ls_lock := l, ls_pc := (ls_pc s)(t := Holding k' a)\<rparr>) k =
     (if k = k' then insert t (lock_users s k) else lock_users s k - {t})"
  by (auto simp: lock_users_def)

lemma not_user: "ls_pc s t = Outside \<Longrightarrow> t \<notin> lock_users s k"
  by (simp add: lock_users_def)

lemma lock_inv_init: "lock_inv init_lock_sys"
  by (simp add: lock_inv_def init_lock_sys_def new_idlock_def lock_users_def)

lemma lock_no_users:
  assumes "lock_inv s" "il_lockMap (ls_lock s) k = None"
  shows "lock_users s k = {}"
proof -
  have "il_lockMap (ls_lock s) k = Some a" if "ls_pc s t = Blocked k a \<or> ls_pc s t = Holding k a" for t a
    using that lock_invD(1,2) [OF assms(1)] by blast
  with assms(2) show ?thesis by (auto simp: lock_users_def)
qed

lemma idlock_fetch_eqs:
  assumes inv: "lock_inv s" and f: "idlock_fetch k (ls_lock s) = (a, l)"
  shows "il_lockMap l = (il_lockMap (ls_lock s))(k \<mapsto> a)"
    and "il_heap l = (il_heap (ls_lock s))
           (a := \<lparr>rm_locked = (\<exists>u. ls_pc s u = Holding k a), rm_uses = int (card (lock_users s k)) + 1\<rparr>)"
    and "il_next (ls_lock s) \<le> il_next l" and "a < il_next l"
    and "il_lockMap (ls_lock s) k' = Some a \<Longrightarrow> k' = k"
proof -
  have "il_lockMap l = (il_lockMap (ls_lock s))(k \<mapsto> a) \<and>
    il_heap l = (il_heap (ls_lock s))
      (a := \<lparr>rm_locked = (\<exists>u. ls_pc s u = Holding k a), rm_uses = int (card (lock_users s k)) + 1\<rparr>) \<and>
    il_next (ls_lock s) \<le> il_next l \<and> a < il_next l \<and>
    (il_lockMap (ls_lock s) k' = Some a \<longrightarrow> k' = k)"
  proof (cases "il_lockMap (ls_lock s) k")
    case None
    have U: "lock_users s k = {}" using lock_no_users [OF inv None] .
    then have "ls_pc s u \<noteq> Holding k a" for u by (auto simp: lock_users_def)
    with U None f lock_invD(3) [OF inv, of k' a] show ?thesis
      by (auto simp: idlock_fetch_def Let_def)
  next
    case (Some b)
    with f have "a = b" by (auto simp: idlock_fetch_def Let_def)
    with Some have k: "il_lockMap (ls_lock s) k = Some a" by simp
    have "il_heap (ls_lock s) a =
        \<lparr>rm_locked = (\<exists>u. ls_pc s u = Holding k a), rm_uses = int (card (lock_users s k))\<rparr>"
      by (rule ref_mutex.equality) (simp_all add: lock_invD(6,8) [OF inv k])
    with k f lock_invD(3) [OF inv k] lock_invD(4) [OF inv k, of k'] show ?thesis
      by (auto simp: idlock_fetch_def Let_def)
  qed
  then show "il_lockMap l = (il_lockMap (ls_lock s))(k \<mapsto> a)"
    and "il_heap l = (il_heap (ls_lock s))
           (a := \<lparr>rm_locked = (\<exists>u. ls_pc s u = Holding k a), rm_uses = int (card (lock_users s k)) + 1\<rparr>)"
    and "il_next (ls_lock s) \<le> il_next l" and "a < il_next l"
    and "il_lockMap (ls_lock s) k' = Some a \<Longrightarrow> k' = k"
    by blast+
qed

lemma lock_inv_fetch:
  assumes inv: "lock_inv s" and out: "ls_pc s t = Outside"
    and f: "idlock_fetch k (ls_lock s) = (a, l)"
  shows "lock_inv (s\<lparr>ls_lock := l, ls_pc := (ls_pc s)(t := Blocked k a)\<rparr>)" (is "lock_inv ?s")
proof -
  note eqs = idlock_fetch_eqs(1,2) [OF inv f] and bnd = idlock_fetch_eqs(3,4) [OF inv f]
    and other = idlock_fetch_eqs(5) [OF inv f]
  have users: "lock_users ?s k' = (if k' = k then insert t (lock_users s k) else lock_users s k')" for k'
    using out by (auto simp: lock_users_upd lock_users_def)
  have pcs: "ls_pc ?s v = (if v = t then Blocked k a else ls_pc s v)" for v by simp
  have old: "a' = a" if "ls_pc s v = Blocked k a' \<or> ls_pc s v = Holding k a'" for v a'
  proof -
    have "il_lockMap (ls_lock s) k = Some a'" using that lock_invD(1,2) [OF inv] by blast
    then show ?thesis using f by (auto simp: idlock_fetch_def Let_def)
  qed
  have tU: "t \<notin> lock_users s k" by (rule not_user [OF out])
  have nt': "(\<exists>v. (if v = t then Blocked k a else ls_pc s v) = Holding k' b) =
      (\<exists>v. ls_pc s v = Holding k' b)" for k' b
    using out by force
  show ?thesis
  proof (rule lock_invI, unfold users pcs)
    fix v k' b
    assume "(if v = t then Blocked k a else ls_pc s v) = Blocked k' b \<or>
      (if v = t then Blocked k a else ls_pc s v) = Holding k' b"
    then show "il_lockMap (ls_lock ?s) k' = Some b"
      using old [of v b] lock_invD(1,2) [OF inv, of v k' b] by (auto simp: eqs split: if_splits)
  next
    fix k' b assume "il_lockMap (ls_lock ?s) k' = Some b"
    then show "b < il_next (ls_lock ?s)"
      using bnd lock_invD(3) [OF inv, of k' b] by (auto simp: eqs split: if_splits)
  next
    fix k1 k2 b assume "il_lockMap (ls_lock ?s) k1 = Some b" "il_lockMap (ls_lock ?s) k2 = Some b"
    then show "k1 = k2"
      using other lock_invD(4) [OF inv, of k1 b k2] by (auto simp: eqs split: if_splits)
  next
    fix k' show "finite (if k' = k then insert t (lock_users s k) else lock_users s k')"
      using lock_invD(5) [OF inv] by simp
  next
    fix k' b assume "il_lockMap (ls_lock ?s) k' = Some b"
    then show "rm_uses (il_heap (ls_lock ?s) b) =
        int (card (if k' = k then insert t (lock_users s k) else lock_users s k')) \<and>
        (if k' = k then insert t (lock_users s k) else lock_users s k') \<noteq> {}"
      using other [of k'] lock_invD(6,7) [OF inv, of k' b] tU lock_invD(5) [OF inv, of k]
      by (auto simp: eqs split: if_splits)
  next
    fix k' b assume "il_lockMap (ls_lock ?s) k' = Some b"
    then show "rm_locked (il_heap (ls_lock ?s) b) =
        (\<exists>v. (if v = t then Blocked k a else ls_pc s v) = Holding k' b)"
      using other [of k'] lock_invD(8) [OF inv, of k' b] by (auto simp: eqs nt' split: if_splits)
  next
    fix v w k' b
    assume "(if v = t then Blocked k a else ls_pc s v) = Holding k' b"
      "(if w = t then Blocked k a else ls_pc s w) = Holding k' b"
    then show "v = w" using lock_invD(9) [OF inv, of v k' b w] by (auto split: if_splits)
  qed
qed

lemma lock_inv_acquire:
  assumes inv: "lock_inv s" and pc: "ls_pc s t = Blocked k a"
    and free: "\<not> rm_locked (il_heap (ls_lock s) a)"
  shows "lock_inv (s\<lparr>ls_lock := (ls_lock s)\<lparr>il_heap := (il_heap (ls_lock s))
      (a := (il_heap (ls_lock s) a)\<lparr>rm_locked := True\<rparr>)\<rparr>, ls_pc := (ls_pc s)(t := Holding k a)\<rparr>)"
    (is "lock_inv ?s")
proof -
  have k: "il_lockMap (ls_lock s) k = Some a" using lock_invD(1) [OF inv pc] .
  then have nobody: "ls_pc s u \<noteq> Holding k a" for u
    using free lock_invD(8) [OF inv] by blast
  have other: "k' = k" if "il_lockMap (ls_lock s) k' = Some a" for k'
    using lock_invD(4) [OF inv that k] .
  have users: "lock_users ?s k' = lock_users s k'" for k'
    using pc by (auto simp: lock_users_upd lock_users_def)
  have pcs: "ls_pc ?s v = (if v = t then Holding k a else ls_pc s v)" for v by simp
  have nt: "(\<exists>v. (if v = t then Holding k a else ls_pc s v) = Holding k' b) =
      (k' = k \<and> b = a \<or> (\<exists>v. ls_pc s v = Holding k' b))" for k' b
    using pc by force
  show ?thesis
  proof (rule lock_invI, unfold users pcs)
    fix v k' b
    assume "(if v = t then Holding k a else ls_pc s v) = Blocked k' b \<or>
      (if v = t then Holding k a else ls_pc s v) = Holding k' b"
    then show "il_lockMap (ls_lock ?s) k' = Some b"
      using k lock_invD(1,2) [OF inv, of v k' b] by (auto split: if_splits)
  next
    fix k' b assume "il_lockMap (ls_lock ?s) k' = Some b"
    then show "b < il_next (ls_lock ?s)" using lock_invD(3) [OF inv, of k' b] by simp
  next
    fix k1 k2 b assume "il_lockMap (ls_lock ?s) k1 = Some b" "il_lockMap (ls_lock ?s) k2 = Some b"
    then show "k1 = k2" using lock_invD(4) [OF inv, of k1 b k2] by simp
  next
    fix k' show "finite (lock_users s k')" by (rule lock_invD(5) [OF inv])
  next
    fix k' b assume "il_lockMap (ls_lock ?s) k' = Some b"
    then show "rm_uses (il_heap (ls_lock ?s) b) = int (card (lock_users s k')) \<and> lock_users s k' \<noteq> {}"
      using lock_invD(6,7) [OF inv, of k' b] by auto
  next
    fix k' b assume "il_lockMap (ls_lock ?s) k' = Some b"
    then show "rm_locked (il_heap (ls_lock ?s) b) =
        (\<exists>v. (if v = t then Holding k a else ls_pc s v) = Holding k' b)"
      using other [of k'] lock_invD(8) [OF inv, of k' b] k by (auto simp: nt)
  next
    fix v w k' b
    assume "(if v = t then Holding k a else ls_pc s v) = Holding k' b"
      "(if w = t then Holding k a else ls_pc s w) = Holding k' b"
    then show "v = w" using lock_invD(9) [OF inv, of v k' b w] nobody by (auto split: if_splits)
  qed
qed

lemma lock_release_safe:
  assumes inv: "lock_inv s" and pc: "ls_pc s t = Holding k a"
  shows "idlock_unlock k (ls_lock s) \<noteq> None"
  using lock_invD(2) [OF inv pc] lock_invD(8) [OF inv] pc
  by (auto simp: idlock_unlock_def Let_def)

lemma lock_inv_release:
  assumes inv: "lock_inv s" and pc: "ls_pc s t = Holding k a"
    and u: "idlock_unlock k (ls_lock s) = Some l"
  shows "lock_inv (s\<lparr>ls_lock := l, ls_pc := (ls_pc s)(t := Outside)\<rparr>)" (is "lock_inv ?s")
proof -
  define X where "X = lock_users s k - {t}"
  have k: "il_lockMap (ls_lock s) k = Some a" using lock_invD(2) [OF inv pc] .
  have lkd: "rm_locked (il_heap (ls_lock s) a)" using lock_invD(8) [OF inv k] pc by blast
  have tin: "t \<in> lock_users s k" using pc by (auto simp: lock_users_def)
  have finU: "finite (lock_users s k)" by (rule lock_invD(5) [OF inv])
  then have fin: "finite X" by (simp add: X_def)
  have uses: "rm_uses (il_heap (ls_lock s) a) - 1 = int (card X)"
    using lock_invD(6) [OF inv k] card_Suc_Diff1 [OF finU tin] unfolding X_def by linarith
  have zero: "card X = 0 \<longleftrightarrow> X = {}" using fin by simp
  have other: "k' = k" if "il_lockMap (ls_lock s) k' = Some a" for k'
    using lock_invD(4) [OF inv that k] .
  have only: "u = t" if "ls_pc s u = Holding k a" for u
    using lock_invD(9) [OF inv that pc] .
  have users: "lock_users ?s k' = (if k' = k then X else lock_users s k')" for k'
    using pc by (auto simp: lock_users_upd X_def lock_users_def)
  have pcs: "ls_pc ?s v = (if v = t then Outside else ls_pc s v)" for v
    by simp
  have alone: "X \<noteq> {}" if "v \<noteq> t" "ls_pc s v = Blocked k b \<or> ls_pc s v = Holding k b" for v b
    using that by (auto simp: X_def lock_users_def)
  have heap: "il_heap l = (il_heap (ls_lock s))(a := \<lparr>rm_locked = False, rm_uses = int (card X)\<rparr>)"
    and map: "il_lockMap l k' = (if X = {} \<and> k' = k then None else il_lockMap (ls_lock s) k')"
    and nxt: "il_next l = il_next (ls_lock s)" for k'
    using u k lkd uses zero by (auto simp: idlock_unlock_def Let_def split: if_splits)
  have map': "il_lockMap l k' = Some b \<longleftrightarrow> il_lockMap (ls_lock s) k' = Some b \<and> (k' = k \<longrightarrow> X \<noteq> {})" for k' b
    by (cases "X = {} \<and> k' = k") (auto simp: map)
  show ?thesis
  proof (rule lock_invI, unfold users pcs)
    fix v k' b
    assume "(if v = t then Outside else ls_pc s v) = Blocked k' b \<or>
      (if v = t then Outside else ls_pc s v) = Holding k' b"
    then have v: "v \<noteq> t" "ls_pc s v = Blocked k' b \<or> ls_pc s v = Holding k' b"
      by (auto split: if_splits)
    then show "il_lockMap (ls_lock ?s) k' = Some b"
      using alone [OF v(1), of b] lock_invD(1,2) [OF inv, of v k' b] by (auto simp: map')
  next
    fix k' b assume "il_lockMap (ls_lock ?s) k' = Some b"
    then show "b < il_next (ls_lock ?s)" using lock_invD(3) [OF inv, of k' b] by (simp add: map' nxt)
  next
    fix k1 k2 b assume "il_lockMap (ls_lock ?s) k1 = Some b" "il_lockMap (ls_lock ?s) k2 = Some b"
    then show "k1 = k2" using lock_invD(4) [OF inv, of k1 b k2] by (simp add: map')
  next
    fix k' show "finite (if k' = k then X else lock_users s k')"
      using fin lock_invD(5) [OF inv] by simp
  next
    fix k' b assume "il_lockMap (ls_lock ?s) k' = Some b"
    then show "rm_uses (il_heap (ls_lock ?s) b) = int (card (if k' = k then X else lock_users s k')) \<and>
        (if k' = k then X else lock_users s k') \<noteq> {}"
      using other [of k'] lock_invD(6,7) [OF inv, of k' b] k by (auto simp: heap map')
  next
    fix k' b assume m: "il_lockMap (ls_lock ?s) k' = Some b"
    show "rm_locked (il_heap (ls_lock ?s) b) =
        (\<exists>v. (if v = t then Outside else ls_pc s v) = Holding k' b)"
    proof (cases "b = a")
      case True
      with m other [of k'] have "k' = k" by (simp add: map')
      with True only show ?thesis by (auto simp: heap split: if_splits)
    next
      case False
      then have "(\<exists>v. (if v = t then Outside else ls_pc s v) = Holding k' b) =
          (\<exists>v. ls_pc s v = Holding k' b)"
        using pc by force
      with False m lock_invD(8) [OF inv, of k' b] show ?thesis by (simp add: heap map')
    qed
  next
    fix v w k' b
    assume "(if v = t then Outside else ls_pc s v) = Holding k' b"
      "(if w = t then Outside else ls_pc s w) = Holding k' b"
    then show "v = w" using lock_invD(9) [OF inv, of v k' b w] by (auto split: if_splits)
  qed
qed

lemma lock_step_inv: "lock_step s s' \<Longrightarrow> lock_inv s \<Longrightarrow> lock_inv s'"
  by (induction rule: lock_step.induct)
    (simp_all add: lock_inv_fetch lock_inv_acquire lock_inv_release)

lemma lock_reachable_inv: "lock_reachable s \<Longrightarrow> lock_inv s"
  by (induction rule: lock_reachable.induct) (auto intro: lock_inv_init lock_step_inv)


lemma lock_users_Blocked: "ls_pc s t = Blocked k a \<Longrightarrow> t \<in> lock_users s k"
  and lock_users_Holding: "ls_pc s t = Holding k a \<Longrightarrow> t \<in> lock_users s k"
  by (auto simp: lock_users_def)

text \<open>
  C12: In every reachable state of the lock system at most one thread is between \<open>Lock(k)\<close> and
  \<open>Unlock(k)\<close> for a key, and that thread's \<open>Unlock(k)\<close> never hits the fatal error of unlocking
  a mutex that is not locked (the mutex in the map is still the one it locked).
\<close>

theorem idlock_mutual_exclusion:
  assumes "lock_reachable s" and "ls_pc s t = Holding k a"
  shows "{t'. \<exists>a'. ls_pc s t' = Holding k a'} = {t} \<and> idlock_unlock k (ls_lock s) \<noteq> None"
proof -
  note inv = lock_reachable_inv [OF assms(1)]
  have "a' = a" if "ls_pc s t' = Holding k a'" for t' a'
    using lock_invD(2) [OF inv that] lock_invD(2) [OF inv assms(2)] by simp
  then show ?thesis
    using lock_invD(9) [OF inv _ assms(2)] lock_release_safe [OF inv assms(2)] assms(2) by blast
qed

definition one_locked :: "nat lock_sys" where
  "one_locked = \<lparr>ls_lock = \<lparr>il_lockMap = [7 \<mapsto> 0],
       il_heap = (\<lambda>_. \<lparr>rm_locked = False, rm_uses = 0\<rparr>)(0 := \<lparr>rm_locked = True, rm_uses = 1\<rparr>),
       il_next = 1\<rparr>, ls_pc = (\<lambda>_. Outside)(3 := Holding 7 0)\<rparr>"

lemma one_locked_reachable: "lock_reachable one_locked"
proof -
  let ?l = "snd (idlock_fetch 7 (new_idlock :: nat idlock))"
  let ?s = "init_lock_sys\<lparr>ls_lock := ?l, ls_pc := (ls_pc init_lock_sys)(3 := Blocked 7 0)\<rparr>"
  have "lock_step init_lock_sys ?s"
    by (rule lock_step.fetch) (simp_all add: init_lock_sys_def new_idlock_def idlock_fetch_def)
  moreover have "lock_step ?s (?s\<lparr>ls_lock := ?l\<lparr>il_heap := (il_heap ?l)
      (0 := (il_heap ?l 0)\<lparr>rm_locked := True\<rparr>)\<rparr>, ls_pc := (ls_pc ?s)(3 := Holding 7 0)\<rparr>)" (is "lock_step _ ?u")
    using lock_step.acquire [of ?s 3 7 0] by (simp add: new_idlock_def idlock_fetch_def)
  moreover have "?u = one_locked"
    by (simp add: one_locked_def init_lock_sys_def new_idlock_def idlock_fetch_def)
  ultimately show ?thesis
    by (metis lock_reachable.start lock_reachable.step)
qed

theorem idlock_mutual_exclusion_witness:
  "{t'. \<exists>a'. ls_pc one_locked t' = Holding 7 a'} = {3} \<and> idlock_unlock 7 (ls_lock one_locked) \<noteq> None"
  by (rule idlock_mutual_exclusion [OF one_locked_reachable, where a = 0]) (simp add: one_locked_def)

text \<open>
  The map of mutexes does not leak: in every reachable state a key has an entry exactly while
  some thread waits for it or holds it, and the use count of the entry is the number of these
  threads; so once every thread is out, the map is empty.
\<close>

theorem idlock_no_leak:
  assumes "lock_reachable s"
  shows "case il_lockMap (ls_lock s) k of
      None \<Rightarrow> lock_users s k = {}
    | Some a \<Rightarrow> lock_users s k \<noteq> {} \<and> rm_uses (il_heap (ls_lock s) a) = int (card (lock_users s k))"
  using lock_no_users [OF lock_reachable_inv [OF assms]] lock_invD(6,7) [OF lock_reachable_inv [OF assms]]
  by (simp split: option.split)

theorem idlock_no_leak_witness:
  "lock_users one_locked 7 \<noteq> {} \<and> 1 = int (card (lock_users one_locked 7))"
  using idlock_no_leak [OF one_locked_reachable, of 7] by (simp add: one_locked_def)

text \<open>
  A counter of the services' caches, after any history of records and removals of a key in
  which no prefix removes more than it recorded, is exactly the number of records minus the number
  of removals; no history takes it below zero.
\<close>

theorem counter_exact:
  assumes "\<And>n. n \<le> length hs \<Longrightarrow> count_list (take n hs) False \<le> count_list (take n hs) True"
  shows "counter_get (fold (\<lambda>b. if b then counter_record k else counter_remove k) hs new_cache) k =
    int (count_list hs True) - int (count_list hs False)"
  using cache_counter.history_exact [of new_cache k hs] assms by simp

theorem counter_exact_witness:
  "counter_get (fold (\<lambda>b. if b then counter_record (5::nat) else counter_remove 5) [True, True, False] new_cache) 5 = 1"
  using counter_exact [of "[True, True, False]" "5::nat"] by (auto simp: less_Suc_eq numeral_eq_Suc le_Suc_eq)

end
