(* ===== verification/Api_Types.thy ===== *)
theory Api_Types
  imports Go_Runtime Complex_Main
begin

text \<open>
  The API data model (\<^verbatim>\<open>shared/api\<close>): the enumerations with their validation, the records the
  services exchange, and the small operations defined on them. A Go string type with named
  constants is a datatype with these constants and one constructor for every other string; maps
  are finite maps, and an \<open>option\<close> marks the slices, maps and pointers whose nil value the code
  tells apart from an empty one.
\<close>

section \<open>Migration status, import stage of the worker protocol\<close>

datatype migration_status =
    MIGRATIONSTATUS_BLOCKED
  | MIGRATIONSTATUS_WAITING
  | MIGRATIONSTATUS_WAITING_IMPORT
  | MIGRATIONSTATUS_CREATING
  | MIGRATIONSTATUS_BACKGROUND_IMPORT
  | MIGRATIONSTATUS_IDLE
  | MIGRATIONSTATUS_FINAL_IMPORT
  | MIGRATIONSTATUS_POST_IMPORT
  | MIGRATIONSTATUS_WORKER_DONE
  | MIGRATIONSTATUS_FINISHED
  | MIGRATIONSTATUS_ERROR
  | MIGRATIONSTATUS_CANCELED
  | MIGRATIONSTATUS_CONFLICT
  | MIGRATIONSTATUS_OTHER string

fun migration_status_string :: "migration_status \<Rightarrow> string" where
  "migration_status_string MIGRATIONSTATUS_BLOCKED = ''Blocked''"
| "migration_status_string MIGRATIONSTATUS_WAITING = ''Waiting''"
| "migration_status_string MIGRATIONSTATUS_WAITING_IMPORT =
     ''Waiting for other instances to finish importing''"
| "migration_status_string MIGRATIONSTATUS_CREATING = ''Creating new VM''"
| "migration_status_string MIGRATIONSTATUS_BACKGROUND_IMPORT = ''Performing background import tasks''"
| "migration_status_string MIGRATIONSTATUS_IDLE = ''Idle''"
| "migration_status_string MIGRATIONSTATUS_FINAL_IMPORT = ''Performing final import tasks''"
| "migration_status_string MIGRATIONSTATUS_POST_IMPORT = ''Performing post-import tasks''"
| "migration_status_string MIGRATIONSTATUS_WORKER_DONE = ''Worker tasks complete''"
| "migration_status_string MIGRATIONSTATUS_FINISHED = ''Finished''"
| "migration_status_string MIGRATIONSTATUS_ERROR = ''Error''"
| "migration_status_string MIGRATIONSTATUS_CANCELED = ''Canceled''"
| "migration_status_string MIGRATIONSTATUS_CONFLICT = ''Conflict''"
| "migration_status_string (MIGRATIONSTATUS_OTHER s) = s"

definition conflict_resolved_message :: string where
  "conflict_resolved_message = ''Conflict resolved''"

fun migration_status_validate :: "migration_status \<Rightarrow> err option" where
  "migration_status_validate (MIGRATIONSTATUS_OTHER s) =
     Some (Errorf ''%s is not a valid migration status'' [AStr s])"
| "migration_status_validate _ = None"

datatype batch_status =
    BATCHSTATUS_DEFINED
  | BATCHSTATUS_RUNNING
  | BATCHSTATUS_STOPPED
  | BATCHSTATUS_FINISHED
  | BATCHSTATUS_ERROR
  | BATCHSTATUS_OTHER string

fun batch_status_string :: "batch_status \<Rightarrow> string" where
  "batch_status_string BATCHSTATUS_DEFINED = ''Defined''"
| "batch_status_string BATCHSTATUS_RUNNING = ''Running''"
| "batch_status_string BATCHSTATUS_STOPPED = ''Stopped''"
| "batch_status_string BATCHSTATUS_FINISHED = ''Finished''"
| "batch_status_string BATCHSTATUS_ERROR = ''Error''"
| "batch_status_string (BATCHSTATUS_OTHER s) = s"

fun batch_status_validate :: "batch_status \<Rightarrow> err option" where
  "batch_status_validate (BATCHSTATUS_OTHER s) =
     Some (Errorf ''%s is not a valid batch status'' [AStr s])"
| "batch_status_validate _ = None"

datatype worker_command_type =
    WORKERCOMMAND_UNKNOWN
  | WORKERCOMMAND_IDLE
  | WORKERCOMMAND_IMPORT_DISKS
  | WORKERCOMMAND_FINALIZE_IMPORT
  | WORKERCOMMAND_POST_IMPORT

datatype worker_response_type =
    WORKERRESPONSE_UNKNOWN
  | WORKERRESPONSE_RUNNING
  | WORKERRESPONSE_SUCCESS
  | WORKERRESPONSE_FAILED

record worker_response =
  wr_Status :: worker_response_type
  wr_StatusMessage :: string
  wr_Metadata :: "string option"

section \<open>Sources, networks, operating systems\<close>

datatype source_type = SOURCETYPE_VMWARE | SOURCETYPE_NSX_T | SOURCETYPE_VROPS | SOURCETYPE_OTHER string

text \<open>
  OS types and distributions are string constants of the Incus library, of which only their being
  distinct is used; the empty string (\<open>OTHER ''''\<close>) means that none is set.
\<close>

datatype os_type =
    OSTYPE_FORTIGATE | OSTYPE_WINDOWS | OSTYPE_LINUX | OSTYPE_FREEBSD | OSTYPE_MACOS
  | OSTYPE_OTHER string

datatype distro =
    AlmaLinux | AmazonLinux | ArchLinux | CentOSLinux | DebianLinux | FedoraLinux | OracleLinux
  | RedHatLinux | RockyLinux | SUSELinux | UbuntuLinux | OtherDistro | DistroOther string

fun validate_os_type :: "os_type \<Rightarrow> err option" where
  "validate_os_type (OSTYPE_OTHER s) = Some (Errorf ''Unknown OS type %q'' [AStr s])"
| "validate_os_type _ = None"

text \<open>
  \<open>distro_text\<close> and \<open>os_text\<close> give the library's text of a constant; the error texts only.
\<close>

definition validate_distribution ::
    "(distro \<Rightarrow> string) \<Rightarrow> (os_type \<Rightarrow> string) \<Rightarrow> os_type \<Rightarrow> distro \<Rightarrow> err option" where
  "validate_distribution distro_text os_text os d =
     (if os = OSTYPE_LINUX then
        (case d of
           DistroOther s \<Rightarrow> Some (Errorf ''Unknown Linux OS distribution %q'' [AStr s])
         | _ \<Rightarrow> None)
      else if d \<noteq> OtherDistro then
        Some (Errorf ''Distribution %q is not compatible with OS type %q''
                [AStr (distro_text d), AStr (os_text os)])
      else None)"

datatype nic_type =
    INCUSNICTYPE_BRIDGED | INCUSNICTYPE_PHYSICAL | INCUSNICTYPE_MANAGED | INCUSNICTYPE_OTHER string

fun nic_type_string :: "nic_type \<Rightarrow> string" where
  "nic_type_string INCUSNICTYPE_BRIDGED = ''bridged''"
| "nic_type_string INCUSNICTYPE_PHYSICAL = ''physical''"
| "nic_type_string INCUSNICTYPE_MANAGED = ''managed''"
| "nic_type_string (INCUSNICTYPE_OTHER s) = s"

fun valid_nic_type :: "nic_type \<Rightarrow> err option" where
  "valid_nic_type (INCUSNICTYPE_OTHER s) = Some (Errorf ''Unknown NIC type %q'' [AStr s])"
| "valid_nic_type _ = None"

datatype network_type =
    NETWORKTYPE_VMWARE_STANDARD | NETWORKTYPE_VMWARE_DISTRIBUTED
  | NETWORKTYPE_VMWARE_DISTRIBUTED_NSX | NETWORKTYPE_VMWARE_NSX | NETWORKTYPE_OTHER string

fun network_type_string :: "network_type \<Rightarrow> string" where
  "network_type_string NETWORKTYPE_VMWARE_STANDARD = ''standard''"
| "network_type_string NETWORKTYPE_VMWARE_DISTRIBUTED = ''distributed''"
| "network_type_string NETWORKTYPE_VMWARE_DISTRIBUTED_NSX = ''nsx-distributed''"
| "network_type_string NETWORKTYPE_VMWARE_NSX = ''nsx''"
| "network_type_string (NETWORKTYPE_OTHER s) = s"

record network_placement =
  np_Network :: string
  np_NICType :: nic_type
  np_VlanID :: string

definition network_placement_empty :: network_placement where
  "network_placement_empty = \<lparr>np_Network = '''', np_NICType = INCUSNICTYPE_OTHER '''', np_VlanID = ''''\<rparr>"

definition network_placement_validate :: "network_placement \<Rightarrow> err option" where
  "network_placement_validate n =
     (if np_NICType n \<noteq> INCUSNICTYPE_PHYSICAL \<and> np_NICType n \<noteq> INCUSNICTYPE_BRIDGED \<and> np_VlanID n \<noteq> '''' then
        Some (Errorf ''Cannot set VLAN ID with NIC type %q'' [AStr (nic_type_string (np_NICType n))])
      else valid_nic_type (np_NICType n))"

definition network_placement_apply :: "network_placement \<Rightarrow> network_placement \<Rightarrow> network_placement" where
  "network_placement_apply n ov =
     (let n1 = (if np_NICType ov \<noteq> INCUSNICTYPE_OTHER '''' then n\<lparr>np_NICType := np_NICType ov\<rparr> else n);
          n2 = (if np_Network ov \<noteq> '''' then n1\<lparr>np_Network := np_Network ov\<rparr> else n1)
      in if np_VlanID ov \<noteq> '''' then n2\<lparr>np_VlanID := np_VlanID ov\<rparr> else n2)"

section \<open>Placement of an instance on a target\<close>

record placement =
  p_TargetName :: string
  p_TargetProject :: string
  p_StoragePools :: "(string, string) fmap"
  p_Networks :: "(string, network_placement) fmap option"
  p_Running :: bool

definition placement_empty :: placement where
  "placement_empty = \<lparr>p_TargetName = '''', p_TargetProject = '''', p_StoragePools = fmempty,
     p_Networks = None, p_Running = False\<rparr>"

section \<open>Batch configuration\<close>

record batch_placement =
  bp_Target :: string
  bp_TargetProject :: string
  bp_StoragePool :: string

record migration_network_placement =
  mn_Placement :: network_placement
  mn_Target :: string
  mn_TargetProject :: string

record batch_defaults =
  bd_Placement :: batch_placement
  bd_MigrationNetwork :: "migration_network_placement list"
  bd_ForceConflictResolution :: bool
  bd_SyncLimit :: int

record restriction_override =
  ro_AllowUnknownOS :: bool
  ro_AllowNoIPv4 :: bool
  ro_AllowNoBackgroundImport :: bool

record batch_config =
  bc_RerunScriptlets :: bool
  bc_PlacementScriptlet :: string
  bc_PostMigrationRetries :: int
  bc_RestrictionOverrides :: restriction_override
  bc_BackgroundSyncInterval :: duration
  bc_FinalBackgroundSyncLimit :: duration

record batch_constraint =
  c_Name :: string
  c_Description :: string
  c_IncludeExpression :: string
  c_MaxConcurrentInstances :: int
  c_MinInstanceBootTime :: duration

record window_config =
  wc_Capacity :: int

record api_window =
  aw_Name :: string
  aw_Start :: time
  aw_End :: time
  aw_Lockout :: time
  aw_Config :: window_config

record api_batch =
  ab_Name :: string
  ab_IncludeExpression :: string
  ab_MigrationWindows :: "api_window list"
  ab_Constraints :: "batch_constraint list"
  ab_Defaults :: batch_defaults
  ab_Config :: batch_config
  ab_Status :: batch_status
  ab_StatusMessage :: string
  ab_StartDate :: time

record api_queue_entry =
  aq_InstanceUUID :: uuid
  aq_InstanceName :: string
  aq_MigrationStatus :: migration_status
  aq_MigrationStatusMessage :: string
  aq_BatchName :: string
  aq_LastWorkerResponse :: time
  aq_MigrationWindow :: api_window
  aq_Placement :: placement

section \<open>Instance properties\<close>

record configurable =
  cfg_Name :: string
  cfg_CPUs :: int
  cfg_Memory :: int
  cfg_Config :: "(string, string) fmap"
  cfg_Architecture :: string

record nic =
  nic_UUID :: uuid
  nic_SourceSpecificID :: string
  nic_HardwareAddress :: string
  nic_Location :: string
  nic_IPv4Address :: string
  nic_IPv6Address :: string

record disk =
  d_Capacity :: int
  d_Name :: string
  d_Shared :: bool
  d_Supported :: bool
  d_BackgroundImportVerified :: bool

record snapshot =
  s_Name :: string

record sdn_tag =
  st_Scope :: string
  st_Tag :: string

record source_tag =
  t_Category :: string
  t_Tag :: string

text \<open>Metric values come from and go to JSON, so they are finite; they are rationals here.\<close>

record monitoring =
  m_Source :: string
  m_ResourceID :: string
  m_Health :: string
  m_Status :: string
  m_CollectedAt :: time
  m_Metrics :: "(string, rat) fmap option"
  m_SampleTimes :: "(string, time) fmap option"
  m_AttemptedAt :: time
  m_Error :: string

record instance_properties =
  ip_Configurable :: configurable
  ip_UUID :: uuid
  ip_SourceSpecificID :: string
  ip_Location :: string
  ip_Description :: string
  ip_OS :: string
  ip_OSDescription :: string
  ip_OSTemplate :: string
  ip_SecureBoot :: bool
  ip_LegacyBoot :: bool
  ip_TPM :: bool
  ip_Running :: bool
  ip_BackgroundImport :: bool
  ip_NICs :: "nic list"
  ip_Disks :: "disk list"
  ip_Snapshots :: "snapshot list"
  ip_SDNTags :: "sdn_tag list option"
  ip_Tags :: "source_tag list"
  ip_Monitoring :: "monitoring option"

abbreviation ip_Name :: "instance_properties \<Rightarrow> string" where
  "ip_Name p \<equiv> cfg_Name (ip_Configurable p)"

abbreviation ip_Architecture :: "instance_properties \<Rightarrow> string" where
  "ip_Architecture p \<equiv> cfg_Architecture (ip_Configurable p)"

definition supports_background_import :: "instance_properties \<Rightarrow> bool" where
  "supports_background_import i =
     (if ip_BackgroundImport i
      then \<not> (\<exists>d \<in> set (ip_Disks i). d_Supported d \<and> \<not> d_BackgroundImportVerified d)
      else False)"

definition configurable_apply :: "configurable \<Rightarrow> configurable \<Rightarrow> configurable" where
  "configurable_apply i cfg =
     (let i1 = (if cfg_Name cfg \<noteq> '''' then i\<lparr>cfg_Name := cfg_Name cfg\<rparr> else i);
          i2 = (if cfg_Architecture cfg \<noteq> '''' then i1\<lparr>cfg_Architecture := cfg_Architecture cfg\<rparr> else i1);
          i3 = (if cfg_CPUs cfg \<noteq> 0 then i2\<lparr>cfg_CPUs := cfg_CPUs cfg\<rparr> else i2);
          i4 = (if cfg_Memory cfg \<noteq> 0 then i3\<lparr>cfg_Memory := cfg_Memory cfg\<rparr> else i3)
      in i4\<lparr>cfg_Config := cfg_Config i ++\<^sub>f cfg_Config cfg\<rparr>)"

definition instance_properties_apply :: "instance_properties \<Rightarrow> configurable \<Rightarrow> instance_properties" where
  "instance_properties_apply i cfg =
     i\<lparr>ip_Configurable := configurable_apply (ip_Configurable i) cfg\<rparr>"

record instance_override =
  ov_Configurable :: configurable
  ov_LastUpdate :: time
  ov_Comment :: string
  ov_OSType :: os_type
  ov_Distribution :: distro
  ov_DistributionVersion :: string
  ov_DisableMigration :: bool
  ov_IgnoreRestrictions :: bool
  ov_StartedAfterMigration :: bool
  ov_StoppedAfterMigration :: bool

record api_instance =
  ai_Properties :: instance_properties
  ai_Source :: string
  ai_SourceType :: source_type
  ai_OSType :: os_type
  ai_Distribution :: distro
  ai_DistributionVersion :: string
  ai_LastUpdateFromSource :: time
  ai_Overrides :: instance_override

record instance_filterable =
  if_Properties :: instance_properties
  if_OSType :: os_type
  if_Distribution :: distro
  if_DistributionVersion :: string
  if_Source :: string
  if_SourceType :: source_type
  if_LastUpdateFromSource :: time

definition api_instance_to_filterable :: "api_instance \<Rightarrow> instance_filterable" where
  "api_instance_to_filterable i =
     \<lparr>if_Properties = instance_properties_apply (ai_Properties i) (ov_Configurable (ai_Overrides i)),
      if_OSType = ai_OSType i,
      if_Distribution = ai_Distribution i,
      if_DistributionVersion = ai_DistributionVersion i,
      if_Source = ai_Source i,
      if_SourceType = ai_SourceType i,
      if_LastUpdateFromSource = ai_LastUpdateFromSource i\<rparr>"

definition api_instance_get_name :: "api_instance \<Rightarrow> string" where
  "api_instance_get_name i =
     ip_Name (instance_properties_apply (ai_Properties i) (ov_Configurable (ai_Overrides i)))"

section \<open>Warnings and artifacts\<close>

text \<open>Warning types and statuses are open string types: only the empty string is singled out.\<close>

type_synonym warning_type = string
type_synonym warning_status = string

definition WARNINGSTATUS_NEW :: warning_status where "WARNINGSTATUS_NEW = ''new''"

record warning_scope =
  ws_Scope :: string
  ws_EntityType :: string
  ws_Entity :: string

definition warning_scope_sync :: warning_scope where
  "warning_scope_sync = \<lparr>ws_Scope = ''sync'', ws_EntityType = ''source'', ws_Entity = ''''\<rparr>"

record api_warning =
  aw_WStatus :: warning_status
  aw_WUUID :: uuid
  aw_WScope :: warning_scope
  aw_WType :: warning_type
  aw_FirstSeenDate :: time
  aw_LastSeenDate :: time
  aw_UpdatedDate :: time
  aw_Messages :: "string list"
  aw_Count :: int

definition warning_scope_match :: "warning_scope \<Rightarrow> api_warning \<Rightarrow> bool" where
  "warning_scope_match s w =
     (let entityTypeMatches = (ws_EntityType s = '''' \<or> ws_EntityType s = ws_EntityType (aw_WScope w));
          entityMatches = (ws_Entity s = '''' \<or> ws_Entity s = ws_Entity (aw_WScope w));
          scopeMatches = (ws_Scope s = ws_Scope (aw_WScope w))
      in entityMatches \<and> entityTypeMatches \<and> scopeMatches)"

datatype artifact_type =
    ARTIFACTTYPE_SDK | ARTIFACTTYPE_OSIMAGE | ARTIFACTTYPE_DRIVER | ARTIFACTTYPE_OTHER string

fun artifact_type_string :: "artifact_type \<Rightarrow> string" where
  "artifact_type_string ARTIFACTTYPE_SDK = ''sdk''"
| "artifact_type_string ARTIFACTTYPE_OSIMAGE = ''os-image''"
| "artifact_type_string ARTIFACTTYPE_DRIVER = ''driver''"
| "artifact_type_string (ARTIFACTTYPE_OTHER s) = s"

record artifact_put =
  art_Description :: string
  art_OS :: os_type
  art_Architectures :: "string list"
  art_Versions :: "string list"
  art_SourceType :: source_type

fun source_type_string :: "source_type \<Rightarrow> string" where
  "source_type_string SOURCETYPE_VMWARE = ''vmware''"
| "source_type_string SOURCETYPE_NSX_T = ''nsx-t''"
| "source_type_string SOURCETYPE_VROPS = ''vrops''"
| "source_type_string (SOURCETYPE_OTHER s) = s"

definition default_artifact_file ::
    "(os_type \<Rightarrow> string) \<Rightarrow> artifact_type \<Rightarrow> artifact_put \<Rightarrow> err + string" where
  "default_artifact_file os_text ty a =
     (case ty of
        ARTIFACTTYPE_DRIVER \<Rightarrow>
          (case art_OS a of
             OSTYPE_WINDOWS \<Rightarrow> Inr ''virtio-win.iso''
           | os \<Rightarrow> Inl (Errorf ''Unknown artifact OS %q'' [AStr (os_text os)]))
      | ARTIFACTTYPE_OSIMAGE \<Rightarrow>
          (case art_OS a of
             OSTYPE_FORTIGATE \<Rightarrow> Inr ''fortigate.qcow2''
           | os \<Rightarrow> Inl (Errorf ''Unknown artifact OS %q'' [AStr (os_text os)]))
      | ARTIFACTTYPE_SDK \<Rightarrow>
          (case art_SourceType a of
             SOURCETYPE_VMWARE \<Rightarrow> Inr (source_type_string SOURCETYPE_VMWARE @ ''-sdk.tar.gz'')
           | st \<Rightarrow> Inl (Errorf ''Unknown artifact source type %q'' [AStr (source_type_string st)]))
      | ARTIFACTTYPE_OTHER s \<Rightarrow> Inl (Errorf ''Unknown artifact type %q'' [AStr s]))"

section \<open>Properties of the data model\<close>

lemma network_placement_apply_fields [simp]:
  "np_Network (network_placement_apply n ov) = (if np_Network ov \<noteq> '''' then np_Network ov else np_Network n)"
  "np_NICType (network_placement_apply n ov) =
     (if np_NICType ov \<noteq> INCUSNICTYPE_OTHER '''' then np_NICType ov else np_NICType n)"
  "np_VlanID (network_placement_apply n ov) = (if np_VlanID ov \<noteq> '''' then np_VlanID ov else np_VlanID n)"
  by (simp_all add: network_placement_apply_def Let_def)

lemma network_placement_apply_empty [simp]: "network_placement_apply n network_placement_empty = n"
  by (simp add: network_placement_apply_def network_placement_empty_def)

lemma configurable_apply_fields [simp]:
  "cfg_Name (configurable_apply i c) = (if cfg_Name c \<noteq> '''' then cfg_Name c else cfg_Name i)"
  "cfg_Architecture (configurable_apply i c) =
     (if cfg_Architecture c \<noteq> '''' then cfg_Architecture c else cfg_Architecture i)"
  "cfg_CPUs (configurable_apply i c) = (if cfg_CPUs c \<noteq> 0 then cfg_CPUs c else cfg_CPUs i)"
  "cfg_Memory (configurable_apply i c) = (if cfg_Memory c \<noteq> 0 then cfg_Memory c else cfg_Memory i)"
  "cfg_Config (configurable_apply i c) = cfg_Config i ++\<^sub>f cfg_Config c"
  by (simp_all add: configurable_apply_def Let_def)

lemma instance_properties_apply_simps [simp]:
  "ip_Configurable (instance_properties_apply i c) = configurable_apply (ip_Configurable i) c"
  "ip_NICs (instance_properties_apply i c) = ip_NICs i"
  "ip_Disks (instance_properties_apply i c) = ip_Disks i"
  "ip_OS (instance_properties_apply i c) = ip_OS i"
  "ip_OSTemplate (instance_properties_apply i c) = ip_OSTemplate i"
  "ip_OSDescription (instance_properties_apply i c) = ip_OSDescription i"
  "ip_Description (instance_properties_apply i c) = ip_Description i"
  "ip_Location (instance_properties_apply i c) = ip_Location i"
  "ip_BackgroundImport (instance_properties_apply i c) = ip_BackgroundImport i"
  by (simp_all add: instance_properties_apply_def)

lemma fmadd_idem [simp]: "(m ++\<^sub>f n) ++\<^sub>f n = m ++\<^sub>f n"
  by (rule fmap_ext) (simp add: fmlookup_add)

lemma configurable_apply_idem: "configurable_apply (configurable_apply i c) c = configurable_apply i c"
  by (rule configurable.equality) simp_all

lemma supports_background_import_iff:
  "supports_background_import i \<longleftrightarrow>
     ip_BackgroundImport i \<and> (\<forall>d \<in> set (ip_Disks i). d_Supported d \<longrightarrow> d_BackgroundImportVerified d)"
  by (auto simp: supports_background_import_def)

lemma migration_status_valid_iff:
  "migration_status_validate m = None \<longleftrightarrow> (\<forall>s. m \<noteq> MIGRATIONSTATUS_OTHER s)"
  by (cases m) auto

end
