(* ===== verification/Api_Endpoints.thy ===== *)
theory Api_Endpoints
  imports Api_Types
begin

text \<open>
  The connection data of sources and targets (\<^verbatim>\<open>shared/api/source.go\<close>, \<^verbatim>\<open>shared/api/target.go\<close>,
  \<^verbatim>\<open>internal/api/nsx.go\<close>) with their defaults, and the connectivity status
  (\<^verbatim>\<open>shared/api/server.go\<close>).
\<close>

section \<open>Connectivity\<close>

datatype external_status =
    EXTERNALCONNECTIVITYSTATUS_UNKNOWN
  | EXTERNALCONNECTIVITYSTATUS_OK
  | EXTERNALCONNECTIVITYSTATUS_CANNOT_CONNECT
  | EXTERNALCONNECTIVITYSTATUS_TLS_ERROR
  | EXTERNALCONNECTIVITYSTATUS_TLS_CONFIRM_FINGERPRINT
  | EXTERNALCONNECTIVITYSTATUS_AUTH_ERROR
  | EXTERNALCONNECTIVITYSTATUS_WAITING_OIDC
  | EXTERNALCONNECTIVITYSTATUS_OTHER string

fun external_status_string :: "external_status \<Rightarrow> string" where
  "external_status_string EXTERNALCONNECTIVITYSTATUS_UNKNOWN = ''Unknown''"
| "external_status_string EXTERNALCONNECTIVITYSTATUS_OK = ''OK''"
| "external_status_string EXTERNALCONNECTIVITYSTATUS_CANNOT_CONNECT = ''Cannot connect''"
| "external_status_string EXTERNALCONNECTIVITYSTATUS_TLS_ERROR = ''TLS error''"
| "external_status_string EXTERNALCONNECTIVITYSTATUS_TLS_CONFIRM_FINGERPRINT = ''Confirm TLS fingerprint''"
| "external_status_string EXTERNALCONNECTIVITYSTATUS_AUTH_ERROR = ''Authentication error''"
| "external_status_string EXTERNALCONNECTIVITYSTATUS_WAITING_OIDC = ''Waiting for OIDC authentications''"
| "external_status_string (EXTERNALCONNECTIVITYSTATUS_OTHER s) = s"

text \<open>Which of the library's error types is in the chain of an error (\<^verbatim>\<open>errors.As\<close>).\<close>

datatype conn_error = ConnTLS | ConnNetwork | ConnOther

definition map_external_status :: "(err \<Rightarrow> conn_error) \<Rightarrow> err option \<Rightarrow> external_status" where
  "map_external_status kind r =
     (case r of
        None \<Rightarrow> EXTERNALCONNECTIVITYSTATUS_OK
      | Some e \<Rightarrow>
          if kind e = ConnTLS then EXTERNALCONNECTIVITYSTATUS_TLS_ERROR
          else if kind e = ConnNetwork then EXTERNALCONNECTIVITYSTATUS_CANNOT_CONNECT
          else if str_contains (err_text e) ''ServerFaultCode: Cannot complete login'' then EXTERNALCONNECTIVITYSTATUS_AUTH_ERROR
          else if str_contains (err_text e) ''ErrorType=access_denied'' then EXTERNALCONNECTIVITYSTATUS_AUTH_ERROR
          else if str_contains (err_text e) ''not authorized'' then EXTERNALCONNECTIVITYSTATUS_AUTH_ERROR
          else EXTERNALCONNECTIVITYSTATUS_UNKNOWN)"

section \<open>Properties\<close>

record vmware_properties =
  vp_Endpoint :: string
  vp_ServerCertificate :: string
  vp_TrustedServerCertificateFingerprint :: string
  vp_TrustedServerCACertificates :: "string list"
  vp_Username :: string
  vp_Password :: string
  vp_ConnectivityStatus :: external_status
  vp_ImportLimit :: int
  vp_ConnectionTimeout :: duration
  vp_SyncTimeout :: duration
  vp_SyncLimit :: int
  vp_Datacenters :: "string list"

text \<open>What an NSX manager reports is kept, as its JSON text.\<close>

record nsx_source_properties = vmware_properties +
  nsp_ComputeManagers :: string
  nsp_Segments :: string
  nsp_EdgeNodes :: string
  nsp_Policies :: string

record vrops_properties =
  vr_Endpoint :: string
  vr_ServerCertificate :: string
  vr_TrustedServerCertificateFingerprint :: string
  vr_TrustedServerCACertificates :: "string list"
  vr_Username :: string
  vr_Password :: string
  vr_AuthSource :: string
  vr_ConnectivityStatus :: external_status
  vr_ConnectionTimeout :: duration
  vr_SyncTimeout :: duration

record incus_properties =
  in_Endpoint :: string
  in_ServerCertificate :: string
  in_TrustedServerCertificateFingerprint :: string
  in_TLSClientKey :: string
  in_TLSClientCert :: string
  in_OIDCTokens :: "string option"
  in_ConnectivityStatus :: external_status
  in_ImportLimit :: int
  in_CreateLimit :: int
  in_ConnectionTimeout :: duration

definition datacenter_path :: "string \<Rightarrow> string" where
  "datacenter_path p =
     (let q = CHR ''/'' # p;
          r = (if suffix ''/...'' q then q else q @ ''/...'')
      in path_clean r)"

definition vmware_set_defaults :: "('a vmware_properties_scheme) \<Rightarrow> 'a vmware_properties_scheme" where
  "vmware_set_defaults s =
     (let ds = filter (\<lambda>p. p \<noteq> '''') (map datacenter_path (filter (\<lambda>p. p \<noteq> '''') (vp_Datacenters s)))
      in s\<lparr>vp_ConnectionTimeout := (if vp_ConnectionTimeout s = 0 then 10 * minute else vp_ConnectionTimeout s),
           vp_SyncTimeout := (if vp_SyncTimeout s = 0 then 10 * second else vp_SyncTimeout s),
           vp_SyncLimit := (if vp_SyncLimit s = 0 then 1 else vp_SyncLimit s),
           vp_Datacenters := (if ds = [] then [''/...''] else ds)\<rparr>)"

definition vrops_set_defaults :: "vrops_properties \<Rightarrow> vrops_properties" where
  "vrops_set_defaults p =
     p\<lparr>vr_AuthSource := (if vr_AuthSource p = '''' then ''LOCAL'' else vr_AuthSource p),
       vr_ConnectionTimeout := (if vr_ConnectionTimeout p = 0 then 10 * minute else vr_ConnectionTimeout p),
       vr_SyncTimeout := (if vr_SyncTimeout p = 0 then 10 * minute else vr_SyncTimeout p)\<rparr>"

definition vm_source_types :: "source_type list" where
  "vm_source_types = [SOURCETYPE_VMWARE]"

definition network_source_types :: "source_type list" where
  "network_source_types = [SOURCETYPE_NSX_T]"

record api_source =
  as_Name :: string
  as_Properties :: string
  as_SourceType :: source_type

datatype target_type = TARGETTYPE_INCUS | TARGETTYPE_OTHER string

fun target_type_string :: "target_type \<Rightarrow> string" where
  "target_type_string TARGETTYPE_INCUS = ''incus''"
| "target_type_string (TARGETTYPE_OTHER s) = s"

record api_target =
  at_Name :: string
  at_Properties :: string
  at_TargetType :: target_type

end
