(* ===== verification/Externals.thy ===== *)
theory Externals
  imports Api_Endpoints
begin

text \<open>
  What the code under \<^verbatim>\<open>src/\<close> takes from outside: the clock, the random generator, and the
  libraries it only calls (Incus' validation and OS tables, the expression language, JSON, the
  Starlark interpreter). They are fields of one record that the definitions take as an argument.
  One operation reads the clock once: all readings of \<^verbatim>\<open>time.Now().UTC()\<close> in it are \<open>x_now\<close>.
\<close>

text \<open>Values of the expression language, as far as custom functions and results inspect them.\<close>

datatype expr_value = EBool bool | EString string | EOther string
  \<comment> \<open>\<open>EOther\<close>: any other value, known by the name of its Go type\<close>

fun value_type :: "expr_value \<Rightarrow> string" where
  "value_type (EBool b) = ''bool''"
| "value_type (EString s) = ''string''"
| "value_type (EOther t) = t"

text \<open>
  The calls a placement scriptlet makes to the functions it is given. Each returns \<open>None\<close> to the
  scriptlet or aborts it, so a run is the sequence of calls it would make, and its own result.
\<close>

datatype placement_call =
    SetTarget string
  | SetProject string
  | SetPool string string
  | SetNetwork string string string string

text \<open>What the code reads from the JSON of a network's properties.\<close>

record nsx_vm =
  nv_UUID :: uuid
  nv_Tags :: "sdn_tag list"

record nsx_network_properties =
  nsx_SegmentName :: string
  nsx_SegmentVMs :: "nsx_vm list"

record vcenter_network_properties =
  vc_VlanID :: int
  vc_VlanRanges :: "string list"

text \<open>The parts of a parsed URL (\<^verbatim>\<open>net/url\<close>) that are looked at.\<close>

record url =
  u_Scheme :: string
  u_Host :: string
  u_User :: bool
  u_RawQuery :: string
  u_Fragment :: string
  u_Path :: string

record ext =
  x_now :: time
  x_testing :: bool
  x_time_text :: "time \<Rightarrow> string"
  x_dur_text :: "duration \<Rightarrow> string"
  x_api_name :: "string \<Rightarrow> err option"
  x_hostname :: "string \<Rightarrow> err option"
  x_windows_version_valid :: "string \<Rightarrow> err option"
  x_windows_version :: "string \<Rightarrow> err + string"
  x_linux_distro :: "string \<Rightarrow> distro"
  x_distro_text :: "distro \<Rightarrow> string"
  x_os_text :: "os_type \<Rightarrow> string"
  x_arch_default :: string
  x_arch_id :: "string \<Rightarrow> err + int"
  x_parse_check :: "string \<Rightarrow> bool option"
    \<comment> \<open>the parse of an expression: \<open>None\<close> an error, \<open>Some True\<close> a lone identifier or integer\<close>
  x_compile :: "string \<Rightarrow> err + string"
  x_run :: "(string \<Rightarrow> expr_value list \<Rightarrow> err + expr_value) \<Rightarrow> string \<Rightarrow> instance_filterable \<Rightarrow> err + expr_value"
    \<comment> \<open>given the custom functions by name\<close>
  x_inst_text :: "instance_filterable \<Rightarrow> string"
  x_value_text :: "expr_value \<Rightarrow> string"
  x_scriptlet_valid :: "string \<Rightarrow> string \<Rightarrow> err option"
  x_scriptlet_set :: "string \<Rightarrow> string \<Rightarrow> err option"
  x_scriptlet :: "string \<Rightarrow> api_instance \<Rightarrow> api_batch \<Rightarrow> err + (placement_call list \<times> err option)"
  x_random_uuid :: "nat \<Rightarrow> uuid"
  x_nsx_props :: "string \<Rightarrow> err + nsx_network_properties"
  x_vcenter_props :: "string \<Rightarrow> err + vcenter_network_properties"
  x_vmware_dec :: "string \<Rightarrow> err + vmware_properties"
  x_vmware_enc :: "vmware_properties \<Rightarrow> string"
  x_nsxsrc_dec :: "string \<Rightarrow> err + nsx_source_properties"
  x_nsxsrc_enc :: "nsx_source_properties \<Rightarrow> string"
  x_vrops_dec :: "string \<Rightarrow> err + vrops_properties"
  x_vrops_enc :: "vrops_properties \<Rightarrow> string"
  x_incus_dec :: "string \<Rightarrow> err + incus_properties"
  x_incus_enc :: "incus_properties \<Rightarrow> string"
  x_url :: "string \<Rightarrow> err + url"
  x_pem_ok :: "string \<Rightarrow> bool"
  x_cert_ok :: "string \<Rightarrow> bool"
  x_conn_kind :: "err \<Rightarrow> conn_error"
  x_semver_ok :: "string \<Rightarrow> bool"
  x_semver_minor :: "string \<Rightarrow> string"
  x_semver_major :: "string \<Rightarrow> string"
  x_semver_canonical :: "string \<Rightarrow> string"
  x_semver_compare :: "string \<Rightarrow> string \<Rightarrow> int"
  x_uuid_parse :: "string \<Rightarrow> uuid option"
  x_go_version :: string
  x_vioscsi :: "os_type \<Rightarrow> distro \<Rightarrow> string \<Rightarrow> bool"
  x_rhel :: "distro \<Rightarrow> bool"

text \<open>The import limits that the scheduler reads from the properties of a source and a target.\<close>

definition x_vmware_limit :: "ext \<Rightarrow> string \<Rightarrow> err + int" where
  "x_vmware_limit x s = map_sum id vp_ImportLimit (x_vmware_dec x s)"

definition x_incus_limit :: "ext \<Rightarrow> string \<Rightarrow> err + int" where
  "x_incus_limit x s = map_sum id in_ImportLimit (x_incus_dec x s)"

text \<open>Properties for the witnesses: a source and a target with an import limit.\<close>

definition sample_vmware :: "int \<Rightarrow> vmware_properties" where
  "sample_vmware n = \<lparr>vp_Endpoint = ''https://vcenter'', vp_ServerCertificate = '''',
     vp_TrustedServerCertificateFingerprint = '''', vp_TrustedServerCACertificates = [], vp_Username = ''user'',
     vp_Password = ''secret'', vp_ConnectivityStatus = EXTERNALCONNECTIVITYSTATUS_OK, vp_ImportLimit = n,
     vp_ConnectionTimeout = 10 * minute, vp_SyncTimeout = 10 * second, vp_SyncLimit = 1, vp_Datacenters = [''/...'']\<rparr>"

definition sample_incus :: "int \<Rightarrow> incus_properties" where
  "sample_incus n = \<lparr>in_Endpoint = ''https://incus'', in_ServerCertificate = '''',
     in_TrustedServerCertificateFingerprint = '''', in_TLSClientKey = '''', in_TLSClientCert = '''', in_OIDCTokens = None,
     in_ConnectivityStatus = EXTERNALCONNECTIVITYSTATUS_OK, in_ImportLimit = n, in_CreateLimit = n,
     in_ConnectionTimeout = 5 * minute\<rparr>"

text \<open>An instance of the parameters on which the witnesses evaluate.\<close>

definition plain_ext :: ext where
  "plain_ext =
     \<lparr>x_now = 1000, x_testing = False,
      x_time_text = show_int, x_dur_text = show_int,
      x_api_name = (\<lambda>s. if s = '''' then Some (ExternalErr ''empty name'') else None),
      x_hostname = (\<lambda>s. if s = '''' then Some (ExternalErr ''empty name'') else None),
      x_windows_version_valid = (\<lambda>_. None),
      x_windows_version = (\<lambda>s. Inl (ExternalErr ''unknown version'')),
      x_linux_distro = (\<lambda>s. if str_contains s ''debian'' then DebianLinux else OtherDistro),
      x_distro_text = (\<lambda>_. ''distro''), x_os_text = (\<lambda>_. ''os''),
      x_arch_default = ''x86_64'',
      x_arch_id = (\<lambda>s. if s = ''x86_64'' then Inr 2 else Inl (ExternalErr ''unknown'')),
      x_parse_check = (\<lambda>_. Some False),
      x_compile = (\<lambda>s. Inr s),
      x_run = (\<lambda>fs p i. if p = ''true'' then Inr (EBool True)
                        else if p = ''false'' then Inr (EBool False)
                        else Inr (EBool (cfg_Name (ip_Configurable (if_Properties i)) = p))),
      x_inst_text = (\<lambda>i. cfg_Name (ip_Configurable (if_Properties i))),
      x_value_text = (\<lambda>_. ''value''),
      x_scriptlet_valid = (\<lambda>_ _. None),
      x_scriptlet_set = (\<lambda>_ _. None),
      x_scriptlet = (\<lambda>_ _ _. Inr ([], None)),
      x_random_uuid = (\<lambda>n. of_nat (Suc n)),
      x_nsx_props = (\<lambda>_. Inl (ExternalErr ''not JSON'')),
      x_vcenter_props = (\<lambda>s. if s = ''vlan 7'' then Inr \<lparr>vc_VlanID = 7, vc_VlanRanges = []\<rparr>
                            else Inl (ExternalErr ''not JSON'')),
      x_vmware_dec = (\<lambda>s. if s = ''limit 1'' then Inr (sample_vmware 1) else Inr (sample_vmware 0)),
      x_vmware_enc = (\<lambda>p. if vp_ImportLimit p = 1 then ''limit 1'' else ''vmware''),
      x_nsxsrc_dec = (\<lambda>_. Inl (ExternalErr ''not JSON'')), x_nsxsrc_enc = (\<lambda>_. ''nsx''),
      x_vrops_dec = (\<lambda>_. Inl (ExternalErr ''not JSON'')), x_vrops_enc = (\<lambda>_. ''vrops''),
      x_incus_dec = (\<lambda>s. if s = ''limit 1'' then Inr (sample_incus 1) else Inr (sample_incus 0)),
      x_incus_enc = (\<lambda>p. if in_ImportLimit p = 1 then ''limit 1'' else ''incus''),
      x_url = (\<lambda>s. Inr \<lparr>u_Scheme = ''https'', u_Host = s, u_User = False, u_RawQuery = '''', u_Fragment = '''', u_Path = ''''\<rparr>),
      x_pem_ok = (\<lambda>_. True), x_cert_ok = (\<lambda>s. s \<noteq> ''''), x_conn_kind = (\<lambda>_. ConnOther),
      x_semver_ok = (\<lambda>_. True), x_semver_minor = (\<lambda>s. s),
      x_semver_major = takeWhile (\<lambda>c. c \<noteq> CHR ''.''), x_semver_canonical = (\<lambda>s. s),
      x_semver_compare = (\<lambda>v w. if v = w then 0 else 1), x_uuid_parse = (\<lambda>_. None), x_go_version = ''dev'',
      x_vioscsi = (\<lambda>_ _ _. True), x_rhel = (\<lambda>_. False)\<rparr>"

lemma plain_ext_simps [simp]:
  "x_now plain_ext = 1000" "x_testing plain_ext = False"
  "x_api_name plain_ext s = (if s = '''' then Some (ExternalErr ''empty name'') else None)"
  "x_hostname plain_ext s = (if s = '''' then Some (ExternalErr ''empty name'') else None)"
  "x_compile plain_ext s = Inr s"
  "x_arch_default plain_ext = ''x86_64''"
  "x_vmware_limit plain_ext s = (if s = ''limit 1'' then Inr 1 else Inr 0)"
  "x_incus_limit plain_ext s = (if s = ''limit 1'' then Inr 1 else Inr 0)"
  "x_vmware_dec plain_ext s = (if s = ''limit 1'' then Inr (sample_vmware 1) else Inr (sample_vmware 0))"
  "x_incus_dec plain_ext s = (if s = ''limit 1'' then Inr (sample_incus 1) else Inr (sample_incus 0))"
  by (simp_all add: plain_ext_def x_vmware_limit_def x_incus_limit_def sample_vmware_def sample_incus_def)

section \<open>Integers and versions\<close>

text \<open>\<^verbatim>\<open>strconv.Atoi\<close> (64-bit): an optional sign and at least one digit, within range.\<close>

definition atoi :: "string \<Rightarrow> err + int" where
  "atoi s =
     (let (neg, ds) = (case s of [] \<Rightarrow> (False, [])
                       | c # cs \<Rightarrow> if c = CHR ''-'' then (True, cs) else if c = CHR ''+'' then (False, cs) else (False, s));
          v = (if neg then - int (read_nat ds) else int (read_nat ds))
      in if ds = [] \<or> \<not> (\<forall>c \<in> set ds. is_digit c)
         then Inl (Errorf ''strconv.Atoi: parsing %q: invalid syntax'' [AStr s])
         else if v < - (2 ^ 63) \<or> 2 ^ 63 \<le> v
         then Inl (Errorf ''strconv.Atoi: parsing %q: value out of range'' [AStr s])
         else Inr v)"

definition validate_ubuntu_version :: "string \<Rightarrow> err option" where
  "validate_ubuntu_version version =
     (if version = '''' then None
      else let parts = str_split (CHR ''.'') version
           in if length parts \<noteq> 2 \<or> length (parts ! 0) \<noteq> 2 \<or> length (parts ! 1) \<noteq> 2
              then Some (Errorf ''Invalid version format %q, expected YY.MM'' [AStr version])
              else first_err (map (\<lambda>part. case atoi part of
                       Inl e \<Rightarrow> Some (Errorf ''Invalid version format %q, expected YY.MM: %w'' [AStr version, AWrap e])
                     | Inr _ \<Rightarrow> None) parts))"

text \<open>Architectures are compared by the identifier the library gives them.\<close>

definition match_architecture :: "ext \<Rightarrow> string list \<Rightarrow> string \<Rightarrow> err option" where
  "match_architecture x architectures candidate =
     (case x_arch_id x candidate of
        Inl e \<Rightarrow> Some (Errorf ''Architecture %q is invalid: %w'' [AStr candidate, AWrap e])
      | Inr archID \<Rightarrow>
          (case first_err (map (\<lambda>a. case x_arch_id x a of
                    Inl e \<Rightarrow> Some (Errorf ''Cannot match against architecture %q: %w'' [AStr a, AWrap e])
                  | Inr _ \<Rightarrow> None) architectures) of
             Some e \<Rightarrow> Some e
           | None \<Rightarrow>
               if \<exists>a \<in> set architectures. x_arch_id x a = Inr archID then None
               else Some (Errorf ''Architecture %q does not exist in set [%q]''
                            [AStr candidate, AStr (str_join '','' architectures)])))"

end
