(* ===== verification/Model_Instance.thy ===== *)
theory Model_Instance
  imports Externals
begin

text \<open>
  Instances, the virtual machines found on a source
  (\<^verbatim>\<open>internal/migration/instance_model.go\<close>, \<^verbatim>\<open>filter.go\<close>): OS and distribution detection,
  validation, the reason why one is not migrated, the merge of a new reading of the source into
  the stored record, the config keys of its tags, and filter expressions.
\<close>

record inst =
  i_ID :: int
  i_UUID :: uuid
  i_Source :: string
  i_SourceType :: source_type
  i_LastUpdateFromSource :: time
  i_Overrides :: instance_override
  i_Properties :: instance_properties

type_synonym instances = "inst list"

section \<open>Operating system and distribution\<close>

abbreviation applied_props :: "inst \<Rightarrow> instance_properties" where
  "applied_props i \<equiv> instance_properties_apply (i_Properties i) (ov_Configurable (i_Overrides i))"

definition get_name :: "inst \<Rightarrow> string" where
  "get_name i = ip_Name (applied_props i)"

definition get_architecture :: "ext \<Rightarrow> inst \<Rightarrow> string" where
  "get_architecture x i =
     (if ip_Architecture (applied_props i) = '''' then x_arch_default x
      else ip_Architecture (applied_props i))"

definition needs_background_import_verification :: "inst \<Rightarrow> bool" where
  "needs_background_import_verification i \<longleftrightarrow>
     ip_BackgroundImport (i_Properties i) \<and>
     (\<exists>d \<in> set (ip_Disks (i_Properties i)). d_Supported d \<and> \<not> d_BackgroundImportVerified d)"

definition get_os_type :: "inst \<Rightarrow> bool \<Rightarrow> os_type" where
  "get_os_type i applyOverrides =
     (let props = (if applyOverrides then applied_props i else i_Properties i);
          osName = (if ip_OS props = '''' then ip_OSTemplate props else ip_OS props)
      in if applyOverrides \<and> ov_OSType (i_Overrides i) \<noteq> OSTYPE_OTHER '''' then ov_OSType (i_Overrides i)
         else if str_contains (to_lower osName) ''windows'' then OSTYPE_WINDOWS
         else if has_prefix (ip_Description props) ''FortiGate'' then OSTYPE_FORTIGATE
         else if str_contains (to_lower osName) ''freebsd'' then OSTYPE_FREEBSD
         else OSTYPE_LINUX)"

text \<open>
  The two regular expressions, as the searches they describe: a shortest non-empty prefix of word
  characters, then the digits of the first group. The first one takes the digits that start there;
  the second one must account for the whole text: \<open>major.minor\<close>, an optional \<open>.patch\<close> and an
  optional \<open>" LTS"\<close>.
\<close>

definition is_word_char :: "char \<Rightarrow> bool" where
  "is_word_char c \<longleftrightarrow> (let n = (of_char c :: nat) in
     is_digit c \<or> (65 \<le> n \<and> n \<le> 90) \<or> (97 \<le> n \<and> n \<le> 122) \<or> n = 95)"

definition match_major :: "string \<Rightarrow> string option" where
  "match_major s =
     (case find (\<lambda>k. list_all (\<lambda>c. is_word_char c \<or> c = CHR '' '' \<or> c = CHR ''/'') (take k s) \<and>
                     is_digit (s ! k)) [1..<length s] of
        None \<Rightarrow> None
      | Some k \<Rightarrow> Some (takeWhile is_digit (drop k s)))"

definition drop_lts :: "string \<Rightarrow> string" where
  "drop_lts s = (if suffix '' LTS'' s then take (length s - 4) s else s)"

definition is_number :: "string \<Rightarrow> bool" where
  "is_number s \<longleftrightarrow> s \<noteq> [] \<and> list_all is_digit s"

text \<open>What the second expression's groups make of the text after the prefix: the first group.\<close>

definition ubuntu_rest :: "string \<Rightarrow> string option" where
  "ubuntu_rest r =
     (let t = drop_lts r in
      if t = [] then Some []
      else (case str_split (CHR ''.'') t of
              [a, b] \<Rightarrow> if is_number a \<and> is_number b then Some t
                       else if a = [] \<and> is_number b then Some [] else None
            | [a, b, c] \<Rightarrow> if is_number a \<and> is_number b \<and> is_number c
                          then Some (a @ CHR ''.'' # b) else None
            | _ \<Rightarrow> None))"

definition match_ubuntu :: "string \<Rightarrow> string option" where
  "match_ubuntu s =
     (case find (\<lambda>k. list_all (\<lambda>c. is_word_char c \<or> c = CHR '' '') (take k s) \<and> ubuntu_rest (drop k s) \<noteq> None)
             [1..<length s + 1] of
        None \<Rightarrow> None
      | Some k \<Rightarrow> ubuntu_rest (drop k s))"

definition get_distribution :: "ext \<Rightarrow> inst \<Rightarrow> bool \<Rightarrow> distro \<times> string" where
  "get_distribution x i applyOverrides =
     (let props = applied_props i;
          osVersion = (if ip_OSDescription props = '''' then ip_OSTemplate props else ip_OSDescription props);
          (d, v) = (if i_SourceType i = SOURCETYPE_VMWARE then
              (case get_os_type i applyOverrides of
                 OSTYPE_WINDOWS \<Rightarrow>
                   (OtherDistro, case x_windows_version x osVersion of Inl _ \<Rightarrow> '''' | Inr ver \<Rightarrow> ver)
               | OSTYPE_LINUX \<Rightarrow>
                   (let dist = x_linux_distro x osVersion;
                        ver = (if dist = OtherDistro then ''''
                          else (case (if dist = UbuntuLinux then match_ubuntu osVersion else match_major osVersion) of
                                  None \<Rightarrow> '''' | Some g \<Rightarrow> g));
                        bad = (if ver = '''' then False
                          else if dist = UbuntuLinux then validate_ubuntu_version ver \<noteq> None
                          else (case atoi ver of Inl _ \<Rightarrow> True | Inr _ \<Rightarrow> False))
                    in (dist, if bad then '''' else ver))
               | _ \<Rightarrow> (OtherDistro, ''''))
            else (OtherDistro, ''''))
      in if applyOverrides
         then (if ov_Distribution (i_Overrides i) \<noteq> DistroOther '''' then ov_Distribution (i_Overrides i) else d,
               if ov_DistributionVersion (i_Overrides i) \<noteq> '''' then ov_DistributionVersion (i_Overrides i) else v)
         else (d, v))"

definition instance_to_api :: "ext \<Rightarrow> inst \<Rightarrow> api_instance" where
  "instance_to_api x i =
     \<lparr>ai_Properties = i_Properties i, ai_Source = i_Source i, ai_SourceType = i_SourceType i,
      ai_OSType = get_os_type i False,
      ai_Distribution = fst (get_distribution x i False),
      ai_DistributionVersion = snd (get_distribution x i False),
      ai_LastUpdateFromSource = i_LastUpdateFromSource i,
      ai_Overrides = i_Overrides i\<rparr>"

section \<open>Validation\<close>

definition instance_validate :: "ext \<Rightarrow> inst \<Rightarrow> err option" where
  "instance_validate x i =
     (let os = get_os_type i True; (d, version) = get_distribution x i True;
          os_t = AStr (x_os_text x os); d_t = AStr (x_distro_text x d) in
      first_err
       [err_when (i_UUID i = uuid_nil) (ErrValidation ''Invalid instance, UUID can not be empty'' []),
        err_when (ip_Location (i_Properties i) = '''')
          (ErrValidation ''Invalid instance, inventory path can not be empty'' []),
        err_when (ip_Name (i_Properties i) = '''') (ErrValidation ''Invalid instance, name can not be empty'' []),
        err_when (i_Source i = '''') (ErrValidation ''Invalid instance, source id can not be empty'' []),
        (let n = cfg_Name (ov_Configurable (i_Overrides i)) in
         if n \<noteq> '''' then
           (case x_hostname x n of None \<Rightarrow> None
            | Some e \<Rightarrow> Some (ErrValidation ''Invalid instance override, name %q is not a valid hostname: %v''
                               [AStr n, AErr e]))
         else None),
        err_when (ov_StartedAfterMigration (i_Overrides i) \<and> ov_StoppedAfterMigration (i_Overrides i))
          (ErrValidation ''Invalid instance override, ambiguous post-migration power state'' []),
        (case find (\<lambda>n. nic_UUID n = uuid_nil) (ip_NICs (i_Properties i)) of
           None \<Rightarrow> None
         | Some n \<Rightarrow> Some (ErrValidation ''Instance NIC %q has empty UUID'' [AStr (nic_Location n)])),
        (case validate_os_type os of None \<Rightarrow> None
         | Some e \<Rightarrow> Some (ErrValidation ''Invalid instance OS type %q: %v'' [os_t, AErr e])),
        (case validate_distribution (x_distro_text x) (x_os_text x) os d of None \<Rightarrow> None
         | Some e \<Rightarrow> Some (ErrValidation ''Invalid instance OS distribution %q: %v'' [d_t, AErr e])),
        (case os of
           OSTYPE_FORTIGATE \<Rightarrow>
             err_when (d \<noteq> OtherDistro) (ErrValidation ''FortiGate distribution must be %q, not %q''
               [AStr (x_distro_text x OtherDistro), d_t])
         | OSTYPE_LINUX \<Rightarrow>
             (if d = UbuntuLinux then
                (case validate_ubuntu_version version of None \<Rightarrow> None
                 | Some e \<Rightarrow> Some (ErrValidation ''Failed to parse distribution version %q for %q: %v''
                              [AStr version, d_t, AErr e]))
              else if d = OtherDistro then
                err_when (version \<noteq> '''') (ErrValidation ''Cannot set a version for %q (%q)'' [os_t, d_t])
              else if version \<noteq> '''' then
                (case atoi version of Inr _ \<Rightarrow> None
                 | Inl e \<Rightarrow> Some (ErrValidation ''Failed to parse distribution version %q for %q: %v''
                              [AStr version, d_t, AErr e]))
              else None)
         | OSTYPE_WINDOWS \<Rightarrow>
             (if d \<noteq> OtherDistro then Some (ErrValidation ''Windows distribution must be %q, not %q''
                [AStr (x_distro_text x OtherDistro), d_t])
              else (case x_windows_version_valid x version of None \<Rightarrow> None
                    | Some e \<Rightarrow> Some (ErrValidation ''Windows distribution version %q is invalid: %v''
                                 [AStr version, AErr e])))
         | _ \<Rightarrow> None)])"

section \<open>Why an instance is not migrated\<close>

definition disabled_reason_of :: "ext \<Rightarrow> inst \<Rightarrow> restriction_override \<Rightarrow> err option" where
  "disabled_reason_of x i ov =
     (if ov_DisableMigration (i_Overrides i)
      then Some (ErrDisabled DISABLEDREASON_MANUALLY_DISABLED ''Migration is manually disabled'' [])
      else if ov_IgnoreRestrictions (i_Overrides i) then None
      else (case x_hostname x (ip_Name (applied_props i)) of
        Some e \<Rightarrow> Some (ErrDisabled DISABLEDREASON_INVALID_HOSTNAME
                    ''Instance name %q is not a valid hostname: %w'' [AStr (ip_Name (applied_props i)), AWrap e])
      | None \<Rightarrow>
          (let osType = get_os_type i False; d = fst (get_distribution x i False);
               osOverridden = (ov_Distribution (i_Overrides i) \<noteq> DistroOther '''' \<or> ov_OSType (i_Overrides i) \<noteq> OSTYPE_OTHER '''');
               ipRestrict = (ip_NICs (i_Properties i) \<noteq> [] \<and>
                  \<not> (\<exists>n \<in> set (ip_NICs (i_Properties i)). nic_IPv4Address n \<noteq> ''''))
           in if osType = OSTYPE_LINUX \<and> d = OtherDistro \<and> \<not> ro_AllowUnknownOS ov \<and> \<not> osOverridden
              then Some (ErrDisabled DISABLEDREASON_UNKNOWN_OS
                     ''Could not determine instance OS, check if guest agent is running'' [])
              else if get_architecture x i = ''''
              then Some (ErrDisabled DISABLEDREASON_UNKNOWN_ARCHITECTURE
                     ''Could not determine instance architecture, check if guest agent is running'' [])
              else if ipRestrict \<and> \<not> ro_AllowNoIPv4 ov
              then Some (ErrDisabled DISABLEDREASON_UNKNOWN_IP_ADDRESS
                     ''Could not determine instance IP, check if guest agent is running'' [])
              else if \<not> supports_background_import (i_Properties i) \<and> \<not> ro_AllowNoBackgroundImport ov
              then (if ip_BackgroundImport (i_Properties i)
                    then Some (ErrDisabled DISABLEDREASON_VERIFYING_BACKGROUND_IMPORT
                           ''Verifying background import support'' [])
                    else Some (ErrDisabled DISABLEDREASON_UNSUPPORTED_BACKGROUND_IMPORT
                           ''Background import is not supported'' []))
              else (case find (\<lambda>d. \<not> d_Supported d) (ip_Disks (i_Properties i)) of
                      None \<Rightarrow> None
                    | Some d \<Rightarrow> Some (ErrDisabled DISABLEDREASON_UNSUPPORTED_DISK_SNAPSHOT
                           ''Disk %q does not support snapshots'' [AStr (d_Name d)])))))"


section \<open>Merging a new reading of the source\<close>

text \<open>
  One \<open>if\<close> of \<open>ApplyUpdates\<close>: when the condition holds of the properties so far, change them and
  note that the instance was updated.
\<close>

definition upd_when ::
    "('p \<Rightarrow> bool) \<Rightarrow> ('p \<Rightarrow> 'p) \<Rightarrow> 'p \<times> bool \<Rightarrow> 'p \<times> bool" where
  "upd_when c f a = (if c (fst a) then (f (fst a), True) else a)"

definition last_by :: "('a \<Rightarrow> 'k) \<Rightarrow> 'a list \<Rightarrow> 'k \<Rightarrow> 'a option" where
  "last_by key xs = map_of (map (\<lambda>x. (key x, x)) (rev xs))"

text \<open>Disks keep their verification by name; NICs keep their UUID and lost addresses by network.\<close>

definition merge_disks :: "disk list \<Rightarrow> disk list \<Rightarrow> disk list" where
  "merge_disks old new =
     map (\<lambda>d. case last_by d_Name old (d_Name d) of
            None \<Rightarrow> d
          | Some o1 \<Rightarrow> d\<lparr>d_BackgroundImportVerified := d_BackgroundImportVerified o1\<rparr>) new"

definition merge_nics :: "nic list \<Rightarrow> nic list \<Rightarrow> nic list" where
  "merge_nics old new =
     map (\<lambda>n. case last_by nic_SourceSpecificID old (nic_SourceSpecificID n) of
            None \<Rightarrow> n
          | Some o1 \<Rightarrow> n\<lparr>nic_IPv4Address := (if nic_IPv4Address n = '''' then nic_IPv4Address o1 else nic_IPv4Address n),
                        nic_IPv6Address := (if nic_IPv6Address n = '''' then nic_IPv6Address o1 else nic_IPv6Address n),
                        nic_UUID := nic_UUID o1\<rparr>) new"

abbreviation set_cfg :: "(configurable \<Rightarrow> configurable) \<Rightarrow> instance_properties \<Rightarrow> instance_properties" where
  "set_cfg f p \<equiv> p\<lparr>ip_Configurable := f (ip_Configurable p)\<rparr>"

definition sdn_list :: "sdn_tag list option \<Rightarrow> sdn_tag list" where
  "sdn_list t = (case t of None \<Rightarrow> [] | Some l \<Rightarrow> l)"

definition merge_monitoring :: "monitoring option \<Rightarrow> monitoring \<Rightarrow> monitoring" where
  "merge_monitoring old data =
     (case old of
        None \<Rightarrow> data
      | Some o1 \<Rightarrow>
          if m_Error data \<noteq> '''' \<and> m_Source o1 = m_Source data \<and> m_ResourceID o1 = m_ResourceID data
          then data\<lparr>m_CollectedAt := m_CollectedAt o1, m_Metrics := m_Metrics o1,
                    m_SampleTimes := m_SampleTimes o1, m_Health := m_Health o1, m_Status := m_Status o1\<rparr>
          else data)"

definition stale_monitoring :: "monitoring option \<Rightarrow> monitoring \<Rightarrow> bool" where
  "stale_monitoring old data =
     (case old of
        None \<Rightarrow> False
      | Some o1 \<Rightarrow> m_Source o1 = m_Source data \<and> \<not> time_is_zero (m_AttemptedAt o1) \<and>
                 time_before (m_AttemptedAt data) (m_AttemptedAt o1))"

definition update_monitoring :: "instance_properties \<Rightarrow> monitoring \<Rightarrow> instance_properties \<times> bool" where
  "update_monitoring p data =
     (if stale_monitoring (ip_Monitoring p) data then (p, False)
      else let data' = merge_monitoring (ip_Monitoring p) data in
           if ip_Monitoring p = Some data' then (p, False)
           else (p\<lparr>ip_Monitoring := Some data'\<rparr>, True))"

text \<open>
  The updates in the code's order; \<open>p\<close> is the stored record, \<open>s\<close> the reading. The disks' update
  comes before the one of the background import flag that it compares.
\<close>

definition apply_updates_steps ::
    "ext \<Rightarrow> instance_properties \<Rightarrow>
     ((instance_properties \<Rightarrow> bool) \<times> (instance_properties \<Rightarrow> instance_properties)) list" where
  "apply_updates_steps x s =
    [(\<lambda>q. ip_SourceSpecificID q = '''' \<and> ip_SourceSpecificID s \<noteq> '''',
       \<lambda>q. q\<lparr>ip_SourceSpecificID := ip_SourceSpecificID s\<rparr>),
     (\<lambda>q. ip_Location q \<noteq> ip_Location s, \<lambda>q. q\<lparr>ip_Location := ip_Location s\<rparr>),
     (\<lambda>q. ip_Name q \<noteq> ip_Name s, set_cfg (\<lambda>c. c\<lparr>cfg_Name := ip_Name s\<rparr>)),
     (\<lambda>q. ip_Description q \<noteq> ip_Description s, \<lambda>q. q\<lparr>ip_Description := ip_Description s\<rparr>),
     (\<lambda>q. ip_Architecture q \<noteq> ip_Architecture s \<and> ip_Architecture s \<noteq> '''',
       set_cfg (\<lambda>c. c\<lparr>cfg_Architecture := ip_Architecture s\<rparr>)),
     (\<lambda>q. ip_Architecture q = '''', set_cfg (\<lambda>c. c\<lparr>cfg_Architecture := x_arch_default x\<rparr>)),
     (\<lambda>q. ip_OS q \<noteq> ip_OS s \<and> ip_OS s \<noteq> '''', \<lambda>q. q\<lparr>ip_OS := ip_OS s\<rparr>),
     (\<lambda>q. ip_OSDescription q \<noteq> ip_OSDescription s \<and> ip_OSDescription s \<noteq> '''',
       \<lambda>q. q\<lparr>ip_OSDescription := ip_OSDescription s\<rparr>),
     (\<lambda>q. ip_OSTemplate q \<noteq> ip_OSTemplate s \<and> ip_OSTemplate s \<noteq> '''',
       \<lambda>q. q\<lparr>ip_OSTemplate := ip_OSTemplate s\<rparr>),
     (\<lambda>q. ip_Disks q \<noteq> ip_Disks s \<and> ip_Disks q \<noteq>
           (if ip_BackgroundImport q = ip_BackgroundImport s then merge_disks (ip_Disks q) (ip_Disks s) else ip_Disks s),
       \<lambda>q. q\<lparr>ip_Disks := (if ip_BackgroundImport q = ip_BackgroundImport s
                          then merge_disks (ip_Disks q) (ip_Disks s) else ip_Disks s)\<rparr>),
     (\<lambda>q. ip_BackgroundImport q \<noteq> ip_BackgroundImport s,
       \<lambda>q. q\<lparr>ip_BackgroundImport := ip_BackgroundImport s\<rparr>),
     (\<lambda>q. ip_NICs q \<noteq> ip_NICs s \<and> ip_NICs q \<noteq> merge_nics (ip_NICs q) (ip_NICs s),
       \<lambda>q. q\<lparr>ip_NICs := merge_nics (ip_NICs q) (ip_NICs s)\<rparr>),
     (\<lambda>q. ip_Snapshots q \<noteq> ip_Snapshots s, \<lambda>q. q\<lparr>ip_Snapshots := ip_Snapshots s\<rparr>),
     (\<lambda>q. cfg_CPUs (ip_Configurable q) \<noteq> cfg_CPUs (ip_Configurable s),
       set_cfg (\<lambda>c. c\<lparr>cfg_CPUs := cfg_CPUs (ip_Configurable s)\<rparr>)),
     (\<lambda>q. cfg_Memory (ip_Configurable q) \<noteq> cfg_Memory (ip_Configurable s),
       set_cfg (\<lambda>c. c\<lparr>cfg_Memory := cfg_Memory (ip_Configurable s)\<rparr>)),
     (\<lambda>q. ip_LegacyBoot q \<noteq> ip_LegacyBoot s, \<lambda>q. q\<lparr>ip_LegacyBoot := ip_LegacyBoot s\<rparr>),
     (\<lambda>q. ip_SecureBoot q \<noteq> ip_SecureBoot s, \<lambda>q. q\<lparr>ip_SecureBoot := ip_SecureBoot s\<rparr>),
     (\<lambda>q. ip_TPM q \<noteq> ip_TPM s, \<lambda>q. q\<lparr>ip_TPM := ip_TPM s\<rparr>),
     (\<lambda>q. ip_Running q \<noteq> ip_Running s, \<lambda>q. q\<lparr>ip_Running := ip_Running s\<rparr>),
     (\<lambda>q. ip_SDNTags s \<noteq> None \<and> sdn_list (ip_SDNTags q) \<noteq> sdn_list (ip_SDNTags s),
       \<lambda>q. q\<lparr>ip_SDNTags := ip_SDNTags s\<rparr>),
     (\<lambda>q. ip_Tags q \<noteq> ip_Tags s, \<lambda>q. q\<lparr>ip_Tags := ip_Tags s\<rparr>),
     (\<lambda>q. case ip_Monitoring s of None \<Rightarrow> False | Some data \<Rightarrow> snd (update_monitoring q data),
       \<lambda>q. case ip_Monitoring s of None \<Rightarrow> q | Some data \<Rightarrow> fst (update_monitoring q data))]"

definition apply_updates_props ::
    "ext \<Rightarrow> instance_properties \<Rightarrow> instance_properties \<Rightarrow> instance_properties \<times> bool" where
  "apply_updates_props x p s =
     fold (\<lambda>(c, u). upd_when c u) (apply_updates_steps x s) (p, False)"

definition apply_updates :: "ext \<Rightarrow> inst \<Rightarrow> inst \<Rightarrow> inst \<times> bool" where
  "apply_updates x i srcInst =
     (case apply_updates_props x (i_Properties i) (i_Properties srcInst) of
        (p, updated) \<Rightarrow> (i\<lparr>i_Properties := p\<rparr>, updated))"

section \<open>Tags as config keys\<close>

definition SDNTagsKeyPrefix :: string where "SDNTagsKeyPrefix = ''user.sdn.tags''"
definition TagsKeyPrefix :: string where "TagsKeyPrefix = ''user.tags''"

definition tag_key :: "string \<Rightarrow> nat \<Rightarrow> string \<Rightarrow> string" where
  "tag_key pre n grp = pre @ ''.'' @ show_nat n @ ''.'' @ grp"

fun tag_config_from ::
    "string \<Rightarrow> ('t \<Rightarrow> string \<times> string) \<Rightarrow> (string \<Rightarrow> nat) \<Rightarrow> (string, string) fmap \<Rightarrow> 't list \<Rightarrow> (string, string) fmap" where
  "tag_config_from pre parse idx config [] = config"
| "tag_config_from pre parse idx config (t # ts) =
     (let (g, v) = parse t; grp = (if g = '''' then v else g)
      in tag_config_from pre parse (idx(grp := Suc (idx grp)))
           (fmupd (tag_key pre (idx grp) grp) v config) ts)"

definition tag_config :: "string \<Rightarrow> 't list \<Rightarrow> ('t \<Rightarrow> string \<times> string) \<Rightarrow> (string, string) fmap" where
  "tag_config pre tags parse = tag_config_from pre parse (\<lambda>_. 0) fmempty tags"

definition sdn_tag_config :: "inst \<Rightarrow> (string, string) fmap" where
  "sdn_tag_config i =
     tag_config SDNTagsKeyPrefix (sdn_list (ip_SDNTags (i_Properties i))) (\<lambda>t. (st_Scope t, st_Tag t))"

definition source_tag_config :: "inst \<Rightarrow> (string, string) fmap" where
  "source_tag_config i =
     tag_config TagsKeyPrefix (ip_Tags (i_Properties i)) (\<lambda>t. (t_Category t, t_Tag t))"

section \<open>Filter expressions\<close>

text \<open>The functions the code adds to the expression language.\<close>

definition path_function ::
    "(string \<Rightarrow> string) \<Rightarrow> expr_value list \<Rightarrow> err + expr_value" where
  "path_function f params =
     (if length params \<noteq> 1
      then Inl (Errorf ''invalid number of arguments, expected 1, got: %d'' [AInt (int (length params))])
      else (case hd params of
              EString path \<Rightarrow> Inr (EString (f path))
            | v \<Rightarrow> Inl (Errorf ''invalid argument type, expected string, got: %T'' [AStr (value_type v)])))"

definition match_tag :: "instance_filterable \<Rightarrow> bool \<Rightarrow> expr_value list \<Rightarrow> err + expr_value" where
  "match_tag filterable exact params =
     (if length params \<noteq> 2
      then Inl (Errorf ''invalid number of arguments, expected <category> <tag>, got %d arguments''
                  [AInt (int (length params))])
      else (case params ! 0 of
        EString category \<Rightarrow>
          (case params ! 1 of
             EString tag \<Rightarrow>
               Inr (EBool (\<exists>t \<in> set (ip_Tags (if_Properties filterable)).
                  (category = ''*'' \<or> t_Category t = category) \<and>
                  (if exact then t_Tag t = tag else str_contains (t_Tag t) tag)))
           | _ \<Rightarrow> Inl (Errorf ''invalid tag argument type, expected string, got: %T''
                      [AStr (value_type (params ! 0))]))
      | v \<Rightarrow> Inl (Errorf ''invalid category argument type, expected string, got: %T'' [AStr (value_type v)])))"

definition custom_functions ::
    "instance_filterable \<Rightarrow> string \<Rightarrow> expr_value list \<Rightarrow> err + expr_value" where
  "custom_functions filterable name params =
     (if name = ''path_base'' then path_function path_base params
      else if name = ''path_dir'' then path_function path_dir params
      else if name = ''has_tag'' then match_tag filterable True params
      else if name = ''matches_tag'' then match_tag filterable False params
      else Inl (Errorf ''unknown function %q'' [AStr name]))"

definition match_location_alias :: "ext \<Rightarrow> string \<Rightarrow> string" where
  "match_location_alias x expression =
     (if x_parse_check x expression = Some False then expression
      else ''location matches '' @ go_quote expression)"

definition compile_include_expression ::
    "ext \<Rightarrow> inst \<Rightarrow> string \<Rightarrow> bool \<Rightarrow> err + instance_filterable \<times> string" where
  "compile_include_expression x i expression locationAlias =
     (case x_compile x (if locationAlias then match_location_alias x expression else expression) of
        Inl e \<Rightarrow> Inl e
      | Inr program \<Rightarrow> Inr (api_instance_to_filterable (instance_to_api x i), program))"

definition matches_criteria :: "ext \<Rightarrow> inst \<Rightarrow> string \<Rightarrow> bool \<Rightarrow> err + bool" where
  "matches_criteria x i expression locationAlias =
     (case compile_include_expression x i expression locationAlias of
        Inl e \<Rightarrow> Inl (Errorf ''Failed to compile include expression %q: %v'' [AStr expression, AErr e])
      | Inr (filterable, program) \<Rightarrow>
          (case x_run x (custom_functions filterable) program filterable of
             Inl e \<Rightarrow> Inl (Errorf ''Failed to run include expression %q with instance %v: %v''
                        [AStr expression, AStr (x_inst_text x filterable), AErr e])
           | Inr (EBool b) \<Rightarrow> Inr b
           | Inr v \<Rightarrow> Inl (Errorf ''Include expression %q does not evaluate to boolean result: %v''
                        [AStr expression, AStr (x_value_text x v)])))"


section \<open>Lemmas\<close>

lemma last_by_distinct:
  assumes "distinct (map key xs)" "x \<in> set xs"
  shows "last_by key xs (key x) = Some x"
proof -
  have "distinct (map fst (map (\<lambda>x. (key x, x)) (rev xs)))"
    using assms(1) by (simp add: comp_def rev_map [symmetric])
  then show ?thesis using assms(2) unfolding last_by_def by (intro map_of_is_SomeI) auto
qed

lemma merge_keys [simp]:
  "map d_Name (merge_disks old new) = map d_Name new"
  "map nic_SourceSpecificID (merge_nics oldn newn) = map nic_SourceSpecificID newn"
  by (auto simp: merge_disks_def merge_nics_def split: option.splits)

text \<open>A merge result is a fixed point of merging the same reading again.\<close>

lemma merge_disks_idem:
  assumes "distinct (map d_Name new)"
  shows "merge_disks (merge_disks old new) new = merge_disks old new"
proof -
  let ?m = "\<lambda>d. case last_by d_Name old (d_Name d) of
      None \<Rightarrow> d | Some o1 \<Rightarrow> d\<lparr>d_BackgroundImportVerified := d_BackgroundImportVerified o1\<rparr>"
  have "last_by d_Name (merge_disks old new) (d_Name d) = Some (?m d)" if "d \<in> set new" for d
  proof -
    have "last_by d_Name (merge_disks old new) (d_Name (?m d)) = Some (?m d)"
      using assms that by (intro last_by_distinct) (simp, simp add: merge_disks_def)
    then show ?thesis by (simp split: option.splits)
  qed
  then have "map (\<lambda>d. case last_by d_Name (merge_disks old new) (d_Name d) of
      None \<Rightarrow> d | Some o1 \<Rightarrow> d\<lparr>d_BackgroundImportVerified := d_BackgroundImportVerified o1\<rparr>) new = map ?m new"
    by (intro map_cong refl) (simp split: option.split)
  then have "merge_disks (merge_disks old new) new = map ?m new" by (subst merge_disks_def)
  also have "map ?m new = merge_disks old new" by (subst merge_disks_def) (rule refl)
  finally show ?thesis .
qed

lemma merge_nics_idem:
  assumes "distinct (map nic_SourceSpecificID new)"
  shows "merge_nics (merge_nics old new) new = merge_nics old new"
proof -
  let ?u = "\<lambda>n o1. n\<lparr>nic_IPv4Address := (if nic_IPv4Address n = '''' then nic_IPv4Address o1 else nic_IPv4Address n),
      nic_IPv6Address := (if nic_IPv6Address n = '''' then nic_IPv6Address o1 else nic_IPv6Address n),
      nic_UUID := nic_UUID o1\<rparr>"
  let ?m = "\<lambda>n. case last_by nic_SourceSpecificID old (nic_SourceSpecificID n) of None \<Rightarrow> n | Some o1 \<Rightarrow> ?u n o1"
  have "last_by nic_SourceSpecificID (merge_nics old new) (nic_SourceSpecificID n) = Some (?m n)" if "n \<in> set new" for n
  proof -
    have "last_by nic_SourceSpecificID (merge_nics old new) (nic_SourceSpecificID (?m n)) = Some (?m n)"
      using assms that by (intro last_by_distinct) (simp, simp add: merge_nics_def)
    then show ?thesis by (simp split: option.splits)
  qed
  then have "map (\<lambda>n. case last_by nic_SourceSpecificID (merge_nics old new) (nic_SourceSpecificID n) of
      None \<Rightarrow> n | Some o1 \<Rightarrow> ?u n o1) new = map ?m new"
    by (intro map_cong refl) (simp split: option.split)
  then have "merge_nics (merge_nics old new) new = map ?m new" by (subst merge_nics_def)
  also have "map ?m new = merge_nics old new" by (subst merge_nics_def) (rule refl)
  finally show ?thesis .
qed

lemma merge_monitoring_idem: "merge_monitoring (Some (merge_monitoring old data)) data = merge_monitoring old data"
  by (simp add: merge_monitoring_def split: option.split)

lemma merge_monitoring_attempted [simp]: "m_AttemptedAt (merge_monitoring old data) = m_AttemptedAt data"
  by (simp add: merge_monitoring_def split: option.split)

lemma update_monitoring_idem: "update_monitoring (fst (update_monitoring p data)) data = (fst (update_monitoring p data), False)"
  by (auto simp: update_monitoring_def Let_def merge_monitoring_idem stale_monitoring_def time_before_def
      split: option.splits)

lemma update_monitoring_frame: "fst (update_monitoring p data) = p\<lparr>ip_Monitoring := ip_Monitoring (fst (update_monitoring p data))\<rparr>"
  by (simp add: update_monitoring_def Let_def)

lemma tag_key_inj:
  assumes "tag_key pre m g = tag_key pre n h"
  shows "m = n \<and> g = h"
proof -
  from assms have "show_nat m @ CHR ''.'' # g = show_nat n @ CHR ''.'' # h" by (simp add: tag_key_def)
  then have "show_nat m = show_nat n \<and> g = h" by (rule digits_dot_inj [OF show_nat_digits show_nat_digits])
  then show ?thesis by (simp add: show_nat_inj)
qed

text \<open>
  What building the keys keeps: the entries so far have indices below their group's counter, so
  the next key is new and nothing is overwritten.
\<close>

lemma tag_config_from_spec:
  assumes "\<And>k. k |\<in>| fmdom config \<Longrightarrow> \<exists>n g. k = tag_key pre n g \<and> n < idx g"
  shows "fcard (fmdom (tag_config_from pre parse idx config ts)) = fcard (fmdom config) + length ts \<and>
    fmran (tag_config_from pre parse idx config ts) = fmran config |\<union>| fset_of_list (map (snd \<circ> parse) ts) \<and>
    config \<subseteq>\<^sub>f tag_config_from pre parse idx config ts"
  using assms
proof (induction ts arbitrary: idx config)
  case (Cons t ts)
  obtain g v where gv: "parse t = (g, v)" by (cases "parse t")
  define gr where "gr = (if g = '''' then v else g)"
  let ?g = gr
  let ?k = "tag_key pre (idx ?g) ?g"
  define i2 where "i2 = idx(gr := Suc (idx gr))"
  let ?c = "fmupd ?k v config" and ?i = i2
  have fresh: "?k |\<notin>| fmdom config" using Cons.prems tag_key_inj by fastforce
  have "\<exists>n h. k = tag_key pre n h \<and> n < ?i h" if "k |\<in>| fmdom ?c" for k
  proof (cases "k = ?k")
    case False
    with that have "k |\<in>| fmdom config" by simp
    then obtain n h where "k = tag_key pre n h" "n < idx h" using Cons.prems [of k] by blast
    then have "k = tag_key pre n h \<and> n < ?i h" by (auto simp: i2_def)
    then show ?thesis by blast
  qed (auto simp: i2_def intro!: exI [of _ "idx ?g"] exI [of _ ?g])
  note IH = Cons.IH [of ?c ?i, OF this]
  have "fmran ?c = finsert v (fmran config)" using fresh by (rule fmran_fmupd_fresh)
  moreover have "config \<subseteq>\<^sub>f ?c" using fresh by (rule fmsubset_fmupd_fresh)
  moreover have "tag_config_from pre parse idx config (t # ts) = tag_config_from pre parse ?i ?c ts"
    by (simp add: gv gr_def i2_def Let_def)
  moreover have "fcard (fmdom ?c) = Suc (fcard (fmdom config))"
    using fresh by (simp add: fcard_finsert_if)
  ultimately show ?case using IH gv by (auto intro: fmsubset_trans)
qed (simp add: fmsubset.rep_eq)

text \<open>
  A list of guarded updates settles: when no update makes its own guard or an earlier guard true
  again, all guards are false after one pass, and a second pass changes nothing.
\<close>

definition settles :: "(('p \<Rightarrow> bool) \<times> ('p \<Rightarrow> 'p)) list \<Rightarrow> bool" where
  "settles us \<longleftrightarrow> (\<forall>(c, u) \<in> set us. \<forall>q. \<not> c (u q)) \<and>
     sorted_wrt (\<lambda>(c, u) (c', u'). \<forall>q. \<not> c q \<longrightarrow> c' q \<longrightarrow> \<not> c (u' q)) us"

lemma pass_keeps:
  "\<forall>(c', u') \<in> set us. \<forall>q. \<not> c q \<longrightarrow> c' q \<longrightarrow> \<not> c (u' q) \<Longrightarrow> \<not> c (fst a) \<Longrightarrow>
     \<not> c (fst (fold (\<lambda>(c, u). upd_when c u) us a))"
proof (induction us arbitrary: a)
  case (Cons cu us)
  obtain c1 u1 where cu: "cu = (c1, u1)" by (cases cu)
  with Cons.prems have "\<not> c (fst (upd_when c1 u1 a))" by (auto simp: upd_when_def)
  with Cons.IH [of "upd_when c1 u1 a"] Cons.prems(1) cu show ?case by simp
qed simp

lemma pass_settled:
  "settles us \<Longrightarrow> (c, u) \<in> set us \<Longrightarrow> \<not> c (fst (fold (\<lambda>(c, u). upd_when c u) us a))"
proof (induction us arbitrary: a)
  case (Cons cu us)
  obtain c1 u1 where cu: "cu = (c1, u1)" by (cases cu)
  have rest: "settles us" using Cons.prems(1) by (auto simp: settles_def)
  show ?case
  proof (cases "(c, u) \<in> set us")
    case True
    with Cons.IH [OF rest, of "upd_when c1 u1 a"] cu show ?thesis by simp
  next
    case False
    with Cons.prems(2) cu have eq: "c1 = c" "u1 = u" by auto
    have "\<not> c (fst (upd_when c u a))"
      using Cons.prems(1) cu eq by (auto simp: settles_def upd_when_def)
    moreover have "\<forall>(c', u') \<in> set us. \<forall>q. \<not> c q \<longrightarrow> c' q \<longrightarrow> \<not> c (u' q)"
      using Cons.prems(1) cu eq by (auto simp: settles_def)
    ultimately show ?thesis using cu eq pass_keeps [of us c "upd_when c u a"] by simp
  qed
qed simp

lemma pass_no_guard:
  "\<forall>(c, u) \<in> set us. \<not> c q \<Longrightarrow> fold (\<lambda>(c, u). upd_when c u) us (q, b) = (q, b)"
  by (induction us) (auto simp: upd_when_def)

lemma settles_second_pass:
  assumes "settles us"
  shows "fold (\<lambda>(c, u). upd_when c u) us (fst (fold (\<lambda>(c, u). upd_when c u) us a), False) =
    (fst (fold (\<lambda>(c, u). upd_when c u) us a), False)"
  by (rule pass_no_guard) (use pass_settled [OF assms] in blast)

lemma update_monitoring_again [simp]:
  "\<not> snd (update_monitoring (fst (update_monitoring p data)) data)"
  by (simp add: update_monitoring_idem)

lemma update_monitoring_fields [simp]:
  "ip_SourceSpecificID (fst (update_monitoring p d)) = ip_SourceSpecificID p"
  "ip_Location (fst (update_monitoring p d)) = ip_Location p"
  "ip_Configurable (fst (update_monitoring p d)) = ip_Configurable p"
  "ip_Description (fst (update_monitoring p d)) = ip_Description p"
  "ip_OS (fst (update_monitoring p d)) = ip_OS p"
  "ip_OSDescription (fst (update_monitoring p d)) = ip_OSDescription p"
  "ip_OSTemplate (fst (update_monitoring p d)) = ip_OSTemplate p"
  "ip_Disks (fst (update_monitoring p d)) = ip_Disks p"
  "ip_BackgroundImport (fst (update_monitoring p d)) = ip_BackgroundImport p"
  "ip_NICs (fst (update_monitoring p d)) = ip_NICs p"
  "ip_Snapshots (fst (update_monitoring p d)) = ip_Snapshots p"
  "ip_LegacyBoot (fst (update_monitoring p d)) = ip_LegacyBoot p"
  "ip_SecureBoot (fst (update_monitoring p d)) = ip_SecureBoot p"
  "ip_TPM (fst (update_monitoring p d)) = ip_TPM p"
  "ip_Running (fst (update_monitoring p d)) = ip_Running p"
  "ip_SDNTags (fst (update_monitoring p d)) = ip_SDNTags p"
  "ip_Tags (fst (update_monitoring p d)) = ip_Tags p"
  by (simp_all add: update_monitoring_def Let_def)

lemma apply_updates_settles:
  assumes "distinct (map d_Name (ip_Disks s))" and "distinct (map nic_SourceSpecificID (ip_NICs s))"
    and "x_arch_default x \<noteq> ''''"
  shows "settles (apply_updates_steps x s)"
  unfolding settles_def
proof (intro conjI)
  show "\<forall>(c, u) \<in> set (apply_updates_steps x s). \<forall>q. \<not> c (u q)"
    using assms by (simp add: apply_updates_steps_def merge_disks_idem merge_nics_idem split: option.split)
  show "sorted_wrt (\<lambda>(c, u) (c', u'). \<forall>q. \<not> c q \<longrightarrow> c' q \<longrightarrow> \<not> c (u' q)) (apply_updates_steps x s)"
    using assms by (simp add: apply_updates_steps_def split: option.split)
qed

section \<open>Properties\<close>

text \<open>A concrete instance: one disk, one NIC, Debian, background import verified.\<close>

definition sample_configurable :: configurable where
  "sample_configurable = \<lparr>cfg_Name = ''vm'', cfg_CPUs = 2, cfg_Memory = 1024, cfg_Config = fmempty,
     cfg_Architecture = ''x86_64''\<rparr>"

definition no_configurable :: configurable where
  "no_configurable = \<lparr>cfg_Name = '''', cfg_CPUs = 0, cfg_Memory = 0, cfg_Config = fmempty, cfg_Architecture = ''''\<rparr>"

definition sample_nic :: nic where
  "sample_nic = \<lparr>nic_UUID = 9, nic_SourceSpecificID = ''net-1'', nic_HardwareAddress = ''00:01'',
     nic_Location = ''/dc/net'', nic_IPv4Address = ''10.0.0.10'', nic_IPv6Address = ''''\<rparr>"

definition sample_disk :: disk where
  "sample_disk = \<lparr>d_Capacity = 10, d_Name = ''disk-1'', d_Shared = False, d_Supported = True,
     d_BackgroundImportVerified = True\<rparr>"

definition sample_props :: instance_properties where
  "sample_props = \<lparr>ip_Configurable = sample_configurable, ip_UUID = 7, ip_SourceSpecificID = ''vm-1'',
     ip_Location = ''/dc/vm'', ip_Description = '''', ip_OS = ''debian'', ip_OSDescription = ''debian 12'',
     ip_OSTemplate = '''', ip_SecureBoot = False, ip_LegacyBoot = False, ip_TPM = False, ip_Running = True,
     ip_BackgroundImport = True, ip_NICs = [sample_nic], ip_Disks = [sample_disk], ip_Snapshots = [],
     ip_SDNTags = None, ip_Tags = [\<lparr>t_Category = ''env'', t_Tag = ''a''\<rparr>, \<lparr>t_Category = ''env'', t_Tag = ''b''\<rparr>],
     ip_Monitoring = None\<rparr>"

definition no_override :: instance_override where
  "no_override = \<lparr>ov_Configurable = no_configurable, ov_LastUpdate = 0, ov_Comment = '''',
     ov_OSType = OSTYPE_OTHER '''', ov_Distribution = DistroOther '''', ov_DistributionVersion = '''',
     ov_DisableMigration = False, ov_IgnoreRestrictions = False, ov_StartedAfterMigration = False,
     ov_StoppedAfterMigration = False\<rparr>"

definition sample_inst :: inst where
  "sample_inst = \<lparr>i_ID = 1, i_UUID = 7, i_Source = ''src'', i_SourceType = SOURCETYPE_VMWARE,
     i_LastUpdateFromSource = 5, i_Overrides = no_override, i_Properties = sample_props\<rparr>"

lemmas sample_defs = sample_inst_def sample_props_def sample_configurable_def no_configurable_def
  sample_nic_def sample_disk_def no_override_def



text \<open>
  No tag is lost or overwritten when tags become config keys: the config has exactly one key
  per tag, and its values are exactly the tags' values, whatever categories the tags share.
\<close>

theorem tag_config_complete:
  "fcard (fmdom (source_tag_config i)) = length (ip_Tags (i_Properties i)) \<and>
   fmran (source_tag_config i) = fset_of_list (map t_Tag (ip_Tags (i_Properties i))) \<and>
   fcard (fmdom (sdn_tag_config i)) = length (sdn_list (ip_SDNTags (i_Properties i))) \<and>
   fmran (sdn_tag_config i) = fset_of_list (map st_Tag (sdn_list (ip_SDNTags (i_Properties i))))"
  using tag_config_from_spec [of fmempty "TagsKeyPrefix" "\<lambda>_. 0" "\<lambda>t. (t_Category t, t_Tag t)" "ip_Tags (i_Properties i)"]
    tag_config_from_spec [of fmempty "SDNTagsKeyPrefix" "\<lambda>_. 0" "\<lambda>t. (st_Scope t, st_Tag t)"
      "sdn_list (ip_SDNTags (i_Properties i))"]
  by (simp add: source_tag_config_def sdn_tag_config_def tag_config_def comp_def)

text \<open>
  When a monitoring source fails to refresh a resource it had data for, the stored snapshot
  keeps the metrics, sample times, health, status and collection time of the last success, and the
  time of the last attempt never goes back.
\<close>

theorem monitoring_failure_keeps_data:
  assumes "ip_Monitoring p = Some old" and "m_Source data = m_Source old"
    and "m_ResourceID data = m_ResourceID old" and "m_Error data \<noteq> ''''" and "m_AttemptedAt old \<noteq> 0"
  shows "case ip_Monitoring (fst (update_monitoring p data)) of
      None \<Rightarrow> False
    | Some new \<Rightarrow> m_Metrics new = m_Metrics old \<and> m_SampleTimes new = m_SampleTimes old \<and>
        m_Health new = m_Health old \<and> m_Status new = m_Status old \<and>
        m_CollectedAt new = m_CollectedAt old \<and> m_AttemptedAt old \<le> m_AttemptedAt new"
  using assms
  by (simp add: update_monitoring_def stale_monitoring_def merge_monitoring_def Let_def time_simps)

definition sample_monitoring :: monitoring where
  "sample_monitoring = \<lparr>m_Source = ''vrops'', m_ResourceID = ''r'', m_Health = ''GREEN'', m_Status = ''ok'',
     m_CollectedAt = 10, m_Metrics = Some fmempty, m_SampleTimes = None, m_AttemptedAt = 10, m_Error = ''''\<rparr>"

theorem monitoring_failure_keeps_data_witness:
  "(case ip_Monitoring (fst (update_monitoring (sample_props\<lparr>ip_Monitoring := Some sample_monitoring\<rparr>)
      (sample_monitoring\<lparr>m_Health := ''RED'', m_AttemptedAt := 20, m_Error := ''timeout'', m_Metrics := None\<rparr>))) of
      None \<Rightarrow> False | Some new \<Rightarrow> m_Health new = ''GREEN'' \<and> m_Metrics new = Some fmempty)"
  using monitoring_failure_keeps_data [of "sample_props\<lparr>ip_Monitoring := Some sample_monitoring\<rparr>" sample_monitoring
      "sample_monitoring\<lparr>m_Health := ''RED'', m_AttemptedAt := 20, m_Error := ''timeout'', m_Metrics := None\<rparr>"]
  by (simp add: sample_monitoring_def split: option.splits)

text \<open>
  An instance is migrated (it has no disabled reason) exactly when migration is not disabled
  by hand and either restrictions are ignored for it, or its name is a hostname, its OS is known
  (or overridden, or allowed by the batch), its architecture is known, it has no NICs or an IPv4
  address (or the batch allows none), background import is supported and verified (or the batch
  allows that it is not), and every disk supports snapshots.
\<close>

theorem disabled_reason_none_iff:
  "disabled_reason_of x i ov = None \<longleftrightarrow>
     \<not> ov_DisableMigration (i_Overrides i) \<and>
     (ov_IgnoreRestrictions (i_Overrides i) \<or>
      x_hostname x (get_name i) = None \<and>
      \<not> (get_os_type i False = OSTYPE_LINUX \<and> fst (get_distribution x i False) = OtherDistro \<and>
         \<not> ro_AllowUnknownOS ov \<and> ov_Distribution (i_Overrides i) = DistroOther '''' \<and>
         ov_OSType (i_Overrides i) = OSTYPE_OTHER '''') \<and>
      get_architecture x i \<noteq> '''' \<and>
      \<not> (ip_NICs (i_Properties i) \<noteq> [] \<and> \<not> ro_AllowNoIPv4 ov \<and>
         nic_IPv4Address ` set (ip_NICs (i_Properties i)) = {''''}) \<and>
      (ro_AllowNoBackgroundImport ov \<or> ip_BackgroundImport (i_Properties i) \<and>
         \<not> needs_background_import_verification i) \<and>
      list_all d_Supported (ip_Disks (i_Properties i)))"
proof -
  have nics: "nic_IPv4Address ` set ns \<noteq> {''''} \<longleftrightarrow> (\<exists>n \<in> set ns. nic_IPv4Address n \<noteq> '''')" if "ns \<noteq> []" for ns
    using that by (cases ns) auto
  have disks: "find (\<lambda>d. \<not> d_Supported d) ds = None \<longleftrightarrow> list_all d_Supported ds" for ds
    by (auto simp: find_None_iff list_all_iff)
  have bg: "supports_background_import (i_Properties i) \<longleftrightarrow>
      ip_BackgroundImport (i_Properties i) \<and> \<not> needs_background_import_verification i"
    by (auto simp: supports_background_import_iff needs_background_import_verification_def)
  have ip: "(ip_NICs (i_Properties i) \<noteq> [] \<and> \<not> (\<exists>n \<in> set (ip_NICs (i_Properties i)). nic_IPv4Address n \<noteq> '''')) \<longleftrightarrow>
      \<not> (ip_NICs (i_Properties i) = [] \<or> nic_IPv4Address ` set (ip_NICs (i_Properties i)) \<noteq> {''''})"
    using nics by blast
  show ?thesis
    unfolding disabled_reason_of_def get_name_def disks [symmetric] Let_def ip bg
    by (simp only: if_err_None if_err2_None case_err_None ignore_None option.distinct if_False if_True HOL.simp_thms) argo
qed

end
