(* ===== verification/Model_Network.thy ===== *)
theory Model_Network
  imports Model_Instance
begin

text \<open>
  Networks found on a source (\<^verbatim>\<open>internal/migration/network_model.go\<close>): validation, the default
  placement of a network on a target, the networks that a set of instances uses, and the SDN tags
  that the networks' properties carry for the instances.
\<close>

record network =
  n_ID :: int
  n_UUID :: uuid
  n_Type :: network_type
  n_SourceSpecificID :: string
  n_Location :: string
  n_Source :: string
  n_Properties :: "string option"
  n_Overrides :: network_placement

type_synonym networks = "network list"

record api_network =
  an_UUID :: uuid
  an_SourceSpecificID :: string
  an_Location :: string
  an_Source :: string
  an_Type :: network_type
  an_Properties :: "string option"
  an_Placement :: network_placement
  an_Overrides :: network_placement

definition network_validate :: "ext \<Rightarrow> network \<Rightarrow> err option" where
  "network_validate x n =
     first_err
      [err_when (n_ID n < 0) (ErrValidation ''Invalid network, id can not be negative'' []),
       err_when (n_UUID n = uuid_nil) (ErrValidation ''Invalid network, UUID can not be empty'' []),
       err_when (n_SourceSpecificID n = '''') (ErrValidation ''Invalid network, name can not be empty'' []),
       err_when (n_Type n \<notin> {NETWORKTYPE_VMWARE_DISTRIBUTED, NETWORKTYPE_VMWARE_DISTRIBUTED_NSX,
                            NETWORKTYPE_VMWARE_STANDARD, NETWORKTYPE_VMWARE_NSX})
         (ErrValidation ''Invalid network, type %q is invalid'' [AStr (network_type_string (n_Type n))]),
       err_when (n_Location n = '''') (ErrValidation ''Invalid network, location can not be empty'' []),
       err_when (n_Source n = '''') (ErrValidation ''Invalid network, source can not be empty'' []),
       (case n_Properties n of
          None \<Rightarrow> None
        | Some raw \<Rightarrow>
            (case (if n_Type n = NETWORKTYPE_VMWARE_DISTRIBUTED_NSX \<or> n_Type n = NETWORKTYPE_VMWARE_NSX
                   then map_sum id (\<lambda>_. ()) (x_nsx_props x raw) else map_sum id (\<lambda>_. ()) (x_vcenter_props x raw)) of
               Inl e \<Rightarrow> Some (ErrValidation ''Invalid network, unexpected properties data: %v'' [AErr e])
             | Inr _ \<Rightarrow> None)),
       (if n_Overrides n \<noteq> network_placement_empty then
          first_err
           [(if np_Network (n_Overrides n) \<noteq> '''' then
               (case x_api_name x (np_Network (n_Overrides n)) of None \<Rightarrow> None
                | Some e \<Rightarrow> Some (ErrValidation ''Invalid network name override %q: %v''
                             [AStr (np_Network (n_Overrides n)), AErr e]))
             else None),
            (case network_placement_validate (n_Overrides n) of None \<Rightarrow> None
             | Some e \<Rightarrow> Some (ErrValidation ''Invalid network override: %v'' [AErr e]))]
        else None)]"

text \<open>
  The map from NIC networks to sources is keyed by the network's identifier alone, so the last
  instance wins.
\<close>

definition nic_sources :: "instances \<Rightarrow> string \<Rightarrow> string option" where
  "nic_sources insts =
     map_of (rev (concat (map (\<lambda>i. map (\<lambda>n. (nic_SourceSpecificID n, i_Source i))
                                  (ip_NICs (i_Properties i))) insts)))"

definition filter_used_networks :: "networks \<Rightarrow> instances \<Rightarrow> networks" where
  "filter_used_networks nets insts =
     filter (\<lambda>n. nic_sources insts (n_SourceSpecificID n) = Some (n_Source n)) nets"

text \<open>
  SDN tags per instance. The first component tells whether any network had SDN data; a tag is
  added once, and tags without a value are dropped.
\<close>

definition add_sdn_tags :: "sdn_tag list \<Rightarrow> sdn_tag list \<Rightarrow> sdn_tag list" where
  "add_sdn_tags old new =
     fold (\<lambda>t acc. if st_Tag t = '''' \<or> t \<in> set acc then acc else acc @ [t]) new old"

fun sdn_tags_from ::
    "ext \<Rightarrow> bool \<Rightarrow> (uuid \<rightharpoonup> sdn_tag list) \<Rightarrow> networks \<Rightarrow> err + bool \<times> (uuid \<rightharpoonup> sdn_tag list)" where
  "sdn_tags_from x has m [] = Inr (has, m)"
| "sdn_tags_from x has m (n # ns) =
     (if n_Type n \<noteq> NETWORKTYPE_VMWARE_NSX \<and> n_Type n \<noteq> NETWORKTYPE_VMWARE_DISTRIBUTED_NSX
      then sdn_tags_from x has m ns
      else (case n_Properties n of
        None \<Rightarrow> sdn_tags_from x has m ns
      | Some raw \<Rightarrow>
          if raw = '''' then sdn_tags_from x has m ns
          else (case x_nsx_props x raw of
            Inl e \<Rightarrow> Inl (Errorf ''Failed to parse properties of network %q: %w'' [AStr (n_Location n), AWrap e])
          | Inr props \<Rightarrow>
              if nsx_SegmentName props = '''' then sdn_tags_from x has m ns
              else sdn_tags_from x True
                (fold (\<lambda>v m. m(nv_UUID v \<mapsto> add_sdn_tags (case m (nv_UUID v) of None \<Rightarrow> [] | Some l \<Rightarrow> l) (nv_Tags v)))
                   (nsx_SegmentVMs props) m) ns)))"

definition networks_sdn_tags :: "ext \<Rightarrow> networks \<Rightarrow> err + (uuid \<rightharpoonup> sdn_tag list) option" where
  "networks_sdn_tags x ns =
     (case sdn_tags_from x False Map.empty ns of
        Inl e \<Rightarrow> Inl e
      | Inr (has, m) \<Rightarrow> Inr (if has then Some m else None))"

definition network_to_api :: "ext \<Rightarrow> network \<Rightarrow> err + api_network" where
  "network_to_api x n =
     (let base = \<lparr>np_Network = replace_char (CHR '' '') (CHR ''-'') (path_base (n_Location n)),
                  np_NICType = INCUSNICTYPE_MANAGED, np_VlanID = ''''\<rparr>;
          api = (\<lambda>pl. \<lparr>an_UUID = n_UUID n, an_SourceSpecificID = n_SourceSpecificID n, an_Location = n_Location n,
                  an_Source = n_Source n, an_Type = n_Type n, an_Properties = n_Properties n,
                  an_Placement = pl, an_Overrides = n_Overrides n\<rparr>)
      in if n_Type n = NETWORKTYPE_VMWARE_DISTRIBUTED then
           (case x_vcenter_props x (case n_Properties n of None \<Rightarrow> '''' | Some raw \<Rightarrow> raw) of
              Inl e \<Rightarrow> Inl (Errorf ''Failed to parse network properties for network %q: %w''
                         [AStr (n_Location n), AWrap e])
            | Inr props \<Rightarrow>
                Inr (api (base\<lparr>np_NICType := INCUSNICTYPE_PHYSICAL,
                   np_VlanID := (if vc_VlanRanges props \<noteq> [] then str_join '','' (vc_VlanRanges props)
                                 else if vc_VlanID props \<noteq> 0 then show_int (vc_VlanID props)
                                 else '''')\<rparr>)))
         else Inr (api base))"

section \<open>Lemmas\<close>

text \<open>\<open>uses\<close>: some NIC of the instance is on the network, on the instance's own source.\<close>

definition uses :: "inst \<Rightarrow> network \<Rightarrow> bool" where
  "uses i n \<longleftrightarrow> i_Source i = n_Source n \<and>
     n_SourceSpecificID n \<in> nic_SourceSpecificID ` set (ip_NICs (i_Properties i))"

lemma nic_sources_sound:
  "nic_sources insts k = Some s \<Longrightarrow>
     \<exists>i \<in> set insts. i_Source i = s \<and> k \<in> nic_SourceSpecificID ` set (ip_NICs (i_Properties i))"
  unfolding nic_sources_def by (drule map_of_SomeD) fastforce

lemma nic_sources_dom:
  "i \<in> set insts \<Longrightarrow> k \<in> nic_SourceSpecificID ` set (ip_NICs (i_Properties i)) \<Longrightarrow> nic_sources insts k \<noteq> None"
  unfolding nic_sources_def map_of_eq_None_iff set_rev set_concat by (auto simp: image_iff)

lemma filter_used_networks_sound:
  "n \<in> set (filter_used_networks nets insts) \<Longrightarrow> n \<in> set nets \<and> (\<exists>i \<in> set insts. uses i n)"
  by (auto simp: filter_used_networks_def uses_def dest: nic_sources_sound)

lemma filter_used_networks_one_source:
  assumes "\<forall>i \<in> set insts. i_Source i = s" and "n \<in> set nets" and "i \<in> set insts" and "uses i n"
  shows "n \<in> set (filter_used_networks nets insts)"
proof -
  have "nic_sources insts (n_SourceSpecificID n) \<noteq> None"
    using assms by (intro nic_sources_dom) (auto simp: uses_def)
  then obtain s' where s': "nic_sources insts (n_SourceSpecificID n) = Some s'" by blast
  then have "s' = n_Source n" using nic_sources_sound assms by (fastforce simp: uses_def)
  with s' assms(2) show ?thesis by (simp add: filter_used_networks_def)
qed

lemma network_to_api_ids:
  "network_to_api x n = Inr a \<Longrightarrow>
     an_SourceSpecificID a = n_SourceSpecificID n \<and> an_Overrides a = n_Overrides n"
  by (auto simp: network_to_api_def Let_def split: if_splits sum.splits)

text \<open>
  Filtering networks by use returns only networks that some given instance uses (a NIC on it,
  on the same source), and when all instances come from one source it returns every such network.
\<close>

theorem used_networks_one_source:
  assumes "i_Source ` set insts \<subseteq> {s}"
  shows "set (filter_used_networks nets insts) = {n \<in> set nets. \<exists>i \<in> set insts. uses i n}"
proof (intro equalityI subsetI)
  fix n assume "n \<in> set (filter_used_networks nets insts)"
  then show "n \<in> {n \<in> set nets. \<exists>i \<in> set insts. uses i n}"
    using filter_used_networks_sound by simp
next
  fix n assume "n \<in> {n \<in> set nets. \<exists>i \<in> set insts. uses i n}"
  then obtain i where "n \<in> set nets" "i \<in> set insts" "uses i n" by blast
  moreover have "\<forall>i \<in> set insts. i_Source i = s" using assms by (simp add: image_subset_iff)
  ultimately show "n \<in> set (filter_used_networks nets insts)"
    by (rule filter_used_networks_one_source [rotated])
qed

definition sample_net :: network where
  "sample_net = \<lparr>n_ID = 1, n_UUID = 9, n_Type = NETWORKTYPE_VMWARE_STANDARD, n_SourceSpecificID = ''net-1'',
     n_Location = ''/dc/net'', n_Source = ''src'', n_Properties = None, n_Overrides = network_placement_empty\<rparr>"

theorem used_networks_one_source_witness:
  "set (filter_used_networks [sample_net, sample_net\<lparr>n_Source := ''other''\<rparr>] [sample_inst]) = {sample_net}"
proof -
  have "uses sample_inst sample_net" "\<not> uses sample_inst (sample_net\<lparr>n_Source := ''other''\<rparr>)"
    by (simp_all add: uses_def sample_net_def sample_defs)
  then have eq: "{n \<in> set [sample_net, sample_net\<lparr>n_Source := ''other''\<rparr>]. \<exists>i \<in> set [sample_inst]. uses i n} = {sample_net}"
    by auto
  have "i_Source ` set [sample_inst] \<subseteq> {''src''}" by (simp add: sample_inst_def)
  from used_networks_one_source [OF this] show ?thesis by (simp only: eq)
qed

text \<open>
  With instances of several sources a used network can be lost: when a later instance of another
  source has its last NIC on a network with the same identifier, the earlier instance's network is
  filtered out although it is in use.
\<close>

theorem used_network_lost:
  assumes "ip_NICs (i_Properties j) = ns @ [nic]" and "nic_SourceSpecificID nic = n_SourceSpecificID n"
    and "i_Source j \<noteq> n_Source n"
  shows "n \<notin> set (filter_used_networks nets (insts @ [j]))"
  using assms by (simp add: filter_used_networks_def nic_sources_def)

theorem used_network_lost_witness:
  "uses sample_inst sample_net \<and>
   sample_net \<notin> set (filter_used_networks [sample_net] ([sample_inst] @ [sample_inst\<lparr>i_Source := ''other''\<rparr>]))"
proof
  show "uses sample_inst sample_net" by (simp add: uses_def sample_net_def sample_defs)
  show "sample_net \<notin> set (filter_used_networks [sample_net] ([sample_inst] @ [sample_inst\<lparr>i_Source := ''other''\<rparr>]))"
    by (rule used_network_lost [of _ "[]" sample_nic]) (simp_all add: sample_net_def sample_defs)
qed

end
