(* ===== verification/Model_Window.thy ===== *)
theory Model_Window
  imports Externals
begin

text \<open>
  Migration windows (\<^verbatim>\<open>internal/migration/window_model.go\<close>): a span of time in which the final
  phase of a migration may run. A zero start, end or lockout means that the bound is not set.
\<close>

record window =
  w_ID :: int
  w_Name :: string
  w_Start :: time
  w_End :: time
  w_Lockout :: time
  w_Batch :: string
  w_Config :: window_config

type_synonym windows = "window list"

definition empty_window :: window where
  "empty_window = \<lparr>w_ID = 0, w_Name = '''', w_Start = 0, w_End = 0, w_Lockout = 0, w_Batch = '''',
     w_Config = \<lparr>wc_Capacity = 0\<rparr>\<rparr>"

definition window_is_empty :: "window \<Rightarrow> bool" where
  "window_is_empty w \<longleftrightarrow> time_is_zero (w_Start w) \<and> time_is_zero (w_End w) \<and> time_is_zero (w_Lockout w)"

definition window_begun :: "time \<Rightarrow> window \<Rightarrow> bool" where
  "window_begun now w \<longleftrightarrow> time_is_zero (w_Start w) \<or> time_before (w_Start w) now"

definition window_ended :: "time \<Rightarrow> window \<Rightarrow> bool" where
  "window_ended now w \<longleftrightarrow> \<not> time_is_zero (w_End w) \<and> time_before (w_End w) now"

definition window_locked :: "time \<Rightarrow> window \<Rightarrow> bool" where
  "window_locked now w \<longleftrightarrow>
     window_ended now w \<or> (\<not> time_is_zero (w_Lockout w) \<and> time_before (w_Lockout w) now)"

definition window_validate :: "ext \<Rightarrow> window \<Rightarrow> err option" where
  "window_validate x w =
     (case x_api_name x (w_Name w) of
        Some e \<Rightarrow> Some (Errorf ''Window name %q cannot be used: %w'' [AStr (w_Name w), AWrap e])
      | None \<Rightarrow>
          if \<not> time_is_zero (w_Start w) \<and> \<not> time_is_zero (w_End w) \<and> time_before (w_End w) (w_Start w)
          then Some (Errorf ''Batch migration window end time is before start time'' [])
          else if \<not> time_is_zero (w_End w) \<and> time_before (w_End w) (x_now x)
          then Some (Errorf ''Batch migration window has already passed'' [])
          else if \<not> time_is_zero (w_Lockout w) \<and> time_after (w_Start w) (w_Lockout w)
          then Some (Errorf ''Batch migration window lockout time is before the start time'' [])
          else if \<not> time_is_zero (w_Lockout w) \<and> time_before (w_End w) (w_Lockout w)
          then Some (Errorf ''Batch migration window lockout time is after the end time'' [])
          else if wc_Capacity (w_Config w) < 0
          then Some (Errorf ''Window capacity %d must be greater than 0'' [AInt (wc_Capacity (w_Config w))])
          else None)"

definition fits_duration :: "ext \<Rightarrow> window \<Rightarrow> duration \<Rightarrow> bool" where
  "fits_duration x w d =
     (if window_validate x w \<noteq> None then False
      else if window_locked (x_now x) w then False
      else if time_is_zero (w_End w) then True
      else let start = (if time_before (w_Start w) (x_now x) then x_now x else w_Start w)
           in time_before (time_add start (dur_add d minute)) (w_End w))"

text \<open>
  \<open>Windows.Validate\<close> first sorts by start (\<^verbatim>\<open>sort.Slice\<close>, which leaves the order of equal starts
  open; the model takes the stable one) and then checks each window and its predecessor.
\<close>

fun windows_validate_from :: "ext \<Rightarrow> nat \<Rightarrow> window option \<Rightarrow> windows \<Rightarrow> err option" where
  "windows_validate_from x i prev [] = None"
| "windows_validate_from x i prev (w # ws) =
     (case window_validate x w of
        Some e \<Rightarrow> Some e
      | None \<Rightarrow>
          (case prev of
             Some p \<Rightarrow>
               if time_before (w_Start w) (w_End p)
               then Some (Errorf ''Window %d with start time %q overlaps with window %d with end time %q''
                      [AInt (int i), AStr (x_time_text x (w_Start w)), AInt (int i - 1), AStr (x_time_text x (w_End p))])
               else windows_validate_from x (Suc i) (Some w) ws
           | None \<Rightarrow> windows_validate_from x (Suc i) (Some w) ws))"

definition windows_validate :: "ext \<Rightarrow> windows \<Rightarrow> err option" where
  "windows_validate x ws = windows_validate_from x 0 None (sort_key w_Start ws)"

definition has_valid_window :: "ext \<Rightarrow> windows \<Rightarrow> err option" where
  "has_valid_window x ws =
     (if ws = [] \<or> (\<exists>w \<in> set ws. window_validate x w = None) then None
      else Some (Errorf ''No valid migration windows found'' []))"

text \<open>The loop of \<open>GetEarliest\<close>: the best window so far, replaced by a strictly earlier fitting one.\<close>

fun earliest_from :: "ext \<Rightarrow> duration \<Rightarrow> window option \<Rightarrow> windows \<Rightarrow> window option" where
  "earliest_from x d best [] = best"
| "earliest_from x d best (w # ws) =
     earliest_from x d
       (if (case best of None \<Rightarrow> True | Some b \<Rightarrow> time_before (w_Start w) (w_Start b)) \<and> fits_duration x w d
        then Some w else best) ws"

definition get_earliest :: "ext \<Rightarrow> windows \<Rightarrow> duration \<Rightarrow> err + window" where
  "get_earliest x ws minDuration =
     (if ws = [] then Inr empty_window
      else (case earliest_from x minDuration None ws of
              None \<Rightarrow> Inl (StatusErr http_not_found ''No available migration windows'' [])
            | Some w \<Rightarrow> Inr w))"

definition window_to_api :: "window \<Rightarrow> api_window" where
  "window_to_api w = \<lparr>aw_Name = w_Name w, aw_Start = w_Start w, aw_End = w_End w,
     aw_Lockout = w_Lockout w, aw_Config = w_Config w\<rparr>"

section \<open>Lemmas\<close>

lemma window_validate_None:
  "window_validate x w = None \<longleftrightarrow>
     x_api_name x (w_Name w) = None \<and>
     (w_Start w \<noteq> 0 \<and> w_End w \<noteq> 0 \<longrightarrow> w_Start w \<le> w_End w) \<and>
     (w_End w \<noteq> 0 \<longrightarrow> x_now x \<le> w_End w) \<and>
     (w_Lockout w \<noteq> 0 \<longrightarrow> w_Start w \<le> w_Lockout w \<and> w_Lockout w \<le> w_End w) \<and>
     0 \<le> wc_Capacity (w_Config w)"
  unfolding window_validate_def by (auto simp: time_simps split: option.splits)

lemma earliest_from_Cons:
  "earliest_from x d best (w # ws) =
     (if fits_duration x w d \<and> (\<forall>b. best = Some b \<longrightarrow> w_Start w < w_Start b)
      then earliest_from x d (Some w) ws else earliest_from x d best ws)"
  by (simp add: time_before_def split: option.split)

declare earliest_from.simps(2) [simp del]

lemma earliest_from_Some:
  "earliest_from x d best ws = Some w \<Longrightarrow> best = Some w \<or> w \<in> set ws \<and> fits_duration x w d"
  by (induction ws arbitrary: best) (auto simp: earliest_from_Cons split: if_splits)

lemma earliest_from_not_None: "earliest_from x d (Some b) ws \<noteq> None"
  by (induction ws arbitrary: b) (auto simp: earliest_from_Cons)

lemma earliest_from_None:
  "earliest_from x d None ws = None \<longleftrightarrow> (\<forall>w \<in> set ws. \<not> fits_duration x w d)"
  by (induction ws) (auto simp: earliest_from_Cons earliest_from_not_None)

lemma earliest_from_best:
  "earliest_from x d (Some b) ws = Some w \<Longrightarrow> w_Start w \<le> w_Start b"
proof (induction ws arbitrary: b)
  case (Cons v ws)
  show ?case
  proof (cases "fits_duration x v d \<and> w_Start v < w_Start b")
    case True
    with Cons.prems have "earliest_from x d (Some v) ws = Some w" by (simp add: earliest_from_Cons)
    from Cons.IH [OF this] True show ?thesis by simp
  next
    case False
    with Cons.prems have "earliest_from x d (Some b) ws = Some w" by (auto simp: earliest_from_Cons)
    from Cons.IH [OF this] show ?thesis .
  qed
qed simp

lemma earliest_from_minimal:
  "earliest_from x d best ws = Some w \<Longrightarrow> v \<in> set ws \<Longrightarrow> fits_duration x v d \<Longrightarrow> w_Start w \<le> w_Start v"
proof (induction ws arbitrary: best)
  case (Cons u ws)
  let ?take = "fits_duration x u d \<and> (\<forall>b. best = Some b \<longrightarrow> w_Start u < w_Start b)"
  have r: "earliest_from x d (if ?take then Some u else best) ws = Some w"
    using Cons.prems(1) by (auto simp: earliest_from_Cons split: if_splits)
  show ?case
  proof (cases "v \<in> set ws")
    case True
    with Cons.IH [OF r] Cons.prems(3) show ?thesis by simp
  next
    case False
    with Cons.prems have v: "v = u" by simp
    show ?thesis
    proof (cases ?take)
      case True
      with r v show ?thesis using earliest_from_best [of x d u ws w] by simp
    next
      case False
      with v Cons.prems(3) obtain b where b: "best = Some b" "w_Start b \<le> w_Start u" by auto
      with r False have "earliest_from x d (Some b) ws = Some w" by (auto split: if_splits)
      from earliest_from_best [OF this] b v show ?thesis by simp
    qed
  qed
qed simp

text \<open>Validated windows in their order: every one is valid, and with a set end it ends before all later ones start.\<close>

lemma windows_validate_from_Cons:
  "windows_validate_from x i prev (w # ws) = None \<longleftrightarrow>
     window_validate x w = None \<and> (\<forall>p. prev = Some p \<longrightarrow> w_End p \<le> w_Start w) \<and>
     windows_validate_from x (Suc i) (Some w) ws = None"
  by (cases prev) (auto simp: time_before_def split: option.split)

declare windows_validate_from.simps(2) [simp del]

lemma windows_validate_from_each:
  "windows_validate_from x i p ws = None \<Longrightarrow> \<forall>w \<in> set ws. window_validate x w = None"
  by (induction ws arbitrary: i p) (auto simp: windows_validate_from_Cons)

lemma windows_validate_from_adjacent:
  "windows_validate_from x i prev ws = None \<Longrightarrow> Suc j < length ws \<Longrightarrow> w_End (ws ! j) \<le> w_Start (ws ! Suc j)"
proof (induction ws arbitrary: i prev j)
  case (Cons w ws)
  then have rest: "windows_validate_from x (Suc i) (Some w) ws = None"
    by (simp add: windows_validate_from_Cons)
  show ?case
  proof (cases j)
    case 0
    with Cons.prems(2) obtain v vs where "ws = v # vs" by (cases ws) auto
    with rest 0 show ?thesis by (simp add: windows_validate_from_Cons)
  next
    case (Suc k)
    with Cons.IH [OF rest, of k] Cons.prems(2) show ?thesis by simp
  qed
qed simp

text \<open>In order of start, a window with a set end that is before its successor's start is before all later starts.\<close>

lemma windows_validate_before:
  assumes "windows_validate x ws = None" and "i < j" and "j < length ws"
  shows "w_End (sort_key w_Start ws ! i) \<le> w_Start (sort_key w_Start ws ! j)"
proof -
  let ?ss = "sort_key w_Start ws"
  have "w_End (?ss ! i) \<le> w_Start (?ss ! Suc i)"
    using windows_validate_from_adjacent assms unfolding windows_validate_def
    by (metis Suc_lessI length_sort less_trans)
  also have "w_Start (?ss ! Suc i) \<le> w_Start (?ss ! j)"
  proof -
    have "sorted (map w_Start ?ss)" by simp
    moreover have "Suc i \<le> j" "j < length (map w_Start ?ss)" using assms by auto
    ultimately have "map w_Start ?ss ! Suc i \<le> map w_Start ?ss ! j" by (rule sorted_nth_mono)
    with assms show ?thesis by simp
  qed
  finally show ?thesis .
qed

section \<open>Properties\<close>

text \<open>
  \<open>GetEarliest\<close> returns a window of the list that fits the duration and starts no later than
  any other fitting one; it fails exactly when there are windows and none fits, and returns the
  empty window (always begun, never locked) exactly when there are none.
\<close>

theorem get_earliest_correct:
  "case get_earliest x ws d of
     Inl e \<Rightarrow> ws \<noteq> [] \<and> (\<forall>w \<in> set ws. \<not> fits_duration x w d) \<and> err_status http_not_found e
   | Inr w \<Rightarrow> (if ws = [] then w = empty_window
       else w \<in> set ws \<and> fits_duration x w d \<and>
         Ball {v \<in> set ws. fits_duration x v d} (\<lambda>v. w_Start w \<le> w_Start v))"
proof (cases "earliest_from x d None ws")
  case None
  then show ?thesis using earliest_from_None [of x d ws] by (auto simp: get_earliest_def)
next
  case (Some w)
  then show ?thesis
    using earliest_from_Some [OF Some] earliest_from_minimal [OF Some] by (auto simp: get_earliest_def)
qed

definition sample_window :: window where
  "sample_window = empty_window\<lparr>w_Name := ''w'', w_Start := 2000, w_End := 3000 + 2 * minute\<rparr>"

theorem get_earliest_correct_witness:
  "get_earliest plain_ext [sample_window\<lparr>w_Start := 2500\<rparr>, sample_window] 900 = Inr sample_window"
proof -
  let ?ws = "[sample_window\<lparr>w_Start := 2500\<rparr>, sample_window]"
  have fits: "fits_duration plain_ext sample_window 900"
    by (simp add: fits_duration_def window_validate_None window_locked_def window_ended_def sample_window_def
        empty_window_def minute_def second_def time_simps dur_add_def wrap64_def)
  have ne: "?ws \<noteq> []" by simp
  show ?thesis
  proof (cases "get_earliest plain_ext ?ws 900")
    case (Inl e)
    with get_earliest_correct [of ?ws plain_ext 900] fits show ?thesis by simp
  next
    case (Inr w)
    with get_earliest_correct [of ?ws plain_ext 900] fits have "w \<in> set ?ws" "w_Start w \<le> w_Start sample_window"
      by auto
    then have "w = sample_window" by (auto simp: sample_window_def)
    with Inr show ?thesis by simp
  qed
qed

text \<open>
  A window set that passes validation has individually valid windows, and in the order of their
  starts every window with a set end is over before any later one starts, so two windows with set
  ends never overlap. (A window without an end is not seen to overlap later ones.)
\<close>

theorem validated_windows_disjoint:
  assumes "windows_validate x ws = None" and "i < j" and "j < length ws"
  shows "window_validate x (sort_key w_Start ws ! j) = None \<and>
    w_End (sort_key w_Start ws ! i) \<le> w_Start (sort_key w_Start ws ! j)"
proof -
  have "sort_key w_Start ws ! j \<in> set (sort_key w_Start ws)" using assms(3) by (intro nth_mem) simp
  then show ?thesis
    using windows_validate_before [OF assms] windows_validate_from_each assms(1)
    unfolding windows_validate_def by blast
qed

theorem validated_windows_disjoint_witness:
  "w_End (sort_key w_Start [sample_window\<lparr>w_Start := 3000 + 3 * minute, w_End := 3000 + 9 * minute\<rparr>, sample_window] ! 0)
     \<le> w_Start (sort_key w_Start [sample_window\<lparr>w_Start := 3000 + 3 * minute, w_End := 3000 + 9 * minute\<rparr>, sample_window] ! 1)"
proof -
  let ?ws = "[sample_window\<lparr>w_Start := 3000 + 3 * minute, w_End := 3000 + 9 * minute\<rparr>, sample_window]"
  have "windows_validate plain_ext ?ws = None"
    by (simp add: windows_validate_def windows_validate_from_Cons window_validate_None sample_window_def
        empty_window_def minute_def second_def)
  from validated_windows_disjoint [OF this, of 0 1] show ?thesis by simp
qed

text \<open>
  \<open>FitsDuration\<close> is the test it is meant to be when the sum of the duration and the one-minute
  buffer does not wrap around in 64 bits: a valid, unlocked window fits when it has no end, or when
  the duration plus a minute, counted from its start or from now if that is later, is over before
  its end.
\<close>

theorem fits_duration_meaning:
  assumes "window_validate x w = None" and "- (2 ^ 63) \<le> d + minute" and "d + minute < 2 ^ 63"
  shows "fits_duration x w d \<longleftrightarrow> \<not> window_locked (x_now x) w \<and>
    (w_End w = 0 \<or> max (w_Start w) (x_now x) + d + minute < w_End w)"
  using assms by (auto simp: fits_duration_def dur_add_def wrap64_id time_simps Let_def max_def)

theorem fits_duration_meaning_witness:
  "\<not> fits_duration plain_ext sample_window (2 * minute)"
  using fits_duration_meaning [of plain_ext sample_window "2 * minute"]
  by (simp add: window_validate_None sample_window_def empty_window_def minute_def second_def)

end
