(* ===== verification/Model_Batch.thy ===== *)
theory Model_Batch
  imports Model_Network Model_Window
begin

text \<open>
  Batches, the sets of instances that are migrated together
  (\<^verbatim>\<open>internal/migration/batch_model.go\<close>): validation, and the placement of one instance on the
  batch's target.
\<close>

record batch =
  b_ID :: int
  b_Name :: string
  b_Status :: batch_status
  b_StatusMessage :: string
  b_IncludeExpression :: string
  b_StartDate :: time
  b_Constraints :: "batch_constraint list"
  b_Config :: batch_config
  b_Defaults :: batch_defaults

definition empty_instance :: inst where
  "empty_instance =
     \<lparr>i_ID = 0, i_UUID = uuid_nil, i_Source = '''', i_SourceType = SOURCETYPE_OTHER '''',
      i_LastUpdateFromSource = 0,
      i_Overrides = \<lparr>ov_Configurable = \<lparr>cfg_Name = '''', cfg_CPUs = 0, cfg_Memory = 0, cfg_Config = fmempty,
           cfg_Architecture = ''''\<rparr>, ov_LastUpdate = 0, ov_Comment = '''', ov_OSType = OSTYPE_OTHER '''',
         ov_Distribution = DistroOther '''', ov_DistributionVersion = '''', ov_DisableMigration = False,
         ov_IgnoreRestrictions = False, ov_StartedAfterMigration = False, ov_StoppedAfterMigration = False\<rparr>,
      i_Properties = \<lparr>ip_Configurable = \<lparr>cfg_Name = '''', cfg_CPUs = 0, cfg_Memory = 0, cfg_Config = fmempty,
           cfg_Architecture = ''''\<rparr>, ip_UUID = uuid_nil, ip_SourceSpecificID = '''', ip_Location = '''',
         ip_Description = '''', ip_OS = '''', ip_OSDescription = '''', ip_OSTemplate = '''', ip_SecureBoot = False,
         ip_LegacyBoot = False, ip_TPM = False, ip_Running = False, ip_BackgroundImport = False, ip_NICs = [],
         ip_Disks = [], ip_Snapshots = [], ip_SDNTags = None, ip_Tags = [], ip_Monitoring = None\<rparr>\<rparr>"

section \<open>Placement\<close>

text \<open>The network of one NIC: the first of the batch's networks that matches NIC and source.\<close>

definition nic_placement :: "ext \<Rightarrow> inst \<Rightarrow> networks \<Rightarrow> nic \<Rightarrow> err + network_placement" where
  "nic_placement x i usedNetworks n =
     (let missing = Inl (Errorf ''No network %q associated with instance %q on source %q''
                      [AStr (nic_SourceSpecificID n), AStr (get_name i), AStr (i_Source i)])
      in case find (\<lambda>net. nic_SourceSpecificID n = n_SourceSpecificID net \<and> i_Source i = n_Source net) usedNetworks of
           None \<Rightarrow> missing
         | Some net \<Rightarrow>
             (case network_to_api x net of
                Inl e \<Rightarrow> Inl e
              | Inr api \<Rightarrow>
                  if an_SourceSpecificID api = '''' then missing
                  else Inr (network_placement_apply (an_Placement api) (an_Overrides api))))"

fun nics_placement ::
    "ext \<Rightarrow> inst \<Rightarrow> networks \<Rightarrow> nic list \<Rightarrow> (string, network_placement) fmap \<Rightarrow> err + (string, network_placement) fmap" where
  "nics_placement x i nets [] m = Inr m"
| "nics_placement x i nets (n # ns) m =
     (case nic_placement x i nets n of
        Inl e \<Rightarrow> Inl e
      | Inr cfg \<Rightarrow> nics_placement x i nets ns (fmupd (nic_HardwareAddress n) cfg m))"

definition get_incus_placement ::
    "ext \<Rightarrow> batch \<Rightarrow> inst \<Rightarrow> networks \<Rightarrow> placement \<Rightarrow> err + placement" where
  "get_incus_placement x b i usedNetworks ov =
     (let running = (if ov_StoppedAfterMigration (i_Overrides i) then False
                     else if ov_StartedAfterMigration (i_Overrides i) then True
                     else ip_Running (i_Properties i));
          pools = fmap_of_list (map (\<lambda>d. (d_Name d, bp_StoragePool (bd_Placement (b_Defaults b))))
                    (filter d_Supported (ip_Disks (i_Properties i))))
      in case nics_placement x i usedNetworks (ip_NICs (i_Properties i)) fmempty of
           Inl e \<Rightarrow> Inl e
         | Inr nets \<Rightarrow>
             Inr \<lparr>p_TargetName = (if p_TargetName ov \<noteq> '''' then p_TargetName ov
                                 else bp_Target (bd_Placement (b_Defaults b))),
                  p_TargetProject = (if p_TargetProject ov \<noteq> '''' then p_TargetProject ov
                                 else bp_TargetProject (bd_Placement (b_Defaults b))),
                  p_StoragePools = pools ++\<^sub>f p_StoragePools ov,
                  p_Networks = Some (nets ++\<^sub>f (case p_Networks ov of None \<Rightarrow> fmempty | Some m \<Rightarrow> m)),
                  p_Running = running\<rparr>)"

definition can_start :: "batch \<Rightarrow> bool" where
  "can_start b \<longleftrightarrow> b_Status b \<in> {BATCHSTATUS_DEFINED, BATCHSTATUS_ERROR, BATCHSTATUS_STOPPED}"

section \<open>Validation\<close>

definition name_err :: "ext \<Rightarrow> string \<Rightarrow> string \<Rightarrow> err option" where
  "name_err x fmt s =
     (case x_api_name x s of None \<Rightarrow> None | Some e \<Rightarrow> Some (ErrValidation fmt [AStr s, AErr e]))"

text \<open>The migration networks: names, VLANs, and no two for the same target and project.\<close>

fun migration_networks_validate ::
    "ext \<Rightarrow> (string \<times> string) set \<Rightarrow> migration_network_placement list \<Rightarrow> err option" where
  "migration_networks_validate x seen [] = None"
| "migration_networks_validate x seen (c # cs) =
     (case first_err
        [name_err x ''Invalid batch placement, migration network target %q is not a valid name: %v'' (mn_Target c),
         name_err x ''Invalid batch placement, migration network target project %q is not a valid name: %v'' (mn_TargetProject c),
         name_err x ''Invalid batch, target migration network name %q is not a valid name: %v'' (np_Network (mn_Placement c)),
         (case network_placement_validate (mn_Placement c) of None \<Rightarrow> None
          | Some e \<Rightarrow> Some (ErrValidation
              ''Invalid batch, target migration network for target %q and project %q is invalid: %v''
              [AStr (mn_Target c), AStr (mn_TargetProject c), AErr e])),
         err_when ((mn_Target c, mn_TargetProject c) \<in> seen)
           (ErrValidation ''Invalid batch, more than one migration network defined for target %q and project %q''
              [AStr (mn_Target c), AStr (mn_TargetProject c)])] of
        Some e \<Rightarrow> Some e
      | None \<Rightarrow> migration_networks_validate x (insert (mn_Target c, mn_TargetProject c) seen) cs)"

definition include_expression_err :: "ext \<Rightarrow> string \<Rightarrow> string \<Rightarrow> err option" where
  "include_expression_err x fmt e =
     (case compile_include_expression x empty_instance e False of
        Inr _ \<Rightarrow> None | Inl er \<Rightarrow> Some (ErrValidation fmt [AStr e, AErr er]))"

text \<open>
  The constraints: the name and the expression that are checked in the loop are the batch's, not
  the constraint's, as the code has it.
\<close>

fun constraints_validate :: "ext \<Rightarrow> batch \<Rightarrow> string set \<Rightarrow> batch_constraint list \<Rightarrow> err option" where
  "constraints_validate x b seen [] = None"
| "constraints_validate x b seen (c # cs) =
     (case first_err
        [name_err x ''Invalid constraint, %q is not a valid name: %v'' (b_Name b),
         err_when (c_IncludeExpression c \<in> seen)
           (ErrValidation ''Invalid batch constraint, include expression %q cannot be used more than once''
              [AStr (c_IncludeExpression c)]),
         include_expression_err x ''Invalid constraint %q is not a valid include expression: %v'' (b_IncludeExpression b),
         err_when (c_MaxConcurrentInstances c < 0)
           (ErrValidation ''Invalid constraint max concurrent instances must not be negative'' []),
         err_when (c_MinInstanceBootTime c \<noteq> 0 \<and> c_MinInstanceBootTime c \<le> 0)
           (ErrValidation ''Invalid constraint minimum boot time %q must be greater than 0''
              [AStr (x_dur_text x (c_MinInstanceBootTime c))])] of
        Some e \<Rightarrow> Some e
      | None \<Rightarrow> constraints_validate x b (insert (c_IncludeExpression c) seen) cs)"

definition batch_validate :: "ext \<Rightarrow> batch \<Rightarrow> err option" where
  "batch_validate x b =
     (let pl = bd_Placement (b_Defaults b); cfg = b_Config b;
          interval = AStr (x_dur_text x (bc_BackgroundSyncInterval cfg));
          limit = AStr (x_dur_text x (bc_FinalBackgroundSyncLimit cfg)) in
      first_err
       [err_when (b_ID b < 0) (ErrValidation ''Invalid batch, id can not be negative'' []),
        name_err x ''Invalid batch, %q is not a valid name: %v'' (b_Name b),
        name_err x ''Invalid batch placement, default target %q is not a valid name: %v'' (bp_Target pl),
        name_err x ''Invalid batch placement, default target project %q is not a valid name: %v'' (bp_TargetProject pl),
        name_err x ''Invalid batch placement, default storage pool %q is not a valid name: %v'' (bp_StoragePool pl),
        migration_networks_validate x {} (bd_MigrationNetwork (b_Defaults b)),
        (case batch_status_validate (b_Status b) of None \<Rightarrow> None
         | Some e \<Rightarrow> Some (ErrValidation ''Invalid status: %v'' [AErr e])),
        include_expression_err x ''Invalid batch %q is not a valid include expression: %v'' (b_IncludeExpression b),
        err_when (bc_PostMigrationRetries cfg < 0)
          (ErrValidation ''Invalid batch, post-migration retry count (%d) must be larger than 0''
             [AInt (bc_PostMigrationRetries cfg)]),
        constraints_validate x b {} (b_Constraints b),
        err_when (b_Status b = BATCHSTATUS_DEFINED \<and> \<not> time_is_zero (b_StartDate b))
          (ErrValidation ''Cannot set start time before batch %q has started'' [AStr (b_Name b)]),
        (if bc_PlacementScriptlet cfg \<noteq> '''' then
           (case x_scriptlet_valid x (bc_PlacementScriptlet cfg) (b_Name b) of None \<Rightarrow> None
            | Some e \<Rightarrow> Some (ErrValidation ''Invalid placement scriptlet: %v'' [AErr e]))
         else None),
        err_when (bc_BackgroundSyncInterval cfg \<le> 0)
          (ErrValidation ''Invalid background sync interval %q'' [interval]),
        err_when (bc_FinalBackgroundSyncLimit cfg \<le> 0)
          (ErrValidation ''Invalid final background sync limit %q'' [limit]),
        err_when (bc_BackgroundSyncInterval cfg < bc_FinalBackgroundSyncLimit cfg)
          (ErrValidation ''Final background sync limit %q cannot be greater than the background sync interval %q''
             [limit, interval])])"

definition batch_to_api :: "batch \<Rightarrow> windows \<Rightarrow> api_batch" where
  "batch_to_api b ws =
     \<lparr>ab_Name = b_Name b, ab_IncludeExpression = b_IncludeExpression b,
      ab_MigrationWindows = map window_to_api ws, ab_Constraints = b_Constraints b,
      ab_Defaults = b_Defaults b, ab_Config = b_Config b, ab_Status = b_Status b,
      ab_StatusMessage = b_StatusMessage b, ab_StartDate = b_StartDate b\<rparr>"

section \<open>Lemmas\<close>

lemma nics_placement_lookup:
  assumes "nics_placement x i nets ns m = Inr r"
  shows "fmdom r = fmdom m |\<union>| fset_of_list (map nic_HardwareAddress ns)"
    and "\<And>k cfg. fmlookup r k = Some cfg \<Longrightarrow> fmlookup m k = Some cfg \<or>
       (\<exists>n \<in> set ns. nic_HardwareAddress n = k \<and> nic_placement x i nets n = Inr cfg)"
proof -
  have "fmdom r = fmdom m |\<union>| fset_of_list (map nic_HardwareAddress ns) \<and>
    (\<forall>k cfg. fmlookup r k = Some cfg \<longrightarrow> fmlookup m k = Some cfg \<or>
       (\<exists>n \<in> set ns. nic_HardwareAddress n = k \<and> nic_placement x i nets n = Inr cfg))"
    using assms
  proof (induction ns arbitrary: m)
    case (Cons n ns)
    then obtain cfg where n: "nic_placement x i nets n = Inr cfg"
      and rest: "nics_placement x i nets ns (fmupd (nic_HardwareAddress n) cfg m) = Inr r"
      by (auto split: sum.splits)
    from Cons.IH [OF rest] n show ?case by (auto split: if_splits)
  qed simp
  then show "fmdom r = fmdom m |\<union>| fset_of_list (map nic_HardwareAddress ns)"
    and "\<And>k cfg. fmlookup r k = Some cfg \<Longrightarrow> fmlookup m k = Some cfg \<or>
       (\<exists>n \<in> set ns. nic_HardwareAddress n = k \<and> nic_placement x i nets n = Inr cfg)"
    by blast+
qed

lemma batch_validate_names:
  assumes "batch_validate x b = None"
  shows "x_api_name x (b_Name b) = None"
    and "x_api_name x (bp_Target (bd_Placement (b_Defaults b))) = None"
    and "x_api_name x (bp_TargetProject (bd_Placement (b_Defaults b))) = None"
    and "x_api_name x (bp_StoragePool (bd_Placement (b_Defaults b))) = None"
  using assms
  by (simp_all add: batch_validate_def Let_def first_err_None name_err_def split: option.splits)

lemma get_incus_placement_pools:
  assumes "get_incus_placement x b i nets ov = Inr p"
  shows "fmdom (p_StoragePools p) =
    fset_of_list (map d_Name (filter d_Supported (ip_Disks (i_Properties i)))) |\<union>| fmdom (p_StoragePools ov)"
  using assms by (auto simp: get_incus_placement_def Let_def comp_def split: sum.splits)

lemma get_incus_placement_fields:
  assumes "get_incus_placement x b i nets ov = Inr p"
  shows "p_TargetName p = (if p_TargetName ov \<noteq> '''' then p_TargetName ov
           else bp_Target (bd_Placement (b_Defaults b)))"
    and "p_TargetProject p = (if p_TargetProject ov \<noteq> '''' then p_TargetProject ov
           else bp_TargetProject (bd_Placement (b_Defaults b)))"
    and "\<exists>m. nics_placement x i nets (ip_NICs (i_Properties i)) fmempty = Inr m \<and>
           p_Networks p = Some (m ++\<^sub>f (case p_Networks ov of None \<Rightarrow> fmempty | Some m \<Rightarrow> m))"
  using assms by (auto simp: get_incus_placement_def Let_def split: sum.splits)


definition sample_batch :: batch where
  "sample_batch = \<lparr>b_ID = 1, b_Name = ''b1'', b_Status = BATCHSTATUS_DEFINED, b_StatusMessage = '''',
     b_IncludeExpression = ''true'', b_StartDate = 0, b_Constraints = [],
     b_Config = \<lparr>bc_RerunScriptlets = False, bc_PlacementScriptlet = '''', bc_PostMigrationRetries = 5,
       bc_RestrictionOverrides = \<lparr>ro_AllowUnknownOS = False, ro_AllowNoIPv4 = False,
         ro_AllowNoBackgroundImport = False\<rparr>,
       bc_BackgroundSyncInterval = 10 * minute, bc_FinalBackgroundSyncLimit = minute\<rparr>,
     b_Defaults = \<lparr>bd_Placement = \<lparr>bp_Target = ''t1'', bp_TargetProject = ''default'', bp_StoragePool = ''pool''\<rparr>,
       bd_MigrationNetwork = [], bd_ForceConflictResolution = False, bd_SyncLimit = 0\<rparr>\<rparr>"

lemma sample_batch_valid: "batch_validate plain_ext sample_batch = None"
  by (simp add: batch_validate_def sample_batch_def name_err_def include_expression_err_def
      compile_include_expression_def Let_def time_simps minute_def second_def)


lemma constraints_validate_names:
  "constraints_validate x b seen (map (\<lambda>c. c\<lparr>c_Name := nm (c_Name c)\<rparr>) cs) = constraints_validate x b seen cs"
  by (induction cs arbitrary: seen) (simp_all cong: option.case_cong)

text \<open>
  The names of a batch's constraints are not validated: whatever a constraint is called (the
  empty name included, which the check for names rejects), the verdict on the batch is the same.
\<close>

theorem constraint_names_unchecked:
  "batch_validate x (b\<lparr>b_Constraints := map (\<lambda>c. c\<lparr>c_Name := ''''\<rparr>) cs\<rparr>) =
   batch_validate x (b\<lparr>b_Constraints := cs\<rparr>)"
proof -
  have same: "constraints_validate x (b\<lparr>b_Constraints := as\<rparr>) seen ds = constraints_validate x b seen ds" for as seen ds
    by (induction ds arbitrary: seen) (simp_all cong: option.case_cong)
  show ?thesis
    using constraints_validate_names [of x b "{}" "\<lambda>_. ''''" cs]
    by (simp add: batch_validate_def same Let_def cong: option.case_cong)
qed

end
