(* ===== verification/Model_Queue.thy ===== *)
theory Model_Queue
  imports Model_Window
begin

text \<open>
  Queue entries, one per instance of a started batch (\<^verbatim>\<open>internal/migration/queue_model.go\<close>): the
  migration status that the scheduler, the worker and the user move, and the import stage that
  tells how far the copying of the disks is.
\<close>

datatype import_stage =
    IMPORTSTAGE_BACKGROUND | IMPORTSTAGE_FINAL | IMPORTSTAGE_COMPLETE | IMPORTSTAGE_OTHER string

fun import_stage_validate :: "import_stage \<Rightarrow> err option" where
  "import_stage_validate (IMPORTSTAGE_OTHER s) =
     Some (Errorf ''%s is not a valid migration import stage'' [AStr s])"
| "import_stage_validate _ = None"

text \<open>The order in which an import goes through the stages; an unknown stage is after all of them.\<close>

instantiation import_stage :: preorder
begin

fun stage_rank :: "import_stage \<Rightarrow> nat" where
  "stage_rank IMPORTSTAGE_BACKGROUND = 0"
| "stage_rank IMPORTSTAGE_FINAL = 1"
| "stage_rank IMPORTSTAGE_COMPLETE = 2"
| "stage_rank (IMPORTSTAGE_OTHER s) = 3"

definition less_eq_import_stage :: "import_stage \<Rightarrow> import_stage \<Rightarrow> bool" where
  "s \<le> t \<longleftrightarrow> stage_rank s \<le> stage_rank t"

definition less_import_stage :: "import_stage \<Rightarrow> import_stage \<Rightarrow> bool" where
  "s < t \<longleftrightarrow> stage_rank s < stage_rank t"

instance
  by standard (auto simp: less_eq_import_stage_def less_import_stage_def)

end

record queue_entry =
  q_ID :: int
  q_InstanceUUID :: uuid
  q_BatchName :: string
  q_SecretToken :: uuid
  q_ImportStage :: import_stage
  q_MigrationStatus :: migration_status
  q_MigrationStatusMessage :: string
  q_LastWorkerStatus :: worker_response_type
  q_LastBackgroundSync :: time
  q_MigrationWindowName :: "string option"
  q_Placement :: placement

type_synonym queue_entries = "queue_entry list"

definition is_migrating :: "queue_entry \<Rightarrow> bool" where
  "is_migrating q \<longleftrightarrow> q_MigrationStatus q \<in>
     {MIGRATIONSTATUS_CREATING, MIGRATIONSTATUS_BACKGROUND_IMPORT, MIGRATIONSTATUS_IDLE,
      MIGRATIONSTATUS_FINAL_IMPORT, MIGRATIONSTATUS_POST_IMPORT, MIGRATIONSTATUS_WORKER_DONE}"

definition status_before_migration_window :: "queue_entry \<Rightarrow> bool" where
  "status_before_migration_window q \<longleftrightarrow> q_MigrationStatus q \<in>
     {MIGRATIONSTATUS_BACKGROUND_IMPORT, MIGRATIONSTATUS_BLOCKED, MIGRATIONSTATUS_CREATING,
      MIGRATIONSTATUS_IDLE, MIGRATIONSTATUS_WAITING}"

definition status_before_placement :: "queue_entry \<Rightarrow> bool" where
  "status_before_placement q \<longleftrightarrow>
     (case q_MigrationStatus q of
        MIGRATIONSTATUS_BLOCKED \<Rightarrow> True
      | MIGRATIONSTATUS_WAITING \<Rightarrow> True
      | MIGRATIONSTATUS_CREATING \<Rightarrow> True
      | MIGRATIONSTATUS_CONFLICT \<Rightarrow> q_ImportStage q \<noteq> IMPORTSTAGE_COMPLETE
      | _ \<Rightarrow> False)"

definition is_committed :: "queue_entry \<Rightarrow> bool" where
  "is_committed q \<longleftrightarrow>
     (case q_MigrationStatus q of
        MIGRATIONSTATUS_BLOCKED \<Rightarrow> False
      | MIGRATIONSTATUS_CANCELED \<Rightarrow> False
      | MIGRATIONSTATUS_CREATING \<Rightarrow> False
      | MIGRATIONSTATUS_ERROR \<Rightarrow> False
      | MIGRATIONSTATUS_FINISHED \<Rightarrow> False
      | MIGRATIONSTATUS_WAITING \<Rightarrow> False
      | MIGRATIONSTATUS_BACKGROUND_IMPORT \<Rightarrow> False
      | MIGRATIONSTATUS_FINAL_IMPORT \<Rightarrow> True
      | MIGRATIONSTATUS_POST_IMPORT \<Rightarrow> True
      | MIGRATIONSTATUS_WORKER_DONE \<Rightarrow> True
      | MIGRATIONSTATUS_IDLE \<Rightarrow> q_ImportStage q = IMPORTSTAGE_COMPLETE
      | MIGRATIONSTATUS_CONFLICT \<Rightarrow> q_ImportStage q = IMPORTSTAGE_COMPLETE
      | _ \<Rightarrow> True)"

definition queue_validate :: "queue_entry \<Rightarrow> err option" where
  "queue_validate q =
     first_err
      [err_when (q_InstanceUUID q = uuid_nil) (ErrValidation ''Invalid instance, UUID can not be empty'' []),
       err_when (q_BatchName q = '''') (ErrValidation ''Invalid queue entry, batch name can not be empty'' []),
       err_when (q_SecretToken q = uuid_nil) (ErrValidation ''Invalid queue entry, token can not be empty'' []),
       (case migration_status_validate (q_MigrationStatus q) of None \<Rightarrow> None
        | Some e \<Rightarrow> Some (ErrValidation ''Invalid migration status: %v'' [AErr e])),
       err_when (p_TargetName (q_Placement q) = '''') (ErrValidation ''Target name cannot be empty'' []),
       err_when (p_TargetProject (q_Placement q) = '''') (ErrValidation ''Target project cannot be empty'' []),
       err_when (fmdom (p_StoragePools (q_Placement q)) = {||}) (ErrValidation ''No storage pool defined'' []),
       err_when (p_Networks (q_Placement q) = None) (ErrValidation ''No network defined'' [])]"

abbreviation get_window_name :: "queue_entry \<Rightarrow> string option" where
  "get_window_name q \<equiv> q_MigrationWindowName q"

definition queue_to_api :: "queue_entry \<Rightarrow> string \<Rightarrow> time \<Rightarrow> window \<Rightarrow> api_queue_entry" where
  "queue_to_api q instanceName lastWorkerUpdate w =
     \<lparr>aq_InstanceUUID = q_InstanceUUID q, aq_InstanceName = instanceName,
      aq_MigrationStatus = q_MigrationStatus q, aq_MigrationStatusMessage = q_MigrationStatusMessage q,
      aq_BatchName = q_BatchName q, aq_LastWorkerResponse = lastWorkerUpdate,
      aq_MigrationWindow = window_to_api w, aq_Placement = q_Placement q\<rparr>"

lemma queue_validate_None:
  "queue_validate q = None \<longleftrightarrow>
     q_InstanceUUID q \<noteq> uuid_nil \<and> q_BatchName q \<noteq> '''' \<and> q_SecretToken q \<noteq> uuid_nil \<and>
     migration_status_validate (q_MigrationStatus q) = None \<and>
     p_TargetName (q_Placement q) \<noteq> '''' \<and> p_TargetProject (q_Placement q) \<noteq> '''' \<and>
     fmdom (p_StoragePools (q_Placement q)) \<noteq> {||} \<and> p_Networks (q_Placement q) \<noteq> None"
  by (auto simp: queue_validate_def first_err_None split: option.splits)

lemma queue_validate_other [simp]:
  "queue_validate (q\<lparr>q_MigrationStatusMessage := m\<rparr>) = queue_validate q"
  "queue_validate (q\<lparr>q_LastWorkerStatus := r\<rparr>) = queue_validate q"
  "queue_validate (q\<lparr>q_LastBackgroundSync := t\<rparr>) = queue_validate q"
  "queue_validate (q\<lparr>q_MigrationWindowName := w\<rparr>) = queue_validate q"
  "queue_validate (q\<lparr>q_ImportStage := g\<rparr>) = queue_validate q"
  by (simp_all add: queue_validate_def)

text \<open>
  The classifications of a queue entry fit together. An entry before its placement or before
  its window is never past the point of no return, unless it is idle (or in conflict) with the
  import complete; a final import, post-import or worker-done entry is both migrating and
  committed; and no finished, failed or canceled entry is migrating, committed or waiting for a
  window.
\<close>

theorem status_classification:
  "\<not> (status_before_placement q \<and> is_committed q) \<and>
   (status_before_migration_window q \<and> is_committed q \<longleftrightarrow>
      q_MigrationStatus q = MIGRATIONSTATUS_IDLE \<and> q_ImportStage q = IMPORTSTAGE_COMPLETE) \<and>
   (is_migrating q \<and> \<not> status_before_migration_window q \<longleftrightarrow> q_MigrationStatus q \<in>
      {MIGRATIONSTATUS_FINAL_IMPORT, MIGRATIONSTATUS_POST_IMPORT, MIGRATIONSTATUS_WORKER_DONE}) \<and>
   \<not> (is_migrating q \<and> \<not> status_before_migration_window q \<and> \<not> is_committed q) \<and>
   \<not> (q_MigrationStatus q \<in> {MIGRATIONSTATUS_FINISHED, MIGRATIONSTATUS_ERROR, MIGRATIONSTATUS_CANCELED} \<and>
      (is_migrating q \<or> is_committed q \<or> status_before_migration_window q))"
  by (cases "q_MigrationStatus q")
    (simp_all add: status_before_placement_def is_committed_def status_before_migration_window_def
      is_migrating_def)

end
