(* ===== verification/Model_Endpoint.thy ===== *)
theory Model_Endpoint
  imports Externals
begin

text \<open>
  Sources and targets (\<^verbatim>\<open>internal/migration/source_model.go\<close>, \<^verbatim>\<open>internal/migration/target_model.go\<close>).
  Their properties are JSON texts that every operation decodes, and encodes again after a change; the
  missing (\<^verbatim>\<open>nil\<close>) text is the empty one.
\<close>

section \<open>Sources\<close>

record source =
  src_ID :: int
  src_Name :: string
  src_SourceType :: source_type
  src_Properties :: string

definition source_set_defaults :: "ext \<Rightarrow> source \<Rightarrow> err + source" where
  "source_set_defaults x s =
     (case src_SourceType s of
        SOURCETYPE_NSX_T \<Rightarrow>
          (case x_nsxsrc_dec x (src_Properties s) of
             Inl e \<Rightarrow> Inl (ErrValidation ''Invalid properties for %q source type: %v'' [AStr (source_type_string (src_SourceType s)), AErr e])
           | Inr p \<Rightarrow> Inr (s\<lparr>src_Properties := x_nsxsrc_enc x (vmware_set_defaults p)\<rparr>))
      | SOURCETYPE_VMWARE \<Rightarrow>
          (case x_vmware_dec x (src_Properties s) of
             Inl e \<Rightarrow> Inl (ErrValidation ''Invalid properties for %s source type: %v'' [AStr (source_type_string (src_SourceType s)), AErr e])
           | Inr p \<Rightarrow> Inr (s\<lparr>src_Properties := x_vmware_enc x (vmware_set_defaults p)\<rparr>))
      | SOURCETYPE_VROPS \<Rightarrow>
          (case x_vrops_dec x (src_Properties s) of
             Inl e \<Rightarrow> Inl (ErrValidation ''Invalid properties for %s source type: %v'' [AStr (source_type_string (src_SourceType s)), AErr e])
           | Inr p \<Rightarrow> Inr (s\<lparr>src_Properties := x_vrops_enc x (vrops_set_defaults p)\<rparr>))
      | SOURCETYPE_OTHER t \<Rightarrow> Inr s)"

text \<open>
  The getters fill in the defaults in the receiver first, so the source they were called on comes
  back with the properties.
\<close>

definition source_type_err :: "source \<Rightarrow> source_type \<Rightarrow> err" where
  "source_type_err s t = Errorf ''Source %q type is %q, not %q''
     [AStr (src_Name s), AStr (source_type_string (src_SourceType s)), AStr (source_type_string t)]"

definition get_vmware_properties :: "ext \<Rightarrow> source \<Rightarrow> err + source \<times> vmware_properties" where
  "get_vmware_properties x s =
     (if src_SourceType s \<noteq> SOURCETYPE_VMWARE then Inl (source_type_err s SOURCETYPE_VMWARE)
      else case source_set_defaults x s of
        Inl e \<Rightarrow> Inl e
      | Inr s' \<Rightarrow> map_sum id (Pair s') (x_vmware_dec x (src_Properties s')))"

definition get_nsx_properties :: "ext \<Rightarrow> source \<Rightarrow> err + source \<times> nsx_source_properties" where
  "get_nsx_properties x s =
     (if src_SourceType s \<noteq> SOURCETYPE_NSX_T then Inl (source_type_err s SOURCETYPE_NSX_T)
      else case source_set_defaults x s of
        Inl e \<Rightarrow> Inl e
      | Inr s' \<Rightarrow> map_sum id (Pair s') (x_nsxsrc_dec x (src_Properties s')))"

definition get_vrops_properties :: "ext \<Rightarrow> source \<Rightarrow> err + source \<times> vrops_properties" where
  "get_vrops_properties x s =
     (if src_SourceType s \<noteq> SOURCETYPE_VROPS then Inl (source_type_err s SOURCETYPE_VROPS)
      else case source_set_defaults x s of
        Inl e \<Rightarrow> Inl e
      | Inr s' \<Rightarrow> map_sum id (Pair s') (x_vrops_dec x (src_Properties s')))"

text \<open>The first certificate that is no PEM text, by its index.\<close>

fun bad_certificate :: "(string \<Rightarrow> bool) \<Rightarrow> nat \<Rightarrow> string list \<Rightarrow> nat option" where
  "bad_certificate ok i [] = None"
| "bad_certificate ok i (c # cs) = (if ok c then bad_certificate ok (Suc i) cs else Some i)"

definition validate_source_vrops :: "ext \<Rightarrow> source \<Rightarrow> err option" where
  "validate_source_vrops x s =
     (case x_vrops_dec x (src_Properties s) of
        Inl e \<Rightarrow> Some (ErrValidation ''Invalid properties for vROps type: %v'' [AErr e])
      | Inr p \<Rightarrow> first_err
          [(case x_url x (vr_Endpoint p) of
              Inl e \<Rightarrow> Some (ErrValidation ''Invalid source, vROps endpoint must be an HTTPS origin URL'' [])
            | Inr u \<Rightarrow> err_when (u_Scheme u \<noteq> ''https'' \<or> u_Host u = '''' \<or> u_User u \<or> u_RawQuery u \<noteq> '''' \<or>
                 u_Fragment u \<noteq> '''' \<or> (u_Path u \<noteq> '''' \<and> u_Path u \<noteq> ''/''))
                 (ErrValidation ''Invalid source, vROps endpoint must be an HTTPS origin URL'' [])),
           err_when (vr_Username p = '''' \<or> vr_Password p = '''')
             (ErrValidation ''Invalid source, username and password can not be empty for source type vROps'' []),
           err_when (vr_ConnectionTimeout p \<le> 0 \<or> vr_SyncTimeout p \<le> 0)
             (ErrValidation ''Invalid source, timeouts must be positive'' []),
           map_option (\<lambda>i. ErrValidation ''Invalid source, trusted CA certificate at index %d is not valid PEM'' [AInt (int i)])
             (bad_certificate (x_pem_ok x) 0 (vr_TrustedServerCACertificates p))])"

definition validate_source_vmware :: "ext \<Rightarrow> source \<Rightarrow> err option" where
  "validate_source_vmware x s =
     (case x_vmware_dec x (src_Properties s) of
        Inl e \<Rightarrow> Some (ErrValidation ''Invalid properties for VMware type: %v'' [AErr e])
      | Inr p \<Rightarrow> first_err
          [(case x_url x (vp_Endpoint p) of
              Inl e \<Rightarrow> Some (ErrValidation ''Invalid source, endpoint %q is not a valid URL: %v'' [AStr (vp_Endpoint p), AErr e])
            | Inr _ \<Rightarrow> None),
           err_when (vp_Username p = '''') (ErrValidation ''Invalid source, username can not be empty for source type VMware'' []),
           err_when (vp_Password p = '''') (ErrValidation ''Invalid source, password can not be empty for source type VMware'' []),
           err_when (vp_ConnectionTimeout p \<le> 0)
             (ErrValidation ''Invalid source, connection timeout %q is not a valid duration'' [AStr (x_dur_text x (vp_ConnectionTimeout p))]),
           err_when (vp_SyncTimeout p \<le> 0)
             (ErrValidation ''Invalid source, import timeout %q is not a valid duration'' [AStr (x_dur_text x (vp_ConnectionTimeout p))]),
           err_when (vp_SyncLimit p \<le> 0) (ErrValidation ''Invalid source, sync limit must be 1 or more'' []),
           err_when ('''' \<in> set (vp_Datacenters p)) (ErrValidation ''Invalid source, specified datacenter must not be empty'' []),
           map_option (\<lambda>i. ErrValidation ''Invalid source, trusted CA certificate at index %d is not a valid PEM encoded certificate'' [AInt (int i)])
             (bad_certificate (x_pem_ok x) 0 (vp_TrustedServerCACertificates p))])"

definition source_validate :: "ext \<Rightarrow> source \<Rightarrow> err option" where
  "source_validate x s = first_err
     [err_when (src_ID s < 0) (ErrValidation ''Invalid source, id can not be negative'' []),
      map_option (\<lambda>e. ErrValidation ''Invalid source, name %q: %v'' [AStr (src_Name s), AErr e]) (x_api_name x (src_Name s)),
      err_when (src_SourceType s \<notin> {SOURCETYPE_VMWARE, SOURCETYPE_NSX_T, SOURCETYPE_VROPS})
        (ErrValidation ''Invalid source, %s is not a valid source type'' [AStr (source_type_string (src_SourceType s))]),
      err_when (src_Properties s = '''') (ErrValidation ''Invalid source, properties can not be null'' []),
      (case src_SourceType s of
         SOURCETYPE_VMWARE \<Rightarrow> validate_source_vmware x s
       | SOURCETYPE_VROPS \<Rightarrow> validate_source_vrops x s
       | _ \<Rightarrow> None)]"

text \<open>
  Reading and changing single properties. For an NSX source the VMware part is decoded, and what is
  encoded again is that part only: the NSX data is lost.
\<close>

definition source_status :: "ext \<Rightarrow> source \<Rightarrow> external_status" where
  "source_status x s =
     (case src_SourceType s of
        SOURCETYPE_VROPS \<Rightarrow>
          (case x_vrops_dec x (src_Properties s) of Inl _ \<Rightarrow> EXTERNALCONNECTIVITYSTATUS_UNKNOWN | Inr p \<Rightarrow> vr_ConnectivityStatus p)
      | SOURCETYPE_OTHER t \<Rightarrow> EXTERNALCONNECTIVITYSTATUS_UNKNOWN
      | _ \<Rightarrow> (case x_vmware_dec x (src_Properties s) of Inl _ \<Rightarrow> EXTERNALCONNECTIVITYSTATUS_UNKNOWN | Inr p \<Rightarrow> vp_ConnectivityStatus p))"

definition parse_certificate :: "ext \<Rightarrow> string \<Rightarrow> string option" where
  "parse_certificate x raw = (if x_cert_ok x raw then Some raw else None)"

definition source_certificate :: "ext \<Rightarrow> source \<Rightarrow> string option" where
  "source_certificate x s =
     (case src_SourceType s of
        SOURCETYPE_VROPS \<Rightarrow>
          (case x_vrops_dec x (src_Properties s) of Inl _ \<Rightarrow> None | Inr p \<Rightarrow> parse_certificate x (vr_ServerCertificate p))
      | SOURCETYPE_OTHER t \<Rightarrow> None
      | _ \<Rightarrow> (case x_vmware_dec x (src_Properties s) of Inl _ \<Rightarrow> None | Inr p \<Rightarrow> parse_certificate x (vp_ServerCertificate p)))"

definition source_fingerprint :: "ext \<Rightarrow> source \<Rightarrow> string" where
  "source_fingerprint x s =
     (case src_SourceType s of
        SOURCETYPE_VROPS \<Rightarrow>
          (case x_vrops_dec x (src_Properties s) of Inl _ \<Rightarrow> '''' | Inr p \<Rightarrow> vr_TrustedServerCertificateFingerprint p)
      | SOURCETYPE_OTHER t \<Rightarrow> ''''
      | _ \<Rightarrow> (case x_vmware_dec x (src_Properties s) of Inl _ \<Rightarrow> '''' | Inr p \<Rightarrow> vp_TrustedServerCertificateFingerprint p))"

definition change_source ::
    "ext \<Rightarrow> (vmware_properties \<Rightarrow> vmware_properties) \<Rightarrow> (vrops_properties \<Rightarrow> vrops_properties) \<Rightarrow> source \<Rightarrow> source" where
  "change_source x f g s =
     (case src_SourceType s of
        SOURCETYPE_VROPS \<Rightarrow>
          (case x_vrops_dec x (src_Properties s) of Inl _ \<Rightarrow> s | Inr p \<Rightarrow> s\<lparr>src_Properties := x_vrops_enc x (g p)\<rparr>)
      | SOURCETYPE_OTHER t \<Rightarrow> s
      | _ \<Rightarrow> (case x_vmware_dec x (src_Properties s) of Inl _ \<Rightarrow> s | Inr p \<Rightarrow> s\<lparr>src_Properties := x_vmware_enc x (f p)\<rparr>))"

definition set_source_status :: "ext \<Rightarrow> external_status \<Rightarrow> source \<Rightarrow> source" where
  "set_source_status x st = change_source x (\<lambda>p. p\<lparr>vp_ConnectivityStatus := st\<rparr>) (\<lambda>p. p\<lparr>vr_ConnectivityStatus := st\<rparr>)"

definition set_source_certificate :: "ext \<Rightarrow> string \<Rightarrow> source \<Rightarrow> source" where
  "set_source_certificate x raw = change_source x (\<lambda>p. p\<lparr>vp_ServerCertificate := raw\<rparr>) (\<lambda>p. p\<lparr>vr_ServerCertificate := raw\<rparr>)"

definition add_ca_certificates :: "ext \<Rightarrow> string list \<Rightarrow> source \<Rightarrow> err + source" where
  "add_ca_certificates x cas s =
     (if cas = [] then Inr s
      else case src_SourceType s of
        SOURCETYPE_NSX_T \<Rightarrow> map_sum id (\<lambda>(s', p). s'\<lparr>src_Properties := x_nsxsrc_enc x
            (p\<lparr>vp_TrustedServerCACertificates := vp_TrustedServerCACertificates p @ cas\<rparr>)\<rparr>) (get_nsx_properties x s)
      | SOURCETYPE_VMWARE \<Rightarrow> map_sum id (\<lambda>(s', p). s'\<lparr>src_Properties := x_vmware_enc x
            (p\<lparr>vp_TrustedServerCACertificates := vp_TrustedServerCACertificates p @ cas\<rparr>)\<rparr>) (get_vmware_properties x s)
      | SOURCETYPE_VROPS \<Rightarrow> map_sum id (\<lambda>(s', p). s'\<lparr>src_Properties := x_vrops_enc x
            (p\<lparr>vr_TrustedServerCACertificates := vr_TrustedServerCACertificates p @ cas\<rparr>)\<rparr>) (get_vrops_properties x s)
      | SOURCETYPE_OTHER t \<Rightarrow> Inr s)"

definition source_to_api :: "source \<Rightarrow> api_source" where
  "source_to_api s = \<lparr>as_Name = src_Name s, as_Properties = src_Properties s, as_SourceType = src_SourceType s\<rparr>"

section \<open>Targets\<close>

record target =
  tgt_ID :: int
  tgt_Name :: string
  tgt_TargetType :: target_type
  tgt_Properties :: string

definition validate_target_incus :: "ext \<Rightarrow> target \<Rightarrow> err option" where
  "validate_target_incus x t =
     (case x_incus_dec x (tgt_Properties t) of
        Inl e \<Rightarrow> Some (ErrValidation ''Invalid properties for Incus type: %v'' [AErr e])
      | Inr p \<Rightarrow> first_err
          [(case x_url x (in_Endpoint p) of
              Inl e \<Rightarrow> Some (ErrValidation ''Invalid target, endpoint %q is not a valid URL: %v'' [AStr (in_Endpoint p), AErr e])
            | Inr _ \<Rightarrow> None),
           err_when (in_ConnectionTimeout p \<le> 0)
             (ErrValidation ''Invalid target, connection timeout %q is not a valid duration'' [AStr (x_dur_text x (in_ConnectionTimeout p))])])"

definition target_validate :: "ext \<Rightarrow> target \<Rightarrow> err option" where
  "target_validate x t = first_err
     [err_when (tgt_ID t < 0) (ErrValidation ''Invalid target, id can not be negative'' []),
      map_option (\<lambda>e. ErrValidation ''Invalid target, name %q: %v'' [AStr (tgt_Name t), AErr e]) (x_api_name x (tgt_Name t)),
      err_when (tgt_TargetType t \<noteq> TARGETTYPE_INCUS)
        (ErrValidation ''Invalid target, %s is not a valid target type'' [AStr (target_type_string (tgt_TargetType t))]),
      err_when (tgt_Properties t = '''') (ErrValidation ''Invalid target, properties can not be null'' []),
      (case tgt_TargetType t of TARGETTYPE_INCUS \<Rightarrow> validate_target_incus x t | _ \<Rightarrow> None)]"

text \<open>Reading one property of a target; a target of another type and an undecodable text have none.\<close>

definition target_prop :: "ext \<Rightarrow> 'a \<Rightarrow> (incus_properties \<Rightarrow> 'a) \<Rightarrow> target \<Rightarrow> 'a" where
  "target_prop x none f t =
     (case tgt_TargetType t of
        TARGETTYPE_INCUS \<Rightarrow> (case x_incus_dec x (tgt_Properties t) of Inl _ \<Rightarrow> none | Inr p \<Rightarrow> f p)
      | _ \<Rightarrow> none)"

definition target_get_endpoint :: "ext \<Rightarrow> target \<Rightarrow> string" where
  "target_get_endpoint x = target_prop x '''' in_Endpoint"

definition target_status :: "ext \<Rightarrow> target \<Rightarrow> external_status" where
  "target_status x = target_prop x EXTERNALCONNECTIVITYSTATUS_UNKNOWN in_ConnectivityStatus"

definition target_certificate :: "ext \<Rightarrow> target \<Rightarrow> string option" where
  "target_certificate x = target_prop x None (\<lambda>p. parse_certificate x (in_ServerCertificate p))"

definition target_fingerprint :: "ext \<Rightarrow> target \<Rightarrow> string" where
  "target_fingerprint x = target_prop x '''' in_TrustedServerCertificateFingerprint"

definition change_target :: "ext \<Rightarrow> (incus_properties \<Rightarrow> incus_properties) \<Rightarrow> target \<Rightarrow> target" where
  "change_target x f t =
     (case tgt_TargetType t of
        TARGETTYPE_INCUS \<Rightarrow>
          (case x_incus_dec x (tgt_Properties t) of Inl _ \<Rightarrow> t | Inr p \<Rightarrow> t\<lparr>tgt_Properties := x_incus_enc x (f p)\<rparr>)
      | _ \<Rightarrow> t)"

definition set_target_status :: "ext \<Rightarrow> external_status \<Rightarrow> target \<Rightarrow> target" where
  "set_target_status x st = change_target x (\<lambda>p. p\<lparr>in_ConnectivityStatus := st\<rparr>)"

definition set_target_certificate :: "ext \<Rightarrow> string \<Rightarrow> target \<Rightarrow> target" where
  "set_target_certificate x raw = change_target x (\<lambda>p. p\<lparr>in_ServerCertificate := raw\<rparr>)"

definition set_oidc_tokens :: "ext \<Rightarrow> string option \<Rightarrow> target \<Rightarrow> target" where
  "set_oidc_tokens x tokens = change_target x (\<lambda>p. p\<lparr>in_OIDCTokens := tokens\<rparr>)"

definition target_to_api :: "target \<Rightarrow> api_target" where
  "target_to_api t = \<lparr>at_Name = tgt_Name t, at_Properties = tgt_Properties t, at_TargetType = tgt_TargetType t\<rparr>"

section \<open>Defaults\<close>

text \<open>Splitting and joining of paths, and what cleaning leaves: elements that are names.\<close>

lemma str_split_append: "str_split d (a @ d # b) = str_split d a @ str_split d b"
proof (induction a)
  case (Cons c a)
  then show ?case by (cases "str_split d a") auto
qed simp

lemma str_split_free: "p \<in> set (str_split d s) \<Longrightarrow> d \<notin> set p"
proof (induction s arbitrary: p)
  case (Cons c s)
  then show ?case
    by (cases "str_split d s") (auto split: if_splits)
qed simp

lemma str_split_single: "d \<notin> set p \<Longrightarrow> str_split d p = [p]"
  by (induction p) auto

lemma str_split_str_join:
  "ps \<noteq> [] \<Longrightarrow> \<forall>p \<in> set ps. d \<notin> set p \<Longrightarrow> str_split d (str_join [d] ps) = ps"
proof (induction ps rule: induct_list012)
  case (3 p q ps)
  then show ?case using str_split_append [of d p "str_join [d] (q # ps)"] by (simp add: str_split_single)
qed (simp_all add: str_split_single)

definition name_elem :: "string \<Rightarrow> bool" where
  "name_elem e \<longleftrightarrow> e \<noteq> '''' \<and> e \<noteq> ''.'' \<and> e \<noteq> ''..'' \<and> CHR ''/'' \<notin> set e"

text \<open>One element, given the elements so far (last first).\<close>

definition clean_push :: "bool \<Rightarrow> string list \<Rightarrow> string \<Rightarrow> string list" where
  "clean_push rooted out e =
     (if e = '''' \<or> e = ''.'' then out
      else if e = ''..'' then
        (case out of [] \<Rightarrow> if rooted then [] else [''..''] | o1 # os \<Rightarrow> if o1 = ''..'' then ''..'' # out else os)
      else e # out)"

lemma clean_elems_fold: "clean_elems rooted out es = rev (foldl (clean_push rooted) out es)"
proof (induction es arbitrary: out)
  case (Cons e es)
  have "clean_elems rooted out (e # es) = clean_elems rooted (clean_push rooted out e) es"
    by (cases out) (simp_all add: clean_push_def del: str_split.simps)
  with Cons.IH show ?case by (simp only: foldl.simps)
qed simp

lemma clean_push_name: "name_elem e \<Longrightarrow> clean_push rooted out e = e # out"
  by (simp add: clean_push_def name_elem_def)

lemma clean_names: "\<forall>e \<in> set es. name_elem e \<Longrightarrow> foldl (clean_push rooted) out es = rev es @ out"
  by (induction es arbitrary: out) (simp_all add: clean_push_name)

lemma clean_push_names:
  assumes "\<forall>o1 \<in> set out. name_elem o1" and "CHR ''/'' \<notin> set e"
  shows "\<forall>o1 \<in> set (clean_push True out e). name_elem o1"
  using assms by (cases out) (auto simp: clean_push_def name_elem_def)

lemma clean_rooted_names:
  "\<forall>e \<in> set es. CHR ''/'' \<notin> set e \<Longrightarrow> \<forall>o1 \<in> set out. name_elem o1 \<Longrightarrow>
     \<forall>o1 \<in> set (foldl (clean_push True) out es). name_elem o1"
proof (induction es arbitrary: out)
  case (Cons e es)
  then show ?case using Cons.IH [OF _ clean_push_names [of out e]] by simp
qed simp

lemma path_clean_rooted:
  "path_clean (CHR ''/'' # p) = CHR ''/'' # str_join ''/'' (rev (foldl (clean_push True) [] (str_split (CHR ''/'') p)))"
  by (simp add: path_clean_def has_prefix_def clean_elems_fold clean_push_def)

text \<open>A datacenter's path is a rooted clean path that ends with three dots.\<close>

lemma datacenter_path_form:
  "\<exists>es. (\<forall>e \<in> set es. name_elem e) \<and> datacenter_path p = CHR ''/'' # str_join ''/'' (es @ [''...''])"
proof -
  have dots: "name_elem ''...''" by (simp add: name_elem_def)
  have "\<exists>a. (if suffix ''/...'' (CHR ''/'' # p) then CHR ''/'' # p else (CHR ''/'' # p) @ ''/...'') = a @ ''/...''"
    by (cases "suffix ''/...'' (CHR ''/'' # p)") (simp_all add: suffix_def)
  then obtain a where a: "(if suffix ''/...'' (CHR ''/'' # p) then CHR ''/'' # p else (CHR ''/'' # p) @ ''/...'') = a @ ''/...''"
    by blast
  have start: "a = '''' \<or> (\<exists>b. a = CHR ''/'' # b)"
    using a by (cases a) (auto split: if_splits)
  have "str_split (CHR ''/'') (c @ ''/...'') = str_split (CHR ''/'') c @ [''...'']" for c
    using str_split_append [of "CHR ''/''" c "''...''"] by (simp add: str_split_single)
  with start have "\<exists>b cs. a @ ''/...'' = CHR ''/'' # b \<and> str_split (CHR ''/'') b = cs @ [''...'']"
    by (auto simp: str_split_single)
  then obtain b cs where b: "a @ ''/...'' = CHR ''/'' # b" and cs: "str_split (CHR ''/'') b = cs @ [''...'']"
    by blast
  have "\<forall>e \<in> set cs. CHR ''/'' \<notin> set e"
    using str_split_free [of _ "CHR ''/''" b] cs by auto
  from clean_rooted_names [OF this, of "[]"] have "\<forall>e \<in> set (rev (foldl (clean_push True) [] cs)). name_elem e" by simp
  moreover have "datacenter_path p = CHR ''/'' # str_join ''/'' (rev (foldl (clean_push True) [] cs) @ [''...''])"
    unfolding datacenter_path_def Let_def a b path_clean_rooted cs by (simp add: clean_push_name [OF dots])
  ultimately show ?thesis by blast
qed

lemma str_join_snoc: "es \<noteq> [] \<Longrightarrow> str_join d (es @ [e]) = str_join d es @ d @ e"
  by (induction es rule: induct_list012) auto

lemma datacenter_path_idem: "datacenter_path (datacenter_path p) = datacenter_path p"
proof -
  obtain es where es: "\<forall>e \<in> set es. name_elem e" and v: "datacenter_path p = CHR ''/'' # str_join ''/'' (es @ [''...''])"
    using datacenter_path_form by blast
  let ?v = "CHR ''/'' # str_join ''/'' (es @ [''...''])"
  have all: "\<forall>e \<in> set (es @ [''...'']). name_elem e" using es by (simp add: name_elem_def)
  then have free: "\<forall>e \<in> set (es @ [''...'']). CHR ''/'' \<notin> set e" by (auto simp: name_elem_def)
  have "suffix ''/...'' (CHR ''/'' # ?v)"
    by (cases "es = []") (auto simp: str_join_snoc suffix_def)
  then have "datacenter_path ?v = path_clean (CHR ''/'' # ?v)" by (simp add: datacenter_path_def)
  also have "\<dots> = CHR ''/'' # str_join ''/'' (rev (foldl (clean_push True) [] (str_split (CHR ''/'') (str_join ''/'' (es @ [''...''])))))"
    unfolding path_clean_rooted by (simp add: clean_push_def)
  also have "\<dots> = ?v"
    using str_split_str_join [of "es @ [''...'']" "CHR ''/''"] free clean_names [OF all, of True "[]"] by simp
  finally show ?thesis unfolding v .
qed

lemma datacenter_path_not_empty: "datacenter_path p \<noteq> ''''"
  using datacenter_path_form [of p] by auto

lemma datacenter_dots: "datacenter_path ''/...'' = ''/...''"
  by code_simp

lemma vmware_set_defaults_idem:
  fixes s :: "'a vmware_properties_scheme"
  shows "vmware_set_defaults (vmware_set_defaults s) = vmware_set_defaults s"
proof -
  have kept: "filter (\<lambda>p. p \<noteq> '''') (map datacenter_path ps) = map datacenter_path ps" for ps
    by (auto simp: filter_id_conv datacenter_path_not_empty)
  show ?thesis
    by (rule vmware_properties.equality)
      (auto simp: vmware_set_defaults_def Let_def kept comp_def datacenter_path_idem datacenter_dots minute_def second_def)
qed

lemma vrops_set_defaults_idem: "vrops_set_defaults (vrops_set_defaults p) = vrops_set_defaults p"
  by (rule vrops_properties.equality) (simp_all add: vrops_set_defaults_def minute_def second_def)

end
