(* ===== verification/Model_Warning.thy ===== *)
theory Model_Warning
  imports Externals
begin

text \<open>Warnings (\<^verbatim>\<open>internal/migration/warning_model.go\<close>).\<close>

record warning =
  wn_ID :: int
  wn_UUID :: uuid
  wn_Type :: warning_type
  wn_Scope :: string
  wn_EntityType :: string
  wn_Entity :: string
  wn_Status :: warning_status
  wn_FirstSeenDate :: time
  wn_LastSeenDate :: time
  wn_UpdatedDate :: time
  wn_Messages :: "string list"
  wn_Count :: int

type_synonym warnings = "warning list"

text \<open>The types of warnings a sync raises (\<^verbatim>\<open>shared/api/warning.go\<close>).\<close>

definition NetworkImportFailed :: warning_type where "NetworkImportFailed = ''Networks not imported''"
definition InstanceImportFailed :: warning_type where "InstanceImportFailed = ''Instances not imported''"
definition InstanceIgnored :: warning_type where "InstanceIgnored = ''Instances were ignored''"
definition InstanceMissingNetworkSource :: warning_type where
  "InstanceMissingNetworkSource = ''External networks with no registered source''"
definition SourceUnavailable :: warning_type where "SourceUnavailable = ''Sources are unavailable''"
definition InstanceIncomplete :: warning_type where "InstanceIncomplete = ''Instances partially imported''"
definition InstanceCannotMigrate :: warning_type where "InstanceCannotMigrate = ''Instance migration is restricted''"

definition new_sync_warning :: "uuid \<Rightarrow> warning_type \<Rightarrow> string \<Rightarrow> string \<Rightarrow> warning" where
  "new_sync_warning u ty sourceName message =
     \<lparr>wn_ID = 0, wn_UUID = u, wn_Type = ty, wn_Scope = ws_Scope warning_scope_sync,
      wn_EntityType = ws_EntityType warning_scope_sync, wn_Entity = sourceName, wn_Status = WARNINGSTATUS_NEW,
      wn_FirstSeenDate = 0, wn_LastSeenDate = 0, wn_UpdatedDate = 0, wn_Messages = [message], wn_Count = 1\<rparr>"

definition warning_validate :: "warning \<Rightarrow> err option" where
  "warning_validate w = first_err
     [err_when (wn_UUID w = uuid_nil) (ErrValidation ''Warning has invalid UUID: %q'' [AUuid (wn_UUID w)]),
      err_when (wn_Type w = '''') (ErrValidation ''Warning %q cannot have empty type'' [AUuid (wn_UUID w)]),
      err_when (wn_Scope w = '''') (ErrValidation ''Warning %q cannot have empty scope'' [AUuid (wn_UUID w)]),
      err_when (wn_EntityType w = '''') (ErrValidation ''Warning %q cannot have empty entity type'' [AUuid (wn_UUID w)]),
      err_when (wn_Entity w = '''') (ErrValidation ''Warning %q cannot have empty entity'' [AUuid (wn_UUID w)]),
      err_when (wn_Status w = '''') (ErrValidation ''Warning %q cannot have empty status'' [AUuid (wn_UUID w)]),
      err_when (wn_Messages w = []) (ErrValidation ''Warning %q cannot have empty message'' [AUuid (wn_UUID w)]),
      err_when (wn_Count w = 0) (ErrValidation ''Warning %q count is 0'' [AUuid (wn_UUID w)])]"

definition warning_to_api :: "warning \<Rightarrow> api_warning" where
  "warning_to_api w =
     \<lparr>aw_WStatus = wn_Status w, aw_WUUID = wn_UUID w,
      aw_WScope = \<lparr>ws_Scope = wn_Scope w, ws_EntityType = wn_EntityType w, ws_Entity = wn_Entity w\<rparr>,
      aw_WType = wn_Type w, aw_FirstSeenDate = wn_FirstSeenDate w, aw_LastSeenDate = wn_LastSeenDate w,
      aw_UpdatedDate = wn_UpdatedDate w, aw_Messages = wn_Messages w, aw_Count = wn_Count w\<rparr>"

end
