(* ===== verification/Model_Artifact.thy ===== *)
theory Model_Artifact
  imports Model_Instance
begin

text \<open>
  Artifacts (\<^verbatim>\<open>internal/migration/artifact_model.go\<close>): the driver, OS image and SDK files that
  migrations need, which of them collide, and which an instance requires
  (\<^verbatim>\<open>artifact_service.go\<close>, \<open>HasRequiredArtifactsForInstance\<close>).
\<close>

record artifact =
  af_ID :: int
  af_UUID :: uuid
  af_Type :: artifact_type
  af_LastUpdated :: time
  af_Properties :: artifact_put
  af_Files :: "string list"

type_synonym artifacts = "artifact list"

definition no_source_type :: source_type where
  "no_source_type = SOURCETYPE_OTHER ''''"

definition arch_errs :: "ext \<Rightarrow> string list \<Rightarrow> err option" where
  "arch_errs x archs = first_err (map (\<lambda>a. case x_arch_id x a of
     Inl e \<Rightarrow> Some (ErrValidation ''Architecture %q is not supported'' [AStr a]) | Inr _ \<Rightarrow> None) archs)"

definition invalid_os :: "ext \<Rightarrow> artifact \<Rightarrow> err" where
  "invalid_os x a = ErrValidation ''Artifact has invalid OS %q'' [AStr (x_os_text x (art_OS (af_Properties a)))]"

definition artifact_validate :: "ext \<Rightarrow> artifact \<Rightarrow> err option" where
  "artifact_validate x a =
     (let p = af_Properties a in
      if af_UUID a = uuid_nil then Some (ErrValidation ''Artifact has invalid UUID %q'' [AUuid (af_UUID a)])
      else case af_Type a of
        ARTIFACTTYPE_DRIVER \<Rightarrow> first_err
          [err_when (art_SourceType p \<noteq> no_source_type) (ErrValidation ''Artifact does not support a source type'' []),
           err_when (art_Architectures p = []) (ErrValidation ''Artifact must have at least one valid architecture'' []),
           arch_errs x (art_Architectures p),
           (if art_OS p = OSTYPE_WINDOWS
            then first_err (map (\<lambda>v. map_option (\<lambda>e. ErrValidation ''Artifact version is invalid for OS %q: %v''
                   [AStr (x_os_text x (art_OS p)), AErr e]) (x_windows_version_valid x v)) (art_Versions p))
            else Some (invalid_os x a))]
      | ARTIFACTTYPE_OSIMAGE \<Rightarrow> first_err
          [err_when (art_SourceType p \<noteq> no_source_type) (ErrValidation ''Artifact does not support a source type'' []),
           err_when (art_Architectures p = []) (ErrValidation ''Artifact must have at least one valid architecture'' []),
           arch_errs x (art_Architectures p),
           (if art_OS p = OSTYPE_FORTIGATE
            then if art_Versions p = []
              then Some (ErrValidation ''Artifact for OS %q requires at least one version'' [AStr (x_os_text x (art_OS p))])
              else first_err (map (\<lambda>v.
                if \<not> x_semver_ok x (CHR ''v'' # v)
                then Some (Errorf ''Artifact version %q is not a valid semantic version'' [AStr v])
                else if x_semver_minor x (CHR ''v'' # v) = ''''
                then Some (Errorf ''Artifact version %q does not contain both a major and minor version'' [AStr v])
                else None) (art_Versions p))
            else Some (invalid_os x a))]
      | ARTIFACTTYPE_SDK \<Rightarrow> first_err
          [err_when (art_SourceType p \<noteq> SOURCETYPE_VMWARE)
             (ErrValidation ''Artifact source type %q is not supported'' [AStr (source_type_string (art_SourceType p))]),
           err_when (art_OS p \<noteq> OSTYPE_OTHER '''') (ErrValidation ''Artifact does not support an OS type'' []),
           err_when (art_Architectures p \<noteq> []) (ErrValidation ''Artifact does not support architectures'' []),
           err_when (art_Versions p \<noteq> []) (ErrValidation ''Artifact does not support versions'' [])]
      | ARTIFACTTYPE_OTHER s \<Rightarrow> Some (ErrValidation ''Artifact has invalid type %q'' [AStr s]))"

text \<open>Two artifacts collide when they serve a common architecture and a common version.\<close>

definition lists_collide :: "'a list \<Rightarrow> 'a list \<Rightarrow> bool" where
  "lists_collide xs ys \<longleftrightarrow> ys = [] \<and> xs = [] \<or> (\<exists>y \<in> set ys. y \<in> set xs)"

definition collides :: "artifact \<Rightarrow> artifact \<Rightarrow> bool" where
  "collides a b \<longleftrightarrow>
     (let p = af_Properties a; q = af_Properties b in
      \<not> (art_OS p \<noteq> art_OS q \<or> art_SourceType p \<noteq> art_SourceType q \<or> af_Type a \<noteq> af_Type b) \<and>
      lists_collide (art_Architectures p) (art_Architectures q) \<and> lists_collide (art_Versions p) (art_Versions q))"

definition collides_with :: "artifact \<Rightarrow> artifacts \<Rightarrow> err option" where
  "collides_with a arts =
     first_err (map (\<lambda>b. err_when (collides a b)
       (Errorf ''Artifact architecture or version collides with another artifact: %q'' [AUuid (af_UUID b)])) arts)"

section \<open>What an instance requires\<close>

record seen_artifacts =
  seen_sdk :: bool
  seen_os :: bool
  seen_driver :: bool

definition missing_file :: "artifact \<Rightarrow> err" where
  "missing_file a = Errorf ''Failed to find content for required %q artifact'' [AStr (artifact_type_string (af_Type a))]"

definition suits_os :: "ext \<Rightarrow> inst \<Rightarrow> artifact \<Rightarrow> bool" where
  "suits_os x i a \<longleftrightarrow> art_OS (af_Properties a) = get_os_type i True \<and>
     match_architecture x (art_Architectures (af_Properties a)) (get_architecture x i) = None"

fun scan_artifacts :: "ext \<Rightarrow> inst \<Rightarrow> seen_artifacts \<Rightarrow> artifacts \<Rightarrow> err + seen_artifacts" where
  "scan_artifacts x i s [] = Inr s"
| "scan_artifacts x i s (a # as) =
     (case default_artifact_file (x_os_text x) (af_Type a) (af_Properties a) of
        Inl e \<Rightarrow> Inl e
      | Inr f \<Rightarrow>
          (case af_Type a of
             ARTIFACTTYPE_DRIVER \<Rightarrow>
               if \<not> seen_driver s \<and> suits_os x i a
               then if f \<notin> set (af_Files a) then Inl (missing_file a) else scan_artifacts x i (s\<lparr>seen_driver := True\<rparr>) as
               else scan_artifacts x i s as
           | ARTIFACTTYPE_OSIMAGE \<Rightarrow>
               if \<not> seen_os s \<and> suits_os x i a
               then if f \<notin> set (af_Files a) then Inl (missing_file a) else scan_artifacts x i (s\<lparr>seen_os := True\<rparr>) as
               else scan_artifacts x i s as
           | ARTIFACTTYPE_SDK \<Rightarrow>
               if \<not> seen_sdk s \<and> art_SourceType (af_Properties a) = i_SourceType i
               then if f \<notin> set (af_Files a) then Inl (missing_file a) else scan_artifacts x i (s\<lparr>seen_sdk := True\<rparr>) as
               else scan_artifacts x i s as
           | ARTIFACTTYPE_OTHER t \<Rightarrow> scan_artifacts x i s as))"

definition has_required_artifacts :: "ext \<Rightarrow> artifacts \<Rightarrow> inst \<Rightarrow> err option" where
  "has_required_artifacts x arts i =
     (case scan_artifacts x i \<lparr>seen_sdk = False, seen_os = False, seen_driver = False\<rparr> arts of
        Inl e \<Rightarrow> Some e
      | Inr s \<Rightarrow> first_err
          [err_when (\<not> seen_sdk s \<and> i_SourceType i = SOURCETYPE_VMWARE) (Errorf ''Missing required SDK artifact'' []),
           err_when (\<not> seen_os s \<and> get_os_type i True = OSTYPE_FORTIGATE)
             (Errorf ''Missing required %q image artifact'' [AStr (x_os_text x (get_os_type i True))]),
           err_when (\<not> seen_driver s \<and> get_os_type i True = OSTYPE_WINDOWS)
             (Errorf ''Missing required %q driver artifact'' [AStr (x_os_text x (get_os_type i True))])])"

text \<open>Collision does not depend on which artifact comes first.\<close>

lemma lists_collide_sym: "lists_collide xs ys \<longleftrightarrow> lists_collide ys xs"
  by (auto simp: lists_collide_def)

lemma collides_sym: "collides a b \<longleftrightarrow> collides b a"
  by (auto simp: collides_def Let_def lists_collide_sym)

lemma collides_with_None: "collides_with a arts = None \<longleftrightarrow> (\<forall>b \<in> set arts. \<not> collides a b)"
  by (simp add: collides_with_def first_err_None)

end
