(* ===== verification/Store.thy ===== *)
theory Store
  imports Concurrent Model_Batch Model_Queue Model_Endpoint Model_Warning Model_Artifact "HOL-Library.Char_ord" "HOL-Library.List_Lexorder"
begin

text \<open>
  The state of the daemon: the database tables with the queries of
  \<^verbatim>\<open>internal/migration/repo/sqlite\<close> and the constraints of \<^verbatim>\<open>internal/db/schema.go\<close>, the
  in-memory counters, and transactions (\<^verbatim>\<open>internal/transaction\<close>). The locale \<open>keyed_table\<close> is the
  contract of a table with a key, interpreted for every table.
\<close>

section \<open>Tables\<close>

definition tb_get :: "('r \<Rightarrow> 'k) \<Rightarrow> 'r list \<Rightarrow> 'k \<Rightarrow> 'r option" where
  "tb_get key t k = find (\<lambda>r. key r = k) t"

definition tb_insert :: "'r \<Rightarrow> 'r list \<Rightarrow> 'r list" where
  "tb_insert r t = t @ [r]"

definition tb_update :: "('r \<Rightarrow> 'k) \<Rightarrow> 'k \<Rightarrow> 'r \<Rightarrow> 'r list \<Rightarrow> 'r list" where
  "tb_update key k r t = map (\<lambda>x. if key x = k then r else x) t"

definition tb_delete :: "('r \<Rightarrow> 'k) \<Rightarrow> 'k \<Rightarrow> 'r list \<Rightarrow> 'r list" where
  "tb_delete key k t = filter (\<lambda>x. key x \<noteq> k) t"

text \<open>
  What the services rely on: a row that is found has the key it was looked for; a new row is found
  under its key; an update changes the row of its key only (a new key must be free); a deleted row
  is gone, and the others stay.
\<close>

locale keyed_table =
  fixes tget :: "'t \<Rightarrow> 'k \<Rightarrow> 'r option"
    and tinsert :: "'r \<Rightarrow> 't \<Rightarrow> 't"
    and tupdate :: "'k \<Rightarrow> 'r \<Rightarrow> 't \<Rightarrow> 't"
    and tdelete :: "'k \<Rightarrow> 't \<Rightarrow> 't"
    and key :: "'r \<Rightarrow> 'k"
  assumes get_key: "tget t k = Some r \<Longrightarrow> key r = k"
    and get_insert: "tget t (key r) = None \<Longrightarrow> tget (tinsert r t) k = (if k = key r then Some r else tget t k)"
    and get_update: "tget t k = Some r' \<Longrightarrow> key r = k \<or> tget t (key r) = None \<Longrightarrow>
          tget (tupdate k r t) k' = (if k' = key r then Some r else if k' = k then None else tget t k')"
    and get_delete: "tget (tdelete k t) k' = (if k' = k then None else tget t k')"
begin

lemma delete_insert: "tget t (key r) = None \<Longrightarrow> tget (tdelete (key r) (tinsert r t)) k = tget t k"
  by (simp add: get_delete get_insert)

lemma update_same: "tget t (key r) = Some r' \<Longrightarrow> tget (tupdate (key r) r t) k = (if k = key r then Some r else tget t k)"
  by (simp add: get_update)

lemma update_other: "tget t (key r) = Some r' \<Longrightarrow> k \<noteq> key r \<Longrightarrow> tget (tupdate (key r) r t) k = tget t k"
  by (simp add: update_same)

end

lemma tb_laws: "keyed_table (tb_get key) tb_insert (tb_update key) (tb_delete key) key"
proof
  fix t k r
  show "tb_get key t k = Some r \<Longrightarrow> key r = k" by (auto simp: tb_get_def dest: find_SomeD)
next
  fix t r k
  show "tb_get key t (key r) = None \<Longrightarrow> tb_get key (tb_insert r t) k = (if k = key r then Some r else tb_get key t k)"
    unfolding tb_get_def tb_insert_def by (induction t) auto
next
  fix t k r' r k'
  show "tb_get key t k = Some r' \<Longrightarrow> key r = k \<or> tb_get key t (key r) = None \<Longrightarrow>
      tb_get key (tb_update key k r t) k' = (if k' = key r then Some r else if k' = k then None else tb_get key t k')"
  proof (unfold tb_get_def tb_update_def, induction t)
    case (Cons x t)
    have miss: "find (\<lambda>r. key r = k') (map (\<lambda>x. if key x = k then r else x) u) =
        (if k' = k then None else find (\<lambda>r. key r = k') u)" if "k' \<noteq> key r" for u
      using that by (induction u) auto
    show ?case
    proof (cases "key x = k")
      case True
      with miss show ?thesis by auto
    next
      case False
      with Cons miss [of t] show ?thesis by (auto split: if_splits)
    qed
  qed simp
next
  fix k t k'
  show "tb_get key (tb_delete key k t) k' = (if k' = k then None else tb_get key t k')"
    unfolding tb_get_def tb_delete_def by (induction t) auto
qed

section \<open>The database\<close>

text \<open>A row of the queue refers to its window by id; its entry's window name is filled in on reading.\<close>

record queue_row =
  qr_Entry :: queue_entry
  qr_Window :: "int option"

record db =
  db_seq :: int
  db_sources :: "source list"
  db_targets :: "target list"
  db_instances :: instances
  db_batches :: "batch list"
  db_assigned :: "(string \<times> uuid) list"
  db_windows :: windows
  db_networks :: networks
  db_queue :: "queue_row list"
  db_warnings :: warnings
  db_artifacts :: artifacts

abbreviation qr_key :: "queue_row \<Rightarrow> uuid" where "qr_key r \<equiv> q_InstanceUUID (qr_Entry r)"
abbreviation w_key :: "window \<Rightarrow> string \<times> string" where "w_key w \<equiv> (w_Name w, w_Batch w)"
abbreviation n_key :: "network \<Rightarrow> string \<times> string" where "n_key n \<equiv> (n_SourceSpecificID n, n_Source n)"

interpretation queue_tab: keyed_table "tb_get qr_key" tb_insert "tb_update qr_key" "tb_delete qr_key" qr_key
  by (rule tb_laws)

interpretation batch_tab: keyed_table "tb_get b_Name" tb_insert "tb_update b_Name" "tb_delete b_Name" b_Name
  by (rule tb_laws)

interpretation instance_tab: keyed_table "tb_get i_UUID" tb_insert "tb_update i_UUID" "tb_delete i_UUID" i_UUID
  by (rule tb_laws)

interpretation source_tab: keyed_table "tb_get src_Name" tb_insert "tb_update src_Name" "tb_delete src_Name" src_Name
  by (rule tb_laws)

interpretation target_tab: keyed_table "tb_get tgt_Name" tb_insert "tb_update tgt_Name" "tb_delete tgt_Name" tgt_Name
  by (rule tb_laws)

interpretation network_tab: keyed_table "tb_get n_key" tb_insert "tb_update n_key" "tb_delete n_key" n_key
  by (rule tb_laws)

interpretation warning_tab: keyed_table "tb_get wn_UUID" tb_insert "tb_update wn_UUID" "tb_delete wn_UUID" wn_UUID
  by (rule tb_laws)

interpretation artifact_tab: keyed_table "tb_get af_UUID" tb_insert "tb_update af_UUID" "tb_delete af_UUID" af_UUID
  by (rule tb_laws)

interpretation window_tab: keyed_table "tb_get w_key" tb_insert "tb_update w_key" "tb_delete w_key" w_key
  by (rule tb_laws)

section \<open>The state of the daemon\<close>

record world =
  w_db :: db
  w_intx :: bool
  w_srcImports :: "(string, int) cache"
  w_tgtImports :: "(string, int) cache"
  w_tgtCreations :: "(string, int) cache"
  w_batchImports :: "(string, int) cache"
  w_retries :: "(uuid, int) cache"
  w_lastUpdate :: "(uuid, time) cache"

text \<open>A daemon that has just been set up.\<close>

definition empty_world :: world where
  "empty_world =
     \<lparr>w_db = \<lparr>db_seq = 1, db_sources = [], db_targets = [], db_instances = [], db_batches = [], db_assigned = [],
        db_windows = [], db_networks = [], db_queue = [], db_warnings = [], db_artifacts = []\<rparr>,
      w_intx = False, w_srcImports = Map.empty, w_tgtImports = Map.empty, w_tgtCreations = Map.empty,
      w_batchImports = Map.empty, w_retries = Map.empty, w_lastUpdate = Map.empty\<rparr>"

type_synonym 'a wm = "(world, err, 'a) act"

text \<open>
  \<^verbatim>\<open>transaction.Do\<close>: the first one on a context opens the transaction, an inner one joins it. On
  an error the outermost one undoes the writes to the database; the in-memory caches are not part
  of the transaction. (Opening, committing and rolling back are taken to succeed.)
\<close>

definition tx_do :: "'a wm \<Rightarrow> 'a wm" where
  "tx_do f = (\<lambda>s.
     if w_intx s then f s
     else (case f (s\<lparr>w_intx := True\<rparr>) of
         (Inl e, t) \<Rightarrow> (Inl e, t\<lparr>w_db := w_db s, w_intx := False\<rparr>)
       | (Inr a, t) \<Rightarrow> (Inr a, t\<lparr>w_intx := False\<rparr>)))"

text \<open>\<^verbatim>\<open>transaction.ForceTx\<close>, which the repositories use around multi-statement updates, behaves the same.\<close>

definition force_tx :: "'a wm \<Rightarrow> 'a wm" where
  "force_tx f = tx_do f"

definition dbget :: "(db \<Rightarrow> 'a) \<Rightarrow> 'a wm" where
  "dbget f = gets (\<lambda>s. f (w_db s))"

definition dbmod :: "(db \<Rightarrow> db) \<Rightarrow> unit wm" where
  "dbmod f = modify (\<lambda>s. s\<lparr>w_db := f (w_db s)\<rparr>)"

text \<open>A query for one row: no row is \<open>ErrNotFound\<close>.\<close>

definition found :: "'a option \<Rightarrow> 'a wm" where
  "found r = (case r of None \<Rightarrow> throw (Sentinel ErrNotFound) | Some a \<Rightarrow> ret a)"

text \<open>How a violated constraint comes back (\<^verbatim>\<open>clusterMapErr\<close>): directly for UNIQUE on insert, wrapped otherwise.\<close>

definition constraint_err :: "string \<Rightarrow> err" where
  "constraint_err what = Errorf ''%w: %v'' [AWrap (Sentinel ErrConstraintViolation), AErr (ExternalErr what)]"

lemma tx_do_run [run_simps]:
  "tx_do f s = (if w_intx s then f s
     else (case f (s\<lparr>w_intx := True\<rparr>) of
         (Inl e, t) \<Rightarrow> (Inl e, t\<lparr>w_db := w_db s, w_intx := False\<rparr>)
       | (Inr a, t) \<Rightarrow> (Inr a, t\<lparr>w_intx := False\<rparr>)))"
  by (simp add: tx_do_def)

lemma dbget_run [run_simps]: "dbget f s = (Inr (f (w_db s)), s)"
  by (simp add: dbget_def run_simps)

lemma dbmod_run [run_simps]: "dbmod f s = (Inr (), s\<lparr>w_db := f (w_db s)\<rparr>)"
  by (simp add: dbmod_def run_simps)

lemma found_run [run_simps]:
  "found r s = ((case r of None \<Rightarrow> Inl (Sentinel ErrNotFound) | Some a \<Rightarrow> Inr a), s)"
  by (simp add: found_def run_simps split: option.split)

lemma found_ok: "found r s = (Inr a, t) \<longleftrightarrow> r = Some a \<and> t = s"
  by (auto simp: found_run split: option.splits)

lemma dbget_ok: "dbget f s = (Inr a, t) \<longleftrightarrow> a = f (w_db s) \<and> t = s"
  by (auto simp: dbget_run)

lemma dbmod_ok: "dbmod f s = (Inr u, t) \<longleftrightarrow> t = s\<lparr>w_db := f (w_db s)\<rparr>"
  by (auto simp: dbmod_run)

lemma tx_do_ok:
  "tx_do f s = (Inr a, t) \<longleftrightarrow>
     (if w_intx s then f s = (Inr a, t) else \<exists>u. f (s\<lparr>w_intx := True\<rparr>) = (Inr a, u) \<and> t = u\<lparr>w_intx := False\<rparr>)"
  by (auto simp: tx_do_def split: prod.splits sum.splits)

lemma ro_dbget [ro_intros]: "ro (dbget f)"
  by (simp add: ro_def run_simps)

lemma ro_found [ro_intros]: "ro (found r)"
  by (simp add: ro_def run_simps)

lemma ro_tx_do [ro_intros]: "ro f \<Longrightarrow> ro (tx_do f)"
  unfolding ro_def
proof
  fix s
  assume ro: "\<forall>s. snd (f s) = s"
  obtain r t where r: "f (s\<lparr>w_intx := True\<rparr>) = (r, t)" by (cases "f (s\<lparr>w_intx := True\<rparr>)")
  with ro have "t = s\<lparr>w_intx := True\<rparr>" by (metis snd_conv)
  with r ro show "snd (tx_do f s) = s" by (cases r) (auto simp: tx_do_def)
qed

lemmas wm_ok = ok_simps found_ok dbget_ok dbmod_ok tx_do_ok

end
