(* ===== verification/Repo.thy ===== *)
theory Repo
  imports Store
begin

text \<open>
  The repositories (\<^verbatim>\<open>internal/migration/repo/sqlite\<close> and its entity mappers): what each query
  returns and in which order, and what each statement changes, with the UNIQUE, NOT NULL and
  foreign key constraints of the schema. Failures of the database itself are not modelled.
\<close>

section \<open>Queue\<close>

definition window_by_id :: "db \<Rightarrow> int \<Rightarrow> window option" where
  "window_by_id d i = find (\<lambda>w. w_ID w = i) (db_windows d)"

text \<open>
  The sub-select that turns a window's name into its id: its condition on the batch compares the
  window's own batch with itself (the unqualified \<open>batch_id\<close> is the window's column), so it takes
  the first window of that name of any batch, and NULL if there is none.
\<close>

definition window_id_by_name :: "db \<Rightarrow> string option \<Rightarrow> int option" where
  "window_id_by_name d name =
     (case name of
        None \<Rightarrow> None
      | Some n \<Rightarrow> map_option w_ID (find (\<lambda>w. w_Name w = n) (db_windows d)))"

definition read_queue_row :: "db \<Rightarrow> queue_row \<Rightarrow> queue_entry" where
  "read_queue_row d r =
     (qr_Entry r)\<lparr>q_MigrationWindowName :=
        (case qr_Window r of None \<Rightarrow> None | Some i \<Rightarrow> map_option w_Name (window_by_id d i))\<rparr>"

definition instance_id :: "db \<Rightarrow> uuid \<Rightarrow> int" where
  "instance_id d u = (case tb_get i_UUID (db_instances d) u of None \<Rightarrow> 0 | Some i \<Rightarrow> i_ID i)"

text \<open>All queries on the queue return their rows ordered by the instances' ids.\<close>

definition queue_select :: "(queue_entry \<Rightarrow> bool) \<Rightarrow> db \<Rightarrow> queue_entries" where
  "queue_select P d =
     filter P (map (read_queue_row d) (sort_key (\<lambda>r. instance_id d (qr_key r)) (db_queue d)))"

definition queue_repo_get_all :: "queue_entries wm" where
  "queue_repo_get_all = dbget (queue_select (\<lambda>_. True))"

text \<open>Several filters are combined with OR, and no filter at all selects everything.\<close>

definition queue_repo_get_all_by_state :: "migration_status list \<Rightarrow> queue_entries wm" where
  "queue_repo_get_all_by_state sts =
     dbget (queue_select (\<lambda>q. sts = [] \<or> q_MigrationStatus q \<in> set sts))"

definition queue_repo_get_all_by_batch :: "string \<Rightarrow> queue_entries wm" where
  "queue_repo_get_all_by_batch b = dbget (queue_select (\<lambda>q. q_BatchName q = b))"

definition queue_repo_get_all_by_batch_and_state :: "string \<Rightarrow> migration_status list \<Rightarrow> queue_entries wm" where
  "queue_repo_get_all_by_batch_and_state b sts =
     dbget (queue_select (\<lambda>q. sts = [] \<or> q_BatchName q = b \<and> q_MigrationStatus q \<in> set sts))"

definition queue_repo_get_all_needing_import :: "string \<Rightarrow> import_stage \<Rightarrow> queue_entries wm" where
  "queue_repo_get_all_needing_import b stage = dbget (queue_select (\<lambda>q. q_ImportStage q = stage))"

definition queue_lookup :: "db \<Rightarrow> uuid \<Rightarrow> queue_entry option" where
  "queue_lookup d u = map_option (read_queue_row d) (tb_get qr_key (db_queue d) u)"

definition queue_repo_get :: "uuid \<Rightarrow> queue_entry wm" where
  "queue_repo_get u = bindm (dbget (\<lambda>d. queue_lookup d u)) found"

text \<open>
  A stored row: the id is the table's, the window is kept by id, and the window name of the entry
  is left to the read.
\<close>

definition queue_store :: "db \<Rightarrow> int \<Rightarrow> queue_entry \<Rightarrow> queue_row" where
  "queue_store d i q =
     \<lparr>qr_Entry = q\<lparr>q_ID := i, q_MigrationWindowName := None\<rparr>,
      qr_Window = window_id_by_name d (q_MigrationWindowName q)\<rparr>"

definition queue_repo_create :: "queue_entry \<Rightarrow> int wm" where
  "queue_repo_create q =
     bindm (dbget id) (\<lambda>d.
     if tb_get i_UUID (db_instances d) (q_InstanceUUID q) = None \<or> tb_get b_Name (db_batches d) (q_BatchName q) = None
     then throw (constraint_err ''NOT NULL constraint failed'')
     else if tb_get qr_key (db_queue d) (q_InstanceUUID q) \<noteq> None then throw (Sentinel ErrConstraintViolation)
     else andthen (dbmod (\<lambda>d. d\<lparr>db_queue := tb_insert (queue_store d (db_seq d) q) (db_queue d), db_seq := db_seq d + 1\<rparr>))
            (ret (db_seq d)))"

definition queue_repo_update :: "queue_entry \<Rightarrow> unit wm" where
  "queue_repo_update q =
     force_tx (bindm (dbget id) (\<lambda>d.
       case tb_get qr_key (db_queue d) (q_InstanceUUID q) of
         None \<Rightarrow> throw (Sentinel ErrNotFound)
       | Some r \<Rightarrow>
           if tb_get b_Name (db_batches d) (q_BatchName q) = None
           then throw (constraint_err ''NOT NULL constraint failed'')
           else dbmod (\<lambda>d. d\<lparr>db_queue :=
                  tb_update qr_key (q_InstanceUUID q) (queue_store d (q_ID (qr_Entry r)) q) (db_queue d)\<rparr>)))"

definition queue_repo_delete :: "uuid \<Rightarrow> unit wm" where
  "queue_repo_delete u =
     bindm (dbget (\<lambda>d. tb_get qr_key (db_queue d) u)) (\<lambda>r.
     case r of
       None \<Rightarrow> throw (Sentinel ErrNotFound)
     | Some _ \<Rightarrow> dbmod (\<lambda>d. d\<lparr>db_queue := tb_delete qr_key u (db_queue d)\<rparr>))"

definition queue_repo_delete_all_by_batch :: "string \<Rightarrow> unit wm" where
  "queue_repo_delete_all_by_batch b =
     dbmod (\<lambda>d. d\<lparr>db_queue := filter (\<lambda>r. q_BatchName (qr_Entry r) \<noteq> b) (db_queue d)\<rparr>)"

section \<open>Instances\<close>

definition source_id :: "db \<Rightarrow> string \<Rightarrow> int" where
  "source_id d s = (case tb_get src_Name (db_sources d) s of None \<Rightarrow> 0 | Some r \<Rightarrow> src_ID r)"

definition instance_select :: "(inst \<Rightarrow> bool) \<Rightarrow> db \<Rightarrow> instances" where
  "instance_select P d = filter P (sort_key (\<lambda>i. source_id d (i_Source i)) (db_instances d))"

definition instance_repo_get_all :: "instances wm" where
  "instance_repo_get_all = dbget (instance_select (\<lambda>_. True))"

definition instance_repo_get_all_by_source :: "string \<Rightarrow> instances wm" where
  "instance_repo_get_all_by_source s = dbget (instance_select (\<lambda>i. i_Source i = s))"

definition instance_repo_get_all_by_uuids :: "uuid list \<Rightarrow> instances wm" where
  "instance_repo_get_all_by_uuids us = dbget (instance_select (\<lambda>i. us = [] \<or> i_UUID i \<in> set us))"

definition instances_by_batch :: "db \<Rightarrow> string \<Rightarrow> instances" where
  "instances_by_batch d b = sort_key i_UUID (filter (\<lambda>i. (b, i_UUID i) \<in> set (db_assigned d)) (db_instances d))"

definition instance_repo_get_all_by_batch :: "string \<Rightarrow> instances wm" where
  "instance_repo_get_all_by_batch b = dbget (\<lambda>d. instances_by_batch d b)"

definition instance_repo_get_all_unassigned :: "instances wm" where
  "instance_repo_get_all_unassigned =
     dbget (\<lambda>d. sort_key i_UUID (filter (\<lambda>i. i_UUID i \<notin> snd ` set (db_assigned d)) (db_instances d)))"

text \<open>The join returns an instance once per running or failed batch it is assigned to.\<close>

definition instance_repo_get_all_in_running_batches :: "instances wm" where
  "instance_repo_get_all_in_running_batches =
     dbget (\<lambda>d. sort_key i_UUID (concat (map (\<lambda>b. filter (\<lambda>i. (b_Name b, i_UUID i) \<in> set (db_assigned d)) (db_instances d))
        (filter (\<lambda>b. b_Status b = BATCHSTATUS_RUNNING \<or> b_Status b = BATCHSTATUS_ERROR) (db_batches d)))))"

definition instance_repo_get_uuids_by_source :: "string \<Rightarrow> uuid list wm" where
  "instance_repo_get_uuids_by_source s =
     dbget (\<lambda>d. sort (map i_UUID (filter (\<lambda>i. i_Source i = s) (db_instances d))))"

definition instance_repo_get :: "uuid \<Rightarrow> inst wm" where
  "instance_repo_get u = bindm (dbget (\<lambda>d. tb_get i_UUID (db_instances d) u)) found"

definition batches_by_instance :: "db \<Rightarrow> uuid \<Rightarrow> batch list" where
  "batches_by_instance d u = sort_key b_Name (filter (\<lambda>b. (b_Name b, u) \<in> set (db_assigned d)) (db_batches d))"

definition instance_repo_get_batches :: "uuid \<Rightarrow> batch list wm" where
  "instance_repo_get_batches u = dbget (\<lambda>d. batches_by_instance d u)"

text \<open>The source type of an instance is not stored: it is read from its source.\<close>

definition instance_source_type :: "db \<Rightarrow> inst \<Rightarrow> inst" where
  "instance_source_type d i =
     (case tb_get src_Name (db_sources d) (i_Source i) of None \<Rightarrow> i | Some s \<Rightarrow> i\<lparr>i_SourceType := src_SourceType s\<rparr>)"

definition instance_repo_create :: "inst \<Rightarrow> int wm" where
  "instance_repo_create i =
     bindm (dbget id) (\<lambda>d.
     if tb_get src_Name (db_sources d) (i_Source i) = None then throw (constraint_err ''NOT NULL constraint failed'')
     else if tb_get i_UUID (db_instances d) (i_UUID i) \<noteq> None then throw (Sentinel ErrConstraintViolation)
     else andthen (dbmod (\<lambda>d. d\<lparr>db_instances := tb_insert ((instance_source_type d i)\<lparr>i_ID := db_seq d\<rparr>) (db_instances d),
                                db_seq := db_seq d + 1\<rparr>))
            (ret (db_seq d)))"

definition instance_repo_update :: "inst \<Rightarrow> unit wm" where
  "instance_repo_update i =
     force_tx (bindm (dbget id) (\<lambda>d.
       case tb_get i_UUID (db_instances d) (i_UUID i) of
         None \<Rightarrow> throw (Sentinel ErrNotFound)
       | Some old \<Rightarrow>
           if tb_get src_Name (db_sources d) (i_Source i) = None then throw (constraint_err ''NOT NULL constraint failed'')
           else dbmod (\<lambda>d. d\<lparr>db_instances :=
                  tb_update i_UUID (i_UUID i) ((instance_source_type d i)\<lparr>i_ID := i_ID old\<rparr>) (db_instances d)\<rparr>)))"

text \<open>Deleting an instance takes its queue entry and its batch assignments with it.\<close>

definition instance_repo_delete :: "uuid \<Rightarrow> unit wm" where
  "instance_repo_delete u =
     bindm (dbget (\<lambda>d. tb_get i_UUID (db_instances d) u)) (\<lambda>r.
     case r of
       None \<Rightarrow> throw (Sentinel ErrNotFound)
     | Some _ \<Rightarrow> dbmod (\<lambda>d. d\<lparr>db_instances := tb_delete i_UUID u (db_instances d),
                              db_queue := tb_delete qr_key u (db_queue d),
                              db_assigned := filter (\<lambda>a. snd a \<noteq> u) (db_assigned d)\<rparr>))"

section \<open>Batches\<close>

definition batch_repo_get_all :: "batch list wm" where
  "batch_repo_get_all = dbget (\<lambda>d. sort_key b_Name (db_batches d))"

definition batch_repo_get_all_by_state :: "batch_status \<Rightarrow> batch list wm" where
  "batch_repo_get_all_by_state st = dbget (\<lambda>d. filter (\<lambda>b. b_Status b = st) (sort_key b_Name (db_batches d)))"

definition batch_repo_get :: "string \<Rightarrow> batch wm" where
  "batch_repo_get n = bindm (dbget (\<lambda>d. tb_get b_Name (db_batches d) n)) found"

definition batch_repo_create :: "batch \<Rightarrow> int wm" where
  "batch_repo_create b =
     bindm (dbget id) (\<lambda>d.
     if tb_get b_Name (db_batches d) (b_Name b) \<noteq> None then throw (Sentinel ErrConstraintViolation)
     else andthen (dbmod (\<lambda>d. d\<lparr>db_batches := tb_insert (b\<lparr>b_ID := db_seq d\<rparr>) (db_batches d), db_seq := db_seq d + 1\<rparr>))
            (ret (db_seq d)))"

text \<open>The other tables refer to a batch by id, so they follow when its name changes.\<close>

definition rename_batch :: "string \<Rightarrow> string \<Rightarrow> db \<Rightarrow> db" where
  "rename_batch old new d =
     (let nm = (\<lambda>n. if n = old then new else n) in
      d\<lparr>db_queue := map (\<lambda>r. r\<lparr>qr_Entry := (qr_Entry r)\<lparr>q_BatchName := nm (q_BatchName (qr_Entry r))\<rparr>\<rparr>) (db_queue d),
        db_windows := map (\<lambda>w. w\<lparr>w_Batch := nm (w_Batch w)\<rparr>) (db_windows d),
        db_assigned := map (\<lambda>a. (nm (fst a), snd a)) (db_assigned d)\<rparr>)"

definition batch_repo_update :: "string \<Rightarrow> batch \<Rightarrow> unit wm" where
  "batch_repo_update name b =
     force_tx (bindm (dbget id) (\<lambda>d.
       case tb_get b_Name (db_batches d) name of
         None \<Rightarrow> throw (Sentinel ErrNotFound)
       | Some old \<Rightarrow>
           if b_Name b \<noteq> name \<and> tb_get b_Name (db_batches d) (b_Name b) \<noteq> None
           then throw (constraint_err ''UNIQUE constraint failed'')
           else dbmod (\<lambda>d. rename_batch name (b_Name b)
                  (d\<lparr>db_batches := tb_update b_Name name (b\<lparr>b_ID := b_ID old\<rparr>) (db_batches d)\<rparr>))))"

definition batch_repo_rename :: "string \<Rightarrow> string \<Rightarrow> unit wm" where
  "batch_repo_rename old new =
     bindm (dbget id) (\<lambda>d.
     case tb_get b_Name (db_batches d) old of
       None \<Rightarrow> throw (Errorf ''Query affected %d rows instead of 1'' [AInt 0])
     | Some b \<Rightarrow>
         if new \<noteq> old \<and> tb_get b_Name (db_batches d) new \<noteq> None then throw (constraint_err ''UNIQUE constraint failed'')
         else dbmod (\<lambda>d. rename_batch old new
                (d\<lparr>db_batches := tb_update b_Name old (b\<lparr>b_Name := new\<rparr>) (db_batches d)\<rparr>)))"

text \<open>
  Deleting a batch takes its queue entries, windows and assignments with it; a window that an entry
  of another batch refers to stops it.
\<close>

definition batch_repo_delete :: "string \<Rightarrow> unit wm" where
  "batch_repo_delete name =
     bindm (dbget id) (\<lambda>d.
     case tb_get b_Name (db_batches d) name of
       None \<Rightarrow> throw (Sentinel ErrNotFound)
     | Some _ \<Rightarrow>
         if \<exists>r \<in> set (db_queue d). q_BatchName (qr_Entry r) \<noteq> name \<and>
              (\<exists>w \<in> set (db_windows d). w_Batch w = name \<and> qr_Window r = Some (w_ID w))
         then throw (constraint_err ''FOREIGN KEY constraint failed'')
         else dbmod (\<lambda>d. d\<lparr>db_batches := tb_delete b_Name name (db_batches d),
                db_queue := filter (\<lambda>r. q_BatchName (qr_Entry r) \<noteq> name) (db_queue d),
                db_windows := filter (\<lambda>w. w_Batch w \<noteq> name) (db_windows d),
                db_assigned := filter (\<lambda>a. fst a \<noteq> name) (db_assigned d)\<rparr>))"

definition batch_repo_assign :: "string \<Rightarrow> uuid \<Rightarrow> unit wm" where
  "batch_repo_assign name u =
     force_tx (andthen (batch_repo_get name) (andthen (instance_repo_get u)
       (bindm (dbget db_assigned) (\<lambda>as.
        if (name, u) \<in> set as then throw (Sentinel ErrConstraintViolation)
        else dbmod (\<lambda>d. d\<lparr>db_assigned := db_assigned d @ [(name, u)]\<rparr>)))))"

definition batch_repo_unassign :: "string \<Rightarrow> uuid \<Rightarrow> unit wm" where
  "batch_repo_unassign name u =
     force_tx (andthen (batch_repo_get name) (andthen (instance_repo_get u)
       (bindm (dbget db_assigned) (\<lambda>as.
        if (name, u) \<in> set as then dbmod (\<lambda>d. d\<lparr>db_assigned := filter (\<lambda>a. a \<noteq> (name, u)) (db_assigned d)\<rparr>)
        else throw (Sentinel ErrNotFound)))))"

section \<open>Windows, networks, sources, targets\<close>

definition windows_by_batch :: "db \<Rightarrow> string \<Rightarrow> windows" where
  "windows_by_batch d b = sort_key w_Start (filter (\<lambda>w. w_Batch w = b) (db_windows d))"

definition window_repo_get_all :: "windows wm" where
  "window_repo_get_all = dbget (\<lambda>d. sort_key w_Start (db_windows d))"

definition window_repo_get_all_by_batch :: "string \<Rightarrow> windows wm" where
  "window_repo_get_all_by_batch b = dbget (\<lambda>d. windows_by_batch d b)"

definition window_repo_get :: "string \<Rightarrow> string \<Rightarrow> window wm" where
  "window_repo_get n b = bindm (dbget (\<lambda>d. tb_get w_key (db_windows d) (n, b))) found"

definition window_clash :: "window \<Rightarrow> window \<Rightarrow> bool" where
  "window_clash w v \<longleftrightarrow> w_Batch v = w_Batch w \<and>
     (w_Name v = w_Name w \<or> w_Start v = w_Start w \<and> w_End v = w_End w \<and> w_Lockout v = w_Lockout w)"

definition window_repo_create :: "window \<Rightarrow> int wm" where
  "window_repo_create w =
     bindm (dbget id) (\<lambda>d.
     if tb_get b_Name (db_batches d) (w_Batch w) = None then throw (constraint_err ''NOT NULL constraint failed'')
     else if \<exists>v \<in> set (db_windows d). window_clash w v then throw (Sentinel ErrConstraintViolation)
     else andthen (dbmod (\<lambda>d. d\<lparr>db_windows := tb_insert (w\<lparr>w_ID := db_seq d\<rparr>) (db_windows d), db_seq := db_seq d + 1\<rparr>))
            (ret (db_seq d)))"

definition window_repo_update :: "window \<Rightarrow> unit wm" where
  "window_repo_update w =
     force_tx (bindm (dbget id) (\<lambda>d.
       case tb_get w_key (db_windows d) (w_Name w, w_Batch w) of
         None \<Rightarrow> throw (Sentinel ErrNotFound)
       | Some old \<Rightarrow>
           if \<exists>v \<in> set (db_windows d). w_key v \<noteq> w_key w \<and> window_clash w v
           then throw (constraint_err ''UNIQUE constraint failed'')
           else dbmod (\<lambda>d. d\<lparr>db_windows := tb_update w_key (w_Name w, w_Batch w) (w\<lparr>w_ID := w_ID old\<rparr>) (db_windows d)\<rparr>)))"

definition window_repo_delete :: "string \<Rightarrow> string \<Rightarrow> unit wm" where
  "window_repo_delete n b =
     bindm (dbget id) (\<lambda>d.
     case tb_get w_key (db_windows d) (n, b) of
       None \<Rightarrow> throw (Sentinel ErrNotFound)
     | Some w \<Rightarrow>
         if \<exists>r \<in> set (db_queue d). qr_Window r = Some (w_ID w)
         then throw (constraint_err ''FOREIGN KEY constraint failed'')
         else dbmod (\<lambda>d. d\<lparr>db_windows := tb_delete w_key (n, b) (db_windows d)\<rparr>))"

definition network_repo_get_all :: "networks wm" where
  "network_repo_get_all =
     dbget (\<lambda>d. sort_key n_SourceSpecificID (sort_key (\<lambda>n. source_id d (n_Source n)) (db_networks d)))"

definition network_repo_get_all_by_source :: "string \<Rightarrow> networks wm" where
  "network_repo_get_all_by_source s =
     dbget (\<lambda>d. sort_key n_SourceSpecificID (filter (\<lambda>n. n_Source n = s) (db_networks d)))"

definition source_repo_get :: "string \<Rightarrow> source wm" where
  "source_repo_get n = bindm (dbget (\<lambda>d. tb_get src_Name (db_sources d) n)) found"

definition target_repo_get :: "string \<Rightarrow> target wm" where
  "target_repo_get n = bindm (dbget (\<lambda>d. tb_get tgt_Name (db_targets d) n)) found"

end
