(* ===== verification/Instance_Service.thy ===== *)
theory Instance_Service
  imports Repo
begin

text \<open>
  The import counters of the source, target and batch services, and the services for windows'
  callers that only read; the instance service
  (\<^verbatim>\<open>internal/migration/instance_service.go\<close>).
\<close>

section \<open>Counters and lookups by name\<close>

definition source_record_import :: "string \<Rightarrow> unit wm" where
  "source_record_import n = modify (\<lambda>s. s\<lparr>w_srcImports := counter_record n (w_srcImports s)\<rparr>)"

definition source_remove_import :: "string \<Rightarrow> unit wm" where
  "source_remove_import n = modify (\<lambda>s. s\<lparr>w_srcImports := counter_remove n (w_srcImports s)\<rparr>)"

definition target_record_import :: "string \<Rightarrow> unit wm" where
  "target_record_import n = modify (\<lambda>s. s\<lparr>w_tgtImports := counter_record n (w_tgtImports s)\<rparr>)"

definition target_remove_import :: "string \<Rightarrow> unit wm" where
  "target_remove_import n = modify (\<lambda>s. s\<lparr>w_tgtImports := counter_remove n (w_tgtImports s)\<rparr>)"

definition target_record_creation :: "string \<Rightarrow> unit wm" where
  "target_record_creation n = modify (\<lambda>s. s\<lparr>w_tgtCreations := counter_record n (w_tgtCreations s)\<rparr>)"

definition target_remove_creation :: "string \<Rightarrow> unit wm" where
  "target_remove_creation n = modify (\<lambda>s. s\<lparr>w_tgtCreations := counter_remove n (w_tgtCreations s)\<rparr>)"

definition target_cached_creations :: "string \<Rightarrow> int wm" where
  "target_cached_creations n = gets (\<lambda>s. counter_get (w_tgtCreations s) n)"

definition batch_record_import :: "string \<Rightarrow> unit wm" where
  "batch_record_import n = modify (\<lambda>s. s\<lparr>w_batchImports := counter_record n (w_batchImports s)\<rparr>)"

definition batch_remove_import :: "string \<Rightarrow> unit wm" where
  "batch_remove_import n = modify (\<lambda>s. s\<lparr>w_batchImports := counter_remove n (w_batchImports s)\<rparr>)"

definition source_cached_imports :: "string \<Rightarrow> int wm" where
  "source_cached_imports n = gets (\<lambda>s. counter_get (w_srcImports s) n)"

definition target_cached_imports :: "string \<Rightarrow> int wm" where
  "target_cached_imports n = gets (\<lambda>s. counter_get (w_tgtImports s) n)"

definition batch_cached_imports :: "string \<Rightarrow> int wm" where
  "batch_cached_imports n = gets (\<lambda>s. counter_get (w_batchImports s) n)"

definition get_post_migration_retries :: "uuid \<Rightarrow> int wm" where
  "get_post_migration_retries u = gets (\<lambda>s. counter_get (w_retries s) u)"

definition record_post_migration_retry :: "uuid \<Rightarrow> unit wm" where
  "record_post_migration_retry u = modify (\<lambda>s. s\<lparr>w_retries := counter_record u (w_retries s)\<rparr>)"

definition source_get_by_name :: "string \<Rightarrow> source wm" where
  "source_get_by_name n =
     (if n = '''' then throw (Errorf ''Source name cannot be empty: %w'' [AWrap (Sentinel ErrOperationNotPermitted)])
      else source_repo_get n)"

definition target_get_by_name :: "string \<Rightarrow> target wm" where
  "target_get_by_name n =
     (if n = '''' then throw (Errorf ''Target name cannot be empty: %w'' [AWrap (Sentinel ErrOperationNotPermitted)])
      else target_repo_get n)"

definition batch_get_by_name :: "string \<Rightarrow> batch wm" where
  "batch_get_by_name n =
     (if n = '''' then throw (Errorf ''Batch name cannot be empty: %w'' [AWrap (Sentinel ErrOperationNotPermitted)])
      else batch_repo_get n)"

section \<open>Instance service\<close>

definition instance_create :: "ext \<Rightarrow> inst \<Rightarrow> inst wm" where
  "instance_create x i =
     andthen (fail_on (instance_validate x i))
       (bindm (instance_repo_create i) (\<lambda>n. ret (i\<lparr>i_ID := n\<rparr>)))"

definition instance_get_all_queued :: "queue_entries \<Rightarrow> instances wm" where
  "instance_get_all_queued qs = (if qs = [] then ret [] else instance_repo_get_all_by_uuids (map q_InstanceUUID qs))"

text \<open>
  An instance may be changed while no running (or failed) batch could migrate it as it is. The
  update compares the stored record, not the new one.
\<close>

definition blocked_in :: "ext \<Rightarrow> inst \<Rightarrow> batch \<Rightarrow> bool" where
  "blocked_in x i b \<longleftrightarrow> disabled_reason_of x i (bc_RestrictionOverrides (b_Config b)) \<noteq> None"

definition instance_update :: "ext \<Rightarrow> inst \<Rightarrow> bool \<Rightarrow> unit wm" where
  "instance_update x i allowWhileMigrating =
     andthen (fail_on (instance_validate x i))
      (tx_do (bindm (instance_repo_get (i_UUID i)) (\<lambda>old.
        andthen
          (if allowWhileMigrating then ret ()
           else bindm (instance_repo_get_batches (i_UUID i)) (\<lambda>bs.
             fail_if (\<exists>b \<in> set bs. (b_Status b = BATCHSTATUS_RUNNING \<or> b_Status b = BATCHSTATUS_ERROR) \<and> \<not> blocked_in x old b)
               (Errorf ''Instance %q is part of a running batch and cannot be modified: %w''
                  [AStr (ip_Location (i_Properties old)), AWrap (Sentinel ErrOperationNotPermitted)])))
          (instance_repo_update i))))"

definition same_os_override :: "instance_override \<Rightarrow> instance_override \<Rightarrow> bool" where
  "same_os_override o1 o2 \<longleftrightarrow>
     cfg_Name (ov_Configurable o1) = cfg_Name (ov_Configurable o2) \<and> ov_OSType o1 = ov_OSType o2 \<and>
     ov_Distribution o1 = ov_Distribution o2 \<and> ov_DistributionVersion o1 = ov_DistributionVersion o2 \<and>
     cfg_Architecture (ov_Configurable o1) = cfg_Architecture (ov_Configurable o2)"

definition instance_update_override :: "ext \<Rightarrow> uuid \<Rightarrow> instance_override \<Rightarrow> unit wm" where
  "instance_update_override x u new =
     tx_do (bindm (instance_repo_get u) (\<lambda>i.
       bindm (attempt (queue_repo_get u)) (\<lambda>r.
       case r of
         Inl e \<Rightarrow> if err_is ErrNotFound e then instance_update x (i\<lparr>i_Overrides := new\<rparr>) False else throw e
       | Inr entry \<Rightarrow>
          andthen (fail_if (\<not> ov_DisableMigration (i_Overrides i) \<and> ov_DisableMigration new)
                     (Errorf ''Migration has already started for instance %q'' [AUuid (i_UUID i)]))
         (andthen (fail_if (q_MigrationStatus entry \<noteq> MIGRATIONSTATUS_CANCELED \<and> \<not> same_os_override (i_Overrides i) new)
                     (Errorf ''Cannot override OS information for instance %q after migration has started'' [AUuid (i_UUID i)]))
         (andthen (instance_update x (i\<lparr>i_Overrides := new\<rparr>) True)
           (if (p_Running (q_Placement entry) \<and> ov_StoppedAfterMigration new) \<or>
               (\<not> p_Running (q_Placement entry) \<and> ov_StartedAfterMigration new)
            then queue_repo_update (entry\<lparr>q_Placement := (q_Placement entry)\<lparr>p_Running := ov_StartedAfterMigration new\<rparr>\<rparr>)
            else ret ()))))))"

text \<open>
  The caller's record is changed in place before it is stored; the function returns it along with
  the outcome.
\<close>

definition reset_background :: "inst \<Rightarrow> inst" where
  "reset_background i = i\<lparr>i_Properties := (i_Properties i)\<lparr>ip_BackgroundImport := True,
     ip_Disks := map (\<lambda>d. d\<lparr>d_BackgroundImportVerified := False\<rparr>) (ip_Disks (i_Properties i))\<rparr>\<rparr>"

definition instance_reset_background_import :: "ext \<Rightarrow> inst \<Rightarrow> inst wm" where
  "instance_reset_background_import x i =
     (if ip_BackgroundImport (i_Properties i) then ret i
      else tx_do (if ov_DisableMigration (i_Overrides i) then ret i
        else bindm (instance_repo_get_batches (i_UUID i)) (\<lambda>bs.
          case find (\<lambda>b. (ro_AllowNoBackgroundImport (bc_RestrictionOverrides (b_Config b)) \<or> ov_IgnoreRestrictions (i_Overrides i)) \<and>
                         b_Status b = BATCHSTATUS_RUNNING) bs of
            Some b \<Rightarrow> throw (Errorf ''Cannot reset background_import for unrestricted instance in a running batch %q''
                        [AStr (b_Name b)])
          | None \<Rightarrow> andthen (instance_update x (reset_background i) False) (ret (reset_background i)))))"

definition set_verified :: "bool \<Rightarrow> string list \<Rightarrow> inst \<Rightarrow> inst" where
  "set_verified hasSupport disks i = i\<lparr>i_Properties := (i_Properties i)\<lparr>ip_BackgroundImport := hasSupport,
     ip_Disks := map (\<lambda>d. if d_Name d \<in> set disks then d\<lparr>d_BackgroundImportVerified := True\<rparr> else d)
       (ip_Disks (i_Properties i))\<rparr>\<rparr>"

definition instance_set_background_import_verified :: "uuid \<Rightarrow> bool \<Rightarrow> string list \<Rightarrow> inst wm" where
  "instance_set_background_import_verified u hasSupport disks =
     tx_do (bindm (instance_repo_get u) (\<lambda>i.
       if disks = [] \<and> ip_BackgroundImport (i_Properties i) = hasSupport then ret i
       else let modified = (ip_BackgroundImport (i_Properties i) \<noteq> hasSupport \<or>
                  (\<exists>d \<in> set (ip_Disks (i_Properties i)). d_Name d \<in> set disks \<and> \<not> d_BackgroundImportVerified d));
                i' = set_verified hasSupport disks i
            in if modified then andthen (instance_repo_update i') (ret i') else ret i'))"

definition instance_delete :: "ext \<Rightarrow> uuid \<Rightarrow> unit wm" where
  "instance_delete x u =
     tx_do (bindm (instance_repo_get u) (\<lambda>old.
       bindm (instance_repo_get_batches u) (\<lambda>bs.
       andthen (fail_if (\<exists>b \<in> set bs. \<not> blocked_in x old b)
                 (Errorf ''Cannot delete instance %q: Either assigned to a batch or currently migrating: %w''
                    [AStr (ip_Location (i_Properties old)), AWrap (Sentinel ErrOperationNotPermitted)]))
         (instance_repo_delete u))))"

definition instance_remove_from_queue :: "uuid \<Rightarrow> unit wm" where
  "instance_remove_from_queue u = queue_repo_delete u"

lemma counters_run [run_simps]:
  "source_record_import n s = (Inr (), s\<lparr>w_srcImports := counter_record n (w_srcImports s)\<rparr>)"
  "source_remove_import n s = (Inr (), s\<lparr>w_srcImports := counter_remove n (w_srcImports s)\<rparr>)"
  "target_record_import n s = (Inr (), s\<lparr>w_tgtImports := counter_record n (w_tgtImports s)\<rparr>)"
  "target_remove_import n s = (Inr (), s\<lparr>w_tgtImports := counter_remove n (w_tgtImports s)\<rparr>)"
  "batch_record_import n s = (Inr (), s\<lparr>w_batchImports := counter_record n (w_batchImports s)\<rparr>)"
  "batch_remove_import n s = (Inr (), s\<lparr>w_batchImports := counter_remove n (w_batchImports s)\<rparr>)"
  "source_cached_imports n s = (Inr (counter_get (w_srcImports s) n), s)"
  "target_cached_imports n s = (Inr (counter_get (w_tgtImports s) n), s)"
  "batch_cached_imports n s = (Inr (counter_get (w_batchImports s) n), s)"
  by (simp_all add: source_record_import_def source_remove_import_def target_record_import_def
      target_remove_import_def batch_record_import_def batch_remove_import_def source_cached_imports_def
      target_cached_imports_def batch_cached_imports_def run_simps)

end
