(* ===== verification/Queue_Base.thy ===== *)
theory Queue_Base
  imports Instance_Service
begin

text \<open>
  The operations of the queue service that read and write single entries
  (\<^verbatim>\<open>internal/migration/queue_service.go\<close>, first half), which the batch and window services and the
  scheduler use. Entries change through \<open>queue_update_status\<close> above all.
\<close>

definition queue_create_entry :: "queue_entry \<Rightarrow> queue_entry wm" where
  "queue_create_entry q =
     andthen (fail_on (queue_validate q)) (bindm (queue_repo_create q) (\<lambda>n. ret (q\<lparr>q_ID := n\<rparr>)))"

definition queue_get_all :: "queue_entries wm" where
  "queue_get_all = queue_repo_get_all"

definition queue_get_all_by_state :: "migration_status list \<Rightarrow> queue_entries wm" where
  "queue_get_all_by_state sts = queue_repo_get_all_by_state sts"

definition queue_get_all_by_batch :: "string \<Rightarrow> queue_entries wm" where
  "queue_get_all_by_batch b = queue_repo_get_all_by_batch b"

definition queue_get_all_by_batch_and_state :: "string \<Rightarrow> migration_status list \<Rightarrow> queue_entries wm" where
  "queue_get_all_by_batch_and_state b sts = queue_repo_get_all_by_batch_and_state b sts"

definition queue_get_all_needing_import :: "string \<Rightarrow> import_stage \<Rightarrow> queue_entries wm" where
  "queue_get_all_needing_import b stage = queue_repo_get_all_needing_import b stage"

definition queue_get :: "uuid \<Rightarrow> queue_entry wm" where
  "queue_get u = queue_repo_get u"

text \<open>\<open>fmt.Errorf("Failed to get instance '%s': %w", id, err)\<close> and its likes.\<close>

definition get_instance_err :: "uuid \<Rightarrow> err \<Rightarrow> err" where
  "get_instance_err u e =
     Errorf (''Failed to get instance '' @ squote @ ''%s'' @ squote @ '': %w'') [AUuid u, AWrap e]"

definition queue_update_status ::
    "uuid \<Rightarrow> migration_status \<Rightarrow> string \<Rightarrow> import_stage \<Rightarrow> string option \<Rightarrow> queue_entry wm" where
  "queue_update_status u status msg stage windowID =
     (case migration_status_validate status of
        Some e \<Rightarrow> throw (ErrValidation ''Invalid migration status: %v'' [AErr e])
      | None \<Rightarrow>
          tx_do (bindm (wrap_err (get_instance_err u) (queue_repo_get u)) (\<lambda>q.
            let q' = q\<lparr>q_MigrationStatus := status, q_MigrationStatusMessage := msg, q_ImportStage := stage,
                       q_MigrationWindowName := windowID\<rparr>
            in andthen (queue_repo_update q') (ret q'))))"

definition queue_update_placement :: "uuid \<Rightarrow> placement \<Rightarrow> queue_entry wm" where
  "queue_update_placement u p =
     tx_do (bindm (wrap_err (get_instance_err u) (queue_repo_get u)) (\<lambda>q.
       let q' = q\<lparr>q_Placement := p\<rparr>
       in andthen (fail_on (queue_validate q')) (andthen (queue_repo_update q') (ret q'))))"

definition queue_update :: "queue_entry \<Rightarrow> unit wm" where
  "queue_update q = queue_repo_update q"

definition queue_delete :: "uuid \<Rightarrow> unit wm" where
  "queue_delete u =
     tx_do (bindm (wrap_err (\<lambda>e. Errorf ''Failed to get queue entry %q: %w'' [AUuid u, AWrap e]) (queue_repo_get u)) (\<lambda>entry.
       andthen (fail_if (is_migrating entry)
                 (Errorf ''Cannot delete queue entry %q: Currently in a migration phase: %w''
                    [AUuid u, AWrap (Sentinel ErrOperationNotPermitted)]))
         (queue_repo_delete u)))"

definition queue_delete_all_by_batch :: "string \<Rightarrow> unit wm" where
  "queue_delete_all_by_batch b = tx_do (queue_repo_delete_all_by_batch b)"

section \<open>The queue as a map\<close>

text \<open>
  The abstract view of the queue: the entry of each instance. Every operation is an update of that
  map at one instance; the lemmas give each operation's effect in this view.
\<close>

definition queue_map :: "world \<Rightarrow> uuid \<rightharpoonup> queue_entry" where
  "queue_map s u = queue_lookup (w_db s) u"

lemma queue_repo_get_ok:
  "queue_repo_get u s = (Inr q, t) \<longleftrightarrow> t = s \<and> queue_map s u = Some q"
  by (auto simp: queue_repo_get_def wm_ok queue_map_def)

lemma queue_repo_get_run [run_simps]:
  "queue_repo_get u s = ((case queue_map s u of None \<Rightarrow> Inl (Sentinel ErrNotFound) | Some q \<Rightarrow> Inr q), s)"
  by (simp add: queue_repo_get_def run_simps queue_map_def)

lemma queue_map_key: "queue_map s u = Some q \<Longrightarrow> q_InstanceUUID q = u"
  by (auto simp: queue_map_def queue_lookup_def read_queue_row_def dest: queue_tab.get_key)

lemma queue_map_db: "w_db s = w_db t \<Longrightarrow> queue_map s = queue_map t"
  by (simp add: queue_map_def fun_eq_iff)

text \<open>
  What a stored entry reads back as: its id is the row's, and its window name survives if some
  window has that name and ids are unique.
\<close>

definition window_name_read :: "db \<Rightarrow> string option \<Rightarrow> string option" where
  "window_name_read d n =
     (case window_id_by_name d n of None \<Rightarrow> None | Some i \<Rightarrow> map_option w_Name (window_by_id d i))"

definition window_ids_unique :: "db \<Rightarrow> bool" where
  "window_ids_unique d \<longleftrightarrow> distinct (map w_ID (db_windows d))"

lemma window_name_read_unique:
  assumes "window_ids_unique d"
  shows "window_name_read d n = (case n of None \<Rightarrow> None | Some m \<Rightarrow> if m \<in> w_Name ` set (db_windows d) then Some m else None)"
proof (cases n)
  case (Some m)
  show ?thesis
  proof (cases "find (\<lambda>w. w_Name w = m) (db_windows d)")
    case None
    then have "m \<notin> w_Name ` set (db_windows d)" by (auto simp: find_None_iff)
    with None Some show ?thesis by (simp add: window_name_read_def window_id_by_name_def)
  next
    case (Some w)
    with find_SomeD [OF Some] have "find (\<lambda>v. w_ID v = w_ID w) (db_windows d) = Some w"
      using assms by (intro find_key_unique) (auto simp: window_ids_unique_def)
    with Some \<open>n = Some m\<close> find_SomeD [OF Some] show ?thesis
      by (auto simp: window_name_read_def window_id_by_name_def window_by_id_def)
  qed
qed (simp add: window_name_read_def window_id_by_name_def)

lemma queue_repo_update_ok:
  "queue_repo_update q s = (Inr u, t) \<longleftrightarrow>
     (\<exists>r. tb_get qr_key (db_queue (w_db s)) (q_InstanceUUID q) = Some r \<and>
       tb_get b_Name (db_batches (w_db s)) (q_BatchName q) \<noteq> None \<and>
       t = s\<lparr>w_db := (w_db s)\<lparr>db_queue := tb_update qr_key (q_InstanceUUID q)
              (queue_store (w_db s) (q_ID (qr_Entry r)) q) (db_queue (w_db s))\<rparr>\<rparr>)"
  unfolding queue_repo_update_def force_tx_def
  by (cases "tb_get qr_key (db_queue (w_db s)) (q_InstanceUUID q)") (auto simp: wm_ok throw_run)

lemma queue_store_key [simp]: "qr_key (queue_store d i q) = q_InstanceUUID q"
  by (simp add: queue_store_def)

lemma window_by_id_other [simp]: "window_by_id (d\<lparr>db_queue := x\<rparr>) i = window_by_id d i"
  by (simp add: window_by_id_def)

lemma read_queue_row_id [simp]: "q_ID (read_queue_row d r) = q_ID (qr_Entry r)"
  by (simp add: read_queue_row_def)

lemma read_queue_row_other [simp]:
  "read_queue_row (d\<lparr>db_queue := x\<rparr>) = read_queue_row d"
  by (simp add: read_queue_row_def fun_eq_iff cong: option.case_cong)

lemma read_queue_store:
  "read_queue_row d (queue_store d i q) =
     q\<lparr>q_ID := i, q_MigrationWindowName := window_name_read d (q_MigrationWindowName q)\<rparr>"
  by (simp add: read_queue_row_def queue_store_def window_name_read_def)

text \<open>An update writes its entry and no other.\<close>

lemma queue_repo_update_map:
  assumes "queue_repo_update q s = (Inr u, t)"
  shows "\<exists>q0. queue_map s (q_InstanceUUID q) = Some q0 \<and>
    queue_map t = (queue_map s)(q_InstanceUUID q \<mapsto>
      q\<lparr>q_ID := q_ID q0, q_MigrationWindowName := window_name_read (w_db s) (q_MigrationWindowName q)\<rparr>)"
proof -
  from assms obtain r where r: "tb_get qr_key (db_queue (w_db s)) (q_InstanceUUID q) = Some r"
    and t: "t = s\<lparr>w_db := (w_db s)\<lparr>db_queue := tb_update qr_key (q_InstanceUUID q)
              (queue_store (w_db s) (q_ID (qr_Entry r)) q) (db_queue (w_db s))\<rparr>\<rparr>"
    by (auto simp: queue_repo_update_ok)
  have "tb_get qr_key (tb_update qr_key (q_InstanceUUID q) (queue_store (w_db s) (q_ID (qr_Entry r)) q) (db_queue (w_db s))) k =
      (if k = q_InstanceUUID q then Some (queue_store (w_db s) (q_ID (qr_Entry r)) q)
       else tb_get qr_key (db_queue (w_db s)) k)" for k
    using r queue_tab.update_same [of "db_queue (w_db s)" "queue_store (w_db s) (q_ID (qr_Entry r)) q" r k] by simp
  then show ?thesis
    using r unfolding t queue_map_def queue_lookup_def
    by (auto simp: fun_eq_iff read_queue_store)
qed

lemma queue_repo_delete_map:
  assumes "queue_repo_delete k s = (Inr u, t)"
  shows "queue_map s k \<noteq> None \<and> queue_map t = (queue_map s)(k := None)"
  using assms
  by (auto simp: queue_repo_delete_def wm_ok throw_run queue_map_def queue_lookup_def queue_tab.get_delete fun_eq_iff
      split: option.splits)

end
