(* ===== verification/Window_Service.thy ===== *)
theory Window_Service
  imports Queue_Base
begin

text \<open>
  The service for migration windows (\<^verbatim>\<open>internal/migration/window_service.go\<close>): single windows, and
  the replacement of a batch's windows, which must not take away what was promised to queue
  entries that have a window assigned.
\<close>

definition window_create :: "ext \<Rightarrow> window \<Rightarrow> window wm" where
  "window_create x w =
     andthen (fail_on (window_validate x w)) (bindm (window_repo_create w) (\<lambda>n. ret (w\<lparr>w_ID := n\<rparr>)))"

definition window_update :: "ext \<Rightarrow> window \<Rightarrow> unit wm" where
  "window_update x w = andthen (fail_on (window_validate x w)) (window_repo_update w)"

definition window_delete :: "string \<Rightarrow> string \<Rightarrow> unit wm" where
  "window_delete n b =
     tx_do (bindm (wrap_err (\<lambda>e. Errorf ''Failed to get existing migration windows for batch %q: %w'' [AStr b, AWrap e])
                     (queue_get_all_by_batch b)) (\<lambda>qs.
       case find (\<lambda>q. get_window_name q = Some n) qs of
         Some q \<Rightarrow> throw (Errorf ''Cannot delete migration window %q because it is assigned to queue entry %q''
                      [AStr n, AUuid (q_InstanceUUID q)])
       | None \<Rightarrow> window_repo_delete n b))"

text \<open>What an assigned window may not lose: existence, early start, late end, capacity.\<close>

definition replacement_err :: "(string \<rightharpoonup> window) \<Rightarrow> (string \<rightharpoonup> window) \<Rightarrow> queue_entry \<Rightarrow> err option" where
  "replacement_err old new q =
     (case get_window_name q of None \<Rightarrow> None | Some n \<Rightarrow>
     (case old n of None \<Rightarrow> None | Some ow \<Rightarrow>
     (case new n of
        None \<Rightarrow> Some (Errorf ''Window %q cannot be removed or renamed after assignment to queue entry %q''
                   [AStr (w_Name ow), AUuid (q_InstanceUUID q)])
      | Some nw \<Rightarrow>
          if time_sub (w_Start nw) (w_Start ow) > 0
          then Some (Errorf ''Window %q start time cannot be increased because it is assigned to queue entry %q''
                 [AStr (w_Name nw), AUuid (q_InstanceUUID q)])
          else if \<not> time_is_zero (w_End nw) \<and> time_sub (w_End nw) (w_End ow) < 0
          then Some (Errorf ''Window %q end time cannot be reduced because it is assigned to queue entry %q''
                 [AStr (w_Name nw), AUuid (q_InstanceUUID q)])
          else if wc_Capacity (w_Config nw) \<noteq> 0 \<and>
                  (wc_Capacity (w_Config nw) < wc_Capacity (w_Config ow) \<or> wc_Capacity (w_Config ow) = 0)
          then Some (Errorf ''Window %q capacity cannot be reduced after assignment to queue entry %q''
                 [AStr (w_Name ow), AUuid (q_InstanceUUID q)])
          else None)))"

text \<open>
  The second loop prunes and updates, the third creates; \<open>order\<close> is the order in which Go iterates
  over the names of the new windows.
\<close>

definition prune_window :: "string \<Rightarrow> (string \<rightharpoonup> window) \<Rightarrow> window \<Rightarrow> unit wm" where
  "prune_window b new ow =
     (case new (w_Name ow) of
        None \<Rightarrow> wrap_err (\<lambda>e. Errorf ''Failed to delete migration window %q from batch %q: %w''
                    [AStr (w_Name ow), AStr (w_Batch ow), AWrap e])
                  (window_repo_delete (w_Name ow) (w_Batch ow))
      | Some nw \<Rightarrow>
          let nw' = nw\<lparr>w_Batch := b\<rparr> in
          if ow\<lparr>w_ID := w_ID nw'\<rparr> \<noteq> nw'
          then wrap_err (\<lambda>e. Errorf ''Failed to update migration window %q in batch %q: %w''
                    [AStr (w_Name nw'), AStr (w_Batch nw'), AWrap e])
                 (window_repo_update nw')
          else ret ())"

definition add_window :: "string \<Rightarrow> (string \<rightharpoonup> window) \<Rightarrow> (string \<rightharpoonup> window) \<Rightarrow> string \<Rightarrow> unit wm" where
  "add_window b old new n =
     (case new n of
        None \<Rightarrow> ret ()
      | Some nw \<Rightarrow>
          if old (w_Name nw) \<noteq> None then ret ()
          else let nw' = nw\<lparr>w_Batch := b\<rparr> in
            wrap_err (\<lambda>e. Errorf ''Failed to create migration window %q in batch %q: %w''
                        [AStr (w_Name nw'), AStr (w_Batch nw'), AWrap e])
              (bindm (window_repo_create nw') (\<lambda>_. ret ())))"

definition window_replace_by_batch :: "ext \<Rightarrow> string list \<Rightarrow> string \<Rightarrow> windows \<Rightarrow> unit wm" where
  "window_replace_by_batch x order b ws =
     andthen (fail_on (first_err (map (window_validate x) ws)))
      (let new = last_by w_Name ws in
       tx_do
        (bindm (wrap_err (\<lambda>e. Errorf ''Failed to get existing migration windows for batch %q: %w'' [AStr b, AWrap e])
                 (window_repo_get_all_by_batch b)) (\<lambda>oldws.
         let old = last_by w_Name oldws in
         bindm (wrap_err (\<lambda>e. Errorf ''Failed to get queue entries for batch %q: %w'' [AStr b, AWrap e])
                 (queue_get_all_by_batch b)) (\<lambda>qs.
         andthen (fail_on (first_err (map (replacement_err old new) qs)))
        (andthen (for_each oldws (prune_window b new))
                 (for_each order (add_window b old new)))))))"

end
