(* ===== verification/Scriptlet.thy ===== *)
theory Scriptlet
  imports Model_Batch
begin

text \<open>
  Placement by a batch's scriptlet (\<^verbatim>\<open>internal/scriptlet/batch_placement.go\<close> and
  \<open>DeterminePlacement\<close> of the batch service): the functions that the scriptlet may call, each of
  which checks its arguments and records a part of the placement. The Starlark interpreter is a
  parameter: it yields the calls that the scriptlet makes.
\<close>

fun nic_type_of_string :: "string \<Rightarrow> nic_type" where
  "nic_type_of_string s =
     (if s = ''bridged'' then INCUSNICTYPE_BRIDGED else if s = ''physical'' then INCUSNICTYPE_PHYSICAL
      else if s = ''managed'' then INCUSNICTYPE_MANAGED else INCUSNICTYPE_OTHER s)"

definition set_target :: "string \<Rightarrow> placement \<Rightarrow> err + placement" where
  "set_target n resp =
     (if n = '''' then Inl (Errorf ''Target name is empty'' []) else Inr (resp\<lparr>p_TargetName := n\<rparr>))"

definition set_project :: "string \<Rightarrow> placement \<Rightarrow> err + placement" where
  "set_project n resp =
     (if n = '''' then Inl (Errorf ''Target project name is empty'' []) else Inr (resp\<lparr>p_TargetProject := n\<rparr>))"

definition set_pool :: "instance_properties \<Rightarrow> string \<Rightarrow> string \<Rightarrow> placement \<Rightarrow> err + placement" where
  "set_pool props diskName poolName resp =
     (if poolName = '''' then Inl (Errorf ''Target storage pool name is empty'' [])
      else if \<not> (\<exists>d \<in> set (ip_Disks props). d_Name d = diskName \<and> d_Supported d)
      then Inl (Errorf ''No disk found with name %q on instance %q'' [AStr diskName, AStr (ip_Location props)])
      else Inr (resp\<lparr>p_StoragePools := fmupd diskName poolName (p_StoragePools resp)\<rparr>))"

text \<open>The ids of a comma-separated list must be numbers other than 0.\<close>

definition vlan_err :: "string \<Rightarrow> err option" where
  "vlan_err vlanID =
     (if vlanID = '''' then None
      else first_err (map (\<lambda>part. case atoi part of
             Inl e \<Rightarrow> Some (Errorf ''Invalid vlan ID %q: %w'' [AStr vlanID, AWrap e])
           | Inr n \<Rightarrow> err_when (n = 0) (Errorf ''Invalid vlan ID %q: %w'' [AStr vlanID, AStr ''%!w(<nil>)'']))
           (str_split (CHR '','') vlanID)))"

definition set_network ::
    "ext \<Rightarrow> instance_properties \<Rightarrow> string \<Rightarrow> string \<Rightarrow> string \<Rightarrow> string \<Rightarrow> placement \<Rightarrow> err + placement" where
  "set_network x props nicMac netName nicType vlanID resp =
     (let ty = nic_type_of_string (if nicType = '''' then ''managed'' else nicType);
          pl = \<lparr>np_Network = netName, np_NICType = ty, np_VlanID = vlanID\<rparr>
      in case first_err
          [valid_nic_type ty, vlan_err vlanID,
           err_when (netName = '''') (Errorf ''Target network name is empty'' []),
           err_when (nicMac \<notin> nic_HardwareAddress ` set (ip_NICs props))
             (Errorf ''No NIC found with hardware address %q on instance %q'' [AStr nicMac, AStr (ip_Location props)]),
           (case x_api_name x netName of None \<Rightarrow> None
            | Some e \<Rightarrow> Some (Errorf ''Invalid network name %q: %v'' [AStr netName, AErr e])),
           (case network_placement_validate pl of None \<Rightarrow> None
            | Some e \<Rightarrow> Some (Errorf ''Failed to validate network placement: %w'' [AWrap e]))] of
           Some e \<Rightarrow> Inl e
         | None \<Rightarrow> Inr (resp\<lparr>p_Networks := Some (fmupd nicMac pl
                        (case p_Networks resp of None \<Rightarrow> fmempty | Some m \<Rightarrow> m))\<rparr>))"

fun run_call :: "ext \<Rightarrow> instance_properties \<Rightarrow> placement_call \<Rightarrow> placement \<Rightarrow> err + placement" where
  "run_call x props (SetTarget n) resp = set_target n resp"
| "run_call x props (SetProject n) resp = set_project n resp"
| "run_call x props (SetPool d p) resp = set_pool props d p resp"
| "run_call x props (SetNetwork m n t v) resp = set_network x props m n t v resp"

text \<open>An error of a call ends the scriptlet.\<close>

fun run_calls :: "ext \<Rightarrow> instance_properties \<Rightarrow> placement_call list \<Rightarrow> placement \<Rightarrow> err + placement" where
  "run_calls x props [] resp = Inr resp"
| "run_calls x props (c # cs) resp =
     (case run_call x props c resp of Inl e \<Rightarrow> Inl e | Inr resp' \<Rightarrow> run_calls x props cs resp')"

definition batch_placement_run :: "ext \<Rightarrow> string \<Rightarrow> api_instance \<Rightarrow> api_batch \<Rightarrow> err + placement" where
  "batch_placement_run x src i b =
     (case x_scriptlet x src i b of
        Inl e \<Rightarrow> Inl e
      | Inr (calls, outcome) \<Rightarrow>
          (case run_calls x (ai_Properties i) calls placement_empty of
             Inl e \<Rightarrow> Inl (Errorf ''Failed to run: %w'' [AWrap e])
           | Inr resp \<Rightarrow> (case outcome of Some e \<Rightarrow> Inl e | None \<Rightarrow> Inr resp)))"

text \<open>
  The networks are converted for the scriptlet first, which can fail, although the scriptlet is not
  given them.
\<close>

definition determine_placement :: "ext \<Rightarrow> inst \<Rightarrow> networks \<Rightarrow> batch \<Rightarrow> windows \<Rightarrow> err + placement" where
  "determine_placement x i usedNetworks b ws =
     (if bc_PlacementScriptlet (b_Config b) = '''' then get_incus_placement x b i usedNetworks placement_empty
      else (case first_err (map (\<lambda>n. case network_to_api x n of Inl e \<Rightarrow> Some e | Inr _ \<Rightarrow> None) usedNetworks) of
        Some e \<Rightarrow> Inl e
      | None \<Rightarrow>
          (case x_scriptlet_set x (bc_PlacementScriptlet (b_Config b)) (b_Name b) of
             Some e \<Rightarrow> Inl e
           | None \<Rightarrow>
               (case batch_placement_run x (bc_PlacementScriptlet (b_Config b)) (instance_to_api x i) (batch_to_api b ws) of
                  Inl e \<Rightarrow> Inl e
                | Inr raw \<Rightarrow> get_incus_placement x b i usedNetworks raw))))"

section \<open>What a scriptlet can do\<close>

text \<open>
  What holds of a scriptlet's raw placement, whatever it calls: pools only for supported disks of
  the instance and networks only for its NICs, each with a type and VLAN that validate.
\<close>

definition raw_ok :: "ext \<Rightarrow> instance_properties \<Rightarrow> placement \<Rightarrow> bool" where
  "raw_ok x props p \<longleftrightarrow>
     fset (fmdom (p_StoragePools p)) \<subseteq> d_Name ` {d \<in> set (ip_Disks props). d_Supported d} \<and>
     (case p_Networks p of None \<Rightarrow> True | Some m \<Rightarrow>
        fset (fmdom m) \<subseteq> nic_HardwareAddress ` set (ip_NICs props) \<and>
        (\<forall>k pl. fmlookup m k = Some pl \<longrightarrow> np_Network pl \<noteq> '''' \<and> network_placement_validate pl = None))"

lemma set_network_ok:
  assumes "set_network x props m n t v p = Inr p'"
  shows "\<exists>pl. p' = p\<lparr>p_Networks := Some (fmupd m pl (case p_Networks p of None \<Rightarrow> fmempty | Some m \<Rightarrow> m))\<rparr> \<and>
    m \<in> nic_HardwareAddress ` set (ip_NICs props) \<and> np_Network pl \<noteq> '''' \<and> network_placement_validate pl = None"
proof -
  let ?pl = "\<lparr>np_Network = n, np_NICType = nic_type_of_string (if t = '''' then ''managed'' else t), np_VlanID = v\<rparr>"
  have "n \<noteq> ''''" "m \<in> nic_HardwareAddress ` set (ip_NICs props)" "network_placement_validate ?pl = None"
    "p' = p\<lparr>p_Networks := Some (fmupd m ?pl (case p_Networks p of None \<Rightarrow> fmempty | Some m \<Rightarrow> m))\<rparr>"
    using assms unfolding set_network_def Let_def checked_ok all_checks_None err_when_None case_err_None
    by blast+
  then show ?thesis by (intro exI [of _ ?pl]) simp
qed

lemma run_call_ok: "run_call x props c p = Inr p' \<Longrightarrow> raw_ok x props p \<Longrightarrow> raw_ok x props p'"
proof (cases c)
  case (SetNetwork m n t v)
  assume "run_call x props c p = Inr p'" and ok: "raw_ok x props p"
  with SetNetwork obtain pl where "p' = p\<lparr>p_Networks := Some (fmupd m pl (case p_Networks p of None \<Rightarrow> fmempty | Some m \<Rightarrow> m))\<rparr>"
    "m \<in> nic_HardwareAddress ` set (ip_NICs props)" "np_Network pl \<noteq> ''''" "network_placement_validate pl = None"
    using set_network_ok by fastforce
  with ok show ?thesis by (auto simp: raw_ok_def split: option.splits if_splits)
qed (auto simp: set_target_def set_project_def set_pool_def raw_ok_def split: if_splits)

lemma run_calls_ok: "run_calls x props cs p = Inr p' \<Longrightarrow> raw_ok x props p \<Longrightarrow> raw_ok x props p'"
  by (induction cs arbitrary: p) (auto split: sum.splits dest: run_call_ok)

lemma placement_empty_ok: "raw_ok x props placement_empty"
  by (simp add: raw_ok_def placement_empty_def)

text \<open>
  C9: Whatever a placement scriptlet does, a placement that comes out of it assigns pools only to
  supported disks of the instance and networks only to NICs of the instance, and every assigned
  network has a name and a NIC type and VLAN that validate together.
\<close>

theorem scriptlet_placement_confined:
  assumes "batch_placement_run x src i b = Inr p"
  shows "raw_ok x (ai_Properties i) p"
  using assms run_calls_ok [OF _ placement_empty_ok]
  by (auto simp: batch_placement_run_def split: sum.splits prod.splits option.splits)

theorem scriptlet_placement_confined_witness:
  "raw_ok (plain_ext\<lparr>x_scriptlet := \<lambda>_ _ _. Inr ([SetPool ''disk-1'' ''fast''], None)\<rparr>) sample_props
     (placement_empty\<lparr>p_StoragePools := fmupd ''disk-1'' ''fast'' fmempty\<rparr>)"
proof -
  let ?x = "plain_ext\<lparr>x_scriptlet := \<lambda>_ _ _. Inr ([SetPool ''disk-1'' ''fast''], None)\<rparr>"
  have props: "ai_Properties (instance_to_api ?x sample_inst) = sample_props"
    by (simp add: instance_to_api_def sample_inst_def)
  have "batch_placement_run ?x '''' (instance_to_api ?x sample_inst) (batch_to_api sample_batch []) =
      Inr (placement_empty\<lparr>p_StoragePools := fmupd ''disk-1'' ''fast'' fmempty\<rparr>)"
    by (simp add: batch_placement_run_def props set_pool_def placement_empty_def sample_props_def sample_disk_def)
  from scriptlet_placement_confined [OF this] show ?thesis by (simp add: props)
qed

end
