(* ===== verification/Batch_Service.thy ===== *)
theory Batch_Service
  imports Window_Service Scriptlet
begin

text \<open>
  The batch service (\<^verbatim>\<open>internal/migration/batch_service.go\<close>): which instances a batch has, and its
  life from definition over start and stop to reset and deletion.
\<close>

section \<open>Updates\<close>

text \<open>
  Both assignment loops: members that no longer match leave, instances that match and are not
  members join. In testing mode the queue is emptied, too.
\<close>

definition lift_match :: "ext \<Rightarrow> inst \<Rightarrow> string \<Rightarrow> bool wm" where
  "lift_match x i e = lift (matches_criteria x i e False)"

fun keep_members :: "ext \<Rightarrow> batch \<Rightarrow> instances \<Rightarrow> uuid set \<Rightarrow> uuid set wm" where
  "keep_members x b [] acc = ret acc"
| "keep_members x b (i # is) acc =
     bindm (lift_match x i (b_IncludeExpression b)) (\<lambda>m.
       if m then keep_members x b is (insert (i_UUID i) acc)
       else andthen (wrap_err (\<lambda>e. Errorf ''Failed to unassign instance %q from batch: %w''
                       [AStr (ip_Location (i_Properties i)), AWrap e])
                     (batch_repo_unassign (b_Name b) (i_UUID i)))
              (keep_members x b is acc))"

definition join_member :: "ext \<Rightarrow> batch \<Rightarrow> uuid set \<Rightarrow> inst \<Rightarrow> unit wm" where
  "join_member x b acc i =
     bindm (lift_match x i (b_IncludeExpression b)) (\<lambda>m.
       if m \<and> i_UUID i \<notin> acc
       then wrap_err (\<lambda>e. Errorf ''Failed to assign instance %q to batch: %w''
              [AStr (ip_Location (i_Properties i)), AWrap e])
            (batch_repo_assign (b_Name b) (i_UUID i))
       else ret ())"

definition drop_from_queue :: "inst \<Rightarrow> unit wm" where
  "drop_from_queue i =
     bindm (attempt (instance_remove_from_queue (i_UUID i))) (\<lambda>r.
       case r of
         Inr _ \<Rightarrow> ret ()
       | Inl e \<Rightarrow> if err_is ErrNotFound e then ret () else throw (Errorf ''Failed to remove from queue: %w'' [AWrap e]))"

definition update_instances_assigned_to_batch :: "ext \<Rightarrow> batch \<Rightarrow> unit wm" where
  "update_instances_assigned_to_batch x b =
     andthen (fail_if (b_Status b \<noteq> BATCHSTATUS_DEFINED)
               (Errorf ''Cannot update batch %q: Currently in a migration phase: %w''
                  [AStr (b_Name b), AWrap (Sentinel ErrOperationNotPermitted)]))
      (tx_do (bindm (instance_repo_get_all_by_batch (b_Name b)) (\<lambda>members.
         bindm (keep_members x b members {}) (\<lambda>acc.
         bindm instance_repo_get_all (\<lambda>all.
         andthen (for_each all (join_member x b acc))
           (if x_testing x then for_each all drop_from_queue else ret ()))))))"

definition batch_create :: "ext \<Rightarrow> batch \<Rightarrow> batch wm" where
  "batch_create x b =
     andthen (fail_on (batch_validate x b))
      (bindm (tx_do (bindm (wrap_err (\<lambda>e. Errorf ''Failed to create batch: %w'' [AWrap e]) (batch_repo_create b)) (\<lambda>n.
                let b' = b\<lparr>b_ID := n\<rparr> in andthen (update_instances_assigned_to_batch x b') (ret b')))) (\<lambda>b'.
       andthen (if bc_PlacementScriptlet (b_Config b') \<noteq> ''''
                then fail_on (x_scriptlet_set x (bc_PlacementScriptlet (b_Config b')) (b_Name b')) else ret ())
         (ret b')))"

text \<open>
  What may change while a batch runs. The changed constraints are looked for by position: the old
  constraints come first in the list, so their own positions always compare as unchanged, and only
  the added ones are checked against committed entries.
\<close>

definition constraints_to_check :: "batch_constraint list \<Rightarrow> batch_constraint list \<Rightarrow> batch_constraint list" where
  "constraints_to_check old new =
     (if old = new then []
      else fold (\<lambda>c acc. if c \<in> set acc then acc else acc @ [c]) new old)"

definition check_constraint :: "ext \<Rightarrow> instances \<Rightarrow> queue_entries \<Rightarrow> batch_constraint \<Rightarrow> unit wm" where
  "check_constraint x is qs c =
     for_each is (\<lambda>i.
       bindm (wrap_err (\<lambda>e. Errorf ''Failed to check constraint %q against instance %q: %w''
                [AStr (c_IncludeExpression c), AStr (ip_Location (i_Properties i)), AWrap e])
              (lift_match x i (c_IncludeExpression c))) (\<lambda>m.
       case (if m then last_by q_InstanceUUID qs (i_UUID i) else None) of
         None \<Rightarrow> ret ()
       | Some q \<Rightarrow> fail_if (is_committed q)
           (Errorf ''Matching constraint %q cannot be modified for committed queue entry with status %q: %w''
              [AStr (c_IncludeExpression c), AStr (migration_status_string (q_MigrationStatus q)),
               AWrap (Sentinel ErrOperationNotPermitted)])))"

fun check_constraints_from ::
    "ext \<Rightarrow> instances \<Rightarrow> queue_entries \<Rightarrow> batch_constraint list \<Rightarrow> nat \<Rightarrow> batch_constraint list \<Rightarrow> unit wm" where
  "check_constraints_from x is qs old i [] = ret ()"
| "check_constraints_from x is qs old i (c # cs) =
     andthen (if i < length old \<and> old ! i = c then ret () else check_constraint x is qs c)
       (check_constraints_from x is qs old (Suc i) cs)"

definition not_permitted :: "string \<Rightarrow> batch \<Rightarrow> err" where
  "not_permitted fmt b = Errorf fmt [AStr (b_Name b), AWrap (Sentinel ErrOperationNotPermitted)]"

definition can_update_running_batch :: "ext \<Rightarrow> batch \<Rightarrow> batch \<Rightarrow> unit wm" where
  "can_update_running_batch x new old =
     (if b_Status old = BATCHSTATUS_DEFINED then ret ()
      else let check = constraints_to_check (b_Constraints old) (b_Constraints new) in
       bindm (wrap_err (\<lambda>e. Errorf ''Failed to get queue entries for batch %q: %w'' [AStr (b_Name old), AWrap e])
               (queue_get_all_by_batch (b_Name old))) (\<lambda>qs.
       andthen
        (if check \<noteq> [] then
           bindm (wrap_err (\<lambda>e. Errorf ''Failed to get instances for batch %q: %w'' [AStr (b_Name old), AWrap e])
                   (instance_repo_get_all_by_batch (b_Name old))) (\<lambda>is.
           check_constraints_from x is qs (b_Constraints old) 0 check)
         else ret ())
       (andthen (fail_if (b_Name old \<noteq> b_Name new) (not_permitted ''Cannot rename running batch %q: %w'' old))
       (andthen (fail_if (bd_Placement (b_Defaults old) \<noteq> bd_Placement (b_Defaults new) \<or>
                          bd_MigrationNetwork (b_Defaults old) \<noteq> bd_MigrationNetwork (b_Defaults new))
                   (not_permitted ''Cannot modify placement of running batch %q: %w'' old))
       (andthen (fail_if (bc_PlacementScriptlet (b_Config old) \<noteq> bc_PlacementScriptlet (b_Config new) \<and>
                          (\<exists>q \<in> set qs. status_before_placement q \<and> q_MigrationStatus q \<noteq> MIGRATIONSTATUS_CONFLICT))
                   (not_permitted ''Cannot modify placement scriptlet of batch %q while queue entries have not finalized their placement: %w'' old))
         (fail_if (b_IncludeExpression old \<noteq> b_IncludeExpression new)
            (not_permitted ''Cannot modify include expression of running batch %q: %w'' old)))))))"

definition defined_batch :: "batch \<Rightarrow> batch" where
  "defined_batch b = b\<lparr>b_Status := BATCHSTATUS_DEFINED,
     b_StatusMessage := batch_status_string BATCHSTATUS_DEFINED, b_StartDate := 0\<rparr>"

definition batch_update :: "ext \<Rightarrow> string \<Rightarrow> batch \<Rightarrow> unit wm" where
  "batch_update x name b0 =
     (let b = (if x_testing x then defined_batch b0 else b0) in
      andthen (fail_on (batch_validate x b))
       (bindm (tx_do (bindm (batch_repo_get name) (\<lambda>old.
          andthen (if b_Status old \<noteq> BATCHSTATUS_DEFINED \<and> \<not> x_testing x
                   then can_update_running_batch x b old else ret ())
         (andthen (batch_repo_update name b)
           (if b_Status old = BATCHSTATUS_DEFINED \<or> x_testing x
            then andthen (update_instances_assigned_to_batch x b)
                   (ret (bc_PlacementScriptlet (b_Config old) \<noteq> bc_PlacementScriptlet (b_Config b) \<and>
                         bc_PlacementScriptlet (b_Config b) \<noteq> ''''))
            else ret False))))) (\<lambda>updateScriptlet.
        if updateScriptlet then fail_on (x_scriptlet_set x (bc_PlacementScriptlet (b_Config b)) (b_Name b)) else ret ())))"

definition batch_update_status :: "string \<Rightarrow> batch_status \<Rightarrow> string \<Rightarrow> batch wm" where
  "batch_update_status name status msg =
     tx_do (bindm (batch_repo_get name) (\<lambda>b.
       let b' = b\<lparr>b_Status := status, b_StatusMessage := msg\<rparr>
       in andthen (batch_repo_update (b_Name b) b') (ret b')))"

definition batch_rename :: "string \<Rightarrow> string \<Rightarrow> unit wm" where
  "batch_rename old new = batch_repo_rename old new"

definition batch_delete :: "string \<Rightarrow> unit wm" where
  "batch_delete name =
     (if name = '''' then throw (Errorf ''Batch name cannot be empty: %w'' [AWrap (Sentinel ErrOperationNotPermitted)])
      else tx_do (bindm (batch_repo_get name) (\<lambda>old.
        andthen (fail_if (b_Status old = BATCHSTATUS_RUNNING)
                  (Errorf ''Cannot delete batch %q: Currently in a migration phase: %w''
                     [AStr name, AWrap (Sentinel ErrOperationNotPermitted)]))
          (bindm (instance_repo_get_all_by_batch (b_Name old)) (\<lambda>is.
           andthen (for_each is (\<lambda>i. batch_repo_unassign name (i_UUID i)))
             (batch_repo_delete name))))))"

section \<open>Start, stop, reset\<close>

text \<open>
  The entry for one instance of a starting batch. The secret is the next value of the random source,
  numbered by \<open>n\<close>.
\<close>

definition start_entry :: "ext \<Rightarrow> batch \<Rightarrow> windows \<Rightarrow> networks \<Rightarrow> nat \<Rightarrow> inst \<Rightarrow> unit wm" where
  "start_entry x b ws nets n i =
     bindm (wrap_err (\<lambda>e. Errorf ''Failed to run scriptlet for instance %q: %w''
               [AStr (ip_Location (i_Properties i)), AWrap e])
             (lift (determine_placement x i (filter_used_networks nets [i]) b ws))) (\<lambda>pl.
     bindm (lift_match x i (b_IncludeExpression b)) (\<lambda>m.
       let (status, msg) =
         (if \<not> m \<and> \<not> bd_ForceConflictResolution (b_Defaults b)
          then (MIGRATIONSTATUS_CONFLICT, ''Instance no longer matches batch expression'')
          else (case disabled_reason_of x i (bc_RestrictionOverrides (b_Config b)) of
                  Some e \<Rightarrow> (MIGRATIONSTATUS_BLOCKED, err_text e)
                | None \<Rightarrow> (MIGRATIONSTATUS_WAITING, ''Performing initial migration checks'')))
       in bindm (queue_create_entry
            \<lparr>q_ID = 0, q_InstanceUUID = i_UUID i, q_BatchName = b_Name b, q_SecretToken = x_random_uuid x n,
             q_ImportStage = IMPORTSTAGE_BACKGROUND, q_MigrationStatus = status, q_MigrationStatusMessage = msg,
             q_LastWorkerStatus = WORKERRESPONSE_UNKNOWN, q_LastBackgroundSync = 0,
             q_MigrationWindowName = None, q_Placement = pl\<rparr>) (\<lambda>_. ret ())))"

fun start_entries :: "ext \<Rightarrow> batch \<Rightarrow> windows \<Rightarrow> networks \<Rightarrow> nat \<Rightarrow> instances \<Rightarrow> unit wm" where
  "start_entries x b ws nets n [] = ret ()"
| "start_entries x b ws nets n (i # is) =
     andthen (start_entry x b ws nets n i) (start_entries x b ws nets (Suc n) is)"

text \<open>\<open>order\<close> is the order in which Go iterates over the map of instances to start.\<close>

definition batch_start :: "ext \<Rightarrow> (instances \<Rightarrow> instances) \<Rightarrow> string \<Rightarrow> batch wm" where
  "batch_start x order name =
     (if name = '''' then throw (Errorf ''Batch name cannot be empty: %w'' [AWrap (Sentinel ErrOperationNotPermitted)])
      else tx_do (bindm (batch_get_by_name name) (\<lambda>b.
        andthen (fail_if (\<not> can_start b)
                  (Errorf (''Cannot start batch %q in its current state '' @ squote @ ''%s'' @ squote @ '': %w'')
                     [AStr (b_Name b), AStr (batch_status_string (b_Status b)), AWrap (Sentinel ErrOperationNotPermitted)]))
        (bindm (wrap_err (\<lambda>e. Errorf ''Failed to get migration windows for batch %q: %w'' [AStr name, AWrap e])
                 (window_repo_get_all_by_batch name)) (\<lambda>ws.
        andthen (wrap_err (\<lambda>e. Errorf ''Cannot start batch %q with invalid migration windows: %w'' [AStr (b_Name b), AWrap e])
                  (fail_on (has_valid_window x ws)))
        (bindm network_repo_get_all (\<lambda>nets.
         bindm queue_get_all (\<lambda>qs.
         bindm (instance_repo_get_all_by_batch (b_Name b)) (\<lambda>members.
         let todo = filter (\<lambda>i. i_UUID i \<notin> q_InstanceUUID ` set qs) members in
         andthen (fail_if (todo = []) (Errorf ''Cannot start batch %q with no instances'' [AStr (b_Name b)]))
        (andthen (start_entries x b ws nets 0 (order todo))
          (let b' = b\<lparr>b_StartDate := x_now x, b_Status := BATCHSTATUS_RUNNING,
                     b_StatusMessage := batch_status_string BATCHSTATUS_RUNNING\<rparr>
           in andthen (batch_repo_update (b_Name b) b') (ret b'))))))))))))"

definition batch_stop :: "string \<Rightarrow> batch wm" where
  "batch_stop name =
     (if name = '''' then throw (Errorf ''Batch name cannot be empty: %w'' [AWrap (Sentinel ErrOperationNotPermitted)])
      else tx_do (bindm (batch_get_by_name name) (\<lambda>b.
        andthen (fail_if (b_Status b \<noteq> BATCHSTATUS_RUNNING)
                  (Errorf (''Cannot stop batch %q in its current state '' @ squote @ ''%s'' @ squote @ '': %w'')
                     [AStr (b_Name b), AStr (batch_status_string (b_Status b)), AWrap (Sentinel ErrOperationNotPermitted)]))
        (let b' = b\<lparr>b_Status := BATCHSTATUS_STOPPED, b_StatusMessage := batch_status_string BATCHSTATUS_STOPPED\<rparr>
         in andthen (batch_repo_update (b_Name b) b') (ret b')))))"

text \<open>The counters an entry occupies are given back; an entry without instance would give back the empty name's.\<close>

definition release_entry :: "string \<Rightarrow> instances \<Rightarrow> queue_entry \<Rightarrow> unit wm" where
  "release_entry name is q =
     andthen (if q_MigrationStatus q = MIGRATIONSTATUS_BACKGROUND_IMPORT \<or> q_MigrationStatus q = MIGRATIONSTATUS_FINAL_IMPORT
              then andthen (source_remove_import
                       (case last_by i_UUID is (q_InstanceUUID q) of None \<Rightarrow> '''' | Some i \<Rightarrow> i_Source i))
                     (target_remove_import (p_TargetName (q_Placement q)))
              else ret ())
       (if q_MigrationStatus q = MIGRATIONSTATUS_BACKGROUND_IMPORT then batch_remove_import name else ret ())"

definition batch_reset :: "string \<Rightarrow> bool \<Rightarrow> batch wm" where
  "batch_reset name force =
     tx_do (bindm (batch_repo_get name) (\<lambda>b.
       if b_Status b = BATCHSTATUS_DEFINED then ret b
       else bindm (queue_get_all_by_batch name) (\<lambda>qs.
        andthen (fail_if ((\<exists>q \<in> set qs. is_committed q) \<and> \<not> force)
                  (Errorf ''Queue entries have already begun final import or post-migration steps: %w''
                     [AWrap (Sentinel ErrOperationNotPermitted)]))
        (bindm (instance_get_all_queued qs) (\<lambda>is.
         andthen (wrap_err (\<lambda>e. Errorf ''Failed to remove all queue entries for batch %q: %w'' [AStr name, AWrap e])
                   (queue_delete_all_by_batch name))
        (andthen (wrap_err (\<lambda>e. Errorf ''Failed to reset batch %q: %w'' [AStr name, AWrap e])
                   (batch_repo_update name (defined_batch b)))
        (andthen (for_each qs (release_entry name is))
          (ret (defined_batch b)))))))))"

end
