(* ===== verification/Queue_Service.thy ===== *)
theory Queue_Service
  imports Batch_Service
begin

text \<open>
  The scheduling half of the queue service (\<^verbatim>\<open>internal/migration/queue_service.go\<close>): the choice of
  a migration window, the next command for a worker, the reaction to a worker's report, and the
  user's cancel and retry. The mutex that the service holds around commands, cancel and retry makes
  each of them one step.
\<close>

section \<open>The next window\<close>

definition windows_in_use :: "queue_entries \<Rightarrow> string \<Rightarrow> int" where
  "windows_in_use qs n = int (length (filter (\<lambda>q. get_window_name q = Some n) qs))"

definition window_open :: "queue_entries \<Rightarrow> queue_entry \<Rightarrow> window \<Rightarrow> bool" where
  "window_open qs q w \<longleftrightarrow> wc_Capacity (w_Config w) = 0 \<or>
     windows_in_use qs (w_Name w) < wc_Capacity (w_Config w) \<or> get_window_name q = Some (w_Name w)"

text \<open>The first constraint in the list that the instance matches; an expression may fail.\<close>

fun first_match :: "ext \<Rightarrow> inst \<Rightarrow> batch_constraint list \<Rightarrow> err + batch_constraint option" where
  "first_match x i [] = Inr None"
| "first_match x i (c # cs) =
     (case matches_criteria x i (c_IncludeExpression c) False of
        Inl e \<Rightarrow> Inl e
      | Inr m \<Rightarrow> if m then Inr (Some c) else first_match x i cs)"

fun count_matches :: "ext \<Rightarrow> string \<Rightarrow> instances \<Rightarrow> err + int" where
  "count_matches x e [] = Inr 0"
| "count_matches x e (i # is) =
     (case matches_criteria x i e False of
        Inl er \<Rightarrow> Inl er
      | Inr m \<Rightarrow> (case count_matches x e is of Inl er \<Rightarrow> Inl er | Inr k \<Rightarrow> Inr (if m then k + 1 else k)))"

text \<open>
  The decision, given what the transaction read: the batch, its entries that are idle or past the
  window's assignment, their instances, the batch's windows, and the whole queue.
\<close>

definition choose_window ::
    "ext \<Rightarrow> batch \<Rightarrow> queue_entries \<Rightarrow> instances \<Rightarrow> windows \<Rightarrow> queue_entries \<Rightarrow> queue_entry \<Rightarrow> err + window" where
  "choose_window x b entries insts batchWindows allEntries q =
     (let ws = filter (window_open allEntries q) batchWindows;
          assigned = (case get_window_name q of None \<Rightarrow> None
             | Some n \<Rightarrow> find (\<lambda>w. w_Name w = n \<and> \<not> window_ended (x_now x) w) ws)
      in case assigned of
        Some w \<Rightarrow> Inr w
      | None \<Rightarrow>
          (case (case find (\<lambda>i. i_UUID i = q_InstanceUUID q) insts of
                   None \<Rightarrow> Inr None
                 | Some i \<Rightarrow> first_match x i (rev (b_Constraints b))) of
             Inl e \<Rightarrow> Inl e
           | Inr None \<Rightarrow> get_earliest x ws 0
           | Inr (Some c) \<Rightarrow>
               (case count_matches x (c_IncludeExpression c)
                   (filter (\<lambda>i. \<not> (map_option q_MigrationStatus (last_by q_InstanceUUID entries (i_UUID i)) =
                                   Some MIGRATIONSTATUS_IDLE \<and> i_UUID i \<noteq> q_InstanceUUID q)) insts) of
                  Inl e \<Rightarrow> Inl e
                | Inr numMatches \<Rightarrow>
                    if c_MaxConcurrentInstances c = 0 \<or> numMatches \<le> c_MaxConcurrentInstances c
                    then get_earliest x ws (c_MinInstanceBootTime c)
                    else Inl (StatusErr http_not_found
                      ''Not assigning migration window for instance %q, maximum limit %d reached''
                      [AUuid (q_InstanceUUID q), AInt (c_MaxConcurrentInstances c)]))))"

definition window_statuses :: "migration_status list" where
  "window_statuses = [MIGRATIONSTATUS_IDLE, MIGRATIONSTATUS_FINAL_IMPORT, MIGRATIONSTATUS_POST_IMPORT,
     MIGRATIONSTATUS_WORKER_DONE]"

definition get_next_window :: "ext \<Rightarrow> queue_entry \<Rightarrow> window wm" where
  "get_next_window x q =
     bindm (tx_do
      (bindm (queue_get_all_by_batch_and_state (q_BatchName q) window_statuses) (\<lambda>entries.
       bindm (window_repo_get_all_by_batch (q_BatchName q)) (\<lambda>ws.
       bindm (instance_get_all_queued entries) (\<lambda>insts.
       bindm (wrap_err (\<lambda>e. Errorf ''Failed to get batch %q: %w'' [AStr (q_BatchName q), AWrap e])
               (batch_get_by_name (q_BatchName q))) (\<lambda>b.
       bindm queue_get_all (\<lambda>allEntries.
       ret (b, entries, insts, ws, allEntries))))))))
     (\<lambda>(b, entries, insts, ws, allEntries). lift (choose_window x b entries insts ws allEntries q))"

section \<open>The next command of a worker\<close>

record worker_command =
  wk_Command :: worker_command_type
  wk_Location :: string
  wk_SourceType :: source_type
  wk_Source :: source
  wk_Distro :: distro
  wk_DistroVersion :: string
  wk_OSType :: os_type
  wk_Architecture :: string

text \<open>
  What the service decides for an idle entry: leave it, change its message only, or send a command
  and move the entry to a status, message, stage and window.
\<close>

datatype decision =
    NoChange
  | SetMessage string
  | Move worker_command_type migration_status string import_stage "string option"

definition waiting_import :: string where
  "waiting_import = migration_status_string MIGRATIONSTATUS_WAITING_IMPORT"

text \<open>When the background import is repeated: the interval has passed and the window is farther away
  than another interval, or this is the last chance to sync before the final phase.\<close>

definition should_resync :: "time \<Rightarrow> batch_config \<Rightarrow> time \<Rightarrow> window option \<Rightarrow> bool" where
  "should_resync now cfg lastSync w \<longleftrightarrow>
     (bc_BackgroundSyncInterval cfg \<le> time_sub now lastSync \<and>
        (case w of None \<Rightarrow> True | Some v \<Rightarrow> time_after (w_Start v) (time_add now (bc_BackgroundSyncInterval cfg)))) \<or>
     (case w of None \<Rightarrow> False | Some v \<Rightarrow>
        time_sub (w_Start v) lastSync < bc_BackgroundSyncInterval cfg \<and>
        bc_FinalBackgroundSyncLimit cfg \<le> time_sub (w_Start v) now)"

definition wait_decision :: "ext \<Rightarrow> batch \<Rightarrow> inst \<Rightarrow> queue_entry \<Rightarrow> bool \<Rightarrow> window option \<Rightarrow> decision" where
  "wait_decision x b i q batchLimit w =
     (if q_ImportStage q \<noteq> IMPORTSTAGE_FINAL \<or> \<not> supports_background_import (i_Properties i) \<or>
         time_is_zero (q_LastBackgroundSync q)
      then (if q_MigrationStatusMessage q = ''Waiting for worker to connect''
            then SetMessage ''Waiting for migration window'' else NoChange)
      else if batchLimit
      then Move WORKERCOMMAND_IDLE (q_MigrationStatus q) waiting_import (q_ImportStage q) (get_window_name q)
      else if should_resync (x_now x) (b_Config b) (q_LastBackgroundSync q) w
      then Move WORKERCOMMAND_IMPORT_DISKS MIGRATIONSTATUS_BACKGROUND_IMPORT
             (migration_status_string MIGRATIONSTATUS_BACKGROUND_IMPORT) IMPORTSTAGE_BACKGROUND (get_window_name q)
      else NoChange)"

definition begin_decision :: "queue_entry \<Rightarrow> window \<Rightarrow> decision" where
  "begin_decision q w =
     (let wn = (if window_is_empty w then get_window_name q else Some (w_Name w)) in
      if q_ImportStage q \<noteq> IMPORTSTAGE_COMPLETE
      then Move WORKERCOMMAND_FINALIZE_IMPORT MIGRATIONSTATUS_FINAL_IMPORT
             (migration_status_string MIGRATIONSTATUS_FINAL_IMPORT) (q_ImportStage q) wn
      else Move WORKERCOMMAND_POST_IMPORT MIGRATIONSTATUS_POST_IMPORT
             (migration_status_string MIGRATIONSTATUS_POST_IMPORT) (q_ImportStage q) wn)"

text \<open>\<open>nw\<close> is the outcome of \<open>GetNextWindow\<close>, which is consulted in the last branch only.\<close>

definition worker_decision ::
    "ext \<Rightarrow> batch \<Rightarrow> inst \<Rightarrow> queue_entry \<Rightarrow> bool \<Rightarrow> bool \<Rightarrow> bool \<Rightarrow> err + window \<Rightarrow> err + decision" where
  "worker_decision x b i q sourceLimit targetLimit batchLimit nw =
     (let shouldSync = (q_ImportStage q = IMPORTSTAGE_BACKGROUND \<and> supports_background_import (i_Properties i)) in
      if targetLimit \<or> sourceLimit \<or> shouldSync \<and> batchLimit
      then Inr (Move WORKERCOMMAND_IDLE (q_MigrationStatus q) waiting_import (q_ImportStage q) (get_window_name q))
      else if shouldSync
      then Inr (Move WORKERCOMMAND_IMPORT_DISKS MIGRATIONSTATUS_BACKGROUND_IMPORT
             (migration_status_string MIGRATIONSTATUS_BACKGROUND_IMPORT) (q_ImportStage q) (get_window_name q))
      else (case nw of
          Inl e \<Rightarrow> if err_status http_not_found e then Inr (wait_decision x b i q batchLimit None) else Inl e
        | Inr w \<Rightarrow> if window_begun (x_now x) w then Inr (begin_decision q w)
                  else Inr (wait_decision x b i q batchLimit (Some w))))"

text \<open>Carrying out a decision: count the import, then store the entry if anything changed.\<close>

definition apply_decision :: "inst \<Rightarrow> batch \<Rightarrow> queue_entry \<Rightarrow> decision \<Rightarrow> worker_command_type wm" where
  "apply_decision i b q d =
     (case d of
        NoChange \<Rightarrow> ret WORKERCOMMAND_IDLE
      | SetMessage m \<Rightarrow>
          andthen (wrap_err (\<lambda>e. Errorf ''Failed updating queue entry %q message: %w'' [AUuid (i_UUID i), AWrap e])
                    (queue_update_status (i_UUID i) (q_MigrationStatus q) m (q_ImportStage q) (get_window_name q)))
            (ret WORKERCOMMAND_IDLE)
      | Move cmd status msg stage wn \<Rightarrow>
          andthen (if status \<noteq> MIGRATIONSTATUS_IDLE \<and> status \<noteq> MIGRATIONSTATUS_POST_IMPORT
                   then andthen (source_record_import (i_Source i)) (target_record_import (p_TargetName (q_Placement q)))
                   else ret ())
         (andthen (if status = MIGRATIONSTATUS_BACKGROUND_IMPORT then batch_record_import (b_Name b) else ret ())
         (andthen (if status \<noteq> q_MigrationStatus q \<or> msg \<noteq> q_MigrationStatusMessage q \<or> stage \<noteq> q_ImportStage q
                   then andthen (wrap_err (\<lambda>e. Errorf ''Failed updating instance %q: %w'' [AUuid (i_UUID i), AWrap e])
                            (queue_update_status (i_UUID i) status msg stage wn)) (ret ())
                   else ret ())
           (ret cmd))))"

text \<open>A worker that was restarted while running gets the command it was running.\<close>

definition restart_command :: "queue_entry \<Rightarrow> err + worker_command_type" where
  "restart_command q =
     (case q_MigrationStatus q of
        MIGRATIONSTATUS_BACKGROUND_IMPORT \<Rightarrow> Inr WORKERCOMMAND_IMPORT_DISKS
      | MIGRATIONSTATUS_FINAL_IMPORT \<Rightarrow> Inr WORKERCOMMAND_FINALIZE_IMPORT
      | MIGRATIONSTATUS_POST_IMPORT \<Rightarrow> Inr WORKERCOMMAND_POST_IMPORT
      | st \<Rightarrow> Inl (Errorf ''Unable to restart worker for instance in state %q: %w''
                [AStr (migration_status_string st), AWrap (Sentinel ErrOperationNotPermitted)]))"

definition limit_reached :: "int \<Rightarrow> int \<Rightarrow> bool" where
  "limit_reached limit current \<longleftrightarrow> 0 < limit \<and> limit \<le> current"

definition idle_command :: "ext \<Rightarrow> inst \<Rightarrow> source \<Rightarrow> worker_command_type \<Rightarrow> worker_command" where
  "idle_command x i src cmd =
     (let i' = i\<lparr>i_Properties := applied_props i\<rparr>
      in \<lparr>wk_Command = cmd, wk_Location = ip_Location (i_Properties i'),
          wk_SourceType = src_SourceType src, wk_Source = src,
          wk_Distro = fst (get_distribution x i' True), wk_DistroVersion = snd (get_distribution x i' True),
          wk_OSType = get_os_type i' True, wk_Architecture = get_architecture x i'\<rparr>)"

text \<open>The command for an idle entry.\<close>

definition idle_step :: "ext \<Rightarrow> queue_entry \<Rightarrow> inst \<Rightarrow> source \<Rightarrow> worker_command_type wm" where
  "idle_step x q i src =
     bindm (wrap_err (\<lambda>e. Errorf ''Failed to get source %q properties: %w'' [AStr (i_Source i), AWrap e])
             (lift (x_vmware_limit x (src_Properties src)))) (\<lambda>srcLimit.
     bindm (wrap_err (\<lambda>e. Errorf ''Failed to get target %q: %w'' [AStr (p_TargetName (q_Placement q)), AWrap e])
             (target_get_by_name (p_TargetName (q_Placement q)))) (\<lambda>tgt.
     bindm (wrap_err (\<lambda>e. Errorf ''Failed to get target %q properties: %w'' [AStr (tgt_Name tgt), AWrap e])
             (lift (x_incus_limit x (tgt_Properties tgt)))) (\<lambda>tgtLimit.
     bindm (wrap_err (\<lambda>e. Errorf ''Failed to get queue entry batch %q: %w'' [AStr (q_BatchName q), AWrap e])
             (batch_get_by_name (q_BatchName q))) (\<lambda>b.
     bindm (source_cached_imports (src_Name src)) (\<lambda>nsrc.
     bindm (target_cached_imports (tgt_Name tgt)) (\<lambda>ntgt.
     bindm (batch_cached_imports (b_Name b)) (\<lambda>nbatch.
     bindm (attempt (get_next_window x q)) (\<lambda>nw.
     bindm (lift (worker_decision x b i q (limit_reached srcLimit nsrc) (limit_reached tgtLimit ntgt)
              (limit_reached (bd_SyncLimit (b_Defaults b)) nbatch) nw)) (\<lambda>d.
     apply_decision i b q d)))))))))"

definition new_worker_command :: "ext \<Rightarrow> uuid \<Rightarrow> worker_command wm" where
  "new_worker_command x u =
     tx_do
      (bindm (wrap_err (\<lambda>e. Errorf ''Failed to get queue entry for instance %q: %w'' [AUuid u, AWrap e]) (queue_get u)) (\<lambda>q.
       bindm (wrap_err (\<lambda>e. Errorf ''Failed to get instance %q: %w'' [AUuid u, AWrap e]) (instance_repo_get u)) (\<lambda>i.
       andthen (fail_if (q_MigrationStatus q \<noteq> MIGRATIONSTATUS_IDLE \<and> q_LastWorkerStatus q \<noteq> WORKERRESPONSE_RUNNING)
         (Errorf (''Instance '' @ squote @ ''%s'' @ squote @ '' isn'' @ squote @ ''t idle: %s (%s): %w'')
            [AStr (ip_Location (i_Properties i)), AStr (migration_status_string (q_MigrationStatus q)),
             AStr (q_MigrationStatusMessage q), AWrap (Sentinel ErrOperationNotPermitted)]))
      (bindm (wrap_err (\<lambda>e. Errorf ''Failed to get source %q: %w'' [AStr (i_Source i), AWrap e])
               (source_get_by_name (i_Source i))) (\<lambda>src.
       bindm (if q_MigrationStatus q \<noteq> MIGRATIONSTATUS_IDLE then lift (restart_command q)
              else idle_step x q (i\<lparr>i_Properties := applied_props i\<rparr>) src) (\<lambda>cmd.
       ret (idle_command x i src cmd)))))))"

section \<open>The worker's report\<close>

definition report_entry :: "ext \<Rightarrow> worker_response \<Rightarrow> queue_entry \<Rightarrow> queue_entry" where
  "report_entry x r q =
     (case wr_Status r of
        WORKERRESPONSE_RUNNING \<Rightarrow> q\<lparr>q_MigrationStatusMessage := wr_StatusMessage r\<rparr>
      | WORKERRESPONSE_SUCCESS \<Rightarrow>
          (case q_MigrationStatus q of
             MIGRATIONSTATUS_BACKGROUND_IMPORT \<Rightarrow>
               q\<lparr>q_ImportStage := IMPORTSTAGE_FINAL, q_MigrationStatus := MIGRATIONSTATUS_IDLE,
                 q_MigrationStatusMessage := ''Waiting for migration window'', q_LastBackgroundSync := x_now x\<rparr>
           | MIGRATIONSTATUS_FINAL_IMPORT \<Rightarrow>
               q\<lparr>q_ImportStage := IMPORTSTAGE_COMPLETE, q_MigrationStatus := MIGRATIONSTATUS_IDLE,
                 q_MigrationStatusMessage := ''Waiting for worker to begin post-import tasks''\<rparr>
           | MIGRATIONSTATUS_POST_IMPORT \<Rightarrow>
               q\<lparr>q_MigrationStatus := MIGRATIONSTATUS_WORKER_DONE,
                 q_MigrationStatusMessage := ''Starting target instance''\<rparr>
           | _ \<Rightarrow> q)
      | WORKERRESPONSE_FAILED \<Rightarrow>
          q\<lparr>q_MigrationStatus := MIGRATIONSTATUS_ERROR, q_MigrationStatusMessage := wr_StatusMessage r\<rparr>
      | _ \<Rightarrow> q)"

text \<open>
  A failed worker's log is written to a file; only that its name needs the instance is kept. Any
  report but RUNNING gives the import counters back.
\<close>

definition process_worker_update :: "ext \<Rightarrow> uuid \<Rightarrow> worker_response \<Rightarrow> queue_entry wm" where
  "process_worker_update x u r =
     tx_do
      (bindm (wrap_err (get_instance_err u) (queue_repo_get u)) (\<lambda>q.
       andthen (fail_if (\<not> is_migrating q)
                 (Errorf (''Instance %q isn'' @ squote @ ''t in the migration queue: %w'')
                    [AUuid (q_InstanceUUID q), AWrap (Sentinel ErrNotFound)]))
      (andthen (if wr_Status r = WORKERRESPONSE_FAILED \<and> q_MigrationStatus q \<noteq> MIGRATIONSTATUS_ERROR \<and> wr_Metadata r \<noteq> None
                then andthen (wrap_err (\<lambda>e. Errorf ''Failed to get instance %q: %w'' [AUuid u, AWrap e]) (instance_repo_get u)) (ret ())
                else ret ())
      (andthen (if wr_Status r \<noteq> WORKERRESPONSE_RUNNING
                then bindm (wrap_err (\<lambda>e. Errorf ''Failed to get instance %q: %w'' [AUuid u, AWrap e]) (instance_repo_get u)) (\<lambda>i.
                  andthen (source_remove_import (i_Source i))
                 (andthen (target_remove_import (p_TargetName (q_Placement q)))
                   (if q_MigrationStatus q = MIGRATIONSTATUS_BACKGROUND_IMPORT
                    then batch_remove_import (q_BatchName q) else ret ())))
                else ret ())
       (let q' = (report_entry x r q)\<lparr>q_LastWorkerStatus := wr_Status r\<rparr>
        in andthen (wrap_err (\<lambda>e. Errorf (''Failed updating instance '' @ squote @ ''%s'' @ squote @ '': %w'')
                       [AUuid (q_InstanceUUID q), AWrap e])
                     (queue_update q'))
             (ret q'))))))"

section \<open>Cancel and retry\<close>

definition queue_cancel :: "uuid \<Rightarrow> (queue_entry \<times> bool) wm" where
  "queue_cancel u =
     tx_do (bindm (queue_repo_get u) (\<lambda>q.
       andthen (fail_if (q_MigrationStatus q = MIGRATIONSTATUS_FINISHED)
                 (Errorf ''Queue entry %q is already finished'' [AUuid (q_InstanceUUID q)]))
      (bindm (queue_update_status (q_InstanceUUID q) MIGRATIONSTATUS_CANCELED (q_MigrationStatusMessage q)
                IMPORTSTAGE_BACKGROUND None) (\<lambda>q'.
       ret (q', is_committed q)))))"

definition retried :: "ext \<Rightarrow> inst \<Rightarrow> batch \<Rightarrow> placement \<Rightarrow> queue_entry \<Rightarrow> queue_entry" where
  "retried x i b pl q =
     (let (status, msg) = (case disabled_reason_of x i (bc_RestrictionOverrides (b_Config b)) of
             Some e \<Rightarrow> (MIGRATIONSTATUS_BLOCKED, err_text e)
           | None \<Rightarrow> (MIGRATIONSTATUS_WAITING, ''Performing initial migration checks''))
      in q\<lparr>q_MigrationStatus := status, q_MigrationStatusMessage := msg,
           q_ImportStage := IMPORTSTAGE_BACKGROUND, q_MigrationWindowName := None, q_Placement := pl\<rparr>)"

definition queue_retry :: "ext \<Rightarrow> uuid \<Rightarrow> queue_entry wm" where
  "queue_retry x u =
     tx_do (bindm (queue_repo_get u) (\<lambda>q.
       andthen (fail_if (q_MigrationStatus q \<noteq> MIGRATIONSTATUS_CANCELED)
                 (Errorf ''Queue entry %q has not been cancelled and cleaned up'' [AUuid (q_InstanceUUID q)]))
      (bindm (batch_get_by_name (q_BatchName q)) (\<lambda>b.
       bindm (window_repo_get_all_by_batch (q_BatchName q)) (\<lambda>ws.
       bindm (instance_repo_get (q_InstanceUUID q)) (\<lambda>i.
       bindm (network_repo_get_all_by_source (i_Source i)) (\<lambda>nets.
       bindm (lift (determine_placement x i (filter_used_networks nets [i]) b ws)) (\<lambda>pl.
       andthen (queue_update (retried x i b pl q)) (ret (retried x i b pl q))))))))))"

end
