(* ===== verification/Queue_Frame.thy ===== *)
theory Queue_Frame
  imports Queue_Service
begin

text \<open>
  What the operations of the queue service do to the queue and to the rest of the state: each one
  in the abstract view of the queue as a map, with the in-memory counters beside it. The later
  theories use these lemmas only, not the definitions.
\<close>

section \<open>Transactions and the rest of the state\<close>

text \<open>Equal but for the mark that a transaction is open.\<close>

definition same_data :: "world \<Rightarrow> world \<Rightarrow> bool" where
  "same_data s t \<longleftrightarrow> w_db t = w_db s \<and> w_srcImports t = w_srcImports s \<and> w_tgtImports t = w_tgtImports s \<and> w_tgtCreations t = w_tgtCreations s \<and>
     w_batchImports t = w_batchImports s \<and> w_retries t = w_retries s \<and> w_lastUpdate t = w_lastUpdate s"

lemma same_data_refl [simp]: "same_data s s"
  by (simp add: same_data_def)

lemma same_data_intx [simp]: "same_data s (s\<lparr>w_intx := b\<rparr>)" "same_data (s\<lparr>w_intx := b\<rparr>) s"
  by (simp_all add: same_data_def)

lemma same_data_queue: "same_data s t \<Longrightarrow> queue_map t = queue_map s"
  by (rule queue_map_db) (simp add: same_data_def)

lemma tx_do_run_ok:
  assumes "tx_do f s = (Inr a, t)"
  shows "\<exists>s0 t0. f s0 = (Inr a, t0) \<and> same_data s s0 \<and> same_data t0 t"
  using assms by (auto simp: tx_do_ok split: if_splits intro: same_data_intx same_data_refl)

text \<open>Equal but for the queue.\<close>

definition only_queue :: "world \<Rightarrow> world \<Rightarrow> bool" where
  "only_queue s t \<longleftrightarrow> (w_db t)\<lparr>db_queue := db_queue (w_db s)\<rparr> = w_db s \<and> w_srcImports t = w_srcImports s \<and>
     w_tgtImports t = w_tgtImports s \<and> w_tgtCreations t = w_tgtCreations s \<and> w_batchImports t = w_batchImports s \<and> w_retries t = w_retries s \<and>
     w_lastUpdate t = w_lastUpdate s"

lemma only_queue_refl [simp]: "only_queue s s"
  by (simp add: only_queue_def)

lemma same_data_only_queue: "same_data s t \<Longrightarrow> only_queue s t"
  by (simp add: same_data_def only_queue_def)

lemma only_queue_fields:
  assumes "only_queue s t"
  shows "db_windows (w_db t) = db_windows (w_db s)" "db_instances (w_db t) = db_instances (w_db s)"
    "db_batches (w_db t) = db_batches (w_db s)" "db_sources (w_db t) = db_sources (w_db s)"
    "db_targets (w_db t) = db_targets (w_db s)"
    "w_srcImports t = w_srcImports s" "w_tgtImports t = w_tgtImports s" "w_batchImports t = w_batchImports s"
proof -
  from assms have "w_db s = (w_db t)\<lparr>db_queue := db_queue (w_db s)\<rparr>" by (simp add: only_queue_def)
  then obtain d where "w_db s = (w_db t)\<lparr>db_queue := d\<rparr>" by blast
  then show "db_windows (w_db t) = db_windows (w_db s)" "db_instances (w_db t) = db_instances (w_db s)"
    "db_batches (w_db t) = db_batches (w_db s)" "db_sources (w_db t) = db_sources (w_db s)"
    "db_targets (w_db t) = db_targets (w_db s)" by simp_all
  from assms show "w_srcImports t = w_srcImports s" "w_tgtImports t = w_tgtImports s" "w_batchImports t = w_batchImports s"
    by (simp_all add: only_queue_def)
qed

lemma only_queue_step: "same_data s s0 \<Longrightarrow> only_queue s0 t0 \<Longrightarrow> same_data t0 t \<Longrightarrow> only_queue s t"
  by (simp add: same_data_def only_queue_def)

lemma window_name_read_frame: "only_queue s t \<Longrightarrow> window_name_read (w_db t) n = window_name_read (w_db s) n"
  by (simp add: window_name_read_def window_id_by_name_def window_by_id_def only_queue_fields
      cong: option.case_cong)

lemma queue_repo_update_only: "queue_repo_update q s = (Inr u, t) \<Longrightarrow> only_queue s t"
  by (auto simp: queue_repo_update_ok only_queue_def)

section \<open>Status updates\<close>

lemma queue_update_status_effect:
  assumes "queue_update_status u st msg stage wn s = (Inr q', t)"
  shows "\<exists>q0. queue_map s u = Some q0 \<and> migration_status_validate st = None \<and>
    q' = q0\<lparr>q_MigrationStatus := st, q_MigrationStatusMessage := msg, q_ImportStage := stage, q_MigrationWindowName := wn\<rparr> \<and>
    queue_map t = (queue_map s)(u \<mapsto> q'\<lparr>q_MigrationWindowName := window_name_read (w_db s) wn\<rparr>) \<and> only_queue s t"
proof -
  have v: "migration_status_validate st = None"
    using assms by (auto simp: queue_update_status_def throw_run split: option.splits)
  with assms obtain s0 t0 where f: "bindm (wrap_err (get_instance_err u) (queue_repo_get u)) (\<lambda>q.
            let q' = q\<lparr>q_MigrationStatus := st, q_MigrationStatusMessage := msg, q_ImportStage := stage,
                       q_MigrationWindowName := wn\<rparr>
            in andthen (queue_repo_update q') (ret q')) s0 = (Inr q', t0)"
    and same: "same_data s s0" "same_data t0 t"
    unfolding queue_update_status_def by (auto dest: tx_do_run_ok)
  from f obtain q0 where q0: "queue_map s0 u = Some q0"
    and q': "q' = q0\<lparr>q_MigrationStatus := st, q_MigrationStatusMessage := msg, q_ImportStage := stage, q_MigrationWindowName := wn\<rparr>"
    and up: "queue_repo_update q' s0 = (Inr (), t0)"
    by (auto simp: bindm_ok andthen_ok wrap_err_ok queue_repo_get_ok ret_ok Let_def)
  have key: "q_InstanceUUID q' = u" using q0 q' by (simp add: queue_map_key)
  have id: "q'\<lparr>q_ID := q_ID q0, q_MigrationWindowName := window_name_read (w_db s0) (q_MigrationWindowName q')\<rparr>
      = q'\<lparr>q_MigrationWindowName := window_name_read (w_db s0) wn\<rparr>" by (simp add: q')
  obtain q1 where "queue_map s0 (q_InstanceUUID q') = Some q1"
    and "queue_map t0 = (queue_map s0)(q_InstanceUUID q' \<mapsto>
      q'\<lparr>q_ID := q_ID q1, q_MigrationWindowName := window_name_read (w_db s0) (q_MigrationWindowName q')\<rparr>)"
    using queue_repo_update_map [OF up] by blast
  with q0 id have "queue_map t0 = (queue_map s0)(u \<mapsto> q'\<lparr>q_MigrationWindowName := window_name_read (w_db s0) wn\<rparr>)"
    unfolding key by simp
  moreover have "queue_map t = queue_map t0" "queue_map s0 = queue_map s" "w_db s0 = w_db s"
    using same_data_queue [OF same(1)] same_data_queue [OF same(2)] same(1) by (simp_all add: same_data_def)
  moreover have "only_queue s t" by (rule only_queue_step [OF same(1) queue_repo_update_only [OF up] same(2)])
  ultimately show ?thesis using q0 q' v by simp
qed

section \<open>Carrying out a decision\<close>

lemmas query_defs = queue_get_all_by_batch_and_state_def queue_repo_get_all_by_batch_and_state_def
  window_repo_get_all_by_batch_def instance_get_all_queued_def instance_repo_get_all_by_uuids_def
  batch_get_by_name_def batch_repo_get_def queue_get_all_def queue_repo_get_all_def
  target_get_by_name_def target_repo_get_def source_get_by_name_def source_repo_get_def
  queue_get_def queue_repo_get_def instance_repo_get_def

lemma ro_get_next_window: "ro (get_next_window x q)"
  unfolding get_next_window_def query_defs by (auto intro!: ro_intros split: prod.split)

text \<open>What a decision moves the entry to, and whether it starts an import.\<close>

fun decided :: "queue_entry \<Rightarrow> decision \<Rightarrow> queue_entry" where
  "decided q NoChange = q"
| "decided q (SetMessage m) = q\<lparr>q_MigrationStatusMessage := m\<rparr>"
| "decided q (Move c st m stage wn) =
     (if st \<noteq> q_MigrationStatus q \<or> m \<noteq> q_MigrationStatusMessage q \<or> stage \<noteq> q_ImportStage q
      then q\<lparr>q_MigrationStatus := st, q_MigrationStatusMessage := m, q_ImportStage := stage, q_MigrationWindowName := wn\<rparr>
      else q)"

fun decided_command :: "decision \<Rightarrow> worker_command_type" where
  "decided_command NoChange = WORKERCOMMAND_IDLE"
| "decided_command (SetMessage m) = WORKERCOMMAND_IDLE"
| "decided_command (Move c st m stage wn) = c"

fun starts_import :: "decision \<Rightarrow> bool" where
  "starts_import (Move c st m stage wn) \<longleftrightarrow> st \<noteq> MIGRATIONSTATUS_IDLE \<and> st \<noteq> MIGRATIONSTATUS_POST_IMPORT"
| "starts_import _ \<longleftrightarrow> False"

fun starts_sync :: "decision \<Rightarrow> bool" where
  "starts_sync (Move c st m stage wn) \<longleftrightarrow> st = MIGRATIONSTATUS_BACKGROUND_IMPORT"
| "starts_sync _ \<longleftrightarrow> False"

text \<open>The entry as it reads back: its window is one that exists.\<close>

definition stored :: "world \<Rightarrow> queue_entry \<Rightarrow> queue_entry" where
  "stored s q = q\<lparr>q_MigrationWindowName := window_name_read (w_db s) (q_MigrationWindowName q)\<rparr>"

definition windows_resolve :: "world \<Rightarrow> bool" where
  "windows_resolve s \<longleftrightarrow> (\<forall>u q. queue_map s u = Some q \<longrightarrow> stored s q = q)"

lemma windows_resolve_unique: "window_ids_unique (w_db s) \<Longrightarrow> windows_resolve s"
  unfolding windows_resolve_def stored_def
proof (intro allI impI)
  fix u q
  assume u: "window_ids_unique (w_db s)" and q: "queue_map s u = Some q"
  then obtain r where r: "q = read_queue_row (w_db s) r" by (auto simp: queue_map_def queue_lookup_def)
  have "q_MigrationWindowName q = Some n \<Longrightarrow> n \<in> w_Name ` set (db_windows (w_db s))" for n
    by (auto simp: r read_queue_row_def window_by_id_def dest: find_SomeD split: option.splits)
  then have "window_name_read (w_db s) (q_MigrationWindowName q) = q_MigrationWindowName q"
    by (auto simp: window_name_read_unique [OF u] split: option.splits)
  then show "q\<lparr>q_MigrationWindowName := window_name_read (w_db s) (q_MigrationWindowName q)\<rparr> = q" by simp
qed

lemma stored_id: "window_ids_unique (w_db s) \<Longrightarrow> queue_map s u = Some q \<Longrightarrow> stored s q = q"
  using windows_resolve_unique by (auto simp: windows_resolve_def)

text \<open>The counters after an import has been started, or not.\<close>

definition counted :: "bool \<Rightarrow> bool \<Rightarrow> string \<Rightarrow> string \<Rightarrow> string \<Rightarrow> world \<Rightarrow> world \<Rightarrow> bool" where
  "counted imp sync src tgt bat s t \<longleftrightarrow>
     w_srcImports t = (if imp then counter_record src (w_srcImports s) else w_srcImports s) \<and>
     w_tgtImports t = (if imp then counter_record tgt (w_tgtImports s) else w_tgtImports s) \<and>
     w_batchImports t = (if sync then counter_record bat (w_batchImports s) else w_batchImports s)"

lemma count_import_ok:
  "(if imp then andthen (source_record_import src) (target_record_import tgt) else ret ()) s = (Inr u, s1) \<Longrightarrow>
   (if sync then batch_record_import bat else ret ()) s1 = (Inr v, s2) \<Longrightarrow>
   counted imp sync src tgt bat s s2 \<and> w_db s2 = w_db s"
  by (auto simp: counted_def run_simps split: if_splits)

lemma apply_decision_effect:
  assumes run: "apply_decision i b q d s = (Inr c, t)"
    and q: "queue_map s (i_UUID i) = Some q"
    and ids: "window_ids_unique (w_db s)"
  shows "c = decided_command d \<and> queue_map t = (queue_map s)(i_UUID i \<mapsto> stored s (decided q d)) \<and>
    counted (starts_import d) (starts_sync d) (i_Source i) (p_TargetName (q_Placement q)) (b_Name b) s t \<and>
    (\<exists>s'. w_db s' = w_db s \<and> only_queue s' t)"
proof (cases d)
  case NoChange
  with run q ids show ?thesis
    by (auto simp: apply_decision_def ret_ok counted_def stored_id intro: only_queue_refl)
next
  case (SetMessage m)
  with run obtain q' where up: "queue_update_status (i_UUID i) (q_MigrationStatus q) m (q_ImportStage q) (get_window_name q) s = (Inr q', t)"
    and c: "c = WORKERCOMMAND_IDLE"
    by (auto simp: apply_decision_def andthen_ok wrap_err_ok ret_ok)
  from queue_update_status_effect [OF up] q SetMessage c show ?thesis
    by (auto simp: stored_def counted_def only_queue_def intro!: exI [of _ s])
next
  case (Move cmd st m stage wn)
  let ?changed = "st \<noteq> q_MigrationStatus q \<or> m \<noteq> q_MigrationStatusMessage q \<or> stage \<noteq> q_ImportStage q"
  from run [unfolded Move apply_decision_def decision.case andthen_ok ret_ok] obtain u1 u2 u3 s1 s2 where
    one: "(if st \<noteq> MIGRATIONSTATUS_IDLE \<and> st \<noteq> MIGRATIONSTATUS_POST_IMPORT
        then andthen (source_record_import (i_Source i)) (target_record_import (p_TargetName (q_Placement q)))
        else ret ()) s = (Inr u1, s1)"
    and two: "(if st = MIGRATIONSTATUS_BACKGROUND_IMPORT then batch_record_import (b_Name b) else ret ()) s1 = (Inr u2, s2)"
    and three: "(if ?changed then andthen (wrap_err (\<lambda>e. Errorf ''Failed updating instance %q: %w'' [AUuid (i_UUID i), AWrap e])
                            (queue_update_status (i_UUID i) st m stage wn)) (ret ()) else ret ()) s2 = (Inr u3, t)"
    and c: "c = cmd"
    by blast
  have count: "counted (starts_import d) (starts_sync d) (i_Source i) (p_TargetName (q_Placement q)) (b_Name b) s s2"
    and db: "w_db s2 = w_db s"
    using count_import_ok [OF one two] Move by simp_all
  have qm: "queue_map s2 = queue_map s" by (rule queue_map_db [OF db])
  show ?thesis
  proof (cases ?changed)
    case True
    with three obtain q' where "queue_update_status (i_UUID i) st m stage wn s2 = (Inr q', t)"
      by (auto simp: andthen_ok wrap_err_ok ret_ok)
    from queue_update_status_effect [OF this] obtain q0 where
      "queue_map s2 (i_UUID i) = Some q0"
      "q' = q0\<lparr>q_MigrationStatus := st, q_MigrationStatusMessage := m, q_ImportStage := stage, q_MigrationWindowName := wn\<rparr>"
      "queue_map t = (queue_map s2)(i_UUID i \<mapsto> q'\<lparr>q_MigrationWindowName := window_name_read (w_db s2) wn\<rparr>)"
      "only_queue s2 t" by blast
    moreover from this have "q0 = q" using q qm by simp
    ultimately show ?thesis using True count db c Move qm
      by (auto simp: stored_def counted_def only_queue_fields)
  next
    case False
    with three have "t = s2" by (simp add: ret_ok)
    with False count db c Move qm q ids show ?thesis by (auto simp: stored_id intro: only_queue_refl)
  qed
qed

section \<open>The next command\<close>

text \<open>What \<open>GetNextWindow\<close> reads: the batch's entries in the four statuses, and their instances.\<close>

definition window_entries :: "db \<Rightarrow> string \<Rightarrow> queue_entries" where
  "window_entries d b = queue_select (\<lambda>e. q_BatchName e = b \<and> q_MigrationStatus e \<in> set window_statuses) d"

definition entry_instances :: "db \<Rightarrow> queue_entries \<Rightarrow> instances" where
  "entry_instances d qs = (if qs = [] then [] else instance_select (\<lambda>i. i_UUID i \<in> q_InstanceUUID ` set qs) d)"

lemma instance_get_all_queued_run [run_simps]:
  "instance_get_all_queued qs s = (Inr (entry_instances (w_db s) qs), s)"
  by (simp add: instance_get_all_queued_def entry_instances_def instance_repo_get_all_by_uuids_def run_simps)

lemma get_next_window_ok:
  "get_next_window x q s = (Inr w, t) \<longleftrightarrow> t = s \<and> q_BatchName q \<noteq> '''' \<and>
   (\<exists>b. tb_get b_Name (db_batches (w_db s)) (q_BatchName q) = Some b \<and>
    choose_window x b (window_entries (w_db s) (q_BatchName q)) (entry_instances (w_db s) (window_entries (w_db s) (q_BatchName q)))
      (windows_by_batch (w_db s) (q_BatchName q)) (queue_select (\<lambda>_. True) (w_db s)) q = Inr w)"
proof -
  have w: "queue_get_all_by_batch_and_state b window_statuses s' = (Inr (window_entries (w_db s') b), s')" for b s'
    by (simp add: queue_get_all_by_batch_and_state_def queue_repo_get_all_by_batch_and_state_def window_entries_def
        window_statuses_def run_simps)
  have b: "batch_get_by_name n s' = (Inr v, t') \<longleftrightarrow>
      n \<noteq> '''' \<and> tb_get b_Name (db_batches (w_db s')) n = Some v \<and> t' = s'" for n s' v t'
    by (auto simp: batch_get_by_name_def batch_repo_get_def wm_ok throw_run)
  show ?thesis
    unfolding get_next_window_def bindm_ok tx_do_ok wrap_err_ok b ret_ok w
      instance_get_all_queued_run window_repo_get_all_by_batch_def dbget_ok queue_get_all_def queue_repo_get_all_def
    by (auto simp: lift_ok split: if_splits)
qed

lemma lookup_ok:
  "source_get_by_name n s = (Inr src, t) \<longleftrightarrow> n \<noteq> '''' \<and> tb_get src_Name (db_sources (w_db s)) n = Some src \<and> t = s"
  "target_get_by_name n s = (Inr tgt, t) \<longleftrightarrow> n \<noteq> '''' \<and> tb_get tgt_Name (db_targets (w_db s)) n = Some tgt \<and> t = s"
  "batch_get_by_name n s = (Inr b, t) \<longleftrightarrow> n \<noteq> '''' \<and> tb_get b_Name (db_batches (w_db s)) n = Some b \<and> t = s"
  "instance_repo_get u s = (Inr i, t) \<longleftrightarrow> tb_get i_UUID (db_instances (w_db s)) u = Some i \<and> t = s"
  "queue_get u s = (Inr q, t) \<longleftrightarrow> queue_map s u = Some q \<and> t = s"
  by (auto simp: source_get_by_name_def source_repo_get_def target_get_by_name_def target_repo_get_def
      batch_get_by_name_def batch_repo_get_def instance_repo_get_def queue_get_def queue_repo_get_ok wm_ok throw_run)

lemma tb_get_name:
  "tb_get src_Name ss n = Some src \<Longrightarrow> src_Name src = n"
  "tb_get tgt_Name ts n = Some tgt \<Longrightarrow> tgt_Name tgt = n"
  "tb_get b_Name bs n = Some b \<Longrightarrow> b_Name b = n"
  "tb_get i_UUID is u = Some i \<Longrightarrow> i_UUID i = u"
  by (auto simp: tb_get_def dest: find_SomeD)

text \<open>
  What the decision for an idle entry rests on: the limits of source, target and batch against the
  counters, and the outcome of \<open>GetNextWindow\<close>.
\<close>

definition decides :: "ext \<Rightarrow> world \<Rightarrow> queue_entry \<Rightarrow> inst \<Rightarrow> source \<Rightarrow> decision \<Rightarrow> bool" where
  "decides x s q i src d \<longleftrightarrow>
     (\<exists>tgt b sl tl s0. same_data s s0 \<and>
        tb_get tgt_Name (db_targets (w_db s)) (p_TargetName (q_Placement q)) = Some tgt \<and>
        tb_get b_Name (db_batches (w_db s)) (q_BatchName q) = Some b \<and>
        x_vmware_limit x (src_Properties src) = Inr sl \<and> x_incus_limit x (tgt_Properties tgt) = Inr tl \<and>
        worker_decision x b i q (limit_reached sl (counter_get (w_srcImports s) (src_Name src)))
          (limit_reached tl (counter_get (w_tgtImports s) (tgt_Name tgt)))
          (limit_reached (bd_SyncLimit (b_Defaults b)) (counter_get (w_batchImports s) (b_Name b)))
          (fst (get_next_window x q s0)) = Inr d)"

lemma attempt_next_window:
  "attempt (get_next_window x q) s = (Inr r, t) \<longleftrightarrow> r = fst (get_next_window x q s) \<and> t = s"
proof -
  have "snd (get_next_window x q s) = s" using ro_get_next_window [of x q] by (simp add: ro_def)
  then show ?thesis by (cases "get_next_window x q s") (auto simp: attempt_run)
qed

lemma idle_step_effect:
  assumes run: "idle_step x q i src s = (Inr c, t)"
    and q: "queue_map s (i_UUID i) = Some q" and ids: "window_ids_unique (w_db s)"
  shows "\<exists>d. decides x s q i src d \<and> c = decided_command d \<and>
    queue_map t = (queue_map s)(i_UUID i \<mapsto> stored s (decided q d)) \<and>
    counted (starts_import d) (starts_sync d) (i_Source i) (p_TargetName (q_Placement q)) (q_BatchName q) s t \<and>
    (\<exists>s'. w_db s' = w_db s \<and> only_queue s' t)"
proof -
  from run obtain tgt b sl tl d where
    t: "tb_get tgt_Name (db_targets (w_db s)) (p_TargetName (q_Placement q)) = Some tgt"
    and b: "tb_get b_Name (db_batches (w_db s)) (q_BatchName q) = Some b"
    and l: "x_vmware_limit x (src_Properties src) = Inr sl" "x_incus_limit x (tgt_Properties tgt) = Inr tl"
    and d: "worker_decision x b i q (limit_reached sl (counter_get (w_srcImports s) (src_Name src)))
          (limit_reached tl (counter_get (w_tgtImports s) (tgt_Name tgt)))
          (limit_reached (bd_SyncLimit (b_Defaults b)) (counter_get (w_batchImports s) (b_Name b)))
          (fst (get_next_window x q s)) = Inr d"
    and ap: "apply_decision i b q d s = (Inr c, t)"
    unfolding idle_step_def bindm_ok wrap_err_ok lift_ok lookup_ok attempt_next_window source_cached_imports_def
      target_cached_imports_def batch_cached_imports_def gets_ok
    by blast
  have "decides x s q i src d"
    unfolding decides_def using t b l d same_data_refl by blast
  with apply_decision_effect [OF ap q ids] tb_get_name(3) [OF b] show ?thesis by auto
qed

lemma counted_same:
  "same_data s s0 \<Longrightarrow> counted imp sync src tgt bat s0 t0 \<Longrightarrow> same_data t0 t \<Longrightarrow> counted imp sync src tgt bat s t"
  by (simp add: counted_def same_data_def)

lemma decides_same: "same_data s s0 \<Longrightarrow> decides x s0 q i src d \<Longrightarrow> decides x s q i src d"
  unfolding decides_def by (force simp: same_data_def)

text \<open>A successful call: a restart leaves everything as it is, an idle entry is moved as decided.\<close>

lemma new_worker_command_effect:
  assumes run: "new_worker_command x u s = (Inr c, t)" and ids: "window_ids_unique (w_db s)"
  shows "\<exists>q i src. queue_map s u = Some q \<and> tb_get i_UUID (db_instances (w_db s)) u = Some i \<and>
    tb_get src_Name (db_sources (w_db s)) (i_Source i) = Some src \<and> c = idle_command x i src (wk_Command c) \<and>
    (if q_MigrationStatus q \<noteq> MIGRATIONSTATUS_IDLE
     then q_LastWorkerStatus q = WORKERRESPONSE_RUNNING \<and> restart_command q = Inr (wk_Command c) \<and> same_data s t
     else \<exists>d. decides x s q (i\<lparr>i_Properties := applied_props i\<rparr>) src d \<and> wk_Command c = decided_command d \<and>
       queue_map t = (queue_map s)(u \<mapsto> stored s (decided q d)) \<and>
       counted (starts_import d) (starts_sync d) (i_Source i) (p_TargetName (q_Placement q)) (q_BatchName q) s t \<and>
       (\<exists>s'. w_db s' = w_db s \<and> only_queue s' t))"
proof -
  from tx_do_run_ok [OF run [unfolded new_worker_command_def]] obtain s0 t0 q i src cmd where
    q: "queue_map s0 u = Some q" and i: "tb_get i_UUID (db_instances (w_db s0)) u = Some i"
    and ok: "\<not> (q_MigrationStatus q \<noteq> MIGRATIONSTATUS_IDLE \<and> q_LastWorkerStatus q \<noteq> WORKERRESPONSE_RUNNING)"
    and src: "tb_get src_Name (db_sources (w_db s0)) (i_Source i) = Some src"
    and cmd: "(if q_MigrationStatus q \<noteq> MIGRATIONSTATUS_IDLE then lift (restart_command q)
              else idle_step x q (i\<lparr>i_Properties := applied_props i\<rparr>) src) s0 = (Inr cmd, t0)"
    and c: "c = idle_command x i src cmd"
    and s0: "same_data s s0" and t0: "same_data t0 t"
    unfolding bindm_ok andthen_ok wrap_err_ok lookup_ok fail_if_ok ret_ok by blast
  have wc: "wk_Command c = cmd" by (simp add: c idle_command_def Let_def)
  have db: "w_db s0 = w_db s" and qs: "queue_map s0 = queue_map s" and qt: "queue_map t = queue_map t0"
    using s0 same_data_queue [OF s0] same_data_queue [OF t0] by (simp_all add: same_data_def)
  show ?thesis
  proof (cases "q_MigrationStatus q = MIGRATIONSTATUS_IDLE")
    case False
    with cmd have "restart_command q = Inr cmd" "t0 = s0" by (simp_all add: lift_ok)
    moreover from this s0 t0 have "same_data s t" by (simp add: same_data_def)
    ultimately show ?thesis using False q i ok src c wc db qs by simp
  next
    case True
    let ?i = "i\<lparr>i_Properties := applied_props i\<rparr>"
    from True cmd have "idle_step x q ?i src s0 = (Inr cmd, t0)" by simp
    moreover have u: "i_UUID ?i = u" using tb_get_name(4) [OF i] by simp
    ultimately obtain d where d: "decides x s0 q ?i src d" "cmd = decided_command d"
      "queue_map t0 = (queue_map s0)(u \<mapsto> stored s0 (decided q d))"
      "counted (starts_import d) (starts_sync d) (i_Source ?i) (p_TargetName (q_Placement q)) (q_BatchName q) s0 t0"
      and s': "\<exists>s'. w_db s' = w_db s0 \<and> only_queue s' t0"
      using idle_step_effect [of x q ?i src s0 cmd t0] q ids db by auto
    from s' obtain s' where s': "w_db s' = w_db s" "only_queue s' t" using t0 db
      by (auto simp: only_queue_def same_data_def intro!: exI [of _ "_\<lparr>w_srcImports := _\<rparr>"])
    have "stored s0 (decided q d) = stored s (decided q d)" by (simp add: stored_def db)
    then show ?thesis
      using True q i src c wc db qs qt d decides_same [OF s0 d(1)] counted_same [OF s0 d(4) t0] s' by auto
  qed
qed

text \<open>The same, as rules for the two kinds of call.\<close>

lemma new_worker_command_cases:
  assumes "new_worker_command x u s = (Inr c, t)" and "window_ids_unique (w_db s)"
  obtains (restart) q where "queue_map s u = Some q" "q_MigrationStatus q \<noteq> MIGRATIONSTATUS_IDLE"
      "q_LastWorkerStatus q = WORKERRESPONSE_RUNNING" "restart_command q = Inr (wk_Command c)" "same_data s t"
  | (idle) q i src d s' where "queue_map s u = Some q" "q_MigrationStatus q = MIGRATIONSTATUS_IDLE"
      "tb_get i_UUID (db_instances (w_db s)) u = Some i" "tb_get src_Name (db_sources (w_db s)) (i_Source i) = Some src"
      "decides x s q (i\<lparr>i_Properties := applied_props i\<rparr>) src d" "wk_Command c = decided_command d"
      "queue_map t = (queue_map s)(u \<mapsto> stored s (decided q d))"
      "counted (starts_import d) (starts_sync d) (i_Source i) (p_TargetName (q_Placement q)) (q_BatchName q) s t"
      "w_db s' = w_db s" "only_queue s' t"
proof -
  from new_worker_command_effect [OF assms] obtain q i src where
    q: "queue_map s u = Some q" and i: "tb_get i_UUID (db_instances (w_db s)) u = Some i"
    and src: "tb_get src_Name (db_sources (w_db s)) (i_Source i) = Some src"
    and e: "if q_MigrationStatus q \<noteq> MIGRATIONSTATUS_IDLE
     then q_LastWorkerStatus q = WORKERRESPONSE_RUNNING \<and> restart_command q = Inr (wk_Command c) \<and> same_data s t
     else \<exists>d. decides x s q (i\<lparr>i_Properties := applied_props i\<rparr>) src d \<and> wk_Command c = decided_command d \<and>
       queue_map t = (queue_map s)(u \<mapsto> stored s (decided q d)) \<and>
       counted (starts_import d) (starts_sync d) (i_Source i) (p_TargetName (q_Placement q)) (q_BatchName q) s t \<and>
       (\<exists>s'. w_db s' = w_db s \<and> only_queue s' t)" by blast
  show thesis
  proof (cases "q_MigrationStatus q = MIGRATIONSTATUS_IDLE")
    case True
    with e obtain d s' where "decides x s q (i\<lparr>i_Properties := applied_props i\<rparr>) src d" "wk_Command c = decided_command d"
      "queue_map t = (queue_map s)(u \<mapsto> stored s (decided q d))"
      "counted (starts_import d) (starts_sync d) (i_Source i) (p_TargetName (q_Placement q)) (q_BatchName q) s t"
      "w_db s' = w_db s" "only_queue s' t" by auto
    with True q i src show thesis by (blast intro: idle)
  next
    case False
    with e q show thesis by (simp add: restart)
  qed
qed

end
