(* ===== verification/Scheduling.thy ===== *)
theory Scheduling
  imports Queue_Frame
begin

text \<open>
  The properties of the scheduler: commands agree with the state of the queue, limits and windows
  gate the imports, and the final phase waits for the background import. The example state at the
  end of the first section is the one the witnesses run on.
\<close>

section \<open>A daemon with one instance\<close>

definition sample_placement :: placement where
  "sample_placement = \<lparr>p_TargetName = ''t1'', p_TargetProject = ''default'',
     p_StoragePools = fmupd ''disk-1'' ''pool'' fmempty, p_Networks = Some fmempty, p_Running = True\<rparr>"

definition sample_entry :: queue_entry where
  "sample_entry = \<lparr>q_ID = 1, q_InstanceUUID = 7, q_BatchName = ''b1'', q_SecretToken = 5,
     q_ImportStage = IMPORTSTAGE_BACKGROUND, q_MigrationStatus = MIGRATIONSTATUS_IDLE,
     q_MigrationStatusMessage = ''Waiting for worker to connect'', q_LastWorkerStatus = WORKERRESPONSE_UNKNOWN,
     q_LastBackgroundSync = 0, q_MigrationWindowName = None, q_Placement = sample_placement\<rparr>"

definition sample_source :: source where
  "sample_source = \<lparr>src_ID = 1, src_Name = ''src'', src_SourceType = SOURCETYPE_VMWARE, src_Properties = ''limit 1''\<rparr>"

definition sample_target :: target where
  "sample_target = \<lparr>tgt_ID = 1, tgt_Name = ''t1'', tgt_TargetType = TARGETTYPE_INCUS, tgt_Properties = ''limit 1''\<rparr>"

definition sample_db :: "windows \<Rightarrow> queue_entry \<Rightarrow> db" where
  "sample_db ws q = \<lparr>db_seq = 10, db_sources = [sample_source], db_targets = [sample_target],
     db_instances = [sample_inst], db_batches = [sample_batch\<lparr>b_Status := BATCHSTATUS_RUNNING\<rparr>],
     db_assigned = [(''b1'', 7)], db_windows = ws, db_networks = [sample_net],
     db_queue = [\<lparr>qr_Entry = q, qr_Window = None\<rparr>], db_warnings = [], db_artifacts = []\<rparr>"

definition sample_world :: "windows \<Rightarrow> queue_entry \<Rightarrow> world" where
  "sample_world ws q = \<lparr>w_db = sample_db ws q, w_intx = False, w_srcImports = Map.empty, w_tgtImports = Map.empty, w_tgtCreations = Map.empty,
     w_batchImports = Map.empty, w_retries = Map.empty, w_lastUpdate = Map.empty\<rparr>"

lemma sample_ids [simp]: "window_ids_unique (w_db (sample_world ws q)) \<longleftrightarrow> distinct (map w_ID ws)"
  by (simp add: window_ids_unique_def sample_world_def sample_db_def)

lemma sample_lookups [simp]:
  "tb_get i_UUID (db_instances (w_db (sample_world ws q))) 7 = Some sample_inst"
  "tb_get src_Name (db_sources (w_db (sample_world ws q))) ''src'' = Some sample_source"
  "tb_get tgt_Name (db_targets (w_db (sample_world ws q))) ''t1'' = Some sample_target"
  "tb_get b_Name (db_batches (w_db (sample_world ws q))) ''b1'' = Some (sample_batch\<lparr>b_Status := BATCHSTATUS_RUNNING\<rparr>)"
  "counter_get (w_srcImports (sample_world ws q)) n = 0" "counter_get (w_tgtImports (sample_world ws q)) n = 0"
  "counter_get (w_batchImports (sample_world ws q)) n = 0"
  by (simp_all add: sample_world_def sample_db_def sample_inst_def sample_source_def sample_target_def sample_batch_def
      tb_get_def counter_get_def cache_read_def)

lemma sample_queue [simp]:
  assumes "q_InstanceUUID q = 7" "q_MigrationWindowName q = None"
  shows "queue_map (sample_world ws q) 7 = Some q"
  using assms by (simp add: queue_map_def queue_lookup_def sample_world_def sample_db_def tb_get_def read_queue_row_def)

lemma sample_intx [simp]: "w_intx (sample_world ws q) = False"
  by (simp add: sample_world_def)

lemma queue_map_other [simp]:
  "queue_map (s\<lparr>w_intx := b\<rparr>) = queue_map s" "queue_map (s\<lparr>w_srcImports := c\<rparr>) = queue_map s"
  "queue_map (s\<lparr>w_tgtImports := c\<rparr>) = queue_map s" "queue_map (s\<lparr>w_batchImports := c\<rparr>) = queue_map s"
  by (simp_all add: queue_map_def fun_eq_iff)

lemma sample_fields [simp]:
  "i_Source sample_inst = ''src''" "i_UUID sample_inst = 7" "src_Properties sample_source = ''limit 1''"
  "tgt_Properties sample_target = ''limit 1''" "src_Name sample_source = ''src''" "tgt_Name sample_target = ''t1''"
  "p_TargetName sample_placement = ''t1''" "b_Name sample_batch = ''b1''" "bd_SyncLimit (b_Defaults sample_batch) = 0"
  "q_InstanceUUID sample_entry = 7" "q_MigrationWindowName sample_entry = None" "q_BatchName sample_entry = ''b1''"
  "q_MigrationStatus sample_entry = MIGRATIONSTATUS_IDLE" "q_ImportStage sample_entry = IMPORTSTAGE_BACKGROUND"
  "q_Placement sample_entry = sample_placement" "q_LastBackgroundSync sample_entry = 0"
  "q_MigrationStatusMessage sample_entry = ''Waiting for worker to connect''"
  by (simp_all add: sample_inst_def sample_source_def sample_target_def sample_placement_def sample_batch_def sample_entry_def)

lemma sample_row [simp]:
  "q_InstanceUUID q = 7 \<Longrightarrow> tb_get qr_key (db_queue (w_db (sample_world ws q))) 7 = Some \<lparr>qr_Entry = q, qr_Window = None\<rparr>"
  by (simp add: sample_world_def sample_db_def tb_get_def)

text \<open>To run an operation that succeeds: what each part returns, as equations for the simplifier.\<close>

lemmas ok_run = tx_do_ok bindm_ok andthen_ok wrap_err_ok lookup_ok fail_if_ok fail_on_ok ret_ok lift_ok gets_ok
  modify_ok dbget_ok dbmod_ok found_ok attempt_next_window queue_repo_get_ok
  source_cached_imports_def target_cached_imports_def batch_cached_imports_def source_record_import_def
  target_record_import_def batch_record_import_def source_remove_import_def target_remove_import_def batch_remove_import_def

lemma sample_supports [simp]: "supports_background_import (applied_props sample_inst) = True"
  by (simp add: supports_background_import_def sample_defs)

text \<open>Its first command: the entry is idle and nothing is imported yet.\<close>

lemma sample_first_command:
  assumes "distinct (map w_ID ws)"
  shows "\<exists>c t. new_worker_command plain_ext 7 (sample_world ws sample_entry) = (Inr c, t) \<and>
    wk_Command c = WORKERCOMMAND_IMPORT_DISKS"
  using assms
  by (simp add: new_worker_command_def idle_step_def ok_run worker_decision_def Let_def limit_reached_def queue_repo_update_ok
     apply_decision_def queue_update_status_def idle_command_def)

section \<open>Commands and the queue\<close>

fun command_status :: "worker_command_type \<Rightarrow> migration_status" where
  "command_status WORKERCOMMAND_IMPORT_DISKS = MIGRATIONSTATUS_BACKGROUND_IMPORT"
| "command_status WORKERCOMMAND_FINALIZE_IMPORT = MIGRATIONSTATUS_FINAL_IMPORT"
| "command_status WORKERCOMMAND_POST_IMPORT = MIGRATIONSTATUS_POST_IMPORT"
| "command_status _ = MIGRATIONSTATUS_IDLE"

text \<open>The decisions there are, with what each one rests on.\<close>

abbreviation sync_decision :: "queue_entry \<Rightarrow> decision" where
  "sync_decision q \<equiv> Move WORKERCOMMAND_IMPORT_DISKS MIGRATIONSTATUS_BACKGROUND_IMPORT
     (migration_status_string MIGRATIONSTATUS_BACKGROUND_IMPORT) IMPORTSTAGE_BACKGROUND (get_window_name q)"

abbreviation hold_decision :: "queue_entry \<Rightarrow> decision" where
  "hold_decision q \<equiv> Move WORKERCOMMAND_IDLE (q_MigrationStatus q) waiting_import (q_ImportStage q) (get_window_name q)"

lemma wait_decision_cases:
  "wait_decision x b i q lim3 w = NoChange \<or> (\<exists>m. wait_decision x b i q lim3 w = SetMessage m) \<or>
   wait_decision x b i q lim3 w = hold_decision q \<or>
   wait_decision x b i q lim3 w = sync_decision q \<and> \<not> lim3 \<and> q_ImportStage q = IMPORTSTAGE_FINAL"
  by (simp only: wait_decision_def split: if_split) blast

lemma worker_decision_cases:
  assumes "worker_decision x b i q l1 l2 l3 nw = Inr d"
  obtains (nothing) "d = NoChange" | (message) m where "d = SetMessage m" | (hold) "d = hold_decision q"
  | (sync) "\<not> l1" "\<not> l2" "\<not> l3" "q_ImportStage q = IMPORTSTAGE_BACKGROUND \<or> q_ImportStage q = IMPORTSTAGE_FINAL"
      "d = sync_decision q"
  | (go) w where "\<not> l1" "\<not> l2" "nw = Inr w" "window_begun (x_now x) w" "d = begin_decision q w"
      "\<not> (q_ImportStage q = IMPORTSTAGE_BACKGROUND \<and> supports_background_import (i_Properties i))"
proof -
  let ?sync = "q_ImportStage q = IMPORTSTAGE_BACKGROUND \<and> supports_background_import (i_Properties i)"
  have wait: thesis if "\<not> l1" "\<not> l2" "d = wait_decision x b i q l3 w" for w
    using wait_decision_cases [of x b i q l3 w] unfolding that(3) [symmetric]
  proof (elim disjE exE)
    assume "d = sync_decision q \<and> \<not> l3 \<and> q_ImportStage q = IMPORTSTAGE_FINAL"
    with that(1,2) show thesis by (intro sync) simp_all
  qed (fact nothing, fact message, fact hold)
  consider "l2 \<or> l1 \<or> ?sync \<and> l3" | "\<not> l1" "\<not> l2" "\<not> l3" ?sync | "\<not> l1" "\<not> l2" "\<not> ?sync" by blast
  then show thesis
  proof cases
    case 1
    with assms have "d = hold_decision q" by (simp add: worker_decision_def Let_def)
    then show thesis by (rule hold)
  next
    case 2
    with assms have "d = sync_decision q" by (simp add: worker_decision_def Let_def)
    with 2 show thesis by (intro sync) simp_all
  next
    case 3
    show thesis
    proof (cases nw)
      case (Inl e)
      with assms 3 have d: "d = wait_decision x b i q l3 None"
        by (simp only: worker_decision_def Let_def if_False simp_thms sum.case split: if_splits) simp_all
      show thesis by (rule wait [OF 3(1,2) d])
    next
      case (Inr w)
      with assms 3 have d: "d = (if window_begun (x_now x) w then begin_decision q w else wait_decision x b i q l3 (Some w))"
        by (simp only: worker_decision_def Let_def if_False simp_thms sum.case split: if_splits) simp_all
      show thesis
      proof (cases "window_begun (x_now x) w")
        case True
        with d have "d = begin_decision q w" by simp
        from go [OF 3(1,2) Inr True this 3(3)] show thesis .
      next
        case False
        with d have "d = wait_decision x b i q l3 (Some w)" by simp
        from wait [OF 3(1,2) this] show thesis .
      qed
    qed
  qed
qed

lemma begin_decision_command:
  "begin_decision q w = (if q_ImportStage q \<noteq> IMPORTSTAGE_COMPLETE
     then Move WORKERCOMMAND_FINALIZE_IMPORT MIGRATIONSTATUS_FINAL_IMPORT
       (migration_status_string MIGRATIONSTATUS_FINAL_IMPORT) (q_ImportStage q)
       (if window_is_empty w then get_window_name q else Some (w_Name w))
     else Move WORKERCOMMAND_POST_IMPORT MIGRATIONSTATUS_POST_IMPORT
       (migration_status_string MIGRATIONSTATUS_POST_IMPORT) (q_ImportStage q)
       (if window_is_empty w then get_window_name q else Some (w_Name w)))"
  by (simp add: begin_decision_def Let_def)

lemma worker_decision_status:
  assumes "worker_decision x b i q srcLim tgtLim syncLim nw = Inr d" and "q_MigrationStatus q = MIGRATIONSTATUS_IDLE"
  shows "q_MigrationStatus (decided q d) = command_status (decided_command d)"
  using assms(1) by (rule worker_decision_cases) (simp_all add: assms(2) begin_decision_command)

lemma decides_status:
  "decides x s q i src d \<Longrightarrow> q_MigrationStatus q = MIGRATIONSTATUS_IDLE \<Longrightarrow>
   q_MigrationStatus (decided q d) = command_status (decided_command d)"
  by (auto simp: decides_def intro: worker_decision_status)

lemma stored_fields [simp]:
  "q_MigrationStatus (stored s q) = q_MigrationStatus q" "q_ImportStage (stored s q) = q_ImportStage q"
  "q_Placement (stored s q) = q_Placement q" "q_BatchName (stored s q) = q_BatchName q"
  "q_InstanceUUID (stored s q) = q_InstanceUUID q" "q_SecretToken (stored s q) = q_SecretToken q"
  "q_MigrationStatusMessage (stored s q) = q_MigrationStatusMessage q"
  "q_LastBackgroundSync (stored s q) = q_LastBackgroundSync q"
  by (simp_all add: stored_def)

lemma restart_status: "restart_command q = Inr c \<Longrightarrow> q_MigrationStatus q = command_status c"
  by (auto simp: restart_command_def split: migration_status.splits)

text \<open>
  C6: Whenever a worker is given a command, the instance's queue entry has the status that belongs
  to that command, and no other entry of the queue has changed.
\<close>

theorem command_matches_status:
  assumes "new_worker_command x u s = (Inr c, t)" and "window_ids_unique (w_db s)"
  shows "\<exists>q. queue_map t = (queue_map s)(u \<mapsto> q) \<and> q_MigrationStatus q = command_status (wk_Command c)"
  using assms
proof (cases rule: new_worker_command_cases)
  case (restart q)
  then show ?thesis using restart_status same_data_queue [of s t] by (intro exI [of _ q]) (auto simp: map_upd_triv)
next
  case (idle q i src d s')
  then show ?thesis using decides_status [OF idle(5) idle(2)]
    by (intro exI [of _ "stored s (decided q d)"]) simp
qed

theorem command_matches_status_witness:
  "\<exists>c t q. new_worker_command plain_ext 7 (sample_world [] sample_entry) = (Inr c, t) \<and>
     queue_map t = (queue_map (sample_world [] sample_entry))(7 \<mapsto> q) \<and>
     q_MigrationStatus q = MIGRATIONSTATUS_BACKGROUND_IMPORT"
proof -
  obtain c t where run: "new_worker_command plain_ext 7 (sample_world [] sample_entry) = (Inr c, t)"
    and c: "wk_Command c = WORKERCOMMAND_IMPORT_DISKS" using sample_first_command [of "[]"] by auto
  from command_matches_status [OF run] run c show ?thesis by auto
qed

lemma counter_get_record [simp]: "counter_get (counter_record k c) k = counter_get c k + 1"
  by (simp add: counter_get_def counter_record_def cache_write_def cache_read_def count_up_def)

lemma decides_starts:
  assumes d: "decides x s q i src d" and cmd: "decided_command d = WORKERCOMMAND_IMPORT_DISKS \<or> decided_command d = WORKERCOMMAND_FINALIZE_IMPORT"
    and q: "q_MigrationStatus q = MIGRATIONSTATUS_IDLE"
    and lims: "tb_get tgt_Name (db_targets (w_db s)) (p_TargetName (q_Placement q)) = Some tgt"
      "tb_get b_Name (db_batches (w_db s)) (q_BatchName q) = Some b"
      "x_vmware_limit x (src_Properties src) = Inr sLim" "x_incus_limit x (tgt_Properties tgt) = Inr tLim"
  shows "\<not> limit_reached sLim (counter_get (w_srcImports s) (src_Name src))"
    "\<not> limit_reached tLim (counter_get (w_tgtImports s) (tgt_Name tgt))"
    "decided_command d = WORKERCOMMAND_IMPORT_DISKS \<Longrightarrow>
       \<not> limit_reached (bd_SyncLimit (b_Defaults b)) (counter_get (w_batchImports s) (b_Name b))"
    "starts_import d" "starts_sync d \<longleftrightarrow> decided_command d = WORKERCOMMAND_IMPORT_DISKS"
proof -
  from d lims obtain nw where w: "worker_decision x b i q (limit_reached sLim (counter_get (w_srcImports s) (src_Name src)))
          (limit_reached tLim (counter_get (w_tgtImports s) (tgt_Name tgt)))
          (limit_reached (bd_SyncLimit (b_Defaults b)) (counter_get (w_batchImports s) (b_Name b))) nw = Inr d"
    by (auto simp: decides_def)
  let ?sync = "decided_command d = WORKERCOMMAND_IMPORT_DISKS"
  from w have "\<not> limit_reached sLim (counter_get (w_srcImports s) (src_Name src)) \<and>
    \<not> limit_reached tLim (counter_get (w_tgtImports s) (tgt_Name tgt)) \<and>
    (?sync \<longrightarrow> \<not> limit_reached (bd_SyncLimit (b_Defaults b)) (counter_get (w_batchImports s) (b_Name b))) \<and>
    starts_import d \<and> (starts_sync d \<longleftrightarrow> ?sync)"
  proof (cases rule: worker_decision_cases)
    case sync
    then show ?thesis by simp
  next
    case (go v)
    with cmd show ?thesis by (simp add: begin_decision_command split: if_splits)
  qed (use cmd q in simp_all)
  then show "\<not> limit_reached sLim (counter_get (w_srcImports s) (src_Name src))"
    "\<not> limit_reached tLim (counter_get (w_tgtImports s) (tgt_Name tgt))"
    "?sync \<Longrightarrow> \<not> limit_reached (bd_SyncLimit (b_Defaults b)) (counter_get (w_batchImports s) (b_Name b))"
    "starts_import d" "starts_sync d \<longleftrightarrow> ?sync" by simp_all
qed

text \<open>
  C4: An idle entry is told to import only while neither its source nor its target (nor, for the
  background import, its batch) is at its limit, and the counters of exactly these go up by one.
\<close>

theorem limits_respected:
  assumes "new_worker_command x u s = (Inr c, t)" and "window_ids_unique (w_db s)"
    and q: "queue_map s u = Some q" "q_MigrationStatus q = MIGRATIONSTATUS_IDLE"
    and i: "tb_get i_UUID (db_instances (w_db s)) u = Some i"
    and src: "tb_get src_Name (db_sources (w_db s)) (i_Source i) = Some src" "x_vmware_limit x (src_Properties src) = Inr sLim"
    and tgt: "tb_get tgt_Name (db_targets (w_db s)) (p_TargetName (q_Placement q)) = Some tgt"
      "x_incus_limit x (tgt_Properties tgt) = Inr tLim"
    and b: "tb_get b_Name (db_batches (w_db s)) (q_BatchName q) = Some b"
    and cmd: "wk_Command c = WORKERCOMMAND_IMPORT_DISKS \<or> wk_Command c = WORKERCOMMAND_FINALIZE_IMPORT"
  shows "\<not> limit_reached sLim (counter_get (w_srcImports s) (i_Source i)) \<and>
    \<not> limit_reached tLim (counter_get (w_tgtImports s) (tgt_Name tgt)) \<and>
    \<not> (wk_Command c = WORKERCOMMAND_IMPORT_DISKS \<and>
        limit_reached (bd_SyncLimit (b_Defaults b)) (counter_get (w_batchImports s) (b_Name b))) \<and>
    counter_get (w_srcImports t) (i_Source i) = counter_get (w_srcImports s) (i_Source i) + 1 \<and>
    counter_get (w_tgtImports t) (tgt_Name tgt) = counter_get (w_tgtImports s) (tgt_Name tgt) + 1 \<and>
    counter_get (w_batchImports t) (b_Name b) = counter_get (w_batchImports s) (b_Name b) +
      (if wk_Command c = WORKERCOMMAND_IMPORT_DISKS then 1 else 0)"
  using assms(1,2)
proof (cases rule: new_worker_command_cases)
  case (restart q')
  with q show ?thesis by simp
next
  case (idle q' i' src' d s')
  with q i src have same: "q' = q" "i' = i" "src' = src" by simp_all
  note names = tb_get_name(1) [OF src(1)] tb_get_name(2) [OF tgt(1)] tb_get_name(3) [OF b]
  from decides_starts [OF idle(5) _ idle(2)] cmd idle(6) src tgt b same
  have "\<not> limit_reached sLim (counter_get (w_srcImports s) (src_Name src))"
    "\<not> limit_reached tLim (counter_get (w_tgtImports s) (tgt_Name tgt))"
    "decided_command d = WORKERCOMMAND_IMPORT_DISKS \<Longrightarrow>
       \<not> limit_reached (bd_SyncLimit (b_Defaults b)) (counter_get (w_batchImports s) (b_Name b))"
    "starts_import d" "starts_sync d \<longleftrightarrow> decided_command d = WORKERCOMMAND_IMPORT_DISKS" by auto
  with idle(6,8) names same show ?thesis by (auto simp: counted_def)
qed

theorem limits_respected_witness:
  "\<exists>c t. new_worker_command plain_ext 7 (sample_world [] sample_entry) = (Inr c, t) \<and>
     counter_get (w_srcImports t) ''src'' = 1 \<and> counter_get (w_tgtImports t) ''t1'' = 1 \<and>
     counter_get (w_batchImports t) ''b1'' = 1"
proof -
  obtain c t where run: "new_worker_command plain_ext 7 (sample_world [] sample_entry) = (Inr c, t)"
    and c: "wk_Command c = WORKERCOMMAND_IMPORT_DISKS" using sample_first_command [of "[]"] by auto
  from limits_respected [OF run, of sample_entry sample_inst sample_source 1 sample_target 1
      "sample_batch\<lparr>b_Status := BATCHSTATUS_RUNNING\<rparr>"] run c
  show ?thesis by auto
qed

section \<open>Windows gate the final phase\<close>

text \<open>What \<open>GetNextWindow\<close> can return for an entry of batch \<open>b\<close>.\<close>

definition offered :: "ext \<Rightarrow> world \<Rightarrow> queue_entry \<Rightarrow> window \<Rightarrow> bool" where
  "offered x s q w \<longleftrightarrow>
     (\<exists>b. tb_get b_Name (db_batches (w_db s)) (q_BatchName q) = Some b \<and>
        choose_window x b (window_entries (w_db s) (q_BatchName q))
          (entry_instances (w_db s) (window_entries (w_db s) (q_BatchName q)))
          (windows_by_batch (w_db s) (q_BatchName q)) (queue_select (\<lambda>_. True) (w_db s)) q = Inr w)"

lemma next_window_offered:
  assumes "fst (get_next_window x q s0) = Inr w" "same_data s s0"
  shows "offered x s q w"
  using get_next_window_ok [of x q s0 w "snd (get_next_window x q s0)"] assms
  by (cases "get_next_window x q s0") (auto simp: offered_def same_data_def)

lemma worker_decision_final:
  assumes "worker_decision x b i q l1 l2 l3 nw = Inr d"
    and cmd: "decided_command d = WORKERCOMMAND_FINALIZE_IMPORT \<or> decided_command d = WORKERCOMMAND_POST_IMPORT"
  shows "\<exists>w. nw = Inr w \<and> window_begun (x_now x) w \<and> d = begin_decision q w \<and>
    \<not> (q_ImportStage q = IMPORTSTAGE_BACKGROUND \<and> supports_background_import (i_Properties i))"
  using assms(1) by (rule worker_decision_cases) (use cmd in auto)

lemma decides_final:
  assumes d: "decides x s q i src d" and q: "q_MigrationStatus q = MIGRATIONSTATUS_IDLE"
    and cmd: "decided_command d = WORKERCOMMAND_FINALIZE_IMPORT \<or> decided_command d = WORKERCOMMAND_POST_IMPORT"
  obtains w where "offered x s q w" "window_begun (x_now x) w" "d = begin_decision q w"
    "\<not> (q_ImportStage q = IMPORTSTAGE_BACKGROUND \<and> supports_background_import (i_Properties i))"
proof -
  from d obtain s0 l1 l2 l3 where s0: "same_data s s0"
    and w: "worker_decision x l1 i q l2 l3 (limit_reached (bd_SyncLimit (b_Defaults l1)) (counter_get (w_batchImports s) (b_Name l1)))
       (fst (get_next_window x q s0)) = Inr d"
    unfolding decides_def by blast
  from worker_decision_final [OF w cmd] obtain v where v: "fst (get_next_window x q s0) = Inr v" "window_begun (x_now x) v" "d = begin_decision q v"
    "\<not> (q_ImportStage q = IMPORTSTAGE_BACKGROUND \<and> supports_background_import (i_Properties i))"
    by blast
  show thesis by (rule that [OF next_window_offered [OF v(1) s0] v(2-4)])
qed

text \<open>
  C5: The final import and the post-import tasks of an idle entry begin only in a window that
  \<open>GetNextWindow\<close> offers and that has begun; the final import is begun exactly while the import is
  not complete; and an instance with background import is never cut over from the background stage,
  i.e. before a first synchronisation has succeeded.
\<close>

theorem final_phase_gated:
  assumes "new_worker_command x u s = (Inr c, t)" and "window_ids_unique (w_db s)"
    and q: "queue_map s u = Some q" "q_MigrationStatus q = MIGRATIONSTATUS_IDLE"
    and i: "tb_get i_UUID (db_instances (w_db s)) u = Some i"
    and cmd: "wk_Command c = WORKERCOMMAND_FINALIZE_IMPORT \<or> wk_Command c = WORKERCOMMAND_POST_IMPORT"
  shows "(\<exists>w. offered x s q w \<and> window_begun (x_now x) w) \<and>
    (wk_Command c = WORKERCOMMAND_POST_IMPORT \<longleftrightarrow> q_ImportStage q = IMPORTSTAGE_COMPLETE) \<and>
    \<not> (q_ImportStage q = IMPORTSTAGE_BACKGROUND \<and> supports_background_import (applied_props i))"
  using assms(1,2)
proof (cases rule: new_worker_command_cases)
  case (restart q')
  with q show ?thesis by simp
next
  case (idle q' i' src d s')
  with q i have same: "q' = q" "i' = i" by simp_all
  from decides_final [OF idle(5,2)] cmd idle(6) same obtain w where
    w: "offered x s q w" "window_begun (x_now x) w" "d = begin_decision q w"
    "\<not> (q_ImportStage q = IMPORTSTAGE_BACKGROUND \<and> supports_background_import (applied_props i))" by auto
  then have "wk_Command c = WORKERCOMMAND_POST_IMPORT \<longleftrightarrow> q_ImportStage q = IMPORTSTAGE_COMPLETE"
    using idle(6) by (simp add: begin_decision_def Let_def)
  with w show ?thesis by blast
qed

text \<open>An entry that has been synced, and the window it waits for.\<close>

definition synced_entry :: queue_entry where
  "synced_entry = sample_entry\<lparr>q_ImportStage := IMPORTSTAGE_FINAL, q_LastBackgroundSync := 900\<rparr>"

lemma synced_fields [simp]:
  "q_InstanceUUID synced_entry = 7" "q_MigrationWindowName synced_entry = None" "q_BatchName synced_entry = ''b1''"
  "q_MigrationStatus synced_entry = MIGRATIONSTATUS_IDLE" "q_ImportStage synced_entry = IMPORTSTAGE_FINAL"
  "q_Placement synced_entry = sample_placement"
  by (simp_all add: synced_entry_def)

lemma empty_window_begun [simp]: "window_begun now empty_window" "window_is_empty empty_window"
  by (simp_all add: window_begun_def window_is_empty_def empty_window_def time_is_zero_def)

lemma sample_no_constraints [simp]: "b_Constraints sample_batch = []"
  by (simp add: sample_batch_def)

lemma sample_windows [simp]: "windows_by_batch (w_db (sample_world ws q)) b = sort_key w_Start (filter (\<lambda>w. w_Batch w = b) ws)"
  by (simp add: windows_by_batch_def sample_world_def sample_db_def)

lemma sample_window_entries [simp]:
  "window_entries (w_db (sample_world ws q)) ''b1'' =
     (if q_BatchName q = ''b1'' \<and> q_MigrationStatus q \<in> set window_statuses
      then [q\<lparr>q_MigrationWindowName := None\<rparr>] else [])"
  by (simp add: window_entries_def queue_select_def sample_world_def sample_db_def read_queue_row_def)

lemma synced_next_window:
  "fst (get_next_window plain_ext synced_entry ((sample_world [] synced_entry)\<lparr>w_intx := True\<rparr>)) = Inr empty_window"
proof -
  have "get_next_window plain_ext synced_entry ((sample_world [] synced_entry)\<lparr>w_intx := True\<rparr>) =
      (Inr empty_window, (sample_world [] synced_entry)\<lparr>w_intx := True\<rparr>)"
    by (simp add: get_next_window_ok choose_window_def get_earliest_def split: option.split)
  then show ?thesis by simp
qed

lemma synced_command:
  "\<exists>c t. new_worker_command plain_ext 7 (sample_world [] synced_entry) = (Inr c, t) \<and>
    wk_Command c = WORKERCOMMAND_FINALIZE_IMPORT"
  by (simp add: new_worker_command_def idle_step_def ok_run worker_decision_def Let_def limit_reached_def queue_repo_update_ok
     apply_decision_def queue_update_status_def idle_command_def synced_next_window begin_decision_def)

theorem final_phase_gated_witness:
  "\<not> (q_ImportStage synced_entry = IMPORTSTAGE_BACKGROUND \<and> supports_background_import (applied_props sample_inst))"
proof -
  obtain c t where run: "new_worker_command plain_ext 7 (sample_world [] synced_entry) = (Inr c, t)"
    and c: "wk_Command c = WORKERCOMMAND_FINALIZE_IMPORT" using synced_command by auto
  from final_phase_gated [OF run, of synced_entry sample_inst] c show ?thesis by auto
qed

section \<open>The choice of a window\<close>

lemma get_earliest_member:
  "get_earliest x ws m = Inr w \<Longrightarrow> ws = [] \<and> w = empty_window \<or> w \<in> set ws \<and> fits_duration x w m"
  using earliest_from_Some [of x m None ws w] by (auto simp: get_earliest_def split: if_splits option.splits)

lemma fits_not_ended: "fits_duration x w m \<Longrightarrow> \<not> window_ended (x_now x) w"
  by (auto simp: fits_duration_def window_locked_def split: if_splits)

lemma choose_window_cases:
  assumes "choose_window x b entries insts ws alls q = Inr w"
  shows "(w \<in> set ws \<and> window_open alls q w \<and> get_window_name q = Some (w_Name w) \<and> \<not> window_ended (x_now x) w) \<or>
    (\<exists>m. get_earliest x (filter (window_open alls q) ws) m = Inr w)"
proof (cases "case get_window_name q of None \<Rightarrow> None
    | Some n \<Rightarrow> find (\<lambda>w. w_Name w = n \<and> \<not> window_ended (x_now x) w) (filter (window_open alls q) ws)")
  case (Some v)
  with assms have "w = v" by (simp add: choose_window_def)
  with Some show ?thesis by (auto split: option.splits dest: find_SomeD)
next
  case None
  from assms [unfolded choose_window_def Let_def None] show ?thesis
    by (auto split: sum.splits option.splits if_splits)
qed

text \<open>
  C7: A window chosen for an entry is one of its batch's windows that has capacity left or is
  already the entry's own, and it has not ended; only if no window is open at all it is the empty
  window.
\<close>

theorem chosen_window_open:
  assumes "choose_window x b entries insts ws alls q = Inr w"
  shows "w \<in> set ws \<and> window_open alls q w \<and> \<not> window_ended (x_now x) w \<or>
    w = empty_window \<and> filter (window_open alls q) ws = []"
  using choose_window_cases [OF assms] get_earliest_member [of x "filter (window_open alls q) ws" _ w]
    fits_not_ended [of x w]
  by (auto simp: filter_empty_conv)

definition open_window :: window where
  "open_window = empty_window\<lparr>w_ID := 3, w_Name := ''night'', w_Batch := ''b1'', w_Start := 500\<rparr>"

theorem chosen_window_open_witness:
  "open_window \<in> set [open_window] \<and> window_open [] synced_entry open_window \<and> \<not> window_ended 1000 open_window"
proof -
  have "choose_window plain_ext sample_batch [] [] [open_window] [] (synced_entry\<lparr>q_MigrationWindowName := Some ''night''\<rparr>)
      = Inr open_window"
    by (simp add: choose_window_def window_open_def open_window_def empty_window_def window_ended_def time_is_zero_def)
  from chosen_window_open [OF this] show ?thesis
    by (auto simp: open_window_def empty_window_def window_open_def)
qed

text \<open>
  C8: An entry keeps its window: while the window it was assigned exists, has a name of its own in
  the batch and has not ended, that window is chosen again, whatever the capacity in use, the
  constraints and the other windows are.
\<close>

theorem assigned_window_kept:
  assumes "w \<in> set ws" and "distinct (map w_Name ws)" and "get_window_name q = Some (w_Name w)"
    and "\<not> window_ended (x_now x) w"
  shows "choose_window x b entries insts ws alls q = Inr w"
proof -
  let ?ws = "filter (window_open alls q) ws"
  have "w \<in> set ?ws" using assms by (simp add: window_open_def)
  moreover have "distinct (map w_Name ?ws)" using assms(2) by (simp add: distinct_map_filter)
  ultimately have "find (\<lambda>v. w_Name v = w_Name w \<and> \<not> window_ended (x_now x) v) ?ws = Some w"
    using assms(4) by (auto intro: find_key_unique_such [where P = "\<lambda>v. \<not> window_ended (x_now x) v"])
  with assms(3) show ?thesis by (simp add: choose_window_def)
qed

theorem assigned_window_kept_witness:
  "choose_window plain_ext sample_batch [] [] [open_window\<lparr>w_Name := ''early'', w_Start := 100\<rparr>, open_window] []
     (synced_entry\<lparr>q_MigrationWindowName := Some ''night''\<rparr>) = Inr open_window"
  by (rule assigned_window_kept) (simp_all add: open_window_def empty_window_def window_ended_def time_is_zero_def)

text \<open>
  When every window of the batch is at capacity, an entry that no constraint holds back does not
  wait: the filtered list is empty, \<open>GetEarliest\<close> answers with the empty window as it does for a
  batch without windows, the empty window counts as begun, and the final import is ordered at once,
  outside every window.
\<close>

theorem full_windows_start_now:
  assumes "filter (window_open alls q) ws = []" and "b_Constraints b = []"
    and "q_ImportStage q = IMPORTSTAGE_FINAL"
  shows "choose_window x b entries insts ws alls q = Inr empty_window \<and>
    (\<exists>d. worker_decision x b i q False False syncLimit (choose_window x b entries insts ws alls q) = Inr d \<and>
       decided_command d = WORKERCOMMAND_FINALIZE_IMPORT \<and>
       q_MigrationWindowName (decided q d) = q_MigrationWindowName q)"
proof -
  have none: "(case get_window_name q of None \<Rightarrow> None
    | Some n \<Rightarrow> find (\<lambda>w. w_Name w = n \<and> \<not> window_ended (x_now x) w) (filter (window_open alls q) ws)) = None"
    by (simp add: assms(1) split: option.split)
  have "choose_window x b entries insts ws alls q = Inr empty_window"
    unfolding choose_window_def Let_def none by (simp add: assms get_earliest_def split: option.split)
  then show ?thesis
    using assms(3) by (simp add: worker_decision_def begin_decision_def Let_def)
qed

theorem full_windows_start_now_witness:
  "\<exists>d. worker_decision plain_ext sample_batch sample_inst synced_entry False False False
      (choose_window plain_ext sample_batch [] []
         [open_window\<lparr>w_Start := 5000, w_Config := (w_Config open_window)\<lparr>wc_Capacity := 1\<rparr>\<rparr>]
         [synced_entry\<lparr>q_InstanceUUID := 8, q_MigrationWindowName := Some ''night''\<rparr>] synced_entry) = Inr d \<and>
     decided_command d = WORKERCOMMAND_FINALIZE_IMPORT"
proof -
  have "filter (window_open [synced_entry\<lparr>q_InstanceUUID := 8, q_MigrationWindowName := Some ''night''\<rparr>] synced_entry)
      [open_window\<lparr>w_Start := 5000, w_Config := (w_Config open_window)\<lparr>wc_Capacity := 1\<rparr>\<rparr>] = []"
    by (simp add: window_open_def windows_in_use_def open_window_def)
  from full_windows_start_now [OF this sample_no_constraints, of plain_ext "[]" "[]" sample_inst False]
  show ?thesis by auto
qed

end
