(* ===== verification/Reporting.thy ===== *)
theory Reporting
  imports Scheduling
begin

text \<open>
  The reaction to a worker's report, cancel and retry, and deletion: the effect of each on the queue
  and the counters.
\<close>

section \<open>Effects\<close>

text \<open>The counters after an import has been given back.\<close>

definition released :: "bool \<Rightarrow> bool \<Rightarrow> string \<Rightarrow> string \<Rightarrow> string \<Rightarrow> world \<Rightarrow> world \<Rightarrow> bool" where
  "released imp sync src tgt bat s t \<longleftrightarrow>
     w_srcImports t = (if imp then counter_remove src (w_srcImports s) else w_srcImports s) \<and>
     w_tgtImports t = (if imp then counter_remove tgt (w_tgtImports s) else w_tgtImports s) \<and>
     w_batchImports t = (if sync then counter_remove bat (w_batchImports s) else w_batchImports s)"

lemma queue_repo_update_same_window:
  assumes up: "queue_repo_update q' s = (Inr v, t)" and ids: "window_ids_unique (w_db s)"
    and q: "queue_map s u = Some q" "q_InstanceUUID q' = u" "q_ID q' = q_ID q"
  shows "queue_map t = (queue_map s)(u \<mapsto> stored s q')" "only_queue s t"
proof -
  from queue_repo_update_map [OF up] q show "queue_map t = (queue_map s)(u \<mapsto> stored s q')"
    by (auto simp: stored_def)
  show "only_queue s t" by (rule queue_repo_update_only [OF up])
qed

lemma stored_window:
  assumes "window_ids_unique (w_db s)" and "queue_map s u = Some q" and same: "q_MigrationWindowName q' = q_MigrationWindowName q"
  shows "stored s q' = q'"
proof -
  from stored_id [OF assms(1,2)] have "q_MigrationWindowName (stored s q) = q_MigrationWindowName q" by simp
  then have "window_name_read (w_db s) (q_MigrationWindowName q') = q_MigrationWindowName q'"
    by (simp add: stored_def same)
  then show ?thesis by (simp add: stored_def)
qed

definition reported :: "ext \<Rightarrow> worker_response \<Rightarrow> queue_entry \<Rightarrow> queue_entry" where
  "reported x r q = (report_entry x r q)\<lparr>q_LastWorkerStatus := wr_Status r\<rparr>"

lemma reported_fields [simp]:
  "q_InstanceUUID (reported x r q) = q_InstanceUUID q" "q_BatchName (reported x r q) = q_BatchName q"
  "q_ID (reported x r q) = q_ID q" "q_Placement (reported x r q) = q_Placement q"
  "q_MigrationWindowName (reported x r q) = q_MigrationWindowName q" "q_SecretToken (reported x r q) = q_SecretToken q"
  "q_LastWorkerStatus (reported x r q) = wr_Status r"
  by (simp_all add: reported_def report_entry_def split: worker_response_type.split migration_status.split)

lemma release_ok:
  assumes "(if wr_Status r \<noteq> WORKERRESPONSE_RUNNING
                then bindm (wrap_err f (instance_repo_get u)) (\<lambda>i.
                  andthen (source_remove_import (i_Source i))
                 (andthen (target_remove_import tgt)
                   (if sync then batch_remove_import bat else ret ())))
                else ret ()) s = (Inr v, t)"
  shows "w_db t = w_db s" "wr_Status r = WORKERRESPONSE_RUNNING \<Longrightarrow> t = s"
    "wr_Status r \<noteq> WORKERRESPONSE_RUNNING \<Longrightarrow> \<exists>i. tb_get i_UUID (db_instances (w_db s)) u = Some i \<and>
       released True sync (i_Source i) tgt bat s t"
  using assms
  by (auto simp: ok_run released_def split: if_splits)

lemma released_same: "same_data s s0 \<Longrightarrow> released imp sync src tgt bat s0 t0 \<Longrightarrow> only_queue t0 t1 \<Longrightarrow> same_data t1 t \<Longrightarrow>
   released imp sync src tgt bat s t"
  by (simp add: released_def same_data_def only_queue_def)

lemma process_worker_update_effect:
  assumes run: "process_worker_update x u r s = (Inr q', t)" and ids: "window_ids_unique (w_db s)"
  obtains q where "queue_map s u = Some q" "is_migrating q" "q' = reported x r q"
    "queue_map t = (queue_map s)(u \<mapsto> q')"
    "wr_Status r = WORKERRESPONSE_RUNNING \<Longrightarrow> released False False '''' '''' '''' s t"
    "wr_Status r \<noteq> WORKERRESPONSE_RUNNING \<Longrightarrow> \<exists>i. tb_get i_UUID (db_instances (w_db s)) u = Some i \<and>
       released True (q_MigrationStatus q = MIGRATIONSTATUS_BACKGROUND_IMPORT) (i_Source i)
         (p_TargetName (q_Placement q)) (q_BatchName q) s t"
    "(w_db t)\<lparr>db_queue := db_queue (w_db s)\<rparr> = w_db s"
proof -
  from tx_do_run_ok [OF run [unfolded process_worker_update_def]] obtain s0 q s1 s2 t0 v1 v2 v3 where
    s0: "same_data s s0" and t0: "same_data t0 t" and q: "queue_map s0 u = Some q" and m: "is_migrating q"
    and one: "(if wr_Status r = WORKERRESPONSE_FAILED \<and> q_MigrationStatus q \<noteq> MIGRATIONSTATUS_ERROR \<and> wr_Metadata r \<noteq> None
                then andthen (wrap_err (\<lambda>e. Errorf ''Failed to get instance %q: %w'' [AUuid u, AWrap e]) (instance_repo_get u)) (ret ())
                else ret ()) s0 = (Inr v1, s1)"
    and two: "(if wr_Status r \<noteq> WORKERRESPONSE_RUNNING
                then bindm (wrap_err (\<lambda>e. Errorf ''Failed to get instance %q: %w'' [AUuid u, AWrap e]) (instance_repo_get u)) (\<lambda>i.
                  andthen (source_remove_import (i_Source i))
                 (andthen (target_remove_import (p_TargetName (q_Placement q)))
                   (if q_MigrationStatus q = MIGRATIONSTATUS_BACKGROUND_IMPORT
                    then batch_remove_import (q_BatchName q) else ret ())))
                else ret ()) s1 = (Inr v2, s2)"
    and up: "queue_repo_update (reported x r q) s2 = (Inr v3, t0)" and q': "q' = reported x r q"
    unfolding bindm_ok andthen_ok wrap_err_ok queue_repo_get_ok fail_if_ok ret_ok Let_def queue_update_def reported_def
    by blast
  have s1: "s1 = s0" using one by (auto simp: andthen_ok wrap_err_ok lookup_ok ret_ok split: if_splits)
  note rel = release_ok [OF two [unfolded s1]]
  have db: "w_db s2 = w_db s" using rel(1) s0 by (simp add: same_data_def)
  have qs: "queue_map s u = Some q" using q same_data_queue [OF s0] by simp
  have q2: "queue_map s2 u = Some q" using qs queue_map_db [OF db] by simp
  have u: "q_InstanceUUID (reported x r q) = u" using queue_map_key [OF qs] by simp
  have "window_ids_unique (w_db s2)" by (simp add: db ids)
  from queue_repo_update_same_window [OF up this q2 u reported_fields(3)]
  have m2: "queue_map t0 = (queue_map s2)(u \<mapsto> stored s2 (reported x r q))" and only: "only_queue s2 t0" .
  have "stored s2 (reported x r q) = reported x r q"
    using db ids q2 by (intro stored_window [of s2 u q]) simp_all
  with m2 have map: "queue_map t = (queue_map s)(u \<mapsto> q')"
    using same_data_queue [OF t0] queue_map_db [OF db] q' by simp
  have frame: "(w_db t)\<lparr>db_queue := db_queue (w_db s)\<rparr> = w_db s"
    using only t0 db by (simp add: only_queue_def same_data_def)
  have run1: "wr_Status r = WORKERRESPONSE_RUNNING \<Longrightarrow> released False False '''' '''' '''' s t"
    using rel(2) only t0 s0 by (simp add: released_def only_queue_def same_data_def)
  have run2: "wr_Status r \<noteq> WORKERRESPONSE_RUNNING \<Longrightarrow> \<exists>i. tb_get i_UUID (db_instances (w_db s)) u = Some i \<and>
       released True (q_MigrationStatus q = MIGRATIONSTATUS_BACKGROUND_IMPORT) (i_Source i)
         (p_TargetName (q_Placement q)) (q_BatchName q) s t"
    using rel(3) s0 released_same [OF s0 _ only t0] by (auto simp: same_data_def)
  show thesis by (rule that [OF qs m q' map run1 run2 frame])
qed

lemma queue_cancel_effect:
  assumes run: "queue_cancel u s = (Inr (q', committed), t)"
  obtains q where "queue_map s u = Some q" "q_MigrationStatus q \<noteq> MIGRATIONSTATUS_FINISHED" "committed = is_committed q"
    "q' = q\<lparr>q_MigrationStatus := MIGRATIONSTATUS_CANCELED, q_ImportStage := IMPORTSTAGE_BACKGROUND, q_MigrationWindowName := None\<rparr>"
    "queue_map t = (queue_map s)(u \<mapsto> q')" "only_queue s t"
proof -
  from tx_do_run_ok [OF run [unfolded queue_cancel_def]] obtain s0 q t0 where
    s0: "same_data s s0" and t0: "same_data t0 t" and q: "queue_map s0 u = Some q"
    and f: "q_MigrationStatus q \<noteq> MIGRATIONSTATUS_FINISHED" and c: "committed = is_committed q"
    and up: "queue_update_status (q_InstanceUUID q) MIGRATIONSTATUS_CANCELED (q_MigrationStatusMessage q)
                IMPORTSTAGE_BACKGROUND None s0 = (Inr q', t0)"
    unfolding bindm_ok andthen_ok queue_repo_get_ok fail_if_ok ret_ok by blast
  have u: "q_InstanceUUID q = u" using queue_map_key [OF q] .
  from queue_update_status_effect [OF up [unfolded u]] obtain q0 where e: "queue_map s0 u = Some q0"
    "q' = q0\<lparr>q_MigrationStatus := MIGRATIONSTATUS_CANCELED, q_MigrationStatusMessage := q_MigrationStatusMessage q,
        q_ImportStage := IMPORTSTAGE_BACKGROUND, q_MigrationWindowName := None\<rparr>"
    "queue_map t0 = (queue_map s0)(u \<mapsto> q'\<lparr>q_MigrationWindowName := window_name_read (w_db s0) None\<rparr>)" "only_queue s0 t0"
    by blast
  have q0: "q0 = q" using e(1) q by simp
  have n: "window_name_read d None = None" for d by (simp add: window_name_read_def window_id_by_name_def)
  have q': "q' = q\<lparr>q_MigrationStatus := MIGRATIONSTATUS_CANCELED, q_ImportStage := IMPORTSTAGE_BACKGROUND, q_MigrationWindowName := None\<rparr>"
    unfolding e(2) q0 by simp
  have "queue_map t = (queue_map s)(u \<mapsto> q')"
    using e(3) same_data_queue [OF s0] same_data_queue [OF t0] by (simp add: n q')
  with q f c q' only_queue_step [OF s0 e(4) t0] same_data_queue [OF s0] show thesis by (auto intro: that)
qed

lemma queue_delete_effect:
  assumes run: "queue_delete u s = (Inr v, t)"
  obtains q where "queue_map s u = Some q" "\<not> is_migrating q" "queue_map t = (queue_map s)(u := None)" "only_queue s t"
proof -
  from tx_do_run_ok [OF run [unfolded queue_delete_def]] obtain s0 q t0 where
    s0: "same_data s s0" and t0: "same_data t0 t" and q: "queue_map s0 u = Some q" "\<not> is_migrating q"
    and del: "queue_repo_delete u s0 = (Inr v, t0)"
    unfolding bindm_ok andthen_ok wrap_err_ok queue_repo_get_ok fail_if_ok by blast
  from queue_repo_delete_map [OF del] have "queue_map t0 = (queue_map s0)(u := None)" by simp
  moreover have "only_queue s0 t0" using del
    by (auto simp: queue_repo_delete_def wm_ok throw_run only_queue_def split: option.splits)
  ultimately show thesis
    using q same_data_queue [OF s0] same_data_queue [OF t0] only_queue_step [OF s0 _ t0] by (auto intro: that)
qed

lemma queue_retry_effect:
  assumes run: "queue_retry x u s = (Inr q', t)"
  obtains q st msg pl where "queue_map s u = Some q" "q_MigrationStatus q = MIGRATIONSTATUS_CANCELED"
    "st = MIGRATIONSTATUS_WAITING \<or> st = MIGRATIONSTATUS_BLOCKED"
    "q' = q\<lparr>q_MigrationStatus := st, q_MigrationStatusMessage := msg, q_ImportStage := IMPORTSTAGE_BACKGROUND,
       q_MigrationWindowName := None, q_Placement := pl\<rparr>"
    "queue_map t = (queue_map s)(u \<mapsto> q')" "only_queue s t"
proof -
  from tx_do_run_ok [OF run [unfolded queue_retry_def]] obtain s0 q t0 b i pl v where
    s0: "same_data s s0" and t0: "same_data t0 t" and q: "queue_map s0 u = Some q"
    and c: "q_MigrationStatus q = MIGRATIONSTATUS_CANCELED"
    and ret: "q' = retried x i b pl q" and up: "queue_repo_update q' s0 = (Inr v, t0)"
    unfolding bindm_ok andthen_ok queue_repo_get_ok fail_if_ok lookup_ok lift_ok ret_ok queue_update_def
        window_repo_get_all_by_batch_def network_repo_get_all_by_source_def dbget_ok not_not by blast
  obtain st msg where st: "st = MIGRATIONSTATUS_WAITING \<or> st = MIGRATIONSTATUS_BLOCKED"
    and q': "q' = q\<lparr>q_MigrationStatus := st, q_MigrationStatusMessage := msg, q_ImportStage := IMPORTSTAGE_BACKGROUND,
       q_MigrationWindowName := None, q_Placement := pl\<rparr>"
    by (cases "disabled_reason_of x i (bc_RestrictionOverrides (b_Config b))") (auto simp: ret retried_def)
  have u: "q_InstanceUUID q' = u" using queue_map_key [OF q] by (simp add: q')
  from queue_repo_update_map [OF up] q u have "queue_map t0 = (queue_map s0)(u \<mapsto>
      q'\<lparr>q_ID := q_ID q, q_MigrationWindowName := window_name_read (w_db s0) (q_MigrationWindowName q')\<rparr>)" by auto
  moreover have "q'\<lparr>q_ID := q_ID q, q_MigrationWindowName := window_name_read (w_db s0) (q_MigrationWindowName q')\<rparr> = q'"
    by (simp add: q' window_name_read_def window_id_by_name_def)
  ultimately have "queue_map t = (queue_map s)(u \<mapsto> q')"
    using same_data_queue [OF s0] same_data_queue [OF t0] by simp
  moreover have "queue_map s u = Some q" using q same_data_queue [OF s0] by simp
  ultimately show thesis
    using that [OF _ c st q' _ only_queue_step [OF s0 queue_repo_update_only [OF up] t0]] by blast
qed

end
