(* ===== verification/Lifecycle.thy ===== *)
theory Lifecycle
  imports Reporting
begin

text \<open>
  The life of a queue entry. An abstract machine over status and import stage states what the
  scheduler, the worker and the user may do; the queue service refines it, one entry at a time, and
  what holds of the reachable phases follows by rule induction.
\<close>

section \<open>The abstract machine\<close>

type_synonym phase = "migration_status \<times> import_stage"

definition phase :: "queue_entry \<Rightarrow> phase" where
  "phase q = (q_MigrationStatus q, q_ImportStage q)"

inductive phase_step :: "phase \<Rightarrow> phase \<Rightarrow> bool" where
  stay: "phase_step p p"
| sync: "g \<noteq> IMPORTSTAGE_COMPLETE \<Longrightarrow>
    phase_step (MIGRATIONSTATUS_IDLE, g) (MIGRATIONSTATUS_BACKGROUND_IMPORT, IMPORTSTAGE_BACKGROUND)"
| synced: "phase_step (MIGRATIONSTATUS_BACKGROUND_IMPORT, g) (MIGRATIONSTATUS_IDLE, IMPORTSTAGE_FINAL)"
| finalize: "g \<noteq> IMPORTSTAGE_COMPLETE \<Longrightarrow> phase_step (MIGRATIONSTATUS_IDLE, g) (MIGRATIONSTATUS_FINAL_IMPORT, g)"
| finalized: "phase_step (MIGRATIONSTATUS_FINAL_IMPORT, g) (MIGRATIONSTATUS_IDLE, IMPORTSTAGE_COMPLETE)"
| post: "phase_step (MIGRATIONSTATUS_IDLE, IMPORTSTAGE_COMPLETE) (MIGRATIONSTATUS_POST_IMPORT, IMPORTSTAGE_COMPLETE)"
| posted: "phase_step (MIGRATIONSTATUS_POST_IMPORT, g) (MIGRATIONSTATUS_WORKER_DONE, g)"
| fail: "st \<in> {MIGRATIONSTATUS_CREATING, MIGRATIONSTATUS_BACKGROUND_IMPORT, MIGRATIONSTATUS_IDLE,
      MIGRATIONSTATUS_FINAL_IMPORT, MIGRATIONSTATUS_POST_IMPORT, MIGRATIONSTATUS_WORKER_DONE} \<Longrightarrow>
    phase_step (st, g) (MIGRATIONSTATUS_ERROR, g)"
| cancel: "st \<noteq> MIGRATIONSTATUS_FINISHED \<Longrightarrow> phase_step (st, g) (MIGRATIONSTATUS_CANCELED, IMPORTSTAGE_BACKGROUND)"
| retry: "st = MIGRATIONSTATUS_WAITING \<or> st = MIGRATIONSTATUS_BLOCKED \<Longrightarrow>
    phase_step (MIGRATIONSTATUS_CANCELED, g) (st, IMPORTSTAGE_BACKGROUND)"

inductive_cases finished_step: "phase_step (MIGRATIONSTATUS_FINISHED, g) p"
inductive_cases done_step: "phase_step p (MIGRATIONSTATUS_WORKER_DONE, g)"
inductive_cases final_step: "phase_step p (MIGRATIONSTATUS_FINAL_IMPORT, g)"

text \<open>What holds of every phase that is reached: an import runs in its stage.\<close>

fun phase_ok :: "phase \<Rightarrow> bool" where
  "phase_ok (MIGRATIONSTATUS_BACKGROUND_IMPORT, g) \<longleftrightarrow> g = IMPORTSTAGE_BACKGROUND"
| "phase_ok (MIGRATIONSTATUS_FINAL_IMPORT, g) \<longleftrightarrow> g \<noteq> IMPORTSTAGE_COMPLETE"
| "phase_ok (MIGRATIONSTATUS_POST_IMPORT, g) \<longleftrightarrow> g = IMPORTSTAGE_COMPLETE"
| "phase_ok (MIGRATIONSTATUS_WORKER_DONE, g) \<longleftrightarrow> g = IMPORTSTAGE_COMPLETE"
| "phase_ok _ \<longleftrightarrow> True"

lemma phase_step_ok: "phase_step p p' \<Longrightarrow> phase_ok p \<Longrightarrow> phase_ok p'"
  by (induction rule: phase_step.induct) auto

section \<open>The queue service refines it\<close>

inductive queue_step :: "ext \<Rightarrow> world \<Rightarrow> uuid \<Rightarrow> world \<Rightarrow> bool" for x where
  command: "new_worker_command x u s = (Inr c, t) \<Longrightarrow> queue_step x s u t"
| report: "process_worker_update x u r s = (Inr q, t) \<Longrightarrow> queue_step x s u t"
| cancel: "queue_cancel u s = (Inr r, t) \<Longrightarrow> queue_step x s u t"
| retry: "queue_retry x u s = (Inr q, t) \<Longrightarrow> queue_step x s u t"

lemma worker_decision_phase:
  assumes "worker_decision x b i q l1 l2 l3 nw = Inr d" and q: "q_MigrationStatus q = MIGRATIONSTATUS_IDLE"
  shows "phase_step (phase q) (phase (decided q d))"
  using assms(1)
proof (cases rule: worker_decision_cases)
  case (go w)
  with q show ?thesis
    by (auto simp: begin_decision_command phase_def intro: phase_step.finalize phase_step.post)
next
  case sync
  with q show ?thesis by (auto simp: phase_def intro: phase_step.stay phase_step.sync)
qed (auto simp: phase_def intro: phase_step.stay)

lemma report_phase:
  assumes "is_migrating q"
  shows "phase_step (phase q) (phase (reported x r q))"
  using assms
  by (auto simp: phase_def reported_def report_entry_def is_migrating_def
      intro: phase_step.intros split: worker_response_type.split migration_status.split)

text \<open>The rest of the database stays as it is.\<close>

definition db_frame :: "world \<Rightarrow> world \<Rightarrow> bool" where
  "db_frame s t \<longleftrightarrow> (w_db t)\<lparr>db_queue := db_queue (w_db s)\<rparr> = w_db s"

lemma db_frame_intros:
  "only_queue s t \<Longrightarrow> db_frame s t" "same_data s t \<Longrightarrow> db_frame s t"
  "w_db s' = w_db s \<Longrightarrow> only_queue s' t \<Longrightarrow> db_frame s t"
  by (simp_all add: db_frame_def only_queue_def same_data_def)

lemma db_frame_windows: "db_frame s t \<Longrightarrow> db_windows (w_db t) = db_windows (w_db s)"
  unfolding db_frame_def by (metis db.select_convs(7) db.surjective db.update_convs(9))

lemma queue_step_effect:
  assumes "queue_step x s u t" and "window_ids_unique (w_db s)"
  shows "db_frame s t \<and> (\<exists>q q'. queue_map s u = Some q \<and> queue_map t = (queue_map s)(u \<mapsto> q') \<and> phase_step (phase q) (phase q'))"
  using assms(1)
proof cases
  case (command c)
  from command assms(2) show ?thesis
  proof (cases rule: new_worker_command_cases)
    case (restart q)
    then show ?thesis using same_data_queue [of s t]
      by (intro conjI exI [of _ q]) (auto simp: map_upd_triv intro: phase_step.stay db_frame_intros)
  next
    case (idle q i src d s')
    from idle(5) obtain b l1 l2 l3 nw where
      "worker_decision x b (i\<lparr>i_Properties := applied_props i\<rparr>) q l1 l2 l3 nw = Inr d" by (auto simp: decides_def)
    from worker_decision_phase [OF this idle(2)] have "phase_step (phase q) (phase (stored s (decided q d)))"
      by (simp add: phase_def)
    with idle db_frame_intros(3) [OF idle(9,10)] show ?thesis by blast
  qed
next
  case (report r q')
  from report assms(2) show ?thesis
    by (rule process_worker_update_effect) (use report_phase db_frame_def in blast)
next
  case (cancel r)
  obtain q' c where "r = (q', c)" by (cases r)
  with cancel have "queue_cancel u s = (Inr (q', c), t)" by simp
  then show ?thesis
  proof (rule queue_cancel_effect)
    fix q assume "queue_map s u = Some q" "q_MigrationStatus q \<noteq> MIGRATIONSTATUS_FINISHED"
      "q' = q\<lparr>q_MigrationStatus := MIGRATIONSTATUS_CANCELED, q_ImportStage := IMPORTSTAGE_BACKGROUND, q_MigrationWindowName := None\<rparr>"
      "queue_map t = (queue_map s)(u \<mapsto> q')" "only_queue s t"
    then show ?thesis by (intro conjI exI [of _ q] exI [of _ q']) (simp_all add: phase_def phase_step.cancel db_frame_intros)
  qed
next
  case (retry q')
  then show ?thesis
  proof (rule queue_retry_effect)
    fix q st msg pl assume "queue_map s u = Some q" "q_MigrationStatus q = MIGRATIONSTATUS_CANCELED"
      "st = MIGRATIONSTATUS_WAITING \<or> st = MIGRATIONSTATUS_BLOCKED"
      "q' = q\<lparr>q_MigrationStatus := st, q_MigrationStatusMessage := msg, q_ImportStage := IMPORTSTAGE_BACKGROUND,
       q_MigrationWindowName := None, q_Placement := pl\<rparr>" "queue_map t = (queue_map s)(u \<mapsto> q')" "only_queue s t"
    then show ?thesis by (intro conjI exI [of _ q] exI [of _ q']) (simp_all add: phase_def phase_step.retry db_frame_intros)
  qed
qed

text \<open>
  C1: Every successful command, report, cancel and retry changes exactly the queue entry it is
  about, and takes that entry along one step of the abstract machine.
\<close>

theorem queue_refines_phases:
  assumes "queue_step x s u t" and "window_ids_unique (w_db s)"
  shows "\<exists>q q'. queue_map s u = Some q \<and> queue_map t = (queue_map s)(u \<mapsto> q') \<and> phase_step (phase q) (phase q')"
  using queue_step_effect [OF assms] by blast

theorem queue_refines_phases_witness:
  "\<exists>t q'. queue_map t = (queue_map (sample_world [] sample_entry))(7 \<mapsto> q') \<and> phase_step (phase sample_entry) (phase q')"
proof -
  obtain c t where "new_worker_command plain_ext 7 (sample_world [] sample_entry) = (Inr c, t)"
    using sample_first_command [of "[]"] by auto
  from queue_refines_phases [OF queue_step.command [OF this]] show ?thesis by auto
qed

end
