(* ===== verification/Accounting.thy ===== *)
theory Accounting
  imports Lifecycle
begin

text \<open>
  The import counters against the queue: how many entries are importing from a source, to a target,
  or in the background for a batch, and when the counters that the limits are checked against equal
  these numbers. Commands and the reports of importing workers keep them equal; the reports of
  post-import workers, cancellation and the deadline reset do not.
\<close>

section \<open>The true numbers\<close>

definition users :: "(queue_entry \<Rightarrow> bool) \<Rightarrow> (uuid \<Rightarrow> queue_entry \<Rightarrow> string) \<Rightarrow> world \<Rightarrow> string \<Rightarrow> uuid set" where
  "users busy key s n = {u. \<exists>q. queue_map s u = Some q \<and> busy q \<and> key u q = n}"

definition importing :: "queue_entry \<Rightarrow> bool" where
  "importing q \<longleftrightarrow> q_MigrationStatus q = MIGRATIONSTATUS_BACKGROUND_IMPORT \<or> q_MigrationStatus q = MIGRATIONSTATUS_FINAL_IMPORT"

definition syncing :: "queue_entry \<Rightarrow> bool" where
  "syncing q \<longleftrightarrow> q_MigrationStatus q = MIGRATIONSTATUS_BACKGROUND_IMPORT"

definition source_of :: "db \<Rightarrow> uuid \<Rightarrow> string" where
  "source_of d u = (case tb_get i_UUID (db_instances d) u of None \<Rightarrow> '''' | Some i \<Rightarrow> i_Source i)"

abbreviation source_users :: "world \<Rightarrow> string \<Rightarrow> uuid set" where
  "source_users s \<equiv> users importing (\<lambda>u q. source_of (w_db s) u) s"

abbreviation target_users :: "world \<Rightarrow> string \<Rightarrow> uuid set" where
  "target_users s \<equiv> users importing (\<lambda>u q. p_TargetName (q_Placement q)) s"

abbreviation batch_users :: "world \<Rightarrow> string \<Rightarrow> uuid set" where
  "batch_users s \<equiv> users syncing (\<lambda>u q. q_BatchName q) s"

definition counters_exact :: "world \<Rightarrow> bool" where
  "counters_exact s \<longleftrightarrow> (\<forall>n. counter_get (w_srcImports s) n = int (card (source_users s n)) \<and>
     counter_get (w_tgtImports s) n = int (card (target_users s n)) \<and>
     counter_get (w_batchImports s) n = int (card (batch_users s n)))"

lemma finite_queue: "finite (dom (queue_map s))"
proof -
  have "dom (queue_map s) \<subseteq> qr_key ` set (db_queue (w_db s))"
    by (auto simp: queue_map_def queue_lookup_def tb_get_def dest!: find_SomeD)
  then show ?thesis by (rule finite_subset) simp
qed

lemma finite_users [simp]: "finite (users busy key s n)"
  by (rule finite_subset [OF _ finite_queue [of s]]) (auto simp: users_def)

lemma users_update:
  assumes "queue_map t = (queue_map s)(u \<mapsto> q')" and "queue_map s u = Some q"
    and "\<And>v p. key' v p = key v p"
  shows "int (card (users busy key' t n)) = int (card (users busy key s n))
    + (if busy q' \<and> key u q' = n then 1 else 0) - (if busy q \<and> key u q = n then 1 else 0)"
proof -
  have key: "key' = key" using assms(3) by (simp add: fun_eq_iff)
  let ?A = "users busy key s n - {u}"
  have t: "users busy key' t n = ?A \<union> (if busy q' \<and> key u q' = n then {u} else {})"
    unfolding users_def assms(1) key by auto
  have s: "users busy key s n = ?A \<union> (if busy q \<and> key u q = n then {u} else {})"
    using assms(2) by (auto simp: users_def)
  have "card (users busy key' t n) = card ?A + (if busy q' \<and> key u q' = n then 1 else 0)"
    unfolding t by (auto simp: card.insert_remove)
  moreover have "card (users busy key s n) = card ?A + (if busy q \<and> key u q = n then 1 else 0)"
    by (subst s) (auto simp: card.insert_remove)
  ultimately show ?thesis by simp
qed

lemma source_of_frame: "db_frame s t \<Longrightarrow> source_of (w_db t) u = source_of (w_db s) u"
  unfolding db_frame_def source_of_def by (metis db.select_convs(4) db.surjective db.update_convs(9))

text \<open>
  How the counters follow one entry's change: they go up where the entry starts to import and down
  where it stops.
\<close>

lemma counters_follow:
  assumes ex: "counters_exact s" and frame: "db_frame s t"
    and m: "queue_map s u = Some q" "queue_map t = (queue_map s)(u \<mapsto> q')"
    and same: "p_TargetName (q_Placement q') = p_TargetName (q_Placement q)" "q_BatchName q' = q_BatchName q"
    and c: "counted imp sync (source_of (w_db s) u) (p_TargetName (q_Placement q)) (q_BatchName q) s t \<and>
          \<not> importing q \<and> (importing q' \<longleftrightarrow> imp) \<and> (syncing q' \<longleftrightarrow> sync) \<or>
        released imp sync (source_of (w_db s) u) (p_TargetName (q_Placement q)) (q_BatchName q) s t \<and>
          (if imp then importing q \<and> (syncing q \<longleftrightarrow> sync) \<and> \<not> importing q'
           else \<not> sync \<and> (importing q' \<longleftrightarrow> importing q) \<and> (syncing q' \<longleftrightarrow> syncing q))"
  shows "counters_exact t"
proof -
  have imp: "syncing p \<Longrightarrow> importing p" for p by (simp add: syncing_def importing_def)
  have pos: "busy p \<Longrightarrow> queue_map s u = Some p \<Longrightarrow> 0 < card (users busy key s (key u p))" for busy key p
    by (auto simp: users_def card_gt_0_iff intro: finite_subset [OF _ finite_users [of busy key s]])
  note ups = users_update [OF m(2,1)]
  show ?thesis
    unfolding counters_exact_def
  proof (intro allI conjI)
    fix n
    note e = ex [unfolded counters_exact_def, rule_format, of n]
    show "counter_get (w_srcImports t) n = int (card (source_users t n))"
      using e c pos [of importing q "\<lambda>u q. source_of (w_db s) u"] m(1)
      by (subst ups [of _ "\<lambda>u q. source_of (w_db s) u"])
        (auto simp: source_of_frame [OF frame] counted_def released_def split: if_splits)
    show "counter_get (w_tgtImports t) n = int (card (target_users t n))"
      using e c same pos [of importing q "\<lambda>u q. p_TargetName (q_Placement q)"] m(1)
      by (subst ups [of _ "\<lambda>u q. p_TargetName (q_Placement q)"]) (auto simp: counted_def released_def split: if_splits)
    show "counter_get (w_batchImports t) n = int (card (batch_users t n))"
      using e c same imp pos [of syncing q "\<lambda>u q. q_BatchName q"] m(1)
      by (subst ups [of _ "\<lambda>u q. q_BatchName q"]) (auto simp: counted_def released_def split: if_splits)
  qed
qed

section \<open>Who keeps them exact\<close>

lemma worker_decision_counts:
  assumes "worker_decision x b i q l1 l2 l3 nw = Inr d" and q: "q_MigrationStatus q = MIGRATIONSTATUS_IDLE"
  shows "importing (decided q d) \<longleftrightarrow> starts_import d" "syncing (decided q d) \<longleftrightarrow> starts_sync d"
proof -
  from assms(1) have "(importing (decided q d) \<longleftrightarrow> starts_import d) \<and> (syncing (decided q d) \<longleftrightarrow> starts_sync d)"
    by (rule worker_decision_cases) (simp_all add: q importing_def syncing_def begin_decision_command)
  then show "importing (decided q d) \<longleftrightarrow> starts_import d" "syncing (decided q d) \<longleftrightarrow> starts_sync d" by simp_all
qed

lemma decided_fields [simp]:
  "q_Placement (decided q d) = q_Placement q" "q_BatchName (decided q d) = q_BatchName q"
  by (cases d, simp_all)+

lemma counters_exact_same:
  assumes "same_data s t" "counters_exact s"
  shows "counters_exact t"
proof -
  have "users busy key t n = users busy key s n" for busy key n
    unfolding users_def same_data_queue [OF assms(1)] ..
  with assms show ?thesis by (simp add: counters_exact_def same_data_def)
qed

text \<open>
  The steps that account for what they do: any command, a running worker's report, and the final
  report of an importing worker.
\<close>

inductive import_step :: "ext \<Rightarrow> world \<Rightarrow> world \<Rightarrow> bool" for x where
  command: "new_worker_command x u s = (Inr c, t) \<Longrightarrow> import_step x s t"
| running: "process_worker_update x u r s = (Inr q, t) \<Longrightarrow> wr_Status r = WORKERRESPONSE_RUNNING \<Longrightarrow> import_step x s t"
| finished: "process_worker_update x u r s = (Inr q, t) \<Longrightarrow>
    wr_Status r = WORKERRESPONSE_SUCCESS \<or> wr_Status r = WORKERRESPONSE_FAILED \<Longrightarrow>
    queue_map s u = Some p \<Longrightarrow> importing p \<Longrightarrow> import_step x s t"

lemma window_ids_frame: "db_frame s t \<Longrightarrow> window_ids_unique (w_db s) \<Longrightarrow> window_ids_unique (w_db t)"
  by (simp add: window_ids_unique_def db_frame_windows)

lemma import_step_exact:
  assumes "import_step x s t" and ids: "window_ids_unique (w_db s)" and ex: "counters_exact s"
  shows "counters_exact t \<and> window_ids_unique (w_db t)"
  using assms(1)
proof cases
  case (command u c)
  from queue_step_effect [OF queue_step.command [OF command] ids] have frame: "db_frame s t" by simp
  from command ids have "counters_exact t"
  proof (cases rule: new_worker_command_cases)
    case (restart q)
    then show ?thesis using counters_exact_same ex by blast
  next
    case (idle q i src d s')
    from idle(5) obtain b l1 l2 l3 nw where
      "worker_decision x b (i\<lparr>i_Properties := applied_props i\<rparr>) q l1 l2 l3 nw = Inr d" by (auto simp: decides_def)
    note n = worker_decision_counts [OF this idle(2)]
    have src: "source_of (w_db s) u = i_Source i" using idle(3) by (simp add: source_of_def)
    show ?thesis
      by (rule counters_follow [OF ex frame idle(1) idle(7), of "starts_import d" "starts_sync d"])
        (use idle(2,8) n src in \<open>simp_all add: importing_def syncing_def\<close>)
  qed
  with window_ids_frame [OF frame ids] show ?thesis by simp
next
  case (running u r q')
  from queue_step_effect [OF queue_step.report [OF running(1)] ids] have frame: "db_frame s t" by simp
  from running(1) ids have "counters_exact t"
  proof (rule process_worker_update_effect)
    fix q assume q: "queue_map s u = Some q" "q' = reported x r q" "queue_map t = (queue_map s)(u \<mapsto> q')"
      and c: "wr_Status r = WORKERRESPONSE_RUNNING \<Longrightarrow> released False False '''' '''' '''' s t"
    have "q_MigrationStatus q' = q_MigrationStatus q"
      by (simp add: q reported_def report_entry_def running(2))
    with c [OF running(2)] q show "counters_exact t"
      by (intro counters_follow [OF ex frame q(1) q(3), of False False])
        (simp_all add: released_def importing_def syncing_def)
  qed
  with window_ids_frame [OF frame ids] show ?thesis by simp
next
  case (finished u r q' p)
  from queue_step_effect [OF queue_step.report [OF finished(1)] ids] have frame: "db_frame s t" by simp
  from finished(1) ids have "counters_exact t"
  proof (rule process_worker_update_effect)
    fix q assume q: "queue_map s u = Some q" "q' = reported x r q" "queue_map t = (queue_map s)(u \<mapsto> q')"
      and c: "wr_Status r \<noteq> WORKERRESPONSE_RUNNING \<Longrightarrow> \<exists>i. tb_get i_UUID (db_instances (w_db s)) u = Some i \<and>
       released True (q_MigrationStatus q = MIGRATIONSTATUS_BACKGROUND_IMPORT) (i_Source i)
         (p_TargetName (q_Placement q)) (q_BatchName q) s t"
    have p: "p = q" using q(1) finished(3) by simp
    then have "\<not> importing q'" using finished(2,4)
      by (auto simp: q reported_def report_entry_def importing_def)
    with c p finished(2,4) q show "counters_exact t"
      by (intro counters_follow [OF ex frame q(1) q(3), of True "syncing q"])
        (auto simp: syncing_def source_of_def)
  qed
  with window_ids_frame [OF frame ids] show ?thesis by simp
qed

text \<open>
  C3: Over any history of commands, progress reports and final reports of importing workers, the
  import counters of every source, target and batch equal the numbers of entries that are importing
  from it, to it, or in the background for it.
\<close>

theorem import_accounting:
  assumes "(import_step x)\<^sup>*\<^sup>* s t" and "window_ids_unique (w_db s)" and "counters_exact s"
  shows "counters_exact t"
proof -
  from assms have "counters_exact t \<and> window_ids_unique (w_db t)"
    by (induction rule: rtranclp_induct) (use import_step_exact in blast)+
  then show ?thesis ..
qed

lemma sample_counters: "\<not> importing q \<Longrightarrow> counters_exact (sample_world ws q)"
proof -
  assume "\<not> importing q"
  then have "users busy key (sample_world ws q) n = {}" if "\<And>p. busy p \<Longrightarrow> importing p" for busy key n
    using that [of "q\<lparr>q_MigrationWindowName := None\<rparr>"]
    by (auto simp: users_def queue_map_def queue_lookup_def sample_world_def sample_db_def tb_get_def
        read_queue_row_def importing_def split: if_splits)
  from this [of importing] this [of syncing] show ?thesis
    by (simp add: counters_exact_def) (simp add: syncing_def importing_def)
qed

theorem import_accounting_witness:
  "\<exists>c t. new_worker_command plain_ext 7 (sample_world [] sample_entry) = (Inr c, t) \<and> counters_exact t"
proof -
  obtain c t where run: "new_worker_command plain_ext 7 (sample_world [] sample_entry) = (Inr c, t)"
    using sample_first_command [of "[]"] by auto
  have steps: "(import_step plain_ext)\<^sup>*\<^sup>* (sample_world [] sample_entry) t"
    using import_step.command [OF run] by (rule r_into_rtranclp)
  have exact: "counters_exact (sample_world [] sample_entry)" by (rule sample_counters) (simp add: importing_def)
  have ids: "window_ids_unique (w_db (sample_world [] sample_entry))" by simp
  from run import_accounting [OF steps ids exact] show ?thesis by blast
qed

section \<open>Who does not\<close>

text \<open>
  The final report of a post-import worker lowers the import counters of the instance's source
  and target, although the post-import phase was never counted and nobody has stopped importing:
  with other imports running, the counters fall below their number and the limits let more in.
\<close>

theorem post_import_report_undercounts:
  assumes run: "process_worker_update x u r s = (Inr q', t)" and ids: "window_ids_unique (w_db s)"
    and q: "queue_map s u = Some q" "q_MigrationStatus q = MIGRATIONSTATUS_POST_IMPORT"
    and r: "wr_Status r = WORKERRESPONSE_SUCCESS \<or> wr_Status r = WORKERRESPONSE_FAILED"
    and i: "tb_get i_UUID (db_instances (w_db s)) u = Some i"
    and busy: "0 < counter_get (w_srcImports s) (i_Source i)"
  shows "source_users t n = source_users s n \<and>
    counter_get (w_srcImports t) (i_Source i) = counter_get (w_srcImports s) (i_Source i) - 1"
proof -
  from queue_step_effect [OF queue_step.report [OF run] ids] have frame: "db_frame s t" by simp
  from run ids show ?thesis
  proof (rule process_worker_update_effect)
    fix p assume p: "queue_map s u = Some p" "q' = reported x r p" "queue_map t = (queue_map s)(u \<mapsto> q')"
      and c: "wr_Status r \<noteq> WORKERRESPONSE_RUNNING \<Longrightarrow> \<exists>i. tb_get i_UUID (db_instances (w_db s)) u = Some i \<and>
       released True (q_MigrationStatus p = MIGRATIONSTATUS_BACKGROUND_IMPORT) (i_Source i)
         (p_TargetName (q_Placement p)) (q_BatchName p) s t"
    have "p = q" using p(1) q(1) by simp
    then have "\<not> importing q" "\<not> importing q'" using q(2) r
      by (auto simp: p(2) reported_def report_entry_def importing_def)
    then have "source_users t n = source_users s n"
      using q(1) by (auto simp: users_def p(3) source_of_frame [OF frame])
    with c r i busy show ?thesis by (auto simp: released_def)
  qed
qed

definition posting_entry :: queue_entry where
  "posting_entry = sample_entry\<lparr>q_ImportStage := IMPORTSTAGE_COMPLETE, q_MigrationStatus := MIGRATIONSTATUS_POST_IMPORT\<rparr>"

definition success_report :: worker_response where
  "success_report = \<lparr>wr_Status = WORKERRESPONSE_SUCCESS, wr_StatusMessage = '''', wr_Metadata = None\<rparr>"

lemma sample_report:
  assumes "is_migrating q" "q_InstanceUUID q = 7" "q_MigrationWindowName q = None" "q_BatchName q = ''b1''"
  shows "\<exists>q' t. process_worker_update plain_ext 7 success_report ((sample_world ws q)\<lparr>w_srcImports := c\<rparr>) = (Inr q', t)"
  using assms
  using reported_fields [of plain_ext success_report q, unfolded reported_def]
  by (simp add: process_worker_update_def ok_run queue_update_def queue_repo_update_ok Let_def)

theorem post_import_report_undercounts_witness:
  "\<exists>q' t. process_worker_update plain_ext 7 success_report
       ((sample_world [] posting_entry)\<lparr>w_srcImports := counter_record ''src'' new_cache\<rparr>) = (Inr q', t) \<and>
     counter_get (w_srcImports t) ''src'' = 0"
proof -
  let ?s = "(sample_world [] posting_entry)\<lparr>w_srcImports := counter_record ''src'' new_cache\<rparr>"
  have posting_ok: "is_migrating posting_entry" "q_InstanceUUID posting_entry = 7"
    "q_MigrationWindowName posting_entry = None" "q_BatchName posting_entry = ''b1''"
    by (simp_all add: posting_entry_def is_migrating_def)
  obtain q' t where run: "process_worker_update plain_ext 7 success_report ?s = (Inr q', t)"
    using sample_report [OF posting_ok] by blast
  from post_import_report_undercounts [OF run, of posting_entry sample_inst] run
  show ?thesis by (auto simp: posting_entry_def success_report_def)
qed

text \<open>An importing entry that stops being one while no counter changes.\<close>

lemma uncounted_end_leaks:
  assumes t: "queue_map t = (queue_map s)(u \<mapsto> q')" "only_queue s t"
    and q: "queue_map s u = Some q" "importing q" "\<not> importing q'" and ex: "counters_exact s"
  shows "\<not> counters_exact t" and "counter_get (w_srcImports t) (source_of (w_db s) u) =
      int (card (source_users t (source_of (w_db s) u))) + 1"
proof -
  have frame: "db_frame s t" by (rule db_frame_intros(1) [OF t(2)])
  from q users_update [OF t(1) q(1), of "\<lambda>v p. source_of (w_db t) v" "\<lambda>v p. source_of (w_db s) v" importing "source_of (w_db s) u"]
  have "int (card (source_users t (source_of (w_db s) u))) = int (card (source_users s (source_of (w_db s) u))) - 1"
    by (simp add: source_of_frame [OF frame])
  with ex t(2) show eq: "counter_get (w_srcImports t) (source_of (w_db s) u) = int (card (source_users t (source_of (w_db s) u))) + 1"
    by (simp add: counters_exact_def only_queue_def)
  then show "\<not> counters_exact t" by (auto simp: counters_exact_def intro!: exI [of _ "source_of (w_db s) u"])
qed

text \<open>
  Cancelling an entry that is importing takes it out of the importing entries and leaves the
  counters as they are: exact counters are no longer exact, and as no later report of the cancelled
  entry is accepted, its slot is not given back.
\<close>

theorem cancel_leaks_import:
  assumes run: "queue_cancel u s = (Inr r, t)" and q: "queue_map s u = Some q" "importing q" and ex: "counters_exact s"
  shows "\<not> counters_exact t \<and> counter_get (w_srcImports t) (source_of (w_db s) u) =
      int (card (source_users t (source_of (w_db s) u))) + 1 \<and>
    (\<exists>e t'. process_worker_update x u resp t = (Inl e, t'))"
proof -
  obtain q' c where r: "r = (q', c)" by (cases r)
  from run [unfolded r] show ?thesis
  proof (rule queue_cancel_effect)
    fix p assume p: "queue_map s u = Some p"
      "q' = p\<lparr>q_MigrationStatus := MIGRATIONSTATUS_CANCELED, q_ImportStage := IMPORTSTAGE_BACKGROUND, q_MigrationWindowName := None\<rparr>"
      "queue_map t = (queue_map s)(u \<mapsto> q')" and only: "only_queue s t"
    have pq: "p = q" using p(1) q(1) by simp
    have "\<not> importing q'" by (simp add: p(2) importing_def)
    note leak = uncounted_end_leaks [OF p(3) only q this ex]
    have "\<exists>e t'. process_worker_update x u resp t = (Inl e, t')"
    proof (cases "process_worker_update x u resp t")
      case (Pair res t')
      have "queue_map t u = Some q'" "\<not> is_migrating q'" by (simp_all add: p(2,3) is_migrating_def)
      then have "res \<noteq> Inr a" for a
        using Pair by (auto simp: process_worker_update_def tx_do_ok bindm_ok andthen_ok wrap_err_ok queue_repo_get_ok fail_if_ok
            split: if_splits)
      with Pair show ?thesis by (cases res) auto
    qed
    with leak show ?thesis by blast
  qed
qed

lemma queue_map_row: "queue_map s u = Some q \<Longrightarrow> \<exists>r. tb_get qr_key (db_queue (w_db s)) u = Some r"
  by (auto simp: queue_map_def queue_lookup_def)

lemma queue_cancel_runs:
  assumes q: "queue_map s u = Some q" "q_MigrationStatus q \<noteq> MIGRATIONSTATUS_FINISHED"
    and b: "tb_get b_Name (db_batches (w_db s)) (q_BatchName q) = Some b"
  shows "\<exists>r t. queue_cancel u s = (Inr r, t)"
  using q b queue_map_key [OF q(1)] queue_map_row [OF q(1)]
  by (cases "w_intx s") (auto simp: queue_cancel_def ok_run queue_update_status_def queue_repo_update_ok Let_def)

lemma db_frame_batches: "db_frame s t \<Longrightarrow> db_batches (w_db t) = db_batches (w_db s)"
  unfolding db_frame_def by (metis db.select_convs(5) db.surjective db.update_convs(9))

theorem cancel_leaks_import_witness:
  "\<exists>s r t. queue_cancel 7 s = (Inr r, t) \<and> counters_exact s \<and> \<not> counters_exact t"
proof -
  let ?s = "sample_world [] sample_entry"
  obtain c t where run: "new_worker_command plain_ext 7 ?s = (Inr c, t)"
    and c: "wk_Command c = WORKERCOMMAND_IMPORT_DISKS" using sample_first_command [of "[]"] by auto
  have ids: "window_ids_unique (w_db ?s)" by simp
  have "counters_exact ?s" by (rule sample_counters) (simp add: importing_def)
  with import_step_exact [OF import_step.command [OF run] ids] have ex: "counters_exact t" by simp
  from queue_step_effect [OF queue_step.command [OF run] ids] have frame: "db_frame ?s t" by simp
  from run ids obtain q where q: "queue_map t 7 = Some q" "importing q" "q_BatchName q = ''b1''"
  proof (cases rule: new_worker_command_cases)
    case (restart q)
    then show ?thesis by simp
  next
    case (idle q i src d s')
    then show ?thesis using decides_status [OF idle(5,2)] c by (intro that [of "stored ?s (decided q d)"]) (auto simp: importing_def)
  qed
  have "q_MigrationStatus q \<noteq> MIGRATIONSTATUS_FINISHED" using q(2) by (auto simp: importing_def)
  from queue_cancel_runs [OF q(1) this] obtain r t' where cancel: "queue_cancel 7 t = (Inr r, t')"
    using db_frame_batches [OF frame] q(3) by auto
  from cancel_leaks_import [OF cancel q(1,2) ex] cancel ex show ?thesis by blast
qed

end
