(* ===== verification/Batch_Properties.thy ===== *)
theory Batch_Properties
  imports Accounting
begin

text \<open>
  The batches' life: assignment of instances, start, reset, deletion, what may change while a batch
  runs, and that a failed operation leaves the database as it was.
\<close>

section \<open>Failed operations\<close>

definition rolls_back :: "'a wm \<Rightarrow> world \<Rightarrow> bool" where
  "rolls_back m s \<longleftrightarrow> (case m s of (Inl e, t) \<Rightarrow> w_db t = w_db s | (Inr a, t) \<Rightarrow> True)"

lemma rolls_back_tx: "w_intx s = False \<Longrightarrow> rolls_back (tx_do f) s"
  by (simp add: rolls_back_def tx_do_def split: prod.split sum.split)

lemma rolls_back_throw: "rolls_back (throw e) s"
  by (simp add: rolls_back_def throw_run)

lemma rolls_back_check: "rolls_back m s \<Longrightarrow> rolls_back (andthen (fail_on r) m) s" "rolls_back m s \<Longrightarrow> rolls_back (andthen (fail_if c e) m) s"
  by (auto simp: rolls_back_def andthen_run fail_on_run fail_if_run split: prod.splits sum.splits option.splits)

lemmas rolls_back_rules = rolls_back_tx rolls_back_throw rolls_back_check



section \<open>Assignment of instances\<close>

lemma batch_repo_unassign_effect:
  "batch_repo_unassign n u s = (Inr v, t) \<Longrightarrow>
   w_db t = (w_db s)\<lparr>db_assigned := filter (\<lambda>a. a \<noteq> (n, u)) (db_assigned (w_db s))\<rparr>"
  by (auto simp: batch_repo_unassign_def batch_repo_get_def lookup_ok force_tx_def wm_ok throw_run split: if_splits)

lemma batch_repo_assign_effect:
  "batch_repo_assign n u s = (Inr v, t) \<Longrightarrow>
   w_db t = (w_db s)\<lparr>db_assigned := db_assigned (w_db s) @ [(n, u)]\<rparr>"
  by (auto simp: batch_repo_assign_def batch_repo_get_def lookup_ok force_tx_def wm_ok throw_run split: if_splits)

abbreviation matching :: "ext \<Rightarrow> batch \<Rightarrow> inst \<Rightarrow> err + bool" where
  "matching x b i \<equiv> matches_criteria x i (b_IncludeExpression b) False"

text \<open>The members that stay, and the assignments that the first loop leaves.\<close>

lemma keep_members_effect:
  assumes "keep_members x b is acc s = (Inr acc', t)"
  shows "acc' = acc \<union> i_UUID ` {i \<in> set is. matching x b i = Inr True} \<and>
    (\<forall>i \<in> set is. matching x b i = Inr True \<or> matching x b i = Inr False) \<and>
    w_db t = (w_db s)\<lparr>db_assigned := filter (\<lambda>a. a \<notin> (\<lambda>i. (b_Name b, i_UUID i)) ` {i \<in> set is. matching x b i = Inr False})
      (db_assigned (w_db s))\<rparr>"
  using assms
proof (induction "is" arbitrary: acc s)
  case Nil
  then show ?case by (simp add: ret_ok)
next
  case (Cons i "is")
  from Cons.prems obtain m where m: "matching x b i = Inr m"
    and rest: "(if m then keep_members x b is (insert (i_UUID i) acc)
       else andthen (wrap_err (\<lambda>e. Errorf ''Failed to unassign instance %q from batch: %w''
                       [AStr (ip_Location (i_Properties i)), AWrap e])
                     (batch_repo_unassign (b_Name b) (i_UUID i)))
              (keep_members x b is acc)) s = (Inr acc', t)"
    by (auto simp: bindm_ok lift_match_def lift_ok)
  show ?case
  proof (cases m)
    case True
    with rest have "keep_members x b is (insert (i_UUID i) acc) s = (Inr acc', t)" by simp
    note ih = Cons.IH [OF this]
    have "{j \<in> set (i # is). matching x b j = Inr False} = {j \<in> set is. matching x b j = Inr False}" using m True by auto
    with ih m True show ?thesis by auto
  next
    case False
    with rest obtain v s1 where "batch_repo_unassign (b_Name b) (i_UUID i) s = (Inr v, s1)"
      and r: "keep_members x b is acc s1 = (Inr acc', t)" by (auto simp: andthen_ok wrap_err_ok)
    from batch_repo_unassign_effect [OF this(1)] have db: "w_db s1 =
        (w_db s)\<lparr>db_assigned := filter (\<lambda>a. a \<noteq> (b_Name b, i_UUID i)) (db_assigned (w_db s))\<rparr>" .
    note ih = Cons.IH [OF r]
    have set: "{j \<in> set (i # is). matching x b j = Inr False} = insert i {j \<in> set is. matching x b j = Inr False}"
      using m False by auto
    have "w_db t = (w_db s)\<lparr>db_assigned := filter (\<lambda>a. a \<notin> (\<lambda>i. (b_Name b, i_UUID i)) ` {j \<in> set (i # is). matching x b j = Inr False})
      (db_assigned (w_db s))\<rparr>"
      unfolding set using ih db by (auto intro!: arg_cong [where f = "\<lambda>as. (w_db s)\<lparr>db_assigned := as\<rparr>"] filter_cong)
    with ih m False show ?thesis by auto
  qed
qed

lemma join_members_effect:
  assumes "for_each is (join_member x b acc) s = (Inr v, t)"
  shows "(\<forall>i \<in> set is. matching x b i = Inr True \<or> matching x b i = Inr False) \<and>
    (\<exists>new. set new = (\<lambda>i. (b_Name b, i_UUID i)) ` {i \<in> set is. matching x b i = Inr True \<and> i_UUID i \<notin> acc} \<and>
       w_db t = (w_db s)\<lparr>db_assigned := db_assigned (w_db s) @ new\<rparr>)"
  using assms
proof (induction "is" arbitrary: s)
  case Nil
  then show ?case by (auto simp: ret_ok)
next
  case (Cons i "is")
  from Cons.prems obtain s1 u where step: "join_member x b acc i s = (Inr u, s1)"
    and rest: "for_each is (join_member x b acc) s1 = (Inr v, t)"
    by (auto simp: andthen_ok)
  from step obtain m where m: "matching x b i = Inr m"
    and first: "(if m \<and> i_UUID i \<notin> acc
       then wrap_err (\<lambda>e. Errorf ''Failed to assign instance %q to batch: %w''
              [AStr (ip_Location (i_Properties i)), AWrap e])
            (batch_repo_assign (b_Name b) (i_UUID i))
       else ret ()) s = (Inr u, s1)"
    unfolding join_member_def by (auto simp: bindm_ok lift_match_def lift_ok)
  note ih = Cons.IH [OF rest]
  show ?case
  proof (cases "m \<and> i_UUID i \<notin> acc")
    case True
    with first have "batch_repo_assign (b_Name b) (i_UUID i) s = (Inr u, s1)" by (simp add: wrap_err_ok)
    note db = batch_repo_assign_effect [OF this]
    from ih obtain new where new: "set new = (\<lambda>i. (b_Name b, i_UUID i)) ` {i \<in> set is. matching x b i = Inr True \<and> i_UUID i \<notin> acc}"
      "w_db t = (w_db s1)\<lparr>db_assigned := db_assigned (w_db s1) @ new\<rparr>" by blast
    with ih db m True show ?thesis by (auto intro!: exI [of _ "(b_Name b, i_UUID i) # new"])
  next
    case False
    with first have "s1 = s" by (auto simp: ret_ok)
    moreover have "{j \<in> set (i # is). matching x b j = Inr True \<and> i_UUID j \<notin> acc} =
        {j \<in> set is. matching x b j = Inr True \<and> i_UUID j \<notin> acc}" using m False by auto
    ultimately show ?thesis using ih m by auto
  qed
qed

end
