(* ===== verification/Catalog_Repo.thy ===== *)
theory Catalog_Repo
  imports Queue_Base
begin

text \<open>
  The repositories of sources, targets, networks, warnings and artifacts
  (\<^verbatim>\<open>internal/migration/repo/sqlite\<close> and its entity mappers), in the manner of \<open>Repo\<close>: the rows a query
  returns in their order, what a statement changes, and the constraints of the schema.
\<close>

section \<open>Sources and targets\<close>

definition source_repo_create :: "source \<Rightarrow> int wm" where
  "source_repo_create s =
     bindm (dbget id) (\<lambda>d.
     if tb_get src_Name (db_sources d) (src_Name s) \<noteq> None then throw (Sentinel ErrConstraintViolation)
     else andthen (dbmod (\<lambda>d. d\<lparr>db_sources := tb_insert (s\<lparr>src_ID := db_seq d\<rparr>) (db_sources d), db_seq := db_seq d + 1\<rparr>))
            (ret (db_seq d)))"

definition source_repo_get_all :: "source_type list \<Rightarrow> source list wm" where
  "source_repo_get_all tys =
     dbget (\<lambda>d. filter (\<lambda>s. tys = [] \<or> src_SourceType s \<in> set tys) (sort_key src_Name (db_sources d)))"

definition source_repo_get_all_names :: "source_type list \<Rightarrow> string list wm" where
  "source_repo_get_all_names tys =
     dbget (\<lambda>d. map src_Name (filter (\<lambda>s. tys = [] \<or> src_SourceType s \<in> set tys) (sort_key src_Name (db_sources d))))"

text \<open>Instances and networks refer to their source by id, so a new name and type show in them.\<close>

definition rename_source :: "string \<Rightarrow> source \<Rightarrow> db \<Rightarrow> db" where
  "rename_source old s d =
     d\<lparr>db_instances := map (\<lambda>i. if i_Source i = old then i\<lparr>i_Source := src_Name s, i_SourceType := src_SourceType s\<rparr> else i)
         (db_instances d),
       db_networks := map (\<lambda>n. if n_Source n = old then n\<lparr>n_Source := src_Name s\<rparr> else n) (db_networks d)\<rparr>"

definition source_repo_update :: "string \<Rightarrow> source \<Rightarrow> unit wm" where
  "source_repo_update name s =
     force_tx (bindm (dbget id) (\<lambda>d.
       case tb_get src_Name (db_sources d) name of
         None \<Rightarrow> throw (Sentinel ErrNotFound)
       | Some old \<Rightarrow>
           if src_Name s \<noteq> name \<and> tb_get src_Name (db_sources d) (src_Name s) \<noteq> None
           then throw (constraint_err ''UNIQUE constraint failed'')
           else dbmod (\<lambda>d. rename_source name s
                  (d\<lparr>db_sources := tb_update src_Name name (s\<lparr>src_ID := src_ID old\<rparr>) (db_sources d)\<rparr>))))"

text \<open>Networks go with their source; instances keep it from being deleted.\<close>

definition source_repo_delete :: "string \<Rightarrow> unit wm" where
  "source_repo_delete name =
     bindm (dbget id) (\<lambda>d.
     case tb_get src_Name (db_sources d) name of
       None \<Rightarrow> throw (Sentinel ErrNotFound)
     | Some _ \<Rightarrow>
         if \<exists>i \<in> set (db_instances d). i_Source i = name then throw (constraint_err ''FOREIGN KEY constraint failed'')
         else dbmod (\<lambda>d. d\<lparr>db_sources := tb_delete src_Name name (db_sources d),
                db_networks := filter (\<lambda>n. n_Source n \<noteq> name) (db_networks d)\<rparr>))"

definition target_repo_create :: "target \<Rightarrow> int wm" where
  "target_repo_create t =
     bindm (dbget id) (\<lambda>d.
     if tb_get tgt_Name (db_targets d) (tgt_Name t) \<noteq> None then throw (Sentinel ErrConstraintViolation)
     else andthen (dbmod (\<lambda>d. d\<lparr>db_targets := tb_insert (t\<lparr>tgt_ID := db_seq d\<rparr>) (db_targets d), db_seq := db_seq d + 1\<rparr>))
            (ret (db_seq d)))"

definition target_repo_get_all :: "target list wm" where
  "target_repo_get_all = dbget (\<lambda>d. sort_key tgt_Name (db_targets d))"

definition target_repo_get_all_names :: "string list wm" where
  "target_repo_get_all_names = dbget (\<lambda>d. map tgt_Name (sort_key tgt_Name (db_targets d)))"

definition target_repo_update :: "string \<Rightarrow> target \<Rightarrow> unit wm" where
  "target_repo_update name t =
     force_tx (bindm (dbget id) (\<lambda>d.
       case tb_get tgt_Name (db_targets d) name of
         None \<Rightarrow> throw (Sentinel ErrNotFound)
       | Some old \<Rightarrow>
           if tgt_Name t \<noteq> name \<and> tb_get tgt_Name (db_targets d) (tgt_Name t) \<noteq> None
           then throw (constraint_err ''UNIQUE constraint failed'')
           else dbmod (\<lambda>d. d\<lparr>db_targets := tb_update tgt_Name name (t\<lparr>tgt_ID := tgt_ID old\<rparr>) (db_targets d)\<rparr>)))"

text \<open>Nothing in the schema refers to a target: placements name it in their JSON text.\<close>

definition target_repo_delete :: "string \<Rightarrow> unit wm" where
  "target_repo_delete name =
     bindm (dbget (\<lambda>d. tb_get tgt_Name (db_targets d) name)) (\<lambda>r.
     case r of
       None \<Rightarrow> throw (Sentinel ErrNotFound)
     | Some _ \<Rightarrow> dbmod (\<lambda>d. d\<lparr>db_targets := tb_delete tgt_Name name (db_targets d)\<rparr>))"

section \<open>Networks\<close>

definition network_clash :: "network \<Rightarrow> network \<Rightarrow> bool" where
  "network_clash n m \<longleftrightarrow> n_UUID m = n_UUID n \<or> n_key m = n_key n"

definition network_repo_create :: "network \<Rightarrow> int wm" where
  "network_repo_create n =
     bindm (dbget id) (\<lambda>d.
     if tb_get src_Name (db_sources d) (n_Source n) = None then throw (constraint_err ''NOT NULL constraint failed'')
     else if \<exists>m \<in> set (db_networks d). network_clash n m then throw (Sentinel ErrConstraintViolation)
     else andthen (dbmod (\<lambda>d. d\<lparr>db_networks := tb_insert (n\<lparr>n_ID := db_seq d\<rparr>) (db_networks d), db_seq := db_seq d + 1\<rparr>))
            (ret (db_seq d)))"

definition network_repo_get :: "string \<Rightarrow> string \<Rightarrow> network wm" where
  "network_repo_get sid src = bindm (dbget (\<lambda>d. tb_get n_key (db_networks d) (sid, src))) found"

definition network_repo_get_by_uuid :: "uuid \<Rightarrow> network wm" where
  "network_repo_get_by_uuid u = bindm (dbget (\<lambda>d. find (\<lambda>n. n_UUID n = u) (db_networks d))) found"

definition network_repo_update :: "network \<Rightarrow> unit wm" where
  "network_repo_update n =
     force_tx (bindm (dbget id) (\<lambda>d.
       case tb_get n_key (db_networks d) (n_key n) of
         None \<Rightarrow> throw (Sentinel ErrNotFound)
       | Some old \<Rightarrow>
           if \<exists>m \<in> set (db_networks d). n_key m \<noteq> n_key n \<and> n_UUID m = n_UUID n
           then throw (constraint_err ''UNIQUE constraint failed'')
           else dbmod (\<lambda>d. d\<lparr>db_networks := tb_update n_key (n_key n) (n\<lparr>n_ID := n_ID old\<rparr>) (db_networks d)\<rparr>)))"

definition network_repo_delete :: "string \<Rightarrow> string \<Rightarrow> unit wm" where
  "network_repo_delete sid src =
     bindm (dbget (\<lambda>d. tb_get n_key (db_networks d) (sid, src))) (\<lambda>r.
     case r of
       None \<Rightarrow> throw (Sentinel ErrNotFound)
     | Some _ \<Rightarrow> dbmod (\<lambda>d. d\<lparr>db_networks := tb_delete n_key (sid, src) (db_networks d)\<rparr>))"

section \<open>Warnings\<close>

text \<open>A warning is unique by its type and what it is about.\<close>

definition wn_key :: "warning \<Rightarrow> string \<times> string \<times> string \<times> string" where
  "wn_key w = (wn_Type w, wn_Scope w, wn_EntityType w, wn_Entity w)"

definition warning_repo_get_all :: "warnings wm" where
  "warning_repo_get_all = dbget (\<lambda>d. sort_key wn_UUID (db_warnings d))"

definition warning_repo_get :: "uuid \<Rightarrow> warning wm" where
  "warning_repo_get u = bindm (dbget (\<lambda>d. tb_get wn_UUID (db_warnings d) u)) found"

definition warning_repo_get_by_scope_and_type :: "warning_scope \<Rightarrow> warning_type \<Rightarrow> warnings wm" where
  "warning_repo_get_by_scope_and_type sc ty =
     (if ty = '''' \<or> ws_EntityType sc = '''' \<and> ws_Entity sc \<noteq> ''''
      then throw (Errorf ''Invalid scope. Requires warning type and entity type'' [])
      else if ws_Scope sc = '''' \<and> ws_EntityType sc \<noteq> ''''
      then throw (ExternalErr ''No statement exists for the given Filter'')
      else dbget (\<lambda>d. filter (\<lambda>w. wn_Type w = ty \<and> (ws_Scope sc = '''' \<or> wn_Scope w = ws_Scope sc) \<and>
             (ws_EntityType sc = '''' \<or> wn_EntityType w = ws_EntityType sc) \<and>
             (ws_Entity sc = '''' \<or> wn_Entity w = ws_Entity sc)) (sort_key wn_UUID (db_warnings d))))"

definition warning_repo_update :: "uuid \<Rightarrow> warning \<Rightarrow> unit wm" where
  "warning_repo_update u w =
     force_tx (bindm (dbget id) (\<lambda>d.
       case tb_get wn_UUID (db_warnings d) u of
         None \<Rightarrow> throw (Sentinel ErrNotFound)
       | Some old \<Rightarrow>
           if \<exists>v \<in> set (db_warnings d). wn_UUID v \<noteq> u \<and> (wn_UUID v = wn_UUID w \<or> wn_key v = wn_key w)
           then throw (constraint_err ''UNIQUE constraint failed'')
           else dbmod (\<lambda>d. d\<lparr>db_warnings := tb_update wn_UUID u (w\<lparr>wn_ID := wn_ID old\<rparr>) (db_warnings d)\<rparr>)))"

text \<open>\<open>INSERT OR REPLACE\<close>: every row the new one would conflict with goes.\<close>

definition warning_repo_upsert :: "warning \<Rightarrow> int wm" where
  "warning_repo_upsert w =
     bindm (dbget db_seq) (\<lambda>n.
     andthen (dbmod (\<lambda>d. d\<lparr>db_warnings := tb_insert (w\<lparr>wn_ID := n\<rparr>)
                (filter (\<lambda>v. wn_UUID v \<noteq> wn_UUID w \<and> wn_key v \<noteq> wn_key w) (db_warnings d)), db_seq := n + 1\<rparr>))
       (ret n))"

definition warning_repo_delete :: "uuid \<Rightarrow> unit wm" where
  "warning_repo_delete u =
     bindm (dbget (\<lambda>d. tb_get wn_UUID (db_warnings d) u)) (\<lambda>r.
     case r of
       None \<Rightarrow> throw (Sentinel ErrNotFound)
     | Some _ \<Rightarrow> dbmod (\<lambda>d. d\<lparr>db_warnings := tb_delete wn_UUID u (db_warnings d)\<rparr>))"

section \<open>Artifacts\<close>

text \<open>The time of the last update is written by the repository, in whole seconds; files are not in the database.\<close>

definition whole_seconds :: "time \<Rightarrow> time" where
  "whole_seconds t = t div second * second"

definition artifact_row :: "time \<Rightarrow> int \<Rightarrow> artifact \<Rightarrow> artifact" where
  "artifact_row now n a = a\<lparr>af_ID := n, af_LastUpdated := whole_seconds now, af_Files := []\<rparr>"

definition artifact_repo_create :: "time \<Rightarrow> artifact \<Rightarrow> int wm" where
  "artifact_repo_create now a =
     bindm (dbget id) (\<lambda>d.
     if tb_get af_UUID (db_artifacts d) (af_UUID a) \<noteq> None then throw (Sentinel ErrConstraintViolation)
     else andthen (dbmod (\<lambda>d. d\<lparr>db_artifacts := tb_insert (artifact_row now (db_seq d) a) (db_artifacts d), db_seq := db_seq d + 1\<rparr>))
            (ret (db_seq d)))"

definition artifact_repo_get_all :: "artifacts wm" where
  "artifact_repo_get_all = dbget (\<lambda>d. sort_key af_UUID (db_artifacts d))"

definition artifact_repo_get_all_by_type :: "artifact_type \<Rightarrow> artifacts wm" where
  "artifact_repo_get_all_by_type ty = dbget (\<lambda>d. filter (\<lambda>a. af_Type a = ty) (sort_key af_UUID (db_artifacts d)))"

definition artifact_repo_get :: "uuid \<Rightarrow> artifact wm" where
  "artifact_repo_get u = bindm (dbget (\<lambda>d. tb_get af_UUID (db_artifacts d) u)) found"

definition artifact_repo_update :: "time \<Rightarrow> uuid \<Rightarrow> artifact \<Rightarrow> unit wm" where
  "artifact_repo_update now u a =
     force_tx (bindm (dbget id) (\<lambda>d.
       case tb_get af_UUID (db_artifacts d) u of
         None \<Rightarrow> throw (Sentinel ErrNotFound)
       | Some old \<Rightarrow>
           if af_UUID a \<noteq> u \<and> tb_get af_UUID (db_artifacts d) (af_UUID a) \<noteq> None
           then throw (constraint_err ''UNIQUE constraint failed'')
           else dbmod (\<lambda>d. d\<lparr>db_artifacts := tb_update af_UUID u (artifact_row now (af_ID old) a) (db_artifacts d)\<rparr>)))"

definition artifact_repo_delete :: "uuid \<Rightarrow> unit wm" where
  "artifact_repo_delete u =
     bindm (dbget (\<lambda>d. tb_get af_UUID (db_artifacts d) u)) (\<lambda>r.
     case r of
       None \<Rightarrow> throw (Sentinel ErrNotFound)
     | Some _ \<Rightarrow> dbmod (\<lambda>d. d\<lparr>db_artifacts := tb_delete af_UUID u (db_artifacts d)\<rparr>))"

end
