(* ===== verification/Catalog_Service.thy ===== *)
theory Catalog_Service
  imports Catalog_Repo
begin

text \<open>
  The services of sources, targets and networks (\<^verbatim>\<open>internal/migration/source_service.go\<close>,
  \<^verbatim>\<open>source_vrops.go\<close>, \<^verbatim>\<open>target_service.go\<close>, \<^verbatim>\<open>network_service.go\<close>). The endpoint a source or target
  is checked against is outside: it is given by the function that opens it, and what its calls answer.
\<close>

section \<open>Connectivity\<close>

record source_endpoint =
  se_Connect :: "err option"
  se_Check :: "external_status \<times> string option"

record target_endpoint = source_endpoint +
  te_WaitingOIDC :: bool

text \<open>\<open>ep\<close> is the function to open the endpoint, if there is one.\<close>

definition update_source_connectivity ::
    "ext \<Rightarrow> (api_source \<Rightarrow> err + source_endpoint) option \<Rightarrow> source \<Rightarrow> err + source" where
  "update_source_connectivity x ep src =
     (if source_status x src = EXTERNALCONNECTIVITYSTATUS_OK then Inr src
      else case ep of
        None \<Rightarrow> Inl (Errorf ''Endpoint function not defined for Source %q'' [AStr (src_Name src)])
      | Some f \<Rightarrow>
          (case f (source_to_api src) of
             Inl e \<Rightarrow> Inl e
           | Inr p \<Rightarrow>
               (let (status, untrusted) = se_Check p;
                    src1 = (case untrusted of None \<Rightarrow> src | Some raw \<Rightarrow> set_source_certificate x raw src)
                in if status = EXTERNALCONNECTIVITYSTATUS_TLS_CONFIRM_FINGERPRINT then Inr (set_source_status x status src1)
                   else if status \<noteq> EXTERNALCONNECTIVITYSTATUS_OK then Inr (set_source_status x status src1)
                   else Inr (set_source_status x (map_external_status (x_conn_kind x) (se_Connect p)) src1))))"

definition update_target_connectivity ::
    "ext \<Rightarrow> (api_target \<Rightarrow> err + target_endpoint) option \<Rightarrow> target \<Rightarrow> err + target" where
  "update_target_connectivity x ep tgt =
     (if target_status x tgt = EXTERNALCONNECTIVITYSTATUS_OK then Inr tgt
      else case ep of
        None \<Rightarrow> Inl (Errorf ''Endpoint function not defined for Target %q'' [AStr (tgt_Name tgt)])
      | Some f \<Rightarrow>
          (case f (target_to_api tgt) of
             Inl e \<Rightarrow> Inl e
           | Inr p \<Rightarrow>
               (let (status, untrusted) = se_Check p;
                    tgt1 = (case untrusted of
                              Some raw \<Rightarrow> if target_certificate x tgt = None then set_target_certificate x raw tgt else tgt
                            | None \<Rightarrow> tgt)
                in if status = EXTERNALCONNECTIVITYSTATUS_TLS_CONFIRM_FINGERPRINT then Inr (set_target_status x status tgt1)
                   else if status \<noteq> EXTERNALCONNECTIVITYSTATUS_OK then Inr (set_target_status x status tgt1)
                   else if te_WaitingOIDC p then Inr (set_target_status x EXTERNALCONNECTIVITYSTATUS_WAITING_OIDC tgt1)
                   else Inr (set_target_status x (map_external_status (x_conn_kind x) (se_Connect p)) tgt1))))"

section \<open>Sources\<close>

definition source_create :: "ext \<Rightarrow> (api_source \<Rightarrow> err + source_endpoint) option \<Rightarrow> source \<Rightarrow> source wm" where
  "source_create x ep s0 =
     bindm (lift (source_set_defaults x s0)) (\<lambda>s1.
     andthen (fail_on (source_validate x s1))
      (bindm (lift (update_source_connectivity x ep s1)) (\<lambda>s2.
       bindm (source_repo_create s2) (\<lambda>n. ret (s2\<lparr>src_ID := n\<rparr>)))))"

text \<open>Which instances a source has, provided that none is in an active batch.\<close>

definition can_be_modified :: "string \<Rightarrow> uuid list wm" where
  "can_be_modified sourceName =
     bindm (wrap_err (\<lambda>e. Errorf ''Failed to get instances for source %q: %w'' [AStr sourceName, AWrap e])
             (instance_repo_get_uuids_by_source sourceName)) (\<lambda>us.
     andthen (for_each us (\<lambda>u. bindm (instance_repo_get_batches u) (\<lambda>bs.
        fail_if (\<exists>b \<in> set bs. b_Status b \<noteq> BATCHSTATUS_DEFINED \<and> b_Status b \<noteq> BATCHSTATUS_FINISHED)
          (Errorf ''Instance %q cannot be modified because it is part of an active batch'' [AUuid u]))))
      (ret us))"

definition trim_slashes :: "string \<Rightarrow> string" where
  "trim_slashes s = rev (dropWhile is_slash (rev s))"

definition vrops_source_replacement :: "ext \<Rightarrow> string \<Rightarrow> source \<Rightarrow> string wm" where
  "vrops_source_replacement x name s =
     bindm (source_repo_get name) (\<lambda>previous.
     bindm (lift (get_vrops_properties x previous)) (\<lambda>(_, oldProps).
     bindm (lift (get_vrops_properties x s)) (\<lambda>(_, newProps).
     ret (if trim_slashes (vr_Endpoint oldProps) \<noteq> trim_slashes (vr_Endpoint newProps) then '''' else src_Name s))))"

definition set_monitoring_source :: "string \<Rightarrow> inst \<Rightarrow> inst" where
  "set_monitoring_source newName i =
     i\<lparr>i_Properties := (i_Properties i)\<lparr>ip_Monitoring :=
        (if newName = '''' then None else map_option (\<lambda>m. m\<lparr>m_Source := newName\<rparr>) (ip_Monitoring (i_Properties i)))\<rparr>\<rparr>"

definition update_vrops_monitoring_source :: "ext \<Rightarrow> string \<Rightarrow> string \<Rightarrow> unit wm" where
  "update_vrops_monitoring_source x oldName newName =
     bindm instance_repo_get_all (\<lambda>all. for_each all (\<lambda>i.
       case ip_Monitoring (i_Properties i) of
         None \<Rightarrow> ret ()
       | Some m \<Rightarrow> if m_Source m \<noteq> oldName then ret ()
           else instance_update x (set_monitoring_source newName i) True))"

text \<open>Some callers pass no instance service (\<open>withInstances\<close> false), which skips all checks on instances.\<close>

definition source_update ::
    "ext \<Rightarrow> (api_source \<Rightarrow> err + source_endpoint) option \<Rightarrow> string \<Rightarrow> source \<Rightarrow> bool \<Rightarrow> source wm" where
  "source_update x ep name s0 withInstances =
     bindm (lift (source_set_defaults x s0)) (\<lambda>s1.
     andthen (fail_on (source_validate x s1))
      (bindm (lift (update_source_connectivity x ep (set_source_status x EXTERNALCONNECTIVITYSTATUS_UNKNOWN s1))) (\<lambda>s2.
       andthen (tx_do (
         bindm (if withInstances
                then andthen (wrap_err (\<lambda>e. Errorf ''Unable to update source %q: %w'' [AStr (src_Name s2), AWrap e])
                                (can_be_modified name))
                       (if src_SourceType s2 = SOURCETYPE_VROPS then vrops_source_replacement x name s2 else ret (src_Name s2))
                else ret (src_Name s2)) (\<lambda>monitoringName.
         andthen (source_repo_update name s2)
           (if withInstances \<and> src_SourceType s2 = SOURCETYPE_VROPS \<and> name \<noteq> monitoringName
            then update_vrops_monitoring_source x name monitoringName else ret ()))))
        (ret s2))))"

definition source_delete :: "ext \<Rightarrow> string \<Rightarrow> bool \<Rightarrow> unit wm" where
  "source_delete x name withInstances =
     (if name = '''' then throw (Errorf ''Source name cannot be empty: %w'' [AWrap (Sentinel ErrOperationNotPermitted)])
      else tx_do (
        andthen (if withInstances
          then bindm (source_repo_get name) (\<lambda>src.
               bindm (wrap_err (\<lambda>e. Errorf ''Unable to remove source %q: %w'' [AStr name, AWrap e]) (can_be_modified name)) (\<lambda>us.
               andthen (for_each us (\<lambda>u. wrap_err (\<lambda>e. Errorf ''Unable to remove instance %q for source %q: %w''
                          [AUuid u, AStr name, AWrap e]) (instance_delete x u)))
                 (if src_SourceType src = SOURCETYPE_VROPS then update_vrops_monitoring_source x name '''' else ret ())))
          else ret ())
        (source_repo_delete name)))"

section \<open>Targets\<close>

definition target_create :: "ext \<Rightarrow> (api_target \<Rightarrow> err + target_endpoint) option \<Rightarrow> target \<Rightarrow> target wm" where
  "target_create x ep t0 =
     andthen (fail_on (target_validate x t0))
      (bindm (lift (update_target_connectivity x ep t0)) (\<lambda>t1.
       bindm (target_repo_create t1) (\<lambda>n. ret (t1\<lparr>tgt_ID := n\<rparr>))))"

definition target_update ::
    "ext \<Rightarrow> (api_target \<Rightarrow> err + target_endpoint) option \<Rightarrow> string \<Rightarrow> target \<Rightarrow> target wm" where
  "target_update x ep name t0 =
     andthen (fail_on (target_validate x t0))
      (bindm (lift (update_target_connectivity x ep (set_target_status x EXTERNALCONNECTIVITYSTATUS_UNKNOWN t0))) (\<lambda>t1.
       andthen (target_repo_update name t1) (ret t1)))"

definition target_delete :: "string \<Rightarrow> unit wm" where
  "target_delete name =
     (if name = '''' then throw (Errorf ''Target name cannot be empty: %w'' [AWrap (Sentinel ErrOperationNotPermitted)])
      else target_repo_delete name)"

section \<open>Networks\<close>

definition network_create :: "ext \<Rightarrow> network \<Rightarrow> network wm" where
  "network_create x n =
     andthen (fail_on (network_validate x n)) (bindm (network_repo_create n) (\<lambda>k. ret (n\<lparr>n_ID := k\<rparr>)))"

definition network_names_err :: "string \<Rightarrow> string \<Rightarrow> err option" where
  "network_names_err name src = first_err
     [err_when (name = '''') (Errorf ''Network name cannot be empty: %w'' [AWrap (Sentinel ErrOperationNotPermitted)]),
      err_when (src = '''') (Errorf ''Network source cannot be empty: %w'' [AWrap (Sentinel ErrOperationNotPermitted)])]"

definition network_get :: "string \<Rightarrow> string \<Rightarrow> network wm" where
  "network_get name src = andthen (fail_on (network_names_err name src)) (network_repo_get name src)"

definition network_update :: "ext \<Rightarrow> network \<Rightarrow> unit wm" where
  "network_update x n = andthen (fail_on (network_validate x n)) (network_repo_update n)"

definition network_delete :: "string \<Rightarrow> string \<Rightarrow> unit wm" where
  "network_delete name src = andthen (fail_on (network_names_err name src)) (network_repo_delete name src)"

definition network_delete_by_uuid :: "uuid \<Rightarrow> unit wm" where
  "network_delete_by_uuid u =
     tx_do (bindm (wrap_err (\<lambda>e. Errorf ''Failed to get network by UUID %q: %w'' [AUuid u, AWrap e]) (network_repo_get_by_uuid u)) (\<lambda>n.
       network_repo_delete (n_SourceSpecificID n) (n_Source n)))"

end
