(* ===== verification/Warning_Service.thy ===== *)
theory Warning_Service
  imports Catalog_Repo
begin

text \<open>
  The warning service (\<^verbatim>\<open>internal/migration/warning_service.go\<close>): warnings of one kind about one
  thing are kept as one record, and a sync removes the messages it did not see again.
\<close>

definition warning_scope_of :: "warning \<Rightarrow> warning_scope" where
  "warning_scope_of w = \<lparr>ws_Scope = wn_Scope w, ws_EntityType = wn_EntityType w, ws_Entity = wn_Entity w\<rparr>"

text \<open>The new warning as it is stored, given the one of its kind that is already there.\<close>

definition merge_warning :: "time \<Rightarrow> warning option \<Rightarrow> warning \<Rightarrow> warning" where
  "merge_warning now old w =
     (case old of
        Some o1 \<Rightarrow> w\<lparr>wn_UUID := wn_UUID o1, wn_Count := wrap64 (wn_Count w + wn_Count o1),
            wn_FirstSeenDate := wn_FirstSeenDate o1, wn_LastSeenDate := wn_UpdatedDate o1,
            wn_Messages := filter (\<lambda>m. m \<notin> set (wn_Messages w)) (wn_Messages o1) @ wn_Messages w,
            wn_UpdatedDate := now\<rparr>
      | None \<Rightarrow> w\<lparr>wn_FirstSeenDate := now, wn_LastSeenDate := now, wn_UpdatedDate := now\<rparr>)"

definition warning_emit :: "ext \<Rightarrow> warning \<Rightarrow> warning wm" where
  "warning_emit x w =
     andthen (fail_on (warning_validate w))
      (tx_do (bindm (warning_repo_get_by_scope_and_type (warning_scope_of w) (wn_Type w)) (\<lambda>olds.
        andthen (fail_if (1 < length olds)
                  (Errorf ''Invalid warning state for scope {%s %s %s}''
                     [AStr (wn_Scope w), AStr (wn_EntityType w), AStr (wn_Entity w)]))
         (let w' = merge_warning (x_now x) (case olds of [] \<Rightarrow> None | o1 # _ \<Rightarrow> Some o1) w
          in bindm (warning_repo_upsert w') (\<lambda>n. ret (w'\<lparr>wn_ID := n\<rparr>))))))"

text \<open>The messages, by type, of the warnings of a scope.\<close>

definition seen_message :: "warning_scope \<Rightarrow> warnings \<Rightarrow> warning_type \<Rightarrow> string \<Rightarrow> bool" where
  "seen_message sc news ty m \<longleftrightarrow>
     (\<exists>w \<in> set news. warning_scope_match sc (warning_to_api w) \<and> wn_Type w = ty \<and> m \<in> set (wn_Messages w))"

definition prune_warning :: "warning_scope \<Rightarrow> warnings \<Rightarrow> warning \<Rightarrow> unit wm" where
  "prune_warning sc news w =
     (if \<not> warning_scope_match sc (warning_to_api w) then ret ()
      else let seen = filter (seen_message sc news (wn_Type w)) (wn_Messages w) in
        if seen = [] then wrap_err (\<lambda>e. Errorf ''Failed to delete stale warning: %w'' [AWrap e]) (warning_repo_delete (wn_UUID w))
        else if wn_Messages w \<noteq> seen
        then wrap_err (\<lambda>e. Errorf ''Failed to prune stale warning messages: %w'' [AWrap e])
               (warning_repo_update (wn_UUID w) (w\<lparr>wn_Messages := seen\<rparr>))
        else ret ())"

definition warning_remove_stale :: "warning_scope \<Rightarrow> warnings \<Rightarrow> unit wm" where
  "warning_remove_stale sc news =
     tx_do (bindm (wrap_err (\<lambda>e. Errorf ''Failed to get all warnings: %w'' [AWrap e]) warning_repo_get_all) (\<lambda>all.
       for_each all (prune_warning sc news)))"

definition warning_update :: "uuid \<Rightarrow> warning \<Rightarrow> unit wm" where
  "warning_update u w = warning_repo_update u w"

definition warning_update_status :: "ext \<Rightarrow> uuid \<Rightarrow> warning_status \<Rightarrow> warning wm" where
  "warning_update_status x u st =
     tx_do (bindm (warning_repo_get u) (\<lambda>w.
       let w' = w\<lparr>wn_Status := st, wn_LastSeenDate := wn_UpdatedDate w, wn_UpdatedDate := x_now x\<rparr>
       in andthen (warning_repo_update (wn_UUID w) w') (ret w')))"

definition warning_delete :: "uuid \<Rightarrow> unit wm" where
  "warning_delete u = warning_repo_delete u"

section \<open>The table of warnings\<close>

text \<open>What the schema guarantees and every operation keeps: UUIDs and keys are unique.\<close>

definition warnings_ok :: "warnings \<Rightarrow> bool" where
  "warnings_ok ws \<longleftrightarrow> distinct (map wn_UUID ws) \<and> distinct (map wn_key ws)"

text \<open>The warning of a key.\<close>

definition warning_of :: "warnings \<Rightarrow> string \<times> string \<times> string \<times> string \<Rightarrow> warning option" where
  "warning_of ws k = tb_get wn_key ws k"

lemma warnings_ok_filter: "warnings_ok ws \<Longrightarrow> warnings_ok (filter P ws)"
  by (simp add: warnings_ok_def distinct_map_filter)

lemma warnings_ok_upsert:
  "warnings_ok ws \<Longrightarrow> warnings_ok (filter (\<lambda>v. wn_UUID v \<noteq> wn_UUID w \<and> wn_key v \<noteq> wn_key w) ws @ [w\<lparr>wn_ID := n\<rparr>])"
  by (auto simp: warnings_ok_def distinct_map_filter wn_key_def)

lemma find_map_key: "(\<And>x. key (f x) = key x) \<Longrightarrow> find (\<lambda>x. key x = k) (map f xs) = map_option f (find (\<lambda>x. key x = k) xs)"
  by (induction xs) auto

section \<open>Emitting\<close>

lemma validated_scope:
  "warning_validate w = None \<Longrightarrow> wn_Type w \<noteq> '''' \<and> wn_Scope w \<noteq> '''' \<and> wn_EntityType w \<noteq> '''' \<and> wn_Entity w \<noteq> ''''"
  by (simp add: warning_validate_def first_err_None)

lemma filter_key_unique:
  "distinct (map key xs) \<Longrightarrow> filter (\<lambda>y. key y = k) xs = (case find (\<lambda>y. key y = k) xs of None \<Rightarrow> [] | Some y \<Rightarrow> [y])"
proof (induction xs)
  case (Cons a xs)
  show ?case
  proof (cases "key a = k")
    case True
    with Cons.prems have "filter (\<lambda>y. key y = k) xs = []" by (auto simp: filter_empty_conv image_iff)
    with True show ?thesis by simp
  qed (use Cons in simp)
qed simp

lemma find_perm:
  assumes "distinct (map key xs)" and "set ys = set xs" and "distinct (map key ys)"
  shows "find (\<lambda>y. key y = k) ys = find (\<lambda>y. key y = k) xs"
proof (cases "find (\<lambda>y. key y = k) xs")
  case None
  then have "find (\<lambda>y. key y = k) ys = None" using assms(2) by (simp add: find_None_iff)
  with None show ?thesis by simp
next
  case (Some x)
  from find_SomeD [OF Some] assms have "find (\<lambda>y. key y = key x) ys = Some x"
    by (intro find_key_unique) auto
  with find_SomeD [OF Some] Some show ?thesis by simp
qed

lemma same_key_rows:
  assumes "warnings_ok ws"
  shows "filter (\<lambda>v. wn_key v = k) (sort_key wn_UUID ws) = (case warning_of ws k of None \<Rightarrow> [] | Some v \<Rightarrow> [v])"
proof -
  have d: "distinct (map wn_key ws)" "distinct (map wn_key (sort_key wn_UUID ws))"
    using assms by (simp_all add: warnings_ok_def distinct_map)
  from find_perm [OF d(1) _ d(2)] have "find (\<lambda>v. wn_key v = k) (sort_key wn_UUID ws) = warning_of ws k"
    by (simp add: warning_of_def tb_get_def)
  with filter_key_unique [OF d(2)] show ?thesis by simp
qed

lemma lookup_by_scope:
  assumes "warning_validate w = None" and "warnings_ok (db_warnings (w_db s))"
  shows "warning_repo_get_by_scope_and_type (warning_scope_of w) (wn_Type w) s =
     (Inr (case warning_of (db_warnings (w_db s)) (wn_key w) of None \<Rightarrow> [] | Some v \<Rightarrow> [v]), s)"
proof -
  have "filter (\<lambda>v. wn_Type v = wn_Type w \<and> (wn_Scope w = '''' \<or> wn_Scope v = wn_Scope w) \<and>
       (wn_EntityType w = '''' \<or> wn_EntityType v = wn_EntityType w) \<and> (wn_Entity w = '''' \<or> wn_Entity v = wn_Entity w))
      (sort_key wn_UUID (db_warnings (w_db s))) = filter (\<lambda>v. wn_key v = wn_key w) (sort_key wn_UUID (db_warnings (w_db s)))"
    using validated_scope [OF assms(1)] by (intro filter_cong) (auto simp: wn_key_def)
  with validated_scope [OF assms(1)] same_key_rows [OF assms(2)] show ?thesis
    by (simp add: warning_repo_get_by_scope_and_type_def warning_scope_of_def dbget_run)
qed

definition emitted :: "ext \<Rightarrow> world \<Rightarrow> warning \<Rightarrow> warning" where
  "emitted x s w = (merge_warning (x_now x) (warning_of (db_warnings (w_db s)) (wn_key w)) w)\<lparr>wn_ID := db_seq (w_db s)\<rparr>"

lemma emit_run:
  assumes "w_intx s = False" and "warning_validate w = None" and "warnings_ok (db_warnings (w_db s))"
  shows "warning_emit x w s = (Inr (emitted x s w), s\<lparr>w_db := (w_db s)\<lparr>
     db_warnings := filter (\<lambda>v. wn_UUID v \<noteq> wn_UUID (emitted x s w) \<and> wn_key v \<noteq> wn_key w) (db_warnings (w_db s)) @ [emitted x s w],
     db_seq := db_seq (w_db s) + 1\<rparr>\<rparr>)"
proof -
  have key: "wn_key (merge_warning n v w) = wn_key w" for n v
    by (simp add: merge_warning_def wn_key_def split: option.split)
  let ?s = "s\<lparr>w_intx := True\<rparr>"
  note look = lookup_by_scope [OF assms(2), of ?s, simplified, OF assms(3)]
  have "s\<lparr>w_intx := True, w_db := d, w_intx := False\<rparr> = s\<lparr>w_db := d\<rparr>" for d
    using assms(1) by (cases s) simp
  with assms(1,2) key show ?thesis
    by (cases "warning_of (db_warnings (w_db s)) (wn_key w)")
      (simp_all add: warning_emit_def run_simps look emitted_def warning_repo_upsert_def tb_insert_def wn_key_def Let_def)
qed

lemma warning_of_insert:
  assumes "wn_key v \<noteq> k"
  shows "warning_of (filter (\<lambda>w. wn_UUID w \<noteq> wn_UUID v \<and> wn_key w \<noteq> wn_key v) ws @ [v]) k =
    warning_of (filter (\<lambda>w. wn_UUID w \<noteq> wn_UUID v \<and> wn_key w \<noteq> wn_key v) ws) k"
  using assms by (induction ws) (auto simp: warning_of_def tb_get_def)

lemma warning_of_inserted:
  "warning_of (filter (\<lambda>w. wn_UUID w \<noteq> u \<and> wn_key w \<noteq> wn_key v) ws @ [v]) (wn_key v) = Some v"
  by (induction ws) (auto simp: warning_of_def tb_get_def)

lemma warning_of_filter:
  assumes "\<And>w. w \<in> set ws \<Longrightarrow> wn_key w = k \<Longrightarrow> P w"
  shows "warning_of (filter P ws) k = warning_of ws k"
  using assms by (induction ws) (auto simp: warning_of_def tb_get_def)

lemma warning_of_mem: "warning_of ws k = Some v \<Longrightarrow> v \<in> set ws \<and> wn_key v = k"
  by (auto simp: warning_of_def tb_get_def dest: find_SomeD)

lemma emitted_key: "wn_key (emitted x s w) = wn_key w"
  by (simp add: emitted_def merge_warning_def wn_key_def split: option.split)

lemma emitted_uuid:
  "wn_UUID (emitted x s w) = (case warning_of (db_warnings (w_db s)) (wn_key w) of None \<Rightarrow> wn_UUID w | Some o1 \<Rightarrow> wn_UUID o1)"
  by (simp add: emitted_def merge_warning_def split: option.split)

text \<open>
  C14: Emitting a valid warning succeeds and leaves one record of its kind. If there was none it is
  the new one; otherwise it keeps the old one's UUID and date, adds up the counts and has every
  message of either, the repeated ones last. All other warnings stay, and keys and UUIDs stay unique.
\<close>

theorem warning_emit_merges:
  assumes "w_intx s = False" and "warning_validate w = None" and "warnings_ok (db_warnings (w_db s))"
    and "\<forall>v \<in> set (db_warnings (w_db s)). wn_UUID v = wn_UUID w \<longrightarrow> wn_key v = wn_key w"
  shows "\<exists>v t. warning_emit x w s = (Inr v, t) \<and> warnings_ok (db_warnings (w_db t)) \<and>
    warning_of (db_warnings (w_db t)) (wn_key w) = Some v \<and>
    (\<forall>k. k \<noteq> wn_key w \<longrightarrow> warning_of (db_warnings (w_db t)) k = warning_of (db_warnings (w_db s)) k) \<and>
    (case warning_of (db_warnings (w_db s)) (wn_key w) of
       None \<Rightarrow> wn_UUID v = wn_UUID w \<and> wn_Count v = wn_Count w \<and> wn_Messages v = wn_Messages w \<and>
         wn_FirstSeenDate v = x_now x
     | Some old \<Rightarrow> wn_UUID v = wn_UUID old \<and> wn_Count v = wrap64 (wn_Count w + wn_Count old) \<and>
         set (wn_Messages v) = set (wn_Messages old) \<union> set (wn_Messages w) \<and> suffix (wn_Messages w) (wn_Messages v) \<and>
         wn_FirstSeenDate v = wn_FirstSeenDate old)"
proof -
  let ?ws = "db_warnings (w_db s)" and ?v = "emitted x s w"
  let ?rest = "filter (\<lambda>v. wn_UUID v \<noteq> wn_UUID ?v \<and> wn_key v \<noteq> wn_key w) ?ws"
  note run = emit_run [OF assms(1-3), of x]
  have ok: "warnings_ok (?rest @ [?v])"
    using warnings_ok_filter [OF assms(3)] emitted_key [of x s w] by (auto simp: warnings_ok_def distinct_map_filter)
  have mine: "warning_of (?rest @ [?v]) (wn_key w) = Some ?v"
    using warning_of_inserted [of "wn_UUID ?v" ?v ?ws] by (simp add: emitted_key)
  have uuid: "wn_key v = wn_key w" if "v \<in> set ?ws" "wn_UUID v = wn_UUID ?v" for v
  proof (cases "warning_of ?ws (wn_key w)")
    case None
    with that assms(4) show ?thesis by (simp add: emitted_uuid)
  next
    case (Some o1)
    with that warning_of_mem [OF Some] assms(3) have "v = o1"
      by (auto simp: emitted_uuid warnings_ok_def dest: distinct_map_inj)
    with warning_of_mem [OF Some] show ?thesis by simp
  qed
  have others: "warning_of (?rest @ [?v]) k = warning_of ?ws k" if "k \<noteq> wn_key w" for k
    using warning_of_insert [of ?v k ?ws] warning_of_filter [of ?ws k "\<lambda>v. wn_UUID v \<noteq> wn_UUID ?v \<and> wn_key v \<noteq> wn_key w"]
      uuid that by (auto simp: emitted_key)
  have data: "case warning_of ?ws (wn_key w) of
       None \<Rightarrow> wn_UUID ?v = wn_UUID w \<and> wn_Count ?v = wn_Count w \<and> wn_Messages ?v = wn_Messages w \<and>
         wn_FirstSeenDate ?v = x_now x
     | Some old \<Rightarrow> wn_UUID ?v = wn_UUID old \<and> wn_Count ?v = wrap64 (wn_Count w + wn_Count old) \<and>
         set (wn_Messages ?v) = set (wn_Messages old) \<union> set (wn_Messages w) \<and> suffix (wn_Messages w) (wn_Messages ?v) \<and>
         wn_FirstSeenDate ?v = wn_FirstSeenDate old"
    by (auto simp: emitted_def merge_warning_def suffix_def split: option.split)
  from run ok mine others data show ?thesis by auto
qed

section \<open>Removing stale messages\<close>

text \<open>What becomes of one warning.\<close>

definition pruned :: "warning_scope \<Rightarrow> warnings \<Rightarrow> warning \<Rightarrow> warning option" where
  "pruned sc news w =
     (if \<not> warning_scope_match sc (warning_to_api w) then Some w
      else let seen = filter (seen_message sc news (wn_Type w)) (wn_Messages w)
           in if seen = [] then None else Some (w\<lparr>wn_Messages := seen\<rparr>))"

definition prune_table :: "uuid set \<Rightarrow> warning_scope \<Rightarrow> warnings \<Rightarrow> warnings \<Rightarrow> warnings" where
  "prune_table us sc news ws = List.map_filter (\<lambda>w. if wn_UUID w \<in> us then pruned sc news w else Some w) ws"

lemma pruned_uuid: "pruned sc news w = Some v \<Longrightarrow> wn_UUID v = wn_UUID w \<and> wn_key v = wn_key w \<and> wn_ID v = wn_ID w"
  by (auto simp: pruned_def Let_def wn_key_def split: if_splits)

lemma map_filter_cong': "(\<And>w. w \<in> set ws \<Longrightarrow> f w = g w) \<Longrightarrow> List.map_filter f ws = List.map_filter g ws"
  by (induction ws) (auto simp: List.map_filter_simps split: option.split)

lemma filter_map_filter:
  "filter P (List.map_filter f ws) = List.map_filter (\<lambda>w. case f w of None \<Rightarrow> None | Some v \<Rightarrow> if P v then Some v else None) ws"
  by (induction ws) (simp_all add: List.map_filter_simps split: option.split)

lemma map_map_filter: "map h (List.map_filter f ws) = List.map_filter (\<lambda>w. map_option h (f w)) ws"
  by (induction ws) (simp_all add: List.map_filter_simps split: option.split)

lemma map_filter_mem: "v \<in> set (List.map_filter f ws) \<longleftrightarrow> (\<exists>w \<in> set ws. f w = Some v)"
  by (auto simp: List.map_filter_def image_iff)

lemma prune_table_row:
  assumes "v \<in> set (prune_table us sc news ws)"
  shows "\<exists>w \<in> set ws. wn_UUID v = wn_UUID w \<and> wn_key v = wn_key w \<and> (wn_UUID w \<notin> us \<longrightarrow> v = w)"
  using assms by (auto simp: prune_table_def map_filter_mem split: if_splits dest: pruned_uuid)

text \<open>The table after one more row has been looked at.\<close>

lemma prune_table_step:
  assumes ok: "warnings_ok ws" and w: "w \<in> set ws" "wn_UUID w \<notin> us"
  shows "tb_get wn_UUID (prune_table us sc news ws) (wn_UUID w) = Some w"
    and "pruned sc news w = None \<Longrightarrow>
       tb_delete wn_UUID (wn_UUID w) (prune_table us sc news ws) = prune_table (insert (wn_UUID w) us) sc news ws"
    and "pruned sc news w = Some v \<Longrightarrow>
       tb_update wn_UUID (wn_UUID w) v (prune_table us sc news ws) = prune_table (insert (wn_UUID w) us) sc news ws"
    and "pruned sc news w = Some w \<Longrightarrow> prune_table us sc news ws = prune_table (insert (wn_UUID w) us) sc news ws"
    and "\<not> (\<exists>v \<in> set (prune_table us sc news ws). wn_UUID v \<noteq> wn_UUID w \<and> wn_key v = wn_key w)"
proof -
  have same: "v = w" if "v \<in> set ws" "wn_UUID v = wn_UUID w" for v
    using that w ok by (auto simp: warnings_ok_def dest: distinct_map_inj)
  have mem: "w \<in> set (prune_table us sc news ws)"
    using w by (auto simp: prune_table_def map_filter_mem intro!: bexI [of _ w])
  have only: "v = w" if "v \<in> set (prune_table us sc news ws)" "wn_UUID v = wn_UUID w" for v
    using prune_table_row [OF that(1)] that(2) w(2) same by auto
  show "tb_get wn_UUID (prune_table us sc news ws) (wn_UUID w) = Some w"
  proof (cases "find (\<lambda>r. wn_UUID r = wn_UUID w) (prune_table us sc news ws)")
    case None
    with mem show ?thesis by (auto simp: find_None_iff)
  next
    case (Some v)
    with find_SomeD [OF Some] only show ?thesis by (auto simp: tb_get_def)
  qed
  show "pruned sc news w = None \<Longrightarrow>
      tb_delete wn_UUID (wn_UUID w) (prune_table us sc news ws) = prune_table (insert (wn_UUID w) us) sc news ws"
    unfolding tb_delete_def prune_table_def filter_map_filter
  proof (rule map_filter_cong')
    fix v
    assume "pruned sc news w = None" "v \<in> set ws"
    moreover from this(2) same have "wn_UUID v = wn_UUID w \<Longrightarrow> v = w" by blast
    ultimately show "(case if wn_UUID v \<in> us then pruned sc news v else Some v of None \<Rightarrow> None
          | Some x \<Rightarrow> if wn_UUID x \<noteq> wn_UUID w then Some x else None) =
        (if wn_UUID v \<in> insert (wn_UUID w) us then pruned sc news v else Some v)"
      using w(2) by (cases "wn_UUID v = wn_UUID w") (auto dest: pruned_uuid split: option.split)
  qed
  show "pruned sc news w = Some v \<Longrightarrow>
      tb_update wn_UUID (wn_UUID w) v (prune_table us sc news ws) = prune_table (insert (wn_UUID w) us) sc news ws"
    unfolding tb_update_def prune_table_def map_map_filter
  proof (rule map_filter_cong')
    fix r
    assume "pruned sc news w = Some v" "r \<in> set ws"
    moreover from this(2) same have "wn_UUID r = wn_UUID w \<Longrightarrow> r = w" by blast
    ultimately show "map_option (\<lambda>x. if wn_UUID x = wn_UUID w then v else x)
          (if wn_UUID r \<in> us then pruned sc news r else Some r) =
        (if wn_UUID r \<in> insert (wn_UUID w) us then pruned sc news r else Some r)"
      using w(2) by (cases "wn_UUID r = wn_UUID w"; cases "pruned sc news r") (auto dest: pruned_uuid)
  qed
  show "pruned sc news w = Some w \<Longrightarrow> prune_table us sc news ws = prune_table (insert (wn_UUID w) us) sc news ws"
    unfolding prune_table_def
  proof (rule map_filter_cong')
    fix r
    assume "pruned sc news w = Some w" "r \<in> set ws"
    moreover from this(2) same have "wn_UUID r = wn_UUID w \<Longrightarrow> r = w" by blast
    ultimately show "(if wn_UUID r \<in> us then pruned sc news r else Some r) =
        (if wn_UUID r \<in> insert (wn_UUID w) us then pruned sc news r else Some r)"
      by (cases "wn_UUID r = wn_UUID w") auto
  qed
  show "\<not> (\<exists>v \<in> set (prune_table us sc news ws). wn_UUID v \<noteq> wn_UUID w \<and> wn_key v = wn_key w)"
    using prune_table_row ok w(1) by (fastforce simp: warnings_ok_def dest: distinct_map_inj)
qed

definition with_warnings :: "warnings \<Rightarrow> world \<Rightarrow> world" where
  "with_warnings ws s = s\<lparr>w_db := (w_db s)\<lparr>db_warnings := ws\<rparr>\<rparr>"

lemma with_warnings_simps [simp]:
  "db_warnings (w_db (with_warnings ws s)) = ws" "with_warnings vs (with_warnings ws s) = with_warnings vs s"
  "w_intx (with_warnings ws s) = w_intx s"
  by (simp_all add: with_warnings_def)

lemma prune_warning_run:
  assumes "warnings_ok ws" "w \<in> set ws" "wn_UUID w \<notin> us" "w_intx s"
  shows "prune_warning sc news w (with_warnings (prune_table us sc news ws) s) =
    (Inr (), with_warnings (prune_table (insert (wn_UUID w) us) sc news ws) s)"
proof -
  let ?seen = "filter (seen_message sc news (wn_Type w)) (wn_Messages w)"
  note step = prune_table_step [OF assms(1-3), of sc news]
  consider (out) "\<not> warning_scope_match sc (warning_to_api w)" | (gone) "warning_scope_match sc (warning_to_api w)" "?seen = []"
    | (changed) "warning_scope_match sc (warning_to_api w)" "?seen \<noteq> []" "wn_Messages w \<noteq> ?seen"
    | (kept) "warning_scope_match sc (warning_to_api w)" "?seen \<noteq> []" "wn_Messages w = ?seen"
    by blast
  then show ?thesis
  proof cases
    case out
    then have "pruned sc news w = Some w" by (simp add: pruned_def)
    with out step(4) show ?thesis by (simp add: prune_warning_def run_simps)
  next
    case gone
    then have "pruned sc news w = None" by (simp add: pruned_def)
    with gone step(1,2) show ?thesis
      by (simp add: prune_warning_def Let_def warning_repo_delete_def run_simps) (simp add: with_warnings_def)
  next
    case changed
    then have p: "pruned sc news w = Some (w\<lparr>wn_Messages := ?seen\<rparr>)" by (simp add: pruned_def)
    have "wn_key (w\<lparr>wn_Messages := ?seen\<rparr>) = wn_key w" by (simp add: wn_key_def)
    with step(5) have free: "\<not> (\<exists>v \<in> set (prune_table us sc news ws). wn_UUID v \<noteq> wn_UUID w \<and>
        (wn_UUID v = wn_UUID (w\<lparr>wn_Messages := ?seen\<rparr>) \<or> wn_key v = wn_key (w\<lparr>wn_Messages := ?seen\<rparr>)))" by auto
    have id: "(w\<lparr>wn_Messages := ?seen\<rparr>)\<lparr>wn_ID := wn_ID w\<rparr> = w\<lparr>wn_Messages := ?seen\<rparr>" by (cases w) simp
    have "warning_repo_update (wn_UUID w) (w\<lparr>wn_Messages := ?seen\<rparr>) (with_warnings (prune_table us sc news ws) s) =
        (Inr (), with_warnings (prune_table (insert (wn_UUID w) us) sc news ws) s)"
      using assms(4) step(1) step(3) [OF p] free id
      by (simp add: warning_repo_update_def force_tx_def run_simps) (simp add: with_warnings_def)
    with changed show ?thesis by (simp add: prune_warning_def Let_def run_simps)
  next
    case kept
    then have "pruned sc news w = Some w" by (simp add: pruned_def)
    with kept step(4) show ?thesis by (simp add: prune_warning_def Let_def run_simps)
  qed
qed

lemma prune_all_run:
  assumes "warnings_ok ws" "w_intx s"
  shows "set rs \<subseteq> set ws \<Longrightarrow> distinct (map wn_UUID rs) \<Longrightarrow> wn_UUID ` set rs \<inter> us = {} \<Longrightarrow>
    for_each rs (prune_warning sc news) (with_warnings (prune_table us sc news ws) s) =
      (Inr (), with_warnings (prune_table (wn_UUID ` set rs \<union> us) sc news ws) s)"
proof (induction rs arbitrary: us)
  case Nil
  then show ?case by (simp add: run_simps)
next
  case (Cons r rs)
  then have step: "prune_warning sc news r (with_warnings (prune_table us sc news ws) s) =
      (Inr (), with_warnings (prune_table (insert (wn_UUID r) us) sc news ws) s)"
    using assms by (intro prune_warning_run) auto
  have "for_each rs (prune_warning sc news) (with_warnings (prune_table (insert (wn_UUID r) us) sc news ws) s) =
      (Inr (), with_warnings (prune_table (wn_UUID ` set rs \<union> insert (wn_UUID r) us) sc news ws) s)"
    using Cons.prems by (intro Cons.IH) auto
  with step show ?case by (simp add: run_simps)
qed

lemma prune_table_none: "prune_table {} sc news ws = ws"
  by (induction ws) (simp_all add: prune_table_def List.map_filter_simps)

lemma prune_table_all: "prune_table (wn_UUID ` set ws) sc news ws = List.map_filter (pruned sc news) ws"
  unfolding prune_table_def by (rule map_filter_cong') simp

lemma with_warnings_same: "with_warnings (db_warnings (w_db s)) s = s"
  by (simp add: with_warnings_def)

lemma remove_stale_run:
  assumes "w_intx s = False" and "warnings_ok (db_warnings (w_db s))"
  shows "warning_remove_stale sc news s =
    (Inr (), with_warnings (List.map_filter (pruned sc news) (db_warnings (w_db s))) s)"
proof -
  let ?ws = "db_warnings (w_db s)" and ?s = "s\<lparr>w_intx := True\<rparr>"
  let ?rs = "sort_key wn_UUID ?ws"
  have "distinct (map wn_UUID ?rs)" using assms(2) by (simp add: warnings_ok_def distinct_map)
  then have "for_each ?rs (prune_warning sc news) (with_warnings (prune_table {} sc news ?ws) ?s) =
      (Inr (), with_warnings (prune_table (wn_UUID ` set ?rs \<union> {}) sc news ?ws) ?s)"
    using assms(2) by (intro prune_all_run) auto
  moreover have "with_warnings ?ws ?s = ?s" using with_warnings_same [of ?s] by simp
  ultimately have loop: "for_each ?rs (prune_warning sc news) ?s =
      (Inr (), with_warnings (List.map_filter (pruned sc news) ?ws) ?s)"
    by (simp add: prune_table_none prune_table_all)
  have "(with_warnings vs ?s)\<lparr>w_intx := False\<rparr> = with_warnings vs s" for vs
    using assms(1) by (cases s) (simp add: with_warnings_def)
  with loop assms(1) show ?thesis
    by (simp add: warning_remove_stale_def warning_repo_get_all_def run_simps)
qed

lemma pruned_pruned: "pruned sc news w = Some v \<Longrightarrow> pruned sc news v = Some v"
proof -
  have "warning_scope_match sc (warning_to_api (w\<lparr>wn_Messages := ms\<rparr>)) = warning_scope_match sc (warning_to_api w)" for ms
    by (simp add: warning_scope_match_def warning_to_api_def)
  then show "pruned sc news w = Some v \<Longrightarrow> pruned sc news v = Some v"
    by (auto simp: pruned_def Let_def split: if_splits)
qed

lemma map_filter_pruned_twice:
  "List.map_filter (pruned sc news) (List.map_filter (pruned sc news) ws) = List.map_filter (pruned sc news) ws"
  by (induction ws) (auto simp: List.map_filter_simps pruned_pruned split: option.split)

lemma warnings_ok_pruned: "warnings_ok ws \<Longrightarrow> warnings_ok (List.map_filter (pruned sc news) ws)"
proof (induction ws)
  case (Cons w ws)
  have sub: "wn_UUID ` set (List.map_filter (pruned sc news) ws) \<subseteq> wn_UUID ` set ws"
    "wn_key ` set (List.map_filter (pruned sc news) ws) \<subseteq> wn_key ` set ws"
    by (auto simp: map_filter_mem image_iff dest!: pruned_uuid)
  show ?case
  proof (cases "pruned sc news w")
    case None
    with Cons show ?thesis by (simp add: List.map_filter_simps warnings_ok_def)
  next
    case (Some v)
    with Cons sub pruned_uuid [OF Some] show ?thesis by (auto simp: List.map_filter_simps warnings_ok_def)
  qed
qed (simp add: warnings_ok_def List.map_filter_simps)

lemma warning_of_pruned:
  "warnings_ok ws \<Longrightarrow> warning_of (List.map_filter (pruned sc news) ws) k = Option.bind (warning_of ws k) (pruned sc news)"
proof (induction ws)
  case (Cons w ws)
  have none: "warning_of (List.map_filter (pruned sc news) ws) k = None" if "warning_of ws k = None"
    using that Cons by (simp add: warnings_ok_def)
  have "wn_key w = k \<Longrightarrow> warning_of ws k = None"
    using Cons.prems by (auto simp: warnings_ok_def warning_of_def tb_get_def find_None_iff image_iff)
  with Cons none pruned_uuid show ?case
    by (auto simp: List.map_filter_simps warnings_ok_def warning_of_def tb_get_def split: option.split)
qed (simp add: warning_of_def tb_get_def List.map_filter_simps)

text \<open>
  Removing stale messages always succeeds and does exactly this to every warning: one outside the
  scope stays; one inside keeps the messages that are among the new warnings of its type, in their
  order, and goes when none is left. Doing it twice changes nothing more.
\<close>

theorem remove_stale_exact:
  assumes "w_intx s = False" and "warnings_ok (db_warnings (w_db s))"
  shows "\<exists>t. warning_remove_stale sc news s = (Inr (), t) \<and> warnings_ok (db_warnings (w_db t)) \<and>
    (\<forall>k. warning_of (db_warnings (w_db t)) k = Option.bind (warning_of (db_warnings (w_db s)) k) (pruned sc news)) \<and>
    warning_remove_stale sc news t = (Inr (), t)"
proof -
  let ?ws = "List.map_filter (pruned sc news) (db_warnings (w_db s))"
  from remove_stale_run [of "with_warnings ?ws s" sc news] assms
  have "warning_remove_stale sc news (with_warnings ?ws s) = (Inr (), with_warnings ?ws s)"
    by (simp add: warnings_ok_pruned map_filter_pruned_twice)
  with remove_stale_run [OF assms, of sc news] assms(2) show ?thesis
    by (auto simp: warnings_ok_pruned warning_of_pruned)
qed

section \<open>Examples\<close>

definition sample_warning :: "uuid \<Rightarrow> string \<Rightarrow> warning" where
  "sample_warning u msg = new_sync_warning u SourceUnavailable ''src'' msg"

definition warning_world :: world where
  "warning_world = with_warnings [sample_warning 1 ''down''] empty_world"

lemma warning_world_simps [simp]:
  "w_intx warning_world = False" "db_warnings (w_db warning_world) = [sample_warning 1 ''down'']"
  by (simp_all add: warning_world_def empty_world_def)

lemma sample_warning_ok [simp]: "warnings_ok [sample_warning u m]"
  by (simp add: warnings_ok_def)

lemma sample_warning_fields [simp]:
  "wn_UUID (sample_warning u m) = u" "wn_Messages (sample_warning u m) = [m]" "wn_Count (sample_warning u m) = 1"
  "wn_key (sample_warning u m) = (SourceUnavailable, ''sync'', ''source'', ''src'')"
  by (simp_all add: sample_warning_def new_sync_warning_def wn_key_def warning_scope_sync_def)

lemma warning_world_of: "warning_of (db_warnings (w_db warning_world)) (wn_key (sample_warning 2 ''up'')) = Some (sample_warning 1 ''down'')"
  by (simp add: warning_of_def tb_get_def)

lemma sample_warning_valid: "warning_validate (sample_warning 2 ''up'') = None"
  by (simp add: warning_validate_def first_err_None sample_warning_def new_sync_warning_def warning_scope_sync_def
      WARNINGSTATUS_NEW_def SourceUnavailable_def uuid_nil_def)

theorem warning_emit_merges_witness:
  "\<exists>v t. warning_emit plain_ext (sample_warning 2 ''up'') warning_world = (Inr v, t) \<and> wn_Count v = 2 \<and>
     wn_UUID v = 1 \<and> set (wn_Messages v) = {''down'', ''up''}"
proof -
  have "\<forall>v \<in> set (db_warnings (w_db warning_world)). wn_UUID v = wn_UUID (sample_warning 2 ''up'') \<longrightarrow>
      wn_key v = wn_key (sample_warning 2 ''up'')" by simp
  from warning_emit_merges [OF _ sample_warning_valid _ this, of plain_ext, unfolded warning_world_of option.case]
  obtain v t where "warning_emit plain_ext (sample_warning 2 ''up'') warning_world = (Inr v, t)"
    and "wn_UUID v = 1" "wn_Count v = wrap64 (1 + 1)" "set (wn_Messages v) = {''down''} \<union> {''up''}"
    by (auto simp del: sample_warning_fields(4))
  then show ?thesis by (auto simp: wrap64_def)
qed

theorem remove_stale_exact_witness:
  "\<exists>t. warning_remove_stale warning_scope_sync [] warning_world = (Inr (), t) \<and> warnings_ok (db_warnings (w_db t))"
  using remove_stale_exact [of warning_world warning_scope_sync "[]"] by auto

end
