(* ===== verification/Artifact_Service.thy ===== *)
theory Artifact_Service
  imports Catalog_Repo
begin

text \<open>
  The artifact service (\<^verbatim>\<open>internal/migration/artifact_service.go\<close>). The directory of an artifact's
  files is outside: \<open>dir\<close> gives what reading it returns, an error or the names of the files.
\<close>

definition with_files :: "(uuid \<Rightarrow> err + string list) \<Rightarrow> artifact \<Rightarrow> artifact wm" where
  "with_files dir a = bindm (lift (dir (af_UUID a))) (\<lambda>fs. ret (a\<lparr>af_Files := fs\<rparr>))"

fun all_with_files :: "(uuid \<Rightarrow> err + string list) \<Rightarrow> artifacts \<Rightarrow> artifacts wm" where
  "all_with_files dir [] = ret []"
| "all_with_files dir (a # as) = bindm (with_files dir a) (\<lambda>b. bindm (all_with_files dir as) (\<lambda>bs. ret (b # bs)))"

definition artifact_create :: "ext \<Rightarrow> artifact \<Rightarrow> artifact wm" where
  "artifact_create x a =
     andthen (fail_on (artifact_validate x a))
      (tx_do (bindm (artifact_repo_get_all_by_type (af_Type a)) (\<lambda>arts.
        andthen (fail_on (collides_with a arts))
         (bindm (wrap_err (\<lambda>e. Errorf ''Failed to create artifact: %w'' [AWrap e]) (artifact_repo_create (x_now x) a)) (\<lambda>n.
          ret (a\<lparr>af_ID := n\<rparr>))))))"

definition artifact_get_all :: "(uuid \<Rightarrow> err + string list) \<Rightarrow> artifacts wm" where
  "artifact_get_all dir = bindm artifact_repo_get_all (all_with_files dir)"

definition artifact_get_all_by_type :: "(uuid \<Rightarrow> err + string list) \<Rightarrow> artifact_type \<Rightarrow> artifacts wm" where
  "artifact_get_all_by_type dir ty = bindm (artifact_repo_get_all_by_type ty) (all_with_files dir)"

definition artifact_get :: "(uuid \<Rightarrow> err + string list) \<Rightarrow> uuid \<Rightarrow> artifact wm" where
  "artifact_get dir u = bindm (artifact_repo_get u) (with_files dir)"

text \<open>
  The list of the other artifacts of the type is allocated with a capacity of one less than there
  are: with none of the type, that is a negative capacity, for which Go panics.
\<close>

definition negative_capacity :: err where
  "negative_capacity = ExternalErr ''runtime error: makeslice: cap out of range''"

definition artifact_update :: "ext \<Rightarrow> uuid \<Rightarrow> artifact \<Rightarrow> unit wm" where
  "artifact_update x u a =
     andthen (fail_on (artifact_validate x a))
      (tx_do (bindm (artifact_repo_get_all_by_type (af_Type a)) (\<lambda>arts.
        andthen (fail_if (arts = []) negative_capacity)
       (andthen (fail_on (collides_with a (filter (\<lambda>b. af_UUID b \<noteq> u) arts)))
         (artifact_repo_update (x_now x) u a)))))"

definition artifact_delete :: "uuid \<Rightarrow> unit wm" where
  "artifact_delete u = artifact_repo_delete u"

section \<open>No two artifacts collide\<close>

text \<open>The invariant of the table: UUIDs are unique, and artifacts of different UUIDs do not collide.\<close>

definition artifacts_ok :: "artifacts \<Rightarrow> bool" where
  "artifacts_ok as \<longleftrightarrow> distinct (map af_UUID as) \<and>
     (\<forall>a \<in> set as. \<forall>b \<in> set as. af_UUID a \<noteq> af_UUID b \<longrightarrow> \<not> collides a b)"

lemma collides_row [simp]:
  "collides (artifact_row now n a) b = collides a b" "collides b (artifact_row now n a) = collides b a"
  by (simp_all add: collides_def artifact_row_def)

lemma artifact_row_uuid [simp]: "af_UUID (artifact_row now n a) = af_UUID a"
  by (simp add: artifact_row_def)

lemma collides_type: "collides a b \<Longrightarrow> af_Type b = af_Type a"
  by (auto simp: collides_def Let_def)

lemma artifact_create_ok:
  assumes "artifact_create x a s = (Inr a', t)"
  shows "artifact_validate x a = None \<and> tb_get af_UUID (db_artifacts (w_db s)) (af_UUID a) = None \<and>
    (\<forall>b \<in> set (db_artifacts (w_db s)). \<not> collides a b) \<and>
    db_artifacts (w_db t) = db_artifacts (w_db s) @ [artifact_row (x_now x) (db_seq (w_db s)) a]"
  using assms
  by (cases "w_intx s")
    (auto simp: artifact_create_def wm_ok artifact_repo_get_all_by_type_def artifact_repo_create_def collides_with_None
      throw_run tb_insert_def dest: collides_type split: if_splits)

lemma artifact_update_ok:
  assumes "artifact_update x u a s = (Inr v, t)"
  obtains old where "tb_get af_UUID (db_artifacts (w_db s)) u = Some old" "artifact_validate x a = None"
    "af_UUID a = u \<or> tb_get af_UUID (db_artifacts (w_db s)) (af_UUID a) = None"
    "\<forall>b \<in> set (db_artifacts (w_db s)). af_UUID b \<noteq> u \<longrightarrow> \<not> collides a b"
    "db_artifacts (w_db t) = tb_update af_UUID u (artifact_row (x_now x) (af_ID old) a) (db_artifacts (w_db s))"
  using assms
  by (cases "w_intx s")
    (auto simp: artifact_update_def wm_ok artifact_repo_get_all_by_type_def artifact_repo_update_def force_tx_def
      collides_with_None throw_run dest: collides_type split: if_splits option.splits)

lemma tb_get_None_mem: "tb_get key t k = None \<longleftrightarrow> (\<forall>r \<in> set t. key r \<noteq> k)"
  by (auto simp: tb_get_def find_None_iff)

lemma distinct_update:
  assumes "distinct (map key t)" and "key r = k \<or> tb_get key t (key r) = None"
  shows "distinct (map key (tb_update key k r t))"
  using assms unfolding tb_get_None_mem by (induction t) (auto simp: tb_update_def image_iff)

lemma artifact_create_keeps:
  assumes "artifacts_ok (db_artifacts (w_db s))" and "artifact_create x a s = (Inr a', t)"
  shows "artifacts_ok (db_artifacts (w_db t))"
proof -
  let ?r = "artifact_row (x_now x) (db_seq (w_db s)) a"
  note eff = artifact_create_ok [OF assms(2)]
  have no: "\<not> collides a b" "\<not> collides b a" if "b \<in> set (db_artifacts (w_db s))" for b
    using eff that collides_sym [of b a] by blast+
  have t: "db_artifacts (w_db t) = db_artifacts (w_db s) @ [?r]" using eff by simp
  show ?thesis
    using assms(1) eff no unfolding artifacts_ok_def t by (auto simp: tb_get_None_mem)
qed

lemma artifact_update_keeps:
  assumes "artifacts_ok (db_artifacts (w_db s))" and "artifact_update x u a s = (Inr v, t)"
  shows "artifacts_ok (db_artifacts (w_db t))"
proof -
  from artifact_update_ok [OF assms(2)] obtain old where
    "tb_get af_UUID (db_artifacts (w_db s)) u = Some old" "artifact_validate x a = None" and free: "af_UUID a = u \<or> tb_get af_UUID (db_artifacts (w_db s)) (af_UUID a) = None"
    and eff: "\<forall>b \<in> set (db_artifacts (w_db s)). af_UUID b \<noteq> u \<longrightarrow> \<not> collides a b"
    and t: "db_artifacts (w_db t) = tb_update af_UUID u (artifact_row (x_now x) (af_ID old) a) (db_artifacts (w_db s))" .
  have no: "\<not> collides a b" "\<not> collides b a" if "b \<in> set (db_artifacts (w_db s))" "af_UUID b \<noteq> u" for b
    using eff that collides_sym [of b a] by blast+
  have mem: "b \<in> set (db_artifacts (w_db t)) \<Longrightarrow>
      b = artifact_row (x_now x) (af_ID old) a \<or> b \<in> set (db_artifacts (w_db s)) \<and> af_UUID b \<noteq> u" for b
    by (auto simp: t tb_update_def)
  from assms(1) free distinct_update [of af_UUID "db_artifacts (w_db s)" "artifact_row (x_now x) (af_ID old) a" u]
  have "distinct (map af_UUID (db_artifacts (w_db t)))" by (simp add: t artifacts_ok_def)
  with assms(1) no show ?thesis
    unfolding artifacts_ok_def by (auto dest!: mem)
qed

lemma artifact_delete_keeps:
  assumes "artifacts_ok (db_artifacts (w_db s))" and "artifact_delete u s = (Inr v, t)"
  shows "artifacts_ok (db_artifacts (w_db t))"
  using assms
  by (auto simp: artifact_delete_def artifact_repo_delete_def wm_ok throw_run artifacts_ok_def tb_delete_def distinct_map_filter
      split: option.splits)

text \<open>The operations that change the table.\<close>

inductive artifact_step :: "ext \<Rightarrow> world \<Rightarrow> world \<Rightarrow> bool" for x where
  step_create: "artifact_create x a s = (Inr a', t) \<Longrightarrow> artifact_step x s t"
| step_update: "artifact_update x u a s = (Inr v, t) \<Longrightarrow> artifact_step x s t"
| step_delete: "artifact_delete u s = (Inr v, t) \<Longrightarrow> artifact_step x s t"

lemma artifact_step_keeps: "artifact_step x s t \<Longrightarrow> artifacts_ok (db_artifacts (w_db s)) \<Longrightarrow> artifacts_ok (db_artifacts (w_db t))"
  by (induction rule: artifact_step.induct)
    (rule artifact_create_keeps artifact_update_keeps artifact_delete_keeps, assumption, assumption)+

lemma artifact_steps_keep:
  "(artifact_step x)\<^sup>*\<^sup>* s t \<Longrightarrow> artifacts_ok (db_artifacts (w_db s)) \<Longrightarrow> artifacts_ok (db_artifacts (w_db t))"
  by (induction rule: rtranclp_induct) (auto intro: artifact_step_keeps)

text \<open>
  C15: However artifacts are created, updated and deleted from an empty daemon on, their UUIDs are
  unique and no two of them serve the same type, system and source with a common architecture and a
  common version.
\<close>

theorem artifacts_never_collide:
  assumes "(artifact_step x)\<^sup>*\<^sup>* empty_world t" and "a \<in> set (db_artifacts (w_db t))" and "b \<in> set (db_artifacts (w_db t))"
  shows "a = b \<or> af_UUID a \<noteq> af_UUID b \<and> \<not> collides a b"
proof -
  have "artifacts_ok (db_artifacts (w_db t))"
    using artifact_steps_keep [OF assms(1)] by (simp add: artifacts_ok_def empty_world_def)
  with assms(2,3) show ?thesis by (auto simp: artifacts_ok_def dest: distinct_map_inj)
qed

definition sample_sdk :: artifact where
  "sample_sdk = \<lparr>af_ID = 0, af_UUID = 3, af_Type = ARTIFACTTYPE_SDK, af_LastUpdated = 0,
     af_Properties = \<lparr>art_Description = '''', art_OS = OSTYPE_OTHER '''', art_Architectures = [], art_Versions = [],
       art_SourceType = SOURCETYPE_VMWARE\<rparr>, af_Files = [''vmware-sdk.tar.gz'']\<rparr>"

lemma sample_sdk_valid: "artifact_validate x sample_sdk = None"
  by (simp add: artifact_validate_def sample_sdk_def first_err_None uuid_nil_def)

lemma sample_sdk_created:
  "\<exists>t. artifact_create plain_ext sample_sdk empty_world = (Inr (sample_sdk\<lparr>af_ID := 1\<rparr>), t) \<and>
     artifact_row 1000 1 sample_sdk \<in> set (db_artifacts (w_db t))"
  by (simp add: artifact_create_def run_simps sample_sdk_valid empty_world_def artifact_repo_get_all_by_type_def
      artifact_repo_create_def collides_with_def tb_get_def tb_insert_def)

theorem artifacts_never_collide_witness:
  "\<exists>t. (artifact_step plain_ext)\<^sup>*\<^sup>* empty_world t \<and>
     (\<exists>a \<in> set (db_artifacts (w_db t)). \<forall>b \<in> set (db_artifacts (w_db t)). a = b \<or> \<not> collides a b)"
proof -
  obtain t where t: "artifact_create plain_ext sample_sdk empty_world = (Inr (sample_sdk\<lparr>af_ID := 1\<rparr>), t)"
    and mem: "artifact_row 1000 1 sample_sdk \<in> set (db_artifacts (w_db t))" using sample_sdk_created by blast
  have steps: "(artifact_step plain_ext)\<^sup>*\<^sup>* empty_world t" using step_create [OF t] by (rule r_into_rtranclp)
  from artifacts_never_collide [OF steps mem] mem steps show ?thesis by blast
qed

section \<open>Required artifacts\<close>

text \<open>An artifact that serves an instance and whose file is there.\<close>

definition serves :: "ext \<Rightarrow> inst \<Rightarrow> artifact_type \<Rightarrow> artifact \<Rightarrow> bool" where
  "serves x i ty a \<longleftrightarrow> af_Type a = ty \<and>
     (if ty = ARTIFACTTYPE_SDK then art_SourceType (af_Properties a) = i_SourceType i else suits_os x i a) \<and>
     (\<exists>f \<in> set (af_Files a). default_artifact_file (x_os_text x) ty (af_Properties a) = Inr f)"

lemma scan_artifacts_serves:
  "scan_artifacts x i s arts = Inr s' \<Longrightarrow>
     (seen_sdk s' \<longrightarrow> seen_sdk s \<or> (\<exists>a \<in> set arts. serves x i ARTIFACTTYPE_SDK a)) \<and>
     (seen_os s' \<longrightarrow> seen_os s \<or> (\<exists>a \<in> set arts. serves x i ARTIFACTTYPE_OSIMAGE a)) \<and>
     (seen_driver s' \<longrightarrow> seen_driver s \<or> (\<exists>a \<in> set arts. serves x i ARTIFACTTYPE_DRIVER a))"
proof (induction arts arbitrary: s)
  case (Cons a as)
  from Cons.prems obtain f where f: "default_artifact_file (x_os_text x) (af_Type a) (af_Properties a) = Inr f"
    by (auto split: sum.splits)
  have mine: "serves x i (af_Type a) a" if "f \<in> set (af_Files a)"
    "if af_Type a = ARTIFACTTYPE_SDK then art_SourceType (af_Properties a) = i_SourceType i else suits_os x i a"
    using that f by (auto simp: serves_def)
  show ?case
  proof (cases "af_Type a")
    case ARTIFACTTYPE_SDK
    with Cons.prems f Cons.IH [of s] Cons.IH [of "s\<lparr>seen_sdk := True\<rparr>"] mine show ?thesis by (auto split: if_splits)
  next
    case ARTIFACTTYPE_OSIMAGE
    with Cons.prems f Cons.IH [of s] Cons.IH [of "s\<lparr>seen_os := True\<rparr>"] mine show ?thesis by (auto split: if_splits)
  next
    case ARTIFACTTYPE_DRIVER
    with Cons.prems f Cons.IH [of s] Cons.IH [of "s\<lparr>seen_driver := True\<rparr>"] mine show ?thesis by (auto split: if_splits)
  next
    case (ARTIFACTTYPE_OTHER t)
    with Cons.prems f Cons.IH [of s] show ?thesis by auto
  qed
qed simp

text \<open>
  An instance passes the artifact check only if the artifacts it needs are there with their
  files: the SDK of its source type for VMware, and for its system and architecture the image of a
  FortiGate and the drivers of a Windows machine.
\<close>

theorem required_artifacts_found:
  assumes "has_required_artifacts x arts i = None"
  shows "(i_SourceType i = SOURCETYPE_VMWARE \<longrightarrow> (\<exists>a \<in> set arts. serves x i ARTIFACTTYPE_SDK a)) \<and>
    (get_os_type i True = OSTYPE_FORTIGATE \<longrightarrow> (\<exists>a \<in> set arts. serves x i ARTIFACTTYPE_OSIMAGE a)) \<and>
    (get_os_type i True = OSTYPE_WINDOWS \<longrightarrow> (\<exists>a \<in> set arts. serves x i ARTIFACTTYPE_DRIVER a))"
proof -
  from assms obtain s where s: "scan_artifacts x i \<lparr>seen_sdk = False, seen_os = False, seen_driver = False\<rparr> arts = Inr s"
    and "seen_sdk s \<or> i_SourceType i \<noteq> SOURCETYPE_VMWARE" "seen_os s \<or> get_os_type i True \<noteq> OSTYPE_FORTIGATE"
      "seen_driver s \<or> get_os_type i True \<noteq> OSTYPE_WINDOWS"
    by (auto simp: has_required_artifacts_def first_err_None split: sum.splits)
  with scan_artifacts_serves [OF s] show ?thesis by auto
qed

theorem required_artifacts_found_witness:
  "\<exists>a \<in> {sample_sdk}. serves plain_ext sample_inst ARTIFACTTYPE_SDK a"
proof -
  have "has_required_artifacts plain_ext [sample_sdk] sample_inst = None" by code_simp
  moreover have "i_SourceType sample_inst = SOURCETYPE_VMWARE" by code_simp
  ultimately show ?thesis using required_artifacts_found [of plain_ext "[sample_sdk]" sample_inst] by simp
qed

text \<open>
  Updating an artifact when none of its type is left (it was deleted after it was read) makes
  the service panic instead of reporting that it is not found.
\<close>

theorem artifact_update_panics:
  assumes "artifact_validate x a = None" and "\<forall>b \<in> set (db_artifacts (w_db s)). af_Type b \<noteq> af_Type a"
  shows "fst (artifact_update x u a s) = Inl negative_capacity"
  using assms
  by (cases "w_intx s")
    (simp_all add: artifact_update_def run_simps artifact_repo_get_all_by_type_def filter_empty_conv)

theorem artifact_update_panics_witness:
  "fst (artifact_update plain_ext 3 sample_sdk empty_world) = Inl negative_capacity"
  by (rule artifact_update_panics) (simp_all add: sample_sdk_valid empty_world_def)

end
