(* ===== verification/Handler.thy ===== *)
theory Handler
  imports Catalog_Repo
begin

text \<open>
  The queue handler (\<^verbatim>\<open>internal/queue/handler.go\<close>): the migration state of the running batches,
  which the periodic tasks work on, and the cache of the workers' last updates; and the recount of the
  caches when the daemon starts (\<open>syncActiveBatches\<close> of
  \<^verbatim>\<open>cmd/migration-managerd/internal/api/sync.go\<close>).
\<close>

section \<open>The migration state\<close>

definition zero_source :: source where
  "zero_source = \<lparr>src_ID = 0, src_Name = '''', src_SourceType = SOURCETYPE_OTHER '''', src_Properties = ''''\<rparr>"

definition zero_target :: target where
  "zero_target = \<lparr>tgt_ID = 0, tgt_Name = '''', tgt_TargetType = TARGETTYPE_OTHER '''', tgt_Properties = ''''\<rparr>"

definition zero_entry :: queue_entry where
  "zero_entry = \<lparr>q_ID = 0, q_InstanceUUID = 0, q_BatchName = '''', q_SecretToken = 0, q_ImportStage = IMPORTSTAGE_OTHER '''',
     q_MigrationStatus = MIGRATIONSTATUS_OTHER '''', q_MigrationStatusMessage = '''',
     q_LastWorkerStatus = WORKERRESPONSE_UNKNOWN, q_LastBackgroundSync = 0, q_MigrationWindowName = None,
     q_Placement = placement_empty\<rparr>"

record migration_state =
  ms_Batch :: batch
  ms_Windows :: "(string, window) gomap"
  ms_Targets :: "(uuid, target) gomap"
  ms_QueueEntries :: "(uuid, queue_entry) gomap"
  ms_Instances :: "(uuid, inst) gomap"
  ms_Sources :: "(uuid, source) gomap"

type_synonym batch_migration_state = "(string, migration_state) gomap"

definition bms_queue :: "batch_migration_state \<Rightarrow> (uuid, queue_entry) gomap" where
  "bms_queue b = fold (\<lambda>(n, s) m. fold (\<lambda>(u, q) m. gm_set u q m) (ms_QueueEntries s) m) b []"

definition state_entry :: "migration_state \<Rightarrow> uuid \<Rightarrow> queue_entry" where
  "state_entry st u = gm_get zero_entry (ms_QueueEntries st) u"

definition state_target :: "migration_state \<Rightarrow> uuid \<Rightarrow> target" where
  "state_target st u = gm_get zero_target (ms_Targets st) u"

definition state_source :: "migration_state \<Rightarrow> uuid \<Rightarrow> source" where
  "state_source st u = gm_get zero_source (ms_Sources st) u"

definition state_instance :: "migration_state \<Rightarrow> uuid \<Rightarrow> inst" where
  "state_instance st u = gm_get empty_instance (ms_Instances st) u"

text \<open>
  The state of one batch, put together from the records that were read. A missing source is the
  zero one, a missing target stays missing.
\<close>

definition batch_state ::
    "source list \<Rightarrow> target list \<Rightarrow> instances \<Rightarrow> queue_entries \<Rightarrow> batch \<times> windows \<Rightarrow> string \<times> migration_state" where
  "batch_state srcs tgts insts entries = (\<lambda>(b, ws).
     let qs = map (\<lambda>q. (q_InstanceUUID q, q)) (filter (\<lambda>q. q_BatchName q = b_Name b) entries);
         is = filter (\<lambda>i. map_of qs (i_UUID i) \<noteq> None) insts
     in (b_Name b,
      \<lparr>ms_Batch = b, ms_Windows = fold (\<lambda>w m. gm_set (w_Name w) w m) ws [],
       ms_Targets = List.map_filter (\<lambda>i. map_option (Pair (i_UUID i))
         (last_by tgt_Name tgts (p_TargetName (q_Placement (gm_get zero_entry qs (i_UUID i)))))) is,
       ms_QueueEntries = qs,
       ms_Instances = map (\<lambda>i. (i_UUID i, i)) is,
       ms_Sources = map (\<lambda>i. (i_UUID i, case last_by src_Name srcs (i_Source i) of None \<Rightarrow> zero_source | Some s \<Rightarrow> s)) is\<rparr>))"

fun batches_windows :: "batch list \<Rightarrow> (batch \<times> windows) list wm" where
  "batches_windows [] = ret []"
| "batches_windows (b # bs) =
     bindm (window_repo_get_all_by_batch (b_Name b)) (\<lambda>ws. bindm (batches_windows bs) (\<lambda>r. ret ((b, ws) # r)))"

definition get_migration_state :: "batch_status \<Rightarrow> migration_status list \<Rightarrow> batch_migration_state wm" where
  "get_migration_state batchStatus statuses =
     wrap_err (\<lambda>e. Errorf ''Failed to fetch records for migration state: %w'' [AWrap e])
      (tx_do (bindm (queue_get_all_by_state statuses) (\<lambda>entries.
       bindm (batch_repo_get_all_by_state batchStatus) (\<lambda>batches.
       bindm (batches_windows batches) (\<lambda>bws.
       bindm target_repo_get_all (\<lambda>tgts.
       bindm (source_repo_get_all []) (\<lambda>srcs.
       bindm (instance_get_all_queued entries) (\<lambda>insts.
         ret (map (batch_state srcs tgts insts entries)
           (filter (\<lambda>(b, _). \<exists>q \<in> set entries. q_BatchName q = b_Name b) bws))))))))))"

section \<open>The workers' last updates\<close>

definition record_worker_update :: "ext \<Rightarrow> uuid \<Rightarrow> unit wm" where
  "record_worker_update x u = modify (\<lambda>s. s\<lparr>w_lastUpdate := cache_write 0 (w_lastUpdate s) u (x_now x) None\<rparr>)"

definition last_worker_update :: "uuid \<Rightarrow> time wm" where
  "last_worker_update u = gets (\<lambda>s. fst (cache_read 0 (w_lastUpdate s) u))"

definition remove_from_cache :: "uuid \<Rightarrow> unit wm" where
  "remove_from_cache u = modify (\<lambda>s. s\<lparr>w_lastUpdate := cache_delete (w_lastUpdate s) u\<rparr>)"

section \<open>Startup\<close>

text \<open>What the recount adds for one entry.\<close>

record recount =
  rc_source :: "(string, int) cache"
  rc_target :: "(string, int) cache"
  rc_batch :: "(string, int) cache"
  rc_create :: "(string, int) cache"
  rc_update :: "(uuid, time) cache"

definition bump :: "'k \<Rightarrow> ('k, int) cache \<Rightarrow> ('k, int) cache" where
  "bump k c = c(k \<mapsto> counter_get c k + 1)"

definition recount_entry :: "ext \<Rightarrow> migration_state \<Rightarrow> uuid \<times> queue_entry \<Rightarrow> recount \<Rightarrow> recount" where
  "recount_entry x st = (\<lambda>(u, q) r.
     case q_MigrationStatus q of
       MIGRATIONSTATUS_IDLE \<Rightarrow> r\<lparr>rc_update := (rc_update r)(u \<mapsto> x_now x)\<rparr>
     | MIGRATIONSTATUS_WORKER_DONE \<Rightarrow> r\<lparr>rc_update := (rc_update r)(u \<mapsto> x_now x)\<rparr>
     | MIGRATIONSTATUS_POST_IMPORT \<Rightarrow> r\<lparr>rc_update := (rc_update r)(u \<mapsto> x_now x)\<rparr>
     | MIGRATIONSTATUS_ERROR \<Rightarrow> r\<lparr>rc_update := (rc_update r)(u \<mapsto> x_now x)\<rparr>
     | MIGRATIONSTATUS_BACKGROUND_IMPORT \<Rightarrow>
         r\<lparr>rc_source := bump (src_Name (state_source st u)) (rc_source r),
           rc_target := bump (tgt_Name (state_target st u)) (rc_target r),
           rc_batch := bump (b_Name (ms_Batch st)) (rc_batch r), rc_update := (rc_update r)(u \<mapsto> x_now x)\<rparr>
     | MIGRATIONSTATUS_FINAL_IMPORT \<Rightarrow>
         r\<lparr>rc_source := bump (src_Name (state_source st u)) (rc_source r),
           rc_target := bump (tgt_Name (state_target st u)) (rc_target r), rc_update := (rc_update r)(u \<mapsto> x_now x)\<rparr>
     | MIGRATIONSTATUS_CREATING \<Rightarrow> r\<lparr>rc_create := bump (tgt_Name (state_target st u)) (rc_create r)\<rparr>
     | _ \<Rightarrow> r)"

definition recount_states :: "ext \<Rightarrow> batch_migration_state \<Rightarrow> recount" where
  "recount_states x states =
     fold (\<lambda>(n, st). fold (recount_entry x st) (ms_QueueEntries st)) states
       \<lparr>rc_source = Map.empty, rc_target = Map.empty, rc_batch = Map.empty, rc_create = Map.empty, rc_update = Map.empty\<rparr>"

definition sync_active_batches :: "ext \<Rightarrow> unit wm" where
  "sync_active_batches x =
     bindm (tx_do (wrap_err (\<lambda>e. Errorf ''Failed to get running migration states: %w'' [AWrap e])
       (get_migration_state BATCHSTATUS_RUNNING
         [MIGRATIONSTATUS_BACKGROUND_IMPORT, MIGRATIONSTATUS_FINAL_IMPORT, MIGRATIONSTATUS_CREATING]))) (\<lambda>states.
     let r = recount_states x states in
     modify (\<lambda>s. s\<lparr>w_srcImports := snd (cache_replace (Some (rc_source r)) (w_srcImports s)),
       w_tgtImports := snd (cache_replace (Some (rc_target r)) (w_tgtImports s)),
       w_tgtCreations := snd (cache_replace (Some (rc_create r)) (w_tgtCreations s)),
       w_batchImports := snd (cache_replace (Some (rc_batch r)) (w_batchImports s)),
       w_lastUpdate := snd (cache_replace (Some (rc_update r)) (w_lastUpdate s))\<rparr>))"

end
