(* ===== verification/Startup.thy ===== *)
theory Startup
  imports Handler Accounting
begin

text \<open>
  What the daemon's first look at the database gives: the migration state as a function of the
  tables, and counters that are exact again after a restart.
\<close>

section \<open>The migration state as a function of the tables\<close>

definition states_of :: "db \<Rightarrow> batch_status \<Rightarrow> migration_status list \<Rightarrow> batch_migration_state" where
  "states_of d st sts =
     (let entries = queue_select (\<lambda>q. sts = [] \<or> q_MigrationStatus q \<in> set sts) d;
          insts = if entries = [] then [] else instance_select (\<lambda>i. i_UUID i \<in> set (map q_InstanceUUID entries)) d
      in map (batch_state (sort_key src_Name (db_sources d)) (sort_key tgt_Name (db_targets d)) insts entries)
           (filter (\<lambda>(b, _). \<exists>q \<in> set entries. q_BatchName q = b_Name b)
             (map (\<lambda>b. (b, windows_by_batch d (b_Name b))) (filter (\<lambda>b. b_Status b = st) (sort_key b_Name (db_batches d))))))"

lemma batches_windows_run [run_simps]:
  "batches_windows bs s = (Inr (map (\<lambda>b. (b, windows_by_batch (w_db s) (b_Name b))) bs), s)"
  by (induction bs) (simp_all add: run_simps window_repo_get_all_by_batch_def)

lemma get_migration_state_run [run_simps]:
  "get_migration_state st sts s = (Inr (states_of (w_db s) st sts), s)"
  by (cases "w_intx s")
    (simp_all add: get_migration_state_def states_of_def run_simps queue_get_all_by_state_def
      queue_repo_get_all_by_state_def batch_repo_get_all_by_state_def target_repo_get_all_def
      source_repo_get_all_def instance_get_all_queued_def instance_repo_get_all_by_uuids_def Let_def)

lemma sync_active_batches_run:
  "sync_active_batches x s =
    (let r = recount_states x (states_of (w_db s) BATCHSTATUS_RUNNING
         [MIGRATIONSTATUS_BACKGROUND_IMPORT, MIGRATIONSTATUS_FINAL_IMPORT, MIGRATIONSTATUS_CREATING])
     in (Inr (), s\<lparr>w_srcImports := rc_source r, w_tgtImports := rc_target r, w_tgtCreations := rc_create r,
           w_batchImports := rc_batch r, w_lastUpdate := rc_update r\<rparr>))"
  by (cases "w_intx s") (simp_all add: sync_active_batches_def run_simps Let_def cache_replace_def)

section \<open>Counting\<close>

definition tally :: "('a \<Rightarrow> bool) \<Rightarrow> 'a list \<Rightarrow> int" where
  "tally P xs = int (length (filter P xs))"

lemma counter_get_bump [simp]: "counter_get (bump k c) n = counter_get c n + (if n = k then 1 else 0)"
  by (auto simp: bump_def counter_get_def cache_read_def)

definition creating :: "queue_entry \<Rightarrow> bool" where
  "creating q \<longleftrightarrow> q_MigrationStatus q = MIGRATIONSTATUS_CREATING"

lemma recount_entry_counts:
  "counter_get (rc_source (recount_entry x st (u, q) r)) n =
     counter_get (rc_source r) n + (if importing q \<and> n = src_Name (state_source st u) then 1 else 0)"
  "counter_get (rc_target (recount_entry x st (u, q) r)) n =
     counter_get (rc_target r) n + (if importing q \<and> n = tgt_Name (state_target st u) then 1 else 0)"
  "counter_get (rc_batch (recount_entry x st (u, q) r)) n =
     counter_get (rc_batch r) n + (if syncing q \<and> n = b_Name (ms_Batch st) then 1 else 0)"
  "counter_get (rc_create (recount_entry x st (u, q) r)) n =
     counter_get (rc_create r) n + (if creating q \<and> n = tgt_Name (state_target st u) then 1 else 0)"
  by (simp_all add: recount_entry_def importing_def syncing_def creating_def split: migration_status.split)

text \<open>One field of the recount: it grows by one for every entry that satisfies a condition.\<close>

lemma tally_fold:
  assumes "\<And>e r. counter_get (f (g e r)) n = counter_get (f r) n + (if P e then 1 else 0)"
  shows "counter_get (f (fold g es r)) n = counter_get (f r) n + tally P es"
  by (induction es arbitrary: r) (simp_all add: assms tally_def)

lemma tally_states:
  assumes "\<And>st e r. counter_get (f (recount_entry x st e r)) n = counter_get (f r) n + (if P st e then 1 else 0)"
    and "counter_get (f \<lparr>rc_source = Map.empty, rc_target = Map.empty, rc_batch = Map.empty, rc_create = Map.empty,
        rc_update = Map.empty\<rparr>) n = 0"
  shows "counter_get (f (recount_states x states)) n = sum_list (map (\<lambda>(m, st). tally (P st) (ms_QueueEntries st)) states)"
proof -
  have "counter_get (f (fold (\<lambda>(m, st). fold (recount_entry x st) (ms_QueueEntries st)) states r)) n =
      counter_get (f r) n + sum_list (map (\<lambda>(m, st). tally (P st) (ms_QueueEntries st)) states)" for r
    by (induction states arbitrary: r) (auto simp: tally_fold [of f, OF assms(1)])
  with assms(2) show ?thesis by (simp add: recount_states_def)
qed

lemma counter_get_empty [simp]: "counter_get Map.empty n = 0"
  by (simp add: counter_get_def cache_read_def)

lemma rc_empty: "counter_get (f \<lparr>rc_source = Map.empty, rc_target = Map.empty, rc_batch = Map.empty, rc_create = Map.empty,
        rc_update = Map.empty\<rparr>) n = 0" if "f \<in> {rc_source, rc_target, rc_batch, rc_create}"
  using that by auto

lemma recount_states_counts:
  "counter_get (rc_source (recount_states x states)) n =
     sum_list (map (\<lambda>(m, st). tally (\<lambda>(u, q). importing q \<and> n = src_Name (state_source st u)) (ms_QueueEntries st)) states)"
  "counter_get (rc_target (recount_states x states)) n =
     sum_list (map (\<lambda>(m, st). tally (\<lambda>(u, q). importing q \<and> n = tgt_Name (state_target st u)) (ms_QueueEntries st)) states)"
  "counter_get (rc_batch (recount_states x states)) n =
     sum_list (map (\<lambda>(m, st). tally (\<lambda>(u, q). syncing q \<and> n = b_Name (ms_Batch st)) (ms_QueueEntries st)) states)"
proof -
  show "counter_get (rc_source (recount_states x states)) n =
     sum_list (map (\<lambda>(m, st). tally (\<lambda>(u, q). importing q \<and> n = src_Name (state_source st u)) (ms_QueueEntries st)) states)"
    by (rule tally_states, unfold split_paired_all case_prod_conv, rule recount_entry_counts, rule rc_empty) simp
  show "counter_get (rc_target (recount_states x states)) n =
     sum_list (map (\<lambda>(m, st). tally (\<lambda>(u, q). importing q \<and> n = tgt_Name (state_target st u)) (ms_QueueEntries st)) states)"
    by (rule tally_states, unfold split_paired_all case_prod_conv, rule recount_entry_counts, rule rc_empty) simp
  show "counter_get (rc_batch (recount_states x states)) n =
     sum_list (map (\<lambda>(m, st). tally (\<lambda>(u, q). syncing q \<and> n = b_Name (ms_Batch st)) (ms_QueueEntries st)) states)"
    by (rule tally_states, unfold split_paired_all case_prod_conv, rule recount_entry_counts, rule rc_empty) simp
qed

text \<open>
  Entries that are counted batch by batch are counted once, if no batch occurs twice and every
  entry's batch occurs.
\<close>

lemma tally_by_group:
  assumes "distinct (map f bs)" and "\<And>q. q \<in> set qs \<Longrightarrow> P q \<Longrightarrow> g q \<in> f ` set bs"
  shows "sum_list (map (\<lambda>b. tally (\<lambda>q. g q = f b \<and> P q) qs) bs) = tally P qs"
  using assms(2)
proof (induction qs)
  case (Cons q qs)
  have one: "sum_list (map (\<lambda>b. if g q = f b \<and> P q then 1 else 0 :: int) bs) = (if P q \<and> g q \<in> f ` set bs then 1 else 0)"
    using assms(1) by (induction bs) (auto simp: image_iff)
  have "sum_list (map (\<lambda>b. tally (\<lambda>q. g q = f b \<and> P q) (q # qs)) bs) =
      sum_list (map (\<lambda>b. (if g q = f b \<and> P q then 1 else 0) + tally (\<lambda>q. g q = f b \<and> P q) qs) bs)"
    by (rule arg_cong [of _ _ sum_list]) (simp add: tally_def)
  also have "\<dots> = (if P q \<and> g q \<in> f ` set bs then 1 else 0) + tally P qs"
    using Cons by (simp add: sum_list_addf one)
  also have "\<dots> = tally P (q # qs)"
    using Cons.prems by (simp add: tally_def)
  finally show ?case .
qed (simp add: tally_def)

section \<open>The queue as a list and as a map\<close>

definition rows_distinct :: "db \<Rightarrow> bool" where
  "rows_distinct d \<longleftrightarrow> distinct (map qr_key (db_queue d)) \<and> distinct (map b_Name (db_batches d)) \<and>
     distinct (map i_UUID (db_instances d))"

lemma read_queue_row_key [simp]: "q_InstanceUUID (read_queue_row d r) = qr_key r"
  by (simp add: read_queue_row_def)

lemma queue_select_keys:
  "distinct (map qr_key (db_queue d)) \<Longrightarrow> distinct (map q_InstanceUUID (queue_select P d))"
proof -
  assume "distinct (map qr_key (db_queue d))"
  then have "distinct (map qr_key (sort_key (\<lambda>r. instance_id d (qr_key r)) (db_queue d)))"
    by (simp add: distinct_map)
  then have "distinct (map q_InstanceUUID (map (read_queue_row d) (sort_key (\<lambda>r. instance_id d (qr_key r)) (db_queue d))))"
    by (simp add: comp_def)
  then show ?thesis unfolding queue_select_def by (rule distinct_map_filter)
qed

lemma queue_select_map:
  assumes "distinct (map qr_key (db_queue (w_db s)))"
  shows "queue_map s u = Some q \<longleftrightarrow> q \<in> set (queue_select (\<lambda>_. True) (w_db s)) \<and> q_InstanceUUID q = u"
proof -
  have "tb_get qr_key (db_queue (w_db s)) u = Some r \<longleftrightarrow> r \<in> set (db_queue (w_db s)) \<and> qr_key r = u" for r
    using find_key_unique [OF assms, of r] by (auto simp: tb_get_def dest: find_SomeD)
  then show ?thesis by (auto simp: queue_map_def queue_lookup_def queue_select_def)
qed

lemma queue_select_set: "q \<in> set (queue_select P d) \<longleftrightarrow> q \<in> set (queue_select (\<lambda>_. True) d) \<and> P q"
  by (auto simp: queue_select_def)

lemma tally_users:
  assumes d: "distinct (map qr_key (db_queue (w_db s)))"
    and sel: "\<And>q. busy q \<Longrightarrow> P q" 
  shows "tally (\<lambda>q. busy q \<and> key (q_InstanceUUID q) q = n) (queue_select P (w_db s)) = int (card (users busy key s n))"
proof -
  let ?l = "filter (\<lambda>q. busy q \<and> key (q_InstanceUUID q) q = n) (queue_select P (w_db s))"
  have "users busy key s n = q_InstanceUUID ` set ?l"
    using sel queue_select_set [of _ P "w_db s"] unfolding users_def queue_select_map [OF d] set_filter by blast
  moreover have "distinct (map q_InstanceUUID ?l)"
    by (rule distinct_map_filter, rule queue_select_keys, rule d)
  ultimately have "card (users busy key s n) = length ?l"
    using distinct_card [of "map q_InstanceUUID ?l"] by simp
  then show ?thesis by (simp add: tally_def)
qed

section \<open>Exact again\<close>

text \<open>What the schema and the guards of deletion keep: an importing entry's batch runs, and what it names is there.\<close>

definition imports_referenced :: "db \<Rightarrow> bool" where
  "imports_referenced d \<longleftrightarrow>
     (\<forall>q \<in> set (queue_select (\<lambda>_. True) d). importing q \<longrightarrow>
        (\<exists>b \<in> set (db_batches d). b_Name b = q_BatchName q \<and> b_Status b = BATCHSTATUS_RUNNING) \<and>
        (\<exists>i \<in> set (db_instances d). i_UUID i = q_InstanceUUID q \<and> i_Source i \<in> src_Name ` set (db_sources d)) \<and>
        p_TargetName (q_Placement q) \<in> tgt_Name ` set (db_targets d))"

lemma last_by_key: "last_by key xs k = Some y \<Longrightarrow> key y = k"
  by (auto simp: last_by_def dest!: map_of_SomeD)

lemma last_by_member: "k \<in> key ` set xs \<Longrightarrow> \<exists>y. last_by key xs k = Some y \<and> key y = k"
proof -
  assume "k \<in> key ` set xs"
  then have "last_by key xs k \<noteq> None" by (auto simp: last_by_def map_of_eq_None_iff image_image)
  then show ?thesis using last_by_key by force
qed

lemma map_of_keyed: "distinct (map key xs) \<Longrightarrow> y \<in> set xs \<Longrightarrow> map_of (map (\<lambda>y. (key y, f y)) xs) (key y) = Some (f y)"
  by (induction xs) (auto simp: image_iff)

text \<open>What the state of a batch has for an entry.\<close>

lemma batch_state_names:
  assumes q: "q \<in> set entries" "q_BatchName q = b_Name b" and e: "distinct (map q_InstanceUUID entries)"
    and i: "i \<in> set insts" "i_UUID i = q_InstanceUUID q" "distinct (map i_UUID insts)"
    and s: "i_Source i \<in> src_Name ` set srcs" and t: "p_TargetName (q_Placement q) \<in> tgt_Name ` set tgts"
  shows "src_Name (state_source (snd (batch_state srcs tgts insts entries (b, ws))) (q_InstanceUUID q)) = i_Source i"
    and "tgt_Name (state_target (snd (batch_state srcs tgts insts entries (b, ws))) (q_InstanceUUID q)) =
      p_TargetName (q_Placement q)"
proof -
  let ?qs = "map (\<lambda>q. (q_InstanceUUID q, q)) (filter (\<lambda>q. q_BatchName q = b_Name b) entries)"
  let ?is = "filter (\<lambda>i. map_of ?qs (i_UUID i) \<noteq> None) insts"
  have qs: "map_of ?qs (q_InstanceUUID q) = Some q"
    using map_of_keyed [OF distinct_map_filter [OF e], of q "\<lambda>q. q_BatchName q = b_Name b" "\<lambda>q. q"] q by simp
  then have mem: "i \<in> set ?is" using i(1,2) by simp
  have dis: "distinct (map i_UUID ?is)" using distinct_map_filter [OF i(3)] by simp
  obtain sr where sr: "last_by src_Name srcs (i_Source i) = Some sr" "src_Name sr = i_Source i"
    using last_by_member [OF s] by auto
  obtain tg where tg: "last_by tgt_Name tgts (p_TargetName (q_Placement q)) = Some tg"
      "tgt_Name tg = p_TargetName (q_Placement q)"
    using last_by_member [OF t] by auto
  show "src_Name (state_source (snd (batch_state srcs tgts insts entries (b, ws))) (q_InstanceUUID q)) = i_Source i"
    using map_of_keyed [OF dis mem, of "\<lambda>i. case last_by src_Name srcs (i_Source i) of None \<Rightarrow> zero_source | Some s \<Rightarrow> s"] sr i(2)
    by (simp add: state_source_def batch_state_def gm_get_def Let_def)
  have tgt: "map_of (List.map_filter (\<lambda>i. map_option (Pair (i_UUID i)) (f i)) is) (i_UUID i) = Some v"
    if "distinct (map i_UUID is)" "i \<in> set is" "f i = Some v" for "is" f v
    using that by (induction "is") (auto simp: List.map_filter_simps image_iff split: option.splits)
  show "tgt_Name (state_target (snd (batch_state srcs tgts insts entries (b, ws))) (q_InstanceUUID q)) =
      p_TargetName (q_Placement q)"
    using tgt [OF dis mem, of "\<lambda>i. last_by tgt_Name tgts (p_TargetName (q_Placement (gm_get zero_entry ?qs (i_UUID i))))" tg] tg qs i(2)
    by (simp add: state_target_def batch_state_def gm_get_def Let_def)
qed

lemma batch_state_entries [simp]:
  "ms_QueueEntries (snd (batch_state srcs tgts insts entries (b, ws))) =
     map (\<lambda>q. (q_InstanceUUID q, q)) (filter (\<lambda>q. q_BatchName q = b_Name b) entries)"
  "ms_Batch (snd (batch_state srcs tgts insts entries (b, ws))) = b"
  by (simp_all add: batch_state_def Let_def)

text \<open>
  A condition that is counted over the states of all running batches is counted over the queue,
  when its entries import and the condition can be read off the entry.
\<close>

lemma tally_running:
  fixes s :: world
  assumes rows: "rows_distinct (w_db s)" and ref: "imports_referenced (w_db s)"
    and busy: "\<And>q. busy q \<Longrightarrow> importing q" and sts: "\<And>q. importing q \<Longrightarrow> q_MigrationStatus q \<in> set sts" "sts \<noteq> []"
    and key: "\<And>q b ws insts. q \<in> set (queue_select (\<lambda>_. True) (w_db s)) \<Longrightarrow> importing q \<Longrightarrow> q_BatchName q = b_Name b \<Longrightarrow>
        distinct (map i_UUID insts) \<Longrightarrow> set insts = {i \<in> set (db_instances (w_db s)). i_UUID i \<in>
          q_InstanceUUID ` set (queue_select (\<lambda>q. sts = [] \<or> q_MigrationStatus q \<in> set sts) (w_db s))} \<Longrightarrow>
        nm (snd (batch_state (sort_key src_Name (db_sources (w_db s))) (sort_key tgt_Name (db_targets (w_db s))) insts
          (queue_select (\<lambda>q. sts = [] \<or> q_MigrationStatus q \<in> set sts) (w_db s)) (b, ws))) (q_InstanceUUID q) =
        key (q_InstanceUUID q) q"
  shows "sum_list (map (\<lambda>(m, st). tally (\<lambda>(u, q). busy q \<and> n = nm st u) (ms_QueueEntries st))
      (states_of (w_db s) BATCHSTATUS_RUNNING sts)) = int (card (users busy key s n))"
proof -
  define entries where "entries = queue_select (\<lambda>q. sts = [] \<or> q_MigrationStatus q \<in> set sts) (w_db s)"
  define insts where "insts = (if entries = [] then []
     else instance_select (\<lambda>i. i_UUID i \<in> set (map q_InstanceUUID entries)) (w_db s))"
  define bws where "bws = filter (\<lambda>(b, _). \<exists>q \<in> set entries. q_BatchName q = b_Name b)
     (map (\<lambda>b. (b, windows_by_batch (w_db s) (b_Name b)))
       (filter (\<lambda>b. b_Status b = BATCHSTATUS_RUNNING) (sort_key b_Name (db_batches (w_db s)))))"
  define st where "st = batch_state (sort_key src_Name (db_sources (w_db s))) (sort_key tgt_Name (db_targets (w_db s))) insts entries"
  have states: "states_of (w_db s) BATCHSTATUS_RUNNING sts = map st bws"
    by (simp add: states_of_def entries_def insts_def bws_def st_def Let_def)
  have insts: "distinct (map i_UUID insts)"
      "set insts = {i \<in> set (db_instances (w_db s)). i_UUID i \<in> q_InstanceUUID ` set entries}"
    using rows by (auto simp: insts_def instance_select_def rows_distinct_def distinct_map intro: inj_on_subset)
  have nm: "nm (snd (st bw)) (q_InstanceUUID q) = key (q_InstanceUUID q) q"
    if "q \<in> set entries" "importing q" "q_BatchName q = b_Name (fst bw)" for q bw
    using key [of q "fst bw" insts "snd bw"] insts that
      queue_select_set [of q "\<lambda>q. sts = [] \<or> q_MigrationStatus q \<in> set sts" "w_db s"]
    unfolding st_def entries_def by simp
  have one: "tally (\<lambda>(u, q). busy q \<and> n = nm (snd (st bw)) u) (ms_QueueEntries (snd (st bw))) =
      tally (\<lambda>q. q_BatchName q = b_Name (fst bw) \<and> busy q \<and> key (q_InstanceUUID q) q = n) entries" for bw
  proof -
    have "ms_QueueEntries (snd (st bw)) = map (\<lambda>q. (q_InstanceUUID q, q)) (filter (\<lambda>q. q_BatchName q = b_Name (fst bw)) entries)"
      unfolding st_def using batch_state_entries(1) [of _ _ _ _ "fst bw" "snd bw"] by simp
    then show ?thesis
      using nm [of _ bw] busy
      by (auto simp: tally_def filter_map comp_def filter_filter intro!: arg_cong [of _ _ length] filter_cong)
  qed
  have dist: "distinct (map (\<lambda>bw. b_Name (fst bw)) bws)"
  proof -
    have "distinct (map b_Name (filter (\<lambda>b. b_Status b = BATCHSTATUS_RUNNING) (sort_key b_Name (db_batches (w_db s)))))"
      using rows by (auto simp: rows_distinct_def distinct_map intro: inj_on_subset)
    then show ?thesis unfolding bws_def by (intro distinct_map_filter) (simp add: comp_def)
  qed
  have covered: "q_BatchName q \<in> (\<lambda>bw. b_Name (fst bw)) ` set bws"
    if q: "q \<in> set entries" "busy q \<and> key (q_InstanceUUID q) q = n" for q
  proof -
    from q(1) have "q \<in> set (queue_select (\<lambda>_. True) (w_db s))"
      using queue_select_set [of q _ "w_db s"] unfolding entries_def by blast
    with ref busy q(2) obtain b where b: "b \<in> set (db_batches (w_db s))" "b_Name b = q_BatchName q"
        "b_Status b = BATCHSTATUS_RUNNING"
      unfolding imports_referenced_def by blast
    then have "(b, windows_by_batch (w_db s) (b_Name b)) \<in> set bws" using q(1) by (auto simp: bws_def)
    with b(2) show ?thesis by force
  qed
  have "sum_list (map (\<lambda>(m, st). tally (\<lambda>(u, q). busy q \<and> n = nm st u) (ms_QueueEntries st)) (map st bws)) =
      sum_list (map (\<lambda>bw. tally (\<lambda>q. q_BatchName q = b_Name (fst bw) \<and> busy q \<and> key (q_InstanceUUID q) q = n) entries) bws)"
    using one by (simp add: comp_def case_prod_unfold)
  also have "\<dots> = tally (\<lambda>q. busy q \<and> key (q_InstanceUUID q) q = n) entries"
    by (rule tally_by_group [OF dist covered])
  also have "\<dots> = int (card (users busy key s n))"
    unfolding entries_def using rows busy sts by (intro tally_users) (auto simp: rows_distinct_def)
  finally show ?thesis unfolding states .
qed

abbreviation import_statuses :: "migration_status list" where
  "import_statuses \<equiv> [MIGRATIONSTATUS_BACKGROUND_IMPORT, MIGRATIONSTATUS_FINAL_IMPORT, MIGRATIONSTATUS_CREATING]"

lemma import_statuses: "importing q \<Longrightarrow> q_MigrationStatus q \<in> set import_statuses"
  by (auto simp: importing_def)

lemma source_of_instance:
  assumes "rows_distinct d" "i \<in> set (db_instances d)"
  shows "source_of d (i_UUID i) = i_Source i"
  using assms find_key_unique [of i_UUID "db_instances d" i] by (simp add: source_of_def tb_get_def rows_distinct_def)

lemma running_names:
  assumes "rows_distinct d" and "imports_referenced d"
    and q: "q \<in> set (queue_select (\<lambda>_. True) d)" "importing q" "q_BatchName q = b_Name b"
    and i: "distinct (map i_UUID insts)" "set insts = {i \<in> set (db_instances d). i_UUID i \<in> q_InstanceUUID ` set entries}"
    and e: "entries = queue_select (\<lambda>q. import_statuses = [] \<or> q_MigrationStatus q \<in> set import_statuses) d"
  shows "src_Name (state_source (snd (batch_state (sort_key src_Name (db_sources d))
        (sort_key tgt_Name (db_targets d)) insts entries (b, ws))) (q_InstanceUUID q)) = source_of d (q_InstanceUUID q) \<and>
      tgt_Name (state_target (snd (batch_state (sort_key src_Name (db_sources d))
        (sort_key tgt_Name (db_targets d)) insts entries (b, ws))) (q_InstanceUUID q)) = p_TargetName (q_Placement q)"
proof -
  from assms(2) q obtain i where j: "i \<in> set (db_instances d)" "i_UUID i = q_InstanceUUID q"
      "i_Source i \<in> src_Name ` set (db_sources d)" "p_TargetName (q_Placement q) \<in> tgt_Name ` set (db_targets d)"
    unfolding imports_referenced_def by blast
  from q import_statuses [OF q(2)] have mem: "q \<in> set entries"
    unfolding e queue_select_set [of _ "\<lambda>q. import_statuses = [] \<or> q_MigrationStatus q \<in> set import_statuses"] by blast
  from mem j i(2) have ii: "i \<in> set insts" by auto
  from assms(1) have de: "distinct (map q_InstanceUUID entries)"
    unfolding e by (auto simp: rows_distinct_def intro: queue_select_keys)
  from batch_state_names [OF mem q(3) de ii j(2) i(1), of "sort_key src_Name (db_sources d)" "sort_key tgt_Name (db_targets d)" ws]
    j source_of_instance [OF assms(1) j(1)]
  show ?thesis by simp
qed



end
