(* ===== verification/Go_Net.thy ===== *)
theory Go_Net
  imports Go_Runtime
begin

unbundle bit_operations_syntax

text \<open>
  The part of Go's \<^verbatim>\<open>net\<close> package that the checks on addresses use: \<^verbatim>\<open>ParseIP\<close>, \<^verbatim>\<open>To4\<close>,
  \<^verbatim>\<open>ParseCIDR\<close> and \<^verbatim>\<open>IPNet.Contains\<close>. An address is its 16-byte form; an IPv4 address is the one
  mapped into IPv6 (\<open>::ffff:a.b.c.d\<close>), as Go keeps it.
\<close>

type_synonym ip = "128 word"

definition v4_prefix :: ip where
  "v4_prefix = push_bit 32 0xFFFF"

text \<open>\<open>To4() != nil\<close>.\<close>

definition ip_is4 :: "ip \<Rightarrow> bool" where
  "ip_is4 a \<longleftrightarrow> drop_bit 32 a = 0xFFFF"

section \<open>Parsing\<close>

definition v4_field :: "string \<Rightarrow> nat option" where
  "v4_field s =
     (if s \<noteq> [] \<and> list_all is_digit s \<and> (length s = 1 \<or> s ! 0 \<noteq> CHR ''0'') \<and> read_nat s \<le> 255
      then Some (read_nat s) else None)"

definition v4_number :: "nat list \<Rightarrow> nat" where
  "v4_number fs = foldl (\<lambda>n f. n * 256 + f) 0 fs"

definition parse_v4 :: "string \<Rightarrow> nat option" where
  "parse_v4 s =
     (let fs = map v4_field (str_split (CHR ''.'') s)
      in if length fs = 4 \<and> None \<notin> set fs then Some (v4_number (map the fs)) else None)"

definition hex_val :: "char \<Rightarrow> nat option" where
  "hex_val c = (let n = (of_char c :: nat) in
     if 48 \<le> n \<and> n \<le> 57 then Some (n - 48)
     else if 97 \<le> n \<and> n \<le> 102 then Some (n - 87)
     else if 65 \<le> n \<and> n \<le> 70 then Some (n - 55)
     else None)"

definition hex_number :: "string \<Rightarrow> nat" where
  "hex_number s = foldl (\<lambda>n c. n * 16 + the (hex_val c)) 0 s"

text \<open>
  The loop over the 16-bit fields of an IPv6 address, \<open>left\<close> of them still to come: the fields read
  and where the ellipsis stands among them. An embedded IPv4 address takes two fields.
\<close>

fun v6_fields :: "nat \<Rightarrow> nat list \<Rightarrow> nat option \<Rightarrow> string \<Rightarrow> (nat list \<times> nat option) option" where
  "v6_fields 0 fs ell s = (if s = [] then Some (fs, ell) else None)"
| "v6_fields (Suc left) fs ell s =
     (let h = takeWhile (\<lambda>c. hex_val c \<noteq> None) s; r = drop (length h) s
      in if h = [] \<or> 4 < length h then None
         else if r \<noteq> [] \<and> r ! 0 = CHR ''.'' then
           (if ell = None \<and> left \<noteq> 1 \<or> left = 0 then None
            else (case parse_v4 s of None \<Rightarrow> None | Some n \<Rightarrow> Some (fs @ [n div 65536, n mod 65536], ell)))
         else let fs' = fs @ [hex_number h] in
           if r = [] then Some (fs', ell)
           else if r ! 0 \<noteq> CHR '':'' \<or> length r = 1 then None
           else let r' = drop 1 r in
             if r' ! 0 = CHR '':'' then
               (if ell \<noteq> None then None
                else if drop 1 r' = [] then Some (fs', Some (length fs'))
                else v6_fields left fs' (Some (length fs')) (drop 1 r'))
             else v6_fields left fs' ell r')"

definition v6_number :: "nat list \<Rightarrow> nat" where
  "v6_number fs = foldl (\<lambda>n f. n * 65536 + f) 0 fs"

definition v6_expand :: "nat list \<times> nat option \<Rightarrow> nat list option" where
  "v6_expand = (\<lambda>(fs, ell).
     if length fs < 8
     then (case ell of None \<Rightarrow> None | Some k \<Rightarrow> Some (take k fs @ replicate (8 - length fs) 0 @ drop k fs))
     else if ell \<noteq> None then None else Some fs)"

definition parse_v6 :: "string \<Rightarrow> nat option" where
  "parse_v6 s =
     (if take 2 s = ''::'' then
        (if length s = 2 then Some 0
         else map_option v6_number (Option.bind (v6_fields 8 [] (Some 0) (drop 2 s)) v6_expand))
      else map_option v6_number (Option.bind (v6_fields 8 [] None s) v6_expand))"

text \<open>The first of \<open>.\<close>, \<open>:\<close> and \<open>%\<close> decides; addresses with a zone are not accepted.\<close>

definition parse_ip :: "string \<Rightarrow> ip option" where
  "parse_ip s =
     (if CHR ''%'' \<in> set s then None
      else (case find (\<lambda>c. c = CHR ''.'' \<or> c = CHR '':'') s of
              None \<Rightarrow> None
            | Some c \<Rightarrow>
                if c = CHR ''.'' then map_option (\<lambda>n. v4_prefix OR of_nat n) (parse_v4 s)
                else map_option of_nat (parse_v6 s)))"

section \<open>Networks\<close>

text \<open>
  A network is its masked address and the length of its prefix, counted in the 16-byte form. The
  mask's text is a decimal number of at most the length of an address (32 or 128); larger numbers
  than \<open>0xFFFFFF\<close> stop \<^verbatim>\<open>dtoi\<close> early and are no valid length either.
\<close>

record ipnet =
  net_Addr :: ip
  net_Prefix :: nat

definition mask_ip :: "nat \<Rightarrow> ip \<Rightarrow> ip" where
  "mask_ip n a = push_bit (128 - n) (drop_bit (128 - n) a)"

definition parse_cidr :: "string \<Rightarrow> ipnet option" where
  "parse_cidr s =
     (let a = takeWhile (\<lambda>c. c \<noteq> CHR ''/'') s; r = drop (length a) s
      in if r = [] then None
         else (case parse_ip a of
                 None \<Rightarrow> None
               | Some i \<Rightarrow>
                   let m = drop 1 r; v4 = (find (\<lambda>c. c = CHR ''.'' \<or> c = CHR '':'') a = Some (CHR ''.''));
                       bits = (if v4 then 32 else 128); n = (if v4 then 96 else 0) + read_nat m
                   in if m = [] \<or> \<not> list_all is_digit m \<or> bits < read_nat m then None
                      else Some \<lparr>net_Addr = mask_ip n i, net_Prefix = n\<rparr>))"

definition net_contains :: "ipnet \<Rightarrow> ip \<Rightarrow> bool" where
  "net_contains n i \<longleftrightarrow> ip_is4 i = ip_is4 (net_Addr n) \<and> mask_ip (net_Prefix n) i = mask_ip (net_Prefix n) (net_Addr n)"

lemma push_drop_eq: "push_bit k (drop_bit k u) = push_bit k (drop_bit k w) \<longleftrightarrow> drop_bit k u = drop_bit k w"
  for u w :: ip
proof
  assume eq: "push_bit k (drop_bit k u) = push_bit k (drop_bit k w)"
  show "drop_bit k u = drop_bit k w"
  proof (rule bit_word_eqI)
    fix n assume "n < LENGTH(128)"
    from arg_cong [OF eq, of "\<lambda>v. bit v (k + n)"] show "bit (drop_bit k u) n = bit (drop_bit k w) n"
      by (cases "k + n < 128") (auto simp: bit_push_bit_iff bit_drop_bit_eq dest: bit_imp_le_length)
  qed
qed simp

text \<open>Two addresses agree under a mask when they agree in the bits of the prefix.\<close>

lemma mask_ip_eq_iff: "mask_ip n a = mask_ip n b \<longleftrightarrow> unat a div 2 ^ (128 - n) = unat b div 2 ^ (128 - n)"
  unfolding mask_ip_def push_drop_eq word_unat_eq_iff [of "drop_bit _ _"] unat_drop_bit_eq
  by (simp add: drop_bit_eq_div)

lemma mask_ip_idem [simp]: "mask_ip n (mask_ip n a) = mask_ip n a"
  unfolding mask_ip_def push_drop_eq
  by (rule bit_word_eqI) (auto simp: bit_push_bit_iff bit_drop_bit_eq dest: bit_imp_le_length)

end
