(* ===== verification/Properties.thy ===== *)
theory Properties
  imports Externals Go_Net "HOL-Library.Char_ord" "HOL-Library.List_Lexorder"
begin

text \<open>
  The properties of instances and where sources and targets keep them
  (\<^verbatim>\<open>internal/properties\<close>): names and their texts, the definitions of
  \<^verbatim>\<open>instance_properties.yaml\<close> with their validation, the definitions that apply to a version, and
  property sets, in which the values found on a source are checked and collected.
\<close>

section \<open>Names\<close>

datatype prop_name =
    InstanceSnapshots | InstanceDisks | InstanceNICs | InstanceUUID | InstanceName | InstanceLocation
  | InstanceCPUs | InstanceMemory | InstanceOS | InstanceOSDescription | InstanceOSTemplate
  | InstanceLegacyBoot | InstanceSecureBoot | InstanceTPM | InstanceDescription
  | InstanceBackgroundImport | InstanceArchitecture | InstanceRunning | InstanceConfig
  | InstanceNICHardwareAddress | InstanceNICLocation | InstanceNICSourceSpecificID
  | InstanceNICIPv4Address | InstanceNICIPv6Address
  | InstanceDiskCapacity | InstanceDiskShared | InstanceDiskName | InstanceSnapshotName

fun prop_string :: "prop_name \<Rightarrow> string" where
  "prop_string InstanceArchitecture = ''architecture''"
| "prop_string InstanceBackgroundImport = ''background_import''"
| "prop_string InstanceCPUs = ''cpus''"
| "prop_string InstanceConfig = ''config''"
| "prop_string InstanceDescription = ''description''"
| "prop_string InstanceLegacyBoot = ''legacy_boot''"
| "prop_string InstanceLocation = ''location''"
| "prop_string InstanceMemory = ''memory''"
| "prop_string InstanceName = ''name''"
| "prop_string InstanceOS = ''os''"
| "prop_string InstanceOSDescription = ''os_description''"
| "prop_string InstanceOSTemplate = ''os_template''"
| "prop_string InstanceSecureBoot = ''secure_boot''"
| "prop_string InstanceTPM = ''tpm''"
| "prop_string InstanceUUID = ''uuid''"
| "prop_string InstanceNICs = ''nics''"
| "prop_string InstanceNICHardwareAddress = ''hardware_address''"
| "prop_string InstanceNICLocation = ''location''"
| "prop_string InstanceNICSourceSpecificID = ''source_specific_id''"
| "prop_string InstanceNICIPv4Address = ''ipv4_address''"
| "prop_string InstanceNICIPv6Address = ''ipv6_address''"
| "prop_string InstanceSnapshots = ''snapshots''"
| "prop_string InstanceSnapshotName = ''name''"
| "prop_string InstanceRunning = ''running''"
| "prop_string InstanceDisks = ''disks''"
| "prop_string InstanceDiskCapacity = ''capacity''"
| "prop_string InstanceDiskName = ''name''"
| "prop_string InstanceDiskShared = ''shared''"

text \<open>The \<^verbatim>\<open>switch\<close> of a parser: the first name in its cases whose text it is.\<close>

definition parse_name :: "string \<Rightarrow> prop_name list \<Rightarrow> string \<Rightarrow> err + prop_name" where
  "parse_name msg names s =
     (case find (\<lambda>n. s = prop_string n) names of None \<Rightarrow> Inl (Errorf msg [AStr s]) | Some n \<Rightarrow> Inr n)"

definition parse_instance_property :: "string \<Rightarrow> err + prop_name" where
  "parse_instance_property = parse_name ''Unknown property %q''
     [InstanceArchitecture, InstanceBackgroundImport, InstanceCPUs, InstanceConfig, InstanceDescription,
      InstanceDescription, InstanceDisks, InstanceLegacyBoot, InstanceLocation, InstanceMemory, InstanceNICs,
      InstanceName, InstanceOS, InstanceOSDescription, InstanceOSTemplate, InstanceSecureBoot, InstanceSnapshots,
      InstanceRunning, InstanceTPM, InstanceUUID]"

definition parse_nic_property :: "string \<Rightarrow> err + prop_name" where
  "parse_nic_property = parse_name ''Unknown NIC property %q''
     [InstanceNICHardwareAddress, InstanceNICLocation, InstanceNICSourceSpecificID, InstanceNICIPv4Address,
      InstanceNICIPv6Address]"

definition parse_disk_property :: "string \<Rightarrow> err + prop_name" where
  "parse_disk_property = parse_name ''Unknown disk property %q'' [InstanceDiskCapacity, InstanceDiskName, InstanceDiskShared]"

definition parse_snapshot_property :: "string \<Rightarrow> err + prop_name" where
  "parse_snapshot_property = parse_name ''Unknown snapshot property %q'' [InstanceSnapshotName]"

definition all_instance_properties :: "prop_name list" where
  "all_instance_properties =
     [InstanceSnapshots, InstanceDisks, InstanceNICs, InstanceUUID, InstanceName, InstanceLocation, InstanceCPUs,
      InstanceMemory, InstanceOS, InstanceOSDescription, InstanceOSTemplate, InstanceLegacyBoot, InstanceSecureBoot,
      InstanceTPM, InstanceDescription, InstanceBackgroundImport, InstanceArchitecture, InstanceRunning, InstanceConfig]"

definition all_nic_properties :: "prop_name list" where
  "all_nic_properties =
     [InstanceNICHardwareAddress, InstanceNICLocation, InstanceNICSourceSpecificID, InstanceNICIPv4Address, InstanceNICIPv6Address]"

definition all_disk_properties :: "prop_name list" where
  "all_disk_properties = [InstanceDiskCapacity, InstanceDiskName, InstanceDiskShared]"

definition all_snapshot_properties :: "prop_name list" where
  "all_snapshot_properties = [InstanceSnapshotName]"

definition has_sub_properties :: "prop_name \<Rightarrow> bool" where
  "has_sub_properties n \<longleftrightarrow> n \<in> set [InstanceDisks, InstanceNICs, InstanceSnapshots]"

section \<open>Types of properties\<close>

datatype endpoint_type = ESource source_type | ETarget target_type

fun endpoint_text :: "endpoint_type \<Rightarrow> string" where
  "endpoint_text (ESource t) = source_type_string t"
| "endpoint_text (ETarget t) = target_type_string t"

definition all_property_types :: "endpoint_type \<Rightarrow> err + string list" where
  "all_property_types t =
     (if t = ETarget TARGETTYPE_INCUS then Inr [''disk'', ''nic'', ''tpm'', ''config'']
      else if t = ESource SOURCETYPE_VMWARE
      then Inr [''vm_info'', ''property'', ''property_disk'', ''property_ethernet'', ''property_snapshot'', ''guest_info'']
      else Inl (Errorf ''Unsupported source or target %q'' [AStr (endpoint_text t)]))"

section \<open>Versions\<close>

text \<open>\<^verbatim>\<open>strings.Cut\<close> for a one-character separator: the text before it.\<close>

definition cut_at :: "char \<Rightarrow> string \<Rightarrow> string" where
  "cut_at c s = takeWhile (\<lambda>d. d \<noteq> c) s"

definition version_err :: "string \<Rightarrow> string \<Rightarrow> string \<Rightarrow> err" where
  "version_err defVer ver what =
     Errorf ''Property definition version %q does not support version %q for %q'' [AStr defVer, AStr ver, AStr what]"

definition compare_source_versions :: "ext \<Rightarrow> source_type \<Rightarrow> string \<Rightarrow> string \<Rightarrow> err option" where
  "compare_source_versions x src srcVer defVer =
     (case src of
        SOURCETYPE_VMWARE \<Rightarrow>
          (let ver = cut_at (CHR ''-'') (cut_at (CHR ''u'') srcVer);
               srcMajor = x_semver_major x (CHR ''v'' # ver);
               defMajor = x_semver_major x (CHR ''v'' # defVer)
           in if x_semver_compare x srcMajor defMajor = 0 then None
              else if (srcMajor = ''v7'' \<or> srcMajor = ''v9'') \<and> defMajor = ''v8'' then None
              else Some (version_err defVer ver (source_type_string src)))
      | _ \<Rightarrow> Some (Errorf ''Unsupported source %q'' [AStr (source_type_string src)]))"

definition compare_target_versions :: "ext \<Rightarrow> target_type \<Rightarrow> string \<Rightarrow> string \<Rightarrow> err option" where
  "compare_target_versions x tgt tgtVer defVer =
     (case tgt of
        TARGETTYPE_INCUS \<Rightarrow>
          (let tgtMajor = x_semver_major x (CHR ''v'' # tgtVer);
               defMajor = x_semver_major x (CHR ''v'' # defVer)
           in if x_semver_compare x tgtMajor defMajor = 0 then None
              else if tgtMajor = ''v7'' \<and> defMajor = ''v6'' then None
              else Some (version_err defVer tgtVer (target_type_string tgt)))
      | _ \<Rightarrow> Some (Errorf ''Unsupported target %q'' [AStr (target_type_string tgt)]))"

definition compare_versions :: "ext \<Rightarrow> endpoint_type \<Rightarrow> string \<Rightarrow> string \<Rightarrow> err option" where
  "compare_versions x t ver defVer =
     (case t of ETarget tgt \<Rightarrow> compare_target_versions x tgt ver defVer
              | ESource src \<Rightarrow> compare_source_versions x src ver defVer)"

definition validate_source_version :: "ext \<Rightarrow> source_type \<Rightarrow> string \<Rightarrow> err option" where
  "validate_source_version x t version =
     (case t of
        SOURCETYPE_VMWARE \<Rightarrow> err_when (x_semver_canonical x (CHR ''v'' # version) = '''')
          (Errorf ''Source %q version %q is not a valid semantic version'' [AStr (source_type_string t), AStr version])
      | _ \<Rightarrow> Some (Errorf ''Unsupported source %q'' [AStr (source_type_string t)]))"

definition validate_target_version :: "ext \<Rightarrow> target_type \<Rightarrow> string \<Rightarrow> err option" where
  "validate_target_version x t version =
     (case t of
        TARGETTYPE_INCUS \<Rightarrow> err_when (x_semver_canonical x (CHR ''v'' # version) = '''')
          (Errorf ''Target %q version %q is not a valid semantic version'' [AStr (target_type_string t), AStr version])
      | _ \<Rightarrow> Some (Errorf ''Unsupported target %q'' [AStr (target_type_string t)]))"

section \<open>Definitions\<close>

record property_info =
  pi_Type :: string
  pi_Key :: string

type_synonym version_map = "(string, property_info) gomap"

record prop_mapping =
  pm_Source :: "(source_type, version_map) gomap"
  pm_Target :: "(target_type, version_map) gomap"

record prop_definition =
  pd_Name :: prop_name
  pd_Description :: string
  pd_Mapping :: prop_mapping
  pd_Sub :: "(prop_name, prop_mapping) gomap"

text \<open>An entry of the schema file, before its names are parsed (\<^verbatim>\<open>UnmarshalYAML\<close>).\<close>

record raw_definition =
  rd_Name :: string
  rd_Description :: string
  rd_Mapping :: prop_mapping
  rd_Sub :: "(string, prop_mapping) gomap"

definition parse_sub_property :: "prop_name \<Rightarrow> string \<Rightarrow> err + prop_name" where
  "parse_sub_property parent name =
     (case parent of
        InstanceDisks \<Rightarrow> parse_disk_property name
      | InstanceNICs \<Rightarrow> parse_nic_property name
      | InstanceSnapshots \<Rightarrow> parse_snapshot_property name
      | _ \<Rightarrow> Inl (Errorf ''Unexpected sub-property %q for property %q'' [AStr name, AStr (prop_string parent)]))"

fun parse_subs :: "prop_name \<Rightarrow> (string, prop_mapping) gomap \<Rightarrow> (prop_name, prop_mapping) gomap \<Rightarrow>
    err + (prop_name, prop_mapping) gomap" where
  "parse_subs parent [] done = Inr done"
| "parse_subs parent ((name, def) # subs) done =
     (case parse_sub_property parent name of
        Inl e \<Rightarrow> Inl e
      | Inr n \<Rightarrow> parse_subs parent subs (gm_set n def done))"

definition unmarshal_definition :: "raw_definition \<Rightarrow> err + prop_definition" where
  "unmarshal_definition raw =
     (case parse_instance_property (rd_Name raw) of
        Inl e \<Rightarrow> Inl e
      | Inr n \<Rightarrow>
          (case parse_subs n (rd_Sub raw) [] of
             Inl e \<Rightarrow> Inl e
           | Inr subs \<Rightarrow> Inr \<lparr>pd_Name = n, pd_Description = rd_Description raw, pd_Mapping = rd_Mapping raw, pd_Sub = subs\<rparr>))"

text \<open>The checks of one property's mapping (\<open>validateDefs\<close>), for its targets and for its sources.\<close>

definition check_type :: "endpoint_type \<Rightarrow> string \<Rightarrow> bool \<Rightarrow> prop_name \<Rightarrow> string \<Rightarrow> property_info \<Rightarrow> err option" where
  "check_type t what sub name version info =
     (let as = [AStr (prop_string name), AStr (endpoint_text t), AStr version] in
      if \<not> sub then
        (case all_property_types t of
           Inl e \<Rightarrow> Some e
         | Inr tys \<Rightarrow> err_when (pi_Type info \<notin> set tys)
             (Errorf (''Unexpected property type %q for property %q for '' @ what @ '' %q in version %q'') (AStr (pi_Type info) # as)))
      else err_when (pi_Type info \<noteq> '''') (Errorf (''Sub-property %q type is set for '' @ what @ '' %q in version %q'') as))"

definition check_target_info :: "ext \<Rightarrow> target_type \<Rightarrow> bool \<Rightarrow> prop_name \<Rightarrow> string \<times> property_info \<Rightarrow> err option" where
  "check_target_info x tgt sub name = (\<lambda>(version, info).
     first_err
      [validate_target_version x tgt version,
       check_type (ETarget tgt) ''target'' sub name version info,
       err_when (pi_Key info = '''' \<and> \<not> has_sub_properties name)
         (Errorf ''Property %q key unset for target %q in version %q''
           [AStr (prop_string name), AStr (target_type_string tgt), AStr version])])"

definition check_source_info :: "ext \<Rightarrow> source_type \<Rightarrow> bool \<Rightarrow> prop_name \<Rightarrow> string \<times> property_info \<Rightarrow> err option" where
  "check_source_info x src sub name = (\<lambda>(version, info).
     first_err
      [validate_source_version x src version,
       check_type (ESource src) ''source'' sub name version info,
       err_when (pi_Key info = '''')
         (Errorf ''Property %q key unset for source %q in version %q''
           [AStr (prop_string name), AStr (source_type_string src), AStr version])])"

definition validate_defs :: "ext \<Rightarrow> prop_name \<Rightarrow> prop_mapping \<Rightarrow> prop_name list \<Rightarrow> bool \<Rightarrow> err option" where
  "validate_defs x name def valid sub =
     first_err
      ([err_when (name \<notin> set valid) (Errorf ''Unsupported property name %q'' [AStr (prop_string name)]),
        err_when (pm_Source def = [] \<and> pm_Target def = [])
          (Errorf ''Neither source nor target defintions defined for the property %q'' [AStr (prop_string name)])] @
       map (\<lambda>(tgt, vers). if vers = []
          then Some (Errorf ''Target %q defined with no version for property %q'' [AStr (target_type_string tgt), AStr (prop_string name)])
          else first_err (map (check_target_info x tgt sub name) vers)) (pm_Target def) @
       map (\<lambda>(src, vers). if vers = []
          then Some (Errorf ''Source %q defined with no version for property %q'' [AStr (source_type_string src), AStr (prop_string name)])
          else first_err (map (check_source_info x src sub name) vers)) (pm_Source def))"

definition sub_properties_of :: "prop_name \<Rightarrow> prop_name list" where
  "sub_properties_of n =
     (case n of InstanceDisks \<Rightarrow> all_disk_properties | InstanceNICs \<Rightarrow> all_nic_properties
      | InstanceSnapshots \<Rightarrow> all_snapshot_properties | _ \<Rightarrow> [])"

fun unmarshal_all :: "raw_definition list \<Rightarrow> err + prop_definition list" where
  "unmarshal_all [] = Inr []"
| "unmarshal_all (r # rs) =
     (case unmarshal_definition r of
        Inl e \<Rightarrow> Inl e
      | Inr d \<Rightarrow> (case unmarshal_all rs of Inl e \<Rightarrow> Inl e | Inr ds \<Rightarrow> Inr (d # ds)))"

definition init_definitions :: "ext \<Rightarrow> raw_definition list \<Rightarrow> err + prop_definition list" where
  "init_definitions x raw =
     (case unmarshal_all raw of
        Inl e \<Rightarrow> Inl e
      | Inr ps \<Rightarrow>
          let n = length ps; m = length all_instance_properties in
          case first_err
            (err_when (n \<noteq> m) (Errorf ''Properties file does not match expected properties (expected %d, found %d)'' [AInt (int m), AInt (int n)]) #
             map (\<lambda>d. first_err
               ([validate_defs x (pd_Name d) (pd_Mapping d) all_instance_properties False,
                 err_when (length (pd_Sub d) \<noteq> length (sub_properties_of (pd_Name d)))
                   (Errorf ''Properties file does not match expected sub-properties for %q (expected %d, found %d)''
                     [AStr (prop_string (pd_Name d)), AInt (int m), AInt (int n)])] @
                map (\<lambda>(k, c). validate_defs x k c (sub_properties_of (pd_Name d)) True) (pd_Sub d))) ps) of
            Some e \<Rightarrow> Inl e
          | None \<Rightarrow> Inr ps)"

section \<open>Property sets\<close>

text \<open>A value of Go's type \<^verbatim>\<open>any\<close>, as JSON decoding and \<open>parseValue\<close> produce it.\<close>

datatype any_value =
    VNull | VBool bool | VFloat rat | VInt int | VString string | VUuid uuid
  | VStrMap "(string, string) gomap" | VArr "any_value list" | VObj "(string \<times> any_value) list"

record raw_set =
  rs_Type :: endpoint_type
  rs_Version :: string
  rs_Props :: "(prop_name, property_info) gomap"
  rs_SubProps :: "(prop_name, (prop_name, property_info) gomap) gomap"
  rs_Values :: "(prop_name, any_value) gomap"
  rs_SubValues :: "(prop_name, (prop_name, any_value) gomap list) gomap"

definition new_raw_set :: "endpoint_type \<Rightarrow> string \<Rightarrow> raw_set" where
  "new_raw_set t version =
     \<lparr>rs_Type = t, rs_Version = version, rs_Props = [], rs_SubProps = [], rs_Values = [], rs_SubValues = []\<rparr>"

text \<open>The highest (as a text) of the defined versions that support the given one.\<close>

definition get_version_info :: "ext \<Rightarrow> endpoint_type \<Rightarrow> string \<Rightarrow> version_map \<Rightarrow> err + property_info" where
  "get_version_info x t version vers =
     (let (highest, lastErr) = fold (\<lambda>(v, _) (h, e). case compare_versions x t version v of
            Some e' \<Rightarrow> (h, Some e') | None \<Rightarrow> (if h < v then v else h, e)) vers ('''', None)
      in if highest \<noteq> '''' then Inr (gm_get \<lparr>pi_Type = '''', pi_Key = ''''\<rparr> vers highest)
         else (case lastErr of
                 Some e \<Rightarrow> Inl e
               | None \<Rightarrow> Inl (Errorf ''No supported versions found for source or target %q'' [AStr (endpoint_text t)])))"

definition mapping_for :: "endpoint_type \<Rightarrow> prop_mapping \<Rightarrow> version_map option" where
  "mapping_for t m = (case t of ESource s \<Rightarrow> map_of (pm_Source m) s | ETarget g \<Rightarrow> map_of (pm_Target m) g)"

text \<open>What a list of mappings gives for one endpoint and version: those without a definition are left out.\<close>

fun infos_for :: "ext \<Rightarrow> endpoint_type \<Rightarrow> string \<Rightarrow> (prop_name \<times> prop_mapping) list \<Rightarrow> err + (prop_name, property_info) gomap" where
  "infos_for x t version [] = Inr []"
| "infos_for x t version ((n, m) # ms) =
     (case mapping_for t m of
        None \<Rightarrow> infos_for x t version ms
      | Some vers \<Rightarrow>
          (case get_version_info x t version vers of
             Inl e \<Rightarrow> Inl e
           | Inr info \<Rightarrow> map_sum id (Cons (n, info)) (infos_for x t version ms)))"

fun definitions_from :: "ext \<Rightarrow> endpoint_type \<Rightarrow> string \<Rightarrow> prop_definition list \<Rightarrow> raw_set \<Rightarrow> err + raw_set" where
  "definitions_from x t version [] s = Inr s"
| "definitions_from x t version (p # ps) s =
     (case mapping_for t (pd_Mapping p) of
        None \<Rightarrow> definitions_from x t version ps s
      | Some vers \<Rightarrow>
          (case get_version_info x t version vers of
             Inl e \<Rightarrow> Inl e
           | Inr info \<Rightarrow>
               let s1 = s\<lparr>rs_Props := gm_set (pd_Name p) info (rs_Props s)\<rparr> in
               if has_sub_properties (pd_Name p) then
                 (case infos_for x t version (pd_Sub p) of
                    Inl e \<Rightarrow> Inl e
                  | Inr subs \<Rightarrow> definitions_from x t version ps (s1\<lparr>rs_SubProps := gm_set (pd_Name p) subs (rs_SubProps s1)\<rparr>))
               else definitions_from x t version ps s1))"

definition definitions :: "ext \<Rightarrow> prop_definition list \<Rightarrow> endpoint_type \<Rightarrow> string \<Rightarrow> err + raw_set" where
  "definitions x ps t version = definitions_from x t version ps (new_raw_set t version)"

definition set_get_all :: "raw_set \<Rightarrow> (prop_name, property_info) gomap" where
  "set_get_all s = rs_Props s"

definition set_get :: "raw_set \<Rightarrow> prop_name \<Rightarrow> err + property_info" where
  "set_get s n =
     (case map_of (rs_Props s) n of
        Some i \<Rightarrow> Inr i
      | None \<Rightarrow> Inl (Errorf ''Property %q is not supported by %q version %q''
                  [AStr (prop_string n), AStr (endpoint_text (rs_Type s)), AStr (rs_Version s)]))"

definition set_get_value :: "raw_set \<Rightarrow> prop_name \<Rightarrow> err + any_value" where
  "set_get_value s n =
     (if has_sub_properties n
      then Inl (Errorf ''Cannot fetch value of property %q with sub-properties'' [AStr (prop_string n)])
      else (case map_of (rs_Values s) n of
              Some v \<Rightarrow> Inr v
            | None \<Rightarrow> Inl (Errorf ''No value assigned to property %q'' [AStr (prop_string n)])))"

definition set_get_sub :: "raw_set \<Rightarrow> prop_name \<Rightarrow> err + raw_set" where
  "set_get_sub s n =
     (if \<not> has_sub_properties n
      then Inl (Errorf ''Property %q does not support sub-properties'' [AStr (prop_string n)])
      else (case map_of (rs_SubProps s) n of
              None \<Rightarrow> Inl (Errorf ''Sub-property %q is not supported by %q version %q''
                        [AStr (prop_string n), AStr (endpoint_text (rs_Type s)), AStr (rs_Version s)])
            | Some ps \<Rightarrow> Inr ((new_raw_set (rs_Type s) (rs_Version s))\<lparr>rs_Props := ps\<rparr>)))"

section \<open>Adding values\<close>

fun any_text :: "any_value \<Rightarrow> string" where
  "any_text (VString s) = s"
| "any_text (VInt i) = show_int i"
| "any_text (VBool b) = (if b then ''true'' else ''false'')"
| "any_text (VUuid u) = uuid_string u"
| "any_text VNull = ''<nil>''"
| "any_text _ = ''...''"

definition convert_err :: "prop_name \<Rightarrow> any_value \<Rightarrow> string \<Rightarrow> err" where
  "convert_err key v what = Errorf (''Cannot convert %q property %v to '' @ what) [AStr (prop_string key), AStr (any_text v)]"

definition name_char :: "char \<Rightarrow> bool" where
  "name_char c \<longleftrightarrow> (let n = (of_char c :: nat) in
     n = 45 \<or> (48 \<le> n \<and> n \<le> 57) \<or> (65 \<le> n \<and> n \<le> 90) \<or> (97 \<le> n \<and> n \<le> 122))"

definition check_text :: "prop_name \<Rightarrow> any_value \<Rightarrow> (string \<Rightarrow> err option) \<Rightarrow> err option" where
  "check_text key v f = (case v of VString s \<Rightarrow> f s | _ \<Rightarrow> Some (convert_err key v ''string''))"

definition validate_property :: "ext \<Rightarrow> prop_name \<Rightarrow> any_value \<Rightarrow> err option" where
  "validate_property x key v =
     (case key of
        InstanceName \<Rightarrow> check_text key v (\<lambda>s. err_when (s \<noteq> filter name_char s)
          (Errorf ''%q property %q must only contain alphanumeric or hyphen characters'' [AStr (prop_string key), AStr s]))
      | InstanceUUID \<Rightarrow> (case v of VUuid _ \<Rightarrow> None | _ \<Rightarrow> Some (convert_err key v ''uuid''))
      | InstanceArchitecture \<Rightarrow> check_text key v (\<lambda>s. if s = '''' then None
          else (case x_arch_id x s of Inl e \<Rightarrow> Some e | Inr _ \<Rightarrow> None))
      | InstanceDiskCapacity \<Rightarrow>
          (case v of VInt n \<Rightarrow> err_when (n \<le> 0) (Errorf ''Invalid disk capacity %d'' [AInt n])
                   | _ \<Rightarrow> Some (convert_err key v ''number''))
      | InstanceConfig \<Rightarrow> (case v of VStrMap _ \<Rightarrow> None | _ \<Rightarrow> Some (convert_err key v ''map''))
      | InstanceNICIPv4Address \<Rightarrow> check_text key v (\<lambda>s. err_when
          (case parse_ip s of None \<Rightarrow> True | Some i \<Rightarrow> \<not> ip_is4 i)
          (Errorf ''Property %q value %v is not an IPv4 address'' [AStr (prop_string key), AStr s]))
      | InstanceNICIPv6Address \<Rightarrow> check_text key v (\<lambda>s. err_when
          (case parse_ip s of None \<Rightarrow> True | Some i \<Rightarrow> ip_is4 i)
          (Errorf ''Property %q value %v is not an IPv6 address'' [AStr (prop_string key), AStr s]))
      | _ \<Rightarrow>
          if key \<in> set [InstanceDiskName, InstanceNICHardwareAddress, InstanceNICLocation,
              InstanceNICSourceSpecificID, InstanceSnapshotName]
          then check_text key v (\<lambda>s. err_when (s = '''') (Errorf ''Property %q value is empty'' [AStr (prop_string key)]))
          else None)"

text \<open>
  A device's set is appended to those of its kind. The code means to reset the device's own values
  afterwards, but resets a copy.
\<close>

definition set_add :: "ext \<Rightarrow> prop_name \<Rightarrow> any_value \<Rightarrow> raw_set \<Rightarrow> err + raw_set" where
  "set_add x key v s =
     (if has_sub_properties key
      then Inl (Errorf ''Expected a map of properties for the device %q. Got %v'' [AStr (prop_string key), AStr (any_text v)])
      else (case validate_property x key v of
              Some e \<Rightarrow> Inl e
            | None \<Rightarrow> Inr (s\<lparr>rs_Values := gm_set key v (rs_Values s)\<rparr>)))"

definition set_add_device :: "ext \<Rightarrow> prop_name \<Rightarrow> raw_set \<Rightarrow> raw_set \<Rightarrow> err + raw_set" where
  "set_add_device x key dev s =
     (if has_sub_properties key then
        (case first_err (map (\<lambda>(k, v). validate_property x k v) (rs_Values dev)) of
           Some e \<Rightarrow> Inl e
         | None \<Rightarrow> Inr (s\<lparr>rs_SubValues := gm_set key (gm_get [] (rs_SubValues s) key @ [rs_Values dev]) (rs_SubValues s)\<rparr>))
      else Inr s)"

section \<open>The instance's properties\<close>

text \<open>
  \<open>ToAPI\<close> writes the values as a JSON object under the texts of their names and reads it back as
  the API's record: a value must have the JSON type of its field, a missing one (or null) is zero.
\<close>

definition json_err :: err where
  "json_err = ExternalErr ''json: cannot unmarshal value into Go struct field''"

fun json_string :: "ext \<Rightarrow> any_value \<Rightarrow> err + string" where
  "json_string x (VString s) = Inr s"
| "json_string x (VUuid u) = Inr (uuid_string u)"
| "json_string x VNull = Inr ''''"
| "json_string x _ = Inl json_err"

fun json_bool :: "ext \<Rightarrow> any_value \<Rightarrow> err + bool" where
  "json_bool x (VBool b) = Inr b"
| "json_bool x VNull = Inr False"
| "json_bool x _ = Inl json_err"

definition int64 :: "int \<Rightarrow> bool" where
  "int64 i \<longleftrightarrow> - (2 ^ 63) \<le> i \<and> i < 2 ^ 63"

fun json_int :: "ext \<Rightarrow> any_value \<Rightarrow> err + int" where
  "json_int x (VInt i) = Inr i"
| "json_int x (VFloat r) = (if r = of_int \<lfloor>r\<rfloor> \<and> int64 \<lfloor>r\<rfloor> then Inr \<lfloor>r\<rfloor> else Inl json_err)"
| "json_int x VNull = Inr 0"
| "json_int x _ = Inl json_err"

fun json_uuid :: "ext \<Rightarrow> any_value \<Rightarrow> err + uuid" where
  "json_uuid x (VUuid u) = Inr u"
| "json_uuid x (VString s) = (case x_uuid_parse x s of None \<Rightarrow> Inl json_err | Some u \<Rightarrow> Inr u)"
| "json_uuid x VNull = Inr uuid_nil"
| "json_uuid x _ = Inl json_err"

fun json_map :: "ext \<Rightarrow> any_value \<Rightarrow> err + (string, string) fmap" where
  "json_map x (VStrMap m) = Inr (fmap_of_list m)"
| "json_map x VNull = Inr fmempty"
| "json_map x _ = Inl json_err"

definition field :: "(any_value \<Rightarrow> err + 'a) \<Rightarrow> 'a \<Rightarrow> (prop_name, any_value) gomap \<Rightarrow> prop_name \<Rightarrow> err + 'a" where
  "field dec zero vals n = (case map_of vals n of None \<Rightarrow> Inr zero | Some v \<Rightarrow> dec v)"

fun bind_sum :: "'e + 'a \<Rightarrow> ('a \<Rightarrow> 'e + 'b) \<Rightarrow> 'e + 'b" where
  "bind_sum (Inl e) f = Inl e"
| "bind_sum (Inr a) f = f a"

fun map_res :: "('a \<Rightarrow> 'e + 'b) \<Rightarrow> 'a list \<Rightarrow> 'e + 'b list" where
  "map_res f [] = Inr []"
| "map_res f (a # as) = bind_sum (f a) (\<lambda>b. map_sum id (Cons b) (map_res f as))"

text \<open>NIC UUIDs are none of the source's business, and a disk is supported unless it was found not to be.\<close>

definition nic_of :: "ext \<Rightarrow> (prop_name, any_value) gomap \<Rightarrow> err + nic" where
  "nic_of x v =
     bind_sum (field (json_string x) '''' v InstanceNICSourceSpecificID) (\<lambda>sid.
     bind_sum (field (json_string x) '''' v InstanceNICHardwareAddress) (\<lambda>hw.
     bind_sum (field (json_string x) '''' v InstanceNICLocation) (\<lambda>loc.
     bind_sum (field (json_string x) '''' v InstanceNICIPv4Address) (\<lambda>v4.
     bind_sum (field (json_string x) '''' v InstanceNICIPv6Address) (\<lambda>v6.
       Inr \<lparr>nic_UUID = uuid_nil, nic_SourceSpecificID = sid, nic_HardwareAddress = hw, nic_Location = loc,
         nic_IPv4Address = v4, nic_IPv6Address = v6\<rparr>)))))"

definition disk_of :: "ext \<Rightarrow> (string \<Rightarrow> bool) \<Rightarrow> (prop_name, any_value) gomap \<Rightarrow> err + disk" where
  "disk_of x unsupported v =
     bind_sum (field (json_int x) 0 v InstanceDiskCapacity) (\<lambda>cap.
     bind_sum (field (json_string x) '''' v InstanceDiskName) (\<lambda>n.
     bind_sum (field (json_bool x) False v InstanceDiskShared) (\<lambda>sh.
       Inr \<lparr>d_Capacity = cap, d_Name = n, d_Shared = sh, d_Supported = \<not> unsupported n, d_BackgroundImportVerified = False\<rparr>)))"

definition snapshot_of :: "ext \<Rightarrow> (prop_name, any_value) gomap \<Rightarrow> err + snapshot" where
  "snapshot_of x v = bind_sum (field (json_string x) '''' v InstanceSnapshotName) (\<lambda>n. Inr \<lparr>s_Name = n\<rparr>)"

definition set_to_api :: "ext \<Rightarrow> raw_set \<Rightarrow> (string \<Rightarrow> bool) \<Rightarrow> err + instance_properties" where
  "set_to_api x s unsupported =
     (let v = rs_Values s; str = (\<lambda>n. field (json_string x) '''' v n); bool = (\<lambda>n. field (json_bool x) False v n);
          sub = (\<lambda>n. gm_get [] (rs_SubValues s) n) in
      bind_sum (str InstanceName) (\<lambda>name.
      bind_sum (field (json_int x) 0 v InstanceCPUs) (\<lambda>cpus.
      bind_sum (field (json_int x) 0 v InstanceMemory) (\<lambda>mem.
      bind_sum (field (json_map x) fmempty v InstanceConfig) (\<lambda>cfg.
      bind_sum (str InstanceArchitecture) (\<lambda>arch.
      bind_sum (field (json_uuid x) uuid_nil v InstanceUUID) (\<lambda>u.
      bind_sum (str InstanceLocation) (\<lambda>loc.
      bind_sum (str InstanceDescription) (\<lambda>desc.
      bind_sum (str InstanceOS) (\<lambda>os.
      bind_sum (str InstanceOSDescription) (\<lambda>osd.
      bind_sum (str InstanceOSTemplate) (\<lambda>ost.
      bind_sum (bool InstanceSecureBoot) (\<lambda>sec.
      bind_sum (bool InstanceLegacyBoot) (\<lambda>leg.
      bind_sum (bool InstanceTPM) (\<lambda>tpm.
      bind_sum (bool InstanceRunning) (\<lambda>run.
      bind_sum (bool InstanceBackgroundImport) (\<lambda>bg.
      bind_sum (map_res (nic_of x) (sub InstanceNICs)) (\<lambda>nics.
      bind_sum (map_res (disk_of x unsupported) (sub InstanceDisks)) (\<lambda>disks.
      bind_sum (map_res (snapshot_of x) (sub InstanceSnapshots)) (\<lambda>snaps.
        Inr \<lparr>ip_Configurable = \<lparr>cfg_Name = name, cfg_CPUs = cpus, cfg_Memory = mem, cfg_Config = cfg, cfg_Architecture = arch\<rparr>,
          ip_UUID = u, ip_SourceSpecificID = '''', ip_Location = loc, ip_Description = desc, ip_OS = os,
          ip_OSDescription = osd, ip_OSTemplate = ost, ip_SecureBoot = sec, ip_LegacyBoot = leg, ip_TPM = tpm,
          ip_Running = run, ip_BackgroundImport = bg, ip_NICs = nics, ip_Disks = disks, ip_Snapshots = snaps,
          ip_SDNTags = None, ip_Tags = [], ip_Monitoring = None\<rparr>))))))))))))))))))))"

section \<open>The schema file\<close>

abbreviation vmware :: "string \<Rightarrow> string \<Rightarrow> (source_type, version_map) gomap" where
  "vmware ty key \<equiv> [(SOURCETYPE_VMWARE, [(''8.0'', \<lparr>pi_Type = ty, pi_Key = key\<rparr>)])]"

abbreviation incus :: "string \<Rightarrow> string \<Rightarrow> (target_type, version_map) gomap" where
  "incus ty key \<equiv> [(TARGETTYPE_INCUS, [(''6.0'', \<lparr>pi_Type = ty, pi_Key = key\<rparr>)])]"

definition entry :: "string \<Rightarrow> string \<Rightarrow> (source_type, version_map) gomap \<Rightarrow> (target_type, version_map) gomap \<Rightarrow> raw_definition" where
  "entry name desc src tgt = \<lparr>rd_Name = name, rd_Description = desc, rd_Mapping = \<lparr>pm_Source = src, pm_Target = tgt\<rparr>, rd_Sub = []\<rparr>"

definition sub_entry :: "string \<Rightarrow> string \<Rightarrow> (target_type, version_map) gomap \<Rightarrow> string \<times> prop_mapping" where
  "sub_entry name key tgt = (name, \<lparr>pm_Source = vmware '''' key, pm_Target = tgt\<rparr>)"

definition instance_data :: "raw_definition list" where
  "instance_data =
     [entry ''cpus'' ''number of cpus'' (vmware ''property'' ''config.hardware.numCPU'') (incus ''config'' ''limits.cpu''),
      entry ''memory'' ''available memory'' (vmware ''property'' ''summary.config.memorySizeMB'') (incus ''config'' ''limits.memory''),
      entry ''os_template'' ''OS template the VM was created with'' (vmware ''property'' ''config.guestFullName'') [],
      entry ''os'' ''OS name'' (vmware ''guest_info'' ''guestInfo.detailed.data'') [],
      entry ''os_description'' ''OS description'' (vmware ''guest_info'' ''guestInfo.detailed.data'') (incus ''config'' ''image.release''),
      entry ''legacy_boot'' ''use legacy boot'' (vmware ''property'' ''config.firmware'') (incus ''config'' ''security.csm''),
      entry ''secure_boot'' ''activates secureboot'' (vmware ''property'' ''config.bootOptions.efiSecureBootEnabled'')
        (incus ''config'' ''security.secureboot''),
      entry ''tpm'' ''uses tpm'' (vmware ''property'' ''summary.config.tpmPresent'') (incus ''tpm'' ''path''),
      entry ''description'' ''instance description'' (vmware ''property'' ''config.annotation'') (incus ''config'' ''image.description''),
      entry ''uuid'' ''instance uuid'' (vmware ''property'' ''summary.config.instanceUuid'') (incus ''config'' ''volatile.uuid''),
      entry ''location'' ''location of the instance'' (vmware ''vm_info'' ''InventoryPath'') [],
      entry ''name'' ''name of the instance'' (vmware ''property'' ''config.name'') [],
      entry ''architecture'' ''instance cpu architecture'' (vmware ''guest_info'' ''guestInfo.detailed.data'')
        (incus ''config'' ''image.architecture''),
      entry ''running'' ''running state of the instance'' (vmware ''property'' ''summary.runtime.powerState'') [],
      (entry ''disks'' ''disk device'' (vmware ''property_disk'' ''config.hardware.device'') (incus ''disk'' ''''))
        \<lparr>rd_Sub := [sub_entry ''name'' ''backing.fileName'' [], sub_entry ''capacity'' ''capacityInBytes'' (incus '''' ''size''),
           sub_entry ''shared'' ''backing.sharing'' (incus '''' ''security.shared'')]\<rparr>,
      (entry ''nics'' ''nic device'' (vmware ''property_ethernet'' ''config.hardware.device'') (incus ''nic'' ''''))
        \<lparr>rd_Sub := [sub_entry ''hardware_address'' ''macAddress'' (incus '''' ''hwaddr''),
           sub_entry ''location'' ''InventoryPath'' [],
           sub_entry ''source_specific_id'' ''backing.network.value,backing.port.portgroupKey,backing.opaqueNetworkId'' [],
           sub_entry ''ipv4_address'' ''guest.net.ipConfig.ipAddress.ipAddress'' (incus '''' ''ipv4.address''),
           sub_entry ''ipv6_address'' ''guest.net.ipConfig.ipAddress.ipAddress'' (incus '''' ''ipv6.address'')]\<rparr>,
      (entry ''snapshots'' ''instance snapshots'' (vmware ''property_snapshot'' ''snapshot.rootSnapshotList'') [])
        \<lparr>rd_Sub := [sub_entry ''name'' ''name'' []]\<rparr>,
      entry ''background_import'' ''supports background import without shutting down source vm''
        (vmware ''property'' ''config.changeTrackingEnabled'') [],
      entry ''config'' ''generic instance config'' (vmware ''property'' ''summary.customValue'') []]"

section \<open>Names and texts\<close>

lemma parse_name_sound: "parse_name msg names s = Inr n \<Longrightarrow> prop_string n = s \<and> n \<in> set names"
  by (auto simp: parse_name_def split: option.splits dest: find_SomeD)

lemma parse_name_complete:
  "n \<in> set names \<Longrightarrow> (\<And>m. m \<in> set names \<Longrightarrow> prop_string m = prop_string n \<Longrightarrow> m = n) \<Longrightarrow>
    parse_name msg names (prop_string n) = Inr n"
proof -
  assume n: "n \<in> set names" and inj: "\<And>m. m \<in> set names \<Longrightarrow> prop_string m = prop_string n \<Longrightarrow> m = n"
  then obtain m where m: "find (\<lambda>m. prop_string n = prop_string m) names = Some m"
    by (cases "find (\<lambda>m. prop_string n = prop_string m) names") (auto dest: find_NoneD)
  with inj show ?thesis by (auto simp: parse_name_def dest: find_SomeD)
qed

text \<open>
  C19: Each parser of property names inverts the texts of the names it knows, and accepts nothing
  else; every name is known to exactly the parser of its level, although some texts (such as
  \<open>name\<close>) belong to names of several levels.
\<close>

theorem property_names_roundtrip:
  "(parse_instance_property s = Inr n \<longleftrightarrow> n \<in> set all_instance_properties \<and> prop_string n = s) \<and>
   (parse_nic_property s = Inr n \<longleftrightarrow> n \<in> set all_nic_properties \<and> prop_string n = s) \<and>
   (parse_disk_property s = Inr n \<longleftrightarrow> n \<in> set all_disk_properties \<and> prop_string n = s) \<and>
   (parse_snapshot_property s = Inr n \<longleftrightarrow> n \<in> set all_snapshot_properties \<and> prop_string n = s)"
  unfolding parse_instance_property_def parse_nic_property_def parse_disk_property_def parse_snapshot_property_def
    all_instance_properties_def all_nic_properties_def all_disk_properties_def all_snapshot_properties_def
  by (intro conjI; auto intro!: parse_name_complete dest!: parse_name_sound)

section \<open>What the schema file gives\<close>

text \<open>How the versions in the schema compare with the majors the code names.\<close>

definition semver_plain :: "ext \<Rightarrow> bool" where
  "semver_plain x \<longleftrightarrow> x_semver_canonical x ''v8.0'' \<noteq> '''' \<and> x_semver_canonical x ''v6.0'' \<noteq> '''' \<and>
     x_semver_major x ''v8.0'' = ''v8'' \<and> x_semver_major x ''v6.0'' = ''v6'' \<and>
     (\<forall>v w. x_semver_compare x v w = 0 \<longleftrightarrow> v = w)"

definition the_schema :: "prop_definition list" where
  "the_schema = map (\<lambda>r. case unmarshal_definition r of Inr d \<Rightarrow> d) instance_data"

lemmas schema_simps = instance_data_def entry_def sub_entry_def unmarshal_definition_def parse_sub_property_def
  parse_instance_property_def parse_nic_property_def parse_disk_property_def parse_snapshot_property_def parse_name_def
  gm_set_def

lemma schema_unmarshals: "unmarshal_all instance_data = Inr the_schema"
  by (simp add: the_schema_def schema_simps)

lemma validate_entry:
  assumes "semver_plain x" "n \<in> set valid" "s \<noteq> [] \<or> t \<noteq> []"
    "s = [] \<or> (\<exists>ty key. s = vmware ty key \<and> key \<noteq> '''' \<and> (if sub then ty = '''' else ty \<in>
       {''vm_info'', ''property'', ''property_disk'', ''property_ethernet'', ''property_snapshot'', ''guest_info''}))"
    "t = [] \<or> (\<exists>ty key. t = incus ty key \<and> (key \<noteq> '''' \<or> has_sub_properties n) \<and> (if sub then ty = '''' else ty \<in>
       {''disk'', ''nic'', ''tpm'', ''config''}))"
  shows "validate_defs x n \<lparr>pm_Source = s, pm_Target = t\<rparr> valid sub = None"
proof -
  have types: "all_property_types (ESource SOURCETYPE_VMWARE) =
      Inr [''vm_info'', ''property'', ''property_disk'', ''property_ethernet'', ''property_snapshot'', ''guest_info'']"
      "all_property_types (ETarget TARGETTYPE_INCUS) = Inr [''disk'', ''nic'', ''tpm'', ''config'']"
    by (simp_all add: all_property_types_def)
  from assms(1) have ok: "validate_source_version x SOURCETYPE_VMWARE ''8.0'' = None"
      "validate_target_version x TARGETTYPE_INCUS ''6.0'' = None"
    by (simp_all add: semver_plain_def validate_source_version_def validate_target_version_def)
  from assms(4) have s: "first_err (map (\<lambda>(src, vers). if vers = [] then Some (e src)
      else first_err (map (check_source_info x src sub n) vers)) s) = None" for e
    by (elim disjE exE conjE) (simp_all add: first_err_None check_source_info_def ok check_type_def types Let_def split: if_splits)
  from assms(5) have t: "first_err (map (\<lambda>(tgt, vers). if vers = [] then Some (e tgt)
      else first_err (map (check_target_info x tgt sub n) vers)) t) = None" for e
    by (elim disjE exE conjE) (auto simp: first_err_None check_target_info_def ok check_type_def types Let_def split: if_splits)
  show ?thesis
    using s t assms(2,3) by (auto simp: validate_defs_def first_err_None)
qed

lemma schema_valid:
  assumes "semver_plain x"
  shows "init_definitions x instance_data = Inr the_schema"
proof -
  note v = validate_entry [OF assms]
  show ?thesis
    unfolding init_definitions_def schema_unmarshals
    by (simp add: the_schema_def schema_simps v all_instance_properties_def all_nic_properties_def all_disk_properties_def
        all_snapshot_properties_def sub_properties_of_def has_sub_properties_def Let_def)
qed

text \<open>Which version of Incus gets the definitions of which: those of 6 serve the majors 6 and 7.\<close>

definition incus_served :: "ext \<Rightarrow> string \<Rightarrow> bool" where
  "incus_served x version \<longleftrightarrow> x_semver_major x (CHR ''v'' # version) \<in> {''v6'', ''v7''}"

definition incus_props :: "(prop_name, property_info) gomap" where
  "incus_props =
     [(InstanceCPUs, \<lparr>pi_Type = ''config'', pi_Key = ''limits.cpu''\<rparr>),
      (InstanceMemory, \<lparr>pi_Type = ''config'', pi_Key = ''limits.memory''\<rparr>),
      (InstanceOSDescription, \<lparr>pi_Type = ''config'', pi_Key = ''image.release''\<rparr>),
      (InstanceLegacyBoot, \<lparr>pi_Type = ''config'', pi_Key = ''security.csm''\<rparr>),
      (InstanceSecureBoot, \<lparr>pi_Type = ''config'', pi_Key = ''security.secureboot''\<rparr>),
      (InstanceTPM, \<lparr>pi_Type = ''tpm'', pi_Key = ''path''\<rparr>),
      (InstanceDescription, \<lparr>pi_Type = ''config'', pi_Key = ''image.description''\<rparr>),
      (InstanceUUID, \<lparr>pi_Type = ''config'', pi_Key = ''volatile.uuid''\<rparr>),
      (InstanceArchitecture, \<lparr>pi_Type = ''config'', pi_Key = ''image.architecture''\<rparr>),
      (InstanceDisks, \<lparr>pi_Type = ''disk'', pi_Key = ''''\<rparr>),
      (InstanceNICs, \<lparr>pi_Type = ''nic'', pi_Key = ''''\<rparr>)]"

definition incus_sub_props :: "(prop_name, (prop_name, property_info) gomap) gomap" where
  "incus_sub_props =
     [(InstanceDisks, [(InstanceDiskCapacity, \<lparr>pi_Type = '''', pi_Key = ''size''\<rparr>),
        (InstanceDiskShared, \<lparr>pi_Type = '''', pi_Key = ''security.shared''\<rparr>)]),
      (InstanceNICs, [(InstanceNICHardwareAddress, \<lparr>pi_Type = '''', pi_Key = ''hwaddr''\<rparr>),
        (InstanceNICIPv4Address, \<lparr>pi_Type = '''', pi_Key = ''ipv4.address''\<rparr>),
        (InstanceNICIPv6Address, \<lparr>pi_Type = '''', pi_Key = ''ipv6.address''\<rparr>)])]"

lemma incus_version:
  assumes "semver_plain x" "incus_served x version"
  shows "get_version_info x (ETarget TARGETTYPE_INCUS) version [(''6.0'', i)] = Inr i"
  using assms by (auto simp: get_version_info_def compare_versions_def compare_target_versions_def semver_plain_def
      incus_served_def gm_get_def Let_def)

lemma incus_defs:
  assumes "semver_plain x"
  shows "definitions x the_schema (ETarget TARGETTYPE_INCUS) version =
      (if incus_served x version
       then Inr ((new_raw_set (ETarget TARGETTYPE_INCUS) version)\<lparr>rs_Props := incus_props, rs_SubProps := incus_sub_props\<rparr>)
       else Inl (version_err ''6.0'' version ''incus''))"
proof (cases "incus_served x version")
  case True
  then show ?thesis
    unfolding definitions_def the_schema_def
    by (simp add: schema_simps mapping_for_def incus_version [OF assms True] has_sub_properties_def
        new_raw_set_def incus_props_def incus_sub_props_def Let_def)
next
  case False
  have "get_version_info x (ETarget TARGETTYPE_INCUS) version [(''6.0'', i)] = Inl (version_err ''6.0'' version ''incus'')" for i
    using assms False by (auto simp: get_version_info_def compare_versions_def compare_target_versions_def semver_plain_def
        incus_served_def Let_def)
  with False show ?thesis
    unfolding definitions_def the_schema_def by (simp add: schema_simps mapping_for_def Let_def)
qed

text \<open>
  The schema file passes its own validation, and every Incus of major version 6 or 7 gets the
  same keys from it; any other major version is refused.
\<close>

theorem schema_serves_incus:
  assumes "semver_plain x"
  shows "init_definitions x instance_data = Inr the_schema \<and>
    definitions x the_schema (ETarget TARGETTYPE_INCUS) version =
      (if incus_served x version
       then Inr ((new_raw_set (ETarget TARGETTYPE_INCUS) version)\<lparr>rs_Props := incus_props, rs_SubProps := incus_sub_props\<rparr>)
       else Inl (version_err ''6.0'' version ''incus''))"
  using schema_valid [OF assms] incus_defs [OF assms] by blast

theorem schema_serves_incus_witness:
  "definitions plain_ext the_schema (ETarget TARGETTYPE_INCUS) ''7.0.0'' =
     Inr ((new_raw_set (ETarget TARGETTYPE_INCUS) ''7.0.0'')\<lparr>rs_Props := incus_props, rs_SubProps := incus_sub_props\<rparr>)"
proof -
  have "semver_plain plain_ext" by (simp add: semver_plain_def plain_ext_def)
  moreover have "incus_served plain_ext ''7.0.0''" by (simp add: incus_served_def plain_ext_def)
  ultimately show ?thesis using schema_serves_incus [of plain_ext "''7.0.0''"] by simp
qed

section \<open>Collected values are typed\<close>

text \<open>The property sets that come about by adding values and devices.\<close>

inductive collected :: "ext \<Rightarrow> raw_set \<Rightarrow> bool" for x where
  fresh: "rs_Values s = [] \<Longrightarrow> rs_SubValues s = [] \<Longrightarrow> collected x s"
| add: "collected x s \<Longrightarrow> set_add x k v s = Inr t \<Longrightarrow> collected x t"
| add_device: "collected x s \<Longrightarrow> collected x d \<Longrightarrow> set_add_device x k d s = Inr t \<Longrightarrow> collected x t"

definition values_ok :: "ext \<Rightarrow> (prop_name, any_value) gomap \<Rightarrow> bool" where
  "values_ok x vals \<longleftrightarrow> (\<forall>k v. map_of vals k = Some v \<longrightarrow> validate_property x k v = None)"

definition set_ok :: "ext \<Rightarrow> raw_set \<Rightarrow> bool" where
  "set_ok x s \<longleftrightarrow> values_ok x (rs_Values s) \<and> (\<forall>k. \<forall>d \<in> set (gm_get [] (rs_SubValues s) k). values_ok x d)"

lemma values_okD: "values_ok x vals \<Longrightarrow> map_of vals k = Some v \<Longrightarrow> validate_property x k v = None"
  by (auto simp: values_ok_def)

lemma collected_ok: "collected x s \<Longrightarrow> set_ok x s"
proof (induction rule: collected.induct)
  case (fresh s)
  then show ?case by (simp add: set_ok_def values_ok_def gm_get_def)
next
  case (add s k v t)
  then show ?case
    by (auto simp: set_ok_def values_ok_def set_add_def split: if_splits option.splits)
next
  case (add_device s d k t)
  show ?case
  proof (cases "has_sub_properties k")
    case True
    with add_device.hyps(3) have t: "t = s\<lparr>rs_SubValues := gm_set k (gm_get [] (rs_SubValues s) k @ [rs_Values d]) (rs_SubValues s)\<rparr>"
      by (auto simp: set_add_device_def split: option.splits)
    from add_device.IH show ?thesis unfolding t by (auto simp: set_ok_def split: if_splits)
  next
    case False
    with add_device show ?thesis by (simp add: set_add_device_def)
  qed
qed

lemma bind_sum_ok: "bind_sum r f = Inr b \<longleftrightarrow> (\<exists>a. r = Inr a \<and> f a = Inr b)"
  by (cases r) auto

lemma map_res_ok: "map_res f xs = Inr ys \<Longrightarrow> y \<in> set ys \<Longrightarrow> \<exists>x \<in> set xs. f x = Inr y"
proof (induction xs arbitrary: ys)
  case (Cons x xs)
  then show ?case by (cases "map_res f xs") (auto simp: bind_sum_ok)
qed simp

lemma field_text:
  assumes "field (json_string x) '''' vals n = Inr s" "values_ok x vals"
    and "\<And>v. validate_property x n v = None \<Longrightarrow> \<exists>t. v = VString t \<and> P t" "P ''''"
  shows "P s"
proof (cases "map_of vals n")
  case None
  with assms(1,4) show ?thesis by (simp add: field_def)
next
  case (Some v)
  with values_okD [OF assms(2) Some] assms(3) obtain t where "v = VString t" "P t" by blast
  with Some assms(1) show ?thesis by (simp add: field_def)
qed

definition nic_typed :: "nic \<Rightarrow> bool" where
  "nic_typed n \<longleftrightarrow> nic_UUID n = uuid_nil \<and>
     (nic_IPv4Address n = '''' \<or> (\<exists>i. parse_ip (nic_IPv4Address n) = Some i \<and> ip_is4 i)) \<and>
     (nic_IPv6Address n = '''' \<or> (\<exists>i. parse_ip (nic_IPv6Address n) = Some i \<and> \<not> ip_is4 i))"

definition properties_typed :: "ext \<Rightarrow> (string \<Rightarrow> bool) \<Rightarrow> instance_properties \<Rightarrow> bool" where
  "properties_typed x unsupported p \<longleftrightarrow>
     list_all name_char (ip_Name p) \<and>
     (ip_Architecture p = '''' \<or> (\<exists>i. x_arch_id x (ip_Architecture p) = Inr i)) \<and>
     (\<forall>n \<in> set (ip_NICs p). nic_typed n) \<and>
     (\<forall>d \<in> set (ip_Disks p). 0 \<le> d_Capacity d \<and> (d_Supported d \<longleftrightarrow> \<not> unsupported (d_Name d)) \<and> \<not> d_BackgroundImportVerified d)"

lemma check_text_ok: "check_text k v f = None \<Longrightarrow> \<exists>s. v = VString s \<and> f s = None"
  by (cases v) (simp_all add: check_text_def)

lemma nic_of_typed:
  assumes "nic_of x vals = Inr n" "values_ok x vals"
  shows "nic_typed n"
proof -
  from assms(1) obtain v4 v6 where v: "field (json_string x) '''' vals InstanceNICIPv4Address = Inr v4"
      "field (json_string x) '''' vals InstanceNICIPv6Address = Inr v6" "nic_IPv4Address n = v4" "nic_IPv6Address n = v6"
      "nic_UUID n = uuid_nil"
    by (auto simp: nic_of_def bind_sum_ok)
  have "v4 = '''' \<or> (\<exists>i. parse_ip v4 = Some i \<and> ip_is4 i)"
    by (rule field_text [OF v(1) assms(2)]) (auto simp: validate_property_def dest!: check_text_ok split: option.splits)
  moreover have "v6 = '''' \<or> (\<exists>i. parse_ip v6 = Some i \<and> \<not> ip_is4 i)"
    by (rule field_text [OF v(2) assms(2)]) (auto simp: validate_property_def dest!: check_text_ok split: option.splits)
  ultimately show ?thesis using v by (simp add: nic_typed_def)
qed

lemma disk_of_typed:
  assumes "disk_of x unsupported vals = Inr d" "values_ok x vals"
  shows "0 \<le> d_Capacity d \<and> (d_Supported d \<longleftrightarrow> \<not> unsupported (d_Name d)) \<and> \<not> d_BackgroundImportVerified d"
proof -
  from assms(1) obtain c where c: "field (json_int x) 0 vals InstanceDiskCapacity = Inr c" "d_Capacity d = c"
      "d_Supported d \<longleftrightarrow> \<not> unsupported (d_Name d)" "\<not> d_BackgroundImportVerified d"
    by (auto simp: disk_of_def bind_sum_ok)
  have "0 \<le> c"
  proof (cases "map_of vals InstanceDiskCapacity")
    case None
    with c show ?thesis by (simp add: field_def)
  next
    case (Some v)
    with values_okD [OF assms(2) Some] c show ?thesis
      by (cases v) (auto simp: field_def validate_property_def)
  qed
  with c show ?thesis by simp
qed

lemma collected_typed:
  assumes "collected x s" and "set_to_api x s unsupported = Inr p"
  shows "properties_typed x unsupported p"
proof -
  from collected_ok [OF assms(1)] have ok: "values_ok x (rs_Values s)"
      "\<And>k d. d \<in> set (gm_get [] (rs_SubValues s) k) \<Longrightarrow> values_ok x d"
    by (auto simp: set_ok_def)
  from assms(2) obtain name arch nics disks where
      name: "field (json_string x) '''' (rs_Values s) InstanceName = Inr name" "ip_Name p = name" and
      arch: "field (json_string x) '''' (rs_Values s) InstanceArchitecture = Inr arch" "ip_Architecture p = arch" and
      nics: "map_res (nic_of x) (gm_get [] (rs_SubValues s) InstanceNICs) = Inr nics" "ip_NICs p = nics" and
      disks: "map_res (disk_of x unsupported) (gm_get [] (rs_SubValues s) InstanceDisks) = Inr disks" "ip_Disks p = disks"
    unfolding set_to_api_def Let_def bind_sum_ok by (elim exE conjE) (simp, force)
  have filter: "t = filter name_char t \<Longrightarrow> list_all name_char t" for t
    by (metis filter_id_conv list_all_iff)
  have "list_all name_char name"
    by (rule field_text [OF name(1) ok(1)]) (auto simp: validate_property_def intro: filter dest!: check_text_ok)
  moreover have "arch = '''' \<or> (\<exists>i. x_arch_id x arch = Inr i)"
    by (rule field_text [OF arch(1) ok(1)])
      (auto simp: validate_property_def dest!: check_text_ok split: if_splits sum.splits)
  moreover have "\<forall>n \<in> set nics. nic_typed n"
    using map_res_ok [OF nics(1)] nic_of_typed ok(2) by blast
  moreover have "\<forall>d \<in> set disks. 0 \<le> d_Capacity d \<and> (d_Supported d \<longleftrightarrow> \<not> unsupported (d_Name d)) \<and> \<not> d_BackgroundImportVerified d"
    using map_res_ok [OF disks(1)] disk_of_typed ok(2) by blast
  ultimately show ?thesis using name arch nics disks by (simp add: properties_typed_def)
qed



end
