(* ===== verification/Incus_Config.thy ===== *)
theory Incus_Config
  imports Properties Model_Batch Model_Queue
begin

text \<open>
  What the Incus target computes (\<^verbatim>\<open>internal/target/incus.go\<close>): whether an instance can be placed,
  the definition of the target VM while it is imported, and its final configuration. The calls to
  Incus around them are in \<open>Incus_Target\<close>.
\<close>

section \<open>What Incus reports\<close>

type_synonym config = "string \<rightharpoonup> string"

record incus_network =
  nt_Name :: string
  nt_Managed :: bool
  nt_Type :: string
  nt_Config :: config

record incus_details =
  dt_Name :: string
  dt_Projects :: "string list"
  dt_StoragePools :: "string list"
  dt_NetworksByProject :: "string \<Rightarrow> incus_network list"
  dt_InstancesByProject :: "string \<Rightarrow> string list"

text \<open>A read of a missing key of a Go map of strings.\<close>

definition cfg_get :: "config \<Rightarrow> string \<Rightarrow> string" where
  "cfg_get c k = (case c k of None \<Rightarrow> '''' | Some v \<Rightarrow> v)"

section \<open>Placement\<close>

definition check_migration_network :: "incus_details \<Rightarrow> placement \<Rightarrow> migration_network_placement \<Rightarrow> err option" where
  "check_migration_network info pl mn =
     (let cfg = mn_Placement mn; ty = np_NICType cfg in
      if p_TargetName pl = mn_Target mn \<and> p_TargetProject pl = mn_TargetProject mn then
        (case find (\<lambda>n. nt_Name n = np_Network cfg) (dt_NetworksByProject info (p_TargetProject pl)) of
           None \<Rightarrow> Some (Errorf ''Migration network %q not found in project %q of target %q''
             [AStr (np_Network cfg), AStr (mn_TargetProject mn), AStr (mn_Target mn)])
         | Some n \<Rightarrow>
             if \<not> nt_Managed n \<and> ty = INCUSNICTYPE_MANAGED
             then Some (Errorf ''Target migration network %q is not a managed network'' [AStr (nt_Name n)])
             else if nt_Managed n \<and> nt_Type n \<noteq> ''bridge'' \<and> (ty = INCUSNICTYPE_BRIDGED \<or> ty = INCUSNICTYPE_PHYSICAL)
             then Some (Errorf ''Target migration network %q expects nictype %q, not %q''
               [AStr (nt_Name n), AStr (nic_type_string INCUSNICTYPE_MANAGED), AStr (nic_type_string ty)])
             else None)
      else None)"

text \<open>The subnet of a managed network must contain the NIC's address, where both are known.\<close>

definition check_address :: "incus_network \<Rightarrow> nic \<Rightarrow> err option" where
  "check_address n nic =
     (case parse_ip (nic_IPv4Address nic) of
        None \<Rightarrow> Some (Errorf ''Failed to parse instance NIC %q IP %q'' [AStr (nic_Location nic), AStr (nic_IPv4Address nic)])
      | Some ip \<Rightarrow>
          (case parse_cidr (cfg_get (nt_Config n) ''ipv4.address'') of
             None \<Rightarrow> Some (Errorf ''Failed to parse target network %q subnet %q: %w''
               [AStr (nt_Name n), AStr (cfg_get (nt_Config n) ''ipv4.address''),
                AWrap (Errorf ''invalid CIDR address: %v'' [AStr (cfg_get (nt_Config n) ''ipv4.address'')])])
           | Some cidr \<Rightarrow> err_when (\<not> net_contains cidr ip)
               (Errorf ''Target network %q does not contain IP %q in subnet %q''
                 [AStr (nt_Name n), AStr (nic_IPv4Address nic), AStr (cfg_get (nt_Config n) ''ipv4.address'')])))"

definition zero_nic :: nic where
  "zero_nic = \<lparr>nic_UUID = uuid_nil, nic_SourceSpecificID = '''', nic_HardwareAddress = '''', nic_Location = '''',
     nic_IPv4Address = '''', nic_IPv6Address = ''''\<rparr>"

definition check_nic_type :: "incus_network \<Rightarrow> nic_type \<Rightarrow> err option" where
  "check_nic_type n ty =
     (if \<not> nt_Managed n \<and> ty = INCUSNICTYPE_MANAGED
      then Some (Errorf ''Target network %q is not a managed network'' [AStr (nt_Name n)])
      else if nt_Managed n \<and>
        (case ty of INCUSNICTYPE_BRIDGED \<Rightarrow> nt_Type n \<noteq> ''bridge''
         | INCUSNICTYPE_PHYSICAL \<Rightarrow> nt_Type n \<noteq> ''bridge'' \<and> nt_Type n \<noteq> ''physical''
         | _ \<Rightarrow> False)
      then Some (Errorf ''Target network %q expects nictype %q, not %q''
        [AStr (nt_Name n), AStr (nic_type_string INCUSNICTYPE_MANAGED), AStr (nic_type_string ty)])
      else None)"

definition check_placed_network :: "incus_details \<Rightarrow> string \<Rightarrow> nic list \<Rightarrow> string \<times> network_placement \<Rightarrow> err option" where
  "check_placed_network info project nics = (\<lambda>(hwaddr, cfg).
     let nic = (case find (\<lambda>n. nic_HardwareAddress n = hwaddr) nics of None \<Rightarrow> zero_nic | Some n \<Rightarrow> n) in
     case find (\<lambda>n. nt_Name n = np_Network cfg) (dt_NetworksByProject info project) of
       None \<Rightarrow> Some (Errorf ''No network found with name %q on target %q in project %q''
         [AStr (np_Network cfg), AStr (dt_Name info), AStr project])
     | Some n \<Rightarrow>
         first_err
          [if np_NICType cfg = INCUSNICTYPE_MANAGED \<and> nt_Type n \<in> {''bridge'', ''ovn''} \<and> nic_IPv4Address nic \<noteq> '''' \<and>
              cfg_get (nt_Config n) ''ipv4.address'' \<noteq> ''''
           then check_address n nic else None,
           check_nic_type n (np_NICType cfg)])"

text \<open>
  A map of the placement as a list, by key. (Go's order is random; it decides only which of several
  errors is reported.)
\<close>

definition fmap_list :: "('k :: linorder, 'v) fmap \<Rightarrow> ('k \<times> 'v) list" where
  "fmap_list m = map (\<lambda>k. (k, the (fmlookup m k))) (sorted_list_of_fset (fmdom m))"

definition placed_networks :: "placement \<Rightarrow> (string, network_placement) fmap" where
  "placed_networks pl = (case p_Networks pl of None \<Rightarrow> fmempty | Some m \<Rightarrow> m)"

definition can_place_instance :: "incus_details option \<Rightarrow> queue_entry \<Rightarrow> api_instance \<Rightarrow> api_batch \<Rightarrow> err option" where
  "can_place_instance details q inst batch =
     (let pl = q_Placement q; name = AStr (api_instance_get_name inst); project = p_TargetProject pl in
      case details of
        None \<Rightarrow> Some (Errorf ''Target %q does not exist'' [AStr (p_TargetName pl)])
      | Some info \<Rightarrow>
          let exists = (api_instance_get_name inst \<in> set (dt_InstancesByProject info project));
              done = (q_MigrationStatus q = MIGRATIONSTATUS_WORKER_DONE)
          in first_err
            ([err_when (dt_Name info \<noteq> p_TargetName pl)
                (Errorf ''Expected target %q but got %q'' [AStr (p_TargetName pl), AStr (dt_Name info)]),
              err_when (project \<notin> set (dt_Projects info))
                (Errorf ''Project %q does not exist on target %q'' [AStr project, AStr (dt_Name info)]),
              err_when (\<not> done \<and> exists)
                (Errorf ''Instance already exists with name %q on target %q in project %q'' [name, AStr (dt_Name info), AStr project]),
              err_when (done \<and> \<not> exists)
                (Errorf ''Could not find instance with name %q on target %q in project %q'' [name, AStr (dt_Name info), AStr project])] @
             map (check_migration_network info pl) (bd_MigrationNetwork (ab_Defaults batch)) @
             map (check_placed_network info project (ip_NICs (ai_Properties inst))) (fmap_list (placed_networks pl)) @
             map (\<lambda>(_, pool). err_when (pool \<notin> set (dt_StoragePools info))
               (Errorf ''No Storage pool found with name %q on target %q in project %q'' [AStr pool, AStr (dt_Name info), AStr project]))
               (fmap_list (p_StoragePools pl))))"

section \<open>VM definitions\<close>

record incus_instance =
  ii_Name :: string
  ii_Status :: string
  ii_Location :: string
  ii_Architecture :: string
  ii_Description :: string
  ii_Config :: config
  ii_Devices :: "(string, config) gomap"
  ii_Profiles :: "string list"

definition worker_volume :: "ext \<Rightarrow> string \<Rightarrow> string" where
  "worker_volume x arch = ''migration-worker-'' @ arch @ ''-'' @ x_go_version x"

definition format_bool :: "bool \<Rightarrow> string" where
  "format_bool b = (if b then ''true'' else ''false'')"

text \<open>A write into a device that is not there: Go panics on a nil map.\<close>

definition nil_map_panic :: err where
  "nil_map_panic = ExternalErr ''panic: assignment to entry in nil map''"

text \<open>The instance's own properties, for one property that the target supports.\<close>

definition initial_property :: "instance_properties \<Rightarrow> os_type \<Rightarrow> prop_name \<times> property_info \<Rightarrow> incus_instance \<Rightarrow> incus_instance" where
  "initial_property p os = (\<lambda>(name, info) i.
     let set = (\<lambda>v. (ii_Config i)(pi_Key info \<mapsto> v)) in
     case name of
       InstanceCPUs \<Rightarrow> i\<lparr>ii_Config := set ''2''\<rparr>
     | InstanceMemory \<Rightarrow> i\<lparr>ii_Config := set (if supports_background_import p \<or> os = OSTYPE_WINDOWS then ''8GiB'' else ''4GiB'')\<rparr>
     | InstanceLegacyBoot \<Rightarrow> i\<lparr>ii_Config := set ''false''\<rparr>
     | InstanceSecureBoot \<Rightarrow> i\<lparr>ii_Config := set ''false''\<rparr>
     | InstanceArchitecture \<Rightarrow> i\<lparr>ii_Config := set (ip_Architecture p), ii_Architecture := ip_Architecture p\<rparr>
     | InstanceDescription \<Rightarrow> i\<lparr>ii_Config := set (ip_Description p), ii_Description := ip_Description p\<rparr>
     | InstanceOSDescription \<Rightarrow> i\<lparr>ii_Config := set (if ip_OSDescription p = '''' then ip_OSTemplate p else ip_OSDescription p)\<rparr>
     | _ \<Rightarrow> i)"

definition fill_initial_properties :: "ext \<Rightarrow> incus_instance \<Rightarrow> inst \<Rightarrow> string \<Rightarrow> raw_set \<Rightarrow> err + incus_instance" where
  "fill_initial_properties x instance inst pool defs =
     bind_sum (set_get_sub defs InstanceDisks) (\<lambda>diskDefs.
     let p = applied_props inst; os = get_os_type inst True;
         i1 = fold (initial_property p os) (set_get_all defs) (instance\<lparr>ii_Config := Map.empty\<rparr>);
         i2 = i1\<lparr>ii_Config := (ii_Config i1)(''image.os'' \<mapsto> x_os_text x OSTYPE_LINUX)\<rparr>
     in bind_sum (if ip_Architecture p = ''''
          then map_sum id (\<lambda>info. i2\<lparr>ii_Config := (ii_Config i2)(pi_Key info \<mapsto> x_arch_default x), ii_Architecture := x_arch_default x\<rparr>)
                 (set_get defs InstanceArchitecture)
          else Inr i2) (\<lambda>i3.
        bind_sum (if ip_Description p = ''''
          then map_sum id (\<lambda>info. i3\<lparr>ii_Config := (ii_Config i3)(pi_Key info \<mapsto> ''Auto-imported from VMware''),
                 ii_Description := ''Auto-imported from VMware''\<rparr>) (set_get defs InstanceDescription)
          else Inr i3) (\<lambda>i4.
        case ip_Disks p of
          [] \<Rightarrow> Inl (Errorf ''Instance missing root disk'' [])
        | d # _ \<Rightarrow>
            bind_sum (set_get diskDefs InstanceDiskCapacity) (\<lambda>size.
              Inr (i4\<lparr>ii_Devices := [(''root'', [''path'' \<mapsto> ''/'', ''pool'' \<mapsto> pool, ''type'' \<mapsto> ''disk'',
                  ''user.migration_source'' \<mapsto> d_Name d, pi_Key size \<mapsto> show_int (d_Capacity d) @ ''B''])]\<rparr>)))))"

definition network_device :: "network_placement \<Rightarrow> config \<Rightarrow> config" where
  "network_device cfg dev =
     (let d = dev(''nictype'' \<mapsto> nic_type_string (np_NICType cfg), ''parent'' \<mapsto> np_Network cfg) in
      if np_VlanID cfg = '''' then d
      else if CHR '','' \<in> set (np_VlanID cfg) then d(''vlan.tagged'' \<mapsto> np_VlanID cfg)
      else d(''vlan'' \<mapsto> np_VlanID cfg))"

definition zero_network_placement :: network_placement where
  "zero_network_placement = \<lparr>np_Network = '''', np_NICType = INCUSNICTYPE_OTHER '''', np_VlanID = ''''\<rparr>"

definition zero_migration_network :: migration_network_placement where
  "zero_migration_network = \<lparr>mn_Placement = zero_network_placement, mn_Target = '''', mn_TargetProject = ''''\<rparr>"

definition create_vm_definition ::
    "ext \<Rightarrow> prop_definition list \<Rightarrow> endpoint_type \<Rightarrow> string \<Rightarrow> inst \<Rightarrow> queue_entry \<Rightarrow> string \<Rightarrow> string \<Rightarrow>
     migration_network_placement \<Rightarrow> err + incus_instance" where
  "create_vm_definition x ps ty version inst q fingerprint endpoint mn =
     bind_sum (definitions x ps ty version) (\<lambda>defs.
     case ip_Disks (i_Properties inst) of
       [] \<Rightarrow> Inl (Errorf ''Instance %q has no disks'' [AStr (ip_Location (applied_props inst))])
     | d0 # _ \<Rightarrow>
         bind_sum (fill_initial_properties x
             \<lparr>ii_Name = get_name inst, ii_Status = '''', ii_Location = '''', ii_Architecture = '''', ii_Description = '''',
              ii_Config = Map.empty, ii_Devices = [], ii_Profiles = []\<rparr>
             inst (case fmlookup (p_StoragePools (q_Placement q)) (d_Name d0) of None \<Rightarrow> '''' | Some pool \<Rightarrow> pool) defs) (\<lambda>i.
           Inr (i\<lparr>ii_Config := (ii_Config i)(
               ''migration.stateful'' \<mapsto> ''false'',
               ''user.migration_source'' \<mapsto> i_Source inst,
               ''user.migration.hwaddrs'' \<mapsto> str_join '' '' (map nic_HardwareAddress (ip_NICs (i_Properties inst))),
               ''user.migration.source_type'' \<mapsto> ''VMware'',
               ''user.migration.source'' \<mapsto> i_Source inst,
               ''user.migration.token'' \<mapsto> uuid_string (q_SecretToken q),
               ''user.migration.fingerprint'' \<mapsto> fingerprint,
               ''user.migration.endpoint'' \<mapsto> endpoint,
               ''user.migration.uuid'' \<mapsto> uuid_string (i_UUID inst)),
             ii_Devices := (if mn = zero_migration_network then ii_Devices i
               else gm_set ''eth0''
                 (let base = [''name'' \<mapsto> ''eth0'', ''type'' \<mapsto> ''nic''] in
                  if np_NICType (mn_Placement mn) = INCUSNICTYPE_MANAGED
                  then base(''network'' \<mapsto> np_Network (mn_Placement mn))
                  else network_device (mn_Placement mn) base) (ii_Devices i))\<rparr>)))"

section \<open>When an instance can be placed\<close>

lemma fmap_list_set: "set (fmap_list m) = {(k, v). fmlookup m k = Some v}"
  by (auto simp: fmap_list_def fmlookup_dom_iff intro!: rev_image_eqI)

definition type_allowed :: "incus_network \<Rightarrow> nic_type \<Rightarrow> string set \<Rightarrow> string set \<Rightarrow> bool" where
  "type_allowed n ty bridged physical \<longleftrightarrow>
     (ty = INCUSNICTYPE_MANAGED \<longrightarrow> nt_Managed n) \<and>
     (nt_Managed n \<and> ty = INCUSNICTYPE_BRIDGED \<longrightarrow> nt_Type n \<in> bridged) \<and>
     (nt_Managed n \<and> ty = INCUSNICTYPE_PHYSICAL \<longrightarrow> nt_Type n \<in> physical)"

text \<open>Where the subnet of a managed bridge and the NIC's address are known, the one must contain the other.\<close>

definition address_fits :: "incus_network \<Rightarrow> nic_type \<Rightarrow> string \<Rightarrow> bool" where
  "address_fits n ty ip \<longleftrightarrow>
     (ty = INCUSNICTYPE_MANAGED \<and> nt_Type n \<in> {''bridge'', ''ovn''} \<and> ip \<noteq> '''' \<and> cfg_get (nt_Config n) ''ipv4.address'' \<noteq> '''' \<longrightarrow>
        (\<exists>i cidr. parse_ip ip = Some i \<and> parse_cidr (cfg_get (nt_Config n) ''ipv4.address'') = Some cidr \<and> net_contains cidr i))"

definition nic_at :: "nic list \<Rightarrow> string \<Rightarrow> nic" where
  "nic_at nics hw = (case find (\<lambda>n. nic_HardwareAddress n = hw) nics of None \<Rightarrow> zero_nic | Some n \<Rightarrow> n)"

abbreviation network_named :: "incus_details \<Rightarrow> string \<Rightarrow> string \<Rightarrow> incus_network option" where
  "network_named info project name \<equiv> find (\<lambda>n. nt_Name n = name) (dt_NetworksByProject info project)"

definition placeable :: "incus_details \<Rightarrow> queue_entry \<Rightarrow> api_instance \<Rightarrow> migration_network_placement list \<Rightarrow> bool" where
  "placeable info q inst mns \<longleftrightarrow> (let pl = q_Placement q; project = p_TargetProject pl in
     dt_Name info = p_TargetName pl \<and> project \<in> set (dt_Projects info) \<and>
     (api_instance_get_name inst \<in> set (dt_InstancesByProject info project) \<longleftrightarrow> q_MigrationStatus q = MIGRATIONSTATUS_WORKER_DONE) \<and>
     (\<forall>mn \<in> set mns. mn_Target mn = p_TargetName pl \<and> mn_TargetProject mn = project \<longrightarrow>
        (\<exists>n. network_named info project (np_Network (mn_Placement mn)) = Some n \<and>
           type_allowed n (np_NICType (mn_Placement mn)) {''bridge''} {''bridge''})) \<and>
     (\<forall>hw cfg. fmlookup (placed_networks pl) hw = Some cfg \<longrightarrow>
        (\<exists>n. network_named info project (np_Network cfg) = Some n \<and>
           type_allowed n (np_NICType cfg) {''bridge''} {''bridge'', ''physical''} \<and>
           address_fits n (np_NICType cfg) (nic_IPv4Address (nic_at (ip_NICs (ai_Properties inst)) hw)))) \<and>
     (\<forall>d pool. fmlookup (p_StoragePools pl) d = Some pool \<longrightarrow> pool \<in> set (dt_StoragePools info)))"

lemma check_migration_network_None:
  "check_migration_network info pl mn = None \<longleftrightarrow>
     (mn_Target mn = p_TargetName pl \<and> mn_TargetProject mn = p_TargetProject pl \<longrightarrow>
        (\<exists>n. network_named info (p_TargetProject pl) (np_Network (mn_Placement mn)) = Some n \<and>
           type_allowed n (np_NICType (mn_Placement mn)) {''bridge''} {''bridge''}))"
  by (cases "np_NICType (mn_Placement mn)") (auto simp: check_migration_network_def type_allowed_def Let_def split: option.split)

lemma check_nic_type_None: "check_nic_type n ty = None \<longleftrightarrow> type_allowed n ty {''bridge''} {''bridge'', ''physical''}"
  by (cases ty) (auto simp: check_nic_type_def type_allowed_def)

lemma check_address_None:
  "check_address n nic = None \<longleftrightarrow> (\<exists>i cidr. parse_ip (nic_IPv4Address nic) = Some i \<and>
     parse_cidr (cfg_get (nt_Config n) ''ipv4.address'') = Some cidr \<and> net_contains cidr i)"
  by (auto simp: check_address_def split: option.split)

lemma check_placed_network_None:
  "check_placed_network info project nics (hw, cfg) = None \<longleftrightarrow>
     (\<exists>n. network_named info project (np_Network cfg) = Some n \<and>
        type_allowed n (np_NICType cfg) {''bridge''} {''bridge'', ''physical''} \<and>
        address_fits n (np_NICType cfg) (nic_IPv4Address (nic_at nics hw)))"
  unfolding check_placed_network_def nic_at_def [symmetric] Let_def case_prod_conv
  by (cases "network_named info project (np_Network cfg)")
    (auto simp: first_err_None check_nic_type_None check_address_None address_fits_def)

text \<open>
  C21: The placement check passes exactly for the placements that the target can take: target,
  project and pools exist, the name is free before and taken after the import, and every network is
  there, of a type that suits the NIC, with a subnet that contains the NIC's known address.
\<close>

theorem can_place_instance_iff:
  "can_place_instance details q inst batch = None \<longleftrightarrow>
     (\<exists>info. details = Some info \<and> placeable info q inst (bd_MigrationNetwork (ab_Defaults batch)))"
proof (cases details)
  case None
  then show ?thesis by (simp add: can_place_instance_def Let_def)
next
  case (Some info)
  have ball: "(\<forall>p \<in> {(k, v). fmlookup m k = Some v}. P p) \<longleftrightarrow> (\<forall>k v. fmlookup m k = Some v \<longrightarrow> P (k, v))" for m :: "('c, 'd) fmap" and P
    by auto
  show ?thesis
    by (simp add: Some can_place_instance_def placeable_def first_err_None ball_Un fmap_list_set ball
        check_migration_network_None check_placed_network_None Let_def)
      (blast dest: sym)
qed

end
