(* ===== verification/Incus_Target.thy ===== *)
theory Incus_Target
  imports Incus_Config
begin

text \<open>
  The operations of the Incus target (\<^verbatim>\<open>internal/target/incus.go\<close>) over the calls to Incus, which are
  parameters: actions on a state of the outside world, so that an answer may depend on all that
  was done before.
\<close>

section \<open>Incus\<close>

text \<open>
  The client of the library, for one connection. Operations that Incus runs in the background are
  started by one call and waited for by another (\<open>ic_wait\<close>). Every call is made in a project, some
  on one member of the cluster.
\<close>

record 'e incus_client =
  ic_connect :: "string \<Rightarrow> ('e, err, string \<times> string) act"
    \<comment> \<open>the server's answer: how far it trusts us, and its version\<close>
  ic_project_names :: "('e, err, string list) act"
  ic_pool_names :: "('e, err, string list) act"
  ic_networks :: "string \<Rightarrow> ('e, err, incus_network list) act"
  ic_instance_names :: "string \<Rightarrow> ('e, err, string list) act"
  ic_get_instance :: "string \<Rightarrow> string \<Rightarrow> ('e, err, incus_instance) act"
  ic_get_network :: "string \<Rightarrow> string \<Rightarrow> ('e, err, incus_network) act"
  ic_create_instance :: "string \<Rightarrow> incus_instance \<Rightarrow> ('e, err, unit) act"
  ic_update_instance :: "string \<Rightarrow> string \<Rightarrow> incus_instance \<Rightarrow> ('e, err, unit) act"
  ic_delete_instance :: "string \<Rightarrow> string \<Rightarrow> ('e, err, unit) act"
  ic_set_state :: "string \<Rightarrow> string \<Rightarrow> string \<Rightarrow> bool \<Rightarrow> ('e, err, unit) act"
  ic_instance_state :: "string \<Rightarrow> string \<Rightarrow> ('e, err, bool \<times> int) act"
    \<comment> \<open>whether it is running, and the number of its processes\<close>
  ic_exec :: "string \<Rightarrow> string \<Rightarrow> string list \<Rightarrow> ('e, err, unit) act"
  ic_wait :: "('e, err, unit) act"
  ic_volumes :: "string \<Rightarrow> string \<Rightarrow> string \<Rightarrow> ('e, err, string list) act"
    \<comment> \<open>project, member (empty: any), pool\<close>
  ic_create_volume :: "string \<Rightarrow> string \<Rightarrow> string \<Rightarrow> string \<Rightarrow> config \<Rightarrow> ('e, err, unit) act"
  ic_delete_volume :: "string \<Rightarrow> string \<Rightarrow> string \<Rightarrow> string \<Rightarrow> ('e, err, unit) act"

record incus_target =
  it_Target :: api_target
  it_Properties :: incus_properties
  it_Timeout :: duration
  it_Version :: string
  it_Connected :: bool
  it_Project :: string

abbreviation it_Name :: "incus_target \<Rightarrow> string" where "it_Name t \<equiv> at_Name (it_Target t)"

section \<open>Construction and connection\<close>

definition default_connection_timeout :: duration where
  "default_connection_timeout = 5 * minute"

definition new_incus_target :: "ext \<Rightarrow> api_target \<Rightarrow> err + incus_target" where
  "new_incus_target x t =
     (if at_TargetType t \<noteq> TARGETTYPE_INCUS then Inl (Errorf ''Target is not of type Incus'' [])
      else (case x_incus_dec x (at_Properties t) of
              Inl e \<Rightarrow> Inl e
            | Inr p \<Rightarrow> Inr \<lparr>it_Target = t, it_Properties = p,
                it_Timeout = (if in_ConnectionTimeout p = 0 then default_connection_timeout else in_ConnectionTimeout p),
                it_Version = '''', it_Connected = False, it_Project = ''''\<rparr>))"

definition new_target :: "ext \<Rightarrow> api_target \<Rightarrow> err + incus_target" where
  "new_target x t =
     (case at_TargetType t of
        TARGETTYPE_INCUS \<Rightarrow> new_incus_target x t
      | _ \<Rightarrow> Inl (Errorf ''Unknown target type %q'' [AStr (target_type_string (at_TargetType t))]))"

text \<open>The tokens of an OIDC login, which \<open>Connect\<close> stores on success, are left as they are.\<close>

definition target_connect :: "'e incus_client \<Rightarrow> incus_target \<Rightarrow> ('e, err, incus_target) act" where
  "target_connect c t =
     (if it_Connected t then throw (Errorf ''Already connected to endpoint %q'' [AStr (in_Endpoint (it_Properties t))])
      else bindm (ic_connect c (in_Endpoint (it_Properties t))) (\<lambda>(auth, version).
        if auth \<noteq> ''trusted''
        then throw (Errorf ''Failed to connect to endpoint %q: not authorized'' [AStr (in_Endpoint (it_Properties t))])
        else ret (t\<lparr>it_Version := version, it_Connected := True\<rparr>)))"

definition target_disconnect :: "incus_target \<Rightarrow> err + incus_target" where
  "target_disconnect t =
     (if \<not> it_Connected t then Inl (Errorf ''Not connected to endpoint %q'' [AStr (in_Endpoint (it_Properties t))])
      else Inr (t\<lparr>it_Connected := False\<rparr>))"

definition set_client_tls_credentials :: "string \<Rightarrow> string \<Rightarrow> incus_target \<Rightarrow> err + incus_target" where
  "set_client_tls_credentials key cert t =
     (if it_Connected t then Inl (Errorf ''Cannot change client TLS key/cert after connecting'' [])
      else Inr (t\<lparr>it_Properties := (it_Properties t)\<lparr>in_TLSClientKey := key, in_TLSClientCert := cert\<rparr>\<rparr>))"

definition is_waiting_for_oidc_tokens :: "incus_target \<Rightarrow> bool" where
  "is_waiting_for_oidc_tokens t \<longleftrightarrow>
     in_TLSClientKey (it_Properties t) = '''' \<and> in_OIDCTokens (it_Properties t) = None"

definition target_set_project :: "string \<Rightarrow> incus_target \<Rightarrow> err + incus_target" where
  "target_set_project project t =
     (if \<not> it_Connected t then Inl (Errorf ''Cannot change project before connecting'' [])
      else Inr (t\<lparr>it_Project := project\<rparr>))"

text \<open>The networks and instances of every project, one call each.\<close>

fun by_project :: "string list \<Rightarrow> (string \<Rightarrow> ('e, err, 'a) act) \<Rightarrow> (string \<Rightarrow> 'a) \<Rightarrow> ('e, err, string \<Rightarrow> 'a) act" where
  "by_project [] f m = ret m"
| "by_project (p # ps) f m = bindm (f p) (\<lambda>a. by_project ps f (m(p := a)))"

definition get_details :: "'e incus_client \<Rightarrow> incus_target \<Rightarrow> ('e, err, incus_details) act" where
  "get_details c t =
     (if \<not> it_Connected t then throw (Errorf ''Not connected to endpoint %q'' [AStr (in_Endpoint (it_Properties t))])
      else bindm (ic_project_names c) (\<lambda>projects.
       bindm (ic_pool_names c) (\<lambda>pools.
       bindm (by_project projects (ic_networks c) (\<lambda>_. [])) (\<lambda>nets.
       bindm (by_project projects (ic_instance_names c) (\<lambda>_. [])) (\<lambda>insts.
         ret \<lparr>dt_Name = it_Name t, dt_Projects = projects, dt_StoragePools = pools,
           dt_NetworksByProject = nets, dt_InstancesByProject = insts\<rparr>)))))"

section \<open>Instances\<close>

definition start_vm :: "'e incus_client \<Rightarrow> incus_target \<Rightarrow> string \<Rightarrow> ('e, err, unit) act" where
  "start_vm c t name = andthen (ic_set_state c (it_Project t) name ''start'' False) (ic_wait c)"

definition stop_vm :: "'e incus_client \<Rightarrow> incus_target \<Rightarrow> string \<Rightarrow> bool \<Rightarrow> ('e, err, unit) act" where
  "stop_vm c t name force = andthen (ic_set_state c (it_Project t) name ''stop'' force) (ic_wait c)"

definition delete_vm :: "'e incus_client \<Rightarrow> incus_target \<Rightarrow> string \<Rightarrow> ('e, err, unit) act" where
  "delete_vm c t name = andthen (ic_delete_instance c (it_Project t) name) (ic_wait c)"

definition exec_vm :: "'e incus_client \<Rightarrow> incus_target \<Rightarrow> string \<Rightarrow> string list \<Rightarrow> ('e, err, unit) act" where
  "exec_vm c t name cmd = andthen (ic_exec c (it_Project t) name cmd) (ic_wait c)"

text \<open>
  The wait for the agent: one round per second until the context ends, so at most \<open>n\<close> rounds. The
  last error is reported when the time is up; \<open>deadline\<close> is that of the context.
\<close>

fun check_incus_agent :: "nat \<Rightarrow> 'e incus_client \<Rightarrow> incus_target \<Rightarrow> string \<Rightarrow> err option \<Rightarrow> err \<Rightarrow> ('e, err, unit) act" where
  "check_incus_agent 0 c t name lastErr deadline =
     throw (Errorf ''Instance failed to start: %w'' [AWrap (case lastErr of None \<Rightarrow> deadline | Some e \<Rightarrow> e)])"
| "check_incus_agent (Suc n) c t name lastErr deadline =
     bindm (attempt (ic_instance_state c (it_Project t) name)) (\<lambda>r.
       case r of
         Inl e \<Rightarrow>
           if err_status http_not_found e then throw (Errorf ''Instance failed to appear: %w'' [AWrap e])
           else check_incus_agent n c t name (Some e) deadline
       | Inr (running, procs) \<Rightarrow>
           andthen (if running then ret ()
             else wrap_err (\<lambda>e. Errorf ''Failed to start instance %q: %w'' [AStr name, AWrap e]) (start_vm c t name))
            (if 0 < procs then ret () else check_incus_agent n c t name None deadline))"

section \<open>Creation\<close>

definition create_new_vm ::
    "ext \<Rightarrow> 'e incus_client \<Rightarrow> incus_target \<Rightarrow> inst \<Rightarrow> incus_instance \<Rightarrow> placement \<Rightarrow> string \<Rightarrow> ('e, err, incus_instance) act" where
  "create_new_vm x c t inst def pl bootISO =
     (case ip_Disks (i_Properties inst) of
        [] \<Rightarrow> throw (Errorf ''Instance %q has no disks'' [AStr (ip_Location (i_Properties inst))])
      | d0 # _ \<Rightarrow>
          let pool = (case fmlookup (p_StoragePools pl) (d_Name d0) of None \<Rightarrow> '''' | Some p \<Rightarrow> p);
              def' = def\<lparr>ii_Devices := gm_set (worker_volume x (get_architecture x inst))
                [''type'' \<mapsto> ''disk'', ''pool'' \<mapsto> pool, ''source'' \<mapsto> bootISO, ''boot.priority'' \<mapsto> ''10'',
                 ''readonly'' \<mapsto> ''true'', ''io.bus'' \<mapsto> ''virtio-blk''] (ii_Devices def)\<rparr>
          in andthen (ic_create_instance c (it_Project t) def') (ret def'))"

definition disk_device :: "string \<Rightarrow> string \<Rightarrow> string \<Rightarrow> config" where
  "disk_device pool name source =
     [''type'' \<mapsto> ''disk'', ''dependent'' \<mapsto> ''true'', ''pool'' \<mapsto> pool, ''user.migration_source'' \<mapsto> name, ''source'' \<mapsto> source]"

text \<open>
  The volumes of the disks after the first, with the device each gets; the volumes created so far
  come back also on an error, for the clean-up.
\<close>

fun create_volumes ::
    "'e incus_client \<Rightarrow> string \<Rightarrow> string \<Rightarrow> string \<Rightarrow> placement \<Rightarrow> nat \<Rightarrow> disk list \<Rightarrow> incus_instance \<Rightarrow> (string \<times> string) list \<Rightarrow>
     ('e, err, (string \<times> string) list \<times> (err + incus_instance)) act" where
  "create_volumes c project member name pl i [] inst vols = ret (vols, Inr inst)"
| "create_volumes c project member name pl i (d # ds) inst vols =
     (if \<not> d_Supported d then create_volumes c project member name pl (Suc i) ds inst vols
      else let pool = (case fmlookup (p_StoragePools pl) (d_Name d) of None \<Rightarrow> '''' | Some p \<Rightarrow> p);
               key = ''disk'' @ show_nat i; vol = name @ ''-'' @ key in
        bindm (attempt (ic_create_volume c project member pool vol [''size'' \<mapsto> show_int (d_Capacity d) @ ''B''])) (\<lambda>r.
          case r of
            Inl e \<Rightarrow> ret ((pool, vol) # vols, Inl e)
          | Inr _ \<Rightarrow> create_volumes c project member name pl (Suc i) ds
              (inst\<lparr>ii_Devices := gm_set key (disk_device pool (d_Name d) vol) (ii_Devices inst)\<rparr>) ((pool, vol) # vols)))"

definition delete_volumes :: "'e incus_client \<Rightarrow> string \<Rightarrow> string \<Rightarrow> (string \<times> string) list \<Rightarrow> ('e, err, unit) act" where
  "delete_volumes c project member vols =
     for_each vols (\<lambda>(pool, vol). bindm (attempt (ic_delete_volume c project member pool vol)) (\<lambda>_. ret ()))"

definition setup_vm :: "'e incus_client \<Rightarrow> incus_target \<Rightarrow> inst \<Rightarrow> incus_instance \<Rightarrow> placement \<Rightarrow> ('e, err, unit) act" where
  "setup_vm c t inst def pl =
     (case ip_Disks (applied_props inst) of
        d0 # d1 # ds \<Rightarrow>
          bindm (ic_get_instance c (it_Project t) (ii_Name def)) (\<lambda>info.
          bindm (create_volumes c (it_Project t) (ii_Location info) (ii_Name def) pl 1 (d1 # ds) info []) (\<lambda>(vols, r).
          bindm (attempt (bindm (lift r) (\<lambda>info'.
             andthen (ic_update_instance c (it_Project t) (ii_Name info') info') (ic_wait c)))) (\<lambda>u.
             case u of
               Inr _ \<Rightarrow> ret ()
             | Inl e \<Rightarrow> andthen (delete_volumes c (p_TargetProject pl) (ii_Location info) vols) (throw e))))
      | _ \<Rightarrow> ret ())"

section \<open>Clean-up\<close>

text \<open>The volumes of the devices that the migration made, by pool.\<close>

definition migration_volume :: "config \<Rightarrow> bool" where
  "migration_volume dev \<longleftrightarrow> cfg_get dev ''type'' = ''disk'' \<and> cfg_get dev ''user.migration_source'' \<noteq> '''' \<and>
     cfg_get dev ''source'' \<noteq> '''' \<and> cfg_get dev ''pool'' \<noteq> ''''"

definition volumes_in_pool :: "incus_instance \<Rightarrow> string \<Rightarrow> string \<Rightarrow> bool" where
  "volumes_in_pool info pool vol \<longleftrightarrow>
     (\<exists>(_, dev) \<in> set (ii_Devices info). migration_volume dev \<and> cfg_get dev ''pool'' = pool \<and> cfg_get dev ''source'' = vol)"

definition cleanup_pools :: "incus_instance \<Rightarrow> string list" where
  "cleanup_pools info = remdups (map (\<lambda>(_, dev). cfg_get dev ''pool'') (filter (\<lambda>(_, dev). migration_volume dev) (ii_Devices info)))"

definition delete_pool_volumes ::
    "'e incus_client \<Rightarrow> incus_target \<Rightarrow> incus_instance \<Rightarrow> string \<Rightarrow> (string \<Rightarrow> bool) \<Rightarrow> string \<Rightarrow> ('e, err, unit) act" where
  "delete_pool_volumes c t info name ours pool =
     bindm (wrap_err (\<lambda>e. Errorf ''Failed to find %q volumes for instance %q: %w'' [AStr pool, AStr name, AWrap e])
       (ic_volumes c (it_Project t) (ii_Location info) pool)) (\<lambda>vols.
       for_each (filter ours vols) (\<lambda>vol.
         wrap_err (\<lambda>e. Errorf ''Failed to delete instance %q storage volume %q on pool %q: %w''
             [AStr name, AStr vol, AStr pool, AWrap e])
           (ic_delete_volume c (it_Project t) (ii_Location info) pool vol)))"

definition remove_vm :: "'e incus_client \<Rightarrow> incus_target \<Rightarrow> incus_instance \<Rightarrow> string \<Rightarrow> ('e, err, unit) act" where
  "remove_vm c t info name =
     andthen (if ii_Status info = ''Running''
         then wrap_err (\<lambda>e. Errorf ''Failed to stop target instance %q: %w'' [AStr name, AWrap e]) (stop_vm c t name True)
         else ret ())
      (andthen (wrap_err (\<lambda>e. Errorf ''Failed to send delete request for instance %q: %w'' [AStr name, AWrap e])
         (ic_delete_instance c (it_Project t) name))
      (andthen (wrap_err (\<lambda>e. Errorf ''Failed to wait for delete operation for instance %q: %w'' [AStr name, AWrap e]) (ic_wait c))
        (for_each (cleanup_pools info) (\<lambda>pool. delete_pool_volumes c t info name (volumes_in_pool info pool) pool))))"

definition cleanup_vm ::
    "ext \<Rightarrow> 'e incus_client \<Rightarrow> incus_target \<Rightarrow> string \<Rightarrow> bool \<Rightarrow> ('e, err, unit) act" where
  "cleanup_vm x c t name requireWorkerVolume =
     bindm (wrap_err (\<lambda>e. Errorf ''Failed to get instance names: %w'' [AWrap e]) (ic_instance_names c (it_Project t))) (\<lambda>names.
     if name \<notin> set names then ret ()
     else bindm (wrap_err (\<lambda>e. Errorf ''Failed to get target instance %q config: %w'' [AStr name, AWrap e])
         (ic_get_instance c (it_Project t) name)) (\<lambda>info.
       if cfg_get (ii_Config info) ''user.migration_source'' = '''' then ret ()
       else if requireWorkerVolume \<and> map_of (ii_Devices info) (worker_volume x (ii_Architecture info)) = None then ret ()
       else remove_vm c t info name))"

section \<open>The final configuration\<close>

text \<open>The device of a NIC, with the checks against the network it is placed on.\<close>

definition nic_device ::
    "'e incus_client \<Rightarrow> incus_target \<Rightarrow> raw_set \<Rightarrow> network_placement \<Rightarrow> nic \<Rightarrow> ('e, err, config) act" where
  "nic_device c t nicDefs cfg nic =
     (let net = np_Network cfg; bridged = (\<lambda>r. case r of
          Inl e \<Rightarrow> if err_status http_not_found e then ret (network_device cfg Map.empty) else throw e
        | Inr n \<Rightarrow> ret (if nt_Type n = nic_type_string INCUSNICTYPE_PHYSICAL \<and> np_NICType cfg = INCUSNICTYPE_PHYSICAL
            then [''network'' \<mapsto> net] else network_device cfg Map.empty)) in
      case np_NICType cfg of
        INCUSNICTYPE_BRIDGED \<Rightarrow> bindm (attempt (ic_get_network c (it_Project t) net)) bridged
      | INCUSNICTYPE_PHYSICAL \<Rightarrow> bindm (attempt (ic_get_network c (it_Project t) net)) bridged
      | INCUSNICTYPE_MANAGED \<Rightarrow>
          if nic_IPv4Address nic = '''' then ret [''network'' \<mapsto> net]
          else bindm (wrap_err (\<lambda>e. Errorf ''Failed to fetch network configuration from target %q: %w'' [AStr (it_Name t), AWrap e])
              (ic_get_network c (it_Project t) net)) (\<lambda>n.
            if nt_Type n \<in> {''bridge'', ''ovn''}
            then bindm (lift (set_get nicDefs InstanceNICIPv4Address)) (\<lambda>info.
              ret [''network'' \<mapsto> net, pi_Key info \<mapsto> nic_IPv4Address nic])
            else ret [''network'' \<mapsto> net])
      | INCUSNICTYPE_OTHER s \<Rightarrow> ret Map.empty)"

definition eth :: "nat \<Rightarrow> string" where
  "eth i = ''eth'' @ show_nat i"

fun nic_devices ::
    "'e incus_client \<Rightarrow> incus_target \<Rightarrow> raw_set \<Rightarrow> inst \<Rightarrow> queue_entry \<Rightarrow> nat \<Rightarrow> nic list \<Rightarrow> (string, config) gomap \<Rightarrow>
     ('e, err, (string, config) gomap) act" where
  "nic_devices c t nicDefs inst q i [] devs = ret devs"
| "nic_devices c t nicDefs inst q i (nic # nics) devs =
     (case fmlookup (placed_networks (q_Placement q)) (nic_HardwareAddress nic) of
        None \<Rightarrow> throw (Errorf ''No network placement found for NIC %q for instance %q on target %q''
          [AStr (nic_HardwareAddress nic), AStr (get_name inst), AStr (it_Name t)])
      | Some cfg \<Rightarrow>
          bindm (nic_device c t nicDefs cfg nic) (\<lambda>dev.
          bindm (lift (set_get nicDefs InstanceNICHardwareAddress)) (\<lambda>hw.
            nic_devices c t nicDefs inst q (Suc i) nics
              (gm_set (eth i) (dev(''type'' \<mapsto> ''nic'', ''name'' \<mapsto> eth i, pi_Key hw \<mapsto> nic_HardwareAddress nic)) devs))))"

definition without_nics :: "(string, config) gomap \<Rightarrow> (string, config) gomap" where
  "without_nics devs = filter (\<lambda>(_, d). cfg_get d ''type'' \<noteq> ''nic'') devs"

definition config_of_fmap :: "(string, string) fmap \<Rightarrow> config" where
  "config_of_fmap m = fmlookup m"

definition recorded_tag :: "string \<Rightarrow> bool" where
  "recorded_tag k \<longleftrightarrow> has_prefix k (SDNTagsKeyPrefix @ ''.'') \<or> has_prefix k (TagsKeyPrefix @ ''.'')"

text \<open>The limits and firmware settings, one property at a time.\<close>

definition final_property :: "instance_properties \<Rightarrow> prop_name \<times> property_info \<Rightarrow> config \<Rightarrow> config" where
  "final_property p = (\<lambda>(name, info) c.
     case name of
       InstanceCPUs \<Rightarrow> c(pi_Key info \<mapsto> show_int (cfg_CPUs (ip_Configurable p)))
     | InstanceMemory \<Rightarrow> c(pi_Key info \<mapsto> show_int (cfg_Memory (ip_Configurable p)) @ ''B'')
     | InstanceLegacyBoot \<Rightarrow> c(pi_Key info \<mapsto> format_bool (ip_LegacyBoot p))
     | InstanceSecureBoot \<Rightarrow> c(pi_Key info \<mapsto> format_bool (ip_SecureBoot p))
     | _ \<Rightarrow> c)"

definition final_config :: "ext \<Rightarrow> raw_set \<Rightarrow> inst \<Rightarrow> config \<Rightarrow> err + config" where
  "final_config x defs i c =
     (let p = applied_props i; os = get_os_type i True; (distro, ver) = get_distribution x i True;
          c1 = (if x_testing x then c else (\<lambda>k. if has_prefix k ''user.migration.'' then map_option (\<lambda>_. '''') (c k) else c k));
          c2 = c1(''image.os'' \<mapsto> (if os \<noteq> OSTYPE_LINUX then x_os_text x os else x_distro_text x distro),
            ''image.release'' \<mapsto> ver,
            ''volatile.uuid'' \<mapsto> uuid_string (ip_UUID p), ''volatile.uuid.generation'' \<mapsto> uuid_string (ip_UUID p));
          c3 = (\<lambda>k. if recorded_tag k then None else c2 k) ++ config_of_fmap (sdn_tag_config i) ++ config_of_fmap (source_tag_config i);
          c4 = fold (final_property p) (set_get_all defs) c3;
          c5 = (if ip_TPM (i_Properties i) then c4(''migration.stateful'' \<mapsto> ''false'') else c4)
      in if ip_LegacyBoot (i_Properties i)
         then map_sum id (\<lambda>info. c5(pi_Key info \<mapsto> ''false'')) (set_get defs InstanceSecureBoot)
         else Inr c5)"

definition final_devices :: "ext \<Rightarrow> inst \<Rightarrow> (string, config) gomap \<Rightarrow> err + (string, config) gomap" where
  "final_devices x i devs =
     (let os = get_os_type i True; (distro, ver) = get_distribution x i True;
          d1 = gm_delete (worker_volume x (get_architecture x i)) devs in
      bind_sum (if x_vioscsi x os distro ver then Inr d1
        else (case map_of d1 ''root'' of
                None \<Rightarrow> Inl nil_map_panic
              | Some dev \<Rightarrow> Inr (gm_set ''root'' (dev(''io.bus'' \<mapsto> ''virtio-blk'')) d1))) (\<lambda>d2.
      let d3 = (if os = OSTYPE_LINUX \<and> x_rhel x distro \<or> os = OSTYPE_WINDOWS
            then gm_set ''agent'' [''type'' \<mapsto> ''disk'', ''source'' \<mapsto> ''agent:config''] d2 else d2)
      in Inr (if ip_TPM (i_Properties i) then gm_set ''vtpm'' [''type'' \<mapsto> ''tpm'', ''path'' \<mapsto> ''/dev/tpm0''] d3 else d3)))"

definition set_post_migration_config ::
    "ext \<Rightarrow> prop_definition list \<Rightarrow> 'e incus_client \<Rightarrow> incus_target \<Rightarrow> inst \<Rightarrow> queue_entry \<Rightarrow> ('e, err, unit) act" where
  "set_post_migration_config x ps c t i q =
     (let name = get_name i; it = AStr (it_Name t) in
      bindm (lift (definitions x ps (ETarget (at_TargetType (it_Target t))) (it_Version t))) (\<lambda>defs.
      bindm (lift (set_get_sub defs InstanceNICs)) (\<lambda>nicDefs.
      bindm (wrap_err (\<lambda>e. Errorf ''Failed to get configuration for instance %q on target %q: %w'' [AStr name, it, AWrap e])
        (ic_get_instance c (it_Project t) name)) (\<lambda>def.
      andthen (if ii_Status def = ''Running''
          then wrap_err (\<lambda>e. Errorf ''Failed to stop instance %q on target %q: %w'' [AStr name, it, AWrap e]) (stop_vm c t name True)
          else ret ())
      (bindm (nic_devices c t nicDefs i q 0 (ip_NICs (applied_props i)) (without_nics (ii_Devices def))) (\<lambda>devs.
       bindm (lift (final_devices x i devs)) (\<lambda>devs'.
       bindm (lift (final_config x defs i ((ii_Config def)(''migration.stateful'' := None)))) (\<lambda>cfg.
       andthen (wrap_err (\<lambda>e. Errorf ''Failed to update instance %q on target %q: %w'' [AStr name, it, AWrap e])
         (ic_update_instance c (it_Project t) name (def\<lparr>ii_Config := cfg, ii_Devices := devs', ii_Profiles := [''default'']\<rparr>)))
       (andthen (bindm (attempt (ic_wait c)) (\<lambda>r. case r of
            Inr _ \<Rightarrow> ret ()
          | Inl e \<Rightarrow> if err_status http_not_found e then ret ()
              else throw (Errorf ''Failed to wait for update to instance %q on target %q: %w'' [AStr name, it, AWrap e])))
        (if p_Running (q_Placement q)
         then wrap_err (\<lambda>e. Errorf ''Failed to start instance %q on target %q: %w'' [AStr name, it, AWrap e]) (start_vm c t name)
         else ret ()))))))))))"

section \<open>What clean-up deletes\<close>

text \<open>A client that also notes what it is told to delete.\<close>

datatype deletion =
    DelInstance string string
  | DelVolume string string string string

definition quiet :: "('e, err, 'a) act \<Rightarrow> ('e \<times> deletion list, err, 'a) act" where
  "quiet m = (\<lambda>(e, l). case m e of (r, e') \<Rightarrow> (r, (e', l)))"

definition noted :: "deletion \<Rightarrow> ('e, err, 'a) act \<Rightarrow> ('e \<times> deletion list, err, 'a) act" where
  "noted d m = (\<lambda>(e, l). case m e of (r, e') \<Rightarrow> (r, (e', l @ [d])))"

definition noting :: "'e incus_client \<Rightarrow> ('e \<times> deletion list) incus_client" where
  "noting c =
     \<lparr>ic_connect = (\<lambda>s. quiet (ic_connect c s)), ic_project_names = quiet (ic_project_names c),
      ic_pool_names = quiet (ic_pool_names c), ic_networks = (\<lambda>p. quiet (ic_networks c p)),
      ic_instance_names = (\<lambda>p. quiet (ic_instance_names c p)), ic_get_instance = (\<lambda>p n. quiet (ic_get_instance c p n)),
      ic_get_network = (\<lambda>p n. quiet (ic_get_network c p n)), ic_create_instance = (\<lambda>p i. quiet (ic_create_instance c p i)),
      ic_update_instance = (\<lambda>p n i. quiet (ic_update_instance c p n i)),
      ic_delete_instance = (\<lambda>p n. noted (DelInstance p n) (ic_delete_instance c p n)),
      ic_set_state = (\<lambda>p n a f. quiet (ic_set_state c p n a f)), ic_instance_state = (\<lambda>p n. quiet (ic_instance_state c p n)),
      ic_exec = (\<lambda>p n as. quiet (ic_exec c p n as)), ic_wait = quiet (ic_wait c),
      ic_volumes = (\<lambda>p m pool. quiet (ic_volumes c p m pool)),
      ic_create_volume = (\<lambda>p m pool v cfg. quiet (ic_create_volume c p m pool v cfg)),
      ic_delete_volume = (\<lambda>p m pool v. noted (DelVolume p m pool v) (ic_delete_volume c p m pool v))\<rparr>"

abbreviation deleted_only :: "(deletion \<Rightarrow> bool) \<Rightarrow> 'e \<times> deletion list \<Rightarrow> bool" where
  "deleted_only P s \<equiv> list_all P (snd s)"

lemma keeps_quiet [keeps_intros]: "keeps (deleted_only P) (quiet m)"
  by (auto simp: keeps_def quiet_def split: prod.split)

lemma keeps_noted: "P d \<Longrightarrow> keeps (deleted_only P) (noted d m)"
  by (auto simp: keeps_def noted_def split: prod.split)

lemma noting_simps [simp]:
  "ic_instance_names (noting c) p = quiet (ic_instance_names c p)"
  "ic_get_instance (noting c) p n = quiet (ic_get_instance c p n)"
  "ic_set_state (noting c) p n a f = quiet (ic_set_state c p n a f)"
  "ic_wait (noting c) = quiet (ic_wait c)"
  "ic_volumes (noting c) p m pool = quiet (ic_volumes c p m pool)"
  "ic_delete_instance (noting c) p n = noted (DelInstance p n) (ic_delete_instance c p n)"
  "ic_delete_volume (noting c) p m pool v = noted (DelVolume p m pool v) (ic_delete_volume c p m pool v)"
  by (simp_all add: noting_def)

text \<open>What belongs to an instance: itself, and the volumes of its devices that the migration made.\<close>

definition own_deletion :: "incus_target \<Rightarrow> string \<Rightarrow> incus_instance \<Rightarrow> deletion \<Rightarrow> bool" where
  "own_deletion t name info d \<longleftrightarrow> d = DelInstance (it_Project t) name \<or>
     (\<exists>(k, dev) \<in> set (ii_Devices info). migration_volume dev \<and>
        d = DelVolume (it_Project t) (ii_Location info) (cfg_get dev ''pool'') (cfg_get dev ''source''))"

definition cleanable :: "ext \<Rightarrow> bool \<Rightarrow> incus_instance \<Rightarrow> bool" where
  "cleanable x requireWorkerVolume info \<longleftrightarrow> cfg_get (ii_Config info) ''user.migration_source'' \<noteq> '''' \<and>
     (requireWorkerVolume \<longrightarrow> map_of (ii_Devices info) (worker_volume x (ii_Architecture info)) \<noteq> None)"

lemma keeps_pool_volumes:
  "keeps (deleted_only (own_deletion t name info)) (delete_pool_volumes (noting c) t info name (volumes_in_pool info pool) pool)"
proof -
  have "own_deletion t name info (DelVolume (it_Project t) (ii_Location info) pool vol)" if "volumes_in_pool info pool vol" for vol
    using that unfolding volumes_in_pool_def own_deletion_def by (auto split: prod.splits)
  then show ?thesis
    unfolding delete_pool_volumes_def by (auto intro!: keeps_intros keeps_noted)
qed

lemma keeps_remove_vm: "keeps (deleted_only (own_deletion t name info)) (remove_vm (noting c) t info name)"
  unfolding remove_vm_def stop_vm_def
  by (auto intro!: keeps_intros keeps_noted keeps_pool_volumes simp: own_deletion_def)

text \<open>Either clean-up only reads, or it removes an instance it may remove.\<close>

lemma cleanup_runs:
  assumes "cleanup_vm x (noting c) t name req (e, []) = (r, (e', dels))"
  obtains "dels = []"
  | info e1 e2 where "ic_get_instance c (it_Project t) name e1 = (Inr info, e2)" "cleanable x req info"
      "remove_vm (noting c) t info name (e2, []) = (r, (e', dels))"
proof -
  obtain n e1 where n: "ic_instance_names c (it_Project t) e = (n, e1)" by fastforce
  obtain g e2 where g: "ic_get_instance c (it_Project t) name e1 = (g, e2)" by fastforce
  show ?thesis
    using assms n g that unfolding cleanup_vm_def
    by (cases n; cases g) (auto simp: run_simps quiet_def cleanable_def split: if_splits)
qed

text \<open>
  C22: Whatever Incus answers, cleaning up an instance deletes nothing unless the instance carries
  the mark of a migration (and, where that is asked for, still has the worker's volume attached);
  and then nothing but the instance itself and the volumes of its devices that the migration made.
\<close>

theorem cleanup_deletes_only_own:
  assumes "cleanup_vm x (noting c) t name requireWorkerVolume (e, []) = (r, (e', dels))"
  shows "dels = [] \<or>
    (\<exists>info e1 e2. ic_get_instance c (it_Project t) name e1 = (Inr info, e2) \<and> cleanable x requireWorkerVolume info \<and>
       list_all (own_deletion t name info) dels)"
  using assms
proof (cases rule: cleanup_runs)
  case (2 info e1 e2)
  from keeps_run [OF keeps_remove_vm _ 2(3)] have "list_all (own_deletion t name info) dels" by simp
  with 2 show ?thesis by blast
qed simp

text \<open>A small Incus for the witnesses: its state is the instances it has.\<close>

definition sample_client :: "incus_instance list incus_client" where
  "sample_client =
     \<lparr>ic_connect = (\<lambda>_. ret (''trusted'', ''6.0'')), ic_project_names = ret [''default''], ic_pool_names = ret [''pool''],
      ic_networks = (\<lambda>_. ret []), ic_instance_names = (\<lambda>_. gets (map ii_Name)),
      ic_get_instance = (\<lambda>_ n. bindm (gets (find (\<lambda>i. ii_Name i = n)))
        (\<lambda>r. case r of None \<Rightarrow> throw (StatusErr 404 ''Instance not found'' []) | Some i \<Rightarrow> ret i)),
      ic_get_network = (\<lambda>_ n. ret \<lparr>nt_Name = n, nt_Managed = True, nt_Type = ''bridge'', nt_Config = Map.empty\<rparr>),
      ic_create_instance = (\<lambda>_ i. modify (\<lambda>l. l @ [i])),
      ic_update_instance = (\<lambda>_ n i. modify (map (\<lambda>j. if ii_Name j = n then i else j))),
      ic_delete_instance = (\<lambda>_ n. modify (filter (\<lambda>i. ii_Name i \<noteq> n))),
      ic_set_state = (\<lambda>_ _ _ _. ret ()), ic_instance_state = (\<lambda>_ _. ret (True, 1)), ic_exec = (\<lambda>_ _ _. ret ()),
      ic_wait = ret (), ic_volumes = (\<lambda>_ _ _. ret []), ic_create_volume = (\<lambda>_ _ _ _ _. ret ()),
      ic_delete_volume = (\<lambda>_ _ _ _. ret ())\<rparr>"

lemma sample_client_simps:
  "ic_get_instance sample_client p n = bindm (gets (find (\<lambda>i. ii_Name i = n)))
     (\<lambda>r. case r of None \<Rightarrow> throw (StatusErr 404 ''Instance not found'' []) | Some i \<Rightarrow> ret i)"
  "ic_get_network sample_client p n = ret \<lparr>nt_Name = n, nt_Managed = True, nt_Type = ''bridge'', nt_Config = Map.empty\<rparr>"
  "ic_update_instance sample_client p n i = modify (map (\<lambda>j. if ii_Name j = n then i else j))"
  "ic_wait sample_client = ret ()"
  by (simp_all add: sample_client_def)

definition sample_incus_target :: incus_target where
  "sample_incus_target =
     \<lparr>it_Target = \<lparr>at_Name = ''t1'', at_Properties = '''', at_TargetType = TARGETTYPE_INCUS\<rparr>, it_Properties = sample_incus 0,
      it_Timeout = 5 * minute, it_Version = ''6.0'', it_Connected = True, it_Project = ''default''\<rparr>"

definition sample_vm :: "config \<Rightarrow> (string, config) gomap \<Rightarrow> incus_instance" where
  "sample_vm cfg devs = \<lparr>ii_Name = ''vm'', ii_Status = ''Stopped'', ii_Location = '''', ii_Architecture = ''x86_64'',
     ii_Description = '''', ii_Config = cfg, ii_Devices = devs, ii_Profiles = []\<rparr>"

theorem cleanup_deletes_only_own_witness:
  "\<exists>r e' dels. cleanup_vm plain_ext (noting sample_client) sample_incus_target ''vm'' False
       ([sample_vm [''user.migration_source'' \<mapsto> ''src''] []], []) = (r, (e', dels)) \<and> dels = [DelInstance ''default'' ''vm''] \<and>
     (\<exists>info. list_all (own_deletion sample_incus_target ''vm'' info) dels)"
proof -
  let ?vm = "sample_vm [''user.migration_source'' \<mapsto> ''src''] []"
  have run: "cleanup_vm plain_ext (noting sample_client) sample_incus_target ''vm'' False ([?vm], []) =
      (Inr (), ([], [DelInstance ''default'' ''vm'']))"
    by (simp add: cleanup_vm_def remove_vm_def run_simps quiet_def noted_def sample_client_def sample_vm_def cfg_get_def
        sample_incus_target_def cleanup_pools_def)
  from cleanup_deletes_only_own [OF run] run show ?thesis by auto
qed

definition migrating_entry :: queue_entry where
  "migrating_entry = \<lparr>q_ID = 1, q_InstanceUUID = 7, q_BatchName = ''b1'', q_SecretToken = 5,
     q_ImportStage = IMPORTSTAGE_COMPLETE, q_MigrationStatus = MIGRATIONSTATUS_WORKER_DONE,
     q_MigrationStatusMessage = '''', q_LastWorkerStatus = WORKERRESPONSE_UNKNOWN, q_LastBackgroundSync = 0,
     q_MigrationWindowName = None,
     q_Placement = \<lparr>p_TargetName = ''t1'', p_TargetProject = ''default'', p_StoragePools = fmempty,
       p_Networks = Some (fmupd (nic_HardwareAddress sample_nic) \<lparr>np_Network = ''net'', np_NICType = INCUSNICTYPE_BRIDGED, np_VlanID = ''''\<rparr> fmempty),
       p_Running = False\<rparr>\<rparr>"

section \<open>The target VM while it is imported\<close>

lemma initial_property_fields [simp]:
  "ii_Devices (initial_property p os ni i) = ii_Devices i" "ii_Name (initial_property p os ni i) = ii_Name i"
  by (cases ni; cases "fst ni"; simp add: initial_property_def Let_def)+

lemma initial_property_arch:
  "ii_Architecture (initial_property p os (n, info) i) =
     (if n = InstanceArchitecture then ip_Architecture p else ii_Architecture i)"
  by (cases n) (simp_all add: initial_property_def Let_def)

lemma initial_arch:
  "ii_Architecture (fold (initial_property p os) ps i) =
     (if InstanceArchitecture \<in> fst ` set ps then ip_Architecture p else ii_Architecture i)"
proof (induction ps arbitrary: i)
  case (Cons n ps)
  then show ?case by (cases n) (auto simp: initial_property_arch)
qed simp

lemma filled_arch:
  assumes "fill_initial_properties x i inst pool defs = Inr j" "InstanceArchitecture \<in> fst ` set (rs_Props defs)"
  shows "ii_Architecture j = get_architecture x inst"
  using assms initial_arch [of "applied_props inst" "get_os_type inst True" "rs_Props defs" "i\<lparr>ii_Config := Map.empty\<rparr>"]
  by (auto simp: fill_initial_properties_def bind_sum_ok get_architecture_def set_get_all_def Let_def map_sum_def
      split: if_splits list.splits sum.splits)

lemma incus_has_arch:
  assumes "semver_plain x" "definitions x the_schema (ETarget TARGETTYPE_INCUS) version = Inr defs"
  shows "InstanceArchitecture \<in> fst ` set (rs_Props defs)"
  using assms incus_defs [OF assms(1)] by (auto simp: incus_props_def split: if_splits)

lemma created_definition:
  assumes sv: "semver_plain x" and def: "create_vm_definition x the_schema (ETarget TARGETTYPE_INCUS) version inst q fp ep mn = Inr d"
  shows "ii_Name d = get_name inst \<and> ii_Config d ''user.migration_source'' = Some (i_Source inst) \<and>
    ii_Config d ''user.migration.token'' = Some (uuid_string (q_SecretToken q)) \<and> ii_Architecture d = get_architecture x inst"
proof -
  from def obtain defs i pool e0 where d: "definitions x the_schema (ETarget TARGETTYPE_INCUS) version = Inr defs"
      "fill_initial_properties x e0 inst pool defs = Inr i" "ii_Name e0 = get_name inst"
      and f: "ii_Name d = ii_Name i" "ii_Architecture d = ii_Architecture i"
      "ii_Config d ''user.migration_source'' = Some (i_Source inst)"
      "ii_Config d ''user.migration.token'' = Some (uuid_string (q_SecretToken q))"
    unfolding create_vm_definition_def bind_sum_ok
    by (cases "ip_Disks (i_Properties inst)") (simp_all add: bind_sum_ok, elim exE conjE, force)
  have "ii_Name (fold (initial_property p os) ps j) = ii_Name j" for p os ps j
    by (induction ps arbitrary: j) simp_all
  with d(2,3) have "ii_Name i = get_name inst"
    by (auto simp: fill_initial_properties_def bind_sum_ok Let_def map_sum_def split: if_splits list.splits sum.splits)
  with f filled_arch [OF d(2) incus_has_arch [OF sv d(1)]] show ?thesis by simp
qed

text \<open>
  A VM that was made for an import can be cleaned up: it carries the instance's name, the mark
  of the migration and, under the name that clean-up looks for, the worker's volume.
\<close>

theorem created_vm_cleanable:
  assumes "semver_plain x" and "i_Source inst \<noteq> ''''"
    and "create_vm_definition x the_schema (ETarget TARGETTYPE_INCUS) version inst q fp ep mn = Inr d"
    and "create_new_vm x c t inst d pl bootISO e = (Inr d', e')"
  shows "cleanable x True d' \<and> ii_Name d' = get_name inst"
proof -
  from created_definition [OF assms(1,3)] have d: "ii_Name d = get_name inst"
      "ii_Config d ''user.migration_source'' = Some (i_Source inst)" "ii_Architecture d = get_architecture x inst"
    by simp_all
  from assms(4) obtain dev where "d' = d\<lparr>ii_Devices := gm_set (worker_volume x (get_architecture x inst)) dev (ii_Devices d)\<rparr>"
    by (auto simp: create_new_vm_def ok_simps Let_def split: list.splits)
  with d assms(2) show ?thesis by (simp add: cleanable_def cfg_get_def)
qed

lemma plain_served: "incus_served plain_ext ''6.0''"
  by (simp add: incus_served_def plain_ext_def)

lemma plain_semver: "semver_plain plain_ext"
  by (simp add: semver_plain_def plain_ext_def)

lemma plain_incus_defs:
  obtains defs nicDefs hw diskDefs size arch desc where
    "definitions plain_ext the_schema (ETarget TARGETTYPE_INCUS) ''6.0'' = Inr defs" "rs_Props defs = incus_props"
    "set_get_sub defs InstanceNICs = Inr nicDefs" "set_get nicDefs InstanceNICHardwareAddress = Inr hw"
    "set_get_sub defs InstanceDisks = Inr diskDefs" "set_get diskDefs InstanceDiskCapacity = Inr size"
    "set_get defs InstanceArchitecture = Inr arch" "set_get defs InstanceDescription = Inr desc"
proof -
  obtain defs where d: "definitions plain_ext the_schema (ETarget TARGETTYPE_INCUS) ''6.0'' = Inr defs"
      "rs_Props defs = incus_props" "rs_SubProps defs = incus_sub_props"
    by (simp add: incus_defs [OF plain_semver] plain_served new_raw_set_def)
  obtain arch desc where p: "set_get defs InstanceArchitecture = Inr arch" "set_get defs InstanceDescription = Inr desc"
    by (simp add: set_get_def d(2) incus_props_def)
  obtain nicDefs hw where n: "set_get_sub defs InstanceNICs = Inr nicDefs" "set_get nicDefs InstanceNICHardwareAddress = Inr hw"
    by (simp add: set_get_sub_def set_get_def d(3) incus_sub_props_def has_sub_properties_def)
  obtain diskDefs size where "set_get_sub defs InstanceDisks = Inr diskDefs" "set_get diskDefs InstanceDiskCapacity = Inr size"
    by (simp add: set_get_sub_def set_get_def d(3) incus_sub_props_def has_sub_properties_def)
  with d p n show ?thesis using that by blast
qed

theorem created_vm_cleanable_witness:
  "\<exists>d d' e'. create_vm_definition plain_ext the_schema (ETarget TARGETTYPE_INCUS) ''6.0'' sample_inst migrating_entry ''fp'' ''ep''
       zero_migration_network = Inr d \<and>
     create_new_vm plain_ext sample_client sample_incus_target sample_inst d (q_Placement migrating_entry) ''worker'' [] = (Inr d', e') \<and>
     cleanable plain_ext True d'"
proof (rule plain_incus_defs)
  fix defs nicDefs hw diskDefs size arch desc
  assume defs: "definitions plain_ext the_schema (ETarget TARGETTYPE_INCUS) ''6.0'' = Inr defs"
    "set_get_sub defs InstanceDisks = Inr diskDefs" "set_get diskDefs InstanceDiskCapacity = Inr size"
    "set_get defs InstanceArchitecture = Inr arch" "set_get defs InstanceDescription = Inr desc"
  have disks: "ip_Disks (applied_props sample_inst) = [sample_disk]" "ip_Disks (i_Properties sample_inst) = [sample_disk]"
    by (simp_all add: sample_defs instance_properties_apply_def)
  have "\<exists>i. fill_initial_properties plain_ext e0 sample_inst pool defs = Inr i" for e0 pool
    by (simp add: fill_initial_properties_def defs disks Let_def)
  then obtain d where d: "create_vm_definition plain_ext the_schema (ETarget TARGETTYPE_INCUS) ''6.0'' sample_inst migrating_entry ''fp'' ''ep''
       zero_migration_network = Inr d"
    by (simp add: create_vm_definition_def defs disks bind_sum_ok) blast
  obtain d' e' where run: "create_new_vm plain_ext sample_client sample_incus_target sample_inst d (q_Placement migrating_entry) ''worker'' [] = (Inr d', e')"
    by (simp add: create_new_vm_def disks run_simps sample_client_def Let_def)
  have "i_Source sample_inst \<noteq> ''''" by (simp add: sample_defs)
  from created_vm_cleanable [OF plain_semver this d run] d run show ?thesis by blast
qed

section \<open>The migrated VM\<close>

definition is_nic :: "config \<Rightarrow> bool" where
  "is_nic d \<longleftrightarrow> cfg_get d ''type'' = ''nic''"

lemma eth_inj [simp]: "eth i = eth j \<longleftrightarrow> i = j"
  by (simp add: eth_def show_nat_inj)

lemma incus_hwaddr:
  assumes "semver_plain x" "definitions x the_schema (ETarget TARGETTYPE_INCUS) version = Inr defs"
    "set_get_sub defs InstanceNICs = Inr nicDefs" "set_get nicDefs InstanceNICHardwareAddress = Inr hw"
  shows "pi_Key hw = ''hwaddr''"
  using assms incus_defs [OF assms(1), of version]
  by (auto simp: set_get_sub_def set_get_def new_raw_set_def incus_sub_props_def has_sub_properties_def split: if_splits)

text \<open>After the NICs: one device for each, with its address, and no other NIC.\<close>

definition nics_set :: "nat \<Rightarrow> nic list \<Rightarrow> (string, config) gomap \<Rightarrow> bool" where
  "nics_set i nics devs \<longleftrightarrow>
     (\<forall>j < length nics. \<exists>d. map_of devs (eth (i + j)) = Some d \<and> is_nic d \<and>
        cfg_get d ''hwaddr'' = nic_HardwareAddress (nics ! j) \<and> cfg_get d ''name'' = eth (i + j))"

definition nics_below :: "nat \<Rightarrow> (string, config) gomap \<Rightarrow> bool" where
  "nics_below n devs \<longleftrightarrow> (\<forall>k d. map_of devs k = Some d \<and> is_nic d \<longrightarrow> (\<exists>j < n. k = eth j))"

lemma nic_devices_set:
  assumes "nic_devices c t nicDefs inst q i nics devs e = (Inr devs', e')" "nics_below i devs"
    and hw: "\<And>info. set_get nicDefs InstanceNICHardwareAddress = Inr info \<Longrightarrow> pi_Key info = ''hwaddr''"
  shows "nics_set i nics devs' \<and> nics_below (i + length nics) devs' \<and>
    (\<forall>k. (\<forall>j. i \<le> j \<and> j < i + length nics \<longrightarrow> k \<noteq> eth j) \<longrightarrow> map_of devs' k = map_of devs k)"
  using assms(1,2)
proof (induction nics arbitrary: i devs e)
  case Nil
  then show ?case by (simp add: nics_set_def ret_ok)
next
  case (Cons n nics)
  from Cons.prems(1) obtain dev info e1 where
      run: "nic_devices c t nicDefs inst q (Suc i) nics
        (gm_set (eth i) (dev(''type'' \<mapsto> ''nic'', ''name'' \<mapsto> eth i, pi_Key info \<mapsto> nic_HardwareAddress n)) devs) e1 = (Inr devs', e')"
      and "set_get nicDefs InstanceNICHardwareAddress = Inr info"
    by (auto simp: ok_simps split: option.splits)
  with hw have key: "pi_Key info = ''hwaddr''" by blast
  let ?dev = "dev(''type'' \<mapsto> ''nic'', ''name'' \<mapsto> eth i, ''hwaddr'' \<mapsto> nic_HardwareAddress n)"
  have "nics_below (Suc i) (gm_set (eth i) ?dev devs)"
    using Cons.prems(2) unfolding nics_below_def by (auto simp: less_Suc_eq)
  from Cons.IH [OF run [unfolded key] this] have ih: "nics_set (Suc i) nics devs'" "nics_below (Suc i + length nics) devs'"
      "\<And>k. (\<And>j. Suc i \<le> j \<Longrightarrow> j < Suc i + length nics \<Longrightarrow> k \<noteq> eth j) \<Longrightarrow> map_of devs' k = map_of (gm_set (eth i) ?dev devs) k"
    by blast+
  have first: "map_of devs' (eth i) = Some ?dev" using ih(3) [of "eth i"] by simp
  have "nics_set i (n # nics) devs'"
    unfolding nics_set_def
  proof (intro allI impI)
    fix j assume j: "j < length (n # nics)"
    show "\<exists>d. map_of devs' (eth (i + j)) = Some d \<and> is_nic d \<and>
        cfg_get d ''hwaddr'' = nic_HardwareAddress ((n # nics) ! j) \<and> cfg_get d ''name'' = eth (i + j)"
    proof (cases j)
      case 0
      with first show ?thesis by (simp add: is_nic_def cfg_get_def)
    next
      case (Suc m)
      with ih(1) j show ?thesis by (auto simp: nics_set_def)
    qed
  qed
  moreover have "map_of devs' k = map_of devs k" if "\<And>j. i \<le> j \<Longrightarrow> j < i + length (n # nics) \<Longrightarrow> k \<noteq> eth j" for k
    using ih(3) [of k] that by (metis Suc_leD add_Suc add_Suc_right fun_upd_apply length_Cons less_add_same_cancel1 map_of_gm_set order_refl zero_less_Suc)
  ultimately show ?case using ih(2) by simp
qed

lemma tag_config_keys:
  "fmlookup (tag_config_from pre parse idx config ts) k = Some v \<Longrightarrow> fmlookup config k = None \<Longrightarrow> \<exists>n g. k = tag_key pre n g"
proof (induction ts arbitrary: idx config)
  case (Cons t ts)
  obtain g w where t: "parse t = (g, w)" by (cases "parse t")
  define grp where "grp = (if g = '''' then w else g)"
  show ?case
  proof (cases "k = tag_key pre (idx grp) grp")
    case False
    from Cons.prems(1) have "fmlookup (tag_config_from pre parse (idx(grp := Suc (idx grp)))
        (fmupd (tag_key pre (idx grp) grp) w config) ts) k = Some v"
      by (simp add: t grp_def [symmetric] Let_def)
    then show ?thesis by (rule Cons.IH) (use Cons.prems(2) False in auto)
  qed blast
qed simp

lemma tag_configs_keys:
  "fmlookup (sdn_tag_config i) k = Some v \<Longrightarrow> \<exists>n g. k = tag_key SDNTagsKeyPrefix n g"
  "fmlookup (source_tag_config i) k = Some v \<Longrightarrow> \<exists>n g. k = tag_key TagsKeyPrefix n g"
  unfolding sdn_tag_config_def source_tag_config_def tag_config_def
  by (erule tag_config_keys, simp)+

lemma recorded_tags_apart:
  assumes "has_prefix k ''user.migration''"
  shows "fmlookup (sdn_tag_config i) k = None" "fmlookup (source_tag_config i) k = None" "\<not> recorded_tag k"
proof -
  have no: "\<not> has_prefix (tag_key TagsKeyPrefix n g) ''user.migration''" "\<not> has_prefix (tag_key SDNTagsKeyPrefix n g) ''user.migration''" for n g
    by (simp_all add: tag_key_def TagsKeyPrefix_def SDNTagsKeyPrefix_def has_prefix_def)
  show "fmlookup (sdn_tag_config i) k = None"
    using no(2) assms tag_configs_keys(1) [of i k] by (cases "fmlookup (sdn_tag_config i) k") auto
  show "fmlookup (source_tag_config i) k = None"
    using no(1) assms tag_configs_keys(2) [of i k] by (cases "fmlookup (source_tag_config i) k") auto
  show "\<not> recorded_tag k"
    using assms by (auto simp: recorded_tag_def TagsKeyPrefix_def SDNTagsKeyPrefix_def has_prefix_def prefix_def)
qed

lemma final_properties_other:
  assumes "has_prefix k ''user.migration''"
  shows "fold (final_property p) incus_props c k = c k"
proof -
  have "k \<noteq> ''limits.cpu''" "k \<noteq> ''limits.memory''" "k \<noteq> ''security.csm''" "k \<noteq> ''security.secureboot''"
    using assms by (auto simp: has_prefix_def)
  then show ?thesis by (simp add: incus_props_def final_property_def)
qed

lemma final_config_marks:
  assumes "final_config x defs i c = Inr c'" "rs_Props defs = incus_props" "has_prefix k ''user.migration''"
  shows "c' k = (if \<not> x_testing x \<and> has_prefix k ''user.migration.'' then map_option (\<lambda>_. '''') (c k) else c k)"
proof -
  have k: "k \<noteq> ''image.os''" "k \<noteq> ''image.release''" "k \<noteq> ''volatile.uuid''" "k \<noteq> ''volatile.uuid.generation''"
      "k \<noteq> ''migration.stateful''" "k \<noteq> ''security.secureboot''"
    using assms(3) by (auto simp: has_prefix_def)
  have sec: "set_get defs InstanceSecureBoot = Inr \<lparr>pi_Type = ''config'', pi_Key = ''security.secureboot''\<rparr>"
    using assms(2) by (simp add: set_get_def incus_props_def)
  show ?thesis
    using assms(1) k recorded_tags_apart(1,2) [OF assms(3), of i] recorded_tags_apart(3) [OF assms(3)] final_properties_other [OF assms(3)]
    by (auto simp: final_config_def Let_def sec set_get_all_def assms(2) map_add_def config_of_fmap_def split: prod.splits if_splits)
qed

lemma final_config_uuid:
  assumes "final_config x defs i c = Inr c'" "rs_Props defs = incus_props"
  shows "c' ''volatile.uuid'' = Some (uuid_string (ip_UUID (i_Properties i)))"
proof -
  have no: "tag_key SDNTagsKeyPrefix n g \<noteq> ''volatile.uuid''" "tag_key TagsKeyPrefix n g \<noteq> ''volatile.uuid''" for n g
    by (simp_all add: tag_key_def TagsKeyPrefix_def SDNTagsKeyPrefix_def)
  have tag: "\<not> recorded_tag ''volatile.uuid''"
    by (simp add: recorded_tag_def TagsKeyPrefix_def SDNTagsKeyPrefix_def has_prefix_def)
  have tags: "fmlookup (sdn_tag_config i) ''volatile.uuid'' = None" "fmlookup (source_tag_config i) ''volatile.uuid'' = None"
    using no tag_configs_keys(1) [of i "''volatile.uuid''"] tag_configs_keys(2) [of i "''volatile.uuid''"]
    by (metis not_None_eq)+
  have keep: "fold (final_property p) incus_props c ''volatile.uuid'' = c ''volatile.uuid''" for p c
    by (simp add: incus_props_def final_property_def)
  have sec: "set_get defs InstanceSecureBoot = Inr \<lparr>pi_Type = ''config'', pi_Key = ''security.secureboot''\<rparr>"
    using assms(2) by (simp add: set_get_def incus_props_def)
  show ?thesis
    using assms(1) tag tags keep
    by (auto simp: final_config_def Let_def sec set_get_all_def assms(2) map_add_def config_of_fmap_def instance_properties_apply_def
        split: prod.splits if_splits)
qed

lemma worker_volume_apart [simp]:
  "worker_volume x a \<noteq> eth j" "eth j \<noteq> worker_volume x a" "worker_volume x a \<noteq> ''root''" "worker_volume x a \<noteq> ''agent''"
  "worker_volume x a \<noteq> ''vtpm''" "eth j \<noteq> ''root''" "eth j \<noteq> ''agent''" "eth j \<noteq> ''vtpm''"
  by (simp_all add: worker_volume_def eth_def)

lemma final_devices_nics:
  assumes "final_devices x i devs = Inr devs'" "nics_below n devs"
  shows "nics_below n devs' \<and> (\<forall>j. map_of devs' (eth j) = map_of devs (eth j)) \<and>
    map_of devs' (worker_volume x (get_architecture x i)) = None"
proof -
  let ?w = "worker_volume x (get_architecture x i)"
  obtain distro ver where dv: "get_distribution x i True = (distro, ver)" by fastforce
  define a where "a = (get_os_type i True = OSTYPE_LINUX \<and> x_rhel x distro \<or> get_os_type i True = OSTYPE_WINDOWS)"
  define v where "v = ip_TPM (i_Properties i)"
  from assms(1) obtain d2 where step: "(if x_vioscsi x (get_os_type i True) distro ver then Inr (gm_delete ?w devs)
        else (case map_of (gm_delete ?w devs) ''root'' of None \<Rightarrow> Inl nil_map_panic
              | Some dev \<Rightarrow> Inr (gm_set ''root'' (dev(''io.bus'' \<mapsto> ''virtio-blk'')) (gm_delete ?w devs)))) = Inr d2"
    and devs': "devs' = (let d3 = (if a then gm_set ''agent'' [''type'' \<mapsto> ''disk'', ''source'' \<mapsto> ''agent:config''] d2 else d2)
       in if v then gm_set ''vtpm'' [''type'' \<mapsto> ''tpm'', ''path'' \<mapsto> ''/dev/tpm0''] d3 else d3)"
    unfolding final_devices_def Let_def dv case_prod_conv bind_sum_ok a_def v_def by blast
  have d2: "d2 = gm_delete ?w devs \<or>
      (\<exists>dev. map_of devs ''root'' = Some dev \<and> d2 = gm_set ''root'' (dev(''io.bus'' \<mapsto> ''virtio-blk'')) (gm_delete ?w devs))"
    using step by (auto split: if_splits option.splits)
  have root: "\<not> is_nic dev" if "map_of devs ''root'' = Some dev" for dev
    using assms(2) that unfolding nics_below_def by (metis worker_volume_apart(6))
  have "nics_below n d2 \<and> (\<forall>j. map_of d2 (eth j) = map_of devs (eth j)) \<and> map_of d2 ?w = None"
    using d2
  proof (elim disjE exE conjE)
    fix dev assume "map_of devs ''root'' = Some dev" "d2 = gm_set ''root'' (dev(''io.bus'' \<mapsto> ''virtio-blk'')) (gm_delete ?w devs)"
    with assms(2) root show ?thesis by (auto simp: nics_below_def is_nic_def cfg_get_def)
  qed (use assms(2) in \<open>auto simp: nics_below_def\<close>)
  then show ?thesis unfolding devs' by (auto simp: Let_def nics_below_def is_nic_def cfg_get_def)
qed

text \<open>What the final configuration makes of the VM that Incus reports.\<close>

definition migrated_vm :: "ext \<Rightarrow> inst \<Rightarrow> incus_instance \<Rightarrow> incus_instance \<Rightarrow> bool" where
  "migrated_vm x i old new \<longleftrightarrow>
     (let nics = ip_NICs (i_Properties i) in
      nics_set 0 nics (ii_Devices new) \<and> nics_below (length nics) (ii_Devices new) \<and>
      map_of (ii_Devices new) (worker_volume x (get_architecture x i)) = None \<and>
      (\<not> x_testing x \<longrightarrow> (\<forall>k v. has_prefix k ''user.migration.'' \<and> ii_Config new k = Some v \<longrightarrow> v = '''')) \<and>
      ii_Config new ''user.migration_source'' = ii_Config old ''user.migration_source'' \<and>
      ii_Config new ''volatile.uuid'' = Some (uuid_string (ip_UUID (i_Properties i))) \<and>
      ii_Profiles new = [''default''])"

lemma final_run:
  assumes "set_post_migration_config x ps c t i q e = (Inr u, e')"
  obtains defs nicDefs old devs devs' cfg e1 e2 e3 e4 e5 where
    "definitions x ps (ETarget (at_TargetType (it_Target t))) (it_Version t) = Inr defs"
    "set_get_sub defs InstanceNICs = Inr nicDefs"
    "ic_get_instance c (it_Project t) (get_name i) e = (Inr old, e1)"
    "nic_devices c t nicDefs i q 0 (ip_NICs (i_Properties i)) (without_nics (ii_Devices old)) e2 = (Inr devs, e3)"
    "final_devices x i devs = Inr devs'"
    "final_config x defs i ((ii_Config old)(''migration.stateful'' := None)) = Inr cfg"
    "ic_update_instance c (it_Project t) (get_name i)
       (old\<lparr>ii_Config := cfg, ii_Devices := devs', ii_Profiles := [''default'']\<rparr>) e4 = (Inr (), e5)"
proof -
  have nics: "ip_NICs (applied_props i) = ip_NICs (i_Properties i)" by (simp add: instance_properties_apply_def)
  show ?thesis
    using assms unfolding set_post_migration_config_def Let_def ok_simps nics
    by (elim exE conjE) (rule that; simp)
qed



end
