(* ===== verification/VMware_Data.thy ===== *)
theory VMware_Data
  imports Properties Model_Warning Incus_Config
begin

text \<open>
  The data that the VMware source (\<^verbatim>\<open>internal/source/vmware.go\<close>) gets from VMware, and its translation
  into properties: which disks can be migrated (\<^verbatim>\<open>internal/migratekit/vmware/change_id.go\<close>), the values
  under dotted keys, the guest's own account of its system, the tags. VMware's objects are the
  library's; here they are what the code reads of them, with their JSON encoding as a value.
\<close>

section \<open>Errors of the library\<close>

fun err_chain :: "(err \<Rightarrow> bool) \<Rightarrow> err \<Rightarrow> bool" and arg_chain :: "(err \<Rightarrow> bool) \<Rightarrow> arg \<Rightarrow> bool" where
  "err_chain P (Errorf f as) = (P (Errorf f as) \<or> (\<exists>a \<in> set as. arg_chain P a))"
| "err_chain P (ErrDisabled r f as) = (P (ErrDisabled r f as) \<or> (\<exists>a \<in> set as. arg_chain P a))"
| "err_chain P (Sentinel s) = P (Sentinel s)"
| "err_chain P (ErrValidation f as) = P (ErrValidation f as)"
| "err_chain P (StatusErr n f as) = P (StatusErr n f as)"
| "err_chain P (ExternalErr t) = P (ExternalErr t)"
| "arg_chain P (AWrap e) = err_chain P e"
| "arg_chain P (AStr x) = False"
| "arg_chain P (AInt i) = False"
| "arg_chain P (AUuid u) = False"
| "arg_chain P (AErr e) = False"

text \<open>\<^verbatim>\<open>context.DeadlineExceeded\<close>, and a failed type assertion (a panic).\<close>

definition deadline_exceeded :: err where
  "deadline_exceeded = ExternalErr ''context deadline exceeded''"

definition is_deadline :: "err \<Rightarrow> bool" where
  "is_deadline e \<longleftrightarrow> err_chain (\<lambda>d. d = deadline_exceeded) e"

definition type_panic :: err where
  "type_panic = ExternalErr ''interface conversion: interface {} is not of that type''"

definition nil_pointer_panic :: err where
  "nil_pointer_panic = ExternalErr ''runtime error: invalid memory address or nil pointer dereference''"

definition the_default :: "'a \<Rightarrow> 'a option \<Rightarrow> 'a" where
  "the_default d v = (case v of None \<Rightarrow> d | Some a \<Rightarrow> a)"

section \<open>Addresses as texts\<close>

text \<open>\<^verbatim>\<open>net.IP.String\<close>: dotted for IPv4, else with the first longest run of two or more zero fields left out.\<close>

definition ip_octets :: "ip \<Rightarrow> nat list" where
  "ip_octets a = map (\<lambda>i. unat (drop_bit (8 * i) a) mod 256) [3, 2, 1, 0]"

definition ip_groups :: "ip \<Rightarrow> nat list" where
  "ip_groups a = map (\<lambda>i. unat (drop_bit (16 * i) a) mod 65536) [7, 6, 5, 4, 3, 2, 1, 0]"

definition hex_digit :: "nat \<Rightarrow> char" where
  "hex_digit d = (if d < 10 then char_of (48 + d) else char_of (87 + d))"

fun show_hex :: "nat \<Rightarrow> string" where
  "show_hex n = (if n < 16 then [hex_digit n] else show_hex (n div 16) @ [hex_digit (n mod 16)])"

declare show_hex.simps [simp del]

definition zero_run :: "nat list \<Rightarrow> nat \<times> nat" where
  "zero_run gs = fold (\<lambda>i (s, n). let l = length (takeWhile (\<lambda>g. g = 0) (drop i gs))
     in if 2 \<le> l \<and> n < l then (i, l) else (s, n)) [0..<length gs] (0, 0)"

definition ip_string :: "ip \<Rightarrow> string" where
  "ip_string a =
     (if ip_is4 a then str_join ''.'' (map show_nat (ip_octets a))
      else let gs = ip_groups a; (s, n) = zero_run gs; hex = (\<lambda>l. str_join '':'' (map show_hex l))
        in if n = 0 then hex gs else hex (take s gs) @ ''::'' @ hex (drop (s + n) gs))"

section \<open>Disks\<close>

text \<open>
  A disk's backing. A file that is a snapshot has parents, the nearest first; the last one is the
  base disk.
\<close>

record backing_file =
  bf_Name :: string
  bf_Mode :: string
  bf_Sharing :: string

datatype disk_backing =
    RawDiskMappingVer1 backing_file "backing_file list"
  | RawDiskVer2 string
  | PartitionedRawDiskVer2 string
  | FlatVer2 backing_file "backing_file list"
  | FlatVer1 backing_file "backing_file list"
  | LocalPMem backing_file
  | SeSparse backing_file "backing_file list"
  | SparseVer1 backing_file "backing_file list"
  | SparseVer2 backing_file "backing_file list"
  | OtherBacking string

definition disk_mode_err :: "string \<Rightarrow> string \<Rightarrow> err option" where
  "disk_mode_err diskMode sharing =
     (if diskMode = ''independent_persistent'' \<or> diskMode = ''independent_nonpersistent''
      then Some (Errorf ''Disk does not support snapshots'' [])
      else if sharing = '''' \<or> sharing = ''sharingNone'' then None
      else Some (Errorf ''Disk has sharing enabled'' []))"

definition chain_names :: "backing_file \<Rightarrow> backing_file list \<Rightarrow> string list" where
  "chain_names f parents = map bf_Name (butlast (f # parents))"

definition raw_disk_err :: "err option" where
  "raw_disk_err = Some (Errorf ''Raw disk cannot be migrated'' [])"

text \<open>The name of the base disk, the names of the snapshots on it, and why it is not supported.\<close>

fun is_supported_disk :: "disk_backing \<Rightarrow> string \<times> string list \<times> err option" where
  "is_supported_disk (RawDiskMappingVer1 f ps) = (bf_Name (last (f # ps)), chain_names f ps, raw_disk_err)"
| "is_supported_disk (RawDiskVer2 dev) = (dev, [], raw_disk_err)"
| "is_supported_disk (PartitionedRawDiskVer2 dev) = (dev, [], raw_disk_err)"
| "is_supported_disk (FlatVer2 f ps) =
     (let t = last (f # ps) in (bf_Name t, chain_names f ps, disk_mode_err (bf_Mode t) (bf_Sharing t)))"
| "is_supported_disk (FlatVer1 f ps) =
     (let t = last (f # ps) in (bf_Name t, chain_names f ps, disk_mode_err (bf_Mode t) ''''))"
| "is_supported_disk (LocalPMem t) = (bf_Name t, [], disk_mode_err (bf_Mode t) '''')"
| "is_supported_disk (SeSparse f ps) =
     (let t = last (f # ps) in (bf_Name t, chain_names f ps, disk_mode_err (bf_Mode t) ''''))"
| "is_supported_disk (SparseVer1 f ps) =
     (let t = last (f # ps) in (bf_Name t, chain_names f ps, disk_mode_err (bf_Mode t) ''''))"
| "is_supported_disk (SparseVer2 f ps) =
     (let t = last (f # ps) in (bf_Name t, chain_names f ps, disk_mode_err (bf_Mode t) ''''))"
| "is_supported_disk (OtherBacking ty) = (''unknown'', [], Some (Errorf ''Unknown disk type %T'' [AStr ty]))"

section \<open>Virtual machines\<close>

text \<open>
  A device has a key and a JSON encoding; of disks, network cards and SCSI controllers more is read.
\<close>

datatype device_kind =
    KDisk disk_backing int "int option"   \<comment> \<open>the key of the controller, and the unit number\<close>
  | KEthernet
  | KScsi int   \<comment> \<open>the bus number\<close>
  | KOther

record device =
  dev_Key :: int
  dev_Kind :: device_kind
  dev_JSON :: "err + any_value"

record guest_net =
  gn_Network :: string
  gn_Addresses :: "string list"   \<comment> \<open>empty also where there is no IP configuration\<close>

record custom_field =
  fd_Key :: int
  fd_Name :: string
  fd_ObjectType :: string

record vm_config =
  vm_Template :: bool
  vm_ExtraConfig :: "(string \<times> any_value) list option"
  vm_Devices :: "device list"

record vm_object =
  vm_JSON :: "err + any_value"
  vm_Config :: "vm_config option"
  vm_Snapshots :: "(err + any_value) list option"
  vm_GuestNet :: "guest_net list option"
  vm_AvailableField :: "custom_field list"
  vm_ResourcePool :: "string option"
  vm_PoweredOn :: bool

text \<open>A reference to a VM: its path in the inventory (whose last element is its name), and the reference's text.\<close>

record vm_ref =
  vr_Path :: string
  vr_Ref :: string

definition vr_name :: "vm_ref \<Rightarrow> string" where
  "vr_name r = (if vr_Path r = '''' then '''' else path_base (vr_Path r))"

section \<open>Values\<close>

text \<open>Following a dotted key, and the first of several keys that leads somewhere.\<close>

definition get_map_value :: "string \<Rightarrow> any_value \<Rightarrow> err + any_value" where
  "get_map_value key v =
     (case v of
        VObj fs \<Rightarrow> (case map_of fs key of
            Some w \<Rightarrow> Inr w
          | None \<Rightarrow> Inl (Errorf ''Object does not contain key %q'' [AStr key]))
      | _ \<Rightarrow> Inl (Errorf ''No object found for the key %q'' [AStr key]))"

fun follow_keys :: "string \<Rightarrow> string list \<Rightarrow> any_value \<Rightarrow> err + any_value" where
  "follow_keys keySet [] v = Inr v"
| "follow_keys keySet (k # ks) v =
     (case get_map_value k v of
        Inl e \<Rightarrow> Inl (Errorf ''Failed to find value for key set %q: %w'' [AStr keySet, AWrap e])
      | Inr w \<Rightarrow> follow_keys keySet ks w)"

fun first_key_set :: "string \<Rightarrow> string list \<Rightarrow> any_value \<Rightarrow> err option \<Rightarrow> err + any_value" where
  "first_key_set keySets [] v lastErr =
     Inl (case lastErr of Some e \<Rightarrow> e | None \<Rightarrow> Errorf ''No object found for any of %v'' [AStr keySets])"
| "first_key_set keySets (s # ss) v lastErr =
     (case follow_keys s (str_split (CHR ''.'') s) v of
        Inr w \<Rightarrow> Inr w
      | Inl e \<Rightarrow> first_key_set keySets ss v (Some e))"

definition get_prop_from_keys :: "string \<Rightarrow> any_value \<Rightarrow> err + any_value" where
  "get_prop_from_keys keySets v = first_key_set keySets (str_split (CHR '','') keySets) v None"

text \<open>\<^verbatim>\<open>int64(f)\<close> cuts a fraction off; the product wraps around. (Floats beyond int64 do not occur.)\<close>

definition float_to_int :: "rat \<Rightarrow> int" where
  "float_to_int r = (if r < 0 then - \<lfloor>- r\<rfloor> else \<lfloor>r\<rfloor>)"

definition must_be_err :: "prop_name \<Rightarrow> any_value \<Rightarrow> string \<Rightarrow> err" where
  "must_be_err n v what = Errorf (''%q value %v must be a '' @ what) [AStr (prop_string n), AStr (any_text v)]"

definition with_text :: "prop_name \<Rightarrow> any_value \<Rightarrow> (string \<Rightarrow> err + any_value) \<Rightarrow> err + any_value" where
  "with_text n v f = (case v of VString s \<Rightarrow> f s | _ \<Rightarrow> Inl (must_be_err n v ''string''))"

definition with_number :: "prop_name \<Rightarrow> any_value \<Rightarrow> (rat \<Rightarrow> err + any_value) \<Rightarrow> err + any_value" where
  "with_number n v f = (case v of VFloat r \<Rightarrow> f r | _ \<Rightarrow> Inl (must_be_err n v ''number''))"

definition parse_value :: "ext \<Rightarrow> prop_name \<Rightarrow> any_value \<Rightarrow> err + any_value" where
  "parse_value x n v =
     (case n of
        InstanceName \<Rightarrow> with_text n v (\<lambda>s. Inr (VString (filter name_char s)))
      | InstanceLegacyBoot \<Rightarrow> with_text n v (\<lambda>s. Inr (VBool (s = ''bios'')))
      | InstanceMemory \<Rightarrow> with_number n v (\<lambda>r. Inr (VInt (wrap64 (float_to_int r * 1024 * 1024))))
      | InstanceDiskCapacity \<Rightarrow> with_number n v (\<lambda>r. Inr (VInt (float_to_int r)))
      | InstanceDiskShared \<Rightarrow> with_text n v (\<lambda>s. Inr (VBool (s = ''sharingMultiWriter'')))
      | InstanceUUID \<Rightarrow> with_text n v (\<lambda>s. case x_uuid_parse x s of
            None \<Rightarrow> Inl (ExternalErr ''invalid UUID'') | Some u \<Rightarrow> Inr (VUuid u))
      | InstanceNICSourceSpecificID \<Rightarrow> with_text n v (\<lambda>s. Inr (VString (replace_char (CHR '' '') (CHR ''_'') s)))
      | InstanceRunning \<Rightarrow> with_text n v (\<lambda>s. Inr (VBool (s = ''poweredOn'')))
      | _ \<Rightarrow> Inr v)"

text \<open>Custom attributes: the values are read back from their JSON, and named by VMware's list of fields.\<close>

definition attribute_of :: "ext \<Rightarrow> any_value \<Rightarrow> err + (int \<times> string)" where
  "attribute_of x v =
     (case v of
        VNull \<Rightarrow> Inr (0, '''')
      | VObj fs \<Rightarrow>
          bind_sum (case map_of fs ''key'' of None \<Rightarrow> Inr 0 | Some k \<Rightarrow> json_int x k) (\<lambda>k.
          bind_sum (case map_of fs ''value'' of None \<Rightarrow> Inr '''' | Some t \<Rightarrow> json_string x t) (\<lambda>t.
            if - (2 ^ 31) \<le> k \<and> k < 2 ^ 31 then Inr (k, t) else Inl json_err))
      | _ \<Rightarrow> Inl json_err)"

definition attribute_name :: "custom_field \<Rightarrow> string" where
  "attribute_name f = ''attribute.'' @ (if fd_ObjectType f = '''' then ''global'' else fd_ObjectType f) @ ''.'' @ fd_Name f"

definition parse_attribute :: "ext \<Rightarrow> custom_field list \<Rightarrow> any_value \<Rightarrow> err + (string, string) gomap" where
  "parse_attribute x fds v =
     bind_sum (case v of VNull \<Rightarrow> Inr [] | VArr vs \<Rightarrow> map_res (attribute_of x) vs | _ \<Rightarrow> Inl json_err) (\<lambda>attrs.
       Inr (fold (\<lambda>(k, t). fold (\<lambda>f m. if k = fd_Key f then gm_set (attribute_name f) t m else m) fds) attrs []))"

section \<open>What the guest says of itself\<close>

text \<open>
  The text between quotes after a key (\<open>key='...'\<close>), and for the architecture the two that must
  follow each other. Both regular expressions are searched for from left to right.
\<close>

definition quoted_after :: "string \<Rightarrow> string \<Rightarrow> (string \<times> string) option" where
  "quoted_after key s =
     (let p = key @ [CHR ''='', CHR 0x27] in
      if prefix p s then
        (let r = drop (length p) s; t = takeWhile (\<lambda>c. c \<noteq> CHR 0x27) r
         in if length t < length r then Some (t, drop (length t + 1) r) else None)
      else None)"

fun search_quoted :: "string \<Rightarrow> string \<Rightarrow> string option" where
  "search_quoted key [] = None"
| "search_quoted key (c # s) =
     (case quoted_after key (c # s) of Some (t, _) \<Rightarrow> Some t | None \<Rightarrow> search_quoted key s)"

fun search_arch :: "string \<Rightarrow> (string \<times> string) option" where
  "search_arch [] = None"
| "search_arch (c # s) =
     (case quoted_after ''architecture'' (c # s) of
        None \<Rightarrow> search_arch s
      | Some (a, r) \<Rightarrow>
          (case quoted_after '' bitness'' r of
             Some (b, _) \<Rightarrow> if b \<noteq> [] \<and> list_all is_digit b then Some (a, b) else search_arch s
           | None \<Rightarrow> search_arch s))"

text \<open>The Incus library's identifiers of architectures, by the names the code uses; \<open>arch_name\<close> is its table.\<close>

definition parse_architecture :: "(string \<Rightarrow> err + string) \<Rightarrow> string \<Rightarrow> string \<Rightarrow> err + string" where
  "parse_architecture arch_name archName archBits =
     (case map_of [((''X86'', ''64''), ''ARCH_64BIT_INTEL_X86''), ((''X86'', ''32''), ''ARCH_32BIT_INTEL_X86''),
         ((''Arm'', ''64''), ''ARCH_64BIT_ARMV8_LITTLE_ENDIAN''), ((''Arm'', ''32''), ''ARCH_32BIT_ARMV8_LITTLE_ENDIAN'')]
         (archName, archBits) of
        None \<Rightarrow> Inr ''''
      | Some arch \<Rightarrow> arch_name arch)"

text \<open>The first entry of the guest's configuration with the key; a value that is not a text is a panic.\<close>

definition extra_value :: "(string \<times> any_value) list \<Rightarrow> string \<Rightarrow> err + string option" where
  "extra_value cfg key =
     (case map_of cfg key of
        None \<Rightarrow> Inr None
      | Some (VString s) \<Rightarrow> Inr (Some s)
      | Some _ \<Rightarrow> Inl type_panic)"

definition get_vm_extra_config ::
    "ext \<Rightarrow> (string \<Rightarrow> err + string) \<Rightarrow> (string \<times> any_value) list \<Rightarrow> prop_name \<Rightarrow> property_info \<Rightarrow> raw_set \<Rightarrow> err + raw_set" where
  "get_vm_extra_config x arch_name cfg n info props =
     (case n of
        InstanceOS \<Rightarrow> bind_sum (extra_value cfg (pi_Key info)) (\<lambda>v.
          set_add x n (VString (the_default '''' (Option.bind v (search_quoted ''distroName'')))) props)
      | InstanceOSDescription \<Rightarrow> bind_sum (extra_value cfg (pi_Key info)) (\<lambda>v.
          set_add x n (VString (the_default '''' (Option.bind v (search_quoted ''prettyName'')))) props)
      | InstanceArchitecture \<Rightarrow> bind_sum (extra_value cfg (pi_Key info)) (\<lambda>v.
          let (arch, bits) = the_default ('''', '''') (Option.bind v search_arch) in
          bind_sum (parse_architecture arch_name arch bits) (\<lambda>a. set_add x n (VString a) props))
      | _ \<Rightarrow> Inr props)"

text \<open>A loop that stops at the first error.\<close>

fun fold_res :: "('a \<Rightarrow> 's \<Rightarrow> 'e + 's) \<Rightarrow> 'a list \<Rightarrow> 's \<Rightarrow> 'e + 's" where
  "fold_res f [] s = Inr s"
| "fold_res f (a # as) s = bind_sum (f a s) (fold_res f as)"

section \<open>A VM's properties\<close>

text \<open>
  The properties of one device (\<open>getDeviceProperties\<close>), from its JSON. \<open>kind\<close> is what the device is;
  a snapshot has none.
\<close>

definition disk_has_sub :: "prop_name \<Rightarrow> disk_backing \<Rightarrow> bool" where
  "disk_has_sub n b \<longleftrightarrow> n \<noteq> InstanceDiskShared \<or> (case b of FlatVer2 _ _ \<Rightarrow> True | RawDiskVer2 _ \<Rightarrow> True | _ \<Rightarrow> False)"

definition nic_has_sub :: "prop_name \<Rightarrow> bool" where
  "nic_has_sub n \<longleftrightarrow> n \<notin> set [InstanceNICLocation, InstanceNICIPv4Address, InstanceNICIPv6Address]"

definition device_has_sub :: "prop_name \<Rightarrow> device_kind option \<Rightarrow> prop_name \<Rightarrow> err + bool" where
  "device_has_sub parent kind n =
     (case parent of
        InstanceDisks \<Rightarrow> (case kind of Some (KDisk b _ _) \<Rightarrow> Inr (disk_has_sub n b)
                          | _ \<Rightarrow> Inl (Errorf ''Invalid disk type: %v'' [AStr ''...'']))
      | InstanceNICs \<Rightarrow> (case kind of Some KEthernet \<Rightarrow> Inr (nic_has_sub n)
                          | _ \<Rightarrow> Inl (Errorf ''Invalid NIC type: %v'' [AStr ''...'']))
      | _ \<Rightarrow> Inr True)"

definition add_json_property :: "ext \<Rightarrow> any_value \<Rightarrow> prop_name \<times> property_info \<Rightarrow> raw_set \<Rightarrow> err + raw_set" where
  "add_json_property x obj = (\<lambda>(n, info) s.
     bind_sum (get_prop_from_keys (pi_Key info) obj) (\<lambda>v.
     bind_sum (parse_value x n v) (\<lambda>w. set_add x n w s)))"

definition get_device_properties ::
    "ext \<Rightarrow> raw_set \<Rightarrow> prop_name \<Rightarrow> device_kind option \<Rightarrow> err + any_value \<Rightarrow> err + raw_set" where
  "get_device_properties x props parent kind json =
     bind_sum json (\<lambda>obj.
     bind_sum (set_get_sub props parent) (\<lambda>sub.
       fold_res (\<lambda>(n, info) s. bind_sum (device_has_sub parent kind n) (\<lambda>has.
           if has then add_json_property x obj (n, info) s else Inr s)) (rs_Props sub) sub))"

text \<open>
  The addresses of a NIC: of the guest's networks with the name of the NIC's network, the first
  address of each kind that is not link-local.
\<close>

definition link_local4 :: ipnet where "link_local4 = the (parse_cidr ''169.254.0.0/16'')"
definition link_local6 :: ipnet where "link_local6 = the (parse_cidr ''fe80::/10'')"

definition note_address :: "string \<Rightarrow> string \<times> string \<Rightarrow> string \<times> string" where
  "note_address a = (\<lambda>(ipv4, ipv6).
     case parse_ip a of
       None \<Rightarrow> (ipv4, ipv6)
     | Some i \<Rightarrow>
         if ip_is4 i \<and> ipv4 = '''' \<and> \<not> net_contains link_local4 i then (ip_string i, ipv6)
         else if \<not> ip_is4 i \<and> ipv6 = '''' \<and> \<not> net_contains link_local6 i then (ipv4, ip_string i)
         else (ipv4, ipv6))"

definition guest_addresses :: "string \<Rightarrow> guest_net list \<Rightarrow> string \<times> string" where
  "guest_addresses netLocation nets =
     fold (\<lambda>g. if gn_Network g \<noteq> path_base netLocation then id else fold note_address (gn_Addresses g)) nets ('''', '''')"

definition add_nic :: "ext \<Rightarrow> vm_object \<Rightarrow> (string, string) gomap \<Rightarrow> prop_name \<Rightarrow> device \<Rightarrow> raw_set \<Rightarrow> err + raw_set" where
  "add_nic x vm locs n dev props =
     bind_sum (map_sum (\<lambda>e. Errorf ''Failed to get %q properties: %w'' [AStr (prop_string n), AWrap e]) id
       (get_device_properties x props n (Some (dev_Kind dev)) (dev_JSON dev))) (\<lambda>sub.
     bind_sum (set_get_value sub InstanceNICSourceSpecificID) (\<lambda>v.
     bind_sum (case v of VString s \<Rightarrow> Inr s | _ \<Rightarrow> Inl (Errorf ''Unexpected network ID value: %v'' [AStr (any_text v)])) (\<lambda>str.
     let loc = map_of locs str in
     bind_sum (case loc of None \<Rightarrow> Inr sub | Some l \<Rightarrow> set_add x InstanceNICLocation (VString l) sub) (\<lambda>sub1.
     if the_default '''' loc = '''' then Inl (Errorf ''Unable to find network for network ID %q'' [AStr str])
     else case vm_GuestNet vm of
       None \<Rightarrow> Inl nil_pointer_panic
     | Some nets \<Rightarrow>
         let (ipv4, ipv6) = guest_addresses (the_default '''' loc) nets in
         bind_sum (if ipv4 \<noteq> '''' then set_add x InstanceNICIPv4Address (VString ipv4) sub1 else Inr sub1) (\<lambda>sub2.
         bind_sum (if ipv6 \<noteq> '''' then set_add x InstanceNICIPv6Address (VString ipv6) sub2 else Inr sub2) (\<lambda>sub3.
           map_sum (\<lambda>e. Errorf ''Failed to apply %q properties: %w'' [AStr (prop_string n), AWrap e]) id
             (set_add_device x n sub3 props)))))))"

definition add_disk :: "ext \<Rightarrow> prop_name \<Rightarrow> device \<Rightarrow> disk_backing \<Rightarrow> raw_set \<times> string list \<Rightarrow> err + raw_set \<times> string list" where
  "add_disk x n dev b = (\<lambda>(props, unsupported).
     let (diskName, _, err) = is_supported_disk b; uns = (if err = None then unsupported else diskName # unsupported) in
     bind_sum (map_sum (\<lambda>e. Errorf ''Failed to get %q properties: %w'' [AStr (prop_string n), AWrap e]) id
       (get_device_properties x props n (Some (dev_Kind dev)) (dev_JSON dev))) (\<lambda>sub.
     bind_sum (map_sum (\<lambda>e. Errorf ''Failed to set disk name property to %q: %w'' [AStr diskName, AWrap e]) id
       (set_add x InstanceDiskName (VString diskName) sub)) (\<lambda>sub1.
     map_sum (\<lambda>e. Errorf ''Failed to apply %q properties: %w'' [AStr (prop_string n), AWrap e]) (\<lambda>p. (p, uns))
       (set_add_device x n sub1 props))))"

definition add_snapshot :: "ext \<Rightarrow> prop_name \<Rightarrow> err + any_value \<Rightarrow> raw_set \<Rightarrow> err + raw_set" where
  "add_snapshot x n json props =
     bind_sum (map_sum (\<lambda>e. Errorf ''Failed to get %q properties: %w'' [AStr (prop_string n), AWrap e]) id
       (get_device_properties x props n None json)) (\<lambda>sub.
     map_sum (\<lambda>e. Errorf ''Failed to apply %q properties: %w'' [AStr (prop_string n), AWrap e]) id
       (set_add_device x n sub props))"

text \<open>One property of a VM, by its type in the schema; and all of them.\<close>

definition add_vm_property ::
    "ext \<Rightarrow> vm_object \<Rightarrow> any_value \<Rightarrow> prop_name \<Rightarrow> property_info \<Rightarrow> raw_set \<Rightarrow> err + raw_set" where
  "add_vm_property x vm obj n info props =
     (case get_prop_from_keys (pi_Key info) obj of
        Inl e \<Rightarrow> if n = InstanceDescription \<or> n = InstanceConfig then Inr props else Inl e
      | Inr v \<Rightarrow>
          bind_sum (parse_value x n v) (\<lambda>w.
          bind_sum (if n = InstanceConfig then map_sum id VStrMap (parse_attribute x (vm_AvailableField vm) w) else Inr w) (\<lambda>w'.
            set_add x n w' props)))"

definition collect_property ::
    "ext \<Rightarrow> (string \<Rightarrow> err + string) \<Rightarrow> string \<Rightarrow> vm_object \<Rightarrow> vm_config \<Rightarrow> (string, string) gomap \<Rightarrow> any_value \<Rightarrow>
      prop_name \<times> property_info \<Rightarrow> raw_set \<times> string list \<Rightarrow> err + raw_set \<times> string list" where
  "collect_property x arch_name path vm cfg locs obj = (\<lambda>(n, info) (props, uns).
     let keep = map_sum id (\<lambda>p. (p, uns)) in
     if pi_Type info = ''vm_info'' then
       (if n = InstanceLocation then keep (set_add x n (VString path) props) else Inr (props, uns))
     else if pi_Type info = ''guest_info'' then
       (case vm_ExtraConfig cfg of
          None \<Rightarrow> Inr (props, uns)
        | Some extra \<Rightarrow> keep (get_vm_extra_config x arch_name extra n info props))
     else if pi_Type info = ''property'' then keep (add_vm_property x vm obj n info props)
     else if pi_Type info = ''property_snapshot'' then
       keep (fold_res (add_snapshot x n) (case vm_Snapshots vm of None \<Rightarrow> [] | Some snaps \<Rightarrow> snaps) props)
     else if pi_Type info = ''property_ethernet'' then
       keep (fold_res (\<lambda>dev p. if dev_Kind dev = KEthernet then add_nic x vm locs n dev p else Inr p) (vm_Devices cfg) props)
     else if pi_Type info = ''property_disk'' then
       fold_res (\<lambda>dev s. case dev_Kind dev of KDisk b _ _ \<Rightarrow> add_disk x n dev b s | _ \<Rightarrow> Inr s) (vm_Devices cfg) (props, uns)
     else Inl (Errorf ''Property type %q is not supported by %s version %s''
        [AStr (pi_Type info), AStr (endpoint_text (rs_Type props)), AStr (rs_Version props)]))"

definition get_vm_properties ::
    "ext \<Rightarrow> (string \<Rightarrow> err + string) \<Rightarrow> prop_definition list \<Rightarrow> string \<Rightarrow> string \<Rightarrow> vm_object \<Rightarrow> vm_config \<Rightarrow>
      (string, string) gomap \<Rightarrow> err + instance_properties" where
  "get_vm_properties x arch_name ps version path vm cfg locs =
     bind_sum (vm_JSON vm) (\<lambda>obj.
     bind_sum (definitions x ps (ESource SOURCETYPE_VMWARE) version) (\<lambda>props.
     bind_sum (fold_res (collect_property x arch_name path vm cfg locs obj) (set_get_all props) (props, [])) (\<lambda>(props', uns).
       set_to_api x props' (\<lambda>d. d \<in> set uns))))"

end
