(* ===== verification/VMware_Source.thy ===== *)
theory VMware_Source
  imports VMware_Data
begin

text \<open>
  The VMware source (\<^verbatim>\<open>internal/source/vmware.go\<close>): import of all VMs and networks, power states,
  change tracking and its verification, over the calls to VMware's library, which are parameters:
  actions on a state of the outside world.
\<close>

section \<open>VMware\<close>

text \<open>What the library finds besides VMs: networks and the objects that describe them.\<close>

record net_ref =
  nr_Path :: string
  nr_Value :: string

datatype card_backing = PortgroupBacking string | OpaqueBacking string | OtherCardBacking

datatype vlan_spec = TrunkVlan "(int \<times> int) list" | VlanID int | OtherVlan

datatype net_object =
    StandardNetwork string
  | Portgroup string "vlan_spec option" string string string
      \<comment> \<open>key, VLAN (of a VMware switch), backing type, segment, transport zone\<close>
  | OpaqueNetwork string "(string \<times> any_value) list"   \<comment> \<open>identifier, extra configuration\<close>
  | OtherNetworkObject

record vnet_properties =
  vn_SegmentPath :: string
  vn_TransportZoneUUID :: uuid
  vn_VlanID :: int
  vn_VlanRanges :: "string list"

record 'e vsphere =
  vs_connect :: "string \<Rightarrow> string option \<Rightarrow> ('e, err, string \<times> string) act"
    \<comment> \<open>to an endpoint, trusting a certificate; the server's version and kind of API\<close>
  vs_fingerprint :: "string \<Rightarrow> string"
  vs_logout :: "('e, err, unit) act"
  vs_expired :: "('e, err, bool) act"   \<comment> \<open>the caller's context has ended\<close>
  vs_not_found :: "err \<Rightarrow> bool"
  vs_new_uuid :: "('e, err, uuid) act"
  vs_net_encode :: "vnet_properties \<Rightarrow> err + string"
  vs_arch_name :: "string \<Rightarrow> err + string"
  vs_vms :: "string \<Rightarrow> ('e, err, vm_ref list) act"
  vs_networks :: "string \<Rightarrow> ('e, err, net_ref list) act"
  vs_datastores :: "string \<Rightarrow> ('e, err, string list) act"
  vs_card_backing :: "net_ref \<Rightarrow> ('e, err, card_backing) act"
  vs_network_view :: "('e, err, unit) act"
  vs_network_objects :: "('e, err, net_object list) act"
  vs_rest_login :: "('e, err, unit) act"
  vs_categories :: "('e, err, (string \<times> string) list) act"
  vs_extensions :: "('e, err, (string \<times> (string \<times> string) list) list) act"
  vs_vm_object :: "vm_ref \<Rightarrow> ('e, err, vm_object) act"
  vs_tags :: "vm_ref \<Rightarrow> ('e, err, (string \<times> string) list) act"   \<comment> \<open>category and name\<close>
  vs_pool_name :: "string \<Rightarrow> ('e, err, string) act"
  vs_find_uuid :: "uuid \<Rightarrow> ('e, err, vm_ref option) act"   \<comment> \<open>\<open>None\<close>: something else than a VM\<close>
  vs_find_path :: "string \<Rightarrow> ('e, err, vm_ref) act"
  vs_power_state :: "vm_ref \<Rightarrow> ('e, err, string) act"
  vs_power_on :: "vm_ref \<Rightarrow> ('e, err, unit) act"
  vs_power_off :: "vm_ref \<Rightarrow> ('e, err, unit) act"
  vs_shutdown_guest :: "vm_ref \<Rightarrow> ('e, err, unit) act"
  vs_tools_unavailable :: "err \<Rightarrow> bool"
  vs_wait_off :: "vm_ref \<Rightarrow> ('e, err, unit) act"
  vs_wait :: "('e, err, unit) act"   \<comment> \<open>for the task just started\<close>
  vs_remove_snapshots :: "vm_ref \<Rightarrow> ('e, err, unit) act"
  vs_find_snapshot :: "vm_ref \<Rightarrow> string \<Rightarrow> ('e, err, string) act"
  vs_remove_snapshot :: "vm_ref \<Rightarrow> string \<Rightarrow> ('e, err, unit) act"
  vs_reconfigure :: "vm_ref \<Rightarrow> (string \<times> string) list \<Rightarrow> ('e, err, unit) act"
  vs_stat :: "string \<Rightarrow> string \<Rightarrow> ('e, err, unit) act"   \<comment> \<open>datastore, file\<close>

record vmware_source =
  vw_Source :: api_source
  vw_Properties :: vmware_properties
  vw_Timeout :: duration
  vw_Version :: string
  vw_ESXI :: bool
  vw_Connected :: bool

abbreviation vw_Name :: "vmware_source \<Rightarrow> string" where "vw_Name s \<equiv> as_Name (vw_Source s)"

section \<open>Construction and connection\<close>

text \<open>\<open>systemCAs\<close>: the certificates of the system.\<close>

definition new_vmware_source :: "ext \<Rightarrow> string list \<Rightarrow> api_source \<Rightarrow> err + vmware_source" where
  "new_vmware_source x systemCAs s =
     (if as_SourceType s \<noteq> SOURCETYPE_VMWARE then Inl (Errorf ''Source is not of type VMware'' [])
      else bind_sum (x_vmware_dec x (as_Properties s)) (\<lambda>p0.
        let p = vmware_set_defaults p0;
            p' = p\<lparr>vp_TrustedServerCACertificates := vp_TrustedServerCACertificates p @ systemCAs\<rparr>
        in Inr \<lparr>vw_Source = s, vw_Properties = p', vw_Timeout = vp_ConnectionTimeout p', vw_Version = '''',
             vw_ESXI = False, vw_Connected = False\<rparr>))"

definition new_vm_source :: "ext \<Rightarrow> string list \<Rightarrow> api_source \<Rightarrow> err + vmware_source" where
  "new_vm_source x systemCAs s =
     (case as_SourceType s of
        SOURCETYPE_VMWARE \<Rightarrow> new_vmware_source x systemCAs s
      | _ \<Rightarrow> Inl (Errorf ''Unknown source type %q'' [AStr (source_type_string (as_SourceType s))]))"

text \<open>A stored certificate is trusted only when it is the one whose fingerprint the user confirmed.\<close>

definition trusted_certificate :: "ext \<Rightarrow> 'e vsphere \<Rightarrow> vmware_properties \<Rightarrow> err + string option" where
  "trusted_certificate x c p =
     (let cert = vp_ServerCertificate p in
      if cert = '''' then Inr None
      else if \<not> x_cert_ok x cert then Inl (ExternalErr ''x509: malformed certificate'')
      else if vs_fingerprint c cert \<noteq> to_lower (filter (\<lambda>ch. ch \<noteq> CHR '':'') (vp_TrustedServerCertificateFingerprint p))
        then Inr None else Inr (Some cert))"

definition vmware_connect :: "ext \<Rightarrow> 'e vsphere \<Rightarrow> vmware_source \<Rightarrow> ('e, err, vmware_source) act" where
  "vmware_connect x c s =
     (if vw_Connected s then throw (Errorf ''Already connected to endpoint %q'' [AStr (vp_Endpoint (vw_Properties s))])
      else bindm (lift (trusted_certificate x c (vw_Properties s))) (\<lambda>cert.
        bindm (vs_connect c (vp_Endpoint (vw_Properties s)) cert) (\<lambda>(version, apiType).
          ret (s\<lparr>vw_Version := version, vw_ESXI := (apiType = ''HostAgent''), vw_Connected := True\<rparr>))))"

definition vmware_disconnect :: "'e vsphere \<Rightarrow> vmware_source \<Rightarrow> ('e, err, vmware_source) act" where
  "vmware_disconnect c s =
     (if \<not> vw_Connected s then throw (Errorf ''Not connected to endpoint %q'' [AStr (vp_Endpoint (vw_Properties s))])
      else andthen (vs_logout c) (ret (s\<lparr>vw_Connected := False\<rparr>)))"

text \<open>The first address of the NSX extension that is not virtual; of several extensions, the last one's.\<close>

definition get_nsx_manager_ip :: "'e vsphere \<Rightarrow> vmware_source \<Rightarrow> ('e, err, string) act" where
  "get_nsx_manager_ip c s =
     (if vw_ESXI s then ret ''''
      else bindm (wrap_err (\<lambda>e. Errorf ''Failed to retrieve NSX manager details: %w'' [AWrap e]) (vs_extensions c)) (\<lambda>exts.
        ret (fold (\<lambda>(key, servers) ip.
          if key = ''com.vmware.nsx.management.nsxt''
          then (case find (\<lambda>(ty, url). ty \<noteq> ''VIP'') servers of None \<Rightarrow> ip | Some (ty, url) \<Rightarrow> url) else ip) exts '''')))"

section \<open>Import of a VM\<close>

text \<open>
  The result of \<open>getVM\<close>: an instance, a type of warning, an error. Panics are thrown; they are not
  caught. Tags are sorted by category, then name.
\<close>

type_synonym vm_result = "inst option \<times> warning_type \<times> err option"

definition is_panic :: "err \<Rightarrow> bool" where
  "is_panic e \<longleftrightarrow> e = type_panic \<or> e = nil_pointer_panic"

definition ignored :: "string \<Rightarrow> string \<Rightarrow> vm_result" where
  "ignored msg path = (None, InstanceIgnored, Some (Errorf msg [AStr path]))"

definition import_failed :: "string \<Rightarrow> string \<Rightarrow> err \<Rightarrow> vm_result" where
  "import_failed msg path e = (None, InstanceImportFailed, Some (Errorf msg [AStr path, AWrap e]))"

definition sort_tags :: "source_tag list \<Rightarrow> source_tag list" where
  "sort_tags ts = sort_key t_Category (sort_key t_Tag ts)"

definition vm_instance :: "ext \<Rightarrow> vmware_source \<Rightarrow> vm_ref \<Rightarrow> instance_properties \<Rightarrow> inst" where
  "vm_instance x s vm p =
     \<lparr>i_ID = 0, i_UUID = ip_UUID p, i_Source = vw_Name s, i_SourceType = as_SourceType (vw_Source s),
      i_LastUpdateFromSource = x_now x, i_Overrides = no_override,
      i_Properties = p\<lparr>ip_SourceSpecificID := vr_Ref vm\<rparr>\<rparr>"

definition no_overrides_allowed :: restriction_override where
  "no_overrides_allowed = \<lparr>ro_AllowUnknownOS = False, ro_AllowNoIPv4 = False, ro_AllowNoBackgroundImport = False\<rparr>"

definition finish_vm :: "ext \<Rightarrow> inst \<Rightarrow> vm_result" where
  "finish_vm x i =
     (let p = i_Properties i; osVer = (if ip_OSDescription p = '''' then ip_OSTemplate p else ip_OSDescription p) in
      case (if get_os_type i False = OSTYPE_WINDOWS then x_windows_version x osVer else Inr '''') of
        Inl e \<Rightarrow> (None, InstanceImportFailed,
          Some (Errorf ''Failed to determine OS distribution version %q for Windows VM %q: %w''
            [AStr (ip_OSDescription p), AStr (ip_Location p), AWrap e]))
      | Inr _ \<Rightarrow>
          (case disabled_reason_of x i no_overrides_allowed of
             Some e \<Rightarrow> (Some i, InstanceCannotMigrate, Some (Errorf ''%q: %w'' [AStr (ip_Location p), AWrap e]))
           | None \<Rightarrow> (Some i, '''', None)))"

text \<open>The name of the resource pool goes into the config; only running out of time is an error.\<close>

definition add_pool ::
    "'e vsphere \<Rightarrow> vmware_source \<Rightarrow> vm_object \<Rightarrow> instance_properties \<Rightarrow> ('e, err, err + instance_properties) act" where
  "add_pool c s obj p =
     (case vm_ResourcePool obj of
        None \<Rightarrow> ret (Inr p)
      | Some pool \<Rightarrow> bindm (attempt (vs_pool_name c pool)) (\<lambda>r. case r of
            Inl e \<Rightarrow> ret (if is_deadline e then Inl e else Inr p)
          | Inr name \<Rightarrow>
              let key = source_type_string (as_SourceType (vw_Source s)) @ ''.resource_pool''; cf = ip_Configurable p in
              ret (Inr (p\<lparr>ip_Configurable := cf\<lparr>cfg_Config := fmupd key name (cfg_Config cf)\<rparr>\<rparr>))))"

definition get_vm ::
    "ext \<Rightarrow> prop_definition list \<Rightarrow> 'e vsphere \<Rightarrow> vmware_source \<Rightarrow> (string, string) gomap \<Rightarrow> (string, string) gomap \<Rightarrow>
      vm_ref \<Rightarrow> ('e, err, vm_result) act" where
  "get_vm x ps c s locs cats vm =
     (let path = vr_Path vm in
      if has_prefix (vr_name vm) ''vCLS-'' then ret (ignored ''Not importing vCLS tagged VM %q'' path)
      else bindm (attempt (vs_vm_object c vm)) (\<lambda>r. case r of
        Inl e \<Rightarrow> ret (import_failed ''Failed to fetch VMware properties for VM %q: %w'' path e)
      | Inr obj \<Rightarrow>
      (case vm_Config obj of
        None \<Rightarrow> ret (ignored ''Not importing VM with empty source config %q'' path)
      | Some cfg \<Rightarrow>
      if vm_Template cfg then ret (ignored ''Not importing VM tagged as a template %q'' path)
      else (case get_vm_properties x (vs_arch_name c) ps (vw_Version s) path obj cfg locs of
        Inl e \<Rightarrow> if is_panic e then throw e else ret (import_failed ''Failed to record properties for VM %q: %w'' path e)
      | Inr p \<Rightarrow>
      if ip_Description p = ''VMware vCenter Server Appliance''
      then ret (ignored ''Not importing VM tagged as vCenter appliance %q'' path)
      else if vw_ESXI s then ret (finish_vm x (vm_instance x s vm p))
      else bindm (attempt (vs_tags c vm)) (\<lambda>r. case r of
        Inl e \<Rightarrow> ret (import_failed ''Failed to import tags for VM %q: %w'' path e)
      | Inr tags \<Rightarrow>
          let ts = map (\<lambda>(cat, name). \<lparr>t_Category = gm_get '''' cats cat, t_Tag = name\<rparr>) (filter (\<lambda>(cat, name). name \<noteq> '''') tags);
              p1 = p\<lparr>ip_Tags := sort_tags (ip_Tags p @ ts)\<rparr>
          in bindm (add_pool c s obj p1) (\<lambda>r. case r of
               Inl e \<Rightarrow> ret (import_failed ''Failed to fetch resource pool names for VM %q: %w'' path e)
             | Inr p2 \<Rightarrow> ret (finish_vm x (vm_instance x s vm p2))))))))"

section \<open>Networks\<close>

definition underscores :: "string \<Rightarrow> string" where
  "underscores s = replace_char (CHR '' '') (CHR ''_'') s"

definition parse_network_id :: "'e vsphere \<Rightarrow> net_ref \<Rightarrow> ('e, err, string) act" where
  "parse_network_id c n =
     bindm (attempt (vs_card_backing c n)) (\<lambda>r. ret (underscores
       (case r of Inr (PortgroupBacking key) \<Rightarrow> key | Inr (OpaqueBacking net) \<Rightarrow> net | _ \<Rightarrow> nr_Value n)))"

fun network_locations :: "'e vsphere \<Rightarrow> net_ref list \<Rightarrow> (string, string) gomap \<Rightarrow> ('e, err, (string, string) gomap) act" where
  "network_locations c [] m = ret m"
| "network_locations c (n # ns) m =
     bindm (parse_network_id c n) (\<lambda>net. network_locations c ns (gm_set net (nr_Path n) m))"

definition no_vnet :: vnet_properties where
  "no_vnet = \<lparr>vn_SegmentPath = '''', vn_TransportZoneUUID = uuid_nil, vn_VlanID = 0, vn_VlanRanges = []\<rparr>"

text \<open>Identifier, type and properties of one network object.\<close>

definition network_object :: "ext \<Rightarrow> net_object \<Rightarrow> err + string \<times> network_type \<times> vnet_properties" where
  "network_object x obj =
     (case obj of
        StandardNetwork net \<Rightarrow> Inr (net, NETWORKTYPE_VMWARE_STANDARD, no_vnet)
      | Portgroup key vlan backing segment zone \<Rightarrow>
          (let p = (case vlan of
                Some (TrunkVlan rs) \<Rightarrow> no_vnet\<lparr>vn_VlanRanges := map (\<lambda>(a, b). show_int a @ ''-'' @ show_int b) rs\<rparr>
              | Some (VlanID v) \<Rightarrow> no_vnet\<lparr>vn_VlanID := v\<rparr>
              | _ \<Rightarrow> no_vnet)
           in if backing = ''nsx'' then
                (case x_uuid_parse x zone of
                   None \<Rightarrow> Inl (ExternalErr ''invalid UUID'')
                 | Some u \<Rightarrow> Inr (key, NETWORKTYPE_VMWARE_DISTRIBUTED_NSX, p\<lparr>vn_SegmentPath := segment, vn_TransportZoneUUID := u\<rparr>))
              else Inr (key, NETWORKTYPE_VMWARE_DISTRIBUTED, p))
      | OpaqueNetwork net cfg \<Rightarrow>
          (case map_of cfg ''com.vmware.opaquenetwork.segment.path'' of
             None \<Rightarrow> Inr (net, NETWORKTYPE_VMWARE_NSX, no_vnet)
           | Some (VString p) \<Rightarrow> Inr (net, NETWORKTYPE_VMWARE_NSX, no_vnet\<lparr>vn_SegmentPath := p\<rparr>)
           | Some v \<Rightarrow> Inl (Errorf ''Unknown network %q value for segment path: %T'' [AStr net, AStr (any_text v)]))
      | OtherNetworkObject \<Rightarrow> Inr ('''', NETWORKTYPE_OTHER '''', no_vnet))"

definition network_in_use ::
    "ext \<Rightarrow> 'e vsphere \<Rightarrow> vmware_source \<Rightarrow> (string, string) gomap \<Rightarrow> net_object \<Rightarrow> networks \<Rightarrow> err + networks" where
  "network_in_use x c s locs obj ns =
     bind_sum (network_object x obj) (\<lambda>(net, ty, p).
       let k = underscores net in
       if gm_get '''' locs k = '''' then Inr ns
       else bind_sum (vs_net_encode c p) (\<lambda>b.
         Inr (ns @ [\<lparr>n_ID = 0, n_UUID = uuid_nil, n_Type = ty, n_SourceSpecificID = k, n_Location = gm_get '''' locs k,
           n_Source = vw_Name s, n_Properties = Some b, n_Overrides = network_placement_empty\<rparr>])))"

definition get_all_networks ::
    "ext \<Rightarrow> 'e vsphere \<Rightarrow> vmware_source \<Rightarrow> (string, string) gomap \<Rightarrow> ('e, err, networks) act" where
  "get_all_networks x c s locs =
     (if locs = [] then ret []
      else andthen (wrap_err (\<lambda>e. Errorf ''Failed to create container view for %s: %w'' [AStr (vw_Name s), AWrap e]) (vs_network_view c))
       (bindm (wrap_err (\<lambda>e. Errorf ''Failed to retrieve networks from %q: %w'' [AStr (vw_Name s), AWrap e]) (vs_network_objects c)) (\<lambda>objs.
         lift (fold_res (network_in_use x c s locs) objs []))))"

section \<open>Import of all VMs\<close>

text \<open>What is not found under a path is empty.\<close>

definition if_any :: "'e vsphere \<Rightarrow> ('e, err, 'a list) act \<Rightarrow> ('e, err, 'a list) act" where
  "if_any c a = bindm (attempt a) (\<lambda>r. case r of
     Inr xs \<Rightarrow> ret xs
   | Inl e \<Rightarrow> if vs_not_found c e then ret [] else throw e)"

fun list_paths :: "'e vsphere \<Rightarrow> string list \<Rightarrow> ('e, err, vm_ref list \<times> net_ref list \<times> string list) act" where
  "list_paths c [] = ret ([], [], [])"
| "list_paths c (p # ps) =
     bindm (if_any c (vs_vms c p)) (\<lambda>vms.
     bindm (if_any c (vs_networks c p)) (\<lambda>nets.
     bindm (if_any c (vs_datastores c p)) (\<lambda>stores.
     bindm (list_paths c ps) (\<lambda>(vms', nets', stores'). ret (vms @ vms', nets @ nets', stores @ stores')))))"

definition import_error :: "ext \<Rightarrow> 'e vsphere \<Rightarrow> vmware_source \<Rightarrow> err \<Rightarrow> ('e, err, err) act" where
  "import_error x c s e =
     (if \<not> is_deadline e then ret e
      else bindm (vs_expired c) (\<lambda>expired. ret
        (if expired then Errorf ''Source connection timeout (%s) exceeded: %w'' [AStr (x_dur_text x (vw_Timeout s)), AWrap e]
         else Errorf ''Import timeout (%s) exceeded: %w'' [AStr (x_dur_text x (vp_SyncTimeout (vw_Properties s))), AWrap e])))"

text \<open>
  The VMs are imported concurrently, at most \<open>SyncLimit\<close> at a time, each adding its result under a
  lock. The model takes them one after the other, in the order of the list; an error without a type
  of warning does not stop the others and is returned at the end.
\<close>

fun import_vms ::
    "ext \<Rightarrow> prop_definition list \<Rightarrow> 'e vsphere \<Rightarrow> vmware_source \<Rightarrow> (string, string) gomap \<Rightarrow> (string, string) gomap \<Rightarrow>
      vm_ref list \<Rightarrow> instances \<times> warnings \<times> err option \<Rightarrow> ('e, err, instances \<times> warnings \<times> err option) act" where
  "import_vms x ps c s locs cats [] acc = ret acc"
| "import_vms x ps c s locs cats (vm # vms) (insts, ws, failed) =
     bindm (get_vm x ps c s locs cats vm) (\<lambda>(inst, ty, err).
     case err of
       None \<Rightarrow> import_vms x ps c s locs cats vms (insts @ (case inst of None \<Rightarrow> [] | Some i \<Rightarrow> [i]), ws, failed)
     | Some e \<Rightarrow> bindm (import_error x c s e) (\<lambda>e'.
         if ty = '''' then import_vms x ps c s locs cats vms (insts, ws, if failed = None then Some e' else failed)
         else bindm (vs_new_uuid c) (\<lambda>u.
           import_vms x ps c s locs cats vms
             (insts @ (case inst of None \<Rightarrow> [] | Some i \<Rightarrow> [i]),
              ws @ [new_sync_warning u ty (vw_Name s) (err_text e')], failed))))"

definition vcenter_categories :: "'e vsphere \<Rightarrow> vmware_source \<Rightarrow> ('e, err, (string, string) gomap) act" where
  "vcenter_categories c s =
     (if vw_ESXI s then ret []
      else andthen (wrap_err (\<lambda>e. Errorf ''Failed to login to REST API: %w'' [AWrap e]) (vs_rest_login c))
        (bindm (wrap_err (\<lambda>e. Errorf ''No tag categories found: %w'' [AWrap e]) (vs_categories c)) (\<lambda>cats.
          ret (fold (\<lambda>(k, n). gm_set k n) cats []))))"

definition source_paths :: "vmware_source \<Rightarrow> string list" where
  "source_paths s = (let ds = vp_Datacenters (vw_Properties s) in if ds = [] then [''/...''] else ds)"

definition get_all_vms ::
    "ext \<Rightarrow> prop_definition list \<Rightarrow> 'e vsphere \<Rightarrow> vmware_source \<Rightarrow> string list \<Rightarrow>
      ('e, err, instances \<times> networks \<times> warnings) act" where
  "get_all_vms x ps c s only =
     bindm (list_paths c (source_paths s)) (\<lambda>(vms, nets, stores).
     if vms = [] \<or> stores = [] \<or> nets = [] then ret ([], [], [])
     else bindm (network_locations c nets []) (\<lambda>locs.
       bindm (wrap_err (\<lambda>e. Errorf ''Failed to get all network data: %w'' [AWrap e]) (get_all_networks x c s locs)) (\<lambda>networks.
       bindm (vcenter_categories c s) (\<lambda>cats.
       bindm (import_vms x ps c s locs cats (filter (\<lambda>vm. only = [] \<or> vr_Ref vm \<in> set only) vms) ([], [], None))
         (\<lambda>(insts, ws, failed).
           case failed of Some e \<Rightarrow> throw e | None \<Rightarrow> ret (insts, networks, ws))))))"

section \<open>Power\<close>

text \<open>
  Another request may change the state in between, so after a failure the state is asked for again.
\<close>

definition or_state :: "'e vsphere \<Rightarrow> vm_ref \<Rightarrow> string \<Rightarrow> err \<Rightarrow> ('e, err, unit) act" where
  "or_state c vm st e = bindm (attempt (vs_power_state c vm)) (\<lambda>r.
     case r of Inr now \<Rightarrow> if now = st then ret () else throw e | Inl _ \<Rightarrow> throw e)"

definition try_power_on :: "'e vsphere \<Rightarrow> vm_ref \<Rightarrow> ('e, err, unit) act" where
  "try_power_on c vm =
     andthen (wrap_err (\<lambda>e. Errorf ''Failed to power on VM: %w'' [AWrap e]) (vs_power_on c vm))
       (wrap_err (\<lambda>e. Errorf ''Failed to wait for power-n task: %w'' [AWrap e]) (vs_wait c))"

definition vm_power_on :: "'e vsphere \<Rightarrow> vm_ref \<Rightarrow> ('e, err, unit) act" where
  "vm_power_on c vm = bindm (vs_power_state c vm) (\<lambda>st.
     if st = ''poweredOn'' then ret ()
     else bindm (attempt (try_power_on c vm)) (\<lambda>r. case r of Inr _ \<Rightarrow> ret () | Inl e \<Rightarrow> or_state c vm ''poweredOn'' e))"

definition try_shutdown :: "'e vsphere \<Rightarrow> vm_ref \<Rightarrow> ('e, err, unit) act" where
  "try_shutdown c vm =
     andthen (bindm (attempt (vs_shutdown_guest c vm)) (\<lambda>r. case r of
          Inr _ \<Rightarrow> ret ()
        | Inl e \<Rightarrow>
            if \<not> vs_tools_unavailable c e then throw (Errorf ''Failed to shutdown guest: %w'' [AWrap e])
            else andthen (wrap_err (\<lambda>e. Errorf ''Failed to power off VM: %w'' [AWrap e]) (vs_power_off c vm))
              (wrap_err (\<lambda>e. Errorf ''Failed to wait for power-off task: %w'' [AWrap e]) (vs_wait c))))
       (wrap_err (\<lambda>e. Errorf ''Failed to wait for VM to confirm off state: %w'' [AWrap e]) (vs_wait_off c vm))"

definition already_off_text :: string where
  "already_off_text = ''The attempted operation cannot be performed in the current state (Powered off)''"

definition vm_power_off :: "'e vsphere \<Rightarrow> vm_ref \<Rightarrow> ('e, err, unit) act" where
  "vm_power_off c vm = bindm (vs_power_state c vm) (\<lambda>st.
     if st = ''poweredOff'' then ret ()
     else bindm (attempt (try_shutdown c vm)) (\<lambda>r. case r of
         Inr _ \<Rightarrow> ret ()
       | Inl e \<Rightarrow> if suffix already_off_text (err_text e) then ret () else or_state c vm ''poweredOff'' e))"

definition source_power_on :: "'e vsphere \<Rightarrow> string \<Rightarrow> ('e, err, unit) act" where
  "source_power_on c location = bindm (vs_find_path c location) (vm_power_on c)"

definition source_power_off :: "'e vsphere \<Rightarrow> string \<Rightarrow> ('e, err, unit) act" where
  "source_power_off c location = bindm (vs_find_path c location) (vm_power_off c)"

definition source_is_running :: "'e vsphere \<Rightarrow> string \<Rightarrow> ('e, err, bool) act" where
  "source_is_running c location =
     bindm (vs_find_path c location) (\<lambda>vm. bindm (vs_power_state c vm) (\<lambda>st. ret (st = ''poweredOn'')))"

text \<open>A snapshot that is not found, whatever the reason, is taken for deleted.\<close>

definition delete_vm_snapshot :: "'e vsphere \<Rightarrow> string \<Rightarrow> string \<Rightarrow> ('e, err, unit) act" where
  "delete_vm_snapshot c location name =
     bindm (vs_find_path c location) (\<lambda>vm.
     bindm (attempt (vs_find_snapshot c vm name)) (\<lambda>r.
       case r of Inl _ \<Rightarrow> ret () | Inr snap \<Rightarrow> vs_remove_snapshot c vm snap))"

section \<open>Change tracking\<close>

text \<open>
  The keys that turn change tracking on, one for every supported disk on a SCSI controller: the bus
  number of its controller and its unit number.
\<close>

definition scsi_bus :: "device list \<Rightarrow> int \<Rightarrow> int option" where
  "scsi_bus devs key = map_option (\<lambda>d. case dev_Kind d of KScsi b \<Rightarrow> b)
     (find (\<lambda>d. dev_Key d = key \<and> (case dev_Kind d of KScsi _ \<Rightarrow> True | _ \<Rightarrow> False)) devs)"

definition controller_key :: "device list \<Rightarrow> device \<Rightarrow> string option" where
  "controller_key devs dev =
     (case dev_Kind dev of
        KDisk b key unit \<Rightarrow>
          (if snd (snd (is_supported_disk b)) \<noteq> None then None
           else (case (unit, scsi_bus devs key) of
                   (Some y, Some bus) \<Rightarrow> Some (''scsi'' @ show_int bus @ '':'' @ show_int y @ ''.ctkEnabled'')
                 | _ \<Rightarrow> None))
      | _ \<Rightarrow> None)"

definition controller_keys :: "device list \<Rightarrow> string list" where
  "controller_keys devs = List.map_filter (controller_key devs) devs"

definition not_a_vm :: "uuid \<Rightarrow> err" where
  "not_a_vm u = Errorf ''Object with UUID %q is not a virtual machine'' [AUuid u]"

definition enable_tracking ::
    "'e vsphere \<Rightarrow> uuid \<Rightarrow> vm_ref \<Rightarrow> vm_object \<Rightarrow> vm_config \<Rightarrow> ('e, err, unit) act" where
  "enable_tracking c u vm obj cfg =
     (let keys = controller_keys (vm_Devices cfg);
          off = map (\<lambda>(k, _). (k, ''FALSE''))
            (filter (\<lambda>(k, _). suffix ''ctkEnabled'' k) (case vm_ExtraConfig cfg of None \<Rightarrow> [] | Some es \<Rightarrow> es))
      in if keys = [] then ret ()
         else andthen (wrap_err (\<lambda>e. Errorf ''Failed to remove all existing snapshots for VM %q: %w'' [AUuid u, AWrap e])
                (vs_remove_snapshots c vm))
           (andthen (wrap_err (\<lambda>e. Errorf ''Failed to wait for snapshot removal task for VM %q: %w'' [AUuid u, AWrap e]) (vs_wait c))
           (andthen (if off = [] then ret () else andthen (vs_reconfigure c vm off) (vs_wait c))
           (andthen (vs_reconfigure c vm (map (\<lambda>k. (k, ''TRUE'')) (keys @ [''ctkEnabled''])))
           (andthen (vs_wait c)
             (if vm_PoweredOn obj then vm_power_on c vm else ret ()))))))"

definition enable_background_import :: "'e vsphere \<Rightarrow> uuid \<Rightarrow> ('e, err, unit) act" where
  "enable_background_import c u =
     bindm (vs_find_uuid c u) (\<lambda>r. case r of
       None \<Rightarrow> throw (not_a_vm u)
     | Some vm \<Rightarrow>
         bindm (wrap_err (\<lambda>e. Errorf ''Failed to fetch VMware properties for VM %q: %w'' [AUuid u, AWrap e]) (vs_vm_object c vm)) (\<lambda>obj.
         case vm_Config obj of
           None \<Rightarrow> ret ()
         | Some cfg \<Rightarrow>
             if vm_Template cfg then ret ()
             else andthen (wrap_err (\<lambda>e. Errorf ''Failed to power off VM %q: %w'' [AUuid u, AWrap e]) (vm_power_off c vm))
               (enable_tracking c u vm obj cfg)))"

section \<open>Verification of change tracking\<close>

text \<open>The supported disks that are not verified yet, of the instances that claim background import.\<close>

definition candidate_disks :: "inst \<Rightarrow> string list" where
  "candidate_disks i =
     (if ip_BackgroundImport (i_Properties i)
      then map d_Name (filter (\<lambda>d. d_Supported d \<and> \<not> d_BackgroundImportVerified d) (ip_Disks (i_Properties i)))
      else [])"

definition candidate_insts :: "instances \<Rightarrow> (uuid, string list) gomap" where
  "candidate_insts is = fold (\<lambda>i m. if candidate_disks i = [] then m else gm_set (i_UUID i) (candidate_disks i) m) is []"

text \<open>The datastore a disk's name starts with, and the rest of the name (\<open>[store] path\<close>).\<close>

fun disk_location :: "string list \<Rightarrow> string \<Rightarrow> string option \<times> string" where
  "disk_location [] disk = (None, '''')"
| "disk_location (s # ss) disk =
     (let p = ''['' @ path_base s @ ''] ''
      in if prefix p disk then (Some s, drop (length p) disk) else disk_location ss disk)"

definition cut_suffix :: "string \<Rightarrow> string \<Rightarrow> string option" where
  "cut_suffix suf s = (if suffix suf s then Some (take (length s - length suf) s) else None)"

text \<open>
  The loop over the disks: the disks with the verified ones marked, whether background import is
  switched off, and whether anything changed. A disk without its tracking file ends the loop.
\<close>

fun verify_disks :: "'e vsphere \<Rightarrow> string list \<Rightarrow> string list \<Rightarrow> disk list \<Rightarrow> ('e, err, disk list \<times> bool \<times> bool) act" where
  "verify_disks c stores cand [] = ret ([], False, False)"
| "verify_disks c stores cand (d # ds) =
     (let keep = bindm (verify_disks c stores cand ds) (\<lambda>(ds', off, upd). ret (d # ds', off, upd)) in
      if d_Name d \<notin> set cand then keep
      else let (store, path) = disk_location stores (d_Name d) in
        case cut_suffix ''.vmdk'' path of
          None \<Rightarrow> keep
        | Some p \<Rightarrow>
            (case store of
               None \<Rightarrow> ret (d # ds, False, False)
             | Some st \<Rightarrow> bindm (attempt (vs_stat c st (p @ ''-ctk.vmdk''))) (\<lambda>r.
                 case r of
                   Inl e \<Rightarrow> if is_deadline e then ret (d # ds, False, False) else ret (d # ds, True, True)
                 | Inr _ \<Rightarrow> bindm (verify_disks c stores cand ds) (\<lambda>(ds', off, upd).
                     ret (d\<lparr>d_BackgroundImportVerified := True\<rparr> # ds', off, True)))))"

definition verify_inst :: "'e vsphere \<Rightarrow> string list \<Rightarrow> string list \<Rightarrow> inst \<Rightarrow> ('e, err, inst option) act" where
  "verify_inst c stores cand i =
     bindm (verify_disks c stores cand (ip_Disks (i_Properties i))) (\<lambda>(ds, off, upd).
       ret (if upd then Some (i\<lparr>i_Properties := (i_Properties i)\<lparr>ip_Disks := ds,
              ip_BackgroundImport := ip_BackgroundImport (i_Properties i) \<and> \<not> off\<rparr>\<rparr>) else None))"

fun verify_insts :: "'e vsphere \<Rightarrow> string list \<Rightarrow> (uuid, string list) gomap \<Rightarrow> instances \<Rightarrow> ('e, err, instances) act" where
  "verify_insts c stores cands [] = ret []"
| "verify_insts c stores cands (i # is) =
     (case map_of cands (i_UUID i) of
        None \<Rightarrow> verify_insts c stores cands is
      | Some cand \<Rightarrow>
          bindm (verify_inst c stores cand i) (\<lambda>r.
          bindm (verify_insts c stores cands is) (\<lambda>is'. ret (case r of None \<Rightarrow> is' | Some j \<Rightarrow> j # is'))))"

fun all_datastores :: "'e vsphere \<Rightarrow> string list \<Rightarrow> ('e, err, string list) act" where
  "all_datastores c [] = ret []"
| "all_datastores c (p # ps) =
     bindm (if_any c (vs_datastores c p)) (\<lambda>ss. bindm (all_datastores c ps) (\<lambda>ss'. ret (ss @ ss')))"

definition verify_background_import :: "'e vsphere \<Rightarrow> vmware_source \<Rightarrow> instances \<Rightarrow> ('e, err, instances) act" where
  "verify_background_import c s is =
     (let cands = candidate_insts is in
      if cands = [] then ret []
      else bindm (all_datastores c (source_paths s)) (\<lambda>stores. verify_insts c stores cands is))"

end
