(* ===== verification/Tasks.thy ===== *)
theory Tasks
  imports Batch_Properties Catalog_Service Artifact_Service Handler Incus_Target VMware_Source
begin

text \<open>
  The periodic tasks of the daemon (\<^verbatim>\<open>cmd/migration-managerd/internal/api/workers.go\<close>), part one:
  their state and surroundings, the check of blocked entries, and the creation of a VM on a
  target. A task works on the daemon's state and on the world outside at once.
\<close>

section \<open>State and surroundings\<close>

text \<open>
  What the tasks use besides the services: the connections to targets and sources, the worker's
  images on the daemon's disk, the server's certificate.
\<close>

record 'e task_env =
  te_schema :: "prop_definition list"
  te_cas :: "string list"
  te_incus :: "api_target \<Rightarrow> 'e incus_client"
  te_vsphere :: "api_source \<Rightarrow> 'e vsphere"
  te_image_exists :: "string \<Rightarrow> ('e, err, unit) act"
  te_load_image :: "string \<Rightarrow> ('e, err, string) act"
  te_import_backup :: "incus_target \<Rightarrow> string \<Rightarrow> string \<Rightarrow> string \<Rightarrow> string \<Rightarrow> ('e, err, unit) act"
    \<comment> \<open>pool, file, architecture, volume\<close>
  te_files :: "uuid \<Rightarrow> err + string list"
  te_cert :: "err + string"
  te_endpoint :: string

type_synonym ('e, 'a) task = "(world \<times> 'e, err, 'a) act"

text \<open>
  A step in the daemon, a step outside, and a transaction, which undoes the writes to the database
  but nothing outside.
\<close>

definition inw :: "'a wm \<Rightarrow> ('e, 'a) task" where
  "inw m = (\<lambda>(w, e). case m w of (r, w') \<Rightarrow> (r, (w', e)))"

definition ine :: "('e, err, 'a) act \<Rightarrow> ('e, 'a) task" where
  "ine m = (\<lambda>(w, e). case m e of (r, e') \<Rightarrow> (r, (w, e')))"

definition tx_task :: "('e, 'a) task \<Rightarrow> ('e, 'a) task" where
  "tx_task f = (\<lambda>(w, e).
     if w_intx w then f (w, e)
     else (case f (w\<lparr>w_intx := True\<rparr>, e) of
         (Inl er, (w', e')) \<Rightarrow> (Inl er, (w'\<lparr>w_db := w_db w, w_intx := False\<rparr>, e'))
       | (Inr a, (w', e')) \<Rightarrow> (Inr a, (w'\<lparr>w_intx := False\<rparr>, e'))))"

lemma inw_run [run_simps]: "inw m (w, e) = (case m w of (r, w') \<Rightarrow> (r, (w', e)))"
  by (simp add: inw_def)

lemma ine_run [run_simps]: "ine m (w, e) = (case m e of (r, e') \<Rightarrow> (r, (w, e')))"
  by (simp add: ine_def)

text \<open>\<open>log.Error\<close> and go on: the error of a step is dropped.\<close>

definition ignore_err :: "('s, err, 'a) act \<Rightarrow> ('s, err, unit) act" where
  "ignore_err m = bindm (attempt m) (\<lambda>_. ret ())"

text \<open>
  The reverter (\<^verbatim>\<open>revert.New\<close>, \<open>defer Fail\<close>): on an error the clean-up runs with that error, and the
  error is returned; on success it does not run.
\<close>

definition reverting :: "('s, err, 'a) act \<Rightarrow> (err \<Rightarrow> ('s, err, unit) act) \<Rightarrow> ('s, err, 'a) act" where
  "reverting m undo = bindm (attempt m) (\<lambda>r. case r of
     Inr a \<Rightarrow> ret a
   | Inl e \<Rightarrow> andthen (ignore_err (undo e)) (throw e))"

text \<open>A connection to a target in a project, and to a source.\<close>

definition connected_target :: "'e task_env \<Rightarrow> incus_target \<Rightarrow> ('e, incus_target) task" where
  "connected_target en it = ine (target_connect (te_incus en (it_Target it)) it)"

definition connected_source :: "ext \<Rightarrow> 'e task_env \<Rightarrow> vmware_source \<Rightarrow> ('e, vmware_source) task" where
  "connected_source x en s = ine (vmware_connect x (te_vsphere en (vw_Source s)) s)"

section \<open>Blocked entries\<close>

definition reason_text :: "string \<Rightarrow> err \<Rightarrow> string" where
  "reason_text reason e = sprintf ''%s: %v'' [reason, err_text e]"

text \<open>
  The reasons that block entries. A missing artifact hides a missing image.
\<close>

fun blocked_reasons ::
    "ext \<Rightarrow> 'e task_env \<Rightarrow> artifacts \<Rightarrow> inst list \<Rightarrow> (uuid, string) gomap \<Rightarrow> ('e, (uuid, string) gomap) task" where
  "blocked_reasons x en arts [] m = ret m"
| "blocked_reasons x en arts (i # is) m =
     (case has_required_artifacts x arts i of
        Some e \<Rightarrow> blocked_reasons x en arts is (gm_set (i_UUID i) (reason_text ''Artifact error'' e) m)
      | None \<Rightarrow> bindm (attempt (ine (te_image_exists en (get_architecture x i)))) (\<lambda>r. case r of
            Inl e \<Rightarrow> blocked_reasons x en arts is (gm_set (i_UUID i) (reason_text ''Filesystem error'' e) m)
          | Inr _ \<Rightarrow> blocked_reasons x en arts is m))"

text \<open>
  The instances that a source has verified are stored. All of an instance's disks are named as
  verified, not only those that are.
\<close>

fun store_verified :: "instances \<Rightarrow> string \<Rightarrow> batch_migration_state \<Rightarrow> batch_migration_state wm" where
  "store_verified [] batch st = ret st"
| "store_verified (i # is) batch st =
     bindm (wrap_err (\<lambda>e. Errorf ''Failed to update instance %q background import support: %w''
              [AStr (ip_Location (i_Properties i)), AWrap e])
       (instance_set_background_import_verified (i_UUID i) (ip_BackgroundImport (i_Properties i))
         (map d_Name (ip_Disks (i_Properties i))))) (\<lambda>i'.
       store_verified is batch
         (case map_of st batch of
            None \<Rightarrow> st
          | Some s \<Rightarrow> gm_set batch (s\<lparr>ms_Instances := gm_set (i_UUID i) i' (ms_Instances s)\<rparr>) st))"

definition batch_state_of :: "batch_migration_state \<Rightarrow> queue_entry \<Rightarrow> migration_state option" where
  "batch_state_of st q = map_of st (q_BatchName q)"

definition entry_instance :: "batch_migration_state \<Rightarrow> queue_entry \<Rightarrow> inst" where
  "entry_instance st q = (case batch_state_of st q of None \<Rightarrow> empty_instance | Some s \<Rightarrow> state_instance s (q_InstanceUUID q))"

definition verify_source ::
    "ext \<Rightarrow> 'e task_env \<Rightarrow> (uuid, queue_entry) gomap \<Rightarrow> string \<times> instances \<Rightarrow> batch_migration_state \<Rightarrow>
      ('e, batch_migration_state) task" where
  "verify_source x en entries = (\<lambda>(srcName, is) st.
     let q = gm_get zero_entry entries (i_UUID (hd is)) in
     case Option.bind (batch_state_of st q) (\<lambda>s. map_of (ms_Sources s) (q_InstanceUUID q)) of
       None \<Rightarrow> ret st
     | Some src \<Rightarrow>
         if \<not> (\<exists>i \<in> set is. needs_background_import_verification i) then ret st
         else bindm (wrap_err (\<lambda>e. Errorf ''Failed to parse %q source %q: %w''
                [AStr (source_type_string (src_SourceType src)), AStr (src_Name src), AWrap e])
              (lift (new_vm_source x (te_cas en) (source_to_api src)))) (\<lambda>s.
           bindm (wrap_err (\<lambda>e. Errorf ''Failed to connect to %q source %q: %w''
                [AStr (source_type_string (src_SourceType src)), AStr (src_Name src), AWrap e]) (connected_source x en s)) (\<lambda>s'.
           bindm (wrap_err (\<lambda>e. Errorf ''Failed to verify VM background import support for source %q: %w'' [AStr srcName, AWrap e])
             (ine (verify_background_import (te_vsphere en (vw_Source s')) s' is))) (\<lambda>verified.
           inw (store_verified verified (q_BatchName q) st)))))"

fun verify_sources ::
    "ext \<Rightarrow> 'e task_env \<Rightarrow> (uuid, queue_entry) gomap \<Rightarrow> (string \<times> instances) list \<Rightarrow> batch_migration_state \<Rightarrow>
      ('e, batch_migration_state) task" where
  "verify_sources x en entries [] st = ret st"
| "verify_sources x en entries (g # gs) st =
     bindm (verify_source x en entries g st) (\<lambda>st'. verify_sources x en entries gs st')"

definition by_source :: "inst list \<Rightarrow> (string, instances) gomap" where
  "by_source is = fold (\<lambda>i m. gm_set (i_Source i) (gm_get [] m (i_Source i) @ [i]) m) is []"

text \<open>One entry: blocked with its reason, or unblocked when nothing speaks against it any more.\<close>

definition reassess_entry ::
    "ext \<Rightarrow> (uuid, string) gomap \<Rightarrow> batch_migration_state \<Rightarrow> queue_entry \<Rightarrow> unit wm" where
  "reassess_entry x blocked st q =
     (let u = q_InstanceUUID q; i = entry_instance st q; reason = gm_get '''' blocked u;
          set_status = (\<lambda>v status msg. andthen (queue_update_status v status msg (q_ImportStage q) (get_window_name q)) (ret ()));
          restrictions = (case batch_state_of st q of None \<Rightarrow> no_overrides_allowed | Some s \<Rightarrow> bc_RestrictionOverrides (b_Config (ms_Batch s)))
      in if reason \<noteq> '''' then
           (if q_MigrationStatusMessage q = reason then ret ()
            else wrap_err (\<lambda>e. Errorf ''Failed to unblock queue entry %q: %w'' [AUuid u, AWrap e])
              (set_status u MIGRATIONSTATUS_BLOCKED reason))
         else (case disabled_reason_of x i restrictions of
             Some e \<Rightarrow>
               if err_text e = q_MigrationStatusMessage q then ret ()
               else wrap_err (\<lambda>e'. Errorf ''Failed to update queue entry block message for %q: %w''
                        [AStr (ip_Location (i_Properties i)), AWrap e'])
                 (set_status (i_UUID i) MIGRATIONSTATUS_BLOCKED (err_text e))
           | None \<Rightarrow>
               if q_MigrationStatus q = MIGRATIONSTATUS_BLOCKED
               then wrap_err (\<lambda>e. Errorf ''Failed to unblock queue entry for %q: %w'' [AStr (ip_Location (i_Properties i)), AWrap e])
                 (set_status (i_UUID i) MIGRATIONSTATUS_WAITING ''Instance has been unblocked'')
               else ret ()))"

definition reassess_blocked_instances :: "ext \<Rightarrow> 'e task_env \<Rightarrow> ('e, unit) task" where
  "reassess_blocked_instances x en =
     bindm (wrap_err (\<lambda>e. Errorf ''Failed to fetch blocked and waiting migration state: %w'' [AWrap e])
       (inw (get_migration_state BATCHSTATUS_RUNNING [MIGRATIONSTATUS_BLOCKED, MIGRATIONSTATUS_WAITING]))) (\<lambda>st.
     let entries = bms_queue st; qs = map snd entries; is = map (entry_instance st) qs in
     if entries = [] then ret ()
     else bindm (wrap_err (\<lambda>e. Errorf ''Failed to fetch artifact records: %w'' [AWrap e])
            (inw (artifact_get_all (te_files en)))) (\<lambda>arts.
       bindm (blocked_reasons x en arts is []) (\<lambda>blocked.
       bindm (verify_sources x en entries (by_source is) st) (\<lambda>st'.
         inw (for_each qs (reassess_entry x blocked st'))))))"

section \<open>Creation of a target VM\<close>

text \<open>
  The way from a target's record to a connection in a project. \<open>msgs\<close> wraps the errors of the three
  steps.
\<close>

definition open_target ::
    "ext \<Rightarrow> 'e task_env \<Rightarrow> target \<Rightarrow> string \<Rightarrow> (err \<Rightarrow> err) \<Rightarrow> (err \<Rightarrow> err) \<Rightarrow> (err \<Rightarrow> err) \<Rightarrow> ('e, incus_target) task" where
  "open_target x en t project badTarget badConnect badProject =
     bindm (wrap_err badTarget (lift (new_target x (target_to_api t)))) (\<lambda>it.
     bindm (wrap_err badConnect (connected_target en it)) (\<lambda>it'.
       wrap_err badProject (lift (target_set_project project it'))))"

text \<open>
  What happens when the creation fails: with retries the entry waits for another attempt, otherwise
  it is an error. The VM that was created is removed first (with a connection of its own), if it
  may be tried again.
\<close>

definition creation_failed :: "queue_entry \<Rightarrow> string \<Rightarrow> uuid \<Rightarrow> bool \<Rightarrow> err \<Rightarrow> unit wm" where
  "creation_failed q targetName u cleanupInstances e =
     andthen (target_remove_creation targetName)
       (ignore_err (queue_update_status u
         (if cleanupInstances then MIGRATIONSTATUS_WAITING else MIGRATIONSTATUS_ERROR) (err_text e)
         IMPORTSTAGE_BACKGROUND (get_window_name q)))"

definition remove_created ::
    "ext \<Rightarrow> 'e task_env \<Rightarrow> target \<Rightarrow> queue_entry \<Rightarrow> string \<Rightarrow> ('e, unit) task" where
  "remove_created x en t q name =
     ignore_err (bindm (open_target x en t (p_TargetProject (q_Placement q)) id id id) (\<lambda>it.
       ine (cleanup_vm x (te_incus en (it_Target it)) it name True)))"

definition migration_network_of :: "batch \<Rightarrow> queue_entry \<Rightarrow> migration_network_placement" where
  "migration_network_of b q =
     (case find (\<lambda>n. mn_Target n = p_TargetName (q_Placement q) \<and> mn_TargetProject n = p_TargetProject (q_Placement q))
             (bd_MigrationNetwork (b_Defaults b)) of
        Some n \<Rightarrow> n
      | None \<Rightarrow> zero_migration_network)"

text \<open>
  The instance on the target is complete when its agent answers; \<open>rounds\<close> is how often it is asked
  before the context ends. The window is only looked up for the event that is sent. The target's
  slot for a creation is given back before the agent is waited for.
\<close>

definition start_created ::
    "ext \<Rightarrow> 'e task_env \<Rightarrow> nat \<Rightarrow> inst \<Rightarrow> target \<Rightarrow> queue_entry \<Rightarrow> incus_target \<Rightarrow> incus_instance \<Rightarrow> ('e, unit) task" where
  "start_created x en rounds i t q it def =
     (let c = te_incus en (it_Target it); name = AStr (ii_Name def); tgt = AStr (it_Name it) in
      andthen (wrap_err (\<lambda>e. Errorf ''Failed to wait for create operation for instance %q on migration target %q: %w''
           [name, tgt, AWrap e]) (ine (ic_wait c)))
     (andthen (wrap_err (\<lambda>e. Errorf ''Failed to setup instance %q on migration target %q: %w'' [name, tgt, AWrap e])
         (ine (setup_vm c it i def (q_Placement q))))
     (andthen (if get_window_name q \<noteq> None then ret ()
         else bindm (attempt (inw (get_next_window x q))) (\<lambda>r. case r of
             Inr _ \<Rightarrow> ret ()
           | Inl e \<Rightarrow> if err_status http_not_found e then ret () else throw e))
     (andthen (inw (target_remove_creation (tgt_Name t)))
     (andthen (ine (check_incus_agent rounds c it (ii_Name def) None deadline_exceeded))
     (andthen (wrap_err (\<lambda>e. Errorf ''Failed to update instance status to %q: %w''
           [AStr (migration_status_string MIGRATIONSTATUS_IDLE), AWrap e])
         (inw (queue_update_status (i_UUID i) MIGRATIONSTATUS_IDLE ''Waiting for worker to connect'' IMPORTSTAGE_BACKGROUND
           (get_window_name q))))
       (inw (record_worker_update x (i_UUID i)))))))))"

definition create_target_vm ::
    "ext \<Rightarrow> 'e task_env \<Rightarrow> nat \<Rightarrow> batch \<Rightarrow> inst \<Rightarrow> target \<Rightarrow> queue_entry \<Rightarrow> networks \<Rightarrow> bool \<Rightarrow> ('e, unit) task" where
  "create_target_vm x en rounds b i t q networks cleanupInstances =
     reverting
      (bindm (open_target x en t (p_TargetProject (q_Placement q))
         (\<lambda>e. Errorf ''Failed to construct target %q: %w'' [AStr (tgt_Name t), AWrap e])
         (\<lambda>e. Errorf ''Failed to connect to target %q: %w'' [AStr (tgt_Name t), AWrap e])
         (\<lambda>e. Errorf ''Failed to set project %q for target %q: %w'' [AStr (p_TargetProject (q_Placement q)), AStr (tgt_Name t), AWrap e]))
       (\<lambda>it. bindm (wrap_err (\<lambda>e. Errorf ''Failed to parse server certificate: %w'' [AWrap e]) (lift (te_cert en))) (\<lambda>fingerprint.
       bindm (wrap_err (\<lambda>e. Errorf ''Failed to create instance definition: %w'' [AWrap e])
         (lift (create_vm_definition x (te_schema en) (ETarget (at_TargetType (it_Target it))) (it_Version it) i q
           fingerprint (te_endpoint en) (migration_network_of b q)))) (\<lambda>def.
       bindm (wrap_err (\<lambda>e. Errorf ''Failed to create new instance %q on migration target %q: %w''
           [AStr (ii_Name def), AStr (it_Name it), AWrap e])
         (ine (create_new_vm x (te_incus en (it_Target it)) it i def (q_Placement q) (worker_volume x (get_architecture x i))))) (\<lambda>def'.
         reverting (start_created x en rounds i t q it def')
           (\<lambda>e. if cleanupInstances then remove_created x en t q (ii_Name def') else ret ()))))))
      (\<lambda>e. inw (creation_failed q (tgt_Name t) (i_UUID i) cleanupInstances e))"

end
