(* ===== verification/Import_Tasks.thy ===== *)
theory Import_Tasks
  imports Tasks
begin

text \<open>
  The periodic tasks, part two (\<^verbatim>\<open>workers.go\<close>): the start of the imports of waiting entries. Placements
  are checked against what the targets report, the worker's image is put where it is needed, and as
  many VMs are created as each target allows. Maps are iterated in the order of their lists, and
  what runs concurrently in the code runs in that order.
\<close>

section \<open>Placement\<close>

text \<open>What \<^verbatim>\<open>RunConcurrentMap\<close> returns for actions that only compute.\<close>

definition concurrent_results :: "(err + 'a) list \<Rightarrow> err + 'a list" where
  "concurrent_results rs =
     (let errs = List.map_filter (\<lambda>r. case r of Inl e \<Rightarrow> Some e | Inr _ \<Rightarrow> None) rs in
      if errs \<noteq> []
      then Inl (Errorf ''Failed to run %d concurrent actions. Last error: %w'' [AInt (int (length errs)), AWrap (last errs)])
      else Inr (List.map_filter (\<lambda>r. case r of Inl _ \<Rightarrow> None | Inr a \<Rightarrow> Some a) rs))"

text \<open>An entry with its placement, computed anew if the batch says so, and what speaks against it.\<close>

definition check_placement ::
    "ext \<Rightarrow> networks \<Rightarrow> incus_details list \<Rightarrow> migration_state \<Rightarrow> uuid \<times> inst \<Rightarrow> err + uuid \<times> queue_entry \<times> err option" where
  "check_placement x networks details st = (\<lambda>(u, i).
     let q = state_entry st u; b = ms_Batch st in
     bind_sum (if bc_RerunScriptlets (b_Config b)
        then map_sum id (\<lambda>p. q\<lparr>q_Placement := p\<rparr>)
          (determine_placement x i (filter_used_networks networks [i]) b (map snd (ms_Windows st)))
        else Inr q) (\<lambda>q'.
       let info = find (\<lambda>d. dt_Name d = p_TargetName (q_Placement q')) details in
       Inr (u, q', can_place_instance info q' (instance_to_api x i) (batch_to_api b []))))"

definition check_batch_placements ::
    "ext \<Rightarrow> networks \<Rightarrow> incus_details list \<Rightarrow> string \<times> migration_state \<Rightarrow>
      err + (string \<times> migration_state) \<times> (uuid \<times> err) list" where
  "check_batch_placements x networks details = (\<lambda>(n, st).
     map_sum id (\<lambda>rs.
        ((n, st\<lparr>ms_QueueEntries := fold (\<lambda>(u, q, _). gm_set u q) rs (ms_QueueEntries st)\<rparr>),
         List.map_filter (\<lambda>(u, _, r). map_option (Pair u) r) rs))
       (concurrent_results (map (check_placement x networks details st) (ms_Instances st))))"

fun all_details :: "ext \<Rightarrow> 'e task_env \<Rightarrow> target list \<Rightarrow> ('e, incus_details list) task" where
  "all_details x en [] = ret []"
| "all_details x en (t # ts) =
     bindm (lift (new_target x (target_to_api t))) (\<lambda>it.
     bindm (connected_target en it) (\<lambda>it'.
     bindm (ine (get_details (te_incus en (it_Target it')) it')) (\<lambda>d.
     bindm (all_details x en ts) (\<lambda>ds. ret (d # ds)))))"

definition block_placement :: "uuid \<Rightarrow> queue_entry \<Rightarrow> err \<Rightarrow> unit wm" where
  "block_placement u q e =
     wrap_err (\<lambda>e'. Errorf ''Failed to unblock queue entry %q: %w'' [AUuid (q_InstanceUUID q), AWrap e'])
       (andthen (queue_update_status (q_InstanceUUID q) MIGRATIONSTATUS_BLOCKED (reason_text ''Cannot place instance'' e)
          (q_ImportStage q) (get_window_name q)) (ret ()))"

definition write_placement :: "(uuid \<times> err) list \<Rightarrow> migration_state \<Rightarrow> uuid \<times> queue_entry \<Rightarrow> unit wm" where
  "write_placement errs st = (\<lambda>(u, q).
     andthen (if bc_RerunScriptlets (b_Config (ms_Batch st))
         then wrap_err (\<lambda>e. Errorf ''Failed to update queue %q placement record: %w'' [AUuid u, AWrap e])
           (andthen (queue_update_placement u (q_Placement q)) (ret ()))
         else ret ())
       (case map_of errs u of None \<Rightarrow> ret () | Some e \<Rightarrow> block_placement u q e))"

definition waiting_state :: "batch_migration_state wm" where
  "waiting_state = wrap_err (\<lambda>e. Errorf ''Failed to compile migration state for batch processing: %w'' [AWrap e])
     (get_migration_state BATCHSTATUS_RUNNING [MIGRATIONSTATUS_WAITING])"

definition place_waiting :: "ext \<Rightarrow> 'e task_env \<Rightarrow> ('e, batch_migration_state \<times> networks) task" where
  "place_waiting x en =
     tx_task (bindm (inw waiting_state) (\<lambda>st.
       if st = [] then ret ([], [])
       else bindm (wrap_err (\<lambda>e. Errorf ''Failed to get all networks: %w'' [AWrap e]) (inw network_repo_get_all)) (\<lambda>nets.
        bindm (wrap_err (\<lambda>e. Errorf ''Failed to get all targets: %w'' [AWrap e]) (inw target_repo_get_all)) (\<lambda>tgts.
        bindm (all_details x en tgts) (\<lambda>details.
        bindm (lift (concurrent_results (map (check_batch_placements x nets details) st))) (\<lambda>rs.
        let st' = map fst rs; errs = concat (map snd rs);
            changed = (\<exists>(n, s) \<in> set st'. \<exists>(u, q) \<in> set (ms_QueueEntries s).
              bc_RerunScriptlets (b_Config (ms_Batch s)) \<or> map_of errs u \<noteq> None)
        in andthen (inw (for_each st' (\<lambda>(n, s). for_each (ms_QueueEntries s) (write_placement errs s))))
           (if changed then bindm (inw waiting_state) (\<lambda>st''. ret (st'', nets)) else ret (st', nets))))))))"

section \<open>The worker's image\<close>

definition ensure_iso_images ::
    "ext \<Rightarrow> 'e task_env \<Rightarrow> inst \<Rightarrow> target \<Rightarrow> batch \<Rightarrow> string \<Rightarrow> string \<Rightarrow> ('e, unit) task" where
  "ensure_iso_images x en i t b pool project =
     (let arch = get_architecture x i; vol = worker_volume x arch;
          set_message = (\<lambda>msg. wrap_err (\<lambda>e. Errorf ''Failed to update batch %q status message: %w'' [AStr (b_Name b), AWrap e])
            (andthen (inw (batch_update_status (b_Name b) (b_Status b) msg)) (ret ())))
      in bindm (open_target x en t project id id id) (\<lambda>it.
       bindm (ine (ic_volumes (te_incus en (it_Target it)) (it_Project it) '''' pool)) (\<lambda>vols.
         if ''custom/'' @ vol \<in> set vols then ret ()
         else andthen (set_message ''Uploading worker volume'')
          (bindm (ine (te_load_image en arch)) (\<lambda>path.
            andthen (ine (te_import_backup en it pool path arch vol))
              (set_message (batch_status_string BATCHSTATUS_RUNNING)))))))"

text \<open>
  Each pool of a project on a target is looked at once; a batch whose image cannot be provided
  becomes an error and is left out. The accumulator: the places seen, and the batches left out.
\<close>

type_synonym places = "(string \<times> string \<times> string) list \<times> string list"

definition under :: "('s, err, 'a) act \<Rightarrow> ('s \<times> 'c, err, 'a) act" where
  "under m = (\<lambda>(s, c). case m s of (r, s') \<Rightarrow> (r, (s', c)))"

definition provide_image ::
    "ext \<Rightarrow> 'e task_env \<Rightarrow> migration_state \<Rightarrow> uuid \<Rightarrow> queue_entry \<Rightarrow> string \<Rightarrow> ((world \<times> 'e) \<times> places, err, unit) act" where
  "provide_image x en st u q pool =
     (let pl = q_Placement q; place = (p_TargetName pl, p_TargetProject pl, pool) in
      bindm (gets (\<lambda>(s, seen, bad). place \<in> set seen)) (\<lambda>done.
      if done then ret ()
      else andthen (modify (\<lambda>(s, seen, bad). (s, place # seen, bad)))
        (bindm (attempt (under (ensure_iso_images x en (state_instance st u) (state_target st u) (ms_Batch st) pool (p_TargetProject pl)))) (\<lambda>r.
         case r of
           Inr _ \<Rightarrow> ret ()
         | Inl e \<Rightarrow>
             andthen (modify (\<lambda>(s, seen, bad). (s, removeAll place seen, bad)))
            (andthen (wrap_err (\<lambda>e'. Errorf ''Failed to set batch status to %q: %w'' [AStr (batch_status_string BATCHSTATUS_ERROR), AWrap e'])
               (under (inw (andthen (batch_update_status (b_Name (ms_Batch st)) BATCHSTATUS_ERROR (err_text e)) (ret ())))))
              (modify (\<lambda>(s, seen, bad). (s, seen, b_Name (ms_Batch st) # bad))))))))"

definition provide_images :: "ext \<Rightarrow> 'e task_env \<Rightarrow> batch_migration_state \<Rightarrow> ('e, batch_migration_state) task" where
  "provide_images x en st = (\<lambda>s.
     case run_concurrent_map st (\<lambda>n b. for_each (ms_QueueEntries b) (\<lambda>(u, q).
         for_each (fmap_list (p_StoragePools (q_Placement q))) (\<lambda>(d, pool). provide_image x en b u q pool))) (s, [], []) of
       (Inl e, (s', _)) \<Rightarrow> (Inl e, s')
     | (Inr _, (s', seen, bad)) \<Rightarrow> (Inr (filter (\<lambda>(n, b). n \<notin> set bad) st), s'))"

section \<open>How many VMs are created\<close>

text \<open>
  An instance of a batch begins unless its target has as many creations as it allows. The
  creation is counted in memory before the database is written.
\<close>

definition begin_creation :: "ext \<Rightarrow> migration_state \<Rightarrow> inst \<Rightarrow> bool wm" where
  "begin_creation x st i =
     (let u = i_UUID i; t = state_target st u; q = state_entry st u in
      bindm (lift (x_incus_dec x (tgt_Properties t))) (\<lambda>p.
      bindm (target_cached_creations (tgt_Name t)) (\<lambda>n.
      if 0 < in_CreateLimit p \<and> in_CreateLimit p \<le> n then ret False
      else andthen (target_record_creation (tgt_Name t))
        (andthen (wrap_err (\<lambda>e. Errorf ''Failed to unblock queue entry for %q: %w'' [AStr (ip_Location (i_Properties i)), AWrap e])
            (queue_update_status u MIGRATIONSTATUS_CREATING ''Creating target instance definition'' (q_ImportStage q) (get_window_name q)))
          (ret True)))))"

fun begin_creations :: "ext \<Rightarrow> migration_state \<Rightarrow> inst list \<Rightarrow> inst list wm" where
  "begin_creations x st [] = ret []"
| "begin_creations x st (i # is) =
     bindm (begin_creation x st i) (\<lambda>started.
     bindm (begin_creations x st is) (\<lambda>js. ret (if started then i # js else js)))"

definition only_started :: "migration_state \<Rightarrow> inst list \<Rightarrow> migration_state" where
  "only_started st is =
     st\<lparr>ms_Instances := map (\<lambda>i. (i_UUID i, i)) is,
       ms_Sources := map (\<lambda>i. (i_UUID i, state_source st (i_UUID i))) is,
       ms_Targets := map (\<lambda>i. (i_UUID i, state_target st (i_UUID i))) is,
       ms_QueueEntries := map (\<lambda>i. (i_UUID i, state_entry st (i_UUID i))) is\<rparr>"

fun begin_batches :: "ext \<Rightarrow> batch_migration_state \<Rightarrow> batch_migration_state wm" where
  "begin_batches x [] = ret []"
| "begin_batches x ((n, st) # sts) =
     bindm (begin_creations x st (map snd (ms_Instances st))) (\<lambda>is.
     bindm (begin_batches x sts) (\<lambda>sts'. ret ((n, only_started st is) # sts')))"

section \<open>The task\<close>

definition create_vms ::
    "ext \<Rightarrow> 'e task_env \<Rightarrow> nat \<Rightarrow> bool \<Rightarrow> networks \<Rightarrow> batch_migration_state \<Rightarrow> ('e, unit) task" where
  "create_vms x en rounds cleanupInstances allNetworks st =
     run_concurrent_map st (\<lambda>n s.
       let nets = filter_used_networks allNetworks (map snd (ms_Instances s)) in
       run_concurrent_map (ms_Instances s) (\<lambda>u i.
         create_target_vm x en rounds (ms_Batch s) i (state_target s u) (state_entry s u) nets cleanupInstances))"

definition begin_imports :: "ext \<Rightarrow> 'e task_env \<Rightarrow> nat \<Rightarrow> bool \<Rightarrow> ('e, unit) task" where
  "begin_imports x en rounds cleanupInstances =
     andthen (tx_task (wrap_err (\<lambda>e. Errorf ''Failed to reassess blocked queue entries: %w'' [AWrap e])
       (reassess_blocked_instances x en)))
     (bindm (place_waiting x en) (\<lambda>(st, nets).
      bindm (provide_images x en st) (\<lambda>st'.
      bindm (wrap_err (\<lambda>e. Errorf ''Process Queued Batches worker failed: %w'' [AWrap e]) (inw (tx_do (begin_batches x st')))) (\<lambda>st''.
        wrap_err (\<lambda>e. Errorf ''Failed to initialize migration workers: %w'' [AWrap e])
          (create_vms x en rounds cleanupInstances nets st'')))))"

end
