(* ===== verification/Final_Tasks.thy ===== *)
theory Final_Tasks
  imports Import_Tasks
begin

text \<open>
  The periodic tasks, part three (\<^verbatim>\<open>workers.go\<close>): the end of a migration. Entries whose window has
  passed are reset, instances that changed on the source since their import are found out, and
  the others get their final configuration.
\<close>

section \<open>The window has passed\<close>

definition restart_source :: "ext \<Rightarrow> 'e task_env \<Rightarrow> source \<Rightarrow> inst \<Rightarrow> ('e, unit) task" where
  "restart_source x en src i =
     (let ty = AStr (source_type_string (src_SourceType src)); n = AStr (src_Name src) in
      bindm (wrap_err (\<lambda>e. Errorf ''Failed to configure %q source-specific configuration for restarting source VM on source %q: %w'' [ty, n, AWrap e])
        (lift (new_vm_source x (te_cas en) (source_to_api src)))) (\<lambda>s.
      bindm (wrap_err (\<lambda>e. Errorf ''Failed to connect to %q source to restart VM on source %q for next migration window: %w'' [ty, n, AWrap e])
        (connected_source x en s)) (\<lambda>s'.
        wrap_err (\<lambda>e. Errorf ''Failed to restart VM on source %q for next migration window: %w'' [n, AWrap e])
          (ine (source_power_on (te_vsphere en (vw_Source s')) (ip_Location (i_Properties i)))))))"

definition worker_service :: "string \<Rightarrow> string list" where
  "worker_service verb = [''systemctl'', verb, ''migration-manager-worker.service'']"

text \<open>
  An entry in the final import goes back to waiting for a window, its worker restarted; one that was
  further has its VM removed and begins anew.
\<close>

definition reset_queue_entry :: "ext \<Rightarrow> 'e task_env \<Rightarrow> uuid \<Rightarrow> migration_state \<Rightarrow> ('e, unit) task" where
  "reset_queue_entry x en u st =
     (let q = state_entry st u; i = state_instance st u; t = state_target st u; loc = AStr (ip_Location (i_Properties i));
          final = (q_MigrationStatus q = MIGRATIONSTATUS_FINAL_IMPORT); project = p_TargetProject (q_Placement q) in
      andthen (if p_Running (q_Placement q) then restart_source x en (state_source st u) i else ret ())
      (bindm (open_target x en t project
         (\<lambda>e. Errorf ''Failed to set up %q target-specific configuration: %w'' [AStr (target_type_string (tgt_TargetType t)), AWrap e])
         (\<lambda>e. Errorf ''Failed to connect to target %q: %w'' [AStr (tgt_Name t), AWrap e])
         (\<lambda>e. Errorf ''Failed to set target %q project %q: %w'' [AStr (tgt_Name t), AStr project, AWrap e])) (\<lambda>it.
       let c = te_incus en (it_Target it) in
       andthen (if \<not> final
          then wrap_err (\<lambda>e. Errorf ''Failed to clean up instance %q due to migration window deadline: %w'' [loc, AWrap e])
            (ine (cleanup_vm x c it (get_name i) False))
          else wrap_err (\<lambda>e. Errorf ''Failed to stop migration worker on for instance %q: %w'' [loc, AWrap e])
            (ine (exec_vm c it (get_name i) (worker_service ''stop''))))
       (andthen (wrap_err (\<lambda>e. Errorf ''Failed to reset queue entry %q status: %w'' [AUuid u, AWrap e])
          (inw (queue_update_status u (if final then MIGRATIONSTATUS_IDLE else MIGRATIONSTATUS_WAITING)
             ''Migration window ended, waiting for next migration window''
             (if final then IMPORTSTAGE_FINAL else IMPORTSTAGE_BACKGROUND) None)))
        (if final
         then wrap_err (\<lambda>e. Errorf ''Failed to restart migration worker on restarting instance %q: %w'' [loc, AWrap e])
           (ine (exec_vm c it (get_name i) (worker_service ''restart'')))
         else ret ())))))"

section \<open>The final configuration\<close>

text \<open>
  A failure counts as a retry while the window is open and retries are left; otherwise the entry is
  an error and, if the source VM was running, it is switched on again.
\<close>

definition power_back :: "ext \<Rightarrow> 'e task_env \<Rightarrow> source \<Rightarrow> inst \<Rightarrow> ('e, unit) task" where
  "power_back x en src i =
     ignore_err (bindm (lift (new_vm_source x (te_cas en) (source_to_api src))) (\<lambda>s.
       bindm (connected_source x en s) (\<lambda>s'.
         ine (source_power_on (te_vsphere en (vw_Source s')) (ip_Location (i_Properties i))))))"

definition configuration_failed ::
    "ext \<Rightarrow> 'e task_env \<Rightarrow> queue_entry \<Rightarrow> window \<Rightarrow> inst \<Rightarrow> source \<Rightarrow> batch \<Rightarrow> err \<Rightarrow> ('e, unit) task" where
  "configuration_failed x en q w i src b e =
     (let back = (if p_Running (q_Placement q) then power_back x en src i else ret ()) in
      if window_ended (x_now x) w then back
      else bindm (inw (get_post_migration_retries (i_UUID i))) (\<lambda>n.
        if n < bc_PostMigrationRetries (b_Config b) then inw (record_post_migration_retry (i_UUID i))
        else andthen (ignore_err (inw (queue_update_status (i_UUID i) MIGRATIONSTATUS_ERROR (err_text e) IMPORTSTAGE_BACKGROUND
               (get_window_name q))))
          back))"

definition configure_migrated_instance ::
    "ext \<Rightarrow> 'e task_env \<Rightarrow> queue_entry \<Rightarrow> window \<Rightarrow> inst \<Rightarrow> source \<Rightarrow> target \<Rightarrow> batch \<Rightarrow> ('e, unit) task" where
  "configure_migrated_instance x en q w i src t b =
     (let project = p_TargetProject (q_Placement q) in
      reverting
       (bindm (open_target x en t project
          (\<lambda>e. Errorf ''Failed to construct target %q: %w'' [AStr (tgt_Name t), AWrap e])
          (\<lambda>e. Errorf ''Failed to connect to target %q: %w'' [AStr (tgt_Name t), AWrap e])
          (\<lambda>e. Errorf ''Failed to set target %q project %q: %w'' [AStr (tgt_Name t), AStr project, AWrap e])) (\<lambda>it.
        andthen (wrap_err (\<lambda>e. Errorf ''Failed to update post-migration config for instance %q in %q: %w''
              [AStr (get_name i), AStr (it_Name it), AWrap e])
            (ine (set_post_migration_config x (te_schema en) (te_incus en (it_Target it)) it i q)))
         (andthen (wrap_err (\<lambda>e. Errorf ''Failed to update instance status to %q: %w''
              [AStr (migration_status_string MIGRATIONSTATUS_FINISHED), AWrap e])
            (inw (queue_update_status (i_UUID i) MIGRATIONSTATUS_FINISHED (migration_status_string MIGRATIONSTATUS_FINISHED)
              (q_ImportStage q) None)))
           (ret ()))))
       (configuration_failed x en q w i src b))"

section \<open>Changes on the source\<close>

text \<open>What becomes of an instance that changed: a status with its message, or only new data.\<close>

record conflict_state =
  cs_Status :: "(migration_status \<times> string) option"
  cs_Properties :: instance_properties
  cs_Placement :: "placement option"

definition done_instances :: "batch_migration_state \<Rightarrow> (string \<times> inst) list" where
  "done_instances st = concat (map (\<lambda>(n, s). map (\<lambda>(u, i). (b_Name (ms_Batch s), i))
     (filter (\<lambda>(u, i). q_MigrationStatus (state_entry s (i_UUID i)) = MIGRATIONSTATUS_WORKER_DONE) (ms_Instances s))) st)"

definition done_sources :: "batch_migration_state \<Rightarrow> (string, source) gomap" where
  "done_sources st = fold (\<lambda>(n, s). fold (\<lambda>(u, src) m.
       if q_MigrationStatus (state_entry s u) = MIGRATIONSTATUS_WORKER_DONE \<and> map_of m (src_Name src) = None
       then gm_set (src_Name src) src m else m) (ms_Sources s)) st []"

definition source_ids :: "(string \<times> inst) list \<Rightarrow> (string, string list) gomap" where
  "source_ids is = fold (\<lambda>(b, i) m.
     gm_set (i_Source i) (gm_get [] m (i_Source i) @ [ip_SourceSpecificID (i_Properties i)]) m) is []"

fun read_sources ::
    "ext \<Rightarrow> 'e task_env \<Rightarrow> (string, source) gomap \<Rightarrow> (string \<times> string list) list \<Rightarrow>
      ('e, instances \<times> networks \<times> (string, vmware_source) gomap) task" where
  "read_sources x en srcs [] = ret ([], [], [])"
| "read_sources x en srcs ((n, ids) # rest) =
     bindm (lift (new_vm_source x (te_cas en) (source_to_api (gm_get zero_source srcs n)))) (\<lambda>s.
     bindm (connected_source x en s) (\<lambda>s'.
     bindm (ine (get_all_vms x (te_schema en) (te_vsphere en (vw_Source s')) s' ids)) (\<lambda>(is, ns, ws).
     bindm (read_sources x en srcs rest) (\<lambda>(is', ns', cs). ret (is @ is', ns @ ns', gm_set n s' cs)))))"

text \<open>The entry's batch and instance for what the source reports, by its identifier there.\<close>

definition matching_instance :: "batch_migration_state \<Rightarrow> inst \<Rightarrow> (migration_state \<times> inst) option" where
  "matching_instance st new =
     (let same = (\<lambda>(u, i). i_Source i = i_Source new \<and>
            ip_SourceSpecificID (i_Properties i) = ip_SourceSpecificID (i_Properties new)) in
      case find (\<lambda>(n, s). n \<noteq> '''' \<and> list_ex same (ms_Instances s)) st of
        None \<Rightarrow> None
      | Some (n, s) \<Rightarrow>
          (case find same (ms_Instances s) of
             Some (u, i) \<Rightarrow> if i_UUID i = uuid_nil then None else Some (s, state_instance s (i_UUID i))
           | None \<Rightarrow> None))"

text \<open>
  The records of networks by source and identifier. A network is only new when its source has
  networks already: those of a source without any are not created.
\<close>

definition network_at :: "networks \<Rightarrow> string \<Rightarrow> string \<Rightarrow> network option" where
  "network_at ns src sid = find (\<lambda>n. n_Source n = src \<and> n_SourceSpecificID n = sid) (rev ns)"

definition source_known :: "networks \<Rightarrow> string \<Rightarrow> bool" where
  "source_known ns src \<longleftrightarrow> (\<exists>n \<in> set ns. n_Source n = src)"

definition network_new :: "networks \<Rightarrow> network \<Rightarrow> bool" where
  "network_new ns n \<longleftrightarrow> source_known ns (n_Source n) \<and> network_at ns (n_Source n) (n_SourceSpecificID n) = None"

text \<open>
  The identity checks: the UUID, the name and the disks must be those of the import. \<open>None\<close>: the
  instance did not change.
\<close>

definition identity_check :: "ext \<Rightarrow> inst \<Rightarrow> inst \<Rightarrow> (conflict_state + inst) option" where
  "identity_check x old new =
     (let conflict = (\<lambda>msg p. Some (Inl \<lparr>cs_Status = Some (MIGRATIONSTATUS_ERROR, msg), cs_Properties = p, cs_Placement = None\<rparr>)) in
      if i_UUID old \<noteq> i_UUID new
      then conflict (sprintf ''Instance source UUID has changed (expected %q, found %q)'' [uuid_string (i_UUID old), uuid_string (i_UUID new)])
        (i_Properties new)
      else let (upd, updated) = apply_updates x old new in
        if \<not> updated then None
        else if get_name old \<noteq> get_name upd
        then conflict (sprintf ''Instance source name has changed (expected %q, found %q)'' [get_name old, get_name upd]) (i_Properties upd)
        else if ip_Disks (i_Properties old) \<noteq> ip_Disks (i_Properties upd)
        then conflict ''Instance source disks have changed'' (i_Properties upd)
        else Some (Inr upd))"

text \<open>
  The placement checks. Another target, project or pool is a conflict unless the batch forces its
  resolution; only networks are placed anew. The first component says that there is a conflict.
\<close>

definition placement_change :: "batch \<Rightarrow> placement \<Rightarrow> placement \<Rightarrow> bool \<times> placement option" where
  "placement_change b old new =
     (if p_TargetName old \<noteq> p_TargetName new \<or> p_TargetProject old \<noteq> p_TargetProject new \<or> p_StoragePools old \<noteq> p_StoragePools new
      then (\<not> bd_ForceConflictResolution (b_Defaults b), None)
      else if placed_networks old \<noteq> placed_networks new then (False, Some (new\<lparr>p_Running := p_Running old\<rparr>))
      else (False, None))"

text \<open>
  What the checks gather: the networks of the sources, the targets' details, the instances that
  changed, and how many random identifiers were drawn.
\<close>

record final_checks =
  fc_Networks :: networks
  fc_Details :: "(string, incus_details) gomap"
  fc_Updates :: "(uuid, conflict_state) gomap"
  fc_Random :: nat

text \<open>Every new network gets an identifier, again for each instance that changed.\<close>

fun fresh_networks :: "ext \<Rightarrow> networks \<Rightarrow> nat \<Rightarrow> networks \<Rightarrow> networks \<times> nat" where
  "fresh_networks x existing k [] = ([], k)"
| "fresh_networks x existing k (n # ns) =
     (if network_new existing n
      then (case fresh_networks x existing (Suc k) ns of (ns', k') \<Rightarrow> (n\<lparr>n_UUID := x_random_uuid x k\<rparr> # ns', k'))
      else (case fresh_networks x existing k ns of (ns', k') \<Rightarrow> (n # ns', k')))"

definition details_of :: "ext \<Rightarrow> 'e task_env \<Rightarrow> target \<Rightarrow> final_checks \<Rightarrow> ('e, incus_details \<times> final_checks) task" where
  "details_of x en t fc =
     (case map_of (fc_Details fc) (tgt_Name t) of
        Some d \<Rightarrow> ret (d, fc)
      | None \<Rightarrow> bindm (lift (new_target x (target_to_api t))) (\<lambda>it.
          bindm (connected_target en it) (\<lambda>it'.
          bindm (ine (get_details (te_incus en (it_Target it')) it')) (\<lambda>d.
            ret (d, fc\<lparr>fc_Details := gm_set (tgt_Name t) d (fc_Details fc)\<rparr>)))))"

definition with_update :: "uuid \<Rightarrow> conflict_state \<Rightarrow> final_checks \<Rightarrow> final_checks" where
  "with_update u c fc = fc\<lparr>fc_Updates := gm_set u c (fc_Updates fc)\<rparr>"

text \<open>
  The placement of the changed instance. The message of a changed placement formats an error that
  is nil at that point.
\<close>

definition check_new_placement ::
    "ext \<Rightarrow> 'e task_env \<Rightarrow> networks \<Rightarrow> migration_state \<Rightarrow> inst \<Rightarrow> final_checks \<Rightarrow> ('e, final_checks) task" where
  "check_new_placement x en existing s upd fc =
     (let b = ms_Batch s; u = i_UUID upd; q = state_entry s u; ws = map snd (ms_Windows s);
          force = bd_ForceConflictResolution (b_Defaults b);
          (nets, k) = fresh_networks x existing (fc_Random fc) (fc_Networks fc);
          fc1 = fc\<lparr>fc_Networks := nets, fc_Random := k\<rparr>;
          used = filter_used_networks (existing @ filter (network_new existing) nets) [upd];
          conflict = (\<lambda>msg p. \<lparr>cs_Status = Some (MIGRATIONSTATUS_CONFLICT, msg), cs_Properties = i_Properties upd, cs_Placement = p\<rparr>)
      in bindm (lift (determine_placement x upd used b ws)) (\<lambda>new.
       let (changed, replaced) = placement_change b (q_Placement q) new in
       if changed then ret (with_update u (conflict ''Instance placement changed: <nil>'' None) fc1)
       else bindm (details_of x en (state_target s u) fc1) (\<lambda>(d, fc2).
         let q' = (case replaced of None \<Rightarrow> q | Some p \<Rightarrow> q\<lparr>q_Placement := p\<rparr>) in
         case can_place_instance (Some d) q' (instance_to_api x upd) (batch_to_api b ws) of
           Some e \<Rightarrow>
             ret (if force then fc2
               else with_update u (conflict (sprintf ''Instance can no longer be placed on the target: %v'' [err_text e]) replaced) fc2)
         | None \<Rightarrow> ret (with_update u \<lparr>cs_Status = None, cs_Properties = i_Properties upd, cs_Placement = replaced\<rparr> fc2))))"

definition check_source_instance ::
    "ext \<Rightarrow> 'e task_env \<Rightarrow> networks \<Rightarrow> batch_migration_state \<Rightarrow> (string, vmware_source) gomap \<Rightarrow> inst \<Rightarrow> final_checks \<Rightarrow>
      ('e, final_checks) task" where
  "check_source_instance x en existing st clients new fc =
     (case matching_instance st new of
        None \<Rightarrow> ret fc
      | Some (s, old) \<Rightarrow>
          if q_MigrationStatus (state_entry s (i_UUID old)) \<noteq> MIGRATIONSTATUS_WORKER_DONE then ret fc
          else andthen
            (if ip_Running (i_Properties new)
             then (case map_of clients (i_Source new) of
                 None \<Rightarrow> throw nil_pointer_panic
               | Some c \<Rightarrow> wrap_err (\<lambda>e. Errorf ''Failed to power off source VM for final source and target checks: %w'' [AWrap e])
                   (ine (source_power_off (te_vsphere en (vw_Source c)) (ip_Location (i_Properties new)))))
             else ret ())
            (case identity_check x old (new\<lparr>i_Properties := (i_Properties new)\<lparr>ip_Running := False\<rparr>\<rparr>) of
               None \<Rightarrow> ret fc
             | Some (Inl c) \<Rightarrow> ret (with_update (i_UUID old) c fc)
             | Some (Inr upd) \<Rightarrow> check_new_placement x en existing s upd fc))"

fun check_source_instances ::
    "ext \<Rightarrow> 'e task_env \<Rightarrow> networks \<Rightarrow> batch_migration_state \<Rightarrow> (string, vmware_source) gomap \<Rightarrow> inst list \<Rightarrow> final_checks \<Rightarrow>
      ('e, final_checks) task" where
  "check_source_instances x en existing st clients [] fc = ret fc"
| "check_source_instances x en existing st clients (i # is) fc =
     bindm (check_source_instance x en existing st clients i fc) (\<lambda>fc'.
       check_source_instances x en existing st clients is fc')"

section \<open>Recording the changes\<close>

fun create_networks :: "ext \<Rightarrow> networks \<Rightarrow> networks \<Rightarrow> networks wm" where
  "create_networks x known [] = ret known"
| "create_networks x known (n # ns) =
     (if network_new known n then bindm (network_create x n) (\<lambda>n'. create_networks x (known @ [n']) ns)
      else create_networks x known ns)"

definition fill_nic_uuids :: "networks \<Rightarrow> string \<Rightarrow> instance_properties \<Rightarrow> instance_properties" where
  "fill_nic_uuids known src p = p\<lparr>ip_NICs := map (\<lambda>nic.
     case network_at known src (nic_SourceSpecificID nic) of
       Some n \<Rightarrow> if nic_UUID nic = uuid_nil then nic\<lparr>nic_UUID := n_UUID n\<rparr> else nic
     | None \<Rightarrow> nic) (ip_NICs p)\<rparr>"

definition set_entry :: "string \<Rightarrow> queue_entry \<Rightarrow> batch_migration_state \<Rightarrow> batch_migration_state" where
  "set_entry n q st = (case map_of st n of
     None \<Rightarrow> st | Some s \<Rightarrow> gm_set n (s\<lparr>ms_QueueEntries := gm_set (q_InstanceUUID q) q (ms_QueueEntries s)\<rparr>) st)"

definition set_instance :: "string \<Rightarrow> inst \<Rightarrow> batch_migration_state \<Rightarrow> batch_migration_state" where
  "set_instance n i st = (case map_of st n of
     None \<Rightarrow> st | Some s \<Rightarrow> gm_set n (s\<lparr>ms_Instances := gm_set (i_UUID i) i (ms_Instances s)\<rparr>) st)"

definition entry_of :: "batch_migration_state \<Rightarrow> string \<Rightarrow> uuid \<Rightarrow> queue_entry" where
  "entry_of st n u = (case map_of st n of None \<Rightarrow> zero_entry | Some s \<Rightarrow> state_entry s u)"

text \<open>One changed instance: \<open>i\<close> is the one that was imported, in the batch \<open>n\<close>.\<close>

definition apply_update ::
    "ext \<Rightarrow> networks \<Rightarrow> string \<Rightarrow> inst \<Rightarrow> conflict_state \<Rightarrow> batch_migration_state \<Rightarrow> batch_migration_state wm" where
  "apply_update x known n i c st =
     (let u = i_UUID i; i' = i\<lparr>i_Properties := fill_nic_uuids known (i_Source i) (cs_Properties c)\<rparr> in
      andthen (instance_update x i' True)
      (bindm (case cs_Status c of
          Some (status, msg) \<Rightarrow>
            bindm (queue_update_status u status msg (q_ImportStage (entry_of st n u)) (get_window_name (entry_of st n u)))
              (\<lambda>q. ret (set_entry n q st))
        | None \<Rightarrow> ret st) (\<lambda>st1.
       bindm (case cs_Placement c of
          Some p \<Rightarrow> bindm (queue_update_placement u p) (\<lambda>q. ret (set_entry n q st1))
        | None \<Rightarrow> ret st1) (\<lambda>st2.
         ret (set_instance n i' st2)))))"

fun apply_updates_of ::
    "ext \<Rightarrow> networks \<Rightarrow> (string \<times> inst) list \<Rightarrow> (uuid \<times> conflict_state) list \<Rightarrow> batch_migration_state \<Rightarrow>
      batch_migration_state wm" where
  "apply_updates_of x known is [] st = ret st"
| "apply_updates_of x known is ((u, c) # us) st =
     (let (n, i) = (case find (\<lambda>(n, i). i_UUID i = u) (rev is) of Some p \<Rightarrow> p | None \<Rightarrow> ('''', empty_instance)) in
      bindm (apply_update x known n i c st) (\<lambda>st'. apply_updates_of x known is us st'))"

definition final_source_and_target_checks ::
    "ext \<Rightarrow> 'e task_env \<Rightarrow> batch_migration_state \<Rightarrow> ('e, batch_migration_state) task" where
  "final_source_and_target_checks x en st =
     bindm (inw network_repo_get_all) (\<lambda>existing.
     let is = done_instances st in
     bindm (read_sources x en (done_sources st) (source_ids is)) (\<lambda>(srcInsts, srcNets, clients).
     bindm (gets (\<lambda>(w, e). nat (db_seq (w_db w)))) (\<lambda>k.
     bindm (check_source_instances x en existing st clients srcInsts
         \<lparr>fc_Networks = srcNets, fc_Details = [], fc_Updates = [], fc_Random = k\<rparr>) (\<lambda>fc.
       inw (tx_do (bindm (create_networks x existing (fc_Networks fc)) (\<lambda>known.
         apply_updates_of x known is (fc_Updates fc) st)))))))"

section \<open>The task\<close>

definition window_of_entry :: "migration_state \<Rightarrow> queue_entry \<Rightarrow> window option" where
  "window_of_entry s q = (case get_window_name q of None \<Rightarrow> None | Some n \<Rightarrow> Some (gm_get empty_window (ms_Windows s) n))"

definition window_passed :: "ext \<Rightarrow> migration_state \<Rightarrow> queue_entry \<Rightarrow> bool" where
  "window_passed x s q = (case window_of_entry s q of None \<Rightarrow> False | Some w \<Rightarrow> window_ended (x_now x) w)"

text \<open>The instances that were finished, and those that failed with their errors.\<close>

type_synonym outcome = "uuid list \<times> (uuid \<times> err) list"

text \<open>
  Whose window had passed is known from before the final checks (\<open>s0\<close>); the state is the one after
  them.
\<close>

definition finalize_instance ::
    "ext \<Rightarrow> 'e task_env \<Rightarrow> migration_state \<Rightarrow> migration_state \<Rightarrow> uuid \<Rightarrow> inst \<Rightarrow> ((world \<times> 'e) \<times> outcome, err, unit) act" where
  "finalize_instance x en s0 s u i =
     (let q0 = state_entry s0 u; q = state_entry s u;
          w = (case window_of_entry s0 q0 of None \<Rightarrow> empty_window | Some w \<Rightarrow> w) in
      if window_passed x s0 q0 then under (reset_queue_entry x en u s)
      else if q_MigrationStatus q \<noteq> MIGRATIONSTATUS_WORKER_DONE then ret ()
      else bindm (attempt (under (configure_migrated_instance x en q w i (state_source s u) (state_target s u) (ms_Batch s)))) (\<lambda>r.
        case r of
          Inr _ \<Rightarrow> modify (\<lambda>(s, done, bad). (s, done @ [u], bad))
        | Inl e \<Rightarrow> andthen (modify (\<lambda>(s, done, bad). (s, done, bad @ [(u, e)]))) (throw e)))"

definition finalize_instances ::
    "ext \<Rightarrow> 'e task_env \<Rightarrow> batch_migration_state \<Rightarrow> batch_migration_state \<Rightarrow> ((world \<times> 'e) \<times> outcome, err, unit) act" where
  "finalize_instances x en st0 st =
     run_concurrent_map st (\<lambda>n s.
       run_concurrent_map (ms_Instances s) (finalize_instance x en (case map_of st0 n of Some s0 \<Rightarrow> s0 | None \<Rightarrow> s) s))"

fun record_conflicts :: "(uuid, queue_entry) gomap \<Rightarrow> (uuid \<times> err) list \<Rightarrow> unit wm" where
  "record_conflicts qs [] = ret ()"
| "record_conflicts qs ((u, e) # es) =
     (let q = gm_get zero_entry qs u in
      andthen (queue_update_status u MIGRATIONSTATUS_CONFLICT (err_text e) (q_ImportStage q) (get_window_name q))
        (record_conflicts qs es))"

definition finish_batch :: "string \<Rightarrow> unit wm" where
  "finish_batch n =
     bindm (queue_get_all_by_batch n) (\<lambda>qs.
       if \<forall>q \<in> set qs. q_MigrationStatus q = MIGRATIONSTATUS_FINISHED
       then wrap_err (\<lambda>e. Errorf ''Failed to set batch status to %q: %w'' [AStr (batch_status_string BATCHSTATUS_FINISHED), AWrap e])
         (andthen (batch_update_status n BATCHSTATUS_FINISHED (batch_status_string BATCHSTATUS_FINISHED)) (ret ()))
       else ret ())"

definition conclude :: "batch_migration_state \<Rightarrow> outcome \<Rightarrow> unit wm" where
  "conclude st = (\<lambda>(finished, bad).
     andthen (for_each finished remove_from_cache)
       (tx_do (andthen (record_conflicts (bms_queue st) bad) (for_each (map fst st) finish_batch))))"

definition finalize_complete_instances :: "ext \<Rightarrow> 'e task_env \<Rightarrow> ('e, unit) task" where
  "finalize_complete_instances x en =
     bindm (wrap_err (\<lambda>e. Errorf ''Failed to compile migration state for final import steps: %w'' [AWrap e])
       (inw (get_migration_state BATCHSTATUS_RUNNING
         [MIGRATIONSTATUS_WORKER_DONE, MIGRATIONSTATUS_FINAL_IMPORT, MIGRATIONSTATUS_POST_IMPORT]))) (\<lambda>st0.
     if st0 = [] then ret ()
     else bindm (wrap_err (\<lambda>e. Errorf ''Failed to perform final source and target checks: %w'' [AWrap e])
         (final_source_and_target_checks x en st0)) (\<lambda>st.
       (\<lambda>s. case finalize_instances x en st0 st (s, [], []) of
          (_, (s', out)) \<Rightarrow> inw (conclude st out) s')))"

end
