(* ===== verification/VMware_Facts.thy ===== *)
theory VMware_Facts
  imports VMware_Source
begin

text \<open>
  What the import from VMware guarantees: the properties it records are those of the VM's devices,
  no VM is lost on the way, a VM that was switched off is off, and a disk counts as verified only
  when its change-tracking file was seen.
\<close>

section \<open>The schema for VMware\<close>

definition vmware_served :: "ext \<Rightarrow> string \<Rightarrow> bool" where
  "vmware_served x version \<longleftrightarrow>
     x_semver_major x (CHR ''v'' # cut_at (CHR ''-'') (cut_at (CHR ''u'') version)) \<in> {''v7'', ''v8'', ''v9''}"

abbreviation info :: "string \<Rightarrow> string \<Rightarrow> property_info" where
  "info ty key \<equiv> \<lparr>pi_Type = ty, pi_Key = key\<rparr>"

definition vmware_props :: "(prop_name, property_info) gomap" where
  "vmware_props =
     [(InstanceCPUs, info ''property'' ''config.hardware.numCPU''),
      (InstanceMemory, info ''property'' ''summary.config.memorySizeMB''),
      (InstanceOSTemplate, info ''property'' ''config.guestFullName''),
      (InstanceOS, info ''guest_info'' ''guestInfo.detailed.data''),
      (InstanceOSDescription, info ''guest_info'' ''guestInfo.detailed.data''),
      (InstanceLegacyBoot, info ''property'' ''config.firmware''),
      (InstanceSecureBoot, info ''property'' ''config.bootOptions.efiSecureBootEnabled''),
      (InstanceTPM, info ''property'' ''summary.config.tpmPresent''),
      (InstanceDescription, info ''property'' ''config.annotation''),
      (InstanceUUID, info ''property'' ''summary.config.instanceUuid''),
      (InstanceLocation, info ''vm_info'' ''InventoryPath''),
      (InstanceName, info ''property'' ''config.name''),
      (InstanceArchitecture, info ''guest_info'' ''guestInfo.detailed.data''),
      (InstanceRunning, info ''property'' ''summary.runtime.powerState''),
      (InstanceDisks, info ''property_disk'' ''config.hardware.device''),
      (InstanceNICs, info ''property_ethernet'' ''config.hardware.device''),
      (InstanceSnapshots, info ''property_snapshot'' ''snapshot.rootSnapshotList''),
      (InstanceBackgroundImport, info ''property'' ''config.changeTrackingEnabled''),
      (InstanceConfig, info ''property'' ''summary.customValue'')]"

definition vmware_sub_props :: "(prop_name, (prop_name, property_info) gomap) gomap" where
  "vmware_sub_props =
     [(InstanceDisks, [(InstanceDiskName, info '''' ''backing.fileName''), (InstanceDiskCapacity, info '''' ''capacityInBytes''),
        (InstanceDiskShared, info '''' ''backing.sharing'')]),
      (InstanceNICs, [(InstanceNICHardwareAddress, info '''' ''macAddress''), (InstanceNICLocation, info '''' ''InventoryPath''),
        (InstanceNICSourceSpecificID,
           info '''' ''backing.network.value,backing.port.portgroupKey,backing.opaqueNetworkId''),
        (InstanceNICIPv4Address, info '''' ''guest.net.ipConfig.ipAddress.ipAddress''),
        (InstanceNICIPv6Address, info '''' ''guest.net.ipConfig.ipAddress.ipAddress'')]),
      (InstanceSnapshots, [(InstanceSnapshotName, info '''' ''name'')])]"

lemma vmware_version:
  assumes "semver_plain x" "vmware_served x version"
  shows "get_version_info x (ESource SOURCETYPE_VMWARE) version [(''8.0'', i)] = Inr i"
  using assms by (auto simp: get_version_info_def compare_versions_def compare_source_versions_def semver_plain_def
      vmware_served_def cut_at_def gm_get_def Let_def)

lemma vmware_version_not:
  assumes "semver_plain x" "\<not> vmware_served x version"
  shows "\<exists>e. get_version_info x (ESource SOURCETYPE_VMWARE) version [(''8.0'', i)] = Inl e"
  using assms by (auto simp: get_version_info_def compare_versions_def compare_source_versions_def semver_plain_def
      vmware_served_def cut_at_def Let_def)

lemma vmware_defs:
  assumes "semver_plain x" "vmware_served x version"
  shows "definitions x the_schema (ESource SOURCETYPE_VMWARE) version =
    Inr ((new_raw_set (ESource SOURCETYPE_VMWARE) version)\<lparr>rs_Props := vmware_props, rs_SubProps := vmware_sub_props\<rparr>)"
  unfolding definitions_def the_schema_def
  by (simp add: schema_simps mapping_for_def vmware_version [OF assms] has_sub_properties_def
      new_raw_set_def vmware_props_def vmware_sub_props_def Let_def)

lemma vmware_defs_not:
  assumes "semver_plain x" "\<not> vmware_served x version"
  shows "\<exists>e. definitions x the_schema (ESource SOURCETYPE_VMWARE) version = Inl e"
proof -
  obtain e where "get_version_info x (ESource SOURCETYPE_VMWARE) version
      [(''8.0'', info ''property'' ''config.hardware.numCPU'')] = Inl e"
    using vmware_version_not [OF assms] by blast
  then show ?thesis
    unfolding definitions_def the_schema_def by (simp add: schema_simps mapping_for_def)
qed

section \<open>What is recorded of a VM\<close>

lemma fold_res_keeps:
  assumes "fold_res f xs s = Inr t" "P s" "\<And>a s t. a \<in> set xs \<Longrightarrow> P s \<Longrightarrow> f a s = Inr t \<Longrightarrow> P t"
  shows "P t"
  using assms
proof (induction xs arbitrary: s)
  case (Cons a xs)
  from Cons.prems(1) obtain u where u: "f a s = Inr u" "fold_res f xs u = Inr t"
    by (auto simp: bind_sum_ok)
  from Cons.prems(3) [OF _ Cons.prems(2) u(1)] have "P u" by simp
  with Cons.IH [OF u(2)] Cons.prems(3) show ?case by (meson list.set_intros(2))
qed simp

lemma map_sum_ok [simp]: "map_sum f g r = Inr b \<longleftrightarrow> (\<exists>a. r = Inr a \<and> b = g a)"
  by (cases r) auto

text \<open>Adding a property changes only that property's value.\<close>

lemma set_add_frame: "set_add x n v s = Inr t \<Longrightarrow> rs_SubValues t = rs_SubValues s \<and> rs_SubProps t = rs_SubProps s \<and>
    rs_Props t = rs_Props s \<and> rs_Values t = gm_set n v (rs_Values s) \<and> validate_property x n v = None"
  by (auto simp: set_add_def split: if_splits option.splits)

lemma set_add_device_frame: "set_add_device x n d s = Inr t \<Longrightarrow> has_sub_properties n \<Longrightarrow>
    t = s\<lparr>rs_SubValues := gm_set n (gm_get [] (rs_SubValues s) n @ [rs_Values d]) (rs_SubValues s)\<rparr>"
  by (auto simp: set_add_device_def split: option.splits)

lemma extra_config_adds:
  assumes "get_vm_extra_config x an cfg n i s = Inr t"
  shows "t = s \<or> (\<exists>v. set_add x n v s = Inr t)"
  using assms by (auto simp: get_vm_extra_config_def bind_sum_ok Let_def case_prod_beta split: prop_name.splits)

lemma vm_property_adds:
  assumes "add_vm_property x vm obj n i s = Inr t"
  shows "t = s \<or> (\<exists>v. set_add x n v s = Inr t)"
  using assms by (auto simp: add_vm_property_def bind_sum_ok split: sum.splits if_splits)

lemma device_properties_collected:
  assumes "get_device_properties x s n kind json = Inr d"
  shows "collected x d"
proof -
  from assms obtain obj sub where s: "set_get_sub s n = Inr sub" and
    f: "fold_res (\<lambda>(k, i) s. bind_sum (device_has_sub n kind k) (\<lambda>has.
           if has then add_json_property x obj (k, i) s else Inr s)) (rs_Props sub) sub = Inr d"
    by (auto simp: get_device_properties_def bind_sum_ok)
  show ?thesis
  proof (rule fold_res_keeps [OF f])
    show "collected x sub"
      using s by (intro collected.fresh) (auto simp: set_get_sub_def new_raw_set_def split: if_splits option.splits)
  qed (auto simp: bind_sum_ok add_json_property_def split: if_splits prod.splits intro: collected.add)
qed

lemma add_device_collected:
  assumes "set_add_device x n d s = Inr t" "collected x s" "collected x d"
  shows "collected x t"
  using assms by (metis collected.add_device)

lemma add_disk_runs:
  assumes "add_disk x InstanceDisks dev b (s, us) = Inr (t, us')"
  obtains d where "collected x d" "map_of (rs_Values d) InstanceDiskName = Some (VString (fst (is_supported_disk b)))"
    "set_add_device x InstanceDisks d s = Inr t"
    "us' = (if snd (snd (is_supported_disk b)) = None then us else fst (is_supported_disk b) # us)"
proof -
  obtain n sn e where b: "is_supported_disk b = (n, sn, e)" by (cases "is_supported_disk b")
  from assms obtain sub d where d: "get_device_properties x s InstanceDisks (Some (dev_Kind dev)) (dev_JSON dev) = Inr sub"
    and n: "set_add x InstanceDiskName (VString n) sub = Inr d" and t: "set_add_device x InstanceDisks d s = Inr t"
    and us: "us' = (if e = None then us else n # us)"
    by (auto simp: add_disk_def b bind_sum_ok Let_def)
  from collected.add [OF device_properties_collected [OF d] n] set_add_frame [OF n] t us b show ?thesis
    by (intro that [of d]) auto
qed

text \<open>The devices recorded so far, of each kind. A property leaves those of other kinds alone.\<close>

definition sub_values :: "raw_set \<Rightarrow> prop_name \<Rightarrow> (prop_name, any_value) gomap list" where
  "sub_values s n = gm_get [] (rs_SubValues s) n"

definition others_kept :: "ext \<Rightarrow> prop_name \<Rightarrow> raw_set \<Rightarrow> raw_set \<Rightarrow> bool" where
  "others_kept x n s t \<longleftrightarrow> collected x t \<and> (\<forall>k. k \<noteq> n \<longrightarrow> sub_values t k = sub_values s k)"

lemma others_kept_refl: "collected x s \<Longrightarrow> others_kept x n s s"
  by (simp add: others_kept_def)

lemma others_kept_trans: "others_kept x n s t \<Longrightarrow> others_kept x n t u \<Longrightarrow> others_kept x n s u"
  by (simp add: others_kept_def)

lemma others_kept_add: "set_add x k v s = Inr t \<Longrightarrow> collected x s \<Longrightarrow> others_kept x n s t"
  using collected.add [of x s k v t] set_add_frame [of x k v s t] by (auto simp: others_kept_def sub_values_def)

lemma others_kept_device:
  assumes "set_add_device x n d s = Inr t" "has_sub_properties n" "collected x s" "collected x d"
  shows "others_kept x n s t \<and> sub_values t n = sub_values s n @ [rs_Values d]"
  using add_device_collected [OF assms(1,3,4)] set_add_device_frame [OF assms(1,2)]
  by (auto simp: others_kept_def sub_values_def)

lemma add_nic_runs:
  assumes "add_nic x vm locs InstanceNICs dev s = Inr t" "collected x s"
  shows "others_kept x InstanceNICs s t \<and> (\<exists>d. sub_values t InstanceNICs = sub_values s InstanceNICs @ [d])"
proof -
  from assms(1) obtain sub sub1 sub2 sub3 where
    d: "get_device_properties x s InstanceNICs (Some (dev_Kind dev)) (dev_JSON dev) = Inr sub"
    and s1: "sub1 = sub \<or> (\<exists>v. set_add x InstanceNICLocation v sub = Inr sub1)"
    and s2: "sub2 = sub1 \<or> (\<exists>v. set_add x InstanceNICIPv4Address v sub1 = Inr sub2)"
    and s3: "sub3 = sub2 \<or> (\<exists>v. set_add x InstanceNICIPv6Address v sub2 = Inr sub3)"
    and t: "set_add_device x InstanceNICs sub3 s = Inr t"
    unfolding add_nic_def Let_def bind_sum_ok
    by (auto simp: bind_sum_ok split: if_splits option.splits prod.splits) metis+
  from device_properties_collected [OF d] s1 s2 s3 have "collected x sub3" by (metis collected.add)
  with others_kept_device [OF t _ assms(2)] show ?thesis by (auto simp: has_sub_properties_def)
qed

lemma add_snapshot_runs:
  assumes "add_snapshot x InstanceSnapshots json s = Inr t" "collected x s"
  shows "others_kept x InstanceSnapshots s t"
proof -
  from assms(1) obtain d where d: "get_device_properties x s InstanceSnapshots None json = Inr d"
    "set_add_device x InstanceSnapshots d s = Inr t"
    by (auto simp: add_snapshot_def bind_sum_ok)
  with others_kept_device [OF d(2) _ assms(2) device_properties_collected [OF d(1)]]
  show ?thesis by (simp add: has_sub_properties_def)
qed

text \<open>The disks and network cards of a VM, in order.\<close>

definition disk_backings :: "device list \<Rightarrow> disk_backing list" where
  "disk_backings devs = List.map_filter (\<lambda>d. case dev_Kind d of KDisk b _ _ \<Rightarrow> Some b | _ \<Rightarrow> None) devs"

definition network_cards :: "device list \<Rightarrow> device list" where
  "network_cards devs = filter (\<lambda>d. dev_Kind d = KEthernet) devs"

definition base_name :: "disk_backing \<Rightarrow> string" where
  "base_name b = fst (is_supported_disk b)"

definition disk_problem :: "disk_backing \<Rightarrow> err option" where
  "disk_problem b = snd (snd (is_supported_disk b))"

definition names_of :: "(prop_name, any_value) gomap list \<Rightarrow> any_value option list" where
  "names_of vs = map (\<lambda>v. map_of v InstanceDiskName) vs"

lemma disks_run:
  assumes "fold_res (\<lambda>dev s. case dev_Kind dev of KDisk b _ _ \<Rightarrow> add_disk x InstanceDisks dev b s | _ \<Rightarrow> Inr s) devs (s, us) = Inr (t, us')"
    and "collected x s"
  shows "others_kept x InstanceDisks s t \<and>
    names_of (sub_values t InstanceDisks) =
      names_of (sub_values s InstanceDisks) @ map (\<lambda>b. Some (VString (base_name b))) (disk_backings devs) \<and>
    set us' = set us \<union> base_name ` {b \<in> set (disk_backings devs). disk_problem b \<noteq> None}"
  using assms
proof (induction devs arbitrary: s us)
  case Nil
  then show ?case by (simp add: others_kept_refl disk_backings_def List.map_filter_simps)
next
  case (Cons dev devs)
  show ?case
  proof (cases "\<exists>b k u. dev_Kind dev = KDisk b k u")
    case True
    then obtain b k u where kind: "dev_Kind dev = KDisk b k u" by blast
    with Cons.prems obtain r vs where r: "add_disk x InstanceDisks dev b (s, us) = Inr (r, vs)"
      "fold_res (\<lambda>dev s. case dev_Kind dev of KDisk b _ _ \<Rightarrow> add_disk x InstanceDisks dev b s | _ \<Rightarrow> Inr s) devs (r, vs) = Inr (t, us')"
      by (auto simp: bind_sum_ok)
    from r(1) obtain d where d: "collected x d" "map_of (rs_Values d) InstanceDiskName = Some (VString (base_name b))"
      "set_add_device x InstanceDisks d s = Inr r" "vs = (if disk_problem b = None then us else base_name b # us)"
      unfolding base_name_def disk_problem_def by (rule add_disk_runs)
    from others_kept_device [OF d(3) _ Cons.prems(2) d(1)]
    have s: "others_kept x InstanceDisks s r" "sub_values r InstanceDisks = sub_values s InstanceDisks @ [rs_Values d]"
      by (simp_all add: has_sub_properties_def)
    from Cons.IH [OF r(2)] s(1) have
      "others_kept x InstanceDisks r t \<and>
       names_of (sub_values t InstanceDisks) =
         names_of (sub_values r InstanceDisks) @ map (\<lambda>b. Some (VString (base_name b))) (disk_backings devs) \<and>
       set us' = set vs \<union> base_name ` {b \<in> set (disk_backings devs). disk_problem b \<noteq> None}"
      by (simp add: others_kept_def)
    moreover have "disk_backings (dev # devs) = b # disk_backings devs"
      by (simp add: disk_backings_def List.map_filter_simps kind)
    ultimately show ?thesis
      using s d(2,4) others_kept_trans by (auto simp: names_of_def)
  next
    case False
    then have "disk_backings (dev # devs) = disk_backings devs"
      by (auto simp: disk_backings_def List.map_filter_simps split: device_kind.split)
    moreover from False Cons.prems have
      "fold_res (\<lambda>dev s. case dev_Kind dev of KDisk b _ _ \<Rightarrow> add_disk x InstanceDisks dev b s | _ \<Rightarrow> Inr s) devs (s, us) = Inr (t, us')"
      by (auto split: device_kind.splits)
    ultimately show ?thesis using Cons.IH [OF _ Cons.prems(2)] by simp
  qed
qed

lemma nics_run:
  assumes "fold_res (\<lambda>dev p. if dev_Kind dev = KEthernet then add_nic x vm locs InstanceNICs dev p else Inr p) devs s = Inr t"
    and "collected x s"
  shows "others_kept x InstanceNICs s t \<and>
    length (sub_values t InstanceNICs) = length (sub_values s InstanceNICs) + length (network_cards devs)"
  using assms
proof (induction devs arbitrary: s)
  case (Cons dev devs)
  show ?case
  proof (cases "dev_Kind dev = KEthernet")
    case True
    with Cons.prems obtain r where r: "add_nic x vm locs InstanceNICs dev s = Inr r"
      "fold_res (\<lambda>dev p. if dev_Kind dev = KEthernet then add_nic x vm locs InstanceNICs dev p else Inr p) devs r = Inr t"
      by (auto simp: bind_sum_ok)
    from add_nic_runs [OF r(1) Cons.prems(2)] obtain d where d: "others_kept x InstanceNICs s r"
      "sub_values r InstanceNICs = sub_values s InstanceNICs @ [d]" by blast
    with Cons.IH [OF r(2)] True show ?thesis
      using others_kept_trans by (auto simp: others_kept_def network_cards_def)
  next
    case False
    with Cons show ?thesis by (simp add: network_cards_def)
  qed
qed (simp add: others_kept_refl network_cards_def)

lemma collect_kept:
  assumes "collect_property x an path vm cfg locs obj (n, i) (s, us) = Inr (t, us')" "(n, i) \<in> set vmware_props" "collected x s"
  shows "others_kept x n s t \<and> (n \<noteq> InstanceDisks \<longrightarrow> us' = us)"
proof -
  have add: "t = s \<or> (\<exists>v. set_add x n v s = Inr t) \<Longrightarrow> others_kept x n s t"
    using others_kept_refl others_kept_add assms(3) by blast
  consider "pi_Type i = ''vm_info''" | "pi_Type i = ''guest_info''" | "pi_Type i = ''property''"
    | "pi_Type i = ''property_snapshot''" "n = InstanceSnapshots"
    | "pi_Type i = ''property_ethernet''" "n = InstanceNICs"
    | "pi_Type i = ''property_disk''" "n = InstanceDisks"
    using assms(2) unfolding vmware_props_def by fastforce
  then show ?thesis
  proof cases
    case 1
    with assms(1) add show ?thesis by (auto simp: collect_property_def split: if_splits)
  next
    case 2
    with assms(1) add show ?thesis
      by (auto simp: collect_property_def dest!: extra_config_adds split: option.splits)
  next
    case 3
    with assms(1) add show ?thesis by (auto simp: collect_property_def dest!: vm_property_adds)
  next
    case 4
    with assms(1) have f: "fold_res (add_snapshot x n) (case vm_Snapshots vm of None \<Rightarrow> [] | Some snaps \<Rightarrow> snaps) s = Inr t"
      and us: "us' = us"
      by (auto simp: collect_property_def)
    have "others_kept x n s t"
      using f
    proof (rule fold_res_keeps [where P = "others_kept x n s"])
      show "others_kept x n s s" using assms(3) by (rule others_kept_refl)
    next
      fix a v w assume "others_kept x n s v" "add_snapshot x n a v = Inr w"
      with 4(2) show "others_kept x n s w"
        using add_snapshot_runs others_kept_trans by (auto simp: others_kept_def)
    qed
    with us show ?thesis by simp
  next
    case 5
    with assms(1) nics_run [OF _ assms(3)] show ?thesis by (auto simp: collect_property_def)
  next
    case 6
    with assms(1) disks_run [OF _ assms(3)] show ?thesis by (auto simp: collect_property_def)
  qed
qed

lemma collect_all_kept:
  assumes "fold_res (collect_property x an path vm cfg locs obj) L (s, us) = Inr (t, us')" "set L \<subseteq> set vmware_props" "collected x s"
  shows "collected x t \<and> (\<forall>k. k \<notin> fst ` set L \<longrightarrow> sub_values t k = sub_values s k) \<and>
    (InstanceDisks \<notin> fst ` set L \<longrightarrow> us' = us)"
  using assms
proof (induction L arbitrary: s us)
  case (Cons p L)
  obtain n i where p: "p = (n, i)" by fastforce
  from Cons.prems(1) obtain r vs where r: "collect_property x an path vm cfg locs obj (n, i) (s, us) = Inr (r, vs)"
    "fold_res (collect_property x an path vm cfg locs obj) L (r, vs) = Inr (t, us')"
    by (auto simp: p bind_sum_ok)
  from collect_kept [OF r(1) _ Cons.prems(3)] Cons.prems(2) have k: "others_kept x n s r" "n \<noteq> InstanceDisks \<longrightarrow> vs = us"
    by (auto simp: p)
  from Cons.IH [OF r(2)] Cons.prems(2) k show ?case by (auto simp: others_kept_def p)
qed simp

lemma fold_res_append: "fold_res f (xs @ ys) s = bind_sum (fold_res f xs s) (fold_res f ys)"
proof (induction xs arbitrary: s)
  case (Cons a xs)
  then show ?case by (cases "f a s") auto
qed simp

text \<open>What one entry of the schema adds is still there at the end.\<close>

lemma collect_split:
  assumes "fold_res (collect_property x an path vm cfg locs obj) vmware_props (s, []) = Inr (t, us)"
    and "vmware_props = L @ (n, i) # R" "collected x s"
  obtains s1 us1 s2 us2 where "collect_property x an path vm cfg locs obj (n, i) (s1, us1) = Inr (s2, us2)" "collected x s1"
    "sub_values s1 n = sub_values s n" "sub_values t n = sub_values s2 n" "n = InstanceDisks \<Longrightarrow> us1 = [] \<and> us = us2"
    "collected x t"
proof -
  have d: "distinct (map fst vmware_props)" by (simp add: vmware_props_def)
  have n: "n \<notin> fst ` set L" "n \<notin> fst ` set R" using d unfolding assms(2) by auto
  from assms(1) obtain s1 us1 s2 us2 where
    f: "fold_res (collect_property x an path vm cfg locs obj) L (s, []) = Inr (s1, us1)"
    "collect_property x an path vm cfg locs obj (n, i) (s1, us1) = Inr (s2, us2)"
    "fold_res (collect_property x an path vm cfg locs obj) R (s2, us2) = Inr (t, us)"
    unfolding assms(2) fold_res_append by (auto simp: bind_sum_ok)
  have sub: "set L \<subseteq> set vmware_props" "(n, i) \<in> set vmware_props" "set R \<subseteq> set vmware_props"
    unfolding assms(2) by auto
  from collect_all_kept [OF f(1) sub(1) assms(3)] n have a: "collected x s1" "sub_values s1 n = sub_values s n"
      "n = InstanceDisks \<Longrightarrow> us1 = []" by auto
  from collect_kept [OF f(2) sub(2) a(1)] have "collected x s2" by (simp add: others_kept_def)
  from collect_all_kept [OF f(3) sub(3) this] n have "collected x t" "sub_values t n = sub_values s2 n"
      "n = InstanceDisks \<Longrightarrow> us = us2" by auto
  with that [OF f(2) a(1,2)] a(3) \<open>collected x t\<close> show ?thesis by blast
qed

lemma map_res_map:
  assumes "map_res f xs = Inr ys" "\<And>x y. x \<in> set xs \<Longrightarrow> f x = Inr y \<Longrightarrow> g y = h x"
  shows "map g ys = map h xs"
  using assms
proof (induction xs arbitrary: ys)
  case (Cons x xs)
  from Cons.prems(1) obtain y zs where y: "f x = Inr y" "map_res f xs = Inr zs" "ys = y # zs"
    by (auto simp: bind_sum_ok)
  from Cons.IH [OF y(2)] Cons.prems(2) y show ?case by simp
qed simp

definition vmware_disks_recorded :: "device list \<Rightarrow> disk list \<Rightarrow> bool" where
  "vmware_disks_recorded devs ds \<longleftrightarrow>
     map d_Name ds = map base_name (disk_backings devs) \<and>
     (\<forall>d \<in> set ds. d_Supported d \<longleftrightarrow> (\<forall>b \<in> set (disk_backings devs). base_name b = d_Name d \<longrightarrow> disk_problem b = None))"

lemma disk_of_named:
  assumes "disk_of x uns v = Inr d" "map_of v InstanceDiskName = Some (VString n)"
  shows "d_Name d = n \<and> (d_Supported d \<longleftrightarrow> \<not> uns n)"
  using assms by (auto simp: disk_of_def bind_sum_ok field_def)

lemma set_to_api_devices:
  assumes "set_to_api x s uns = Inr p"
  shows "map_res (nic_of x) (sub_values s InstanceNICs) = Inr (ip_NICs p)"
    and "map_res (disk_of x uns) (sub_values s InstanceDisks) = Inr (ip_Disks p)"
proof -
  have "map_res (nic_of x) (sub_values s InstanceNICs) = Inr (ip_NICs p) \<and>
      map_res (disk_of x uns) (sub_values s InstanceDisks) = Inr (ip_Disks p)"
    using assms unfolding set_to_api_def Let_def bind_sum_ok sub_values_def by (elim exE conjE) (clarify, simp)
  then show "map_res (nic_of x) (sub_values s InstanceNICs) = Inr (ip_NICs p)"
    "map_res (disk_of x uns) (sub_values s InstanceDisks) = Inr (ip_Disks p)" by simp_all
qed

lemma recorded_disks:
  assumes "map_res (disk_of x (\<lambda>n. n \<in> set us)) vs = Inr ds" "names_of vs = map (\<lambda>b. Some (VString (base_name b))) (disk_backings devs)"
    and "set us = base_name ` {b \<in> set (disk_backings devs). disk_problem b \<noteq> None}"
  shows "vmware_disks_recorded devs ds"
proof -
  have named: "\<exists>n. map_of v InstanceDiskName = Some (VString n)" if "v \<in> set vs" for v
  proof -
    have "map_of v InstanceDiskName \<in> set (names_of vs)" using that by (simp add: names_of_def)
    with assms(2) show ?thesis by auto
  qed
  have "map (\<lambda>d. Some (VString (d_Name d))) ds = names_of vs"
    unfolding names_of_def by (rule map_res_map [OF assms(1)]) (use named disk_of_named in fastforce)
  then have names: "map d_Name ds = map base_name (disk_backings devs)"
    unfolding assms(2)
    by (auto dest: arg_cong [of _ _ "map (\<lambda>v. case v of Some (VString s) \<Rightarrow> s)"] simp: comp_def)
  have "d_Supported d \<longleftrightarrow> d_Name d \<notin> set us" if "d \<in> set ds" for d
    using map_res_ok [OF assms(1) that] named disk_of_named by fastforce
  moreover have "n \<notin> set us \<longleftrightarrow> (\<forall>b \<in> set (disk_backings devs). base_name b = n \<longrightarrow> disk_problem b = None)" for n
  proof -
    have "n \<notin> f ` {b \<in> S. P b} \<longleftrightarrow> (\<forall>b \<in> S. f b = n \<longrightarrow> \<not> P b)" for f :: "disk_backing \<Rightarrow> string" and S P
      by auto
    from this [of base_name "set (disk_backings devs)" "\<lambda>b. disk_problem b \<noteq> None"] show ?thesis
      unfolding assms(3) by simp
  qed
  ultimately show ?thesis using names by (simp add: vmware_disks_recorded_def)
qed


text \<open>A VM with one disk, on which the witness runs.\<close>

definition uuid_ext :: ext where
  "uuid_ext = plain_ext\<lparr>x_uuid_parse := \<lambda>_. Some 7\<rparr>"

definition sample_disk_device :: device where
  "sample_disk_device = \<lparr>dev_Key = 2000, dev_Kind = KDisk (FlatVer2 \<lparr>bf_Name = ''[ds] vm/vm.vmdk'', bf_Mode = ''persistent'', bf_Sharing = ''''\<rparr> []) 1000 (Some 0),
     dev_JSON = Inr (VObj [(''capacityInBytes'', VFloat 10), (''backing'', VObj [(''fileName'', VString ''[ds] vm/vm.vmdk''), (''sharing'', VString '''')])])\<rparr>"

definition sample_config :: vm_config where
  "sample_config = \<lparr>vm_Template = False, vm_ExtraConfig = None, vm_Devices = [sample_disk_device]\<rparr>"

definition sample_vm_json :: any_value where
  "sample_vm_json = VObj
     [(''config'', VObj [(''hardware'', VObj [(''numCPU'', VFloat 2)]), (''guestFullName'', VNull), (''firmware'', VString ''bios''),
        (''bootOptions'', VObj [(''efiSecureBootEnabled'', VNull)]), (''name'', VString ''vm''), (''changeTrackingEnabled'', VBool True)]),
      (''summary'', VObj [(''config'', VObj [(''memorySizeMB'', VFloat 1), (''tpmPresent'', VNull), (''instanceUuid'', VString ''7'')]),
        (''runtime'', VObj [(''powerState'', VString ''poweredOn'')])])]"

definition sample_vm_object :: vm_object where
  "sample_vm_object = \<lparr>vm_JSON = Inr sample_vm_json, vm_Config = Some sample_config, vm_Snapshots = None, vm_GuestNet = None,
     vm_AvailableField = [], vm_ResourcePool = None, vm_PoweredOn = True\<rparr>"

lemma uuid_ext_schema: "semver_plain uuid_ext" "vmware_served uuid_ext ''8.0''"
  by (simp_all add: semver_plain_def vmware_served_def uuid_ext_def plain_ext_def cut_at_def)

lemmas collect_run_simps = collect_property_def add_vm_property_def get_prop_from_keys_def get_map_value_def parse_value_def
  with_text_def with_number_def set_add_def has_sub_properties_def validate_property_def check_text_def name_char_def
  add_disk_def get_device_properties_def set_get_sub_def device_has_sub_def disk_has_sub_def add_json_property_def
  set_add_device_def disk_mode_err_def chain_names_def new_raw_set_def gm_set_def gm_get_def float_to_int_def wrap64_def

lemma sample_vm_runs:
  "\<exists>p. get_vm_properties uuid_ext an the_schema ''8.0'' ''/dc/vm/vm'' sample_vm_object sample_config locs = Inr p"
  unfolding get_vm_properties_def vmware_defs [OF uuid_ext_schema]
  by (simp add: sample_vm_object_def sample_config_def sample_vm_json_def sample_disk_device_def set_get_all_def
      vmware_props_def vmware_sub_props_def uuid_ext_def collect_run_simps set_to_api_def field_def disk_of_def int64_def)


section \<open>No VM is lost\<close>

definition dropped_warning :: "warning \<Rightarrow> bool" where
  "dropped_warning w \<longleftrightarrow> wn_Type w = InstanceIgnored \<or> wn_Type w = InstanceImportFailed"

definition restricted :: "ext \<Rightarrow> inst \<Rightarrow> bool" where
  "restricted x i \<longleftrightarrow> disabled_reason_of x i no_overrides_allowed \<noteq> None"

definition imported_from :: "vmware_source \<Rightarrow> vm_ref \<Rightarrow> inst \<Rightarrow> bool" where
  "imported_from s vm i \<longleftrightarrow> ip_SourceSpecificID (i_Properties i) = vr_Ref vm \<and> i_Source i = vw_Name s"

definition good_result :: "ext \<Rightarrow> vmware_source \<Rightarrow> vm_ref \<Rightarrow> vm_result \<Rightarrow> bool" where
  "good_result x s vm = (\<lambda>(inst, ty, err).
     case inst of
       None \<Rightarrow> err \<noteq> None \<and> (ty = InstanceIgnored \<or> ty = InstanceImportFailed)
     | Some i \<Rightarrow> imported_from s vm i \<and>
         (if restricted x i then err \<noteq> None \<and> ty = InstanceCannotMigrate else err = None))"

lemma finish_vm_good: "good_result x s vm (finish_vm x (vm_instance x s vm p))"
  by (auto simp: finish_vm_def good_result_def restricted_def imported_from_def vm_instance_def Let_def
      split: sum.split option.split)

lemma failures_good: "good_result x s vm (ignored m path)" "good_result x s vm (import_failed m path e)"
  by (simp_all add: good_result_def ignored_def import_failed_def)

lemma get_vm_good: "get_vm x ps c s locs cats vm e = (Inr r, e') \<Longrightarrow> good_result x s vm r"
  unfolding get_vm_def Let_def
  by (auto simp: run_simps failures_good finish_vm_good
      split: if_splits option.splits sum.splits prod.splits)

lemma warning_types: "InstanceIgnored \<noteq> ''''" "InstanceImportFailed \<noteq> ''''" "InstanceCannotMigrate \<noteq> ''''"
    "InstanceCannotMigrate \<noteq> InstanceIgnored" "InstanceCannotMigrate \<noteq> InstanceImportFailed"
  by (simp_all add: InstanceIgnored_def InstanceImportFailed_def InstanceCannotMigrate_def)

definition all_accounted :: "ext \<Rightarrow> vmware_source \<Rightarrow> vm_ref list \<Rightarrow> instances \<Rightarrow> warnings \<Rightarrow> bool" where
  "all_accounted x s vms is ws \<longleftrightarrow>
     length is + length (filter dropped_warning ws) = length vms \<and>
     length (filter (restricted x) is) = length (filter (\<lambda>w. wn_Type w = InstanceCannotMigrate) ws) \<and>
     (\<forall>i \<in> set is. \<exists>vm \<in> set vms. imported_from s vm i) \<and> (\<forall>w \<in> set ws. wn_Entity w = vw_Name s)"

lemma import_vms_accounts:
  assumes "import_vms x ps c s locs cats vms (is, ws, failed) e = (Inr (is', ws', failed'), e')"
  shows "\<exists>js vs. is' = is @ js \<and> ws' = ws @ vs \<and> failed' = failed \<and> all_accounted x s vms js vs"
  using assms
proof (induction vms arbitrary: "is" ws e)
  case Nil
  then show ?case by (simp add: run_simps all_accounted_def)
next
  case (Cons vm vms)
  from Cons.prems obtain inst ty err e1 where g: "get_vm x ps c s locs cats vm e = (Inr (inst, ty, err), e1)"
    by (auto simp: run_simps split: prod.splits sum.splits)
  from get_vm_good [OF g] have good: "good_result x s vm (inst, ty, err)" .
  let ?js = "case inst of None \<Rightarrow> [] | Some i \<Rightarrow> [i]"
  have "\<exists>vs e2. import_vms x ps c s locs cats vms (is @ ?js, ws @ vs, failed) e2 = (Inr (is', ws', failed'), e') \<and>
      all_accounted x s [vm] ?js vs"
  proof (cases err)
    case None
    with good obtain i where "inst = Some i" "imported_from s vm i" "\<not> restricted x i"
      by (auto simp: good_result_def split: option.splits if_splits)
    with Cons.prems g None show ?thesis
      by (intro exI [of _ "[]"] exI [of _ e1]) (simp add: run_simps all_accounted_def)
  next
    case (Some er)
    with good have "ty \<noteq> ''''" by (auto simp: good_result_def warning_types warning_types [symmetric] split: option.splits if_splits)
    with Cons.prems g Some obtain er' u e2 where
      "import_vms x ps c s locs cats vms (is @ ?js, ws @ [new_sync_warning u ty (vw_Name s) er'], failed) e2 = (Inr (is', ws', failed'), e')"
      by (auto simp: run_simps split: prod.splits sum.splits)
    moreover have "all_accounted x s [vm] ?js [new_sync_warning u ty (vw_Name s) er']"
      using good Some by (auto simp: good_result_def all_accounted_def new_sync_warning_def dropped_warning_def warning_types warning_types [symmetric]
          split: option.splits if_splits)
    ultimately show ?thesis by blast
  qed
  then obtain vs e2 where r: "import_vms x ps c s locs cats vms (is @ ?js, ws @ vs, failed) e2 = (Inr (is', ws', failed'), e')"
    and a: "all_accounted x s [vm] ?js vs" by blast
  from Cons.IH [OF r] obtain js us where "is' = (is @ ?js) @ js" "ws' = (ws @ vs) @ us" "failed' = failed"
    "all_accounted x s vms js us" by blast
  with a show ?case
    by (intro exI [of _ "?js @ js"] exI [of _ "vs @ us"]) (auto simp: all_accounted_def)
qed


text \<open>A VMware with the one VM above, connected to.\<close>

definition sample_vm_ref :: vm_ref where
  "sample_vm_ref = \<lparr>vr_Path = ''/dc/vm/vm'', vr_Ref = ''VirtualMachine:vm-1''\<rparr>"

definition sample_vsphere :: "string vsphere" where
  "sample_vsphere =
     \<lparr>vs_connect = (\<lambda>_ _. ret (''8.0'', ''VirtualCenter'')), vs_fingerprint = id, vs_logout = ret (),
      vs_expired = ret False, vs_not_found = (\<lambda>_. False), vs_new_uuid = ret 9, vs_net_encode = (\<lambda>_. Inr ''{}''),
      vs_arch_name = Inr, vs_vms = (\<lambda>_. ret [sample_vm_ref]), vs_networks = (\<lambda>_. ret [\<lparr>nr_Path = ''/dc/net'', nr_Value = ''n''\<rparr>]),
      vs_datastores = (\<lambda>_. ret [''/dc/datastore/ds'']), vs_card_backing = (\<lambda>_. ret OtherCardBacking),
      vs_network_view = ret (), vs_network_objects = ret [StandardNetwork ''n''], vs_rest_login = ret (),
      vs_categories = ret [], vs_extensions = ret [], vs_vm_object = (\<lambda>_. ret sample_vm_object), vs_tags = (\<lambda>_. ret []),
      vs_pool_name = (\<lambda>_. ret ''pool''), vs_find_uuid = (\<lambda>_. ret (Some sample_vm_ref)), vs_find_path = (\<lambda>_. ret sample_vm_ref),
      vs_power_state = (\<lambda>_. gets id), vs_power_on = (\<lambda>_. modify (\<lambda>_. ''poweredOn'')),
      vs_power_off = (\<lambda>_. modify (\<lambda>_. ''poweredOff'')), vs_shutdown_guest = (\<lambda>_. modify (\<lambda>_. ''poweredOff'')),
      vs_tools_unavailable = (\<lambda>_. False), vs_wait_off = (\<lambda>_. ret ()), vs_wait = ret (), vs_remove_snapshots = (\<lambda>_. ret ()),
      vs_find_snapshot = (\<lambda>_ _. ret ''snap''), vs_remove_snapshot = (\<lambda>_ _. ret ()), vs_reconfigure = (\<lambda>_ _. ret ()),
      vs_stat = (\<lambda>_ f. if f = ''vm/vm-ctk.vmdk'' then ret () else throw (ExternalErr ''no such file''))\<rparr>"

lemma sample_vsphere_simps [simp]:
  "vs_vms sample_vsphere p = ret [sample_vm_ref]" "vs_networks sample_vsphere p = ret [\<lparr>nr_Path = ''/dc/net'', nr_Value = ''n''\<rparr>]"
  "vs_datastores sample_vsphere p = ret [''/dc/datastore/ds'']" "vs_card_backing sample_vsphere n = ret OtherCardBacking"
  "vs_network_view sample_vsphere = ret ()" "vs_network_objects sample_vsphere = ret [StandardNetwork ''n'']"
  "vs_vm_object sample_vsphere vm = ret sample_vm_object" "vs_new_uuid sample_vsphere = ret 9"
  "vs_net_encode sample_vsphere q = Inr ''{}''" "vs_arch_name sample_vsphere = Inr" "vs_expired sample_vsphere = ret False"
  "vs_power_state sample_vsphere vm = gets id" "vs_shutdown_guest sample_vsphere vm = modify (\<lambda>_. ''poweredOff'')"
  "vs_wait_off sample_vsphere vm = ret ()"
  "vs_stat sample_vsphere st f = (if f = ''vm/vm-ctk.vmdk'' then ret () else throw (ExternalErr ''no such file''))"
  by (simp_all add: sample_vsphere_def)

definition sample_vw :: vmware_source where
  "sample_vw = \<lparr>vw_Source = \<lparr>as_Name = ''src'', as_Properties = '''', as_SourceType = SOURCETYPE_VMWARE\<rparr>,
     vw_Properties = sample_vmware 0, vw_Timeout = minute, vw_Version = ''8.0'', vw_ESXI = True, vw_Connected = True\<rparr>"

section \<open>Power\<close>

text \<open>
  A VM that was switched off without an error is off: VMware reported it so, or confirmed it
  after the shutdown, or refused the shutdown because it was off already.
\<close>

theorem power_off_confirmed:
  assumes "vm_power_off c vm e = (Inr (), e')"
  shows "(\<exists>e1 e2. vs_power_state c vm e1 = (Inr ''poweredOff'', e2)) \<or>
    (\<exists>e1 e2. vs_wait_off c vm e1 = (Inr (), e2)) \<or>
    (\<exists>e1 err e2. try_shutdown c vm e1 = (Inl err, e2) \<and> suffix already_off_text (err_text err))"
proof -
  from assms obtain st e1 where st: "vs_power_state c vm e = (Inr st, e1)"
    by (auto simp: vm_power_off_def run_simps split: prod.splits sum.splits)
  show ?thesis
  proof (cases "st = ''poweredOff''")
    case False
    obtain r e2 where r: "try_shutdown c vm e1 = (r, e2)" by fastforce
    show ?thesis
    proof (cases r)
      case (Inr u)
      with r obtain e3 where "vs_wait_off c vm e3 = (Inr (), e2)"
        by (auto simp: try_shutdown_def run_simps split: prod.splits sum.splits)
      then show ?thesis by blast
    next
      case (Inl er)
      with r st False assms have "suffix already_off_text (err_text er) \<or> or_state c vm ''poweredOff'' er e2 = (Inr (), e')"
        by (auto simp: vm_power_off_def run_simps split: if_splits)
      moreover have "\<exists>e3. vs_power_state c vm e2 = (Inr ''poweredOff'', e3)"
        if "or_state c vm ''poweredOff'' er e2 = (Inr (), e')"
        using that by (auto simp: or_state_def run_simps split: prod.splits sum.splits if_splits)
      ultimately show ?thesis using r Inl by blast
    qed
  qed (use st in blast)
qed

theorem power_off_confirmed_witness:
  "\<exists>e1 e2. vs_wait_off sample_vsphere sample_vm_ref e1 = (Inr (), e2) \<and> vm_power_off sample_vsphere sample_vm_ref ''poweredOn'' = (Inr (), ''poweredOff'')"
proof -
  have "vm_power_off sample_vsphere sample_vm_ref ''poweredOn'' = (Inr (), ''poweredOff'')"
    by (simp add: vm_power_off_def try_shutdown_def run_simps)
  with power_off_confirmed [OF this] show ?thesis by (simp add: run_simps)
qed


section \<open>Verified disks\<close>

definition tracking_seen :: "'e vsphere \<Rightarrow> string \<Rightarrow> bool" where
  "tracking_seen c name \<longleftrightarrow> (\<exists>st p e1 e2. name = ''['' @ path_base st @ ''] '' @ p @ ''.vmdk'' \<and>
     vs_stat c st (p @ ''-ctk.vmdk'') e1 = (Inr (), e2))"

definition tracking_missed :: "'e vsphere \<Rightarrow> bool" where
  "tracking_missed c \<longleftrightarrow> (\<exists>st f e1 er e2. vs_stat c st f e1 = (Inl er, e2) \<and> \<not> is_deadline er)"

definition disk_verified :: "'e vsphere \<Rightarrow> disk \<Rightarrow> disk \<Rightarrow> bool" where
  "disk_verified c d d' \<longleftrightarrow> d' = d \<or> d' = d\<lparr>d_BackgroundImportVerified := True\<rparr> \<and> tracking_seen c (d_Name d)"

lemma disk_location_prefix:
  "disk_location stores name = (Some st, path) \<Longrightarrow> name = ''['' @ path_base st @ ''] '' @ path"
  by (induction stores) (auto simp: Let_def prefix_def split: if_splits)

lemma cut_suffix_Some: "cut_suffix suf s = Some p \<Longrightarrow> s = p @ suf"
  by (auto simp: cut_suffix_def suffix_def split: if_splits)

lemma verify_disks_sound:
  assumes "verify_disks c stores cand ds e = (Inr (ds', off, upd), e')"
  shows "list_all2 (disk_verified c) ds ds' \<and> (off \<longrightarrow> tracking_missed c)"
  using assms
proof (induction ds arbitrary: ds' off upd e)
  case Nil
  then show ?case by (simp add: run_simps)
next
  case (Cons d ds)
  have refl: "list_all2 (disk_verified c) xs xs" for xs
    by (rule list_all2_refl) (simp add: disk_verified_def)
  have keep: ?case if "bindm (verify_disks c stores cand ds) (\<lambda>(ds', off, upd). ret (d # ds', off, upd)) e = (Inr (ds', off, upd), e')"
    using that Cons.IH by (auto simp: run_simps disk_verified_def split: prod.splits sum.splits)
  obtain store path where loc: "disk_location stores (d_Name d) = (store, path)" by fastforce
  show ?case
  proof (cases "d_Name d \<notin> set cand \<or> cut_suffix ''.vmdk'' path = None")
    case True
    with Cons.prems keep loc show ?thesis by (auto simp: Let_def split: if_splits)
  next
    case False
    then obtain p where p: "cut_suffix ''.vmdk'' path = Some p" "d_Name d \<in> set cand" by auto
    show ?thesis
    proof (cases store)
      case None
      with Cons.prems p loc refl show ?thesis by (auto simp: Let_def run_simps)
    next
      case (Some st)
      obtain r e1 where st: "vs_stat c st (p @ ''-ctk.vmdk'') e = (r, e1)" by fastforce
      show ?thesis
      proof (cases r)
        case (Inl er)
        then have "\<not> is_deadline er \<Longrightarrow> tracking_missed c" using st unfolding tracking_missed_def by blast
        moreover have "disk_verified c d d" by (simp add: disk_verified_def)
        ultimately show ?thesis using Inl Cons.prems p loc Some st refl
          by (auto simp: Let_def run_simps split: if_splits)
      next
        case (Inr u)
        from disk_location_prefix loc Some cut_suffix_Some [OF p(1)] have "d_Name d = ''['' @ path_base st @ ''] '' @ p @ ''.vmdk''"
          by auto
        moreover from st Inr have "vs_stat c st (p @ ''-ctk.vmdk'') e = (Inr (), e1)" by simp
        ultimately have "tracking_seen c (d_Name d)" unfolding tracking_seen_def by blast
        with Inr Cons.prems p loc Some st show ?thesis
          using Cons.IH by (auto simp: Let_def run_simps disk_verified_def split: prod.splits sum.splits)
      qed
    qed
  qed
qed

definition verified_from :: "'e vsphere \<Rightarrow> inst \<Rightarrow> inst \<Rightarrow> bool" where
  "verified_from c i j \<longleftrightarrow> (\<exists>ds bg.
     j = i\<lparr>i_Properties := (i_Properties i)\<lparr>ip_Disks := ds, ip_BackgroundImport := bg\<rparr>\<rparr> \<and>
     list_all2 (disk_verified c) (ip_Disks (i_Properties i)) ds \<and>
     (bg \<longrightarrow> ip_BackgroundImport (i_Properties i)) \<and>
     (ip_BackgroundImport (i_Properties i) \<and> \<not> bg \<longrightarrow> tracking_missed c))"

lemma verify_inst_sound:
  assumes "verify_inst c stores cand i e = (Inr (Some j), e')"
  shows "verified_from c i j"
proof -
  from assms obtain ds off upd where v: "verify_disks c stores cand (ip_Disks (i_Properties i)) e = (Inr (ds, off, upd), e')"
    and j: "j = i\<lparr>i_Properties := (i_Properties i)\<lparr>ip_Disks := ds, ip_BackgroundImport := ip_BackgroundImport (i_Properties i) \<and> \<not> off\<rparr>\<rparr>"
    by (auto simp: verify_inst_def run_simps split: prod.splits sum.splits if_splits)
  from verify_disks_sound [OF v] j show ?thesis unfolding verified_from_def by blast
qed

lemma verify_insts_sound:
  assumes "verify_insts c stores cands is e = (Inr js, e')" "j \<in> set js"
  shows "\<exists>i \<in> set is. verified_from c i j"
  using assms
proof (induction "is" arbitrary: js e)
  case (Cons i "is")
  show ?case
  proof (cases "map_of cands (i_UUID i)")
    case None
    with Cons show ?thesis by auto
  next
    case (Some cand)
    with Cons.prems(1) obtain r e1 js' where r: "verify_inst c stores cand i e = (Inr r, e1)"
      "verify_insts c stores cands is e1 = (Inr js', e')" "js = (case r of None \<Rightarrow> js' | Some j \<Rightarrow> j # js')"
      by (auto simp: run_simps split: prod.splits sum.splits)
    show ?thesis
    proof (cases "j \<in> set js'")
      case True
      with Cons.IH [OF r(2)] show ?thesis by auto
    next
      case False
      with r(3) Cons.prems(2) have "r = Some j" by (auto split: option.splits)
      with verify_inst_sound r(1) show ?thesis by auto
    qed
  qed
qed (simp add: run_simps)

text \<open>
  Verification marks a disk only when its change-tracking file was seen beside it, takes no mark
  away, never switches background import on, and switches it off only when a file was found to be
  missing (and not when the time was up); nothing else of an instance changes.
\<close>

theorem verified_disks_tracked:
  assumes "verify_background_import c s is e = (Inr js, e')" and "j \<in> set js"
  shows "\<exists>i \<in> set is. verified_from c i j"
proof (cases "candidate_insts is = []")
  case True
  with assms show ?thesis by (simp add: verify_background_import_def run_simps)
next
  case False
  with assms(1) obtain stores e1 where "verify_insts c stores (candidate_insts is) is e1 = (Inr js, e')"
    by (auto simp: verify_background_import_def run_simps Let_def split: prod.splits sum.splits)
  from verify_insts_sound [OF this assms(2)] show ?thesis .
qed

definition unverified_inst :: inst where
  "unverified_inst = sample_inst\<lparr>i_Properties := sample_props\<lparr>ip_Disks := [sample_disk\<lparr>d_Name := ''[ds] vm/vm.vmdk'', d_BackgroundImportVerified := False\<rparr>]\<rparr>\<rparr>"

theorem verified_disks_tracked_witness:
  "\<exists>j. verify_background_import sample_vsphere sample_vw [unverified_inst] ''poweredOn'' = (Inr [j], ''poweredOn'') \<and>
     verified_from sample_vsphere unverified_inst j \<and> map d_BackgroundImportVerified (ip_Disks (i_Properties j)) = [True]"
proof -
  obtain j where j: "verify_background_import sample_vsphere sample_vw [unverified_inst] ''poweredOn'' = (Inr [j], ''poweredOn'')"
      "map d_BackgroundImportVerified (ip_Disks (i_Properties j)) = [True]"
    by (simp add: verify_background_import_def candidate_insts_def candidate_disks_def unverified_inst_def sample_props_def
        sample_disk_def sample_inst_def run_simps source_paths_def sample_vw_def sample_vmware_def if_any_def verify_inst_def
        path_base_def is_slash_def cut_suffix_def gm_set_def Let_def suffix_def)
  with verified_disks_tracked [OF j(1)] show ?thesis by simp
qed

end
