(* ===== verification/Task_Facts.thy ===== *)
theory Task_Facts
  imports Final_Tasks VMware_Facts
begin

text \<open>
  What the periodic tasks guarantee: the limits on VM creations, the fate of instances that changed
  on the source, the end of a batch; and where they go wrong.
\<close>

section \<open>The limit on creations\<close>

text \<open>What a status update leaves alone, also when it fails.\<close>

lemma keeps_tx_do [keeps_intros]:
  assumes "keeps I m" and "\<And>s b. I s \<Longrightarrow> I (s\<lparr>w_intx := b\<rparr>)" and "\<And>s d b. I s \<Longrightarrow> I (s\<lparr>w_db := d, w_intx := b\<rparr>)"
  shows "keeps I (tx_do m)"
proof (rule keepsI)
  fix s assume s: "I s"
  show "I (snd (tx_do m s))"
  proof (cases "w_intx s")
    case True
    with s assms(1) show ?thesis by (simp add: tx_do_def keepsD)
  next
    case False
    obtain r t where m: "m (s\<lparr>w_intx := True\<rparr>) = (r, t)" by (cases "m (s\<lparr>w_intx := True\<rparr>)")
    with s assms(1,2) have "I t" by (auto intro: keeps_run)
    with False m assms(2,3) show ?thesis by (cases r) (simp_all add: tx_do_def)
  qed
qed

lemma keeps_dbmod [keeps_intros]: "(\<And>s d. I s \<Longrightarrow> I (s\<lparr>w_db := d\<rparr>)) \<Longrightarrow> keeps I (dbmod f)"
  by (simp add: keeps_def dbmod_run)

lemma keeps_found [keeps_intros]: "keeps I (found r)"
  by (simp add: keeps_def found_run split: option.splits)

lemma keeps_dbget [keeps_intros]: "keeps I (dbget f)"
  by (simp add: keeps_def dbget_run)

lemma keeps_option [keeps_intros]:
  "(r = None \<Longrightarrow> keeps I m) \<Longrightarrow> (\<And>a. r = Some a \<Longrightarrow> keeps I (f a)) \<Longrightarrow> keeps I (case r of None \<Rightarrow> m | Some a \<Rightarrow> f a)"
  by (cases r) auto

lemma update_status_creations:
  assumes "queue_update_status u st msg stage wn s = (r, t)"
  shows "w_tgtCreations t = w_tgtCreations s"
proof -
  have "keeps (\<lambda>w. w_tgtCreations w = w_tgtCreations s) (queue_update_status u st msg stage wn)"
    unfolding queue_update_status_def queue_repo_get_def queue_repo_update_def force_tx_def Let_def
    by (intro keeps_intros) simp_all
  from keeps_run [OF this _ assms] show ?thesis by simp
qed

lemma begin_creation_effect:
  assumes run: "begin_creation x st i s = (r, t)" and "0 < L"
    and lim: "tgt_Name (state_target st (i_UUID i)) = n \<Longrightarrow>
      \<exists>p. x_incus_dec x (tgt_Properties (state_target st (i_UUID i))) = Inr p \<and> in_CreateLimit p = L"
  shows "counter_get (w_tgtCreations t) n \<le> max L (counter_get (w_tgtCreations s) n)"
    and "r = Inr b \<Longrightarrow> counter_get (w_tgtCreations t) n = counter_get (w_tgtCreations s) n +
      (if b \<and> tgt_Name (state_target st (i_UUID i)) = n then 1 else 0)"
proof -
  let ?t = "state_target st (i_UUID i)"
  have "counter_get (w_tgtCreations t) n \<le> max L (counter_get (w_tgtCreations s) n) \<and>
    (r = Inr b \<longrightarrow> counter_get (w_tgtCreations t) n = counter_get (w_tgtCreations s) n + (if b \<and> tgt_Name ?t = n then 1 else 0))"
  proof (cases "x_incus_dec x (tgt_Properties ?t)")
    case (Inl e)
    with run show ?thesis by (auto simp: begin_creation_def Let_def run_simps)
  next
    case (Inr p)
    let ?s = "s\<lparr>w_tgtCreations := counter_record (tgt_Name ?t) (w_tgtCreations s)\<rparr>"
    show ?thesis
    proof (cases "0 < in_CreateLimit p \<and> in_CreateLimit p \<le> counter_get (w_tgtCreations s) (tgt_Name ?t)")
      case True
      with run Inr show ?thesis
        by (auto simp: begin_creation_def Let_def run_simps target_cached_creations_def split: if_splits)
    next
      case False
      obtain r' u where up: "queue_update_status (i_UUID i) MIGRATIONSTATUS_CREATING ''Creating target instance definition''
          (q_ImportStage (state_entry st (i_UUID i))) (get_window_name (state_entry st (i_UUID i))) ?s = (r', u)"
        by (cases "queue_update_status (i_UUID i) MIGRATIONSTATUS_CREATING ''Creating target instance definition''
          (q_ImportStage (state_entry st (i_UUID i))) (get_window_name (state_entry st (i_UUID i))) ?s")
      from False run Inr up have tu: "t = u" and res: "r = Inr b \<Longrightarrow> b"
        by (auto simp: begin_creation_def Let_def run_simps target_cached_creations_def target_record_creation_def
            split: sum.splits if_splits)
      from update_status_creations [OF up] have "w_tgtCreations t = counter_record (tgt_Name ?t) (w_tgtCreations s)"
        by (simp add: tu)
      moreover have "tgt_Name ?t = n \<Longrightarrow> counter_get (w_tgtCreations s) n < L" using False lim Inr \<open>0 < L\<close> by auto
      ultimately show ?thesis using res by auto
    qed
  qed
  then show "counter_get (w_tgtCreations t) n \<le> max L (counter_get (w_tgtCreations s) n)"
    and "r = Inr b \<Longrightarrow> counter_get (w_tgtCreations t) n = counter_get (w_tgtCreations s) n + (if b \<and> tgt_Name ?t = n then 1 else 0)"
    by blast+
qed

lemma begin_creations_effect:
  assumes run: "begin_creations x st is s = (r, t)" and L: "0 < L"
    and lim: "\<And>i. i \<in> set is \<Longrightarrow> tgt_Name (state_target st (i_UUID i)) = n \<Longrightarrow>
      \<exists>p. x_incus_dec x (tgt_Properties (state_target st (i_UUID i))) = Inr p \<and> in_CreateLimit p = L"
  shows "counter_get (w_tgtCreations t) n \<le> max L (counter_get (w_tgtCreations s) n) \<and>
    (\<forall>js. r = Inr js \<longrightarrow> set js \<subseteq> set is \<and> counter_get (w_tgtCreations t) n = counter_get (w_tgtCreations s) n +
      int (length (filter (\<lambda>i. tgt_Name (state_target st (i_UUID i)) = n) js)))"
  using run lim
proof (induction "is" arbitrary: s r t)
  case Nil
  then show ?case by (auto simp: run_simps)
next
  case (Cons i "is")
  obtain r1 u where one: "begin_creation x st i s = (r1, u)" by (cases "begin_creation x st i s")
  have eff: "counter_get (w_tgtCreations u) n \<le> max L (counter_get (w_tgtCreations s) n)"
    "\<And>b. r1 = Inr b \<Longrightarrow> counter_get (w_tgtCreations u) n = counter_get (w_tgtCreations s) n +
      (if b \<and> tgt_Name (state_target st (i_UUID i)) = n then 1 else 0)"
    using begin_creation_effect [OF one L, of n] Cons.prems(2) [of i] by auto
  show ?case
  proof (cases r1)
    case (Inl e)
    with Cons.prems(1) one eff(1) show ?thesis by (auto simp: run_simps)
  next
    case (Inr b)
    obtain r2 v where rest: "begin_creations x st is u = (r2, v)" by (cases "begin_creations x st is u")
    have IH: "counter_get (w_tgtCreations v) n \<le> max L (counter_get (w_tgtCreations u) n) \<and>
      (\<forall>js. r2 = Inr js \<longrightarrow> set js \<subseteq> set is \<and> counter_get (w_tgtCreations v) n = counter_get (w_tgtCreations u) n +
        int (length (filter (\<lambda>i. tgt_Name (state_target st (i_UUID i)) = n) js)))"
      using Cons.IH [OF rest] Cons.prems(2) by simp
    from Cons.prems(1) one Inr rest have "t = v" and res: "\<And>js. r = Inr js \<Longrightarrow> \<exists>js'. r2 = Inr js' \<and> js = (if b then i # js' else js')"
      by (auto simp: run_simps split: sum.splits)
    show ?thesis
    proof (intro conjI allI impI)
      show "counter_get (w_tgtCreations t) n \<le> max L (counter_get (w_tgtCreations s) n)"
        using IH [THEN conjunct1] eff(1) \<open>t = v\<close> by (simp add: max_def split: if_splits)
      fix js assume "r = Inr js"
      then obtain js' where js: "r2 = Inr js'" "js = (if b then i # js' else js')" using res by blast
      with IH have "set js' \<subseteq> set is" "counter_get (w_tgtCreations v) n = counter_get (w_tgtCreations u) n +
        int (length (filter (\<lambda>i. tgt_Name (state_target st (i_UUID i)) = n) js'))" by simp_all
      with js(2) \<open>t = v\<close> eff(2) [OF Inr] show "set js \<subseteq> set (i # is)"
        "counter_get (w_tgtCreations t) n = counter_get (w_tgtCreations s) n +
          int (length (filter (\<lambda>i. tgt_Name (state_target st (i_UUID i)) = n) js))" by (auto split: if_splits)
    qed
  qed
qed

lemma only_started_target:
  "i \<in> set is \<Longrightarrow> state_target (only_started st is) (i_UUID i) = state_target st (i_UUID i)"
proof -
  assume "i \<in> set is"
  then have "map_of (map (\<lambda>i. (i_UUID i, state_target st (i_UUID i))) is) (i_UUID i) = Some (state_target st (i_UUID i))"
    by (induction "is") auto
  then show ?thesis by (simp add: only_started_def state_target_def gm_get_def)
qed

definition started_on :: "string \<Rightarrow> batch_migration_state \<Rightarrow> nat" where
  "started_on n st = sum_list (map (\<lambda>(b, s). length (filter (\<lambda>(u, i). tgt_Name (state_target s u) = n) (ms_Instances s))) st)"

lemma started_only:
  "length (filter (\<lambda>(u, i). tgt_Name (state_target (only_started st is) u) = n) (ms_Instances (only_started st is))) =
   length (filter (\<lambda>i. tgt_Name (state_target st (i_UUID i)) = n) is)"
proof -
  have "length (filter (\<lambda>i. tgt_Name (state_target (only_started st is) (i_UUID i)) = n) is) =
      length (filter (\<lambda>i. tgt_Name (state_target st (i_UUID i)) = n) is)"
    by (simp add: only_started_target cong: filter_cong)
  then show ?thesis by (simp add: only_started_def filter_map comp_def)
qed

text \<open>
  C26: The number of VM creations that run on a target is bounded by its creation limit: whatever
  the batches and whether or not the step fails, the counter of a target with the limit \<open>L\<close> ends at
  most at \<open>L\<close>, or at what it was before if that was more. On success the counter has grown by exactly
  the number of instances that go ahead to that target.
\<close>

theorem create_limit_respected:
  assumes run: "begin_batches x st w = (r, w')" and L: "0 < L"
    and lim: "\<forall>(b, s) \<in> set st. \<forall>(u, i) \<in> set (ms_Instances s). tgt_Name (state_target s (i_UUID i)) = n \<longrightarrow>
      (\<exists>p. x_incus_dec x (tgt_Properties (state_target s (i_UUID i))) = Inr p \<and> in_CreateLimit p = L)"
  shows "counter_get (w_tgtCreations w') n \<le> max L (counter_get (w_tgtCreations w) n) \<and>
    (\<forall>st'. r = Inr st' \<longrightarrow> counter_get (w_tgtCreations w') n = counter_get (w_tgtCreations w) n + int (started_on n st'))"
  using run lim
proof (induction x st arbitrary: w r w' rule: begin_batches.induct)
  case 1
  then show ?case by (auto simp: run_simps started_on_def)
next
  case (2 x b s sts)
  obtain r1 u where one: "begin_creations x s (map snd (ms_Instances s)) w = (r1, u)"
    by (cases "begin_creations x s (map snd (ms_Instances s)) w")
  have eff: "counter_get (w_tgtCreations u) n \<le> max L (counter_get (w_tgtCreations w) n) \<and>
    (\<forall>js. r1 = Inr js \<longrightarrow> set js \<subseteq> set (map snd (ms_Instances s)) \<and>
      counter_get (w_tgtCreations u) n = counter_get (w_tgtCreations w) n +
      int (length (filter (\<lambda>i. tgt_Name (state_target s (i_UUID i)) = n) js)))"
    by (rule begin_creations_effect [OF one L]) (use "2.prems"(2) in fastforce)
  show ?case
  proof (cases r1)
    case (Inl e)
    with "2.prems"(1) one eff show ?thesis by (auto simp: run_simps)
  next
    case (Inr js)
    obtain r2 v where rest: "begin_batches x sts u = (r2, v)" by (cases "begin_batches x sts u")
    have IH: "counter_get (w_tgtCreations v) n \<le> max L (counter_get (w_tgtCreations u) n) \<and>
      (\<forall>st'. r2 = Inr st' \<longrightarrow> counter_get (w_tgtCreations v) n = counter_get (w_tgtCreations u) n + int (started_on n st'))"
      using "2.IH" [OF rest] "2.prems"(2) by simp
    from "2.prems"(1) one Inr rest have "w' = v" and res: "\<And>st'. r = Inr st' \<Longrightarrow> \<exists>st2. r2 = Inr st2 \<and> st' = (b, only_started s js) # st2"
      by (auto simp: run_simps split: sum.splits)
    show ?thesis
    proof (intro conjI allI impI)
      show "counter_get (w_tgtCreations w') n \<le> max L (counter_get (w_tgtCreations w) n)"
        using IH [THEN conjunct1] eff [THEN conjunct1] \<open>w' = v\<close> by (simp add: max_def split: if_splits)
      fix st' assume "r = Inr st'"
      then obtain st2 where st': "r2 = Inr st2" "st' = (b, only_started s js) # st2" using res by blast
      with IH eff Inr \<open>w' = v\<close>
      show "counter_get (w_tgtCreations w') n = counter_get (w_tgtCreations w) n + int (started_on n st')"
        by (simp add: started_on_def started_only)
    qed
  qed
qed

definition sample_state :: "queue_entry \<Rightarrow> migration_state" where
  "sample_state q = \<lparr>ms_Batch = sample_batch, ms_Windows = [], ms_Targets = [(7, sample_target)], ms_QueueEntries = [(7, q)],
     ms_Instances = [(7, sample_inst)], ms_Sources = [(7, sample_source)]\<rparr>"

lemma sample_state_fields [simp]:
  "ms_Instances (sample_state q) = [(7, sample_inst)]" "state_target (sample_state q) 7 = sample_target"
  "state_entry (sample_state q) 7 = q" "state_source (sample_state q) 7 = sample_source"
  "state_instance (sample_state q) 7 = sample_inst" "ms_Batch (sample_state q) = sample_batch" "ms_Windows (sample_state q) = []"
  "ms_QueueEntries (sample_state q) = [(7, q)]"
  by (simp_all add: sample_state_def state_target_def state_entry_def state_source_def state_instance_def gm_get_def)

theorem create_limit_respected_witness:
  "\<exists>w'. begin_batches plain_ext [(''b1'', sample_state sample_entry)]
       ((sample_world [] sample_entry)\<lparr>w_tgtCreations := [''t1'' \<mapsto> 1]\<rparr>) =
      (Inr [(''b1'', only_started (sample_state sample_entry) [])], w') \<and> counter_get (w_tgtCreations w') ''t1'' \<le> 1"
proof -
  let ?st = "[(''b1'', sample_state sample_entry)]" and ?w = "(sample_world [] sample_entry)\<lparr>w_tgtCreations := [''t1'' \<mapsto> 1]\<rparr>"
  have run: "begin_batches plain_ext ?st ?w = (Inr [(''b1'', only_started (sample_state sample_entry) [])], ?w)"
    by (simp add: run_simps begin_creation_def Let_def target_cached_creations_def plain_ext_def sample_incus_def counter_get_def
        cache_read_def)
  have "counter_get (w_tgtCreations ?w) ''t1'' \<le> max 1 (counter_get (w_tgtCreations ?w) ''t1'')"
    using create_limit_respected [OF run, of 1 "''t1''"] by (simp add: plain_ext_def sample_incus_def)
  with run show ?thesis by (simp add: counter_get_def cache_read_def)
qed

section \<open>The end of a batch\<close>

lemma rename_batch_same [simp]: "rename_batch n n d = d"
proof -
  have "map (\<lambda>r. r\<lparr>qr_Entry := (qr_Entry r)\<lparr>q_BatchName := q_BatchName (qr_Entry r)\<rparr>\<rparr>) rs = rs" for rs :: "queue_row list"
    by (induction rs) auto
  moreover have "map (\<lambda>w. w\<lparr>w_Batch := w_Batch w\<rparr>) ws = ws" for ws :: "window list" by (induction ws) auto
  ultimately show ?thesis by (simp add: rename_batch_def cong: if_cong)
qed

lemma batch_update_status_run:
  assumes "tb_get b_Name (db_batches (w_db s)) n = Some b"
  shows "batch_update_status n st msg s = (Inr (b\<lparr>b_Status := st, b_StatusMessage := msg\<rparr>),
    s\<lparr>w_db := (w_db s)\<lparr>db_batches := tb_update b_Name n (b\<lparr>b_Status := st, b_StatusMessage := msg\<rparr>) (db_batches (w_db s))\<rparr>\<rparr>)"
proof -
  have "b_Name b = n" using assms by (auto simp: tb_get_def dest: find_SomeD)
  with assms show ?thesis
    by (cases s) (auto simp: batch_update_status_def batch_repo_get_def batch_repo_update_def force_tx_def run_simps Let_def)
qed

lemma batch_update_status_ok:
  assumes "batch_update_status n st msg s = (Inr b', t)"
  shows "\<exists>b. tb_get b_Name (db_batches (w_db s)) n = Some b"
  using assms by (cases "tb_get b_Name (db_batches (w_db s)) n")
    (auto simp: batch_update_status_def batch_repo_get_def run_simps split: if_splits prod.splits)

text \<open>The entries that the batch's end depends on.\<close>

abbreviation batch_entries :: "db \<Rightarrow> string \<Rightarrow> queue_entries" where
  "batch_entries d n \<equiv> queue_select (\<lambda>q. q_BatchName q = n) d"

lemma finish_batch_ok:
  assumes run: "finish_batch n s = (Inr u, t)"
  shows "t = s \<and> (\<exists>q \<in> set (batch_entries (w_db s) n). q_MigrationStatus q \<noteq> MIGRATIONSTATUS_FINISHED) \<or>
    (\<forall>q \<in> set (batch_entries (w_db s) n). q_MigrationStatus q = MIGRATIONSTATUS_FINISHED) \<and>
    (\<exists>b. tb_get b_Name (db_batches (w_db s)) n = Some b \<and>
      t = s\<lparr>w_db := (w_db s)\<lparr>db_batches := tb_update b_Name n (b\<lparr>b_Status := BATCHSTATUS_FINISHED,
        b_StatusMessage := batch_status_string BATCHSTATUS_FINISHED\<rparr>) (db_batches (w_db s))\<rparr>\<rparr>)"
proof (cases "\<forall>q \<in> set (batch_entries (w_db s) n). q_MigrationStatus q = MIGRATIONSTATUS_FINISHED")
  case True
  with run obtain b' where up: "batch_update_status n BATCHSTATUS_FINISHED (batch_status_string BATCHSTATUS_FINISHED) s = (Inr b', t)"
    by (auto simp: finish_batch_def queue_get_all_by_batch_def queue_repo_get_all_by_batch_def ok_simps dbget_ok)
  with batch_update_status_ok [OF up] True show ?thesis by (auto simp: batch_update_status_run)
next
  case False
  with run show ?thesis
    by (auto simp: finish_batch_def queue_get_all_by_batch_def queue_repo_get_all_by_batch_def ok_simps dbget_ok)
qed

lemma queue_select_batches [simp]: "queue_select P (d\<lparr>db_batches := bs\<rparr>) = queue_select P d"
proof -
  have "read_queue_row (d\<lparr>db_batches := bs\<rparr>) = read_queue_row d"
    by (simp add: read_queue_row_def fun_eq_iff window_by_id_def cong: option.case_cong)
  then show ?thesis by (simp add: queue_select_def instance_id_def)
qed

lemma finish_batch_frame:
  assumes "finish_batch n s = (Inr u, t)"
  shows "queue_map t = queue_map s" "batch_entries (w_db t) m = batch_entries (w_db s) m" "w_srcImports t = w_srcImports s"
proof -
  have r: "read_queue_row (d\<lparr>db_batches := bs\<rparr>) = read_queue_row d" for d bs
    by (simp add: read_queue_row_def fun_eq_iff window_by_id_def cong: option.case_cong)
  show "queue_map t = queue_map s" using finish_batch_ok [OF assms] by (auto simp: queue_map_def queue_lookup_def fun_eq_iff r)
  show "batch_entries (w_db t) m = batch_entries (w_db s) m" "w_srcImports t = w_srcImports s"
    using finish_batch_ok [OF assms] by auto
qed

text \<open>The batches' states after the last step, given the entries: one for each batch looked at.\<close>

lemma finish_batches:
  assumes "for_each ns finish_batch s = (Inr u, t)"
  shows "queue_map t = queue_map s \<and> (\<forall>m. batch_entries (w_db t) m = batch_entries (w_db s) m) \<and>
    (\<forall>m b. tb_get b_Name (db_batches (w_db s)) m = Some b \<longrightarrow>
      tb_get b_Name (db_batches (w_db t)) m = Some
        (if m \<in> set ns \<and> (\<forall>q \<in> set (batch_entries (w_db s) m). q_MigrationStatus q = MIGRATIONSTATUS_FINISHED)
         then b\<lparr>b_Status := BATCHSTATUS_FINISHED, b_StatusMessage := batch_status_string BATCHSTATUS_FINISHED\<rparr> else b))"
  using assms
proof (induction ns arbitrary: s)
  case Nil
  then show ?case by (simp add: run_simps)
next
  case (Cons n ns)
  from Cons.prems obtain v where one: "finish_batch n s = (Inr (), v)" and rest: "for_each ns finish_batch v = (Inr u, t)"
    by (auto simp: andthen_ok)
  note frame = finish_batch_frame [OF one]
  have get: "tb_get b_Name (db_batches (w_db v)) m = Some
      (if m = n \<and> (\<forall>q \<in> set (batch_entries (w_db s) m). q_MigrationStatus q = MIGRATIONSTATUS_FINISHED)
       then b\<lparr>b_Status := BATCHSTATUS_FINISHED, b_StatusMessage := batch_status_string BATCHSTATUS_FINISHED\<rparr> else b)"
    if m: "tb_get b_Name (db_batches (w_db s)) m = Some b" for m b
  proof -
    have up: "tb_get b_Name (tb_update b_Name n (c\<lparr>b_Status := sta, b_StatusMessage := msg\<rparr>) (db_batches (w_db s))) m' =
        (if m' = n then Some (c\<lparr>b_Status := sta, b_StatusMessage := msg\<rparr>) else tb_get b_Name (db_batches (w_db s)) m')"
      if "tb_get b_Name (db_batches (w_db s)) n = Some c" for c sta msg m'
      using batch_tab.get_update [OF that, of "c\<lparr>b_Status := sta, b_StatusMessage := msg\<rparr>" m'] batch_tab.get_key [OF that]
      by simp
    show ?thesis using finish_batch_ok [OF one] m by (auto simp: up)
  qed
  from Cons.IH [OF rest] frame show ?case by (auto simp: get)
qed

lemma only_queue_trans: "only_queue s t \<Longrightarrow> only_queue t u \<Longrightarrow> only_queue s u"
  unfolding only_queue_def by (metis db.surjective db.update_convs(9))

lemma record_conflicts_ok:
  assumes "record_conflicts qs es s = (Inr u, t)" and "distinct (map fst es)"
  shows "only_queue s t \<and> (\<forall>v. v \<notin> fst ` set es \<longrightarrow> queue_map t v = queue_map s v) \<and>
    (\<forall>(v, e) \<in> set es. \<exists>q. queue_map t v = Some q \<and> q_MigrationStatus q = MIGRATIONSTATUS_CONFLICT \<and>
      q_MigrationStatusMessage q = err_text e)"
  using assms
proof (induction qs es arbitrary: s rule: record_conflicts.induct)
  case (1 qs)
  then show ?case by (simp add: run_simps)
next
  case (2 qs v e es)
  from "2.prems"(1) obtain q' w where up: "queue_update_status v MIGRATIONSTATUS_CONFLICT (err_text e)
      (q_ImportStage (gm_get zero_entry qs v)) (get_window_name (gm_get zero_entry qs v)) s = (Inr q', w)"
    and rest: "record_conflicts qs es w = (Inr u, t)" by (auto simp: andthen_ok Let_def)
  from queue_update_status_effect [OF up] obtain q0 where q0: "queue_map s v = Some q0" "only_queue s w"
    and eff: "queue_map w = (queue_map s)(v \<mapsto> q0\<lparr>q_MigrationStatus := MIGRATIONSTATUS_CONFLICT, q_MigrationStatusMessage := err_text e,
        q_ImportStage := q_ImportStage (gm_get zero_entry qs v), q_MigrationWindowName :=
          window_name_read (w_db s) (get_window_name (gm_get zero_entry qs v))\<rparr>)"
    by auto
  from "2.prems"(2) have d: "v \<notin> fst ` set es" "distinct (map fst es)" by auto
  from "2.IH" [OF refl rest d(2)] q0 have
    IH: "only_queue w t" "\<And>x. x \<notin> fst ` set es \<Longrightarrow> queue_map t x = queue_map w x"
      "\<forall>(v, e) \<in> set es. \<exists>q. queue_map t v = Some q \<and> q_MigrationStatus q = MIGRATIONSTATUS_CONFLICT \<and>
        q_MigrationStatusMessage q = err_text e" by simp_all
  have "queue_map t v = queue_map w v" by (rule IH(2) [OF d(1)])
  with IH(2,3) only_queue_trans [OF q0(2) IH(1)] show ?case by (auto simp: eff)
qed

lemma for_each_remove: "for_each us remove_from_cache s = (Inr (), fold (\<lambda>u s. s\<lparr>w_lastUpdate := cache_delete (w_lastUpdate s) u\<rparr>) us s)"
  by (induction us arbitrary: s) (simp_all add: run_simps remove_from_cache_def)

lemma fold_remove_db: "w_db (fold (\<lambda>u s. s\<lparr>w_lastUpdate := cache_delete (w_lastUpdate s) u\<rparr>) us s) = w_db s"
  by (induction us arbitrary: s) simp_all

text \<open>
  C28: What the end of a finalizing run leaves behind. Each instance whose configuration failed is in
  conflict, with the error as its message, and no other entry changes; a batch of the run is finished
  exactly when all of its entries are finished then, and its record is otherwise the old one.
\<close>

theorem conclude_exact:
  assumes run: "conclude st (finished, bad) w = (Inr (), w')" and d: "distinct (map fst bad)"
    and b: "tb_get b_Name (db_batches (w_db w)) m = Some b"
  shows "(\<forall>(u, e) \<in> set bad. \<exists>q. queue_map w' u = Some q \<and> q_MigrationStatus q = MIGRATIONSTATUS_CONFLICT \<and>
        q_MigrationStatusMessage q = err_text e) \<and>
    (\<forall>u. u \<notin> fst ` set bad \<longrightarrow> queue_map w' u = queue_map w u) \<and>
    tb_get b_Name (db_batches (w_db w')) m = Some
      (if m \<in> fst ` set st \<and> (\<forall>q \<in> set (batch_entries (w_db w') m). q_MigrationStatus q = MIGRATIONSTATUS_FINISHED)
       then b\<lparr>b_Status := BATCHSTATUS_FINISHED, b_StatusMessage := batch_status_string BATCHSTATUS_FINISHED\<rparr> else b)"
proof -
  let ?w = "fold (\<lambda>u s. s\<lparr>w_lastUpdate := cache_delete (w_lastUpdate s) u\<rparr>) finished w"
  have "tx_do (andthen (record_conflicts (bms_queue st) bad) (for_each (map fst st) finish_batch)) ?w = (Inr (), w')"
    using run by (simp add: conclude_def andthen_run for_each_remove)
  from tx_do_run_ok [OF this] obtain s0 t0 where same: "same_data ?w s0" "same_data t0 w'"
    and f: "andthen (record_conflicts (bms_queue st) bad) (for_each (map fst st) finish_batch) s0 = (Inr (), t0)" by blast
  from f obtain v where rc: "record_conflicts (bms_queue st) bad s0 = (Inr (), v)"
    and fin: "for_each (map fst st) finish_batch v = (Inr (), t0)" by (auto simp: andthen_ok)
  note r = record_conflicts_ok [OF rc d]
  note f = finish_batches [OF fin]
  have q: "queue_map s0 = queue_map w" "queue_map w' = queue_map t0" "w_db w' = w_db t0"
    using same by (auto simp: fold_remove_db same_data_def intro!: queue_map_db)
  have "tb_get b_Name (db_batches (w_db v)) m = Some b"
    using b r same only_queue_fields(3) [of s0 v] by (simp add: same_data_def fold_remove_db)
  with f have "tb_get b_Name (db_batches (w_db w')) m = Some
      (if m \<in> fst ` set st \<and> (\<forall>q \<in> set (batch_entries (w_db w') m). q_MigrationStatus q = MIGRATIONSTATUS_FINISHED)
       then b\<lparr>b_Status := BATCHSTATUS_FINISHED, b_StatusMessage := batch_status_string BATCHSTATUS_FINISHED\<rparr> else b)"
    by (simp add: q)
  with r f q show ?thesis by auto
qed

lemma queue_map_sample_only:
  "queue_select (\<lambda>q. q_BatchName q = ''b1'') (w_db (sample_world [] (sample_entry\<lparr>q_MigrationStatus := st\<rparr>))) =
     [sample_entry\<lparr>q_MigrationStatus := st\<rparr>]"
  by (simp add: queue_select_def sample_world_def sample_db_def read_queue_row_def)

theorem conclude_exact_witness:
  "\<exists>w'. conclude [(''b1'', sample_state sample_entry)] ([7], [])
      (sample_world [] (sample_entry\<lparr>q_MigrationStatus := MIGRATIONSTATUS_FINISHED\<rparr>)) = (Inr (), w') \<and>
    map_option b_Status (tb_get b_Name (db_batches (w_db w')) ''b1'') = Some BATCHSTATUS_FINISHED"
proof -
  let ?w = "sample_world [] (sample_entry\<lparr>q_MigrationStatus := MIGRATIONSTATUS_FINISHED\<rparr>)"
  have w: "\<exists>w'. conclude [(''b1'', sample_state sample_entry)] ([7], []) ?w = (Inr (), w') \<and>
      queue_select (\<lambda>q. q_BatchName q = ''b1'') (w_db w') = [sample_entry\<lparr>q_MigrationStatus := MIGRATIONSTATUS_FINISHED\<rparr>]"
    by (simp add: conclude_def run_simps remove_from_cache_def finish_batch_def queue_get_all_by_batch_def
        queue_repo_get_all_by_batch_def queue_map_sample_only batch_update_status_run)
  then obtain w' where run: "conclude [(''b1'', sample_state sample_entry)] ([7], []) ?w = (Inr (), w')"
    and e: "queue_select (\<lambda>q. q_BatchName q = ''b1'') (w_db w') = [sample_entry\<lparr>q_MigrationStatus := MIGRATIONSTATUS_FINISHED\<rparr>]"
    by blast
  with conclude_exact [OF run, of "''b1''"] show ?thesis by auto
qed

text \<open>
  The retries of the final configuration are never used. When the configuration of an instance
  fails before its window has passed, the run ends with the instance in conflict and the error as its
  message, whatever number of retries the batch allows and however many were recorded: the status
  that the failure handler leaves for another attempt is overwritten.
\<close>

theorem failed_configuration_conflicts:
  assumes open_window: "\<not> window_passed x s0 (state_entry s0 u)"
    and worker_done: "q_MigrationStatus (state_entry s u) = MIGRATIONSTATUS_WORKER_DONE"
    and i: "ms_Instances s = [(u, i)]"
    and fails: "configure_migrated_instance x en (state_entry s u)
        (case window_of_entry s0 (state_entry s0 u) of None \<Rightarrow> empty_window | Some w \<Rightarrow> w) i (state_source s u) (state_target s u)
        (ms_Batch s) (w, e) = (Inl er, (w1, e1))"
    and run: "finalize_instances x en [(n, s0)] [(n, s)] ((w, e), [], []) = (r, ((w2, e2), out))"
    and concluded: "conclude [(n, s)] out w2 = (Inr (), w3)"
  shows "out = ([], [(u, er)]) \<and> w2 = w1 \<and> (\<exists>q. queue_map w3 u = Some q \<and>
      q_MigrationStatus q = MIGRATIONSTATUS_CONFLICT \<and> q_MigrationStatusMessage q = err_text er)"
proof -
  have "finalize_instance x en s0 s u i ((w, e), [], []) = (Inl er, ((w1, e1), [], [(u, er)]))"
    using open_window worker_done fails by (simp add: finalize_instance_def Let_def run_simps under_def)
  with run i have out: "out = ([], [(u, er)])" "w2 = w1"
    by (auto simp: finalize_instances_def run_concurrent_map_def)
  obtain v where "tx_do (andthen (record_conflicts (bms_queue [(n, s)]) [(u, er)]) (for_each [n] finish_batch)) w2 = (Inr (), w3)"
    using concluded by (simp add: out conclude_def run_simps)
  from tx_do_run_ok [OF this] obtain s0 t0 v where same: "same_data t0 w3"
    and rc: "record_conflicts (bms_queue [(n, s)]) [(u, er)] s0 = (Inr (), v)" and fin: "for_each [n] finish_batch v = (Inr (), t0)"
    by (auto simp: andthen_ok)
  from record_conflicts_ok [OF rc] finish_batches [OF fin] same_data_queue [OF same]
  show ?thesis by (auto simp: out)
qed

lemma queue_update_status_runs:
  assumes "queue_map s u = Some q" "tb_get b_Name (db_batches (w_db s)) (q_BatchName q) = Some b" "migration_status_validate st = None"
  shows "\<exists>q' t. queue_update_status u st msg stage wn s = (Inr q', t)"
proof -
  obtain r where "tb_get qr_key (db_queue (w_db s)) u = Some r" using queue_map_row [OF assms(1)] by blast
  with assms queue_map_key [OF assms(1)] show ?thesis
    by (auto simp: queue_update_status_def queue_repo_update_def force_tx_def run_simps queue_map_def Let_def)
qed

definition batch_with_retries :: batch where
  "batch_with_retries = sample_batch\<lparr>b_Config := (b_Config sample_batch)\<lparr>bc_PostMigrationRetries := 5\<rparr>\<rparr>"

definition worker_done_entry :: queue_entry where
  "worker_done_entry = sample_entry\<lparr>q_MigrationStatus := MIGRATIONSTATUS_WORKER_DONE\<rparr>"

definition no_target_error :: err where
  "no_target_error = Errorf ''Failed to construct target %q: %w''
     [AStr '''', AWrap (Errorf ''Unknown target type %q'' [AStr ''''])]"

lemma worker_done_fields [simp]:
  "q_MigrationStatus worker_done_entry = MIGRATIONSTATUS_WORKER_DONE" "q_InstanceUUID worker_done_entry = 7"
  "q_MigrationWindowName worker_done_entry = None" "q_BatchName worker_done_entry = ''b1''"
  "q_Placement worker_done_entry = sample_placement"
  by (simp_all add: worker_done_entry_def)

lemma no_target_configuration:
  "configure_migrated_instance plain_ext en worker_done_entry empty_window sample_inst src zero_target batch_with_retries (sample_world [] q, e)
     = (Inl no_target_error, ((sample_world [] q)\<lparr>w_retries := counter_record 7 Map.empty\<rparr>, e))"
  by (simp add: configure_migrated_instance_def configuration_failed_def open_target_def run_simps reverting_def Let_def
      ignore_err_def new_target_def target_to_api_def zero_target_def no_target_error_def window_ended_def empty_window_def
      time_is_zero_def get_post_migration_retries_def record_post_migration_retry_def batch_with_retries_def sample_world_def
      counter_get_def cache_read_def new_cache_def)

lemma finish_batch_runs:
  "tb_get b_Name (db_batches (w_db s)) n = Some b \<Longrightarrow> \<exists>t. finish_batch n s = (Inr (), t)"
  by (auto simp: finish_batch_def queue_get_all_by_batch_def queue_repo_get_all_by_batch_def run_simps batch_update_status_run)

lemma conclude_failed_runs:
  assumes q: "queue_map w u = Some q" "tb_get b_Name (db_batches (w_db w)) (q_BatchName q) = Some b"
    and b: "tb_get b_Name (db_batches (w_db w)) n = Some b'"
  shows "\<exists>w'. conclude [(n, s)] ([], [(u, er)]) w = (Inr (), w')"
proof -
  let ?w = "if w_intx w then w else w\<lparr>w_intx := True\<rparr>" and ?q = "gm_get zero_entry (bms_queue [(n, s)]) u"
  have q': "queue_map ?w u = Some q" "tb_get b_Name (db_batches (w_db ?w)) (q_BatchName q) = Some b" using q by simp_all
  have v: "migration_status_validate MIGRATIONSTATUS_CONFLICT = None" by simp
  from queue_update_status_runs [OF q' v] obtain q2 t where
    up: "queue_update_status u MIGRATIONSTATUS_CONFLICT (err_text er) (q_ImportStage ?q) (get_window_name ?q) ?w = (Inr q2, t)" by blast
  from queue_update_status_effect [OF up] have "db_batches (w_db t) = db_batches (w_db ?w)" by (auto simp: only_queue_fields)
  with b have "tb_get b_Name (db_batches (w_db t)) n = Some b'" by simp
  from finish_batch_runs [OF this] obtain t' where "finish_batch n t = (Inr (), t')" by blast
  with up show ?thesis by (auto simp: conclude_def run_simps Let_def split: if_splits)
qed

theorem failed_configuration_conflicts_witness:
  "\<forall>(en :: string task_env) e. \<exists>r w1 out w3.
     finalize_instances plain_ext en [(''b1'', sample_state worker_done_entry)]
       [(''b1'', (sample_state worker_done_entry)\<lparr>ms_Targets := [], ms_Batch := batch_with_retries\<rparr>)]
       ((sample_world [] worker_done_entry, e), [], []) = (r, ((w1, e), out)) \<and>
     counter_get (w_retries w1) 7 = 1 \<and>
     conclude [(''b1'', (sample_state worker_done_entry)\<lparr>ms_Targets := [], ms_Batch := batch_with_retries\<rparr>)] out w1 = (Inr (), w3) \<and>
     map_option q_MigrationStatus (queue_map w3 7) = Some MIGRATIONSTATUS_CONFLICT"
proof (intro allI)
  fix en :: "string task_env" and e
  let ?before = "sample_state worker_done_entry" and ?counted = "(sample_world [] worker_done_entry)\<lparr>w_retries := counter_record 7 Map.empty\<rparr>"
  let ?s = "?before\<lparr>ms_Targets := [], ms_Batch := batch_with_retries\<rparr>"
  have fields: "state_target ?s 7 = zero_target" "state_entry ?s 7 = worker_done_entry" "window_of_entry ?before worker_done_entry = None"
    "ms_Instances ?s = [(7, sample_inst)]" "ms_Batch ?s = batch_with_retries"
    by (simp_all add: state_target_def state_entry_def gm_get_def sample_state_def window_of_entry_def)
  have win: "\<not> window_passed plain_ext ?before (state_entry ?before 7)" by (simp add: window_passed_def fields)
  note conf = no_target_configuration [of en "state_source ?s 7" worker_done_entry e]
  have "\<exists>r. finalize_instances plain_ext en [(''b1'', ?before)] [(''b1'', ?s)] ((sample_world [] worker_done_entry, e), [], []) =
      (r, ((?counted, e), [], [(7, no_target_error)]))"
    using win by (simp add: finalize_instances_def run_concurrent_map_def finalize_instance_def Let_def run_simps under_def fields conf)
  then obtain r where run: "finalize_instances plain_ext en [(''b1'', ?before)] [(''b1'', ?s)] ((sample_world [] worker_done_entry, e), [], []) =
      (r, ((?counted, e), [], [(7, no_target_error)]))" by blast
  have "queue_map ?counted = queue_map (sample_world [] worker_done_entry)" by (rule queue_map_db) simp
  then have "queue_map ?counted 7 = Some worker_done_entry" by simp
  with conclude_failed_runs [of ?counted 7 worker_done_entry _ "''b1''" _ ?s no_target_error]
  obtain w3 where con: "conclude [(''b1'', ?s)] ([], [(7, no_target_error)]) ?counted = (Inr (), w3)" by auto
  have "\<exists>q. queue_map w3 7 = Some q \<and> q_MigrationStatus q = MIGRATIONSTATUS_CONFLICT"
    using failed_configuration_conflicts [OF win _ fields(4) _ run con] conf by (auto simp: fields)
  with run con show "\<exists>r w1 out w3.
     finalize_instances plain_ext en [(''b1'', ?before)] [(''b1'', ?s)] ((sample_world [] worker_done_entry, e), [], []) =
       (r, ((w1, e), out)) \<and> counter_get (w_retries w1) 7 = 1 \<and> conclude [(''b1'', ?s)] out w1 = (Inr (), w3) \<and>
     map_option q_MigrationStatus (queue_map w3 7) = Some MIGRATIONSTATUS_CONFLICT"
    by (intro exI [of _ r] exI [of _ ?counted] exI [of _ "([], [(7, no_target_error)])"] exI [of _ w3])
      (auto simp: counter_get_def counter_record_def cache_write_def cache_read_def count_up_def)
qed

section \<open>The deadline reset\<close>

text \<open>Steps that only act outside keep the daemon's state.\<close>

definition outside :: "('e, 'a) task \<Rightarrow> bool" where
  "outside m \<longleftrightarrow> (\<forall>w e. fst (snd (m (w, e))) = w)"

lemma outside_pure [intro]: "outside (ine m)" "outside (ret a)" "outside (lift r)" "outside (throw er)"
  by (auto simp: outside_def run_simps split: prod.splits)

lemma outsideD: "outside m \<Longrightarrow> m (w, e) = (r, (w', e')) \<Longrightarrow> w' = w"
  by (metis fst_conv outside_def snd_conv)

lemma outside_bindm [intro]: "outside p \<Longrightarrow> (\<And>a. outside (f a)) \<Longrightarrow> outside (bindm p f)"
  by (auto simp: outside_def bindm_run split: prod.splits sum.splits) (metis fst_conv snd_conv)+

lemma outside_andthen [intro]: "outside p \<Longrightarrow> outside q \<Longrightarrow> outside (andthen p q)"
  by (auto simp: andthen_def)

lemma outside_wrap [intro]: "outside p \<Longrightarrow> outside (wrap_err h p)"
  by (auto simp: outside_def wrap_err_run split: prod.splits sum.splits) (metis fst_conv snd_conv)+

lemma outside_if [intro]: "outside p \<Longrightarrow> outside q \<Longrightarrow> outside (if b then p else q)"
  by simp

lemma outside_first:
  assumes "bindm p f (w, e) = (Inr b, (w', e'))" and "outside p"
  shows "\<exists>a e1. f a (w, e1) = (Inr b, (w', e'))"
  using assms by (auto simp: bindm_ok dest: outsideD)

lemma outside_open_target [intro]: "outside (open_target x en t project f g h)"
  by (auto simp: open_target_def connected_target_def)

lemma outside_restart_source [intro]: "outside (restart_source x en src i)"
  by (auto simp: restart_source_def Let_def connected_source_def)

lemma ine_ok: "ine m (w, e) = (r, (w', e')) \<longleftrightarrow> m e = (r, e') \<and> w' = w"
  by (auto simp: ine_run split: prod.splits)

lemma inw_ok: "inw m (w, e) = (r, (w', e')) \<longleftrightarrow> m w = (r, w') \<and> e' = e"
  by (auto simp: inw_run split: prod.splits)

lemma reset_queue_entry_ok:
  assumes run: "reset_queue_entry x en u st (w, e) = (Inr (), (w', e'))"
    and final: "q_MigrationStatus (state_entry st u) = MIGRATIONSTATUS_FINAL_IMPORT"
  shows "\<exists>q'. queue_update_status u MIGRATIONSTATUS_IDLE ''Migration window ended, waiting for next migration window''
      IMPORTSTAGE_FINAL None w = (Inr q', w')"
  using run final
  by (auto simp: reset_queue_entry_def Let_def andthen_ok bindm_ok wrap_err_ok ine_ok inw_ok ret_ok
      dest!: outsideD [OF outside_open_target] outsideD [OF outside_restart_source] split: if_splits)

text \<open>
  C29: An entry that is reset in its final import because its window has passed waits again, with the
  final import still to be done, but the import that was counted for it is not given back: exact
  counters are no longer exact, and the next final import is counted on top.
\<close>

theorem deadline_reset_leaks_import:
  assumes run: "reset_queue_entry x en u st (w, e) = (Inr (), (w', e'))"
    and final: "q_MigrationStatus (state_entry st u) = MIGRATIONSTATUS_FINAL_IMPORT"
    and q: "queue_map w u = Some q" "q_MigrationStatus q = MIGRATIONSTATUS_FINAL_IMPORT" and ex: "counters_exact w"
  shows "(\<exists>q'. queue_map w' u = Some q' \<and> q_MigrationStatus q' = MIGRATIONSTATUS_IDLE \<and> q_ImportStage q' = IMPORTSTAGE_FINAL \<and>
      q_MigrationWindowName q' = None) \<and>
    \<not> counters_exact w' \<and> counter_get (w_srcImports w') (source_of (w_db w) u) =
      int (card (source_users w' (source_of (w_db w) u))) + 1"
proof -
  from reset_queue_entry_ok [OF run final] obtain q' where
    "queue_update_status u MIGRATIONSTATUS_IDLE ''Migration window ended, waiting for next migration window''
      IMPORTSTAGE_FINAL None w = (Inr q', w')" by blast
  from queue_update_status_effect [OF this] obtain p where p: "queue_map w' = (queue_map w)(u \<mapsto> p)"
    and only: "only_queue w w'" and f: "q_MigrationStatus p = MIGRATIONSTATUS_IDLE" "q_ImportStage p = IMPORTSTAGE_FINAL"
      "q_MigrationWindowName p = None" by (auto simp: window_name_read_def window_id_by_name_def)
  have "importing q" "\<not> importing p" using q(2) f(1) by (simp_all add: importing_def)
  from uncounted_end_leaks [OF p only q(1) this ex] p f show ?thesis by auto
qed

definition final_entry :: queue_entry where
  "final_entry = sample_entry\<lparr>q_MigrationStatus := MIGRATIONSTATUS_FINAL_IMPORT, q_ImportStage := IMPORTSTAGE_FINAL,
     q_Placement := sample_placement\<lparr>p_Running := False\<rparr>\<rparr>"

definition final_world :: world where
  "final_world = (sample_world [] final_entry)\<lparr>w_srcImports := [''src'' \<mapsto> 1], w_tgtImports := [''t1'' \<mapsto> 1]\<rparr>"

lemma final_world_exact: "counters_exact final_world"
proof -
  have m: "queue_map final_world u = (if u = 7 then Some final_entry else None)" for u
    by (simp add: final_world_def sample_world_def sample_db_def queue_map_def queue_lookup_def tb_get_def read_queue_row_def
        final_entry_def)
  have src: "source_of (w_db final_world) 7 = ''src''"
    by (simp add: source_of_def final_world_def)
  have "source_users final_world n = (if n = ''src'' then {7} else {})" "target_users final_world n = (if n = ''t1'' then {7} else {})"
    "batch_users final_world n = {}" for n
    by (auto simp: users_def m src importing_def syncing_def final_entry_def)
  then show ?thesis by (simp add: counters_exact_def counter_get_def cache_read_def final_world_def) (simp add: sample_world_def)
qed

theorem deadline_reset_leaks_import_witness:
  "\<forall>en :: incus_instance list task_env. \<exists>w' e'.
     reset_queue_entry plain_ext (en\<lparr>te_incus := (\<lambda>_. sample_client)\<rparr>) 7 (sample_state final_entry) (final_world, []) =
       (Inr (), (w', e')) \<and> counters_exact final_world \<and> \<not> counters_exact w'"
proof
  fix en :: "incus_instance list task_env"
  let ?en = "en\<lparr>te_incus := (\<lambda>_. sample_client)\<rparr>"
  have q: "queue_map final_world 7 = Some final_entry"
    by (simp add: final_world_def sample_world_def sample_db_def queue_map_def queue_lookup_def tb_get_def read_queue_row_def
        final_entry_def)
  have b: "tb_get b_Name (db_batches (w_db final_world)) (q_BatchName final_entry) = Some (sample_batch\<lparr>b_Status := BATCHSTATUS_RUNNING\<rparr>)"
    by (simp add: final_world_def final_entry_def)
  have v: "migration_status_validate MIGRATIONSTATUS_IDLE = None" by simp
  obtain q' w' where up: "queue_update_status 7 MIGRATIONSTATUS_IDLE ''Migration window ended, waiting for next migration window''
      IMPORTSTAGE_FINAL None final_world = (Inr q', w')" using queue_update_status_runs [OF q b v] by blast
  have run: "reset_queue_entry plain_ext ?en 7 (sample_state final_entry) (final_world, []) = (Inr (), (w', []))"
    using up by (simp add: reset_queue_entry_def final_entry_def open_target_def connected_target_def target_connect_def
        target_set_project_def new_target_def new_incus_target_def target_to_api_def sample_target_def plain_ext_def run_simps
        sample_client_def exec_vm_def Let_def)
  have "q_MigrationStatus (state_entry (sample_state final_entry) 7) = MIGRATIONSTATUS_FINAL_IMPORT"
    "q_MigrationStatus final_entry = MIGRATIONSTATUS_FINAL_IMPORT" by (simp_all add: final_entry_def)
  from deadline_reset_leaks_import [OF run this(1) q this(2) final_world_exact] run final_world_exact
  show "\<exists>w' e'. reset_queue_entry plain_ext ?en 7 (sample_state final_entry) (final_world, []) = (Inr (), (w', e')) \<and>
      counters_exact final_world \<and> \<not> counters_exact w'" by blast
qed

section \<open>What is stored of a verification\<close>

definition stored_instance :: "world \<Rightarrow> uuid \<Rightarrow> inst option" where
  "stored_instance w u = tb_get i_UUID (db_instances (w_db w)) u"

lemma instance_repo_update_ok:
  assumes "instance_repo_update i s = (Inr u, t)"
  shows "\<exists>old. stored_instance s (i_UUID i) = Some old \<and>
    db_instances (w_db t) = tb_update i_UUID (i_UUID i) ((instance_source_type (w_db s) i)\<lparr>i_ID := i_ID old\<rparr>) (db_instances (w_db s))"
  using assms by (auto simp: instance_repo_update_def force_tx_def tx_do_ok bindm_ok dbget_ok dbmod_ok throw_ok stored_instance_def
      split: if_splits option.splits)

lemma stored_after_update:
  assumes "instance_repo_update i s = (Inr u, t)"
  shows "\<exists>new. stored_instance t (i_UUID i) = Some new \<and> i_Properties new = i_Properties i"
proof -
  from instance_repo_update_ok [OF assms] obtain old where old: "stored_instance s (i_UUID i) = Some old"
    and t: "db_instances (w_db t) = tb_update i_UUID (i_UUID i) ((instance_source_type (w_db s) i)\<lparr>i_ID := i_ID old\<rparr>) (db_instances (w_db s))"
    by blast
  have u: "i_UUID ((instance_source_type (w_db s) i)\<lparr>i_ID := i_ID old\<rparr>) = i_UUID i"
    and p: "i_Properties ((instance_source_type (w_db s) i)\<lparr>i_ID := i_ID old\<rparr>) = i_Properties i"
    by (simp_all add: instance_source_type_def split: option.splits)
  from instance_tab.get_update [OF old [unfolded stored_instance_def], of "(instance_source_type (w_db s) i)\<lparr>i_ID := i_ID old\<rparr>"] u
  have "stored_instance t (i_UUID i) = Some ((instance_source_type (w_db s) i)\<lparr>i_ID := i_ID old\<rparr>)"
    by (simp add: stored_instance_def t)
  with p show ?thesis by blast
qed

lemma set_verified_effect:
  assumes "instance_set_background_import_verified u hs names w = (Inr i', w')" and "names \<noteq> []"
  shows "\<exists>old new. stored_instance w u = Some old \<and> i' = set_verified hs names old \<and> stored_instance w' u = Some new \<and>
    (\<forall>d \<in> set (ip_Disks (i_Properties new)). d_Name d \<in> set names \<longrightarrow> d_BackgroundImportVerified d) \<and>
    map d_Name (ip_Disks (i_Properties new)) = map d_Name (ip_Disks (i_Properties old))"
proof -
  from assms(1) obtain s t where same: "same_data w s" "same_data t w'" and
    f: "bindm (instance_repo_get u) (\<lambda>i.
       if names = [] \<and> ip_BackgroundImport (i_Properties i) = hs then ret i
       else let modified = (ip_BackgroundImport (i_Properties i) \<noteq> hs \<or>
                  (\<exists>d \<in> set (ip_Disks (i_Properties i)). d_Name d \<in> set names \<and> \<not> d_BackgroundImportVerified d));
                i' = set_verified hs names i
            in if modified then andthen (instance_repo_update i') (ret i') else ret i') s = (Inr i', t)"
    unfolding instance_set_background_import_verified_def by (auto dest!: tx_do_run_ok)
  then obtain old where old: "tb_get i_UUID (db_instances (w_db s)) u = Some old" "i' = set_verified hs names old"
    using assms(2) by (auto simp: bindm_ok instance_repo_get_def found_ok dbget_ok Let_def andthen_ok ret_ok split: if_splits)
  have key: "i_UUID old = u" using instance_tab.get_key [OF old(1)] .
  have db: "w_db w = w_db s" "w_db w' = w_db t" using same by (simp_all add: same_data_def)
  consider (same) "t = s" "\<forall>d \<in> set (ip_Disks (i_Properties old)). d_Name d \<in> set names \<longrightarrow> d_BackgroundImportVerified d"
    | (up) "instance_repo_update i' s = (Inr (), t)"
    using f old assms(2) by (auto simp: bindm_ok instance_repo_get_def found_ok dbget_ok Let_def andthen_ok ret_ok split: if_splits)
  then show ?thesis
  proof cases
    case same
    with old show ?thesis by (auto simp: stored_instance_def db)
  next
    case up
    have u: "i_UUID i' = u" by (simp add: old(2) set_verified_def key)
    from stored_after_update [OF up] u old(2) obtain new where "stored_instance t u = Some new"
      "i_Properties new = i_Properties (set_verified hs names old)" by auto
    with old show ?thesis by (auto simp: stored_instance_def db set_verified_def)
  qed
qed

text \<open>
  When a verified instance is stored, every one of its disks is stored as verified, whatever the
  marks that the verification left: also a disk whose change tracking was not looked at any more
  because the time was up.
\<close>

theorem unseen_disks_stored_verified:
  assumes run: "store_verified [i] batch st w = (Inr st', w')" and old: "stored_instance w (i_UUID i) = Some old"
    and names: "map d_Name (ip_Disks (i_Properties old)) = map d_Name (ip_Disks (i_Properties i))"
    and some: "ip_Disks (i_Properties i) \<noteq> []"
  shows "\<exists>new. stored_instance w' (i_UUID i) = Some new \<and> (\<forall>d \<in> set (ip_Disks (i_Properties new)). d_BackgroundImportVerified d) \<and>
    map d_Name (ip_Disks (i_Properties new)) = map d_Name (ip_Disks (i_Properties i))"
proof -
  from run obtain i' where "instance_set_background_import_verified (i_UUID i) (ip_BackgroundImport (i_Properties i))
      (map d_Name (ip_Disks (i_Properties i))) w = (Inr i', w')" by (auto simp: bindm_ok wrap_err_ok ret_ok)
  from set_verified_effect [OF this] some old names obtain new where new: "stored_instance w' (i_UUID i) = Some new"
    "map d_Name (ip_Disks (i_Properties new)) = map d_Name (ip_Disks (i_Properties i))"
    "\<And>d. d \<in> set (ip_Disks (i_Properties new)) \<Longrightarrow> d_Name d \<in> d_Name ` set (ip_Disks (i_Properties i)) \<Longrightarrow>
      d_BackgroundImportVerified d" by auto
  have "d_Name ` set (ip_Disks (i_Properties new)) = d_Name ` set (ip_Disks (i_Properties i))"
    using arg_cong [OF new(2), of set] by simp
  with new show ?thesis by blast
qed

definition two_disks :: inst where
  "two_disks = sample_inst\<lparr>i_Properties := sample_props\<lparr>ip_Disks :=
     [sample_disk\<lparr>d_Name := ''[ds] vm/vm.vmdk'', d_BackgroundImportVerified := False\<rparr>,
      sample_disk\<lparr>d_Name := ''[ds] vm/vm_1.vmdk'', d_BackgroundImportVerified := False\<rparr>]\<rparr>\<rparr>"

definition slow_vsphere :: "string vsphere" where
  "slow_vsphere = sample_vsphere\<lparr>vs_stat := (\<lambda>_ f. if f = ''vm/vm-ctk.vmdk'' then ret () else throw deadline_exceeded)\<rparr>"

definition two_disks_world :: world where
  "two_disks_world = empty_world\<lparr>w_db := (w_db empty_world)\<lparr>db_instances := [two_disks], db_sources := [sample_source]\<rparr>\<rparr>"

theorem unseen_disks_stored_verified_witness:
  "\<exists>j st' w' new.
     verify_background_import slow_vsphere sample_vw [two_disks] ''poweredOn'' = (Inr [j], ''poweredOn'') \<and>
     map d_BackgroundImportVerified (ip_Disks (i_Properties j)) = [True, False] \<and>
     store_verified [j] ''b1'' [] two_disks_world = (Inr st', w') \<and> stored_instance w' 7 = Some new \<and>
     list_all d_BackgroundImportVerified (ip_Disks (i_Properties new))"
proof -
  obtain j where j: "verify_background_import slow_vsphere sample_vw [two_disks] ''poweredOn'' = (Inr [j], ''poweredOn'')"
    "map d_BackgroundImportVerified (ip_Disks (i_Properties j)) = [True, False]" "i_UUID j = 7"
    "map d_Name (ip_Disks (i_Properties j)) = map d_Name (ip_Disks (i_Properties two_disks))"
    by (simp add: slow_vsphere_def verify_background_import_def candidate_insts_def candidate_disks_def two_disks_def sample_props_def
        sample_disk_def sample_inst_def run_simps source_paths_def sample_vw_def sample_vmware_def if_any_def verify_inst_def
        path_base_def is_slash_def cut_suffix_def gm_set_def Let_def suffix_def is_deadline_def deadline_exceeded_def)
  have old: "stored_instance two_disks_world (i_UUID j) = Some two_disks"
    by (simp add: stored_instance_def two_disks_world_def tb_get_def j(3)) (simp add: two_disks_def)
  have n: "map d_Name (ip_Disks (i_Properties j)) = [''[ds] vm/vm.vmdk'', ''[ds] vm/vm_1.vmdk'']"
    by (simp add: j(4) two_disks_def)
  have "\<exists>st' w'. store_verified [j] ''b1'' [] two_disks_world = (Inr st', w')"
    using old by (simp add: run_simps instance_set_background_import_verified_def instance_repo_get_def stored_instance_def n j(3)
        Let_def instance_repo_update_def force_tx_def set_verified_def two_disks_world_def empty_world_def)
      (simp add: two_disks_def tb_get_def sample_source_def run_simps)
  then obtain st' w' where run: "store_verified [j] ''b1'' [] two_disks_world = (Inr st', w')" by blast
  have "ip_Disks (i_Properties j) \<noteq> []" using n by auto
  from unseen_disks_stored_verified [OF run old j(4) [symmetric] this] j run show ?thesis by (auto simp: list_all_iff)
qed

section \<open>The worker's image\<close>

text \<open>
  Once a pool of a project on a target has been provided with an image in a run, it is not looked
  at again in that run: the step for another entry with the same place changes nothing, whatever
  architecture its instance has and although the image's volume differs between architectures.
\<close>

theorem image_of_first_architecture_only:
  assumes first: "provide_image x en st u q pool (s, seen, bad) = (Inr (), (s', seen', bad))"
    and place: "p_TargetName (q_Placement q2) = p_TargetName (q_Placement q)"
      "p_TargetProject (q_Placement q2) = p_TargetProject (q_Placement q)"
  shows "provide_image x en st2 u2 q2 pool (s', seen', bad) = (Inr (), (s', seen', bad))"
proof -
  let ?p = "(p_TargetName (q_Placement q), p_TargetProject (q_Placement q), pool)"
  have "?p \<in> set seen'"
  proof (cases "?p \<in> set seen")
    case True
    with first show ?thesis by (auto simp: provide_image_def Let_def run_simps)
  next
    case False
    with first show ?thesis
      by (auto simp: provide_image_def Let_def run_simps under_def split: prod.splits sum.splits)
  qed
  with place show ?thesis by (simp add: provide_image_def Let_def run_simps)
qed

definition arm_inst :: inst where
  "arm_inst = sample_inst\<lparr>i_UUID := 8, i_Properties := sample_props\<lparr>ip_Configurable := sample_configurable\<lparr>cfg_Architecture := ''aarch64''\<rparr>\<rparr>\<rparr>"

theorem image_of_first_architecture_only_witness:
  "\<forall>en :: incus_instance list task_env. \<exists>s'.
     provide_image plain_ext (en\<lparr>te_incus := (\<lambda>_. sample_client), te_load_image := ret, te_import_backup := (\<lambda>_ _ _ _ _. ret ())\<rparr>)
       (sample_state sample_entry) 7 sample_entry ''pool'' ((sample_world [] sample_entry, []), [], []) =
       (Inr (), (s', [(''t1'', ''default'', ''pool'')], [])) \<and>
     provide_image plain_ext (en\<lparr>te_incus := (\<lambda>_. sample_client), te_load_image := ret, te_import_backup := (\<lambda>_ _ _ _ _. ret ())\<rparr>)
       ((sample_state sample_entry)\<lparr>ms_Instances := [(8, arm_inst)]\<rparr>) 8 sample_entry ''pool''
         (s', [(''t1'', ''default'', ''pool'')], []) = (Inr (), (s', [(''t1'', ''default'', ''pool'')], [])) \<and>
     worker_volume plain_ext (get_architecture plain_ext arm_inst) \<noteq> worker_volume plain_ext (get_architecture plain_ext sample_inst)"
proof
  fix en :: "incus_instance list task_env"
  let ?en = "en\<lparr>te_incus := (\<lambda>_. sample_client), te_load_image := ret, te_import_backup := (\<lambda>_ _ _ _ _. ret ())\<rparr>"
  let ?w = "sample_world [] sample_entry"
  have dec: "x_incus_dec plain_ext ''limit 1'' = Inr (sample_incus 1)" by (simp add: plain_ext_def)
  have b1: "tb_get b_Name (db_batches (w_db ?w)) ''b1'' = Some (sample_batch\<lparr>b_Status := BATCHSTATUS_RUNNING\<rparr>)" by simp
  have up: "tb_get b_Name (db_batches (w_db (?w\<lparr>w_db := (w_db ?w)\<lparr>db_batches := tb_update b_Name ''b1''
      (sample_batch\<lparr>b_StatusMessage := msg\<rparr>) (db_batches (w_db ?w))\<rparr>\<rparr>))) ''b1'' =
      Some (sample_batch\<lparr>b_StatusMessage := msg\<rparr>)" for msg
    using batch_tab.get_update [OF b1, of "sample_batch\<lparr>b_StatusMessage := msg\<rparr>" "''b1''"] by simp
  have "\<exists>s'. provide_image plain_ext ?en (sample_state sample_entry) 7 sample_entry ''pool'' ((?w, []), [], []) =
       (Inr (), (s', [(''t1'', ''default'', ''pool'')], []))"
    using dec by (simp add: provide_image_def Let_def run_simps under_def ensure_iso_images_def open_target_def connected_target_def
        target_connect_def target_set_project_def new_target_def new_incus_target_def target_to_api_def sample_target_def
        sample_client_def batch_update_status_run [OF b1] batch_update_status_run [OF up] sample_placement_def)
  then obtain s' where first: "provide_image plain_ext ?en (sample_state sample_entry) 7 sample_entry ''pool''
      ((sample_world [] sample_entry, []), [], []) = (Inr (), (s', [(''t1'', ''default'', ''pool'')], []))" by blast
  have "worker_volume plain_ext (get_architecture plain_ext arm_inst) \<noteq> worker_volume plain_ext (get_architecture plain_ext sample_inst)"
    by (simp add: worker_volume_def get_architecture_def arm_inst_def sample_inst_def sample_props_def sample_configurable_def plain_ext_def
        no_override_def no_configurable_def)
  with first image_of_first_architecture_only [OF first refl refl]
  show "\<exists>s'. provide_image plain_ext ?en (sample_state sample_entry) 7 sample_entry ''pool'' ((sample_world [] sample_entry, []), [], []) =
       (Inr (), (s', [(''t1'', ''default'', ''pool'')], [])) \<and>
     provide_image plain_ext ?en ((sample_state sample_entry)\<lparr>ms_Instances := [(8, arm_inst)]\<rparr>) 8 sample_entry ''pool''
         (s', [(''t1'', ''default'', ''pool'')], []) = (Inr (), (s', [(''t1'', ''default'', ''pool'')], [])) \<and>
     worker_volume plain_ext (get_architecture plain_ext arm_inst) \<noteq> worker_volume plain_ext (get_architecture plain_ext sample_inst)"
    by blast
qed

section \<open>The wait for the agent\<close>

text \<open>
  The wait for a VM's agent ends: if the agent first answers the question number \<open>k\<close> (from 0), the
  wait returns then, provided that it asks that often; otherwise it ends with an error after the last
  question. \<open>es\<close> are the states of Incus between the questions; errors other than "not found" count as
  no answer.
\<close>

theorem agent_wait_ends:
  assumes quiet: "\<forall>j < k. (\<exists>p. ic_instance_state c (it_Project t) name (es j) = (Inr (True, p), es (Suc j)) \<and> p \<le> 0) \<or>
      (\<exists>er. ic_instance_state c (it_Project t) name (es j) = (Inl er, es (Suc j)) \<and> \<not> err_status http_not_found er)"
    and answer: "ic_instance_state c (it_Project t) name (es k) = (Inr (True, p), es (Suc k))" "0 < p"
  shows "if k < n then check_incus_agent n c t name lst deadline (es 0) = (Inr (), es (Suc k))
    else \<exists>er. check_incus_agent n c t name lst deadline (es 0) = (Inl er, es n)"
  using assms
proof (induction n arbitrary: k es lst)
  case 0
  then show ?case by (simp add: run_simps)
next
  case (Suc n)
  show ?case
  proof (cases k)
    case 0
    with Suc.prems show ?thesis by (simp add: run_simps)
  next
    case (Suc k')
    have "if k' < n then check_incus_agent n c t name l deadline (es (Suc 0)) = (Inr (), es (Suc (Suc k')))
      else \<exists>er. check_incus_agent n c t name l deadline (es (Suc 0)) = (Inl er, es (Suc n))" for l
      using Suc.IH [of k' "\<lambda>j. es (Suc j)" l] Suc.prems Suc by (auto simp: less_Suc_eq_0_disj)
    moreover have "\<exists>l. check_incus_agent (Suc n) c t name lst deadline (es 0) = check_incus_agent n c t name l deadline (es (Suc 0))"
      using Suc.prems(1) Suc by (force simp: run_simps)
    ultimately show ?thesis using Suc by (metis Suc_less_eq)
  qed
qed

theorem agent_wait_ends_witness:
  "check_incus_agent 3 (sample_client\<lparr>ic_instance_state := (\<lambda>_ _. bindm (gets length) (\<lambda>n.
       andthen (modify (tl)) (ret (True, if n = 0 then 1 else 0))))\<rparr>) sample_incus_target ''vm'' None deadline_exceeded
       [sample_vm Map.empty []] = (Inr (), [])"
  using agent_wait_ends [of 1 "sample_client\<lparr>ic_instance_state := (\<lambda>_ _. bindm (gets length) (\<lambda>n.
       andthen (modify (tl)) (ret (True, if n = 0 then 1 else 0))))\<rparr>" sample_incus_target "''vm''"
       "\<lambda>j. if j = 0 then [sample_vm Map.empty []] else []" 1 3 None deadline_exceeded]
  by (simp add: run_simps)

section \<open>Instances that changed on the source\<close>

text \<open>The identity of an instance is its UUID, its name and its disks.\<close>

definition identity_changed :: "ext \<Rightarrow> inst \<Rightarrow> inst \<Rightarrow> bool" where
  "identity_changed x old new \<longleftrightarrow> i_UUID old \<noteq> i_UUID new \<or>
     (snd (apply_updates x old new) \<and> (get_name (fst (apply_updates x old new)) \<noteq> get_name old \<or>
        ip_Disks (i_Properties (fst (apply_updates x old new))) \<noteq> ip_Disks (i_Properties old)))"

lemma identity_check_changed:
  "identity_changed x old new \<longleftrightarrow> (\<exists>c. identity_check x old new = Some (Inl c))"
  by (auto simp: identity_changed_def identity_check_def Let_def split: prod.splits)

lemma identity_check_conflict:
  "identity_check x old new = Some (Inl c) \<Longrightarrow> (\<exists>msg. cs_Status c = Some (MIGRATIONSTATUS_ERROR, msg)) \<and> cs_Placement c = None"
  by (auto simp: identity_check_def Let_def split: prod.splits if_splits)

lemma check_changed_instance:
  assumes "matching_instance st new = Some (s, old)"
    and "q_MigrationStatus (state_entry s (i_UUID old)) = MIGRATIONSTATUS_WORKER_DONE"
    and "identity_check x old (new\<lparr>i_Properties := (i_Properties new)\<lparr>ip_Running := False\<rparr>\<rparr>) = Some (Inl c)"
    and "check_source_instance x en existing st clients new fc (w, e) = (Inr fc', (w', e'))"
  shows "fc' = with_update (i_UUID old) c fc" and "w' = w"
  using assms by (auto simp: check_source_instance_def andthen_ok ret_ok wrap_err_ok ine_ok throw_ok split: if_splits option.splits)

lemma apply_update_conflict:
  assumes run: "apply_update x known n i c st w = (Inr st', w')" and c: "cs_Status c = Some (status, msg)" "cs_Placement c = None"
  shows "(\<exists>q. queue_map w' (i_UUID i) = Some q \<and> q_MigrationStatus q = status \<and> q_MigrationStatusMessage q = msg) \<and>
    (\<forall>s'. map_of st' n = Some s' \<longrightarrow> q_MigrationStatus (state_entry s' (i_UUID i)) = status)"
proof -
  from run c obtain w1 q i' where up: "queue_update_status (i_UUID i) status msg (q_ImportStage (entry_of st n (i_UUID i)))
      (get_window_name (entry_of st n (i_UUID i))) w1 = (Inr q, w')"
    and st': "st' = set_instance n i' (set_entry n q st)" "i_UUID i' = i_UUID i"
    by (auto simp: apply_update_def Let_def andthen_ok bindm_ok ret_ok)
  from queue_update_status_effect [OF up] obtain q0 p where q: "queue_map w' (i_UUID i) = Some p"
    "q_MigrationStatus p = status" "q_MigrationStatusMessage p = msg" "q_MigrationStatus q = status" "q_InstanceUUID q = q_InstanceUUID q0"
    "queue_map w1 (i_UUID i) = Some q0" by auto
  have "q_InstanceUUID q = i_UUID i" using q(5) queue_map_key [OF q(6)] by simp
  with q(1-4) st' show ?thesis
    by (auto simp: set_instance_def set_entry_def state_entry_def split: option.splits if_splits)
qed

text \<open>
  C27: An instance whose identity on the source is not that of its import (another UUID, another name,
  other disks) does not finish: the final checks give it an error, which is recorded for its entry,
  and the finalizing step leaves it alone unless its window has passed.
\<close>

theorem changed_identity_not_finished:
  assumes match: "matching_instance st new = Some (s, old)"
    and worker_done: "q_MigrationStatus (state_entry s (i_UUID old)) = MIGRATIONSTATUS_WORKER_DONE"
    and changed: "identity_changed x old (new\<lparr>i_Properties := (i_Properties new)\<lparr>ip_Running := False\<rparr>\<rparr>)"
    and check: "check_source_instance x en existing st clients new fc (w, e) = (Inr fc', (w1, e1))"
    and update: "map_of (fc_Updates fc') (i_UUID old) = Some c" "apply_update x known n old c st w2 = (Inr st', w3)"
    and after: "map_of st' n = Some s'" "\<not> window_passed x s (state_entry s (i_UUID old))"
  shows "(\<exists>q. queue_map w3 (i_UUID old) = Some q \<and> q_MigrationStatus q = MIGRATIONSTATUS_ERROR) \<and>
    finalize_instance x en s s' (i_UUID old) i (p, out) = (Inr (), (p, out))"
proof -
  from changed obtain c' where c': "identity_check x old (new\<lparr>i_Properties := (i_Properties new)\<lparr>ip_Running := False\<rparr>\<rparr>) = Some (Inl c')"
    using identity_check_changed by blast
  from check_changed_instance [OF match worker_done c' check] update(1) have c: "c = c'" by (simp add: with_update_def)
  from identity_check_conflict [OF c'] obtain msg where "cs_Status c = Some (MIGRATIONSTATUS_ERROR, msg)" "cs_Placement c = None"
    unfolding c by blast
  from apply_update_conflict [OF update(2) this] after
  have "\<exists>q. queue_map w3 (i_UUID old) = Some q \<and> q_MigrationStatus q = MIGRATIONSTATUS_ERROR"
    "q_MigrationStatus (state_entry s' (i_UUID old)) = MIGRATIONSTATUS_ERROR" by auto
  with after(2) show ?thesis by (simp add: finalize_instance_def Let_def run_simps)
qed

lemma queue_lookup_instances [simp]: "queue_lookup (d\<lparr>db_instances := is\<rparr>) = queue_lookup d"
proof -
  have "read_queue_row (d\<lparr>db_instances := is\<rparr>) = read_queue_row d"
    by (simp add: read_queue_row_def fun_eq_iff window_by_id_def cong: option.case_cong)
  then show ?thesis by (intro ext) (simp only: queue_lookup_def, simp)
qed

definition renamed_inst :: inst where
  "renamed_inst = sample_inst\<lparr>i_UUID := 9\<rparr>"

theorem changed_identity_not_finished_witness:
  "\<forall>(en :: string task_env) e. \<exists>c st' w3 s'.
     map_of (fc_Updates (with_update 7 c \<lparr>fc_Networks = [], fc_Details = [], fc_Updates = [], fc_Random = 0\<rparr>)) 7 = Some c \<and>
     check_source_instance plain_ext en [] [(''b1'', sample_state worker_done_entry)] [(''src'', sample_vw)]
       (renamed_inst\<lparr>i_Properties := (i_Properties renamed_inst)\<lparr>ip_Running := False\<rparr>\<rparr>)
       \<lparr>fc_Networks = [], fc_Details = [], fc_Updates = [], fc_Random = 0\<rparr> (sample_world [] worker_done_entry, e) =
       (Inr (with_update 7 c \<lparr>fc_Networks = [], fc_Details = [], fc_Updates = [], fc_Random = 0\<rparr>), (sample_world [] worker_done_entry, e)) \<and>
     apply_update plain_ext [] ''b1'' sample_inst c [(''b1'', sample_state worker_done_entry)] (sample_world [] worker_done_entry) =
       (Inr st', w3) \<and> map_of st' ''b1'' = Some s' \<and>
     finalize_instance plain_ext en (sample_state worker_done_entry) s' 7 sample_inst ((w3, e), [], []) = (Inr (), ((w3, e), [], []))"
proof (intro allI)
  fix en :: "string task_env" and e
  let ?w = "sample_world [] worker_done_entry" and ?fc = "\<lparr>fc_Networks = [], fc_Details = [], fc_Updates = [], fc_Random = 0\<rparr>"
  let ?new = "renamed_inst\<lparr>i_Properties := (i_Properties renamed_inst)\<lparr>ip_Running := False\<rparr>\<rparr>" and ?s = "sample_state worker_done_entry"
  have match: "matching_instance [(''b1'', ?s)] ?new = Some (?s, sample_inst)"
    by (simp add: matching_instance_def Let_def renamed_inst_def sample_inst_def uuid_nil_def)
  obtain c where c: "identity_check plain_ext sample_inst ?new = Some (Inl c)" "cs_Properties c = i_Properties ?new"
    by (simp add: identity_check_def renamed_inst_def Let_def)
  have "check_source_instance plain_ext en [] [(''b1'', ?s)] [(''src'', sample_vw)] ?new ?fc (?w, e) = (Inr (with_update 7 c ?fc), (?w, e))"
    using match c by (simp add: check_source_instance_def run_simps)
  have v: "instance_validate plain_ext (sample_inst\<lparr>i_Properties := i_Properties ?new\<rparr>) = None"
    by code_simp
  let ?i = "sample_inst\<lparr>i_Properties := i_Properties ?new\<rparr>"
  let ?u = "?w\<lparr>w_db := (w_db ?w)\<lparr>db_instances := tb_update i_UUID 7 ((instance_source_type (w_db ?w) ?i)\<lparr>i_ID := i_ID sample_inst\<rparr>)
      (db_instances (w_db ?w))\<rparr>\<rparr>"
  have nics: "fill_nic_uuids [] ''src'' (i_Properties ?new) = i_Properties ?new"
    by (simp add: fill_nic_uuids_def network_at_def)
  have up: "instance_update plain_ext ?i True ?w = (Inr (), ?u)"
    using v by (simp add: instance_update_def instance_repo_get_def instance_repo_update_def force_tx_def run_simps)
  have "queue_map ?u = queue_map ?w" by (simp add: queue_map_def fun_eq_iff)
  then have q: "queue_map ?u 7 = Some worker_done_entry" by simp
  have b: "tb_get b_Name (db_batches (w_db ?u)) (q_BatchName worker_done_entry) = Some (sample_batch\<lparr>b_Status := BATCHSTATUS_RUNNING\<rparr>)"
    by simp
  obtain msg where msg: "cs_Status c = Some (MIGRATIONSTATUS_ERROR, msg)" "cs_Placement c = None"
    using identity_check_conflict [OF c(1)] by blast
  from queue_update_status_runs [OF q b, of MIGRATIONSTATUS_ERROR] obtain q' w3 where
    st: "queue_update_status 7 MIGRATIONSTATUS_ERROR msg (q_ImportStage worker_done_entry) None ?u = (Inr q', w3)" by auto blast
  let ?st = "set_instance ''b1'' ?i (set_entry ''b1'' q' [(''b1'', ?s)])"
  have e: "entry_of [(''b1'', ?s)] ''b1'' 7 = worker_done_entry" by (simp add: entry_of_def)
  have up2: "apply_update plain_ext [] ''b1'' sample_inst c [(''b1'', ?s)] ?w = (Inr ?st, w3)"
    using up st msg c(2) nics by (simp add: apply_update_def run_simps e Let_def)
  obtain s' where s': "map_of ?st ''b1'' = Some s'" by (simp add: set_instance_def set_entry_def)
  have check: "check_source_instance plain_ext en [] [(''b1'', ?s)] [(''src'', sample_vw)] ?new ?fc (?w, e) =
      (Inr (with_update 7 c ?fc), (?w, e))" using match c by (simp add: check_source_instance_def run_simps)
  have fc: "map_of (fc_Updates (with_update 7 c ?fc)) 7 = Some c" by (simp add: with_update_def)
  have changed: "identity_changed plain_ext sample_inst (?new\<lparr>i_Properties := (i_Properties ?new)\<lparr>ip_Running := False\<rparr>\<rparr>)"
    by (simp add: identity_changed_def renamed_inst_def)
  have win: "\<not> window_passed plain_ext ?s (state_entry ?s 7)" by (simp add: window_passed_def window_of_entry_def)
  from changed_identity_not_finished [OF match _ changed check _ _ s'] fc up2 win
  have "finalize_instance plain_ext en ?s s' 7 sample_inst ((w3, e), [], []) = (Inr (), ((w3, e), [], []))" by auto
  with fc check up2 s' show "\<exists>c st' w3 s'. map_of (fc_Updates (with_update 7 c ?fc)) 7 = Some c \<and>
     check_source_instance plain_ext en [] [(''b1'', ?s)] [(''src'', sample_vw)] ?new ?fc (?w, e) = (Inr (with_update 7 c ?fc), (?w, e)) \<and>
     apply_update plain_ext [] ''b1'' sample_inst c [(''b1'', ?s)] ?w = (Inr st', w3) \<and> map_of st' ''b1'' = Some s' \<and>
     finalize_instance plain_ext en ?s s' 7 sample_inst ((w3, e), [], []) = (Inr (), ((w3, e), [], []))"
    by blast
qed

end
