(* ===== verification/Disk_Copy.thy ===== *)
theory Disk_Copy
  imports VMware_Source
begin

text \<open>
  The import of disks as the worker does it (\<^verbatim>\<open>internal/migratekit\<close> and \<open>ImportDisks\<close> of
  \<^verbatim>\<open>internal/source/vmware_linux.go\<close>): a snapshot of the VM, one nbdkit server for each disk, and for
  each disk a full copy or, from a recorded change id on, a copy of what changed since.
\<close>

section \<open>State and surroundings\<close>

text \<open>
  The machine that the worker runs on: the contents of its block devices, and the small text files
  it writes. Offsets and lengths are Go's \<open>int64\<close>; they are bounded by a disk's capacity and do not
  wrap.
\<close>

type_synonym bytes = "8 word list"

record host =
  hs_Devices :: "(string, bytes) gomap"
  hs_Files :: "(string, string) gomap"

record virtual_disk =
  vd_Key :: int
  vd_Backing :: disk_backing
  vd_ChangeId :: string
  vd_Capacity :: int

record change_info =
  cg_Start :: int
  cg_Length :: int
  cg_Areas :: "(int \<times> int) list"   \<comment> \<open>start and length\<close>

text \<open>
  What is outside: VMware with its snapshots (starting one's creation or removal gives a task to wait for), the programs nbdkit and nbdcopy, the devices of the
  instance, and the file system's errors. \<open>de_nbdcopy\<close> gives the content that the copy leaves in the
  device, also when it fails.
\<close>

record 'e disk_env =
  de_vm_reference :: "string \<Rightarrow> ('e, err, vm_ref) act"
  de_create_snapshot :: "vm_ref \<Rightarrow> string \<Rightarrow> ('e, err, string) act"
  de_wait_task :: "string \<Rightarrow> ('e, err, string) act"
  de_snapshot_disks :: "string \<Rightarrow> ('e, err, virtual_disk list) act"
  de_remove_snapshot :: "vm_ref \<Rightarrow> string \<Rightarrow> ('e, err, string) act"
  de_nbdkit_start :: "vm_ref \<Rightarrow> string \<Rightarrow> string \<Rightarrow> string \<Rightarrow> ('e, err, string) act"
    \<comment> \<open>VM, snapshot, disk file, SDK; the socket\<close>
  de_nbdkit_stop :: "string \<Rightarrow> ('e, err, unit) act"
  de_devices :: "('e, err, (string, config) gomap) act"
  de_disk_ids :: "('e, err, (string \<times> string) list) act"
    \<comment> \<open>the names in \<^verbatim>\<open>/dev/disk/by-id\<close> and the devices they lead to\<close>
  de_io :: "string \<Rightarrow> ('e, err, unit) act"
  de_query :: "vm_ref \<Rightarrow> string \<Rightarrow> int \<Rightarrow> int \<Rightarrow> string \<Rightarrow> ('e, err, change_info) act"
    \<comment> \<open>VM, snapshot, disk key, start, change id\<close>
  de_nbd_connect :: "string \<Rightarrow> ('e, err, unit) act"
  de_pread :: "string \<Rightarrow> int \<Rightarrow> int \<Rightarrow> ('e, err, bytes) act"   \<comment> \<open>socket, length, offset\<close>
  de_nbdcopy :: "string list \<Rightarrow> bytes \<Rightarrow> 'e \<Rightarrow> ((err + unit) \<times> bytes) \<times> 'e"
  de_status :: "string \<Rightarrow> bool \<Rightarrow> ('e, err, unit) act"

type_synonym ('e, 'a) dact = "(host \<times> 'e, err, 'a) act"

definition beyond :: "('e, err, 'a) act \<Rightarrow> ('e, 'a) dact" where
  "beyond m = (\<lambda>(h, e). case m e of (r, e') \<Rightarrow> (r, (h, e')))"

lemma beyond_run [run_simps]: "beyond m (h, e) = (case m e of (r, e') \<Rightarrow> (r, (h, e')))"
  by (simp add: beyond_def)

definition at_host :: "(host \<Rightarrow> 'a) \<Rightarrow> ('e, 'a) dact" where
  "at_host f = gets (\<lambda>(h, e). f h)"

definition set_host :: "(host \<Rightarrow> host) \<Rightarrow> ('e, unit) dact" where
  "set_host f = modify (\<lambda>(h, e). (f h, e))"

lemma at_host_run [run_simps]: "at_host f (h, e) = (Inr (f h), (h, e))"
  by (simp add: at_host_def run_simps)

lemma set_host_run [run_simps]: "set_host f (h, e) = (Inr (), (f h, e))"
  by (simp add: set_host_def run_simps)

section \<open>Change ids\<close>

record change_id =
  ci_UUID :: string
  ci_Number :: string
  ci_Value :: string

definition invalid_change_id :: err where
  "invalid_change_id = ExternalErr ''invalid change ID''"

definition parse_change_id :: "string \<Rightarrow> err + change_id" where
  "parse_change_id s =
     (case str_split (CHR ''/'') s of
        [a, b] \<Rightarrow> Inr \<lparr>ci_UUID = a, ci_Number = b, ci_Value = s\<rparr>
      | _ \<Rightarrow> Inl invalid_change_id)"

fun has_change_id :: "disk_backing \<Rightarrow> bool" where
  "has_change_id (FlatVer2 f ps) = True"
| "has_change_id (SparseVer2 f ps) = True"
| "has_change_id (RawDiskMappingVer1 f ps) = True"
| "has_change_id (RawDiskVer2 dev) = True"
| "has_change_id _ = False"

definition get_change_id :: "virtual_disk \<Rightarrow> err + change_id" where
  "get_change_id d =
     (if \<not> has_change_id (vd_Backing d) then Inl (ExternalErr ''failed to get change ID'')
      else if vd_ChangeId d = '''' then Inl (Errorf ''CBT is not enabled on disk %d'' [AInt (vd_Key d)])
      else parse_change_id (vd_ChangeId d))"

text \<open>The file in which the change id of a device's last copy is kept.\<close>

definition cid_file :: "string \<Rightarrow> string" where
  "cid_file dev = ''/tmp/migration-manager_'' @ last (str_split (CHR ''/'') dev) @ ''.cid''"

text \<open>A file that is not there reads as the empty text, which is no change id.\<close>

definition get_current_change_id :: "'e disk_env \<Rightarrow> string \<Rightarrow> ('e, change_id) dact" where
  "get_current_change_id en dev =
     andthen (beyond (de_io en (cid_file dev)))
       (bindm (at_host (\<lambda>h. gm_get '''' (hs_Files h) (cid_file dev))) (\<lambda>s. lift (parse_change_id s)))"

definition write_change_id :: "'e disk_env \<Rightarrow> string \<Rightarrow> change_id \<Rightarrow> ('e, unit) dact" where
  "write_change_id en dev c =
     andthen (beyond (de_io en (cid_file dev)))
       (set_host (\<lambda>h. h\<lparr>hs_Files := gm_set (cid_file dev) (ci_Value c) (hs_Files h)\<rparr>))"

text \<open>
  \<open>Exists\<close> reports a device that is not there as an error; so the case that it does not exist, with a
  clean target, never occurs.
\<close>

definition device_exists :: "'e disk_env \<Rightarrow> string \<Rightarrow> ('e, bool) dact" where
  "device_exists en dev =
     andthen (beyond (de_io en dev))
       (bindm (at_host (\<lambda>h. map_of (hs_Devices h) dev)) (\<lambda>d.
         if d = None then throw (ExternalErr ''file does not exist'') else ret True))"

text \<open>Whether the whole disk has to be copied, and whether the device is known to be zero.\<close>

definition needs_full_copy :: "'e disk_env \<Rightarrow> string \<Rightarrow> virtual_disk \<Rightarrow> ('e, bool \<times> bool) dact" where
  "needs_full_copy en dev d =
     bindm (device_exists en dev) (\<lambda>ex.
     if \<not> ex then ret (True, True)
     else bindm (attempt (get_current_change_id en dev)) (\<lambda>r.
       case r of
         Inl e \<Rightarrow> if err_chain (\<lambda>c. c = invalid_change_id) e then ret (True, False) else throw e
       | Inr cur \<Rightarrow> bindm (lift (get_change_id d)) (\<lambda>snap. ret (ci_UUID cur \<noteq> ci_UUID snap, False))))"

section \<open>Copying\<close>

definition max_chunk_size :: int where
  "max_chunk_size = 64 * 1024 * 1024"

definition export_name :: "string \<Rightarrow> string" where
  "export_name socket = ''nbd+unix:///?socket='' @ socket"

text \<open>A write into a block device does not go beyond its end.\<close>

definition overlay :: "bytes \<Rightarrow> nat \<Rightarrow> bytes \<Rightarrow> bytes" where
  "overlay c off buf = take off c @ buf @ drop (off + length buf) c"

definition write_at :: "'e disk_env \<Rightarrow> string \<Rightarrow> int \<Rightarrow> bytes \<Rightarrow> ('e, unit) dact" where
  "write_at en dev off buf =
     andthen (beyond (de_io en dev))
       (bindm (at_host (\<lambda>h. gm_get [] (hs_Devices h) dev)) (\<lambda>c.
         if off < 0 \<or> int (length c) < off + int (length buf) then throw (ExternalErr ''no space left on device'')
         else set_host (\<lambda>h. h\<lparr>hs_Devices := gm_set dev (overlay c (nat off) buf) (hs_Devices h)\<rparr>)))"

text \<open>The position of a disk among the servers' disks, for the messages.\<close>

fun disk_index :: "virtual_disk list \<Rightarrow> string \<Rightarrow> nat \<Rightarrow> err + nat" where
  "disk_index [] name i = Inr 1"
| "disk_index (d # ds) name i =
     (let (n, _, e) = is_supported_disk (vd_Backing d) in
      case e of Some er \<Rightarrow> Inl er
      | None \<Rightarrow> if n = name then Inr i else disk_index ds name (Suc i))"

definition import_message :: "nat \<Rightarrow> nat \<Rightarrow> string" where
  "import_message i n = sprintf ''Importing disk (%d/%d)'' [show_int (int i), show_int (int n)]"

text \<open>
  One changed area, in chunks, each reported (without the percentage of the code's message).
\<close>

function copy_area :: "'e disk_env \<Rightarrow> string \<Rightarrow> string \<Rightarrow> string \<Rightarrow> int \<times> int \<Rightarrow> int \<Rightarrow> ('e, unit) dact" where
  "copy_area en sock dev msg (a, l) off =
     (if off < a + l
      then let chunk = min (l - (off - a)) max_chunk_size in
        bindm (beyond (de_pread en sock chunk off)) (\<lambda>buf.
        andthen (write_at en dev off buf)
        (andthen (beyond (de_status en msg False))
          (copy_area en sock dev msg (a, l) (off + chunk))))
      else ret ())"
  by pat_completeness auto
termination
  by (relation "measure (\<lambda>(en, sock, dev, msg, (a, l), off). nat (a + l - off))") (auto simp: max_chunk_size_def)

declare copy_area.simps [simp del]

fun copy_areas :: "'e disk_env \<Rightarrow> string \<Rightarrow> string \<Rightarrow> string \<Rightarrow> (int \<times> int) list \<Rightarrow> ('e, unit) dact" where
  "copy_areas en sock dev msg [] = ret ()"
| "copy_areas en sock dev msg ((a, l) # rs) =
     andthen (copy_area en sock dev msg (a, l) a) (copy_areas en sock dev msg rs)"

text \<open>
  The rounds of the incremental copy: a query for the changes from an offset on, and their copies,
  until the offset after the answer is the capacity. Nothing in the code stops it when an answer does
  not get further, so it need not return.
\<close>

partial_function (option) incremental_rounds ::
    "'e disk_env \<Rightarrow> vm_ref \<Rightarrow> string \<Rightarrow> string \<Rightarrow> string \<Rightarrow> string \<Rightarrow> virtual_disk \<Rightarrow> string \<Rightarrow> int \<Rightarrow> host \<times> 'e \<Rightarrow>
      ((err + unit) \<times> (host \<times> 'e)) option" where
  "incremental_rounds en vm snap sock dev msg d cid start s =
     (case beyond (de_query en vm snap (vd_Key d) start cid) s of
        (Inl e, s1) \<Rightarrow> Some (Inl (Errorf ''Failed to query disk changes: %w'' [AWrap e]), s1)
      | (Inr info, s1) \<Rightarrow>
          (case copy_areas en sock dev msg (cg_Areas info) s1 of
             (Inl e, s2) \<Rightarrow> Some (Inl e, s2)
           | (Inr _, s2) \<Rightarrow>
               if cg_Start info + cg_Length info = vd_Capacity d then Some (Inr (), s2)
               else incremental_rounds en vm snap sock dev msg d cid (cg_Start info + cg_Length info) s2))"

section \<open>Computations that may not return\<close>

type_synonym ('e, 'a) oact = "host \<times> 'e \<Rightarrow> ((err + 'a) \<times> (host \<times> 'e)) option"

definition always :: "('e, 'a) dact \<Rightarrow> ('e, 'a) oact" where
  "always m = (\<lambda>s. Some (m s))"

definition obind :: "('e, 'a) oact \<Rightarrow> ('a \<Rightarrow> ('e, 'b) oact) \<Rightarrow> ('e, 'b) oact" where
  "obind m f = (\<lambda>s. case m s of
     None \<Rightarrow> None
   | Some (Inl e, s') \<Rightarrow> Some (Inl e, s')
   | Some (Inr a, s') \<Rightarrow> f a s')"

text \<open>\<open>defer\<close> with a step whose error is only logged.\<close>

definition deferring :: "('e, 'a) oact \<Rightarrow> ('e, 'b) dact \<Rightarrow> ('e, 'a) oact" where
  "deferring m last_step = (\<lambda>s. case m s of
     None \<Rightarrow> None
   | Some (r, s') \<Rightarrow> Some (r, snd (last_step s')))"

section \<open>One disk\<close>

definition full_copy :: "'e disk_env \<Rightarrow> string \<Rightarrow> virtual_disk list \<Rightarrow> virtual_disk \<Rightarrow> string \<Rightarrow> bool \<Rightarrow> ('e, unit) dact" where
  "full_copy en sock disks d dev clean =
     (let (name, _, e) = is_supported_disk (vd_Backing d) in
      case e of
        Some er \<Rightarrow> throw er
      | None \<Rightarrow> bindm (lift (disk_index disks name 1)) (\<lambda>_. (\<lambda>(h, w).
          case de_nbdcopy en ([''--progress=3'', export_name sock, dev] @ (if clean then [''--destination-is-zero''] else []))
                 (gm_get [] (hs_Devices h) dev) w of
            ((r, c), w') \<Rightarrow> (r, (h\<lparr>hs_Devices := gm_set dev c (hs_Devices h)\<rparr>, w')))))"

definition incremental_copy ::
    "'e disk_env \<Rightarrow> vm_ref \<Rightarrow> string \<Rightarrow> string \<Rightarrow> virtual_disk list \<Rightarrow> virtual_disk \<Rightarrow> string \<Rightarrow> ('e, unit) oact" where
  "incremental_copy en vm snap sock disks d dev =
     (let (name, _, e) = is_supported_disk (vd_Backing d) in
      case e of
        Some er \<Rightarrow> always (throw er)
      | None \<Rightarrow>
          obind (always (lift (disk_index disks name 1))) (\<lambda>i.
          obind (always (get_current_change_id en dev)) (\<lambda>cur.
          obind (always (andthen (beyond (de_nbd_connect en sock)) (beyond (de_io en dev)))) (\<lambda>_.
            incremental_rounds en vm snap sock dev (import_message i (length disks)) d (ci_Value cur) 0))))"

definition no_change_id :: change_id where
  "no_change_id = \<lparr>ci_UUID = '''', ci_Number = '''', ci_Value = ''''\<rparr>"

text \<open>
  One disk onto its device. A disk without change tracking gets an empty change id recorded, which
  makes the next copy a full one.
\<close>

definition sync_to_target ::
    "'e disk_env \<Rightarrow> vm_ref \<Rightarrow> string \<Rightarrow> string \<Rightarrow> virtual_disk list \<Rightarrow> virtual_disk \<Rightarrow> string \<Rightarrow> ('e, unit) oact" where
  "sync_to_target en vm snap sock disks d dev =
     (let snapshotChangeId = (case get_change_id d of Inl _ \<Rightarrow> no_change_id | Inr c \<Rightarrow> c) in
      obind (always (needs_full_copy en dev d)) (\<lambda>(full, clean).
      obind (if full then always (full_copy en sock disks d dev clean)
             else incremental_copy en vm snap sock disks d dev) (\<lambda>_.
        always (write_change_id en dev snapshotChangeId))))"

section \<open>All disks\<close>

text \<open>The device of the instance for a disk, by the mark that the target's configuration gave it.\<close>

definition get_incus_disk :: "'e disk_env \<Rightarrow> string \<Rightarrow> ('e, string) dact" where
  "get_incus_disk en diskName =
     bindm (beyond (de_devices en)) (\<lambda>devs.
       case find (\<lambda>(i, cfg). (case cfg ''user.migration_source'' of Some s \<Rightarrow> s | None \<Rightarrow> '''') = diskName) devs of
         None \<Rightarrow> throw (Errorf ''Failed to find any disk with migration source %q'' [AStr diskName])
       | Some (dev, _) \<Rightarrow>
           if dev = '''' then throw (Errorf ''Failed to find any disk with migration source %q'' [AStr diskName])
           else bindm (beyond (de_disk_ids en)) (\<lambda>ids.
             case map_of ids (''scsi-0QEMU_QEMU_HARDDISK_incus_'' @ dev) of
               None \<Rightarrow> throw (Errorf ''Failed to find disk with ID %q'' [AStr (''scsi-0QEMU_QEMU_HARDDISK_incus_'' @ dev)])
             | Some path \<Rightarrow> ret path))"

definition incus_snapshot_name :: string where
  "incus_snapshot_name = ''incusMigration''"

definition create_snapshot :: "'e disk_env \<Rightarrow> vm_ref \<Rightarrow> ('e, string) dact" where
  "create_snapshot en vm =
     bindm (wrap_err (\<lambda>e. Errorf ''Failed to create snapshot: %w'' [AWrap e]) (beyond (de_create_snapshot en vm incus_snapshot_name))) (\<lambda>task.
     andthen (beyond (de_status en ''Creating snapshot'' True))
     (bindm (wrap_err (\<lambda>e. Errorf ''Snapshot create task error: %w'' [AWrap e]) (beyond (de_wait_task en task))) (\<lambda>ref.
       andthen (beyond (de_status en ''Done creating snapshot'' True)) (ret ref))))"

text \<open>A disk is read from its latest snapshot file, so that all snapshots are traversed.\<close>

fun start_servers ::
    "'e disk_env \<Rightarrow> vm_ref \<Rightarrow> string \<Rightarrow> string \<Rightarrow> virtual_disk list \<Rightarrow> ('e, (string \<times> virtual_disk) list) dact" where
  "start_servers en vm snap sdk [] = ret []"
| "start_servers en vm snap sdk (d # ds) =
     (let (name, tree, e) = is_supported_disk (vd_Backing d) in
      case e of
        Some er \<Rightarrow> throw er
      | None \<Rightarrow>
          bindm (beyond (de_nbdkit_start en vm snap (case tree of [] \<Rightarrow> name | t # _ \<Rightarrow> t) sdk)) (\<lambda>sock.
          bindm (start_servers en vm snap sdk ds) (\<lambda>rest. ret ((sock, d) # rest))))"

definition start_cycle ::
    "'e disk_env \<Rightarrow> vm_ref \<Rightarrow> string \<Rightarrow> (virtual_disk list \<Rightarrow> err option) \<Rightarrow> ('e, string \<times> (string \<times> virtual_disk) list) dact" where
  "start_cycle en vm sdk validate =
     bindm (create_snapshot en vm) (\<lambda>snap.
     bindm (beyond (de_snapshot_disks en snap)) (\<lambda>disks.
     andthen (wrap_err (\<lambda>e. Errorf ''Failed to validate source disks: %w'' [AWrap e]) (fail_on (validate disks)))
     (bindm (start_servers en vm snap sdk disks) (\<lambda>servers. ret (snap, servers)))))"

definition remove_snapshot :: "'e disk_env \<Rightarrow> vm_ref \<Rightarrow> string \<Rightarrow> ('e, unit) dact" where
  "remove_snapshot en vm snap =
     bindm (wrap_err (\<lambda>e. Errorf ''Failed to remove snapshot: %w'' [AWrap e]) (beyond (de_remove_snapshot en vm snap))) (\<lambda>task.
     andthen (beyond (de_status en ''Removing snapshot'' True))
     (andthen (wrap_err (\<lambda>e. Errorf ''Snapshot remove task failed: %w'' [AWrap e]) (beyond (de_wait_task en task)))
       (beyond (de_status en ''Done removing snapshot'' True))))"

definition stop_cycle :: "'e disk_env \<Rightarrow> vm_ref \<Rightarrow> string \<Rightarrow> (string \<times> virtual_disk) list \<Rightarrow> ('e, unit) dact" where
  "stop_cycle en vm snap servers =
     andthen (for_each servers (\<lambda>(sock, d). beyond (de_nbdkit_stop en sock))) (remove_snapshot en vm snap)"

fun sync_servers ::
    "'e disk_env \<Rightarrow> vm_ref \<Rightarrow> string \<Rightarrow> virtual_disk list \<Rightarrow> (string \<times> virtual_disk) list \<Rightarrow> ('e, unit) oact" where
  "sync_servers en vm snap disks [] = always (ret ())"
| "sync_servers en vm snap disks ((sock, d) # rest) =
     (let (name, _, e) = is_supported_disk (vd_Backing d) in
      case e of
        Some er \<Rightarrow> always (throw er)
      | None \<Rightarrow>
          obind (always (get_incus_disk en name)) (\<lambda>dev.
          obind (sync_to_target en vm snap sock disks d dev) (\<lambda>_. sync_servers en vm snap disks rest)))"

definition migration_cycle ::
    "'e disk_env \<Rightarrow> vm_ref \<Rightarrow> string \<Rightarrow> (virtual_disk list \<Rightarrow> err option) \<Rightarrow> ('e, unit) oact" where
  "migration_cycle en vm sdk validate =
     obind (always (start_cycle en vm sdk validate)) (\<lambda>(snap, servers).
       deferring (sync_servers en vm snap (map snd servers) servers) (stop_cycle en vm snap servers))"

section \<open>The import\<close>

text \<open>The disks must be those that were recorded: as many, with these names and capacities.\<close>

definition validate_disks :: "disk list \<Rightarrow> virtual_disk list \<Rightarrow> err option" where
  "validate_disks disks srcDisks =
     (if length srcDisks \<noteq> length disks
      then Some (Errorf ''Disk count changed, expected %d, found %d'' [AInt (int (length disks)), AInt (int (length srcDisks))])
      else first_err (map (\<lambda>s.
        let (name, _, e) = is_supported_disk (vd_Backing s) in
        case e of
          Some er \<Rightarrow> Some er
        | None \<Rightarrow> (case find (\<lambda>d. d_Name d = name) (rev disks) of
              None \<Rightarrow> Some (Errorf ''Unknown disk %q'' [AStr name])
            | Some d \<Rightarrow> err_when (d_Capacity d \<noteq> vd_Capacity s)
                (Errorf ''Disk capacity changed, expected %d, found %d'' [AInt (d_Capacity d), AInt (vd_Capacity s)]))) srcDisks))"

text \<open>At most \<open>n + 1\<close> attempts; the pause between them is left out.\<close>

fun import_attempts :: "nat \<Rightarrow> ('e, unit) oact \<Rightarrow> ('e, unit) oact" where
  "import_attempts 0 m = m"
| "import_attempts (Suc n) m = (\<lambda>s. case m s of
     Some (Inl e, s') \<Rightarrow> import_attempts n m s'
   | r \<Rightarrow> r)"

definition import_disks :: "'e disk_env \<Rightarrow> string \<Rightarrow> string \<Rightarrow> disk list \<Rightarrow> ('e, unit) oact" where
  "import_disks en vmName sdkPath disks =
     obind (always (beyond (de_vm_reference en vmName))) (\<lambda>vm.
       import_attempts 4 (migration_cycle en vm sdkPath (validate_disks disks)))"

end
