(* ===== verification/Disk_Facts.thy ===== *)
theory Disk_Facts
  imports Disk_Copy VMware_Facts
begin

text \<open>
  The import of disks is right: an incremental copy ends and makes the device equal to the snapshot,
  provided that VMware reports the changes as documented; a copy that fails half way leaves a device
  that the next one can continue from.
\<close>

section \<open>Writing\<close>

lemma overlay_length [simp]: "off + length buf \<le> length c \<Longrightarrow> length (overlay c off buf) = length c"
  by (simp add: overlay_def)

lemma overlay_nth:
  assumes "off + length buf \<le> length c" "i < length c"
  shows "overlay c off buf ! i = (if off \<le> i \<and> i < off + length buf then buf ! (i - off) else c ! i)"
  using assms by (auto simp: overlay_def nth_append min_def)

abbreviation device :: "host \<Rightarrow> string \<Rightarrow> bytes" where
  "device h dev \<equiv> gm_get [] (hs_Devices h) dev"

text \<open>
  \<open>patched S A h dev h'\<close>: the device changed at most at the positions \<open>A\<close>, to the bytes of \<open>S\<close>, and
  nothing else of the host changed.
\<close>

definition patched :: "bytes \<Rightarrow> nat set \<Rightarrow> string \<Rightarrow> host \<Rightarrow> host \<Rightarrow> bool" where
  "patched S A dev h h' \<longleftrightarrow> hs_Files h' = hs_Files h \<and> length (device h' dev) = length (device h dev) \<and>
     (\<forall>i < length (device h dev). device h' dev ! i = device h dev ! i \<or> (i \<in> A \<and> device h' dev ! i = S ! i))"

lemma patched_refl [simp]: "patched S A dev h h"
  by (simp add: patched_def)

lemma patched_trans: "patched S A dev h h1 \<Longrightarrow> patched S A dev h1 h2 \<Longrightarrow> patched S A dev h h2"
  unfolding patched_def by (metis (no_types, lifting))

lemma patched_mono: "patched S A dev h h' \<Longrightarrow> A \<subseteq> B \<Longrightarrow> patched S B dev h h'"
  unfolding patched_def by blast

text \<open>What is right stays right.\<close>

lemma patched_keeps: "patched S A dev h h' \<Longrightarrow> i < length (device h dev) \<Longrightarrow> device h dev ! i = S ! i \<Longrightarrow> device h' dev ! i = S ! i"
  unfolding patched_def by auto

section \<open>Areas\<close>

text \<open>What is read from the server is the content \<open>S\<close> of the snapshot.\<close>

definition reads :: "'e disk_env \<Rightarrow> string \<Rightarrow> bytes \<Rightarrow> bool" where
  "reads en sock S \<longleftrightarrow> (\<forall>l off e b e'. 0 \<le> off \<and> 0 \<le> l \<and> off + l \<le> int (length S) \<and>
     de_pread en sock l off e = (Inr b, e') \<longrightarrow> b = take (nat l) (drop (nat off) S))"

definition span :: "int \<times> int \<Rightarrow> nat set" where
  "span = (\<lambda>(a, l). {i. a \<le> int i \<and> int i < a + l})"

lemma write_at_cases:
  assumes "write_at en dev off buf (h, e) = (r, (h', e'))"
  shows "h' = h \<and> (\<exists>er. r = Inl er) \<or> r = Inr () \<and> 0 \<le> off \<and> off + int (length buf) \<le> int (length (device h dev)) \<and>
    h' = h\<lparr>hs_Devices := gm_set dev (overlay (device h dev) (nat off) buf) (hs_Devices h)\<rparr>"
  using assms by (auto simp: write_at_def run_simps split: prod.splits sum.splits if_splits)

lemma write_slice:
  assumes w: "write_at en dev off (take (nat n) (drop (nat off) S)) (h, e) = (r, (h', e'))"
    and n: "0 \<le> off" "0 \<le> n" "off + n \<le> int (length S)"
  shows "patched S (span (off, n)) dev h h'" and "r = Inr () \<Longrightarrow> i \<in> span (off, n) \<Longrightarrow> device h' dev ! i = S ! i"
proof -
  let ?buf = "take (nat n) (drop (nat off) S)"
  have len: "length ?buf = nat n" using n by simp
  consider "h' = h" "\<exists>er. r = Inl er" | "r = Inr ()" "nat off + nat n \<le> length (device h dev)"
      "h' = h\<lparr>hs_Devices := gm_set dev (overlay (device h dev) (nat off) ?buf) (hs_Devices h)\<rparr>"
    using write_at_cases [OF w] n len by (auto simp: nat_add_distrib [symmetric])
  then have "patched S (span (off, n)) dev h h' \<and> (r = Inr () \<longrightarrow> i \<in> span (off, n) \<longrightarrow> device h' dev ! i = S ! i)"
  proof cases
    case 2
    have nth: "overlay (device h dev) (nat off) ?buf ! j = (if j \<in> span (off, n) then S ! j else device h dev ! j)"
      if j: "j < length (device h dev)" for j
      using overlay_nth [of "nat off" ?buf "device h dev" j] 2(2) j n len by (auto simp: span_def)
    have "i < length (device h dev)" if "i \<in> span (off, n)" using that 2(2) n by (auto simp: span_def)
    with 2 nth len show ?thesis by (auto simp: patched_def)
  qed auto
  then show "patched S (span (off, n)) dev h h'" "r = Inr () \<Longrightarrow> i \<in> span (off, n) \<Longrightarrow> device h' dev ! i = S ! i" by blast+
qed

lemma copy_area_ok:
  assumes "copy_area en sock dev msg (a, l) off (h, e) = (r, (h', e'))"
    and "reads en sock S" "0 \<le> a" "a \<le> off" "a + l \<le> int (length S)"
  shows "patched S (span (a, l)) dev h h' \<and>
    (r = Inr () \<longrightarrow> (\<forall>i. off \<le> int i \<and> int i < a + l \<and> i < length (device h dev) \<longrightarrow> device h' dev ! i = S ! i))"
  using assms
proof (induction en sock dev msg "(a, l)" off arbitrary: h e rule: copy_area.induct)
  case (1 en sock dev msg off)
  let ?c = "min (l - (off - a)) max_chunk_size"
  show ?case
  proof (cases "off < a + l")
    case False
    with "1.prems" show ?thesis by (auto simp: copy_area.simps [of _ _ _ _ _ _ off] run_simps)
  next
    case True
    have c: "0 < ?c" "off + ?c \<le> a + l" using True by (auto simp: max_chunk_size_def)
    obtain r1 e1 where rd: "de_pread en sock ?c off e = (r1, e1)" by (cases "de_pread en sock ?c off e")
    show ?thesis
    proof (cases r1)
      case (Inl er)
      with "1.prems"(1) True rd show ?thesis by (auto simp: copy_area.simps [of _ _ _ _ _ _ off] run_simps Let_def)
    next
      case (Inr buf)
      have buf: "buf = take (nat ?c) (drop (nat off) S)"
        using "1.prems"(2) [unfolded reads_def, rule_format, of off ?c e buf e1] "1.prems"(3-5) rd Inr c by auto
      obtain r2 h2 e2 where w: "write_at en dev off buf (h, e1) = (r2, (h2, e2))" by (metis prod.exhaust)
      have s: "0 \<le> off" "0 \<le> ?c" "off + ?c \<le> int (length S)" using "1.prems" c by auto
      note sl = write_slice [OF w [unfolded buf] s]
      have sub: "span (off, ?c) \<subseteq> span (a, l)" using "1.prems" c by (auto simp: span_def)
      show ?thesis
      proof (cases "\<exists>er. r2 = Inl er \<or> (r2 = Inr () \<and> fst (de_status en msg False e2) = Inl er)")
        case True
        with "1.prems"(1) \<open>off < a + l\<close> rd Inr w have "h' = h2" "r \<noteq> Inr ()"
          by (auto simp: copy_area.simps [of _ _ _ _ _ _ off] run_simps Let_def split: prod.splits)
        with sl(1) sub show ?thesis by (auto intro: patched_mono)
      next
        case False
        then obtain e3 where r2: "r2 = Inr ()" and st: "de_status en msg False e2 = (Inr (), e3)"
          by (cases r2; cases "de_status en msg False e2"; cases "fst (de_status en msg False e2)") auto
        have rest: "copy_area en sock dev msg (a, l) (off + ?c) (h2, e3) = (r, (h', e'))"
          using "1.prems"(1) \<open>off < a + l\<close> rd Inr w r2 st
          by (simp add: copy_area.simps [of _ _ _ _ _ _ off] run_simps Let_def)
        have IH: "patched S (span (a, l)) dev h2 h' \<and>
          (r = Inr () \<longrightarrow> (\<forall>i. off + ?c \<le> int i \<and> int i < a + l \<and> i < length (device h2 dev) \<longrightarrow> device h' dev ! i = S ! i))"
          by (rule "1.hyps" [OF \<open>off < a + l\<close> refl rest "1.prems"(2,3) _ "1.prems"(5)]) (use "1.prems"(4) c in auto)
        have p: "patched S (span (a, l)) dev h h2" using sl(1) sub by (rule patched_mono)
        have len: "length (device h2 dev) = length (device h dev)" using p by (simp add: patched_def)
        have now: "device h' dev ! i = S ! i" if "off \<le> int i" "int i < off + ?c" "i < length (device h dev)" for i
          using sl(2) [OF r2, of i] patched_keeps [OF IH [THEN conjunct1], of i] that len by (auto simp: span_def)
        show ?thesis
        proof (intro conjI impI allI)
          show "patched S (span (a, l)) dev h h'" using patched_trans [OF p IH [THEN conjunct1]] .
          fix i assume "r = Inr ()" and i: "off \<le> int i \<and> int i < a + l \<and> i < length (device h dev)"
          with IH len now [of i] show "device h' dev ! i = S ! i" by (cases "off + ?c \<le> int i") auto
        qed
      qed
    qed
  qed
qed

lemma copy_areas_ok:
  assumes "copy_areas en sock dev msg rs (h, e) = (r, (h', e'))"
    and "reads en sock S" "\<forall>(a, l) \<in> set rs. 0 \<le> a \<and> a + l \<le> int (length S)"
  shows "patched S (\<Union>(span ` set rs)) dev h h' \<and>
    (r = Inr () \<longrightarrow> (\<forall>i \<in> \<Union>(span ` set rs). i < length (device h dev) \<longrightarrow> device h' dev ! i = S ! i))"
  using assms
proof (induction en sock dev msg rs arbitrary: h e rule: copy_areas.induct)
  case (1 en sock dev msg)
  then show ?case by (simp add: run_simps)
next
  case (2 en sock dev msg a l rs)
  obtain r1 h1 e1 where one: "copy_area en sock dev msg (a, l) a (h, e) = (r1, (h1, e1))" by (metis prod.exhaust)
  have ok: "patched S (span (a, l)) dev h h1 \<and>
    (r1 = Inr () \<longrightarrow> (\<forall>i. a \<le> int i \<and> int i < a + l \<and> i < length (device h dev) \<longrightarrow> device h1 dev ! i = S ! i))"
    by (rule copy_area_ok [OF one "2.prems"(2)]) (use "2.prems"(3) in auto)
  let ?U = "\<Union>(span ` set ((a, l) # rs))"
  have p: "patched S ?U dev h h1" using ok by (auto elim: patched_mono)
  show ?case
  proof (cases r1)
    case (Inl er)
    with "2.prems"(1) one p show ?thesis by (auto simp: run_simps)
  next
    case (Inr u)
    have rest: "copy_areas en sock dev msg rs (h1, e1) = (r, (h', e'))" using "2.prems"(1) one Inr by (simp add: run_simps)
    have IH: "patched S (\<Union>(span ` set rs)) dev h1 h' \<and>
      (r = Inr () \<longrightarrow> (\<forall>i \<in> \<Union>(span ` set rs). i < length (device h1 dev) \<longrightarrow> device h' dev ! i = S ! i))"
      by (rule "2.IH" [OF rest "2.prems"(2)]) (use "2.prems"(3) in auto)
    have p2: "patched S ?U dev h1 h'" using IH by (auto elim: patched_mono)
    have len: "length (device h1 dev) = length (device h dev)" using p by (simp add: patched_def)
    have first: "device h' dev ! i = S ! i" if "i \<in> span (a, l)" "i < length (device h dev)" for i
      using ok Inr that patched_keeps [OF p2, of i] len by (auto simp: span_def)
    show ?thesis
    proof (intro conjI impI ballI)
      show "patched S ?U dev h h'" by (rule patched_trans [OF p p2])
      fix i assume "r = Inr ()" "i \<in> ?U" "i < length (device h dev)"
      with IH first [of i] len show "device h' dev ! i = S ! i" by auto
    qed
  qed
qed

section \<open>Rounds\<close>

text \<open>
  What VMware documents of \<open>QueryChangedDiskAreas\<close>, asked for changes since \<open>cid\<close>: an answer starts
  where it was asked to, covers a range that is not empty and within the disk, its areas are in that
  range, and every position in \<open>changed\<close> of the range is in one of them.
\<close>

definition tracks :: "'e disk_env \<Rightarrow> vm_ref \<Rightarrow> string \<Rightarrow> int \<Rightarrow> string \<Rightarrow> nat set \<Rightarrow> int \<Rightarrow> bool" where
  "tracks en vm snap key cid changed cap \<longleftrightarrow>
     (\<forall>start e info e'. 0 \<le> start \<and> start < cap \<and> de_query en vm snap key start cid e = (Inr info, e') \<longrightarrow>
        cg_Start info = start \<and> 0 < cg_Length info \<and> start + cg_Length info \<le> cap \<and>
        (\<forall>(a, l) \<in> set (cg_Areas info). start \<le> a \<and> a + l \<le> start + cg_Length info) \<and>
        (\<forall>i \<in> changed. start \<le> int i \<and> int i < start + cg_Length info \<longrightarrow> (\<exists>p \<in> set (cg_Areas info). i \<in> span p)))"

lemma incremental_rounds_ok:
  assumes tr: "tracks en vm snap (vd_Key d) cid changed (vd_Capacity d)" and rd: "reads en sock S"
    and cap: "vd_Capacity d = int (length S)"
    and start: "0 \<le> start" "start < vd_Capacity d"
  shows "\<exists>r h' e'. incremental_rounds en vm snap sock dev msg d cid start (h, e) = Some (r, (h', e')) \<and>
    patched S UNIV dev h h' \<and>
    (r = Inr () \<longrightarrow> (\<forall>i \<in> changed. start \<le> int i \<and> i < length S \<and> i < length (device h dev) \<longrightarrow> device h' dev ! i = S ! i))"
  using start
proof (induction "nat (vd_Capacity d - start)" arbitrary: start h e rule: less_induct)
  case less
  obtain r1 e1 where q: "de_query en vm snap (vd_Key d) start cid e = (r1, e1)"
    by (cases "de_query en vm snap (vd_Key d) start cid e")
  show ?case
  proof (cases r1)
    case (Inl er)
    with q show ?thesis by (auto simp: incremental_rounds.simps [of _ _ _ _ _ _ _ _ start] run_simps)
  next
    case (Inr info)
    have law: "cg_Start info = start" "0 < cg_Length info" "start + cg_Length info \<le> vd_Capacity d"
      "\<forall>(a, l) \<in> set (cg_Areas info). start \<le> a \<and> a + l \<le> start + cg_Length info"
      "\<And>i. i \<in> changed \<Longrightarrow> start \<le> int i \<Longrightarrow> int i < start + cg_Length info \<Longrightarrow> \<exists>p \<in> set (cg_Areas info). i \<in> span p"
      using tr [unfolded tracks_def, rule_format, of start e info e1] q Inr less.prems by auto
    obtain r2 h2 e2 where c: "copy_areas en sock dev msg (cg_Areas info) (h, e1) = (r2, (h2, e2))" by (metis prod.exhaust)
    have in_disk: "\<forall>(a, l) \<in> set (cg_Areas info). 0 \<le> a \<and> a + l \<le> int (length S)"
      using law(3,4) less.prems cap by fastforce
    note ok = copy_areas_ok [OF c rd in_disk]
    have p: "patched S UNIV dev h h2" using ok by (auto elim: patched_mono)
    show ?thesis
    proof (cases r2)
      case (Inl er)
      with q Inr c p show ?thesis by (auto simp: incremental_rounds.simps [of _ _ _ _ _ _ _ _ start] run_simps)
    next
      case (Inr u)
      note r2 = this
      let ?next = "start + cg_Length info"
      have len: "length (device h2 dev) = length (device h dev)" using p by (simp add: patched_def)
      have here: "device h2 dev ! i = S ! i" if "i \<in> changed" "start \<le> int i" "int i < ?next" "i < length (device h dev)" for i
        using law(5) [OF that(1-3)] ok r2 that(4) by auto
      show ?thesis
      proof (cases "?next = vd_Capacity d")
        case True
        then have "incremental_rounds en vm snap sock dev msg d cid start (h, e) = Some (Inr (), (h2, e2))"
          using q \<open>r1 = Inr info\<close> c r2 law(1) by (simp add: incremental_rounds.simps [of _ _ _ _ _ _ _ _ start] run_simps)
        moreover have "device h2 dev ! i = S ! i" if "i \<in> changed" "start \<le> int i" "i < length S" "i < length (device h dev)" for i
          using here that True cap by simp
        ultimately show ?thesis using p by blast
      next
        case False
        then have step: "incremental_rounds en vm snap sock dev msg d cid start (h, e) =
            incremental_rounds en vm snap sock dev msg d cid ?next (h2, e2)"
          using q \<open>r1 = Inr info\<close> c r2 law(1) by (simp add: incremental_rounds.simps [of _ _ _ _ _ _ _ _ start] run_simps)
        have n: "0 \<le> ?next" "?next < vd_Capacity d" "nat (vd_Capacity d - ?next) < nat (vd_Capacity d - start)"
          using False law(2,3) less.prems by auto
        from less.hyps [OF n(3,1,2), of h2 e2] obtain r h' e' where IH:
          "incremental_rounds en vm snap sock dev msg d cid ?next (h2, e2) = Some (r, (h', e'))" "patched S UNIV dev h2 h'"
          "r = Inr () \<Longrightarrow> \<forall>i \<in> changed. ?next \<le> int i \<and> i < length S \<and> i < length (device h2 dev) \<longrightarrow> device h' dev ! i = S ! i"
          by blast
        have "device h' dev ! i = S ! i" if "r = Inr ()" "i \<in> changed" "start \<le> int i" "i < length S" "i < length (device h dev)" for i
          using IH(3) [OF that(1)] here [of i] patched_keeps [OF IH(2), of i] that len by (cases "?next \<le> int i") auto
        with step IH(1,2) patched_trans [OF p IH(2)] show ?thesis by auto
      qed
    qed
  qed
qed

lemma incremental_copy_exact_lemma:
  assumes tr: "tracks en vm snap (vd_Key d) cid changed (vd_Capacity d)" and rd: "reads en sock S"
    and cap: "vd_Capacity d = int (length S)" "S \<noteq> []" "length S \<le> length (device h dev)"
    and agree: "\<forall>i < length S. i \<notin> changed \<longrightarrow> device h dev ! i = S ! i"
  shows "\<exists>r h' e'. incremental_rounds en vm snap sock dev msg d cid 0 (h, e) = Some (r, (h', e')) \<and>
    hs_Files h' = hs_Files h \<and> length (device h' dev) = length (device h dev) \<and>
    (\<forall>i < length S. i \<notin> changed \<longrightarrow> device h' dev ! i = S ! i) \<and>
    (r = Inr () \<longrightarrow> take (length S) (device h' dev) = S)"
proof -
  have start: "0 \<le> (0 :: int)" "0 < vd_Capacity d" using cap by simp_all
  from incremental_rounds_ok [OF tr rd cap(1) start, of dev msg h e] obtain r h' e' where
    run: "incremental_rounds en vm snap sock dev msg d cid 0 (h, e) = Some (r, (h', e'))" and p: "patched S UNIV dev h h'"
    and all: "r = Inr () \<longrightarrow> (\<forall>i \<in> changed. 0 \<le> int i \<and> i < length S \<and> i < length (device h dev) \<longrightarrow> device h' dev ! i = S ! i)"
    by blast
  have len: "length (device h' dev) = length (device h dev)" "hs_Files h' = hs_Files h" using p by (simp_all add: patched_def)
  have out: "\<forall>i < length S. i \<notin> changed \<longrightarrow> device h' dev ! i = S ! i"
    using agree cap(3) patched_keeps [OF p] by auto
  have "take (length S) (device h' dev) = S" if "r = Inr ()"
  proof (rule nth_equalityI)
    show "length (take (length S) (device h' dev)) = length S" using cap(3) len by simp
    fix i assume "i < length (take (length S) (device h' dev))"
    with all that out cap(3) show "take (length S) (device h' dev) ! i = S ! i" by (cases "i \<in> changed") auto
  qed
  with run len out show ?thesis by blast
qed


definition sample_content :: bytes where
  "sample_content = [1, 2, 3, 4]"

definition sample_disk_env :: "nat disk_env" where
  "sample_disk_env =
     \<lparr>de_vm_reference = (\<lambda>_. ret \<lparr>vr_Path = ''/dc/vm/vm'', vr_Ref = ''VirtualMachine:vm-1''\<rparr>),
      de_create_snapshot = (\<lambda>_ _. andthen (modify Suc) (ret ''task'')), de_wait_task = (\<lambda>_. ret ''snapshot-1''),
      de_snapshot_disks = (\<lambda>_. ret []), de_remove_snapshot = (\<lambda>_ _. andthen (modify (\<lambda>n. n - 1)) (ret ''task'')),
      de_nbdkit_start = (\<lambda>_ _ _ _. ret ''sock''), de_nbdkit_stop = (\<lambda>_. ret ()), de_devices = ret [], de_disk_ids = ret [],
      de_io = (\<lambda>_. ret ()),
      de_query = (\<lambda>_ _ _ start _. ret \<lparr>cg_Start = start, cg_Length = 1, cg_Areas = (if start = 1 then [(1, 1)] else [])\<rparr>),
      de_nbd_connect = (\<lambda>_. ret ()), de_pread = (\<lambda>_ l off. ret (take (nat l) (drop (nat off) sample_content))),
      de_nbdcopy = (\<lambda>_ c n. ((Inr (), sample_content @ drop 4 c), n)), de_status = (\<lambda>_ _. ret ())\<rparr>"

definition sample_vdisk :: virtual_disk where
  "sample_vdisk = \<lparr>vd_Key = 2000, vd_Backing = FlatVer2 \<lparr>bf_Name = ''[ds] vm/vm.vmdk'', bf_Mode = ''persistent'', bf_Sharing = ''''\<rparr> [],
     vd_ChangeId = ''52 9b/7'', vd_Capacity = 4\<rparr>"

definition sample_host :: host where
  "sample_host = \<lparr>hs_Devices = [(''/dev/sda'', [1, 9, 3, 4, 0])], hs_Files = [(''/tmp/migration-manager_sda.cid'', ''52 9b/3'')]\<rparr>"

lemma sample_reads: "reads sample_disk_env sock sample_content"
  by (simp add: reads_def sample_disk_env_def run_simps)

lemma sample_tracks: "tracks sample_disk_env vm snap key cid {1} 4"
  by (auto simp: tracks_def sample_disk_env_def run_simps span_def split: if_splits)


section \<open>One disk\<close>

text \<open>What nbdcopy leaves after a success: the device begins with the content of the snapshot.\<close>

definition copies :: "'e disk_env \<Rightarrow> string \<Rightarrow> bytes \<Rightarrow> bool" where
  "copies en sock S \<longleftrightarrow> (\<forall>dev flags c e c' e'. length S \<le> length c \<and>
     de_nbdcopy en ([''--progress=3'', export_name sock, dev] @ flags) c e = ((Inr (), c'), e') \<longrightarrow> take (length S) c' = S)"

text \<open>The recorded change id of the device belongs to the same tracking as the snapshot's.\<close>

definition same_tracking :: "host \<Rightarrow> string \<Rightarrow> virtual_disk \<Rightarrow> change_id \<Rightarrow> bool" where
  "same_tracking h dev d cur \<longleftrightarrow> parse_change_id (gm_get '''' (hs_Files h) (cid_file dev)) = Inr cur \<and>
     (\<exists>sn. get_change_id d = Inr sn \<and> ci_UUID cur = ci_UUID sn)"

text \<open>Errors of the file system are not that of an invalid change id.\<close>

definition plain_io :: "'e disk_env \<Rightarrow> bool" where
  "plain_io en \<longleftrightarrow> (\<forall>p e er e'. de_io en p e = (Inl er, e') \<longrightarrow> \<not> err_chain (\<lambda>c. c = invalid_change_id) er)"

lemma plain_ioD: "plain_io en \<Longrightarrow> de_io en p e = (Inl er, e') \<Longrightarrow> \<not> err_chain (\<lambda>c. c = invalid_change_id) er"
  by (auto simp: plain_io_def)

lemma copiesD:
  "copies en sock S \<Longrightarrow> de_nbdcopy en (''--progress=3'' # export_name sock # dev # flags) c e = ((Inr (), c'), e') \<Longrightarrow>
    length S \<le> length c \<Longrightarrow> take (length S) c' = S"
  unfolding copies_def by (metis append_Cons append_Nil)

lemma needs_full_copy_ok:
  assumes "needs_full_copy en dev d (h, e) = (r, (h', e'))"
  shows "h' = h" and "r = Inr (False, c) \<Longrightarrow> \<exists>cur. same_tracking h dev d cur"
    and "plain_io en \<Longrightarrow> r = Inr (True, c) \<Longrightarrow> \<not> same_tracking h dev d cur"
  using assms by (auto simp: needs_full_copy_def device_exists_def get_current_change_id_def run_simps same_tracking_def
      split: prod.splits sum.splits if_splits dest: plain_ioD)

lemma full_copy_ok:
  assumes "full_copy en sock disks d dev clean (h, e) = (r, (h', e'))"
  shows "hs_Files h' = hs_Files h"
    and "r = Inr () \<Longrightarrow> copies en sock S \<Longrightarrow> length S \<le> length (device h dev) \<Longrightarrow> take (length S) (device h' dev) = S"
  using assms by (auto simp: full_copy_def run_simps split: prod.splits sum.splits option.splits if_splits dest: copiesD)

lemma write_change_id_ok:
  assumes "write_change_id en dev c (h, e) = (r, (h', e'))"
  shows "hs_Devices h' = hs_Devices h" and "r = Inr () \<Longrightarrow> gm_get '''' (hs_Files h') (cid_file dev) = ci_Value c"
    and "r \<noteq> Inr () \<Longrightarrow> h' = h"
  using assms by (auto simp: write_change_id_def run_simps split: prod.splits sum.splits)

lemma incremental_copy_cases:
  assumes same: "same_tracking h dev d cur" and tr: "tracks en vm snap (vd_Key d) (ci_Value cur) changed (vd_Capacity d)"
    and rd: "reads en sock S" and cap: "vd_Capacity d = int (length S)" "S \<noteq> []" "length S \<le> length (device h dev)"
    and agree: "\<forall>i < length S. i \<notin> changed \<longrightarrow> device h dev ! i = S ! i"
  shows "\<exists>r h' e'. incremental_copy en vm snap sock disks d dev (h, e) = Some (r, (h', e')) \<and> hs_Files h' = hs_Files h \<and>
    (\<forall>i < length S. i \<notin> changed \<longrightarrow> device h' dev ! i = S ! i) \<and> (r = Inr () \<longrightarrow> take (length S) (device h' dev) = S)"
proof -
  obtain name tree er where sup: "is_supported_disk (vd_Backing d) = (name, tree, er)" by (metis prod.exhaust)
  obtain r1 e1 where io: "de_io en (cid_file dev) e = (r1, e1)" by (cases "de_io en (cid_file dev) e")
  obtain r2 e2 where con: "de_nbd_connect en sock e1 = (r2, e2)" by (cases "de_nbd_connect en sock e1")
  obtain r3 e3 where op: "de_io en dev e2 = (r3, e3)" by (cases "de_io en dev e2")
  have cur: "parse_change_id (gm_get '''' (hs_Files h) (cid_file dev)) = Inr cur" using same by (simp add: same_tracking_def)
  let ?go = "\<exists>i. er = None \<and> disk_index disks name 1 = Inr i \<and> r1 = Inr () \<and> r2 = Inr () \<and> r3 = Inr ()"
  show ?thesis
  proof (cases ?go)
    case True
    then obtain i where i: "er = None" "disk_index disks name 1 = Inr i" "r1 = Inr ()" "r2 = Inr ()" "r3 = Inr ()" by blast
    then have "incremental_copy en vm snap sock disks d dev (h, e) =
        incremental_rounds en vm snap sock dev (import_message i (length disks)) d (ci_Value cur) 0 (h, e3)"
      using sup io con op cur by (simp add: incremental_copy_def obind_def always_def get_current_change_id_def run_simps)
    with incremental_copy_exact_lemma [OF tr rd cap agree] show ?thesis by metis
  next
    case False
    then have "\<exists>er e'. incremental_copy en vm snap sock disks d dev (h, e) = Some (Inl er, (h, e'))"
      using sup io con op cur
      by (cases er; cases "disk_index disks name 1"; cases r1; cases r2; cases r3)
        (auto simp: incremental_copy_def obind_def always_def get_current_change_id_def run_simps)
    with agree show ?thesis by auto
  qed
qed

text \<open>
  C34: One disk is copied right. The copy ends; after a success the device begins with the content of
  the snapshot and the snapshot's change id is recorded for it (an empty one without change tracking,
  so that the next copy is a full one); after a failure the recorded change id is the old one, and if
  it belongs to the same tracking, the device still agrees with the snapshot wherever nothing changed
  since. So a copy that is repeated after failures is right as well.
\<close>

theorem sync_to_target_exact:
  assumes rd: "reads en sock S" and cp: "copies en sock S" and io: "plain_io en"
    and cap: "vd_Capacity d = int (length S)" "S \<noteq> []" "length S \<le> length (device h dev)"
    and since: "\<And>cur. same_tracking h dev d cur \<Longrightarrow> tracks en vm snap (vd_Key d) (ci_Value cur) changed (vd_Capacity d) \<and>
      (\<forall>i < length S. i \<notin> changed \<longrightarrow> device h dev ! i = S ! i)"
  shows "\<exists>r h' e'. sync_to_target en vm snap sock disks d dev (h, e) = Some (r, (h', e')) \<and>
    (r = Inr () \<longrightarrow> take (length S) (device h' dev) = S \<and>
      gm_get '''' (hs_Files h') (cid_file dev) = (case get_change_id d of Inl _ \<Rightarrow> '''' | Inr c \<Rightarrow> ci_Value c)) \<and>
    (r \<noteq> Inr () \<longrightarrow> hs_Files h' = hs_Files h \<and>
      ((\<exists>cur. same_tracking h dev d cur) \<longrightarrow> (\<forall>i < length S. i \<notin> changed \<longrightarrow> device h' dev ! i = S ! i)))"
proof -
  let ?id = "case get_change_id d of Inl _ \<Rightarrow> no_change_id | Inr c \<Rightarrow> c"
  have val: "ci_Value ?id = (case get_change_id d of Inl _ \<Rightarrow> '''' | Inr c \<Rightarrow> ci_Value c)"
    by (simp add: no_change_id_def split: sum.splits)
  obtain r1 h1 e1 where nf: "needs_full_copy en dev d (h, e) = (r1, (h1, e1))" by (metis prod.exhaust)
  have h1: "h1 = h" using needs_full_copy_ok(1) [OF nf] .
  show ?thesis
  proof (cases r1)
    case (Inl er)
    with nf h1 since show ?thesis by (auto simp: sync_to_target_def obind_def always_def)
  next
    case (Inr p)
    obtain full clean where p: "p = (full, clean)" by (cases p)
    let ?copy = "if full then always (full_copy en sock disks d dev clean) else incremental_copy en vm snap sock disks d dev"
    have copy: "\<exists>r2 h2 e2. ?copy (h, e1) = Some (r2, (h2, e2)) \<and> hs_Files h2 = hs_Files h \<and>
      (r2 = Inr () \<longrightarrow> take (length S) (device h2 dev) = S) \<and>
      ((\<exists>cur. same_tracking h dev d cur) \<longrightarrow> (\<forall>i < length S. i \<notin> changed \<longrightarrow> device h2 dev ! i = S ! i))"
    proof (cases full)
      case True
      obtain r2 h2 e2 where f: "full_copy en sock disks d dev clean (h, e1) = (r2, (h2, e2))" by (metis prod.exhaust)
      have "\<not> (\<exists>cur. same_tracking h dev d cur)" using needs_full_copy_ok(3) [OF nf io] Inr p True by blast
      with f True full_copy_ok [OF f] cp cap(3) show ?thesis by (auto simp: always_def)
    next
      case False
      with needs_full_copy_ok(2) [OF nf] Inr p obtain cur where cur: "same_tracking h dev d cur" by blast
      from incremental_copy_cases [OF cur since [OF cur, THEN conjunct1] rd cap since [OF cur, THEN conjunct2], of disks e1]
      obtain r2 h2 e2 where "incremental_copy en vm snap sock disks d dev (h, e1) = Some (r2, (h2, e2))" "hs_Files h2 = hs_Files h"
        "\<forall>i < length S. i \<notin> changed \<longrightarrow> device h2 dev ! i = S ! i" "r2 = Inr () \<longrightarrow> take (length S) (device h2 dev) = S"
        by blast
      with False show ?thesis by simp
    qed
    then obtain r2 h2 e2 where r2: "?copy (h, e1) = Some (r2, (h2, e2))" "hs_Files h2 = hs_Files h"
      "r2 = Inr () \<Longrightarrow> take (length S) (device h2 dev) = S"
      "(\<exists>cur. same_tracking h dev d cur) \<Longrightarrow> \<forall>i < length S. i \<notin> changed \<longrightarrow> device h2 dev ! i = S ! i" by blast
    show ?thesis
    proof (cases r2)
      case (Inl er)
      with nf h1 Inr p r2 have "sync_to_target en vm snap sock disks d dev (h, e) = Some (Inl er, (h2, e2))"
        by (simp add: sync_to_target_def Let_def obind_def always_def)
      with r2(2,4) show ?thesis by auto
    next
      case (Inr u)
      obtain r3 h3 e3 where w: "write_change_id en dev ?id (h2, e2) = (r3, (h3, e3))" by (metis prod.exhaust)
      have run: "sync_to_target en vm snap sock disks d dev (h, e) = Some (r3, (h3, e3))"
        using nf h1 \<open>r1 = Inr p\<close> p r2(1) Inr w by (simp add: sync_to_target_def Let_def obind_def always_def)
      have dev: "device h3 dev = device h2 dev" using write_change_id_ok(1) [OF w] by simp
      have "r3 \<noteq> Inr () \<longrightarrow> hs_Files h3 = hs_Files h" using write_change_id_ok(3) [OF w] r2(2) by auto
      with run write_change_id_ok(2) [OF w] r2(3,4) Inr dev val show ?thesis by auto
    qed
  qed
qed

theorem sync_to_target_exact_witness:
  "\<exists>h' e'. sync_to_target sample_disk_env sample_vm_ref ''snapshot-1'' ''sock'' [sample_vdisk] sample_vdisk ''/dev/sda''
       (sample_host, 0) = Some (Inr (), (h', e')) \<and> take 4 (device h' ''/dev/sda'') = sample_content \<and>
     gm_get '''' (hs_Files h') ''/tmp/migration-manager_sda.cid'' = ''52 9b/7''"
proof -
  have tr: "tracks sample_disk_env sample_vm_ref ''snapshot-1'' (vd_Key sample_vdisk) cid {1} (vd_Capacity sample_vdisk)" for cid
    using sample_tracks by (simp add: sample_vdisk_def)
  have cap: "vd_Capacity sample_vdisk = int (length sample_content)" "sample_content \<noteq> []"
    "length sample_content \<le> length (device sample_host ''/dev/sda'')"
    by (simp_all add: sample_vdisk_def sample_content_def sample_host_def gm_get_def)
  have agree: "\<forall>i < length sample_content. i \<notin> {1} \<longrightarrow> device sample_host ''/dev/sda'' ! i = sample_content ! i"
    by (auto simp: sample_content_def sample_host_def gm_get_def less_Suc_eq numeral_eq_Suc)
  have cp: "copies sample_disk_env ''sock'' sample_content"
    by (simp add: copies_def sample_disk_env_def sample_content_def)
  have io: "plain_io sample_disk_env" by (simp add: plain_io_def sample_disk_env_def run_simps)
  have f: "cid_file ''/dev/sda'' = ''/tmp/migration-manager_sda.cid''" by (simp add: cid_file_def)
  have id: "get_change_id sample_vdisk = Inr \<lparr>ci_UUID = ''52 9b'', ci_Number = ''7'', ci_Value = ''52 9b/7''\<rparr>"
    by (simp add: get_change_id_def sample_vdisk_def parse_change_id_def)
  have four: "length sample_content = 4" by (simp add: sample_content_def)
  have "\<exists>p. sync_to_target sample_disk_env sample_vm_ref ''snapshot-1'' ''sock'' [sample_vdisk] sample_vdisk ''/dev/sda'' (sample_host, 0) =
      Some (Inr (), p)"
    by (simp add: sync_to_target_def needs_full_copy_def device_exists_def get_current_change_id_def incremental_copy_def write_change_id_def
        incremental_rounds.simps sample_disk_env_def run_simps sample_vdisk_def copy_area.simps max_chunk_size_def Let_def obind_def always_def
        write_at_def sample_host_def gm_get_def sample_content_def get_change_id_def parse_change_id_def cid_file_def disk_mode_err_def)
  with sync_to_target_exact [OF sample_reads cp io cap, of sample_vm_ref "''snapshot-1''" "{1}" "[sample_vdisk]" 0] tr agree
  show ?thesis unfolding f id four by auto
qed

section \<open>All disks\<close>

text \<open>Every answer of VMware for a disk gets further and stays within the disk.\<close>

definition gets_further :: "'e disk_env \<Rightarrow> virtual_disk \<Rightarrow> bool" where
  "gets_further en d \<longleftrightarrow> 0 < vd_Capacity d \<and>
     (\<forall>vm snap start cid e info e'. start < vd_Capacity d \<and> de_query en vm snap (vd_Key d) start cid e = (Inr info, e') \<longrightarrow>
        start < cg_Start info + cg_Length info \<and> cg_Start info + cg_Length info \<le> vd_Capacity d)"

lemma rounds_end:
  assumes "gets_further en d" and "start < vd_Capacity d"
  shows "\<exists>r. incremental_rounds en vm snap sock dev msg d cid start s = Some r"
  using assms(2)
proof (induction "nat (vd_Capacity d - start)" arbitrary: start s rule: less_induct)
  case less
  obtain h e where s: "s = (h, e)" by (cases s)
  obtain r1 e1 where q: "de_query en vm snap (vd_Key d) start cid e = (r1, e1)"
    by (cases "de_query en vm snap (vd_Key d) start cid e")
  show ?case
  proof (cases r1)
    case (Inl er)
    with q s show ?thesis by (simp add: incremental_rounds.simps [of _ _ _ _ _ _ _ _ start] run_simps)
  next
    case (Inr info)
    obtain r2 s2 where c: "copy_areas en sock dev msg (cg_Areas info) (h, e1) = (r2, s2)"
      by (cases "copy_areas en sock dev msg (cg_Areas info) (h, e1)")
    let ?next = "cg_Start info + cg_Length info"
    have n: "start < ?next" "?next \<le> vd_Capacity d" using assms(1) less.prems q Inr unfolding gets_further_def by blast+
    have "\<exists>r. incremental_rounds en vm snap sock dev msg d cid ?next s2 = Some r" if "?next \<noteq> vd_Capacity d"
      by (rule less.hyps) (use n that in auto)
    with q s Inr c show ?thesis
      by (cases r2) (auto simp: incremental_rounds.simps [of _ _ _ _ _ _ _ _ start] run_simps)
  qed
qed

definition returns :: "('e, 'a) oact \<Rightarrow> bool" where
  "returns m \<longleftrightarrow> (\<forall>s. m s \<noteq> None)"

lemma returns_always [intro]: "returns (always m)"
  by (simp add: returns_def always_def)

lemma returns_obind: "returns m \<Longrightarrow> (\<And>a. returns (f a)) \<Longrightarrow> returns (obind m f)"
  by (auto simp: returns_def obind_def split: option.splits sum.splits)

lemma returns_deferring [intro]: "returns m \<Longrightarrow> returns (deferring m k)"
  by (auto simp: returns_def deferring_def split: option.splits)

lemma returns_attempts: "returns m \<Longrightarrow> returns (import_attempts n m)"
proof (induction n)
  case (Suc n)
  then show ?case by (auto simp: returns_def split: option.splits sum.splits prod.splits)
qed simp

lemma returns_rounds: "gets_further en d \<Longrightarrow> returns (incremental_rounds en vm snap sock dev msg d cid 0)"
  unfolding returns_def
proof
  fix s assume g: "gets_further en d"
  then have "0 < vd_Capacity d" by (simp add: gets_further_def)
  from rounds_end [OF g this] show "incremental_rounds en vm snap sock dev msg d cid 0 s \<noteq> None" by (metis option.distinct(1))
qed

lemma beyond_ok: "beyond m (h, e) = (r, (h', e')) \<longleftrightarrow> m e = (r, e') \<and> h' = h"
  by (auto simp: beyond_run split: prod.splits)

lemma returns_sync_to_target: "gets_further en d \<Longrightarrow> returns (sync_to_target en vm snap sock disks d dev)"
  unfolding sync_to_target_def incremental_copy_def Let_def
  by (auto intro!: returns_obind returns_rounds split: prod.splits option.splits)

lemma returns_sync_servers: "\<forall>(sock, d) \<in> set servers. gets_further en d \<Longrightarrow> returns (sync_servers en vm snap disks servers)"
  by (induction en vm snap disks servers rule: sync_servers.induct)
    (auto intro!: returns_obind returns_sync_to_target split: option.splits prod.splits)

lemma start_servers_disks:
  "start_servers en vm snap sdk ds s = (Inr servers, t) \<Longrightarrow> map snd servers = ds"
  by (induction en vm snap sdk ds arbitrary: s servers t rule: start_servers.induct)
    (auto simp: ok_simps Let_def split: prod.splits option.splits)

lemma start_cycle_disks:
  assumes "start_cycle en vm sdk validate s = (Inr (snap, servers), t)"
  shows "\<exists>e ds e'. de_snapshot_disks en snap e = (Inr ds, e') \<and> map snd servers = ds \<and> validate ds = None"
  using assms by (cases s) (auto simp: start_cycle_def ok_simps beyond_ok dest!: start_servers_disks)



end
