(* ===== verification/Worker.thy ===== *)
theory Worker
  imports Disk_Copy Artifact_Service
begin

text \<open>
  The worker that runs in the VM on the target (\<^verbatim>\<open>cmd/migration-manager-worker/internal/worker/worker.go\<close>):
  it asks the daemon for commands over TLS to a known certificate, fetches the artifacts it needs,
  copies the disks, prepares the system, and reports. What prepares the system of the copied disks
  (\<^verbatim>\<open>internal/worker\<close>) is a parameter.
\<close>

section \<open>State and surroundings\<close>

record worker =
  wo_Endpoint :: url
  wo_TrustedFingerprint :: string
  wo_Source :: "vmware_source option"
  wo_UUID :: string
  wo_Token :: string
  wo_LastUpdate :: time
  wo_IdleSleep :: duration
  wo_LastArtifactUpdates :: "(uuid, time) gomap"
  wo_LogFile :: string

record http_request =
  rq_URL :: url
  rq_Method :: string
  rq_Body :: string

text \<open>\<open>rp_Cut\<close>: the error with which the body breaks off.\<close>

record http_reply =
  rp_Status :: int
  rp_Body :: string
  rp_Cut :: "err option"

record api_reply =
  re_Code :: int
  re_Error :: string
  re_Metadata :: string

record api_command =
  ac_Command :: worker_command_type
  ac_Location :: string
  ac_SourceType :: source_type
  ac_Source :: string   \<comment> \<open>JSON\<close>
  ac_OSType :: os_type
  ac_Distribution :: distro
  ac_DistributionVersion :: string
  ac_Architecture :: string

record api_artifact =
  aa_UUID :: uuid
  aa_LastUpdated :: time
  aa_Type :: artifact_type
  aa_Put :: artifact_put
  aa_Files :: "string list"

definition artifact_to_api :: "artifact \<Rightarrow> api_artifact" where
  "artifact_to_api a = \<lparr>aa_UUID = af_UUID a, aa_LastUpdated = af_LastUpdated a, aa_Type = af_Type a,
     aa_Put = af_Properties a, aa_Files = af_Files a\<rparr>"

text \<open>
  What is outside: Incus' guest socket, the daemon behind a TLS connection (its certificates, and
  the exchange of one request and its reply), JSON, the clock, \<^verbatim>\<open>tar\<close> (the files it unpacks), and the
  steps that prepare the system on the copied disks.
\<close>

record 'e worker_env =
  wv_disk :: "'e disk_env"
  wv_vsphere :: "'e vsphere"
  wv_system_cas :: "string list"
  wv_config :: "string \<Rightarrow> ('e, err, string) act"
  wv_new_request :: "http_request \<Rightarrow> err option"
  wv_certs :: "url \<Rightarrow> ('e, err, string list) act"
  wv_cert_print :: "string \<Rightarrow> err + string"
  wv_exchange :: "http_request \<Rightarrow> ('e, err, http_reply) act"
  wv_decode :: "string \<Rightarrow> err + api_reply \<times> string"   \<comment> \<open>and what is left unread\<close>
  wv_command_dec :: "string \<Rightarrow> err + api_command"
  wv_instance_dec :: "string \<Rightarrow> err + api_instance"
  wv_artifacts_dec :: "string \<Rightarrow> err + api_artifact list"
  wv_source_dec :: "string \<Rightarrow> err + api_source"
  wv_response_enc :: "worker_response \<Rightarrow> err + string"
  wv_now :: "'e \<Rightarrow> time"
  wv_sleep :: "duration \<Rightarrow> 'e \<Rightarrow> bool \<times> 'e"   \<comment> \<open>whether the worker is to end\<close>
  wv_unpack :: "string \<Rightarrow> ('e, err, (string \<times> string) list) act"
  wv_sync :: "('e, err, unit) act"
  wv_inject_drivers :: "string \<Rightarrow> string \<Rightarrow> string \<Rightarrow> bool \<Rightarrow> (host \<times> 'e, err, unit) act"
    \<comment> \<open>version, architecture, file, dry run\<close>
  wv_fortigate_version :: "(host \<times> 'e, err, string) act"
  wv_fortigate_boot :: "string \<Rightarrow> bool \<Rightarrow> (host \<times> 'e, err, unit) act"
  wv_linux_config :: "api_instance \<Rightarrow> distro \<Rightarrow> string \<Rightarrow> bool \<Rightarrow> (host \<times> 'e, err, unit) act"

text \<open>
  The worker's own record stands beside the surroundings; both beside the machine.
\<close>

type_synonym ('e, 'a) nact = "(worker \<times> 'e, err, 'a) act"
type_synonym ('e, 'a) wact = "(host \<times> (worker \<times> 'e), err, 'a) act"

definition inside :: "('e, err, 'a) act \<Rightarrow> ('e, 'a) nact" where
  "inside m = (\<lambda>(w, e). case m e of (r, e') \<Rightarrow> (r, (w, e')))"

definition own :: "('e, err, 'a) act \<Rightarrow> ('e, 'a) wact" where
  "own m = beyond (inside m)"

definition at_worker :: "(worker \<Rightarrow> 'a) \<Rightarrow> ('e, 'a) nact" where
  "at_worker f = gets (\<lambda>(w, e). f w)"

definition set_worker :: "(worker \<Rightarrow> worker) \<Rightarrow> ('e, unit) nact" where
  "set_worker f = modify (\<lambda>(w, e). (f w, e))"

definition on_machine :: "(host \<times> 'e, err, 'a) act \<Rightarrow> ('e, 'a) wact" where
  "on_machine m = (\<lambda>(h, (w, e)). case m (h, e) of (r, (h', e')) \<Rightarrow> (r, (h', (w, e'))))"

lemma inside_run [run_simps]: "inside m (w, e) = (case m e of (r, e') \<Rightarrow> (r, (w, e')))"
  by (simp add: inside_def)

lemma own_run [run_simps]: "own m (h, (w, e)) = (case m e of (r, e') \<Rightarrow> (r, (h, (w, e'))))"
  by (simp add: own_def run_simps split: prod.splits)

lemma at_worker_run [run_simps]: "at_worker f (w, e) = (Inr (f w), (w, e))"
  by (simp add: at_worker_def run_simps)

lemma set_worker_run [run_simps]: "set_worker f (w, e) = (Inr (), (f w, e))"
  by (simp add: set_worker_def run_simps)

section \<open>Requests\<close>

text \<open>The certificate that the daemon shows must be the one whose fingerprint Incus has given.\<close>

definition verify_peer :: "'e worker_env \<Rightarrow> string \<Rightarrow> string list \<Rightarrow> err option" where
  "verify_peer en trusted certs =
     (case certs of
        [] \<Rightarrow> Some (ExternalErr ''No TLS certificates found'')
      | c # _ \<Rightarrow>
          if trusted = '''' then Some (ExternalErr ''No trusted fingerprint found'')
          else (case wv_cert_print en c of
              Inl e \<Rightarrow> Some e
            | Inr p \<Rightarrow>
                let expected = to_lower (filter (\<lambda>ch. ch \<noteq> CHR '':'') trusted) in
                err_when (p \<noteq> expected) (Errorf ''Fingerprints do not match. Expected (%s), Got (%s)'' [AStr expected, AStr p])))"

text \<open>The path and query are set in the worker's own URL.\<close>

definition make_request :: "'e worker_env \<Rightarrow> string \<Rightarrow> string \<Rightarrow> string \<Rightarrow> string \<Rightarrow> ('e, http_request) nact" where
  "make_request en path meth query body =
     andthen (set_worker (\<lambda>w. w\<lparr>wo_Endpoint := (wo_Endpoint w)\<lparr>u_Path := path, u_RawQuery := query\<rparr>\<rparr>))
       (bindm (at_worker (\<lambda>w. \<lparr>rq_URL = wo_Endpoint w, rq_Method = meth, rq_Body = body\<rparr>)) (\<lambda>rq.
         andthen (fail_on (wv_new_request en rq)) (ret rq)))"

definition send_request :: "'e worker_env \<Rightarrow> http_request \<Rightarrow> ('e, http_reply) nact" where
  "send_request en rq =
     (if u_Scheme (rq_URL rq) = ''https''
      then bindm (inside (wv_certs en (rq_URL rq))) (\<lambda>certs.
        bindm (at_worker wo_TrustedFingerprint) (\<lambda>fp.
          andthen (fail_on (verify_peer en fp certs)) (inside (wv_exchange en rq))))
      else inside (wv_exchange en rq))"

definition endpoint_error :: "api_reply \<Rightarrow> err" where
  "endpoint_error r = Errorf ''Received an error from the endpoint: %s'' [AStr (re_Error r)]"

definition do_http :: "'e worker_env \<Rightarrow> string \<Rightarrow> string \<Rightarrow> string \<Rightarrow> string \<Rightarrow> ('e, api_reply) nact" where
  "do_http en path meth query content =
     bindm (make_request en path meth query content) (\<lambda>rq.
     bindm (send_request en rq) (\<lambda>rp.
     bindm (lift (wv_decode en (rp_Body rp))) (\<lambda>(r, _).
       andthen (fail_if (re_Code r \<noteq> 0) (endpoint_error r)) (ret r))))"

section \<open>Files\<close>

definition file_io :: "'e worker_env \<Rightarrow> string \<Rightarrow> ('e, unit) wact" where
  "file_io en p = own (de_io (wv_disk en) p)"

definition write_file :: "'e worker_env \<Rightarrow> string \<Rightarrow> string \<Rightarrow> ('e, unit) wact" where
  "write_file en p content =
     andthen (file_io en p) (set_host (\<lambda>h. h\<lparr>hs_Files := gm_set p content (hs_Files h)\<rparr>))"

definition under :: "string \<Rightarrow> string \<Rightarrow> bool" where
  "under dir p \<longleftrightarrow> p = dir \<or> has_prefix p (dir @ ''/'')"

definition remove_all :: "'e worker_env \<Rightarrow> string \<Rightarrow> ('e, unit) wact" where
  "remove_all en dir =
     andthen (file_io en dir) (set_host (\<lambda>h. h\<lparr>hs_Files := filter (\<lambda>(p, _). \<not> under dir p) (hs_Files h)\<rparr>))"

definition sdk_path :: string where
  "sdk_path = ''/tmp/vmware/vmware-vix-disklib-distrib''"

definition sdk_dir :: string where
  "sdk_dir = ''/tmp/vmware''"

definition unpack_tarball :: "'e worker_env \<Rightarrow> string \<Rightarrow> string \<Rightarrow> ('e, unit) wact" where
  "unpack_tarball en target tarball =
     andthen (file_io en target)
      (bindm (at_host (\<lambda>h. gm_get '''' (hs_Files h) tarball)) (\<lambda>content.
       bindm (own (wv_unpack en content)) (\<lambda>files.
         set_host (\<lambda>h. h\<lparr>hs_Files := foldl (\<lambda>fs (n, c). gm_set (target @ ''/'' @ n) c fs) (hs_Files h) files\<rparr>))))"

text \<open>
  A download into a file. A reply that is not OK but has no error code is copied as well, as far as
  it was not read.
\<close>

definition do_http_writer :: "'e worker_env \<Rightarrow> string \<Rightarrow> string \<Rightarrow> string \<Rightarrow> string \<Rightarrow> ('e, unit) wact" where
  "do_http_writer en path meth query file =
     bindm (beyond (make_request en path meth query '''')) (\<lambda>rq.
     bindm (beyond (send_request en rq)) (\<lambda>rp.
     bindm (if rp_Status rp = 200 then ret (rp_Body rp)
            else bindm (lift (wv_decode en (rp_Body rp))) (\<lambda>(r, rest).
              andthen (fail_if (re_Code r \<noteq> 0) (endpoint_error r)) (ret rest))) (\<lambda>body.
       andthen (write_file en file body) (fail_on (rp_Cut rp)))))"

section \<open>Reports\<close>

text \<open>That a report could not be sent is only logged.\<close>

definition send_response :: "'e worker_env \<Rightarrow> worker_response \<Rightarrow> ('e, unit) nact" where
  "send_response en r =
     (case wv_response_enc en r of
        Inl _ \<Rightarrow> ret ()
      | Inr content \<Rightarrow>
          bindm (at_worker (\<lambda>w. w)) (\<lambda>w.
          bindm (attempt (do_http en (''/internal/worker/'' @ wo_UUID w @ ''/:update'') ''POST'' (''secret='' @ wo_Token w) content))
            (\<lambda>_. ret ())))"

definition send_status :: "'e worker_env \<Rightarrow> worker_response_type \<Rightarrow> string \<Rightarrow> ('e, unit) nact" where
  "send_status en st msg = send_response en \<lparr>wr_Status = st, wr_StatusMessage = msg, wr_Metadata = None\<rparr>"

definition send_error :: "'e worker_env \<Rightarrow> err \<Rightarrow> ('e, unit) wact" where
  "send_error en er =
     bindm (beyond (at_worker wo_LogFile)) (\<lambda>f.
     bindm (attempt (andthen (file_io en f) (at_host (\<lambda>h. map_of (hs_Files h) f)))) (\<lambda>r.
       beyond (send_response en \<lparr>wr_Status = WORKERRESPONSE_FAILED, wr_StatusMessage = err_text er,
         wr_Metadata = (case r of Inl _ \<Rightarrow> None | Inr m \<Rightarrow> m)\<rparr>)))"

section \<open>Artifacts\<close>

definition match_source_artifact :: "api_artifact list \<Rightarrow> api_command \<Rightarrow> err + api_artifact" where
  "match_source_artifact as cmd =
     (case find (\<lambda>a. aa_Type a = ARTIFACTTYPE_SDK \<and> art_SourceType (aa_Put a) = ac_SourceType cmd) as of
        None \<Rightarrow> Inl (Errorf ''Failed to find matching artifact for source type %q'' [AStr (source_type_string (ac_SourceType cmd))])
      | Some a \<Rightarrow> Inr a)"

text \<open>A driver for the version is better than one for any version; of equals the first one is taken.\<close>

fun pick_driver :: "(api_artifact \<Rightarrow> bool) \<Rightarrow> string \<Rightarrow> api_artifact option \<Rightarrow> api_artifact list \<Rightarrow> api_artifact option" where
  "pick_driver suits ver m [] = m"
| "pick_driver suits ver m (a # as) =
     (let vs = art_Versions (aa_Put a) in
      if suits a \<and> (vs = [] \<or> ver \<in> set vs)
      then (case m of
          None \<Rightarrow> if vs \<noteq> [] then Some a else pick_driver suits ver (Some a) as
        | Some b \<Rightarrow> if art_Versions (aa_Put b) = [] \<and> ver \<in> set vs then Some a else pick_driver suits ver m as)
      else pick_driver suits ver m as)"

definition os_artifact :: "ext \<Rightarrow> artifact_type \<Rightarrow> api_command \<Rightarrow> api_artifact \<Rightarrow> bool" where
  "os_artifact x ty cmd a \<longleftrightarrow> aa_Type a = ty \<and> art_OS (aa_Put a) = ac_OSType cmd \<and>
     match_architecture x (art_Architectures (aa_Put a)) (ac_Architecture cmd) = None"

definition match_driver_artifact :: "ext \<Rightarrow> api_artifact list \<Rightarrow> api_command \<Rightarrow> err + api_artifact" where
  "match_driver_artifact x as cmd =
     (case pick_driver (os_artifact x ARTIFACTTYPE_DRIVER cmd) (ac_DistributionVersion cmd) None as of
        None \<Rightarrow> Inl (Errorf ''Failed to find a matching artifact for %q architecture %q''
          [AStr (x_os_text x (ac_OSType cmd)), AStr (ac_Architecture cmd)])
      | Some a \<Rightarrow> Inr a)"

text \<open>An image serves the versions that agree in their major and minor number.\<close>

fun pick_image :: "ext \<Rightarrow> api_command \<Rightarrow> string \<Rightarrow> api_artifact list \<Rightarrow> err + api_artifact option" where
  "pick_image x cmd ver [] = Inr None"
| "pick_image x cmd ver (a # as) =
     (let expected = x_semver_canonical x (CHR ''v'' # ver) in
      if expected = '''' then Inl (Errorf ''Invalid OS version %q'' [AStr ver])
      else if os_artifact x ARTIFACTTYPE_OSIMAGE cmd a \<and>
        (\<exists>v \<in> set (art_Versions (aa_Put a)). x_semver_compare x (x_semver_minor x (CHR ''v'' # v)) (x_semver_minor x expected) = 0)
      then Inr (Some a) else pick_image x cmd ver as)"

definition match_image_artifact :: "ext \<Rightarrow> api_artifact list \<Rightarrow> api_command \<Rightarrow> string \<Rightarrow> err + api_artifact" where
  "match_image_artifact x as cmd ver =
     bind_sum (pick_image x cmd ver as) (\<lambda>r. case r of
        None \<Rightarrow> Inl (Errorf ''Failed to find a matching artifact for %q architecture %q version %q''
          [AStr (x_os_text x (ac_OSType cmd)), AStr (ac_Architecture cmd), AStr ver])
      | Some a \<Rightarrow> Inr a)"

definition match_artifact :: "ext \<Rightarrow> artifact_type \<Rightarrow> api_artifact list \<Rightarrow> api_command \<Rightarrow> string \<Rightarrow> err + api_artifact" where
  "match_artifact x ty as cmd ver =
     (case ty of
        ARTIFACTTYPE_DRIVER \<Rightarrow> match_driver_artifact x as cmd
      | ARTIFACTTYPE_OSIMAGE \<Rightarrow> match_image_artifact x as cmd ver
      | ARTIFACTTYPE_SDK \<Rightarrow> match_source_artifact as cmd
      | ARTIFACTTYPE_OTHER s \<Rightarrow> Inl (Errorf ''Unknown artifact type %q'' [AStr s]))"

definition artifact_dir :: "uuid \<Rightarrow> string" where
  "artifact_dir u = ''/tmp/'' @ uuid_string u"

text \<open>The download of an artifact's file; a failure removes the directory again.\<close>

definition undoing :: "('e, unit) wact \<Rightarrow> ('e, 'a) wact \<Rightarrow> ('e, 'a) wact" where
  "undoing undo m = bindm (attempt m) (\<lambda>r. case r of
     Inr a \<Rightarrow> ret a | Inl e \<Rightarrow> bindm (attempt undo) (\<lambda>_. throw e))"

definition worker_query :: "worker \<Rightarrow> string" where
  "worker_query w = ''secret='' @ wo_Token w @ ''&instance='' @ wo_UUID w"

definition download_artifact :: "'e worker_env \<Rightarrow> api_artifact \<Rightarrow> string \<Rightarrow> ('e, unit) wact" where
  "download_artifact en a file =
     (let dir = artifact_dir (aa_UUID a) in
      andthen (remove_all en dir)
      (andthen (file_io en dir)
      (undoing (remove_all en dir)
        (if file \<notin> set (aa_Files a) then throw (Errorf ''Required file %q not found'' [AStr file])
         else andthen (write_file en (dir @ ''/'' @ file) '''')
          (bindm (beyond (at_worker worker_query)) (\<lambda>query.
            do_http_writer en (''/1.0/artifacts/'' @ uuid_string (aa_UUID a) @ ''/files/'' @ file) ''GET'' query
              (dir @ ''/'' @ file)))))))"

definition list_artifacts :: "'e worker_env \<Rightarrow> ('e, api_artifact list) nact" where
  "list_artifacts en =
     bindm (at_worker worker_query) (\<lambda>query.
     bindm (do_http en ''/1.0/artifacts'' ''GET'' query '''') (\<lambda>r. lift (wv_artifacts_dec en (re_Metadata r))))"

definition get_artifact ::
    "ext \<Rightarrow> 'e worker_env \<Rightarrow> artifact_type \<Rightarrow> api_command \<Rightarrow> string \<Rightarrow> ('e, string \<times> bool) wact" where
  "get_artifact x en ty cmd ver =
     bindm (beyond (list_artifacts en)) (\<lambda>as.
     bindm (lift (match_artifact x ty as cmd ver)) (\<lambda>a.
     bindm (lift (default_artifact_file (x_os_text x) (aa_Type a) (aa_Put a))) (\<lambda>file.
       let path = artifact_dir (aa_UUID a) @ ''/'' @ file in
       andthen (wrap_err (\<lambda>e. Errorf ''Failed to stat artifact file %q: %w'' [AStr path, AWrap e]) (file_io en path))
       (bindm (at_host (\<lambda>h. map_of (hs_Files h) path \<noteq> None)) (\<lambda>there.
        bindm (beyond (at_worker (\<lambda>w. gm_get 0 (wo_LastArtifactUpdates w) (aa_UUID a)))) (\<lambda>seen.
          let new = (\<not> there \<or> aa_LastUpdated a \<noteq> seen) in
          andthen (if new then download_artifact en a file else ret ())
          (andthen (beyond (set_worker (\<lambda>w. w\<lparr>wo_LastArtifactUpdates :=
              gm_set (aa_UUID a) (aa_LastUpdated a) (wo_LastArtifactUpdates w)\<rparr>)))
            (ret (path, new)))))))))"

definition cleanup_artifacts :: "'e worker_env \<Rightarrow> ('e, unit) wact" where
  "cleanup_artifacts en =
     andthen (remove_all en sdk_dir)
     (bindm (beyond (at_worker wo_LastArtifactUpdates)) (\<lambda>us.
       for_each us (\<lambda>(u, _). andthen (remove_all en (artifact_dir u))
         (beyond (set_worker (\<lambda>w. w\<lparr>wo_LastArtifactUpdates := gm_delete u (wo_LastArtifactUpdates w)\<rparr>))))))"

section \<open>The source\<close>

text \<open>The new source is kept also when the connection to it fails.\<close>

definition connect_source :: "ext \<Rightarrow> 'e worker_env \<Rightarrow> source_type \<Rightarrow> string \<Rightarrow> ('e, unit) nact" where
  "connect_source x en sourceType raw =
     bindm (lift (wv_source_dec en raw)) (\<lambda>src.
     andthen (fail_if (sourceType \<noteq> as_SourceType src) (Errorf ''Source type mismatch; expecting %s but got %s''
        [AStr (source_type_string sourceType), AStr (source_type_string (as_SourceType src))]))
      (if as_SourceType src \<noteq> SOURCETYPE_VMWARE
       then throw (Errorf ''Provided source type %q is not usable with `migration-manager-worker`'' [AStr (source_type_string sourceType)])
       else case new_vm_source x (wv_system_cas en) src of
           Inl e \<Rightarrow> andthen (set_worker (\<lambda>w. w\<lparr>wo_Source := None\<rparr>)) (throw e)
         | Inr v \<Rightarrow>
             andthen (set_worker (\<lambda>w. w\<lparr>wo_Source := Some v\<rparr>))
             (bindm (inside (vmware_connect x (wv_vsphere en) v)) (\<lambda>v'. set_worker (\<lambda>w. w\<lparr>wo_Source := Some v'\<rparr>)))))"

text \<open>Whether there is a source now; if the connection failed, that is reported.\<close>

definition ensure_source :: "ext \<Rightarrow> 'e worker_env \<Rightarrow> api_command \<Rightarrow> ('e, bool) wact" where
  "ensure_source x en cmd =
     bindm (beyond (at_worker wo_Source)) (\<lambda>src.
       if src \<noteq> None then ret True
       else bindm (attempt (beyond (connect_source x en (ac_SourceType cmd) (ac_Source cmd)))) (\<lambda>r. case r of
           Inr _ \<Rightarrow> ret True
         | Inl e \<Rightarrow> andthen (send_error en e) (ret False)))"

text \<open>Without a connection the source has no client, and its use panics.\<close>

definition use_source :: "('e, unit) wact" where
  "use_source =
     bindm (beyond (at_worker wo_Source)) (\<lambda>src. case src of
        Some v \<Rightarrow> if vw_Connected v then ret () else throw nil_pointer_panic
      | None \<Rightarrow> throw nil_pointer_panic)"

section \<open>Commands\<close>

definition fetch_instance :: "'e worker_env \<Rightarrow> ('e, api_instance) nact" where
  "fetch_instance en =
     bindm (at_worker (\<lambda>w. w)) (\<lambda>w.
     bindm (do_http en (''/1.0/instances/'' @ wo_UUID w) ''GET'' (worker_query w) '''') (\<lambda>r.
       lift (wv_instance_dec en (re_Metadata r))))"

text \<open>A message during the import is sent when it is important, and otherwise once in five seconds.\<close>

definition status_callback :: "'e worker_env \<Rightarrow> string \<Rightarrow> bool \<Rightarrow> ('e, unit) nact" where
  "status_callback en msg important = (\<lambda>(w, e).
     if important \<or> 5 * second \<le> time_sub (wv_now en e) (wo_LastUpdate w)
     then send_status en WORKERRESPONSE_RUNNING msg (w\<lparr>wo_LastUpdate := wv_now en e\<rparr>, e)
     else (Inr (), (w, e)))"

definition worker_disks :: "'e worker_env \<Rightarrow> (worker \<times> 'e) disk_env" where
  "worker_disks en =
     (let d = wv_disk en in
      \<lparr>de_vm_reference = (\<lambda>v. inside (de_vm_reference d v)),
       de_create_snapshot = (\<lambda>v n. inside (de_create_snapshot d v n)),
       de_wait_task = (\<lambda>t. inside (de_wait_task d t)),
       de_snapshot_disks = (\<lambda>s. inside (de_snapshot_disks d s)),
       de_remove_snapshot = (\<lambda>v s. inside (de_remove_snapshot d v s)),
       de_nbdkit_start = (\<lambda>v s f k. inside (de_nbdkit_start d v s f k)),
       de_nbdkit_stop = (\<lambda>s. inside (de_nbdkit_stop d s)),
       de_devices = inside (de_devices d),
       de_disk_ids = inside (de_disk_ids d),
       de_io = (\<lambda>p. inside (de_io d p)),
       de_query = (\<lambda>v s k o1 c. inside (de_query d v s k o1 c)),
       de_nbd_connect = (\<lambda>s. inside (de_nbd_connect d s)),
       de_pread = (\<lambda>s l off. inside (de_pread d s l off)),
       de_nbdcopy = (\<lambda>args b (w, e). case de_nbdcopy d args b e of (r, e') \<Rightarrow> (r, (w, e'))),
       de_status = status_callback en\<rparr>)"

definition prepare_sdk :: "ext \<Rightarrow> 'e worker_env \<Rightarrow> api_command \<Rightarrow> ('e, unit) wact" where
  "prepare_sdk x en cmd =
     bindm (get_artifact x en ARTIFACTTYPE_SDK cmd '''') (\<lambda>(file, imported).
       if imported
       then andthen (remove_all en sdk_dir)
         (wrap_err (\<lambda>e. Errorf ''Failed to unpack SDK: %w'' [AWrap e]) (unpack_tarball en sdk_dir file))
       else ret ())"

definition import_disks_helper :: "ext \<Rightarrow> 'e worker_env \<Rightarrow> api_command \<Rightarrow> (worker \<times> 'e, unit) oact" where
  "import_disks_helper x en cmd =
     obind (always (own (delete_vm_snapshot (wv_vsphere en) (ac_Location cmd) incus_snapshot_name))) (\<lambda>_.
     obind (always (prepare_sdk x en cmd)) (\<lambda>_.
     obind (always (beyond (fetch_instance en))) (\<lambda>i.
       import_disks (worker_disks en) (ac_Location cmd) sdk_path (ip_Disks (ai_Properties i)))))"

definition post_import_tasks :: "ext \<Rightarrow> 'e worker_env \<Rightarrow> api_command \<Rightarrow> bool \<Rightarrow> ('e, unit) wact" where
  "post_import_tasks x en cmd dryRun =
     bindm (beyond (at_worker wo_Source)) (\<lambda>src.
     andthen (if src = None then beyond (connect_source x en (ac_SourceType cmd) (ac_Source cmd)) else ret ())
     (bindm (beyond (fetch_instance en)) (\<lambda>i.
       case ac_OSType cmd of
         OSTYPE_WINDOWS \<Rightarrow>
           bindm (get_artifact x en ARTIFACTTYPE_DRIVER cmd '''') (\<lambda>(file, _).
             on_machine (wv_inject_drivers en (ac_DistributionVersion cmd) (ac_Architecture cmd) file dryRun))
       | OSTYPE_FORTIGATE \<Rightarrow>
           bindm (on_machine (wv_fortigate_version en)) (\<lambda>ver.
           bindm (get_artifact x en ARTIFACTTYPE_OSIMAGE cmd ver) (\<lambda>(file, _).
             on_machine (wv_fortigate_boot en file dryRun)))
       | OSTYPE_LINUX \<Rightarrow>
           on_machine (wv_linux_config en i (ac_Distribution cmd) (ac_DistributionVersion cmd) dryRun)
       | _ \<Rightarrow> ret ())))"

text \<open>The report at the end of an import.\<close>

definition reporting :: "'e worker_env \<Rightarrow> string \<Rightarrow> (worker \<times> 'e, unit) oact \<Rightarrow> (worker \<times> 'e, unit) oact" where
  "reporting en msg m = (\<lambda>s. case m s of
     None \<Rightarrow> None
   | Some (Inl e, s') \<Rightarrow> Some (send_error en e s')
   | Some (Inr _, s') \<Rightarrow> Some (beyond (send_status en WORKERRESPONSE_SUCCESS msg) s'))"

text \<open>The final import copies the disks of a source VM that is off.\<close>

definition import_steps :: "ext \<Rightarrow> 'e worker_env \<Rightarrow> api_command \<Rightarrow> (worker \<times> 'e, unit) oact" where
  "import_steps x en cmd =
     obind (always (if ac_Command cmd = WORKERCOMMAND_FINALIZE_IMPORT
       then own (source_power_off (wv_vsphere en) (ac_Location cmd)) else ret ())) (\<lambda>_.
     obind (import_disks_helper x en cmd) (\<lambda>_. always (post_import_tasks x en cmd True)))"

definition worker_import :: "ext \<Rightarrow> 'e worker_env \<Rightarrow> api_command \<Rightarrow> (worker \<times> 'e, unit) oact" where
  "worker_import x en cmd =
     obind (always (ensure_source x en cmd)) (\<lambda>connected.
       if \<not> connected then always (ret ())
       else obind (always use_source) (\<lambda>_. reporting en ''Disk import completed successfully'' (import_steps x en cmd)))"

text \<open>The result tells the worker to end, also if the report of success was not received.\<close>

definition do_post_import :: "ext \<Rightarrow> 'e worker_env \<Rightarrow> api_command \<Rightarrow> ('e, bool) wact" where
  "do_post_import x en cmd =
     bindm (ensure_source x en cmd) (\<lambda>connected.
       if \<not> connected then ret False
       else andthen (beyond (send_status en WORKERRESPONSE_RUNNING ''Performing final migration tasks''))
         (bindm (attempt (post_import_tasks x en cmd False)) (\<lambda>r. case r of
             Inl e \<Rightarrow> andthen (send_error en e) (ret False)
           | Inr _ \<Rightarrow>
               andthen (own (wv_sync en))
               (andthen (beyond (send_status en WORKERRESPONSE_SUCCESS ''Final migration tasks completed successfully''))
                 (ret True)))))"

section \<open>The worker's loop\<close>

definition ask_command :: "'e worker_env \<Rightarrow> ('e, api_command) nact" where
  "ask_command en =
     bindm (at_worker (\<lambda>w. w)) (\<lambda>w.
     bindm (do_http en (''/internal/worker/'' @ wo_UUID w @ ''/:command'') ''POST'' (''secret='' @ wo_Token w) '''') (\<lambda>r.
       lift (wv_command_dec en (re_Metadata r))))"

text \<open>One round; an error of it is a crash of the worker.\<close>

definition worker_round :: "ext \<Rightarrow> 'e worker_env \<Rightarrow> (worker \<times> 'e, bool) oact" where
  "worker_round x en =
     obind (always (attempt (beyond (ask_command en)))) (\<lambda>r. case r of
       Inl _ \<Rightarrow> always (ret False)
     | Inr cmd \<Rightarrow>
         (case ac_Command cmd of
            WORKERCOMMAND_IMPORT_DISKS \<Rightarrow> obind (worker_import x en cmd) (\<lambda>_. always (ret False))
          | WORKERCOMMAND_FINALIZE_IMPORT \<Rightarrow> obind (worker_import x en cmd) (\<lambda>_. always (ret False))
          | WORKERCOMMAND_POST_IMPORT \<Rightarrow> always (do_post_import x en cmd)
          | _ \<Rightarrow> always (ret False)))"

definition worker_sleep :: "'e worker_env \<Rightarrow> host \<times> (worker \<times> 'e) \<Rightarrow> bool \<times> (host \<times> (worker \<times> 'e))" where
  "worker_sleep en = (\<lambda>(h, (w, e)). case wv_sleep en (wo_IdleSleep w) e of (b, e') \<Rightarrow> (b, (h, (w, e'))))"

partial_function (option) worker_loop ::
    "ext \<Rightarrow> 'e worker_env \<Rightarrow> host \<times> (worker \<times> 'e) \<Rightarrow> ((err + unit) \<times> (host \<times> (worker \<times> 'e))) option" where
  "worker_loop x en s =
     (case worker_round x en s of
        None \<Rightarrow> None
      | Some (Inl e, s') \<Rightarrow> Some (Inl e, s')
      | Some (Inr fin, s') \<Rightarrow>
          if fin then Some (Inr (), s')
          else (case worker_sleep en s' of (stop, s'') \<Rightarrow>
            if stop then Some (Inr (), s'') else worker_loop x en s''))"

definition worker_run :: "ext \<Rightarrow> 'e worker_env \<Rightarrow> (worker \<times> 'e, unit) oact" where
  "worker_run x en =
     obind (always (attempt (cleanup_artifacts en))) (\<lambda>_. deferring (worker_loop x en) (cleanup_artifacts en))"

section \<open>Construction\<close>

definition with_idle_sleep :: "duration \<Rightarrow> worker \<Rightarrow> worker" where
  "with_idle_sleep d w = w\<lparr>wo_IdleSleep := d\<rparr>"

definition with_source :: "vmware_source \<Rightarrow> worker \<Rightarrow> worker" where
  "with_source v w = w\<lparr>wo_Source := Some v\<rparr>"

definition new_worker :: "ext \<Rightarrow> 'e worker_env \<Rightarrow> string \<Rightarrow> (worker \<Rightarrow> worker) list \<Rightarrow> ('e, err, worker) act" where
  "new_worker x en logFile opts =
     bindm (wrap_err (\<lambda>e. Errorf ''Failed to find worker endpoint from Incus: %w'' [AWrap e]) (wv_config en ''user.migration.endpoint'')) (\<lambda>endpoint.
     bindm (wrap_err (\<lambda>e. Errorf ''Failed to find connection token from Incus: %w'' [AWrap e]) (wv_config en ''user.migration.token'')) (\<lambda>token.
     bindm (wrap_err (\<lambda>e. Errorf ''Failed to find trusted certificate fingerprint from Incus: %w'' [AWrap e])
        (wv_config en ''user.migration.fingerprint'')) (\<lambda>fingerprint.
     bindm (wrap_err (\<lambda>e. Errorf ''Failed to find instance UUID from Incus: %w'' [AWrap e]) (wv_config en ''user.migration.uuid'')) (\<lambda>u.
     bindm (lift (x_url x endpoint)) (\<lambda>parsed. (\<lambda>e.
       let w = foldl (\<lambda>w f. f w) \<lparr>wo_Endpoint = parsed, wo_TrustedFingerprint = fingerprint, wo_Source = None, wo_UUID = u,
           wo_Token = token, wo_LastUpdate = wv_now en e, wo_IdleSleep = 10 * second, wo_LastArtifactUpdates = [],
           wo_LogFile = logFile\<rparr> opts in
       case do_http en ''/1.0'' ''GET'' '''' '''' (w, e) of
         (Inl er, (_, e')) \<Rightarrow> (Inl er, e')
       | (Inr _, (w', e')) \<Rightarrow> (Inr w', e')))))))"

end
