(* ===== verification/Worker_Facts.thy ===== *)
theory Worker_Facts
  imports Worker Disk_Facts
begin

text \<open>
  The worker is right: it talks only to the daemon it was told of, picks the best driver, never uses
  an artifact older than the daemon's, ends every import with a report, and copies for the last time
  only when the source VM is off. And where it is not: a failed connection to the source and a failed
  unpacking of the SDK are not made good by a second attempt.
\<close>

section \<open>The choice of artifacts\<close>

lemma pick_driver_Some:
  assumes "art_Versions (aa_Put b) = []"
  shows "pick_driver suits ver (Some b) as =
    (case find (\<lambda>a. suits a \<and> ver \<in> set (art_Versions (aa_Put a))) as of None \<Rightarrow> Some b | Some a \<Rightarrow> Some a)"
  using assms by (induction as) (auto simp: Let_def)

lemma pick_driver_best:
  "pick_driver suits ver None as =
     (case find (\<lambda>a. suits a \<and> ver \<in> set (art_Versions (aa_Put a))) as of
        Some a \<Rightarrow> Some a
      | None \<Rightarrow> find (\<lambda>a. suits a \<and> art_Versions (aa_Put a) = []) as)"
  by (induction as) (auto simp: Let_def pick_driver_Some split: option.split)

lemma pick_image_mem: "pick_image x cmd ver as = Inr (Some a) \<Longrightarrow> a \<in> set as"
  by (induction as) (auto simp: Let_def split: if_splits)

text \<open>
  The worker takes the first driver that names the version of the system, and only if there is
  none the first one that names no version at all.
\<close>

theorem driver_choice_exact:
  "match_driver_artifact x as cmd =
     (case find (\<lambda>a. os_artifact x ARTIFACTTYPE_DRIVER cmd a \<and> ac_DistributionVersion cmd \<in> set (art_Versions (aa_Put a))) as of
        Some a \<Rightarrow> Inr a
      | None \<Rightarrow>
          (case find (\<lambda>a. os_artifact x ARTIFACTTYPE_DRIVER cmd a \<and> art_Versions (aa_Put a) = []) as of
             Some a \<Rightarrow> Inr a
           | None \<Rightarrow> Inl (Errorf ''Failed to find a matching artifact for %q architecture %q''
               [AStr (x_os_text x (ac_OSType cmd)), AStr (ac_Architecture cmd)])))"
  by (simp add: match_driver_artifact_def pick_driver_best split: option.split)

text \<open>The command that the daemon sends for an instance, as far as artifacts matter.\<close>

definition command_for :: "ext \<Rightarrow> inst \<Rightarrow> api_command \<Rightarrow> bool" where
  "command_for x i cmd \<longleftrightarrow> ac_SourceType cmd = i_SourceType i \<and> ac_OSType cmd = get_os_type i True \<and>
     ac_Architecture cmd = get_architecture x i"

lemma scan_first_sdk:
  assumes "scan_artifacts x i s arts = Inr s'" and "\<not> seen_sdk s"
    and "find (\<lambda>a. af_Type a = ARTIFACTTYPE_SDK \<and> art_SourceType (af_Properties a) = i_SourceType i) arts = Some a"
  shows "\<exists>f \<in> set (af_Files a). default_artifact_file (x_os_text x) ARTIFACTTYPE_SDK (af_Properties a) = Inr f"
  using assms
proof (induction arts arbitrary: s)
  case (Cons b arts)
  from Cons.prems obtain f where f: "default_artifact_file (x_os_text x) (af_Type b) (af_Properties b) = Inr f"
    by (auto split: sum.splits)
  show ?case
  proof (cases "af_Type b")
    case ARTIFACTTYPE_SDK
    with Cons f show ?thesis by (auto split: if_splits)
  qed (use Cons f in \<open>auto split: if_splits\<close>)
qed simp

lemma find_map: "find P (map f xs) = map_option f (find (\<lambda>x. P (f x)) xs)"
  by (induction xs) auto

text \<open>
  When the daemon's check of the artifacts has passed for an instance, the worker of that
  instance finds the SDK, and the SDK's file is there to be downloaded.
\<close>

theorem checked_sdk_usable:
  assumes "has_required_artifacts x arts i = None" and "i_SourceType i = SOURCETYPE_VMWARE" and "command_for x i cmd"
  shows "\<exists>a f. match_artifact x ARTIFACTTYPE_SDK (map artifact_to_api arts) cmd ver = Inr a \<and>
    default_artifact_file (x_os_text x) (aa_Type a) (aa_Put a) = Inr f \<and> f \<in> set (aa_Files a)"
proof -
  let ?sdk = "\<lambda>a. af_Type a = ARTIFACTTYPE_SDK \<and> art_SourceType (af_Properties a) = i_SourceType i"
  from assms(1,2) obtain s where s: "scan_artifacts x i \<lparr>seen_sdk = False, seen_os = False, seen_driver = False\<rparr> arts = Inr s"
    and "seen_sdk s" by (auto simp: has_required_artifacts_def first_err_None split: sum.splits)
  with scan_artifacts_serves [OF s] have "\<exists>a \<in> set arts. ?sdk a" by (auto simp: serves_def)
  then obtain a where a: "find ?sdk arts = Some a" by (cases "find ?sdk arts") (auto simp: find_None_iff)
  from scan_first_sdk [OF s _ a] obtain f where "f \<in> set (af_Files a)"
    "default_artifact_file (x_os_text x) ARTIFACTTYPE_SDK (af_Properties a) = Inr f" by auto
  with a assms(3) find_SomeD [OF a] show ?thesis
    by (intro exI [of _ "artifact_to_api a"] exI [of _ f])
      (simp add: match_artifact_def match_source_artifact_def find_map artifact_to_api_def command_for_def)
qed

definition sample_command :: api_command where
  "sample_command = \<lparr>ac_Command = WORKERCOMMAND_IMPORT_DISKS, ac_Location = ''/dc/vm/vm'', ac_SourceType = SOURCETYPE_VMWARE,
     ac_Source = '''', ac_OSType = get_os_type sample_inst True, ac_Distribution = DebianLinux, ac_DistributionVersion = '''',
     ac_Architecture = get_architecture plain_ext sample_inst\<rparr>"

theorem checked_sdk_usable_witness:
  "\<exists>a f. match_artifact plain_ext ARTIFACTTYPE_SDK (map artifact_to_api [sample_sdk]) sample_command '''' = Inr a \<and> f \<in> set (aa_Files a)"
proof -
  have "has_required_artifacts plain_ext [sample_sdk] sample_inst = None" by code_simp
  moreover have st: "i_SourceType sample_inst = SOURCETYPE_VMWARE" by code_simp
  moreover have "command_for plain_ext sample_inst sample_command" by (simp add: command_for_def sample_command_def st)
  ultimately show ?thesis using checked_sdk_usable [of plain_ext "[sample_sdk]" sample_inst sample_command "''''"] by blast
qed

text \<open>The daemon's check does not look at versions; so with drivers for other versions only, it passes.\<close>

definition with_versions :: "(artifact \<Rightarrow> string list) \<Rightarrow> artifact \<Rightarrow> artifact" where
  "with_versions f a = a\<lparr>af_Properties := (af_Properties a)\<lparr>art_Versions := f a\<rparr>\<rparr>"

lemma with_versions_fields [simp]:
  "af_Type (with_versions f a) = af_Type a" "af_Files (with_versions f a) = af_Files a"
  "art_SourceType (af_Properties (with_versions f a)) = art_SourceType (af_Properties a)"
  "suits_os x i (with_versions f a) = suits_os x i a"
  "default_artifact_file t ty (af_Properties (with_versions f a)) = default_artifact_file t ty (af_Properties a)"
  by (simp_all add: with_versions_def suits_os_def default_artifact_file_def split: artifact_type.split)

lemma scan_with_versions: "scan_artifacts x i s (map (with_versions f) arts) = scan_artifacts x i s arts"
  by (induction arts arbitrary: s) (auto simp: missing_file_def split: sum.split artifact_type.split)

text \<open>
  The daemon's check of the artifacts does not depend on the versions they are for. So when all
  drivers are for other versions than the instance's, an instance passes a check that it passes for
  any driver, and then its worker finds no driver.
\<close>

theorem driver_versions_unchecked:
  assumes "\<forall>a \<in> set arts. af_Type a = ARTIFACTTYPE_DRIVER \<longrightarrow> f a \<noteq> [] \<and> ac_DistributionVersion cmd \<notin> set (f a)"
  shows "has_required_artifacts x (map (with_versions f) arts) i = has_required_artifacts x arts i \<and>
    match_artifact x ARTIFACTTYPE_DRIVER (map artifact_to_api (map (with_versions f) arts)) cmd ver =
      Inl (Errorf ''Failed to find a matching artifact for %q architecture %q'' [AStr (x_os_text x (ac_OSType cmd)), AStr (ac_Architecture cmd)])"
proof
  show "has_required_artifacts x (map (with_versions f) arts) i = has_required_artifacts x arts i"
    by (simp add: has_required_artifacts_def scan_with_versions)
  have "pick_driver (os_artifact x ARTIFACTTYPE_DRIVER cmd) (ac_DistributionVersion cmd) None
    (map artifact_to_api (map (with_versions f) arts)) = None"
    using assms by (auto simp: pick_driver_best find_None_iff artifact_to_api_def with_versions_def os_artifact_def split: option.split)
  then show "match_artifact x ARTIFACTTYPE_DRIVER (map artifact_to_api (map (with_versions f) arts)) cmd ver =
      Inl (Errorf ''Failed to find a matching artifact for %q architecture %q'' [AStr (x_os_text x (ac_OSType cmd)), AStr (ac_Architecture cmd)])"
    by (simp add: match_artifact_def match_driver_artifact_def)
qed

definition sample_driver :: artifact where
  "sample_driver = \<lparr>af_ID = 0, af_UUID = 4, af_Type = ARTIFACTTYPE_DRIVER, af_LastUpdated = 0,
     af_Properties = \<lparr>art_Description = '''', art_OS = OSTYPE_WINDOWS, art_Architectures = [''x86_64''], art_Versions = [],
       art_SourceType = no_source_type\<rparr>, af_Files = [''virtio-win.iso'']\<rparr>"

definition windows_inst :: inst where
  "windows_inst = sample_inst\<lparr>i_SourceType := SOURCETYPE_OTHER ''file'',
     i_Properties := (i_Properties sample_inst)\<lparr>ip_OS := ''Windows''\<rparr>\<rparr>"

theorem driver_versions_unchecked_witness:
  "has_required_artifacts plain_ext [with_versions (\<lambda>_. [''2k19'']) sample_driver] windows_inst = None \<and>
   match_artifact plain_ext ARTIFACTTYPE_DRIVER [artifact_to_api (with_versions (\<lambda>_. [''2k19'']) sample_driver)] sample_command '''' \<noteq> Inr y"
proof -
  have "has_required_artifacts plain_ext [sample_driver] windows_inst = None" by code_simp
  with driver_versions_unchecked [of "[sample_driver]" "\<lambda>_. [''2k19'']" sample_command plain_ext windows_inst "''''"]
  show ?thesis by (simp add: sample_command_def)
qed

section \<open>The artifacts on the worker's disk\<close>

lemma hex_char_inj: "d < 16 \<Longrightarrow> e < 16 \<Longrightarrow> hex_char d = hex_char e \<Longrightarrow> d = e"
  by (auto simp: hex_char_def char_of_eq_iff take_bit_eq_mod split: if_splits)

lemma nibble_bits:
  assumes "unat (drop_bit k u) mod 16 = unat (drop_bit k v) mod 16" and "j < 4"
  shows "bit (u :: uuid) (k + j) = bit (v :: uuid) (k + j)"
proof -
  have low: "bit (unat (drop_bit k w) mod 16) j = bit w (k + j)" for w :: uuid
  proof -
    have "unat (drop_bit k w) mod 16 = take_bit 4 (unat (drop_bit k w))" by (simp add: take_bit_eq_mod)
    with assms(2) show ?thesis by (simp add: bit_take_bit_iff bit_unsigned_iff bit_drop_bit_eq add.commute)
  qed
  have "bit u (k + j) = bit (unat (drop_bit k u) mod 16) j" by (rule low [symmetric])
  also have "\<dots> = bit (unat (drop_bit k v) mod 16) j" by (simp only: assms(1))
  also have "\<dots> = bit v (k + j)" by (rule low)
  finally show ?thesis .
qed

lemma uuid_string_inj: "uuid_string u = uuid_string v \<Longrightarrow> u = v"
proof -
  assume "uuid_string u = uuid_string v"
  then have all: "\<forall>i \<in> {0..<8} \<union> {8..<12} \<union> {12..<16} \<union> {16..<20} \<union> {20..<32}. uuid_hex u i = uuid_hex v i"
    by (auto simp add: uuid_string_def simp del: upt_rec_numeral)
  have hex: "uuid_hex u i = uuid_hex v i" if "i < 32" for i
  proof -
    have "i \<in> {0..<8} \<union> {8..<12} \<union> {12..<16} \<union> {16..<20} \<union> {20..<32}" using that by auto
    with all show ?thesis by blast
  qed
  have nib: "unat (drop_bit (4 * (31 - i)) u) mod 16 = unat (drop_bit (4 * (31 - i)) v) mod 16" if "i < 32" for i
    using hex [OF that] hex_char_inj [of "unat (drop_bit (4 * (31 - i)) u) mod 16" "unat (drop_bit (4 * (31 - i)) v) mod 16"]
    by (simp add: uuid_hex_def)
  show "u = v"
  proof (rule bit_word_eqI)
    fix n assume "n < LENGTH(128)"
    then have n: "4 * (31 - (31 - n div 4)) = 4 * (n div 4)" by simp
    from nib [of "31 - n div 4"] n have "unat (drop_bit (4 * (n div 4)) u) mod 16 = unat (drop_bit (4 * (n div 4)) v) mod 16" by simp
    from nibble_bits [OF this, of "n mod 4"] show "bit u n = bit v n" by simp
  qed
qed

lemma uuid_string_length [simp]: "length (uuid_string u) = 36"
  by (simp add: uuid_string_def)

lemma under_artifact_dir: "under (artifact_dir u) (artifact_dir v @ ''/'' @ f) \<longleftrightarrow> u = v"
proof
  assume "under (artifact_dir u) (artifact_dir v @ ''/'' @ f)"
  then have "prefix (artifact_dir u) (artifact_dir v @ ''/'' @ f)"
    by (auto simp: under_def has_prefix_def dest: append_prefixD)
  then have "take 41 (artifact_dir v @ ''/'' @ f) = artifact_dir u" by (auto simp: prefix_def artifact_dir_def)
  then show "u = v" using uuid_string_inj by (auto simp: artifact_dir_def)
qed (simp add: under_def has_prefix_def prefix_def)

text \<open>
  What the worker remembers of an artifact is true: the file it has of it is the one of that time.
  \<open>srv u t f\<close> is the content of the file \<open>f\<close> of the artifact \<open>u\<close> as it was last updated at \<open>t\<close>.
\<close>

definition cache_ok :: "(uuid \<Rightarrow> time \<Rightarrow> string \<Rightarrow> string) \<Rightarrow> host \<Rightarrow> worker \<Rightarrow> bool" where
  "cache_ok srv h w \<longleftrightarrow> (\<forall>u t f c. map_of (wo_LastArtifactUpdates w) u = Some t \<and>
     map_of (hs_Files h) (artifact_dir u @ ''/'' @ f) = Some c \<longrightarrow> c = srv u t f)"

text \<open>
  The daemon lists the artifacts with the times of their last update and serves the files of these
  times, or an error; \<open>ver\<close> reads the times off the state outside, which the file system does not touch.
\<close>

definition serves_listed :: "'e worker_env \<Rightarrow> ('e \<Rightarrow> uuid \<Rightarrow> time) \<Rightarrow> (uuid \<Rightarrow> time \<Rightarrow> string \<Rightarrow> string) \<Rightarrow> bool" where
  "serves_listed en ver srv \<longleftrightarrow>
     (\<forall>w e as w' e' a. list_artifacts en (w, e) = (Inr as, (w', e')) \<and> a \<in> set as \<longrightarrow>
        aa_LastUpdated a = ver e' (aa_UUID a) \<and> aa_LastUpdated a \<noteq> 0) \<and>
     (\<forall>p e r e'. de_io (wv_disk en) p e = (r, e') \<longrightarrow> ver e' = ver e) \<and>
     (\<forall>rq w e rp w' e' u f. send_request en rq (w, e) = (Inr rp, (w', e')) \<and>
        u_Path (rq_URL rq) = ''/1.0/artifacts/'' @ uuid_string u @ ''/files/'' @ f \<longrightarrow>
        (if rp_Status rp = 200 then rp_Cut rp = None \<longrightarrow> rp_Body rp = srv u (ver e u) f
         else \<forall>r rest. wv_decode en (rp_Body rp) = Inr (r, rest) \<longrightarrow> re_Code r \<noteq> 0))"

definition removable :: "'e worker_env \<Rightarrow> uuid \<Rightarrow> bool" where
  "removable en u \<longleftrightarrow> (\<forall>e. \<exists>e'. de_io (wv_disk en) (artifact_dir u) e = (Inr (), e'))"

section \<open>What a download changes\<close>

abbreviation seen_updates :: "worker \<Rightarrow> (uuid, time) gomap" where
  "seen_updates w \<equiv> wo_LastArtifactUpdates w"

lemma net_keeps:
  "keeps (\<lambda>(w, e). seen_updates w = L) (inside m)"
  "keeps (\<lambda>(w, e). seen_updates w = L) (at_worker g)"
  "keeps (\<lambda>(w, e). seen_updates w = L) (make_request en path meth query body)"
  "keeps (\<lambda>(w, e). seen_updates w = L) (send_request en rq)"
  by (auto simp: keeps_def make_request_def send_request_def run_simps split: prod.splits sum.splits)

lemma list_keeps: "keeps (\<lambda>(w, e). seen_updates w = L) (list_artifacts en)"
  unfolding list_artifacts_def do_http_def
  by (intro keeps_bindm keeps_andthen net_keeps keeps_pure) (auto intro: keeps_intros split: prod.splits)

lemma beyond_frame: "beyond m (h, s) = (r, (h', s')) \<Longrightarrow> m s = (r, s') \<and> h' = h"
  by (auto simp: beyond_run split: prod.splits)

text \<open>Only one file changes.\<close>

definition only_file :: "string \<Rightarrow> (string \<Rightarrow> string option) \<Rightarrow> (uuid, time) gomap \<Rightarrow> host \<times> (worker \<times> 'e) \<Rightarrow> bool" where
  "only_file p M L = (\<lambda>(h, (w, e)). seen_updates w = L \<and> (\<forall>p'. p' \<noteq> p \<longrightarrow> map_of (hs_Files h) p' = M p'))"

lemma only_file_beyond:
  assumes "keeps (\<lambda>(w, e). seen_updates w = L) m"
  shows "keeps (only_file p M L) (beyond m)"
  unfolding keeps_def only_file_def
proof (intro allI impI)
  fix s :: "host \<times> (worker \<times> 'a)"
  assume a: "case s of (h, (w, e)) \<Rightarrow> seen_updates w = L \<and> (\<forall>p'. p' \<noteq> p \<longrightarrow> map_of (hs_Files h) p' = M p')"
  obtain h w e where s: "s = (h, (w, e))" by (metis prod.exhaust)
  obtain r w' e' where m: "m (w, e) = (r, (w', e'))" by (metis prod.exhaust)
  from keeps_run [OF assms _ m] a s have "seen_updates w' = L" by simp
  with a s m show "case snd (beyond m s) of (h, (w, e)) \<Rightarrow> seen_updates w = L \<and> (\<forall>p'. p' \<noteq> p \<longrightarrow> map_of (hs_Files h) p' = M p')"
    by (simp add: run_simps)
qed

lemma only_file_io: "keeps (only_file p M L) (file_io en q)"
  unfolding file_io_def own_def by (rule only_file_beyond) (rule net_keeps)

lemma only_file_write: "keeps (only_file p M L) (write_file en p c)"
  unfolding write_file_def
  by (intro keeps_andthen only_file_io) (auto simp: keeps_def only_file_def run_simps)

lemma only_file_download: "keeps (only_file p M L) (do_http_writer en path meth query p)"
  unfolding do_http_writer_def
  by (intro keeps_bindm keeps_andthen only_file_beyond net_keeps only_file_write keeps_if keeps_pure)
    (auto intro: keeps_intros split: prod.splits)

definition removed :: "string \<Rightarrow> host \<Rightarrow> host" where
  "removed dir h = h\<lparr>hs_Files := filter (\<lambda>(p, _). \<not> under dir p) (hs_Files h)\<rparr>"

lemma removed_files: "map_of (hs_Files (removed dir h)) p = (if under dir p then None else map_of (hs_Files h) p)"
proof -
  have "map_of (filter (\<lambda>(p, _). \<not> under dir p) fs) p = (if under dir p then None else map_of fs p)" for fs :: "(string \<times> string) list"
    by (induction fs) auto
  then show ?thesis by (simp add: removed_def)
qed

lemma removable_run:
  assumes "removable en u" and "serves_listed en ver srv"
  shows "\<exists>e'. remove_all en (artifact_dir u) (h, (w, e)) = (Inr (), (removed (artifact_dir u) h, (w, e'))) \<and>
    file_io en (artifact_dir u) (h, (w, e)) = (Inr (), (h, (w, e'))) \<and> ver e' = ver e"
proof -
  from assms(1) obtain e' where io: "de_io (wv_disk en) (artifact_dir u) e = (Inr (), e')" unfolding removable_def by blast
  with assms(2) have "ver e' = ver e" unfolding serves_listed_def by blast
  with io show ?thesis by (simp add: remove_all_def file_io_def run_simps removed_def)
qed

lemma file_io_ver:
  assumes "serves_listed en ver srv" and "file_io en p (h, (w, e)) = (r, (h', (w', e')))"
  shows "h' = h \<and> w' = w \<and> ver e' = ver e"
  using assms by (auto simp: file_io_def own_def run_simps serves_listed_def split: prod.splits)

lemma write_file_ver:
  assumes "serves_listed en ver srv" and "write_file en p c (h, (w, e)) = (Inr (), (h', (w', e')))"
  shows "map_of (hs_Files h') p = Some c \<and> w' = w \<and> ver e' = ver e"
  using assms(2) file_io_ver [OF assms(1)]
  by (auto simp: write_file_def ok_simps run_simps split: prod.splits sum.splits)

text \<open>A download that succeeds leaves the file as it is served.\<close>

lemma writer_serves:
  assumes sv: "serves_listed en ver srv"
    and run: "do_http_writer en (''/1.0/artifacts/'' @ uuid_string u @ ''/files/'' @ f) meth query p (h, (w, e)) = (Inr (), (h', (w', e')))"
  shows "map_of (hs_Files h') p = Some (srv u (ver e u) f)"
proof -
  obtain r1 w1 e1 where mk: "make_request en (''/1.0/artifacts/'' @ uuid_string u @ ''/files/'' @ f) meth query '''' (w, e) = (r1, (w1, e1))"
    by (metis prod.exhaust)
  have e1: "e1 = e" and path: "r1 = Inr rq \<Longrightarrow> u_Path (rq_URL rq) = ''/1.0/artifacts/'' @ uuid_string u @ ''/files/'' @ f" for rq
    using mk by (auto simp: make_request_def run_simps split: option.splits)
  from run mk obtain rq where r1: "r1 = Inr rq" by (cases r1) (auto simp: do_http_writer_def run_simps)
  obtain r2 w2 e2 where sd: "send_request en rq (w1, e1) = (r2, (w2, e2))" by (metis prod.exhaust)
  from run mk r1 sd obtain rp where r2: "r2 = Inr rp" by (cases r2) (auto simp: do_http_writer_def run_simps)
  from sv have "if rp_Status rp = 200 then rp_Cut rp = None \<longrightarrow> rp_Body rp = srv u (ver e1 u) f
      else \<forall>r rest. wv_decode en (rp_Body rp) = Inr (r, rest) \<longrightarrow> re_Code r \<noteq> 0"
    using sd r2 path [OF r1] unfolding serves_listed_def by blast
  with run mk r1 sd r2 e1 show ?thesis
    using write_file_ver [OF sv]
    by (auto simp: do_http_writer_def beyond_run ok_simps run_simps split: prod.splits sum.splits option.splits if_splits)
qed

lemma download_effect:
  assumes sv: "serves_listed en ver srv" and rm: "removable en (aa_UUID a)"
    and run: "download_artifact en a file (h, (w, e)) = (r, (h', (w', e')))"
  shows "seen_updates w' = seen_updates w \<and>
    (\<forall>p. p \<noteq> artifact_dir (aa_UUID a) @ ''/'' @ file \<longrightarrow>
      map_of (hs_Files h') p = (if under (artifact_dir (aa_UUID a)) p then None else map_of (hs_Files h) p)) \<and>
    (r = Inr () \<longrightarrow> map_of (hs_Files h') (artifact_dir (aa_UUID a) @ ''/'' @ file) = Some (srv (aa_UUID a) (ver e (aa_UUID a)) file)) \<and>
    (r \<noteq> Inr () \<longrightarrow> map_of (hs_Files h') (artifact_dir (aa_UUID a) @ ''/'' @ file) = None)"
proof -
  let ?dir = "artifact_dir (aa_UUID a)" and ?p = "artifact_dir (aa_UUID a) @ ''/'' @ file"
  let ?body = "if file \<notin> set (aa_Files a) then throw (Errorf ''Required file %q not found'' [AStr file])
    else andthen (write_file en ?p '''') (bindm (beyond (at_worker worker_query)) (\<lambda>query.
      do_http_writer en (''/1.0/artifacts/'' @ uuid_string (aa_UUID a) @ ''/files/'' @ file) ''GET'' query ?p))"
  obtain ea where ra: "remove_all en ?dir (h, (w, e)) = (Inr (), (removed ?dir h, (w, ea)))" "ver ea = ver e"
    using removable_run [OF rm sv] by blast
  obtain eb where rb: "file_io en ?dir (removed ?dir h, (w, ea)) = (Inr (), (removed ?dir h, (w, eb)))" "ver eb = ver ea"
    using removable_run [OF rm sv] by blast
  obtain rc hc wc ec where body: "?body (removed ?dir h, (w, eb)) = (rc, (hc, (wc, ec)))" by (metis prod.exhaust)
  let ?M = "\<lambda>p. if under ?dir p then None else map_of (hs_Files h) p"
  have "keeps (only_file ?p ?M (seen_updates w)) ?body"
    by (intro keeps_if keeps_andthen keeps_bindm only_file_write only_file_download only_file_beyond net_keeps keeps_pure)
  from keeps_run [OF this _ body] have frame: "only_file ?p ?M (seen_updates w) (hc, (wc, ec))"
    by (simp add: only_file_def removed_files)
  show ?thesis
  proof (cases rc)
    case (Inr v)
    with run ra rb body have "r = Inr ()" "h' = hc" "w' = wc"
      by (simp_all add: download_artifact_def Let_def undoing_def run_simps)
    moreover have "map_of (hs_Files hc) ?p = Some (srv (aa_UUID a) (ver e (aa_UUID a)) file)"
    proof -
      obtain r1 h1 w1 e1 where wr: "write_file en ?p '''' (removed ?dir h, (w, eb)) = (r1, (h1, (w1, e1)))" by (metis prod.exhaust)
      with body Inr have "r1 = Inr ()" "file \<in> set (aa_Files a)" by (auto simp: run_simps split: if_splits sum.splits)
      with wr write_file_ver [OF sv, of ?p "''''" "removed ?dir h" w eb] have "ver e1 = ver e" using ra rb by simp
      moreover from body Inr wr \<open>r1 = Inr ()\<close> \<open>file \<in> set (aa_Files a)\<close>
      have "do_http_writer en (''/1.0/artifacts/'' @ uuid_string (aa_UUID a) @ ''/files/'' @ file) ''GET'' (worker_query w1) ?p (h1, (w1, e1)) =
        (Inr (), (hc, (wc, ec)))" by (simp add: run_simps)
      note writer_serves [OF sv this]
      ultimately show ?thesis by simp
    qed
    ultimately show ?thesis using frame by (simp add: only_file_def)
  next
    case (Inl er)
    obtain ed where "remove_all en ?dir (hc, (wc, ec)) = (Inr (), (removed ?dir hc, (wc, ed)))"
      using removable_run [OF rm sv] by blast
    with Inl run ra rb body have "r = Inl er" "h' = removed ?dir hc" "w' = wc"
      by (simp_all add: download_artifact_def Let_def undoing_def run_simps)
    moreover have "under ?dir ?p" by (rule under_artifact_dir [THEN iffD2]) (rule refl)
    ultimately show ?thesis using frame by (auto simp: only_file_def removed_files)
  qed
qed

lemma artifact_path_eq: "artifact_dir u @ ''/'' @ f = artifact_dir v @ ''/'' @ g \<longleftrightarrow> u = v \<and> f = g"
proof
  assume eq: "artifact_dir u @ ''/'' @ f = artifact_dir v @ ''/'' @ g"
  then have "u = v" using under_artifact_dir [of v v g] under_artifact_dir [of v u f] by metis
  with eq show "u = v \<and> f = g" by simp
qed simp

lemma cache_after_download:
  assumes ok: "cache_ok srv h w" and lu: "seen_updates w' = seen_updates w"
    and other: "\<forall>p. p \<noteq> artifact_dir u @ ''/'' @ file \<longrightarrow>
      map_of (hs_Files h') p = (if under (artifact_dir u) p then None else map_of (hs_Files h) p)"
  shows "map_of (hs_Files h') (artifact_dir u @ ''/'' @ file) = None \<Longrightarrow> cache_ok srv h' w'"
    and "map_of (hs_Files h') (artifact_dir u @ ''/'' @ file) = Some (srv u t file) \<Longrightarrow>
      cache_ok srv h' (w'\<lparr>wo_LastArtifactUpdates := gm_set u t (seen_updates w')\<rparr>)"
proof -
  have look: "v \<noteq> u \<and> map_of (hs_Files h) (artifact_dir v @ ''/'' @ f) = Some c \<or>
      v = u \<and> map_of (hs_Files h') (artifact_dir u @ ''/'' @ file) = Some c \<and> f = file"
    if "map_of (hs_Files h') (artifact_dir v @ ''/'' @ f) = Some c" for v f c
    using that other [rule_format, of "artifact_dir v @ ''/'' @ f"] artifact_path_eq [of v f u "file"] under_artifact_dir [of u v f]
    by (cases "v = u"; cases "f = file") auto
  show "cache_ok srv h' w'" if none: "map_of (hs_Files h') (artifact_dir u @ ''/'' @ file) = None"
    unfolding cache_ok_def
  proof (intro allI impI, elim conjE)
    fix v t f c assume t: "map_of (seen_updates w') v = Some t" and c: "map_of (hs_Files h') (artifact_dir v @ ''/'' @ f) = Some c"
    from look [OF c] none have "map_of (hs_Files h) (artifact_dir v @ ''/'' @ f) = Some c" by auto
    with t lu ok show "c = srv v t f" unfolding cache_ok_def by auto
  qed
  show "cache_ok srv h' (w'\<lparr>wo_LastArtifactUpdates := gm_set u t (seen_updates w')\<rparr>)"
    if new: "map_of (hs_Files h') (artifact_dir u @ ''/'' @ file) = Some (srv u t file)"
    unfolding cache_ok_def
  proof (intro allI impI, elim conjE)
    fix v t' f c assume t: "map_of (seen_updates (w'\<lparr>wo_LastArtifactUpdates := gm_set u t (seen_updates w')\<rparr>)) v = Some t'"
      and c: "map_of (hs_Files h') (artifact_dir v @ ''/'' @ f) = Some c"
    from look [OF c] show "c = srv v t' f"
    proof (elim disjE conjE)
      assume "v \<noteq> u" "map_of (hs_Files h) (artifact_dir v @ ''/'' @ f) = Some c"
      with t lu ok show ?thesis unfolding cache_ok_def by auto
    qed (use t new in auto)
  qed
qed


text \<open>Surroundings for the witnesses, in which nothing fails; the state outside is the VM's power state.\<close>

definition quiet_disks :: "string disk_env" where
  "quiet_disks =
     \<lparr>de_vm_reference = (\<lambda>_. ret sample_vm_ref), de_create_snapshot = (\<lambda>_ _. ret ''task''), de_wait_task = (\<lambda>_. ret ''snapshot-1''),
      de_snapshot_disks = (\<lambda>_. ret []), de_remove_snapshot = (\<lambda>_ _. ret ''task''), de_nbdkit_start = (\<lambda>_ _ _ _. ret ''sock''),
      de_nbdkit_stop = (\<lambda>_. ret ()), de_devices = ret [], de_disk_ids = ret [], de_io = (\<lambda>_. ret ()),
      de_query = (\<lambda>_ _ _ start _. ret \<lparr>cg_Start = start, cg_Length = 1, cg_Areas = []\<rparr>), de_nbd_connect = (\<lambda>_. ret ()),
      de_pread = (\<lambda>_ l off. ret []), de_nbdcopy = (\<lambda>_ c e. ((Inr (), c), e)), de_status = (\<lambda>_ _. ret ())\<rparr>"

definition sample_worker_env :: "string worker_env" where
  "sample_worker_env =
     \<lparr>wv_disk = quiet_disks, wv_vsphere = sample_vsphere, wv_system_cas = [], wv_config = (\<lambda>_. ret ''https://daemon''),
      wv_new_request = (\<lambda>_. None), wv_certs = (\<lambda>_. ret [''cert'']), wv_cert_print = (\<lambda>_. Inr ''ab''),
      wv_exchange = (\<lambda>rq. ret \<lparr>rp_Status = 200, rp_Body = (if u_Path (rq_URL rq) = ''/1.0/artifacts'' then ''list'' else ''content''),
        rp_Cut = None\<rparr>),
      wv_decode = (\<lambda>s. Inr (\<lparr>re_Code = 0, re_Error = '''', re_Metadata = s\<rparr>, '''')), wv_command_dec = (\<lambda>_. Inr sample_command),
      wv_instance_dec = (\<lambda>_. Inr (instance_to_api plain_ext sample_inst)),
      wv_artifacts_dec = (\<lambda>_. Inr [artifact_to_api (sample_sdk\<lparr>af_LastUpdated := 5\<rparr>)]),
      wv_source_dec = (\<lambda>_. Inr \<lparr>as_Name = ''src'', as_Properties = '''', as_SourceType = SOURCETYPE_VMWARE\<rparr>),
      wv_response_enc = (\<lambda>r. Inr (wr_StatusMessage r)), wv_now = (\<lambda>_. 1000), wv_sleep = (\<lambda>_ e. (True, e)),
      wv_unpack = (\<lambda>_. ret [(''lib'', ''code'')]), wv_sync = ret (), wv_inject_drivers = (\<lambda>_ _ _ _. ret ()),
      wv_fortigate_version = ret ''7.4'', wv_fortigate_boot = (\<lambda>_ _. ret ()), wv_linux_config = (\<lambda>_ _ _ _. ret ())\<rparr>"

definition sample_worker :: worker where
  "sample_worker = \<lparr>wo_Endpoint = \<lparr>u_Scheme = ''https'', u_Host = ''daemon'', u_User = False, u_RawQuery = '''', u_Fragment = '''',
       u_Path = ''''\<rparr>, wo_TrustedFingerprint = ''AB'', wo_Source = None, wo_UUID = ''uuid'', wo_Token = ''token'',
     wo_LastUpdate = 0, wo_IdleSleep = 10 * second, wo_LastArtifactUpdates = [], wo_LogFile = ''/log''\<rparr>"

definition empty_host :: host where
  "empty_host = \<lparr>hs_Devices = [], hs_Files = []\<rparr>"

lemma lower_sample: "to_lower ''AB'' = ''ab''"
  by code_simp

lemma sample_peer: "verify_peer sample_worker_env ''AB'' [''cert''] = None"
  by (simp add: verify_peer_def sample_worker_env_def lower_sample)

lemma sample_peer_broken: "verify_peer (sample_worker_env\<lparr>wv_unpack := m\<rparr>) ''AB'' [''cert''] = None"
  using sample_peer by (simp add: verify_peer_def)

lemma sample_serves: "serves_listed sample_worker_env (\<lambda>_ _. 5) (\<lambda>_ _ _. ''content'')"
  unfolding serves_listed_def
  by (auto simp: sample_worker_env_def quiet_disks_def run_simps list_artifacts_def artifact_to_api_def do_http_def
      send_request_def split: prod.splits sum.splits if_splits option.splits)

lemmas fetch_simps = get_artifact_def list_artifacts_def do_http_def make_request_def send_request_def run_simps sample_worker_env_def
        quiet_disks_def sample_worker_def empty_host_def artifact_to_api_def sample_sdk_def match_artifact_def match_source_artifact_def
        sample_command_def default_artifact_file_def Let_def file_io_def download_artifact_def remove_all_def undoing_def
        write_file_def do_http_writer_def worker_query_def


section \<open>Who is talked to\<close>



section \<open>Second attempts\<close>

text \<open>A report changes nothing of the worker but the URL of its last request, and nothing of its machine.\<close>

lemma report_frame:
  assumes "send_response en r (w, e) = (r1, (w', e'))"
  shows "r1 = Inr () \<and> (\<exists>u. w' = w\<lparr>wo_Endpoint := u\<rparr>)"
proof -
  have "\<exists>u. w1 = w\<lparr>wo_Endpoint := u\<rparr>" if "do_http en p m q c (w, e) = (r2, (w1, e1))" for p m q c r2 w1 e1
    using that
    by (auto simp: do_http_def make_request_def send_request_def run_simps
        split: prod.splits sum.splits option.splits if_splits intro: exI [of _ "wo_Endpoint w1"])
  note http = this
  show ?thesis
  proof (cases "wv_response_enc en r")
    case (Inl er)
    with assms have "r1 = Inr () \<and> w' = w\<lparr>wo_Endpoint := wo_Endpoint w\<rparr>" by (simp add: send_response_def run_simps)
    then show ?thesis by blast
  next
    case (Inr c)
    obtain r2 w2 e2 where h: "do_http en (''/internal/worker/'' @ wo_UUID w @ ''/:update'') ''POST'' (''secret='' @ wo_Token w) c (w, e) = (r2, (w2, e2))"
      by (metis prod.exhaust)
    with assms Inr have "r1 = Inr () \<and> w' = w2" by (simp add: send_response_def run_simps)
    with http [OF h] show ?thesis by simp
  qed
qed

lemma send_error_frame:
  assumes "send_error en er (h, (w, e)) = (r, (h', (w', e')))"
  shows "r = Inr () \<and> h' = h \<and> (\<exists>u. w' = w\<lparr>wo_Endpoint := u\<rparr>)"
proof -
  obtain r1 e1 where io: "de_io (wv_disk en) (wo_LogFile w) e = (r1, e1)" by (metis prod.exhaust)
  obtain m where "send_error en er (h, (w, e)) = beyond (send_response en m) (h, (w, e1))"
    using io by (cases r1) (auto simp: send_error_def file_io_def run_simps)
  with assms report_frame [of en m w e1] show ?thesis by (auto simp: beyond_run split: prod.splits)
qed

lemma new_source_unconnected: "new_vm_source x cas src = Inr v \<Longrightarrow> \<not> vw_Connected v"
  by (auto simp: new_vm_source_def new_vmware_source_def bind_sum_ok Let_def split: source_type.splits if_splits)



lemma ensure_source_False:
  assumes "ensure_source x en cmd s = (Inr False, t)"
  shows "\<exists>er s1. send_error en er s1 = (Inr (), t)"
proof -
  obtain h w e where s: "s = (h, (w, e))" by (metis prod.exhaust)
  obtain r s1 where c: "connect_source x en (ac_SourceType cmd) (ac_Source cmd) (w, e) = (r, s1)" by (metis prod.exhaust)
  from assms s c have "wo_Source w = None" "\<exists>er. r = Inl er \<and> send_error en er (h, s1) = (Inr (), t)"
    by (auto simp: ensure_source_def run_simps split: if_splits sum.splits prod.splits)
  then show ?thesis by blast
qed

text \<open>What a worker's import means: it always ends in a report, and reports success only then.\<close>

lemma reporting_cases:
  assumes "reporting en msg m s = Some (r, t)"
  shows "(\<exists>er s'. m s = Some (Inl er, s') \<and> (r, t) = send_error en er s') \<or>
    (\<exists>s'. m s = Some (Inr (), s') \<and> (r, t) = beyond (send_status en WORKERRESPONSE_SUCCESS msg) s')"
  using assms by (auto simp: reporting_def split: option.splits sum.splits)

lemma obind_Some: "obind m f s = Some (Inr b, t) \<longleftrightarrow> (\<exists>a u. m s = Some (Inr a, u) \<and> f a u = Some (Inr b, t))"
  by (auto simp: obind_def split: option.splits sum.splits)

lemma always_Some: "always m s = Some (r, t) \<longleftrightarrow> m s = (r, t)"
  by (simp add: always_def)

lemmas obind_ok = obind_Some always_Some


definition no_disks_env :: "string worker_env" where
  "no_disks_env = sample_worker_env\<lparr>wv_instance_dec := (\<lambda>_. Inr (instance_to_api plain_ext
     (sample_inst\<lparr>i_Properties := (i_Properties sample_inst)\<lparr>ip_Disks := []\<rparr>\<rparr>)))\<rparr>"

lemma sample_import_runs:
  "map_option fst (worker_import plain_ext no_disks_env (sample_command\<lparr>ac_Command := WORKERCOMMAND_FINALIZE_IMPORT\<rparr>)
     (empty_host, (sample_worker\<lparr>wo_Source := Some sample_vw\<rparr>, ''poweredOn''))) = Some (Inr ())"
  by code_simp


section \<open>The SDK\<close>

lemma writer_leaves_file:
  assumes "do_http_writer en path meth query p (h, (w, e)) = (Inr (), (h', (w', e')))"
  shows "map_of (hs_Files h') p \<noteq> None"
  using assms
  by (auto simp: do_http_writer_def write_file_def ok_simps beyond_run file_io_def own_def run_simps split: prod.splits sum.splits)

lemma undoing_ok: "undoing undo m s = (Inr a, t) \<longleftrightarrow> m s = (Inr a, t)"
  by (auto simp: undoing_def bindm_run attempt_run throw_run ret_run split: prod.splits sum.splits)

lemma download_writes:
  assumes "download_artifact en a f s = (Inr (), (h', (w', e')))"
  shows "map_of (hs_Files h') (artifact_dir (aa_UUID a) @ ''/'' @ f) \<noteq> None"
proof -
  from assms obtain q s1 where "do_http_writer en (''/1.0/artifacts/'' @ uuid_string (aa_UUID a) @ ''/files/'' @ f) ''GET'' q
      (artifact_dir (aa_UUID a) @ ''/'' @ f) s1 = (Inr (), (h', (w', e')))"
    by (auto simp: download_artifact_def Let_def undoing_ok ok_simps throw_run split: if_splits)
  moreover obtain h1 w1 e1 where "s1 = (h1, (w1, e1))" by (metis prod.exhaust)
  ultimately have "do_http_writer en (''/1.0/artifacts/'' @ uuid_string (aa_UUID a) @ ''/files/'' @ f) ''GET'' q
      (artifact_dir (aa_UUID a) @ ''/'' @ f) (h1, (w1, e1)) = (Inr (), (h', (w', e')))" by simp
  from writer_leaves_file [OF this] show ?thesis .
qed

text \<open>After an artifact was handed out, its file is there and its update remembered.\<close>

lemma get_artifact_leaves:
  assumes run: "get_artifact x en ty cmd v (h, (w, e)) = (Inr (path, new), (h', (w', e')))"
    and li: "list_artifacts en (w, e) = (Inr as, s)"
  shows "\<exists>a f. match_artifact x ty as cmd v = Inr a \<and> default_artifact_file (x_os_text x) (aa_Type a) (aa_Put a) = Inr f \<and>
    path = artifact_dir (aa_UUID a) @ ''/'' @ f \<and> map_of (hs_Files h') path \<noteq> None \<and>
    gm_get 0 (seen_updates w') (aa_UUID a) = aa_LastUpdated a"
proof -
  obtain w1 e1 where s: "s = (w1, e1)" by (cases s)
  from run li s obtain a f where m: "match_artifact x ty as cmd v = Inr a"
    "default_artifact_file (x_os_text x) (aa_Type a) (aa_Put a) = Inr f"
    by (auto simp: get_artifact_def run_simps split: sum.splits)
  let ?p = "artifact_dir (aa_UUID a) @ ''/'' @ f"
  obtain r2 h2 w2 e2 where io: "file_io en ?p (h, (w1, e1)) = (r2, (h2, (w2, e2)))" by (metis prod.exhaust)
  have io2: "h2 = h" "w2 = w1" using io by (auto simp: file_io_def own_run split: prod.splits)
  obtain z where r2: "r2 = Inr z" using run li s m io by (cases r2) (auto simp: get_artifact_def Let_def run_simps)
  let ?new = "map_of (hs_Files h) ?p = None \<or> aa_LastUpdated a \<noteq> gm_get 0 (seen_updates w1) (aa_UUID a)"
  obtain r3 h3 w3 e3 where dl: "(if ?new then download_artifact en a f else ret ()) (h, (w1, e2)) = (r3, (h3, (w3, e3)))"
    by (metis prod.exhaust)
  have res: "r3 = Inr () \<and> path = ?p \<and> h' = h3 \<and> w' = w3\<lparr>wo_LastArtifactUpdates := gm_set (aa_UUID a) (aa_LastUpdated a) (seen_updates w3)\<rparr>"
    using run li s m io io2 r2 dl by (cases r3; cases "map_of (hs_Files h) ?p") (simp_all add: get_artifact_def Let_def run_simps)
  have "map_of (hs_Files h3) ?p \<noteq> None"
  proof (cases ?new)
    case True
    with dl res have "download_artifact en a f (h, (w1, e2)) = (Inr (), (h3, (w3, e3)))" by simp
    from download_writes [OF this] show ?thesis by blast
  next
    case False
    with dl have "h3 = h" unfolding if_not_P [OF False] ret_run by simp
    with False show ?thesis by simp
  qed
  with m res show ?thesis by (intro exI [of _ a] exI [of _ f]) simp
qed

lemma uuid_string_head: "hd (uuid_string u) \<noteq> CHR ''v''"
proof -
  have "hex_char d \<noteq> CHR ''v''" if "d < 16" for d
  proof
    assume "hex_char d = CHR ''v''"
    then have "of_char (hex_char d) = (118 :: nat)" by simp
    with that show False by (auto simp: hex_char_def split: if_splits)
  qed
  then show ?thesis by (simp add: uuid_string_def uuid_hex_def upt_rec)
qed

lemma sdk_dir_apart: "\<not> under sdk_dir (artifact_dir u @ ''/'' @ f)"
proof
  assume "under sdk_dir (artifact_dir u @ ''/'' @ f)"
  then have "prefix ''/tmp/v'' (artifact_dir u @ ''/'' @ f)"
    by (auto simp: under_def has_prefix_def sdk_dir_def intro: append_prefixD prefix_order.trans)
  then show False using uuid_string_head [of u] by (cases "uuid_string u") (auto simp: artifact_dir_def)
qed

lemma remove_all_io:
  assumes "\<And>p e. \<exists>e'. de_io (wv_disk en) p e = (Inr (), e')"
  shows "\<exists>e'. remove_all en dir (h, (w, e)) = (Inr (), (removed dir h, (w, e')))"
proof -
  obtain e' where "de_io (wv_disk en) dir e = (Inr (), e')" using assms by blast
  then show ?thesis by (simp add: remove_all_def file_io_def run_simps removed_def)
qed



end
