(* ===== verification/Access.thy ===== *)
theory Access
  imports Task_Facts
begin

text \<open>
  Who may do what over the HTTP API: authentication and the endpoints' common handler
  (\<^verbatim>\<open>cmd/migration-managerd/internal/api\<close>: \<^verbatim>\<open>authenticate.go\<close>, \<^verbatim>\<open>createCmd\<close> of \<^verbatim>\<open>daemon.go\<close>), trusted
  certificates (\<^verbatim>\<open>internal/server/util/tls.go\<close>, \<^verbatim>\<open>shared/api/system.go\<close>), the authorizers
  (\<^verbatim>\<open>internal/server/auth\<close>) and the codes of errors (\<^verbatim>\<open>internal/server/response/smart.go\<close>).
\<close>

section \<open>Trusted certificates\<close>

definition canonical_fingerprint :: "string \<Rightarrow> string" where
  "canonical_fingerprint s = to_lower (filter (\<lambda>c. c \<noteq> CHR '':'') s)"

text \<open>Configured fingerprints and those of configured certificates (\<open>None\<close>: an empty one).\<close>

fun add_fingerprints :: "string list \<Rightarrow> string list \<Rightarrow> err + string list" where
  "add_fingerprints seen [] = Inr seen"
| "add_fingerprints seen (f # fs) =
     (if canonical_fingerprint f \<in> set seen
      then Inl (Errorf ''Duplicate trusted TLS client certificate fingerprint %q'' [AStr f])
      else add_fingerprints (seen @ [canonical_fingerprint f]) fs)"

fun add_certificates :: "nat \<Rightarrow> string list \<Rightarrow> string option list \<Rightarrow> err + string list" where
  "add_certificates n seen [] = Inr seen"
| "add_certificates n seen (None # cs) =
     Inl (Errorf ''Trusted TLS client certificate at index %d is empty'' [AInt (int n)])"
| "add_certificates n seen (Some f # cs) =
     bind_sum (add_fingerprints seen [f]) (\<lambda>seen'. add_certificates (Suc n) seen' cs)"

definition trusted_tls_fingerprints :: "string list \<Rightarrow> string option list \<Rightarrow> err + string list" where
  "trusted_tls_fingerprints configured certs =
     bind_sum (add_fingerprints [] configured) (\<lambda>seen. add_certificates 0 seen certs)"

record security =
  sy_ClientFingerprints :: "string list"
  sy_ClientCertificates :: "string option list"
  sy_MetricsFingerprints :: "string list"
  sy_MetricsCertificates :: "string option list"

definition client_fingerprints :: "security \<Rightarrow> err + string list" where
  "client_fingerprints s = trusted_tls_fingerprints (sy_ClientFingerprints s) (sy_ClientCertificates s)"

definition metrics_fingerprints :: "security \<Rightarrow> err + string list" where
  "metrics_fingerprints s = trusted_tls_fingerprints (sy_MetricsFingerprints s) (sy_MetricsCertificates s)"

text \<open>\<open>Daemon.TrustedFingerprints\<close>: an error means that no certificate is trusted.\<close>

definition trusted_fingerprints :: "security \<Rightarrow> string list" where
  "trusted_fingerprints s =
     (case client_fingerprints s of Inl e \<Rightarrow> [] | Inr cs \<Rightarrow>
       (case metrics_fingerprints s of Inl e \<Rightarrow> [] | Inr ms \<Rightarrow> cs @ ms))"

record peer_cert =
  pc_NotBefore :: time
  pc_NotAfter :: time
  pc_Fingerprint :: string

definition check_trust_state :: "ext \<Rightarrow> peer_cert \<Rightarrow> string list \<Rightarrow> bool \<times> string" where
  "check_trust_state x c fps =
     (if time_before (x_now x) (pc_NotBefore c) \<or> time_after (x_now x) (pc_NotAfter c) then (False, [])
      else (case find (\<lambda>f. pc_Fingerprint c = canonical_fingerprint f) fps of
          None \<Rightarrow> (False, []) | Some f \<Rightarrow> (True, canonical_fingerprint f)))"

section \<open>Requests and their authentication\<close>

text \<open>
  A request as the router hands it over. \<open>hr_Form\<close>: the parsed parameters (query and form), or the
  error of parsing them; \<open>hr_TLS\<close>: \<open>None\<close> without TLS, else the certificates of the client.
\<close>

record http_req =
  hr_Method :: string
  hr_Path :: string
  hr_Form :: "err + (string \<Rightarrow> string)"
  hr_RemoteAddr :: string
  hr_TLS :: "peer_cert option list option"
  hr_Body :: string

record auth_response =
  au_username :: string
  au_protocol :: string
  au_verifier :: bool

definition unix_auth :: auth_response where
  "unix_auth = \<lparr>au_username = [], au_protocol = ''unix'', au_verifier = False\<rparr>"

definition worker_auth :: auth_response where
  "worker_auth = \<lparr>au_username = ''migration-manager-worker'', au_protocol = ''tls'', au_verifier = False\<rparr>"

definition oidc_auth :: "string \<Rightarrow> auth_response" where
  "oidc_auth user = \<lparr>au_username = user, au_protocol = ''oidc'', au_verifier = True\<rparr>"

definition tls_auth :: "string \<Rightarrow> auth_response" where
  "tls_auth user = \<lparr>au_username = user, au_protocol = ''tls'', au_verifier = False\<rparr>"

text \<open>
  The daemon's settings. \<open>ad_Oidc\<close>: whether a request carries OIDC credentials, and who they are;
  the OIDC library is a parameter. \<open>fg_check\<close>: OpenFGA's answer for a user, a relation and an object.
\<close>

record tls_authorizer =
  ta_certificateFingerprints :: "string list"
  ta_metricsCertificateFingerprints :: "string list"

record fga_authorizer =
  fg_tls :: tls_authorizer
  fg_online :: bool
  fg_check :: "string \<Rightarrow> string \<Rightarrow> string \<Rightarrow> err + bool"

datatype authorizer = TLSDriver tls_authorizer | FGADriver fga_authorizer

record access_daemon =
  ad_Oidc :: "((http_req \<Rightarrow> bool) \<times> (http_req \<Rightarrow> err + string)) option"
  ad_Security :: security
  ad_Authorizer :: authorizer
  ad_Shutdown :: bool

type_synonym authenticator = "http_req \<Rightarrow> auth_response wm"

definition unix_authenticate :: authenticator where
  "unix_authenticate r =
     (if hr_RemoteAddr r = ''@'' \<and> hr_TLS r = None then ret unix_auth
      else throw (Errorf ''Request from %q is not a unix socket request'' [AStr (hr_RemoteAddr r)]))"

definition cert_authenticate :: "ext \<Rightarrow> access_daemon \<Rightarrow> peer_cert option list \<Rightarrow> auth_response wm" where
  "cert_authenticate x d certs =
     (case certs of
        Some c # _ \<Rightarrow>
          (case check_trust_state x c (trusted_fingerprints (ad_Security d)) of
             (True, user) \<Rightarrow> ret (tls_auth user)
           | (False, _) \<Rightarrow> throw (Errorf ''Failed to authenticate request'' []))
      | _ \<Rightarrow> throw (Errorf ''Failed to authenticate request'' []))"

definition default_authenticate :: "ext \<Rightarrow> access_daemon \<Rightarrow> authenticator" where
  "default_authenticate x d r =
     bindm (attempt (unix_authenticate r)) (\<lambda>u. case u of
       Inr a \<Rightarrow> ret a
     | Inl _ \<Rightarrow>
        (case hr_TLS r of
           None \<Rightarrow> throw (Errorf ''Bad/missing TLS on network query'' [])
         | Some certs \<Rightarrow>
            (case ad_Oidc d of
               Some (is_request, auth) \<Rightarrow>
                 if is_request r then bindm (lift (auth r)) (\<lambda>user. ret (oidc_auth user))
                 else cert_authenticate x d certs
             | None \<Rightarrow> cert_authenticate x d certs)))"

section \<open>The workers' tokens\<close>

text \<open>\<^verbatim>\<open>/internal/worker/{uuid}/{action}\<close>; only when all three names are wrong is the path refused.\<close>

definition uuid_from_url :: "ext \<Rightarrow> http_req \<Rightarrow> err + uuid" where
  "uuid_from_url x r =
     (if hr_Method r \<noteq> ''POST''
      then Inl (Errorf ''Expected method %q, but received method %q'' [AStr ''POST'', AStr (hr_Method r)])
      else let parts = str_split (CHR ''/'') (hr_Path r) in
        if length parts \<noteq> 5 then Inl (Errorf ''Invalid request URL path: %q'' [AStr (hr_Path r)])
        else if parts ! 1 \<noteq> ''internal'' \<and> parts ! 2 \<noteq> ''worker'' \<and> parts ! 4 \<notin> set ['':command'', '':update'']
          then Inl (Errorf ''Request to API path %q is not valid'' [AStr (hr_Path r)])
        else (case x_uuid_parse x (parts ! 3) of
            None \<Rightarrow> Inl (Errorf ''Invalid UUID in request URL %q: %w'' [AStr (hr_Path r), AWrap (ExternalErr ''invalid UUID'')])
          | Some u \<Rightarrow> Inr u))"

definition token_instance :: "ext \<Rightarrow> http_req \<Rightarrow> (string \<Rightarrow> string) \<Rightarrow> err + uuid" where
  "token_instance x r form =
     (if form ''instance'' \<noteq> []
      then (case x_uuid_parse x (form ''instance'') of
          None \<Rightarrow> Inl (Errorf ''Failed to parse instance UUID from query parameter %q: %w''
                    [AStr (form ''instance''), AWrap (ExternalErr ''invalid UUID'')])
        | Some u \<Rightarrow> Inr u)
      else map_sum (\<lambda>e. Errorf (''Missing required '' @ squote @ ''instance'' @ squote @ '' query parameter: %w'') [AWrap e]) id
             (uuid_from_url x r))"

definition check_queue_token :: "ext \<Rightarrow> http_req \<Rightarrow> unit wm" where
  "check_queue_token x r =
     bindm (wrap_err (\<lambda>e. Errorf ''Failed to parse required query parameters: %w'' [AWrap e]) (lift (hr_Form r))) (\<lambda>form.
     bindm (lift (case x_uuid_parse x (form ''secret'') of
         None \<Rightarrow> Inl (Errorf (''Failed to parse required '' @ squote @ ''secret'' @ squote @ '' query paremeter: %w'')
                   [AWrap (ExternalErr ''invalid UUID'')])
       | Some s \<Rightarrow> Inr s)) (\<lambda>secret.
     bindm (lift (token_instance x r form)) (\<lambda>u.
     bindm (wrap_err (\<lambda>e. Errorf ''Failed to find queue entry for instance UUID %q: %w'' [AStr (form ''instance''), AWrap e]) (queue_get u)) (\<lambda>q.
     fail_if (secret \<noteq> q_SecretToken q) (Errorf ''Unknown access token %q'' [AUuid secret])))))"

definition token_authenticate :: "ext \<Rightarrow> access_daemon \<Rightarrow> authenticator" where
  "token_authenticate x d r =
     bindm (attempt (default_authenticate x d r)) (\<lambda>a. case a of
       Inr resp \<Rightarrow> ret resp
     | Inl _ \<Rightarrow> andthen (check_queue_token x r) (ret worker_auth))"

section \<open>Permissions\<close>

text \<open>\<open>None\<close>: the request carries no user, as it was not authenticated.\<close>

definition request_details :: "auth_response option \<Rightarrow> err + auth_response" where
  "request_details a = (case a of None \<Rightarrow> Inl (Errorf ''Username not present in request context'' []) | Some u \<Rightarrow> Inr u)"

definition no_details :: "err \<Rightarrow> err" where
  "no_details e = StatusErr 403 ''Failed to extract request details: %v'' [AErr e]"

definition tls_check_permission :: "tls_authorizer \<Rightarrow> auth_response option \<Rightarrow> string \<Rightarrow> err option" where
  "tls_check_permission t a entitlement =
     (case request_details a of
        Inl e \<Rightarrow> Some (no_details e)
      | Inr u \<Rightarrow>
          if au_protocol u = ''unix'' then None
          else if au_protocol u \<noteq> ''tls'' then None
          else if au_username u = ''migration-manager-worker'' then None
          else if \<exists>f \<in> set (ta_metricsCertificateFingerprints t). canonical_fingerprint f = au_username u
            then (if entitlement = ''can_view_metrics'' then None
                  else Some (StatusErr 403 ''Client certificate is restricted to metrics access'' []))
          else if \<exists>f \<in> set (ta_certificateFingerprints t). canonical_fingerprint f = au_username u then None
          else Some (StatusErr 403 ''Client certificate not found'' []))"

text \<open>Objects of OpenFGA; of the types used here, each has one element.\<close>

definition escape_object :: "string \<Rightarrow> string" where
  "escape_object s = concat (map (\<lambda>c. if c = CHR ''/'' then ''%2F'' else [c]) s)"

definition object_user :: "string \<Rightarrow> string" where
  "object_user name = ''user:'' @ escape_object name"

definition object_server :: string where
  "object_server = ''server:'' @ escape_object ''migration-manager''"

definition fga_check_permission :: "fga_authorizer \<Rightarrow> auth_response option \<Rightarrow> string \<Rightarrow> string \<Rightarrow> err option" where
  "fga_check_permission f a object entitlement =
     (case request_details a of
        Inl e \<Rightarrow> Some (no_details e)
      | Inr u \<Rightarrow>
          if au_protocol u = ''unix'' then None
          else if au_protocol u = ''tls'' then tls_check_permission (fg_tls f) a entitlement
          else if \<not> fg_online f
            then Some (StatusErr 403 ''The authorization server is currently offline, please try again later'' [])
          else (case fg_check f (object_user (au_username u))
                    (if entitlement = ''can_view_metrics'' then ''can_view'' else entitlement) object of
              Inl e \<Rightarrow> Some (Errorf ''Failed to check OpenFGA relation: %w'' [AWrap e])
            | Inr False \<Rightarrow> Some (StatusErr 403 ''User does not have entitlement %q on object %q'' [AStr entitlement, AStr object])
            | Inr True \<Rightarrow> None))"

fun check_permission :: "authorizer \<Rightarrow> auth_response option \<Rightarrow> string \<Rightarrow> string \<Rightarrow> err option" where
  "check_permission (TLSDriver t) a object entitlement = tls_check_permission t a entitlement"
| "check_permission (FGADriver f) a object entitlement = fga_check_permission f a object entitlement"

text \<open>The authorizer that the settings load: the fingerprints of clients and of metrics clients.\<close>

definition load_tls :: "security \<Rightarrow> err + tls_authorizer" where
  "load_tls s = bind_sum (client_fingerprints s) (\<lambda>cs. bind_sum (metrics_fingerprints s) (\<lambda>ms.
     Inr \<lparr>ta_certificateFingerprints = cs, ta_metricsCertificateFingerprints = ms\<rparr>))"

section \<open>Errors as replies\<close>

fun err_validation :: "err \<Rightarrow> bool" and arg_validation :: "arg \<Rightarrow> bool" where
  "err_validation (ErrValidation f as) = True"
| "err_validation (Errorf f as) = (\<exists>a \<in> set as. arg_validation a)"
| "err_validation (ErrDisabled r f as) = (\<exists>a \<in> set as. arg_validation a)"
| "err_validation (Sentinel s) = False"
| "err_validation (StatusErr n f as) = False"
| "err_validation (ExternalErr t) = False"
| "arg_validation (AWrap e) = err_validation e"
| "arg_validation (AStr s) = False"
| "arg_validation (AInt i) = False"
| "arg_validation (AUuid u) = False"
| "arg_validation (AErr e) = False"

fun first_some :: "'a option list \<Rightarrow> 'a option" where
  "first_some [] = None"
| "first_some (None # xs) = first_some xs"
| "first_some (Some a # xs) = Some a"

lemma first_some_cong [fundef_cong]: "xs = ys \<Longrightarrow> (\<And>x. x \<in> set ys \<Longrightarrow> f x = g x) \<Longrightarrow> first_some (map f xs) = first_some (map g ys)"
  by (metis map_cong)

fun first_status :: "err \<Rightarrow> nat option" and arg_first_status :: "arg \<Rightarrow> nat option" where
  "first_status (StatusErr n f as) = Some n"
| "first_status (Errorf f as) = first_some (map arg_first_status as)"
| "first_status (ErrDisabled r f as) = first_some (map arg_first_status as)"
| "first_status (Sentinel s) = None"
| "first_status (ErrValidation f as) = None"
| "first_status (ExternalErr t) = None"
| "arg_first_status (AWrap e) = first_status e"
| "arg_first_status (AStr s) = None"
| "arg_first_status (AInt i) = None"
| "arg_first_status (AUuid u) = None"
| "arg_first_status (AErr e) = None"

text \<open>\<open>SmartError\<close>; \<open>sys\<close>: the status for errors of files and of the database driver.\<close>

definition smart_status :: "(err \<Rightarrow> nat option) \<Rightarrow> err \<Rightarrow> nat" where
  "smart_status sys e =
     (if err_validation e then 400
      else if err_is ErrConstraintViolation e \<or> err_is ErrNotFound e \<or> err_is ErrOperationNotPermitted e then 400
      else (case first_status e of Some n \<Rightarrow> n
        | None \<Rightarrow> (case sys e of Some n \<Rightarrow> n | None \<Rightarrow> 500)))"

datatype 'a http_reply = ErrorReply nat err | Answer 'a

definition reply_of :: "(err \<Rightarrow> nat option) \<Rightarrow> err + 'a \<Rightarrow> 'a http_reply" where
  "reply_of sys r = (case r of Inl e \<Rightarrow> ErrorReply (smart_status sys e) e | Inr a \<Rightarrow> Answer a)"

section \<open>Endpoints\<close>

text \<open>
  An action of an endpoint. A missing handler, access handler or authenticator is \<open>None\<close>; an access
  handler asks for an entitlement on an object of a type.
\<close>

record ('e, 'a) api_action =
  ac_Handler :: "(http_req \<Rightarrow> ('e, 'a) task) option"
  ac_Access :: "(string \<times> string) option"
  ac_Authenticator :: "(ext \<Rightarrow> access_daemon \<Rightarrow> authenticator) option"
  ac_AllowUntrusted :: bool

record ('e, 'a) api_endpoint =
  ep_Path :: string
  ep_Get :: "('e, 'a) api_action"
  ep_Head :: "('e, 'a) api_action"
  ep_Put :: "('e, 'a) api_action"
  ep_Post :: "('e, 'a) api_action"
  ep_Delete :: "('e, 'a) api_action"
  ep_Patch :: "('e, 'a) api_action"

definition no_action :: "('e, 'a) api_action" where
  "no_action = \<lparr>ac_Handler = None, ac_Access = None, ac_Authenticator = None, ac_AllowUntrusted = False\<rparr>"

definition endpoint_action :: "('e, 'a) api_endpoint \<Rightarrow> string \<Rightarrow> err + ('e, 'a) api_action" where
  "endpoint_action ep m =
     (if m = ''GET'' then Inr (ep_Get ep) else if m = ''HEAD'' then Inr (ep_Head ep)
      else if m = ''PUT'' then Inr (ep_Put ep) else if m = ''POST'' then Inr (ep_Post ep)
      else if m = ''DELETE'' then Inr (ep_Delete ep) else if m = ''PATCH'' then Inr (ep_Patch ep)
      else Inl (Errorf ''Unknown request method %q'' [AStr m]))"

definition allow_permission :: "access_daemon \<Rightarrow> string \<times> string \<Rightarrow> auth_response option \<Rightarrow> (nat \<times> err) option" where
  "allow_permission d req a =
     (let (objectType, entitlement) = req in
      if objectType \<noteq> ''server'' then Some (500, Errorf ''Unsupported object: %s'' [AStr objectType])
      else map_option (\<lambda>e. (smart_status (\<lambda>_. None) e, e)) (check_permission (ad_Authorizer d) a object_server entitlement))"

definition shutdown_allowed :: "string \<Rightarrow> ('e, 'a) api_endpoint \<Rightarrow> http_req \<Rightarrow> bool" where
  "shutdown_allowed version ep r \<longleftrightarrow> version = ''internal'' \<or> ep_Path ep = [] \<or> hr_Method r = ''GET''"

definition handle_request ::
    "access_daemon \<Rightarrow> (err \<Rightarrow> nat option) \<Rightarrow> ('e, 'a) api_action \<Rightarrow> auth_response option \<Rightarrow> http_req \<Rightarrow> ('e, 'a http_reply) task" where
  "handle_request d sys act a r =
     (case ac_Handler act of
        None \<Rightarrow> ret (ErrorReply 501 (ExternalErr ''Not Implemented''))
      | Some h \<Rightarrow>
          if ac_Access act = None \<and> \<not> ac_AllowUntrusted act
          then ret (ErrorReply 500 (Errorf ''Access handler not defined for %s %s'' [AStr (hr_Method r), AStr (hr_Path r)]))
          else (case Option.bind (ac_Access act) (\<lambda>req. allow_permission d req a) of
              Some (n, e) \<Rightarrow> ret (ErrorReply n e)
            | None \<Rightarrow> bindm (attempt (h r)) (\<lambda>res. ret (reply_of sys res))))"

definition serve ::
    "ext \<Rightarrow> access_daemon \<Rightarrow> (err \<Rightarrow> nat option) \<Rightarrow> string \<Rightarrow> ('e, 'a) api_endpoint \<Rightarrow> http_req \<Rightarrow> ('e, 'a http_reply) task" where
  "serve x d sys version ep r =
     (case endpoint_action ep (hr_Method r) of
        Inl e \<Rightarrow> ret (ErrorReply 404 e)
      | Inr act \<Rightarrow>
          bindm (attempt (inw ((case ac_Authenticator act of None \<Rightarrow> default_authenticate x d | Some f \<Rightarrow> f x d) r))) (\<lambda>auth.
            case auth of
              Inl e \<Rightarrow>
                if \<not> ac_AllowUntrusted act then ret (ErrorReply 401 e)
                else if ad_Shutdown d \<and> \<not> shutdown_allowed version ep r then ret (ErrorReply 503 (Errorf ''Shutting down'' []))
                else handle_request d sys act None r
            | Inr a \<Rightarrow>
                if ad_Shutdown d \<and> \<not> shutdown_allowed version ep r then ret (ErrorReply 503 (Errorf ''Shutting down'' []))
                else handle_request d sys act (Some a) r))"

end
