(* ===== verification/Worker_Api.thy ===== *)
theory Worker_Api
  imports Task_Facts Worker Accounting
begin

text \<open>
  The daemon's side of the worker (\<^verbatim>\<open>cmd/migration-managerd/internal/api/api_worker.go\<close>): the handlers
  that give a worker its next command and take its reports, and that they move the queue only along
  the abstract machine of \<open>Lifecycle\<close>, whatever they reply.
\<close>

section \<open>Commands\<close>

definition bad_request :: err where
  "bad_request = StatusErr 400 ''Bad Request'' []"

definition request_uuid :: "ext \<Rightarrow> string \<Rightarrow> err + uuid" where
  "request_uuid x s = (case x_uuid_parse x s of None \<Rightarrow> Inl bad_request | Some u \<Rightarrow> Inr u)"

text \<open>What the life-cycle event needs is read; the event itself is left out.\<close>

definition window_for_event :: "ext \<Rightarrow> queue_entry \<Rightarrow> unit wm" where
  "window_for_event x q =
     bindm (attempt (get_next_window x q)) (\<lambda>r. case r of
       Inr w \<Rightarrow> ret () | Inl e \<Rightarrow> if err_status http_not_found e then ret () else throw e)"

definition command_event :: "ext \<Rightarrow> uuid \<Rightarrow> unit wm" where
  "command_event x u =
     tx_do (bindm (queue_get u) (\<lambda>q. bindm (instance_repo_get u) (\<lambda>i. window_for_event x q)))"

text \<open>
  Before the final import the power state of the source VM is recorded, unless the user has decided
  how the migrated VM is to be left.
\<close>

definition record_power :: "ext \<Rightarrow> 'e task_env \<Rightarrow> uuid \<Rightarrow> worker_command \<Rightarrow> ('e, unit) task" where
  "record_power x en u cmd =
     bindm (inw (instance_repo_get u)) (\<lambda>i.
       if ov_StartedAfterMigration (i_Overrides i) \<or> ov_StoppedAfterMigration (i_Overrides i) then ret ()
       else bindm (inw (queue_get u)) (\<lambda>q.
         bindm (lift (new_vm_source x (te_cas en) (source_to_api (wk_Source cmd)))) (\<lambda>s.
         bindm (connected_source x en s) (\<lambda>s'.
         bindm (ine (source_is_running (te_vsphere en (vw_Source s')) (ip_Location (i_Properties i)))) (\<lambda>running.
           if running \<and> \<not> p_Running (q_Placement q)
           then andthen (inw (queue_update_placement u ((q_Placement q)\<lparr>p_Running := True\<rparr>))) (ret ())
           else ret ())))))"

text \<open>
  The command is taken from the queue with the request's own context, so it is a transaction by
  itself, committed before the transaction around it writes anything: an error of the check of the
  power state does not undo it. \<open>enc\<close> encodes the source.
\<close>

definition worker_command_post ::
    "ext \<Rightarrow> 'e task_env \<Rightarrow> (api_source \<Rightarrow> err + string) \<Rightarrow> string \<Rightarrow> ('e, api_command) task" where
  "worker_command_post x en enc us =
     bindm (lift (request_uuid x us)) (\<lambda>u.
     bindm (inw (new_worker_command x u)) (\<lambda>cmd.
     andthen (tx_task (if wk_Command cmd = WORKERCOMMAND_FINALIZE_IMPORT then record_power x en u cmd else ret ()))
     (bindm (lift (add_ca_certificates x (te_cas en) (wk_Source cmd))) (\<lambda>src.
      bindm (lift (enc (source_to_api src))) (\<lambda>raw.
      andthen (if wk_Command cmd = WORKERCOMMAND_IMPORT_DISKS \<or> wk_Command cmd = WORKERCOMMAND_FINALIZE_IMPORT
               then inw (command_event x u) else ret ())
      (andthen (inw (record_worker_update x u))
        (ret \<lparr>ac_Command = wk_Command cmd, ac_Location = wk_Location cmd, ac_SourceType = wk_SourceType cmd, ac_Source = raw,
           ac_OSType = wk_OSType cmd, ac_Distribution = wk_Distro cmd, ac_DistributionVersion = wk_DistroVersion cmd,
           ac_Architecture = wk_Architecture cmd\<rparr>)))))))"

section \<open>Reports\<close>

definition update_event :: "ext \<Rightarrow> uuid \<Rightarrow> queue_entry \<Rightarrow> unit wm" where
  "update_event x u q = tx_do (bindm (instance_repo_get u) (\<lambda>i. window_for_event x q))"

text \<open>After a failure the source VM is switched on again if it was running.\<close>

definition start_source :: "ext \<Rightarrow> 'e task_env \<Rightarrow> uuid \<Rightarrow> queue_entry \<Rightarrow> ('e, unit) task" where
  "start_source x en u q =
     bindm (inw (tx_do (bindm (instance_repo_get u) (\<lambda>i. bindm (source_get_by_name (i_Source i)) (\<lambda>src. ret (i, src)))))) (\<lambda>(i, src).
       if p_Running (q_Placement q)
       then bindm (lift (new_vm_source x (te_cas en) (source_to_api src))) (\<lambda>s.
         bindm (connected_source x en s) (\<lambda>s'.
           ine (source_power_on (te_vsphere en (vw_Source s')) (ip_Location (i_Properties i)))))
       else ret ())"

definition worker_update_post ::
    "ext \<Rightarrow> 'e task_env \<Rightarrow> (string \<Rightarrow> err + worker_response) \<Rightarrow> string \<Rightarrow> string \<Rightarrow> ('e, unit) task" where
  "worker_update_post x en dec us body =
     bindm (lift (request_uuid x us)) (\<lambda>u.
     bindm (lift (map_sum (\<lambda>_. bad_request) id (dec body))) (\<lambda>r.
     bindm (inw (process_worker_update x u r)) (\<lambda>q.
     andthen (if (q_MigrationStatus q = MIGRATIONSTATUS_IDLE \<and> q_ImportStage q = IMPORTSTAGE_FINAL) \<or>
                 q_MigrationStatus q = MIGRATIONSTATUS_WORKER_DONE
              then inw (update_event x u q) else ret ())
     (andthen (if q_MigrationStatus q = MIGRATIONSTATUS_ERROR then start_source x en u q else ret ())
       (inw (record_worker_update x u))))))"

section \<open>What the handlers change\<close>

lemma queue_update_placement_effect:
  assumes run: "queue_update_placement u p s = (Inr q', t)" and ids: "window_ids_unique (w_db s)"
  shows "\<exists>q. queue_map s u = Some q \<and> q' = q\<lparr>q_Placement := p\<rparr> \<and> queue_map t = (queue_map s)(u \<mapsto> q')"
proof -
  from tx_do_run_ok [OF run [unfolded queue_update_placement_def]] obtain s0 t0 q v where
    s0: "same_data s s0" and t0: "same_data t0 t" and q: "queue_map s0 u = Some q"
    and q': "q' = q\<lparr>q_Placement := p\<rparr>" and up: "queue_repo_update q' s0 = (Inr v, t0)"
    unfolding bindm_ok andthen_ok wrap_err_ok queue_repo_get_ok fail_on_ok ret_ok Let_def by blast
  have ids0: "window_ids_unique (w_db s0)" using ids s0 by (simp add: same_data_def)
  have u: "q_InstanceUUID q' = u" using queue_map_key [OF q] by (simp add: q')
  from queue_repo_update_same_window(1) [OF up ids0 q u] have "queue_map t0 = (queue_map s0)(u \<mapsto> stored s0 q')" by (simp add: q')
  moreover have "stored s0 q' = q'" by (rule stored_window [OF ids0 q]) (simp add: q')
  ultimately show ?thesis using q q' same_data_queue [OF s0] same_data_queue [OF t0] by auto
qed

lemma tx_do_failed: "tx_do f s = (Inl er, t) \<Longrightarrow> \<not> w_intx s \<Longrightarrow> w_db t = w_db s \<and> \<not> w_intx t"
  by (auto simp: tx_do_def split: prod.splits sum.splits)

lemma tx_task_cases:
  assumes "tx_task f (s, e) = (r, (t, e'))" and "\<not> w_intx s"
  shows "(\<exists>er. r = Inl er) \<and> w_db t = w_db s \<or>
    (\<exists>a t0. r = Inr a \<and> f (s\<lparr>w_intx := True\<rparr>, e) = (Inr a, (t0, e')) \<and> same_data t0 t)"
  using assms by (auto simp: tx_task_def split: prod.splits sum.splits)

text \<open>The steps after the queue's own do not write to the database.\<close>

lemma reads_only:
  "keeps (\<lambda>s. w_db s = D) (command_event x u)" "keeps (\<lambda>s. w_db s = D) (update_event x u q)"
  "keeps (\<lambda>s. w_db s = D) (record_worker_update x u)"
proof -
  have "ro (window_for_event x q)" for q
    unfolding window_for_event_def by (intro ro_bindm ro_attempt ro_get_next_window) (auto intro: ro_intros split: sum.split)
  then show "keeps (\<lambda>s. w_db s = D) (command_event x u)" "keeps (\<lambda>s. w_db s = D) (update_event x u q)"
    unfolding command_event_def update_event_def query_defs by (auto intro!: ro_keeps ro_intros)
  show "keeps (\<lambda>s. w_db s = D) (record_worker_update x u)"
    unfolding record_worker_update_def by (rule keeps_modify) simp
qed

lemma keeps_inw: "keeps I m \<Longrightarrow> keeps (\<lambda>(w, e). I w) (inw m)"
  by (auto simp: keeps_def inw_run split: prod.splits)

lemma keeps_outside: "outside m \<Longrightarrow> keeps (\<lambda>(w, e). I w) m"
  by (auto simp: keeps_def outside_def) (metis fst_conv prod.collapse)

lemma start_source_reads: "keeps (\<lambda>(w, e). w_db w = D) (start_source x en u q)"
proof -
  have "keeps (\<lambda>s. w_db s = D) (tx_do (bindm (instance_repo_get u) (\<lambda>i. bindm (source_get_by_name (i_Source i)) (\<lambda>src. ret (i, src)))))"
    unfolding query_defs by (auto intro!: ro_keeps ro_intros)
  from keeps_inw [OF this] show ?thesis
    unfolding start_source_def
    by (intro keeps_bindm) (auto intro!: keeps_outside simp: connected_source_def split: prod.split)
qed

text \<open>How a handler may have changed the queue: not at all, or one entry along one step of the machine.\<close>

definition entry_moved :: "uuid \<Rightarrow> db \<Rightarrow> db \<Rightarrow> bool" where
  "entry_moved u d d' \<longleftrightarrow> queue_lookup d' = queue_lookup d \<or>
     (\<exists>q q'. queue_lookup d u = Some q \<and> queue_lookup d' = (queue_lookup d)(u \<mapsto> q') \<and> phase_step (phase q) (phase q'))"

lemma entry_moved_same: "entry_moved u d d" "entry_moved u d d' \<Longrightarrow> d' = d'' \<Longrightarrow> entry_moved u d d''"
  by (simp_all add: entry_moved_def)

lemma queue_step_moves: "queue_step x s u t \<Longrightarrow> window_ids_unique (w_db s) \<Longrightarrow> entry_moved u (w_db s) (w_db t)"
  using queue_step_effect [of x s u t] by (force simp: entry_moved_def queue_map_def fun_eq_iff)

text \<open>The power check writes at most the placement, which is no step of the machine.\<close>

definition placement_only :: "uuid \<Rightarrow> db \<Rightarrow> db \<Rightarrow> bool" where
  "placement_only u d d' \<longleftrightarrow> queue_lookup d' = queue_lookup d \<or>
     (\<exists>q p. queue_lookup d u = Some q \<and> queue_lookup d' = (queue_lookup d)(u \<mapsto> q\<lparr>q_Placement := p\<rparr>))"

lemma entry_moved_placement:
  assumes "entry_moved u d d'" and "placement_only u d' d''"
  shows "entry_moved u d d''"
proof (cases "queue_lookup d'' = queue_lookup d'")
  case True
  with assms(1) show ?thesis by (simp add: entry_moved_def)
next
  case False
  then obtain q p where q: "queue_lookup d' u = Some q" "queue_lookup d'' = (queue_lookup d')(u \<mapsto> q\<lparr>q_Placement := p\<rparr>)"
    using assms(2) by (auto simp: placement_only_def)
  have ph: "phase (q\<lparr>q_Placement := p\<rparr>) = phase q" by (simp add: phase_def)
  from assms(1) consider "queue_lookup d' = queue_lookup d"
    | q0 where "queue_lookup d u = Some q0" "queue_lookup d' = (queue_lookup d)(u \<mapsto> q)" "phase_step (phase q0) (phase q)"
    using q(1) by (auto simp: entry_moved_def)
  then show ?thesis
  proof cases
    case 1
    with q show ?thesis unfolding entry_moved_def
      by (intro disjI2 exI [of _ q] exI [of _ "q\<lparr>q_Placement := p\<rparr>"]) (simp add: ph phase_step.stay)
  next
    case 2
    with q show ?thesis unfolding entry_moved_def
      by (intro disjI2 exI [of _ q0] exI [of _ "q\<lparr>q_Placement := p\<rparr>"]) (simp add: ph)
  qed
qed

lemma record_power_writes:
  assumes run: "record_power x en u cmd (s, e) = (Inr (), (t, e'))" and ids: "window_ids_unique (w_db s)"
  shows "placement_only u (w_db s) (w_db t)"
proof -
  have "t = s \<or> (\<exists>q' p. queue_update_placement u p s = (Inr q', t))"
    using run unfolding record_power_def
    by (auto simp: bindm_ok andthen_ok inw_ok ret_ok lift_ok lookup_ok queue_get_def queue_repo_get_ok connected_source_def
        split: if_splits dest!: outsideD [OF outside_pure(1)])
  then show ?thesis
    using queue_update_placement_effect [OF _ ids]
    by (force simp: placement_only_def queue_map_def fun_eq_iff)
qed

lemma command_post_moves:
  assumes run: "worker_command_post x en enc us (s, e) = (r, (t, e'))" and tx: "\<not> w_intx s"
    and ids: "window_ids_unique (w_db s)"
  shows "w_db t = w_db s \<or> (\<exists>u. x_uuid_parse x us = Some u \<and> entry_moved u (w_db s) (w_db t))"
proof (cases "request_uuid x us")
  case (Inl er)
  with run show ?thesis by (simp add: worker_command_post_def run_simps)
next
  case (Inr u)
  then have u: "x_uuid_parse x us = Some u" by (auto simp: request_uuid_def split: option.splits)
  obtain rc s1 where cmd: "new_worker_command x u s = (rc, s1)" by (cases "new_worker_command x u s")
  show ?thesis
  proof (cases rc)
    case (Inl er)
    with cmd have "w_db s1 = w_db s" using tx_do_failed [OF _ tx] unfolding new_worker_command_def by blast
    with run Inr Inl cmd show ?thesis by (simp add: worker_command_post_def run_simps)
  next
    case c: (Inr c)
    note step = queue_step.command [OF cmd [unfolded c]]
    have ids1: "window_ids_unique (w_db s1)" using queue_step_effect [OF step ids] window_ids_frame ids by blast
    have tx1: "\<not> w_intx s1" using cmd tx by (auto simp: new_worker_command_def tx_do_def split: prod.splits sum.splits)
    obtain rp s2 e2 where p: "tx_task (if wk_Command c = WORKERCOMMAND_FINALIZE_IMPORT then record_power x en u c else ret ()) (s1, e) =
        (rp, (s2, e2))" by (metis prod_cases3)
    have db2: "placement_only u (w_db s1) (w_db s2)"
      using tx_task_cases [OF p tx1]
    proof (elim disjE conjE exE)
      fix a t0
      assume f: "(if wk_Command c = WORKERCOMMAND_FINALIZE_IMPORT then record_power x en u c else ret ())
          (s1\<lparr>w_intx := True\<rparr>, e) = (Inr a, (t0, e2))" and t0: "same_data t0 s2"
      have "placement_only u (w_db s1) (w_db t0)"
        using f record_power_writes [of x en u c "s1\<lparr>w_intx := True\<rparr>" e t0 e2] ids1
        by (auto simp: placement_only_def ret_ok split: if_splits)
      with t0 show ?thesis by (simp add: same_data_def)
    qed (simp add: placement_only_def)
    have "w_db t = w_db s2"
    proof (cases rp)
      case (Inl er)
      with run Inr cmd c p show ?thesis by (simp add: worker_command_post_def run_simps)
    next
      case (Inr v)
      have keep: "keeps (\<lambda>(w, e). w_db w = w_db s2) (bindm (lift (add_ca_certificates x (te_cas en) (wk_Source c))) (\<lambda>src.
          bindm (lift (enc (source_to_api src))) (\<lambda>raw.
          andthen (if wk_Command c = WORKERCOMMAND_IMPORT_DISKS \<or> wk_Command c = WORKERCOMMAND_FINALIZE_IMPORT
               then inw (command_event x u) else ret ())
          (andthen (inw (record_worker_update x u))
            (ret \<lparr>ac_Command = wk_Command c, ac_Location = wk_Location c, ac_SourceType = wk_SourceType c, ac_Source = raw,
              ac_OSType = wk_OSType c, ac_Distribution = wk_Distro c, ac_DistributionVersion = wk_DistroVersion c,
              ac_Architecture = wk_Architecture c\<rparr>)))))"
        by (intro keeps_intros keeps_inw reads_only)
      from keeps_run [OF keep, of "(s2, e2)" r "(t, e')"] run \<open>request_uuid x us = Inr u\<close> cmd c p Inr show ?thesis
        by (simp add: worker_command_post_def bindm_run [of "lift (Inr u)"] bindm_run [of "inw _"]
            andthen_run [of "tx_task _"] lift_run inw_run)
    qed
    with entry_moved_placement [OF queue_step_moves [OF step ids] db2] u show ?thesis by auto
  qed
qed

lemma update_post_moves:
  assumes run: "worker_update_post x en dec us body (s, e) = (r, (t, e'))" and tx: "\<not> w_intx s"
    and ids: "window_ids_unique (w_db s)"
  shows "w_db t = w_db s \<or> (\<exists>u. x_uuid_parse x us = Some u \<and> entry_moved u (w_db s) (w_db t))"
proof (cases "request_uuid x us")
  case (Inl er)
  with run show ?thesis by (simp add: worker_update_post_def run_simps)
next
  case u: (Inr u)
  then have us: "x_uuid_parse x us = Some u" by (auto simp: request_uuid_def split: option.splits)
  show ?thesis
  proof (cases "dec body")
    case (Inl er)
    with run u show ?thesis by (simp add: worker_update_post_def run_simps)
  next
    case b: (Inr b)
    obtain rq s1 where rep: "process_worker_update x u b s = (rq, s1)" by (cases "process_worker_update x u b s")
    show ?thesis
    proof (cases rq)
      case (Inl er)
      with rep have "w_db s1 = w_db s" using tx_do_failed [OF _ tx] unfolding process_worker_update_def by blast
      with run u b rep Inl show ?thesis by (simp add: worker_update_post_def run_simps)
    next
      case q: (Inr q)
      have keep: "keeps (\<lambda>(w, e). w_db w = w_db s1)
          (andthen (if (q_MigrationStatus q = MIGRATIONSTATUS_IDLE \<and> q_ImportStage q = IMPORTSTAGE_FINAL) \<or>
                 q_MigrationStatus q = MIGRATIONSTATUS_WORKER_DONE
              then inw (update_event x u q) else ret ())
          (andthen (if q_MigrationStatus q = MIGRATIONSTATUS_ERROR then start_source x en u q else ret ())
            (inw (record_worker_update x u))))"
        by (intro keeps_intros keeps_inw reads_only start_source_reads)
      have "w_db t = w_db s1"
        using keeps_run [OF keep, of "(s1, e)" r "(t, e')"] run u b rep q
        by (simp add: worker_update_post_def bindm_run [of "lift (Inr u)"] bindm_run [of "lift (Inr b)"] bindm_run [of "inw _"] lift_run inw_run)
      with queue_step_moves [OF queue_step.report [OF rep [unfolded q]] ids] us show ?thesis by auto
    qed
  qed
qed

section \<open>The handlers and the abstract machine\<close>

text \<open>A call of the worker, whatever is replied.\<close>

inductive worker_call :: "ext \<Rightarrow> string \<Rightarrow> world \<times> 'e \<Rightarrow> world \<times> 'e \<Rightarrow> bool" for x us where
  command: "worker_command_post x en enc us s = (r, t) \<Longrightarrow> worker_call x us s t"
| report: "worker_update_post x en dec us body s = (r, t) \<Longrightarrow> worker_call x us s t"

text \<open>
  C2: Whatever a worker's call returns, a reply or an error, the queue is as it was or exactly the
  entry that the call names has taken one step of the abstract machine.
\<close>

theorem worker_api_refines:
  assumes "worker_call x us (s, e) (t, e')" and "\<not> w_intx s" and "window_ids_unique (w_db s)"
  shows "queue_map t = queue_map s \<or>
    (\<exists>u q q'. x_uuid_parse x us = Some u \<and> queue_map s u = Some q \<and> queue_map t = (queue_map s)(u \<mapsto> q') \<and>
       phase_step (phase q) (phase q'))"
proof -
  from assms have "w_db t = w_db s \<or> (\<exists>u. x_uuid_parse x us = Some u \<and> entry_moved u (w_db s) (w_db t))"
    by (cases rule: worker_call.cases) (blast dest: command_post_moves update_post_moves)+
  then show ?thesis by (auto simp: entry_moved_def queue_map_def fun_eq_iff)
qed

theorem worker_api_refines_witness:
  "\<forall>(en :: string task_env) enc e. \<exists>r t e' q'.
     worker_command_post uuid_ext en enc ''seven'' (sample_world [] sample_entry, e) = (r, (t, e')) \<and>
     queue_map t 7 = Some q' \<and> phase_step (phase sample_entry) (phase q')"
proof (intro allI)
  fix en :: "string task_env" and enc e
  obtain r t e' where run: "worker_command_post uuid_ext en enc ''seven'' (sample_world [] sample_entry, e) = (r, (t, e'))"
    by (metis prod_cases3)
  have "x_uuid_parse uuid_ext ''seven'' = Some 7" by (simp add: uuid_ext_def)
  with worker_api_refines [OF worker_call.command [OF run]] run
  show "\<exists>r t e' q'. worker_command_post uuid_ext en enc ''seven'' (sample_world [] sample_entry, e) = (r, (t, e')) \<and>
     queue_map t 7 = Some q' \<and> phase_step (phase sample_entry) (phase q')"
    by (auto intro: phase_step.stay)
qed

section \<open>An error after the command\<close>

lemma command_keeps_report: "q_LastWorkerStatus (stored s (decided q d)) = q_LastWorkerStatus q"
  by (cases d) (simp_all add: stored_def)

lemma begun_final_import:
  assumes cmd: "new_worker_command x u s = (Inr c, t)" and ids: "window_ids_unique (w_db s)"
    and q: "queue_map s u = Some q" "q_MigrationStatus q = MIGRATIONSTATUS_IDLE"
    and c: "wk_Command c = WORKERCOMMAND_FINALIZE_IMPORT"
  shows "\<exists>q'. queue_map t u = Some q' \<and> q_MigrationStatus q' = MIGRATIONSTATUS_FINAL_IMPORT \<and>
    q_LastWorkerStatus q' = q_LastWorkerStatus q"
  using cmd ids
proof (cases rule: new_worker_command_cases)
  case (restart p)
  with q show ?thesis by simp
next
  case (idle p i src d s')
  with q c decides_status [OF idle(5,2)] show ?thesis by (simp add: command_keeps_report)
qed

text \<open>A worker whose last report is not RUNNING gets no command for an entry that is not idle.\<close>

lemma busy_gets_no_command:
  assumes q: "queue_map s u = Some q" "q_MigrationStatus q \<noteq> MIGRATIONSTATUS_IDLE" "q_LastWorkerStatus q \<noteq> WORKERRESPONSE_RUNNING"
    and tx: "\<not> w_intx s" and ids: "window_ids_unique (w_db s)" and u: "x_uuid_parse x us = Some u"
  shows "\<exists>er t. worker_command_post x en enc us (s, e) = (Inl er, (t, e)) \<and> w_db t = w_db s"
proof -
  obtain rc t where cmd: "new_worker_command x u s = (rc, t)" by (cases "new_worker_command x u s")
  have "\<nexists>c. rc = Inr c"
  proof
    assume "\<exists>c. rc = Inr c"
    with cmd obtain c where "new_worker_command x u s = (Inr c, t)" by blast
    then show False using ids by (cases rule: new_worker_command_cases) (use q in auto)
  qed
  then obtain er where er: "rc = Inl er" by (cases rc) auto
  with cmd have "w_db t = w_db s" using tx_do_failed [OF _ tx] unfolding new_worker_command_def by blast
  with cmd er u show ?thesis by (simp add: worker_command_post_def request_uuid_def run_simps)
qed


definition unreachable :: "string vsphere" where
  "unreachable = sample_vsphere\<lparr>vs_connect := (\<lambda>_ _. throw (ExternalErr ''no route to host''))\<rparr>"

lemma synced_uuid_window:
  "fst (get_next_window uuid_ext synced_entry ((sample_world [] synced_entry)\<lparr>w_intx := True\<rparr>)) = Inr empty_window"
proof -
  have "get_next_window uuid_ext synced_entry ((sample_world [] synced_entry)\<lparr>w_intx := True\<rparr>) =
      (Inr empty_window, (sample_world [] synced_entry)\<lparr>w_intx := True\<rparr>)"
    by (simp add: get_next_window_ok choose_window_def get_earliest_def split: option.split)
  then show ?thesis by simp
qed

lemma uuid_ext_sources: "x_vmware_limit uuid_ext = x_vmware_limit plain_ext" "x_incus_limit uuid_ext = x_incus_limit plain_ext"
  by (simp_all add: uuid_ext_def fun_eq_iff x_vmware_limit_def x_incus_limit_def)

lemma synced_uuid_command:
  "\<exists>c t. new_worker_command uuid_ext 7 (sample_world [] synced_entry) = (Inr c, t) \<and>
    wk_Command c = WORKERCOMMAND_FINALIZE_IMPORT"
  by (simp add: new_worker_command_def idle_step_def ok_run worker_decision_def Let_def limit_reached_def queue_repo_update_ok
     apply_decision_def queue_update_status_def idle_command_def synced_uuid_window begin_decision_def uuid_ext_sources)

lemma unreachable_check:
  "\<exists>er. record_power uuid_ext (en\<lparr>te_vsphere := (\<lambda>_. unreachable)\<rparr>) 7 c (s, e) = (Inl er, (s, e))"
  if "tb_get i_UUID (db_instances (w_db s)) 7 = Some sample_inst" "queue_map s 7 = Some q" "wk_Source c = sample_source"
  using that
  by (simp add: record_power_def run_simps instance_repo_get_def queue_get_def queue_repo_get_run sample_inst_def no_override_def
      source_to_api_def sample_source_def new_vm_source_def new_vmware_source_def uuid_ext_def plain_ext_def
      connected_source_def vmware_connect_def trusted_certificate_def sample_vmware_def vmware_set_defaults_def
      unreachable_def Let_def)


section \<open>A failed worker\<close>

lemma new_vm_source_keeps: "new_vm_source x cas a = Inr v \<Longrightarrow> vw_Source v = a"
  by (auto simp: new_vm_source_def new_vmware_source_def bind_sum_ok Let_def split: source_type.splits if_splits)

lemma vmware_connect_keeps: "vmware_connect x c v e = (Inr v', e') \<Longrightarrow> vw_Source v' = vw_Source v"
  by (auto simp: vmware_connect_def throw_ok bindm_ok lift_ok ret_ok split: if_splits)

lemma start_source_ok:
  assumes "start_source x en u q (w, e) = (Inr (), (w', e'))" and "p_Running (q_Placement q)"
  shows "\<exists>i src e1. tb_get i_UUID (db_instances (w_db w)) u = Some i \<and>
    tb_get src_Name (db_sources (w_db w)) (i_Source i) = Some src \<and>
    source_power_on (te_vsphere en (source_to_api src)) (ip_Location (i_Properties i)) e1 = (Inr (), e')"
  using assms
  by (auto simp: start_source_def bindm_ok inw_ok ine_ok lift_ok tx_do_ok lookup_ok ret_ok connected_source_def
      dest!: new_vm_source_keeps vmware_connect_keeps split: if_splits)

lemma reported_failure: "wr_Status r = WORKERRESPONSE_FAILED \<Longrightarrow> q_MigrationStatus (reported x r q) = MIGRATIONSTATUS_ERROR"
  by (simp add: reported_def report_entry_def)

text \<open>
  C31: A report of a failure is acknowledged only when the source VM is powered on again, if it was
  running.
\<close>

theorem failure_restores_power:
  assumes run: "worker_update_post x en dec us body (s, e) = (Inr (), (t, e'))" and u: "x_uuid_parse x us = Some u"
    and r: "dec body = Inr r" "wr_Status r = WORKERRESPONSE_FAILED" and ids: "window_ids_unique (w_db s)"
    and q: "queue_map s u = Some q" "p_Running (q_Placement q)"
  shows "(\<exists>q'. queue_map t u = Some q' \<and> q_MigrationStatus q' = MIGRATIONSTATUS_ERROR) \<and>
    (\<exists>i src e1. tb_get i_UUID (db_instances (w_db s)) u = Some i \<and> tb_get src_Name (db_sources (w_db s)) (i_Source i) = Some src \<and>
       source_power_on (te_vsphere en (source_to_api src)) (ip_Location (i_Properties i)) e1 = (Inr (), e'))"
proof -
  obtain rp w1 where rep0: "process_worker_update x u r s = (rp, w1)" by (cases "process_worker_update x u r s")
  obtain p where p0: "rp = Inr p"
    using run u r(1) rep0 by (cases rp) (simp_all add: worker_update_post_def request_uuid_def bindm_run lift_run inw_run)
  note rep = rep0 [unfolded p0]
  have "andthen (if (q_MigrationStatus p = MIGRATIONSTATUS_IDLE \<and> q_ImportStage p = IMPORTSTAGE_FINAL) \<or>
                 q_MigrationStatus p = MIGRATIONSTATUS_WORKER_DONE
              then inw (update_event x u p) else ret ())
      (andthen (if q_MigrationStatus p = MIGRATIONSTATUS_ERROR then start_source x en u p else ret ())
        (inw (record_worker_update x u))) (w1, e) = (Inr (), (t, e'))"
    using run u r(1) rep by (simp add: worker_update_post_def request_uuid_def bindm_run [of "lift _"] bindm_run [of "inw _"] lift_run inw_run)
  then obtain w2 e2 where ev: "(if (q_MigrationStatus p = MIGRATIONSTATUS_IDLE \<and> q_ImportStage p = IMPORTSTAGE_FINAL) \<or>
                 q_MigrationStatus p = MIGRATIONSTATUS_WORKER_DONE
              then inw (update_event x u p) else ret ()) (w1, e) = (Inr (), (w2, e2))"
    and tail: "andthen (if q_MigrationStatus p = MIGRATIONSTATUS_ERROR then start_source x en u p else ret ())
       (inw (record_worker_update x u)) (w2, e2) = (Inr (), (t, e'))"
    unfolding andthen_ok by auto
  from process_worker_update_effect [OF rep ids] q(1) have p: "p = reported x r q" "queue_map w1 = (queue_map s)(u \<mapsto> p)"
    "db_frame s w1" unfolding db_frame_def by (metis option.inject)+
  have st: "q_MigrationStatus p = MIGRATIONSTATUS_ERROR" by (simp add: p(1) reported_failure r(2))
  with ev have w2: "w2 = w1" "e2 = e" by (simp_all add: ret_ok)
  from tail st obtain w3 where up: "start_source x en u p (w1, e) = (Inr (), (w3, e'))"
    and rec: "record_worker_update x u w3 = (Inr (), t)"
    by (auto simp: andthen_ok inw_ok w2)
  have "w_db w3 = w_db w1" using keeps_run [OF start_source_reads _ up, of "w_db w1"] by simp
  moreover have "w_db t = w_db w3" using keeps_run [OF reads_only(3) _ rec, of "w_db w3"] by simp
  ultimately have "queue_map t = queue_map w1" by (simp add: queue_map_def fun_eq_iff)
  with p(2) st have error: "\<exists>q'. queue_map t u = Some q' \<and> q_MigrationStatus q' = MIGRATIONSTATUS_ERROR" by simp
  have tabs: "db_instances (w_db w1) = db_instances (w_db s)" "db_sources (w_db w1) = db_sources (w_db s)"
    using arg_cong [OF p(3) [unfolded db_frame_def], of db_instances] arg_cong [OF p(3) [unfolded db_frame_def], of db_sources] by simp_all
  have "p_Running (q_Placement p)" by (simp add: p(1) q(2))
  from start_source_ok [OF up this] error show ?thesis unfolding tabs by blast
qed

definition running_world :: world where
  "running_world = sample_world [] (synced_entry\<lparr>q_MigrationStatus := MIGRATIONSTATUS_FINAL_IMPORT,
     q_Placement := sample_placement\<lparr>p_Running := True\<rparr>\<rparr>)"

definition failed_report :: worker_response where
  "failed_report = \<lparr>wr_Status = WORKERRESPONSE_FAILED, wr_StatusMessage = ''disk error'', wr_Metadata = None\<rparr>"

lemma failed_report_runs:
  "map_sum id id (fst (process_worker_update uuid_ext 7 failed_report running_world)) =
     Inr (reported uuid_ext failed_report (synced_entry\<lparr>q_MigrationStatus := MIGRATIONSTATUS_FINAL_IMPORT,
       q_Placement := sample_placement\<lparr>p_Running := True\<rparr>\<rparr>))"
  by code_simp

lemma sample_power_on: "source_power_on sample_vsphere location e = (Inr (), ''poweredOn'')"
  by (simp add: source_power_on_def vm_power_on_def try_power_on_def sample_vsphere_def run_simps)

lemma power_on_runs:
  assumes "tb_get i_UUID (db_instances (w_db s)) 7 = Some sample_inst" "tb_get src_Name (db_sources (w_db s)) ''src'' = Some sample_source"
    and "p_Running (q_Placement q)" "\<not> w_intx s"
  shows "start_source uuid_ext (en\<lparr>te_vsphere := (\<lambda>_. sample_vsphere)\<rparr>) 7 q (s, e) = (Inr (), (s, ''poweredOn''))"
proof -
  have i: "i_Source sample_inst = ''src''" by simp
  have "vs_connect sample_vsphere a b = ret (''8.0'', ''VirtualCenter'')" for a b by (simp add: sample_vsphere_def)
  with assms i show ?thesis
    by (simp add: start_source_def run_simps instance_repo_get_def source_get_by_name_def source_repo_get_def
      source_to_api_def sample_source_def new_vm_source_def new_vmware_source_def uuid_ext_def plain_ext_def connected_source_def
      vmware_connect_def trusted_certificate_def sample_vmware_def vmware_set_defaults_def sample_power_on Let_def)
qed

theorem failure_restores_power_witness:
  "\<forall>en :: string task_env. \<exists>t q' (i :: inst) e1.
     worker_update_post uuid_ext (en\<lparr>te_vsphere := (\<lambda>_. sample_vsphere)\<rparr>) (\<lambda>_. Inr failed_report) ''seven'' [] (running_world, ''poweredOff'') =
       (Inr (), (t, ''poweredOn'')) \<and>
     queue_map t 7 = Some q' \<and> q_MigrationStatus q' = MIGRATIONSTATUS_ERROR \<and>
     source_power_on sample_vsphere (ip_Location (i_Properties i)) e1 = (Inr (), ''poweredOn'')"
proof
  fix en :: "string task_env"
  let ?en = "en\<lparr>te_vsphere := (\<lambda>_. sample_vsphere)\<rparr>"
  let ?q = "synced_entry\<lparr>q_MigrationStatus := MIGRATIONSTATUS_FINAL_IMPORT, q_Placement := sample_placement\<lparr>p_Running := True\<rparr>\<rparr>"
  let ?p = "reported uuid_ext failed_report ?q"
  obtain w1 where rep: "process_worker_update uuid_ext 7 failed_report running_world = (Inr ?p, w1)"
    using failed_report_runs by (cases "process_worker_update uuid_ext 7 failed_report running_world") (simp add: sum.map_id)
  have ids: "window_ids_unique (w_db running_world)" and tx: "\<not> w_intx running_world" and q: "queue_map running_world 7 = Some ?q"
    by (simp_all add: running_world_def)
  have tx1: "\<not> w_intx w1" using rep tx by (auto simp: process_worker_update_def tx_do_def split: prod.splits sum.splits)
  from queue_step_effect [OF queue_step.report [OF rep] ids] have fr: "db_frame running_world w1" by blast
  have tabs: "tb_get i_UUID (db_instances (w_db w1)) 7 = Some sample_inst" "tb_get src_Name (db_sources (w_db w1)) ''src'' = Some sample_source"
    using arg_cong [OF fr [unfolded db_frame_def], of db_instances] arg_cong [OF fr [unfolded db_frame_def], of db_sources]
    by (simp_all add: running_world_def sample_lookups(1,2))
  have st: "wr_Status failed_report = WORKERRESPONSE_FAILED" by (simp add: failed_report_def)
  have pr: "p_Running (q_Placement ?p)" "q_MigrationStatus ?p = MIGRATIONSTATUS_ERROR" by (simp_all add: reported_failure st)
  have u: "x_uuid_parse uuid_ext ''seven'' = Some 7" by (simp add: uuid_ext_def)
  let ?t = "snd (record_worker_update uuid_ext 7 w1)"
  have run: "worker_update_post uuid_ext ?en (\<lambda>_. Inr failed_report) ''seven'' [] (running_world, ''poweredOff'') =
      (Inr (), (?t, ''poweredOn''))"
    using power_on_runs [OF tabs pr(1) tx1, of en "''poweredOff''"] rep pr(2)
    by (simp add: worker_update_post_def request_uuid_def u run_simps record_worker_update_def)
  from failure_restores_power [OF run u refl st ids q] run
  show "\<exists>t q' (i :: inst) e1. worker_update_post uuid_ext ?en (\<lambda>_. Inr failed_report) ''seven'' [] (running_world, ''poweredOff'') =
       (Inr (), (t, ''poweredOn'')) \<and> queue_map t 7 = Some q' \<and> q_MigrationStatus q' = MIGRATIONSTATUS_ERROR \<and>
     source_power_on sample_vsphere (ip_Location (i_Properties i)) e1 = (Inr (), ''poweredOn'')" by auto
qed

end
