(* ===== verification/Access_Facts.thy ===== *)
theory Access_Facts
  imports Access Worker_Api
begin

text \<open>
  The worker's endpoints (\<^verbatim>\<open>api_worker.go\<close>), and what the checks in front of a handler guarantee: it
  runs only for a permitted user; a metrics client reads metrics only; what a worker's token opens.
\<close>

section \<open>The worker's endpoints\<close>

text \<open>The part of the path that the pattern's \<^verbatim>\<open>{uuid}\<close> stands for.\<close>

definition path_uuid :: "http_req \<Rightarrow> string" where
  "path_uuid r = (case str_split (CHR ''/'') (hr_Path r) of [_, _, _, u, _] \<Rightarrow> u | _ \<Rightarrow> [])"

definition worker_endpoint :: "string \<Rightarrow> (http_req \<Rightarrow> ('e, 'a) task) \<Rightarrow> ('e, 'a) api_endpoint" where
  "worker_endpoint path h =
     \<lparr>ep_Path = path, ep_Get = no_action, ep_Head = no_action, ep_Put = no_action,
      ep_Post = \<lparr>ac_Handler = Some h, ac_Access = Some (''server'', ''can_edit''),
                 ac_Authenticator = Some token_authenticate, ac_AllowUntrusted = False\<rparr>,
      ep_Delete = no_action, ep_Patch = no_action\<rparr>"

definition worker_update_cmd :: "ext \<Rightarrow> 'e task_env \<Rightarrow> (string \<Rightarrow> err + worker_response) \<Rightarrow> ('e, unit) api_endpoint" where
  "worker_update_cmd x en dec =
     worker_endpoint ''worker/{uuid}/:update'' (\<lambda>r. worker_update_post x en dec (path_uuid r) (hr_Body r))"

definition worker_command_cmd :: "ext \<Rightarrow> 'e task_env \<Rightarrow> (api_source \<Rightarrow> err + string) \<Rightarrow> ('e, api_command) api_endpoint" where
  "worker_command_cmd x en enc =
     worker_endpoint ''worker/{uuid}/:command'' (\<lambda>r. worker_command_post x en enc (path_uuid r))"

section \<open>Authentication\<close>

lemma ro_queue_get: "ro (queue_get u)"
  unfolding queue_get_def queue_repo_get_def by (auto intro!: ro_intros)

lemma ro_fail_if: "ro (fail_if b e)"
  by (simp add: ro_def run_simps)

lemma ro_lift: "ro (lift r)"
  by (simp add: ro_def run_simps)

lemma ro_unix_authenticate: "ro (unix_authenticate r)"
  unfolding unix_authenticate_def by (auto intro!: ro_intros)

lemma ro_cert_authenticate: "ro (cert_authenticate x d certs)"
  by (simp add: ro_def cert_authenticate_def run_simps split: list.split option.split prod.split bool.split)

lemma ro_default_authenticate: "ro (default_authenticate x d r)"
  unfolding default_authenticate_def
  by (auto intro!: ro_bindm ro_attempt ro_unix_authenticate ro_cert_authenticate ro_lift ro_intros
      split: sum.split option.split prod.split)

lemma ro_check_queue_token: "ro (check_queue_token x r)"
  unfolding check_queue_token_def
  by (intro ro_bindm ro_wrap_err ro_lift ro_queue_get ro_fail_if)

lemma ro_token_authenticate: "ro (token_authenticate x d r)"
  unfolding token_authenticate_def andthen_def
  by (auto intro!: ro_bindm ro_attempt ro_default_authenticate ro_check_queue_token ro_intros split: sum.split)

text \<open>The authenticators in use.\<close>

definition known_authenticator :: "(ext \<Rightarrow> access_daemon \<Rightarrow> authenticator) option \<Rightarrow> bool" where
  "known_authenticator f \<longleftrightarrow> f = None \<or> f = Some token_authenticate \<or> f = Some (\<lambda>x d. unix_authenticate)"

definition authenticate_with ::
    "ext \<Rightarrow> access_daemon \<Rightarrow> (ext \<Rightarrow> access_daemon \<Rightarrow> authenticator) option \<Rightarrow> http_req \<Rightarrow> world \<Rightarrow> err + auth_response" where
  "authenticate_with x d f r s = fst ((case f of None \<Rightarrow> default_authenticate x d | Some g \<Rightarrow> g x d) r s)"

lemma authenticate_run:
  assumes "known_authenticator f"
  shows "(case f of None \<Rightarrow> default_authenticate x d | Some g \<Rightarrow> g x d) r s = (authenticate_with x d f r s, s)"
proof -
  have "ro ((case f of None \<Rightarrow> default_authenticate x d | Some g \<Rightarrow> g x d) r)"
    using assms by (auto simp: known_authenticator_def ro_default_authenticate ro_token_authenticate ro_unix_authenticate)
  then show ?thesis by (simp add: authenticate_with_def ro_def prod_eq_iff)
qed

section \<open>The handler behind the checks\<close>

definition permitted :: "access_daemon \<Rightarrow> auth_response option \<Rightarrow> ('e, 'a) api_action \<Rightarrow> bool" where
  "permitted d a act \<longleftrightarrow> (\<exists>entitlement. ac_Access act = Some (''server'', entitlement) \<and>
     check_permission (ad_Authorizer d) a object_server entitlement = None)"

lemma handle_request_cases:
  assumes run: "handle_request d sys act a r (s, e) = (rr, (t, e'))" and act: "\<not> ac_AllowUntrusted act"
  shows "(\<exists>n er. rr = Inr (ErrorReply n er) \<and> t = s \<and> e' = e) \<or>
    (\<exists>h res. ac_Handler act = Some h \<and> permitted d a act \<and> h r (s, e) = (res, (t, e')) \<and> rr = Inr (reply_of sys res))"
proof (cases "ac_Handler act")
  case None
  with run show ?thesis by (auto simp: handle_request_def ret_run)
next
  case h: (Some h)
  show ?thesis
  proof (cases "ac_Access act")
    case None
    with run h act show ?thesis by (auto simp: handle_request_def ret_run)
  next
    case (Some req)
    obtain ty en where req: "req = (ty, en)" by (cases req)
    show ?thesis
    proof (cases "allow_permission d req a")
      case (Some ne)
      with run h \<open>ac_Access act = Some req\<close> show ?thesis by (cases ne) (auto simp: handle_request_def ret_run)
    next
      case None
      then have "permitted d a act" using \<open>ac_Access act = Some req\<close> req
        by (auto simp: permitted_def allow_permission_def Let_def split: if_splits)
      moreover obtain res t1 where "h r (s, e) = (res, t1)" by (cases "h r (s, e)")
      ultimately show ?thesis using run h \<open>ac_Access act = Some req\<close> None
        by (auto simp: handle_request_def bindm_run attempt_run ret_run)
    qed
  qed
qed

lemma serve_authenticated:
  assumes act: "endpoint_action ep (hr_Method r) = Inr act" and f: "known_authenticator (ac_Authenticator act)"
    and up: "\<not> (ad_Shutdown d \<and> \<not> shutdown_allowed v ep r)" and a: "authenticate_with x d (ac_Authenticator act) r s = Inr a"
  shows "serve x d sys v ep r (s, e) = handle_request d sys act (Some a) r (s, e)"
proof -
  note run = authenticate_run [OF f, of x d r s]
  show ?thesis using act up a
    by (auto simp: serve_def bindm_run attempt_run inw_run run)
qed

text \<open>
  C17: For an action that is not open to everyone, a request either gets an error and changes nothing,
  neither in the daemon nor outside, or it comes from an authenticated user whom the authorizer grants
  the entitlement that the action asks for, and the handler does the rest.
\<close>

theorem handler_only_for_permitted:
  assumes run: "serve x d sys v ep r (s, e) = (rr, (t, e'))" and act: "endpoint_action ep (hr_Method r) = Inr act"
    and closed: "\<not> ac_AllowUntrusted act" and f: "known_authenticator (ac_Authenticator act)"
  shows "(\<exists>n er. rr = Inr (ErrorReply n er) \<and> t = s \<and> e' = e) \<or>
    (\<exists>h a res. ac_Handler act = Some h \<and> authenticate_with x d (ac_Authenticator act) r s = Inr a \<and> permitted d (Some a) act \<and>
       h r (s, e) = (res, (t, e')) \<and> rr = Inr (reply_of sys res))"
proof (cases "authenticate_with x d (ac_Authenticator act) r s")
  case (Inl er)
  with run act closed authenticate_run [OF f, of x d r s] show ?thesis
    by (auto simp: serve_def bindm_run attempt_run inw_run ret_run)
next
  case (Inr a)
  show ?thesis
  proof (cases "ad_Shutdown d \<and> \<not> shutdown_allowed v ep r")
    case True
    with run act Inr authenticate_run [OF f, of x d r s] show ?thesis
      by (auto simp: serve_def bindm_run attempt_run inw_run ret_run)
  next
    case False
    from run serve_authenticated [OF act f False Inr] have "handle_request d sys act (Some a) r (s, e) = (rr, (t, e'))" by simp
    from handle_request_cases [OF this closed] Inr show ?thesis by blast
  qed
qed

section \<open>Clients that may read metrics\<close>

text \<open>The authorizer was loaded from the settings.\<close>

definition loaded :: "access_daemon \<Rightarrow> bool" where
  "loaded d \<longleftrightarrow> (\<exists>t. load_tls (ad_Security d) = Inr t \<and>
     (ad_Authorizer d = TLSDriver t \<or> (\<exists>f. ad_Authorizer d = FGADriver f \<and> fg_tls f = t)))"

definition no_oidc :: "access_daemon \<Rightarrow> http_req \<Rightarrow> bool" where
  "no_oidc d r \<longleftrightarrow> (case ad_Oidc d of None \<Rightarrow> True | Some (is_request, auth) \<Rightarrow> \<not> is_request r)"

lemma find_canonical:
  assumes "\<exists>f \<in> set fps. canonical_fingerprint f = c"
  shows "\<exists>f. find (\<lambda>f. c = canonical_fingerprint f) fps = Some f \<and> canonical_fingerprint f = c"
proof -
  obtain f where "find (\<lambda>f. c = canonical_fingerprint f) fps = Some f"
    using assms by (cases "find (\<lambda>f. c = canonical_fingerprint f) fps") (auto simp: find_None_iff)
  then show ?thesis by (auto simp: find_Some_iff)
qed

lemma authenticated_certificate:
  assumes tls: "hr_TLS r = Some (Some c # cs)" and oidc: "no_oidc d r"
    and now: "\<not> time_before (x_now x) (pc_NotBefore c)" "\<not> time_after (x_now x) (pc_NotAfter c)"
    and fp: "\<exists>f \<in> set (trusted_fingerprints (ad_Security d)). canonical_fingerprint f = pc_Fingerprint c"
  shows "default_authenticate x d r s = (Inr (tls_auth (pc_Fingerprint c)), s)"
proof -
  from find_canonical [OF fp] have "check_trust_state x c (trusted_fingerprints (ad_Security d)) = (True, pc_Fingerprint c)"
    using now by (auto simp: check_trust_state_def)
  then show ?thesis using tls oidc
    by (auto simp: default_authenticate_def unix_authenticate_def cert_authenticate_def no_oidc_def run_simps split: option.splits)
qed

text \<open>
  C18: A client whose certificate is one of the metrics clients' is permitted exactly the actions that
  ask for the metrics entitlement, under both authorizers, even if the certificate is also among the
  unrestricted ones; every other action is refused and changes nothing.
\<close>

theorem metrics_client_confined:
  assumes tls: "hr_TLS r = Some (Some c # cs)" and oidc: "no_oidc d r" and load: "loaded d"
    and now: "\<not> time_before (x_now x) (pc_NotBefore c)" "\<not> time_after (x_now x) (pc_NotAfter c)"
    and ms: "metrics_fingerprints (ad_Security d) = Inr ms" "\<exists>f \<in> set ms. canonical_fingerprint f = pc_Fingerprint c"
    and name: "pc_Fingerprint c \<noteq> ''migration-manager-worker''"
    and act: "endpoint_action ep (hr_Method r) = Inr act" "ac_Handler act = Some h" "ac_Access act = Some (''server'', entitlement)"
      "ac_Authenticator act = None \<or> ac_Authenticator act = Some token_authenticate"
    and up: "\<not> ad_Shutdown d"
  shows "serve x d sys v ep r (s, e) =
    (if entitlement = ''can_view_metrics'' then bindm (attempt (h r)) (\<lambda>res. ret (reply_of sys res)) (s, e)
     else (Inr (ErrorReply 403 (StatusErr 403 ''Client certificate is restricted to metrics access'' [])), (s, e)))"
proof -
  obtain t where t: "load_tls (ad_Security d) = Inr t" "ad_Authorizer d = TLSDriver t \<or> (\<exists>f. ad_Authorizer d = FGADriver f \<and> fg_tls f = t)"
    using load by (auto simp: loaded_def)
  then obtain cfs where cfs: "client_fingerprints (ad_Security d) = Inr cfs"
    and tm: "ta_metricsCertificateFingerprints t = ms" using ms(1) by (auto simp: load_tls_def bind_sum_ok)
  have fp: "\<exists>f \<in> set (trusted_fingerprints (ad_Security d)). canonical_fingerprint f = pc_Fingerprint c"
    using ms cfs by (auto simp: trusted_fingerprints_def)
  let ?a = "tls_auth (pc_Fingerprint c)"
  note def = authenticated_certificate [OF tls oidc now fp, of s]
  have known: "known_authenticator (ac_Authenticator act)" using act(4) by (auto simp: known_authenticator_def)
  have auth: "authenticate_with x d (ac_Authenticator act) r s = Inr ?a"
    using act(4) def by (auto simp: authenticate_with_def token_authenticate_def run_simps)
  have chk: "tls_check_permission t (Some ?a) entitlement = (if entitlement = ''can_view_metrics'' then None
      else Some (StatusErr 403 ''Client certificate is restricted to metrics access'' []))"
    using ms(2) name by (auto simp: tls_check_permission_def request_details_def tls_auth_def tm)
  have "check_permission (ad_Authorizer d) (Some ?a) object_server entitlement = tls_check_permission t (Some ?a) entitlement"
    using t(2) by (auto simp: fga_check_permission_def request_details_def tls_auth_def)
  with chk have perm: "allow_permission d (''server'', entitlement) (Some ?a) = (if entitlement = ''can_view_metrics'' then None
      else Some (403, StatusErr 403 ''Client certificate is restricted to metrics access'' []))"
    by (simp add: allow_permission_def smart_status_def)
  from serve_authenticated [OF act(1) known _ auth] up
  have "serve x d sys v ep r (s, e) = handle_request d sys act (Some ?a) r (s, e)" by simp
  then show ?thesis using act(2,3) perm by (simp add: handle_request_def ret_run)
qed

section \<open>What a worker's token opens\<close>

text \<open>
  A request that is not authenticated otherwise is taken for a worker's exactly when its secret is
  the token of the queue entry that its instance parameter names, or, without that parameter, its
  path; and the check changes nothing.
\<close>

theorem token_accepted_iff:
  assumes other: "default_authenticate x d r s = (Inl er, s)"
  shows "token_authenticate x d r s = (Inr a, t) \<longleftrightarrow> a = worker_auth \<and> t = s \<and>
    (\<exists>form u q. hr_Form r = Inr form \<and> token_instance x r form = Inr u \<and> queue_map s u = Some q \<and>
       x_uuid_parse x (form ''secret'') = Some (q_SecretToken q))"
proof
  assume run: "token_authenticate x d r s = (Inr a, t)"
  have "andthen (check_queue_token x r) (ret worker_auth) s = (Inr a, t)"
    using run other by (simp add: token_authenticate_def bindm_run attempt_run)
  then show "a = worker_auth \<and> t = s \<and> (\<exists>form u q. hr_Form r = Inr form \<and> token_instance x r form = Inr u \<and>
      queue_map s u = Some q \<and> x_uuid_parse x (form ''secret'') = Some (q_SecretToken q))"
    by (auto simp: andthen_ok check_queue_token_def bindm_ok wrap_err_ok lift_ok queue_get_def queue_repo_get_ok fail_if_ok ret_ok
        split: option.splits)
next
  assume "a = worker_auth \<and> t = s \<and> (\<exists>form u q. hr_Form r = Inr form \<and> token_instance x r form = Inr u \<and>
      queue_map s u = Some q \<and> x_uuid_parse x (form ''secret'') = Some (q_SecretToken q))"
  then show "token_authenticate x d r s = (Inr a, t)" using other
    by (auto simp: token_authenticate_def bindm_run attempt_run andthen_run check_queue_token_def wrap_err_run lift_run
        queue_get_def queue_repo_get_run fail_if_run ret_run)
qed

text \<open>
  C32: The token of any queue entry opens every action that accepts tokens: the entry that the path
  names, for which the action is done, need not be the one whose token was checked.
\<close>

theorem token_opens_other_entries:
  assumes other: "default_authenticate x d r s = (Inl er, s)"
    and form: "hr_Form r = Inr form" "x_uuid_parse x (form ''instance'') = Some u" "form ''instance'' \<noteq> []"
    and tok: "queue_map s u = Some q" "x_uuid_parse x (form ''secret'') = Some (q_SecretToken q)"
    and act: "endpoint_action ep (hr_Method r) = Inr act" "ac_Handler act = Some h" "ac_Access act = Some (''server'', entitlement)"
      "ac_Authenticator act = Some token_authenticate"
    and up: "\<not> ad_Shutdown d"
  shows "serve x d sys v ep r (s, e) = bindm (attempt (h r)) (\<lambda>res. ret (reply_of sys res)) (s, e)"
proof -
  have "token_authenticate x d r s = (Inr worker_auth, s)"
    using other form tok by (simp add: token_authenticate_def run_simps check_queue_token_def token_instance_def
        queue_get_def queue_repo_get_run)
  then have auth: "authenticate_with x d (ac_Authenticator act) r s = Inr worker_auth"
    by (simp add: authenticate_with_def act(4))
  have known: "known_authenticator (ac_Authenticator act)" by (simp add: known_authenticator_def act(4))
  have "tls_check_permission t (Some worker_auth) entitlement = None" for t
    by (simp add: tls_check_permission_def request_details_def worker_auth_def)
  then have "check_permission (ad_Authorizer d) (Some worker_auth) object_server entitlement = None"
    by (cases "ad_Authorizer d") (simp_all add: fga_check_permission_def request_details_def, simp add: worker_auth_def)
  then have perm: "allow_permission d (''server'', entitlement) (Some worker_auth) = None"
    by (simp add: allow_permission_def)
  from serve_authenticated [OF act(1) known _ auth] up
  have "serve x d sys v ep r (s, e) = handle_request d sys act (Some worker_auth) r (s, e)" by simp
  then show ?thesis using act(2,3) perm by (simp add: handle_request_def)
qed

section \<open>Requests on which the witnesses run\<close>

text \<open>Two entries, with the tokens 5 and 6; the second one is in its final import.\<close>

definition parse_ext :: ext where
  "parse_ext = plain_ext\<lparr>x_uuid_parse := (\<lambda>s. if s = ''seven'' then Some 7 else if s = ''eight'' then Some 8
     else if s = ''five'' then Some 5 else None)\<rparr>"

definition other_entry :: queue_entry where
  "other_entry = sample_entry\<lparr>q_ID := 2, q_InstanceUUID := 8, q_SecretToken := 6,
     q_MigrationStatus := MIGRATIONSTATUS_FINAL_IMPORT, q_ImportStage := IMPORTSTAGE_FINAL,
     q_Placement := sample_placement\<lparr>p_Running := False\<rparr>\<rparr>"

definition two_entries :: world where
  "two_entries = (sample_world [] sample_entry)\<lparr>w_db := (sample_db [] sample_entry)\<lparr>
     db_instances := [sample_inst, sample_inst\<lparr>i_ID := 2, i_UUID := 8\<rparr>],
     db_queue := [\<lparr>qr_Entry = sample_entry, qr_Window = None\<rparr>, \<lparr>qr_Entry = other_entry, qr_Window = None\<rparr>]\<rparr>\<rparr>"

lemma two_entries_queue: "queue_map two_entries 7 = Some sample_entry" "queue_map two_entries 8 = Some other_entry"
  by (simp_all add: queue_map_def queue_lookup_def two_entries_def sample_world_def sample_db_def tb_get_def read_queue_row_def
      other_entry_def)

definition sample_security :: security where
  "sample_security = \<lparr>sy_ClientFingerprints = [''11:22''], sy_ClientCertificates = [],
     sy_MetricsFingerprints = [''AA:BB''], sy_MetricsCertificates = []\<rparr>"

definition sample_daemon :: access_daemon where
  "sample_daemon = \<lparr>ad_Oidc = None, ad_Security = sample_security,
     ad_Authorizer = TLSDriver \<lparr>ta_certificateFingerprints = [''1122''], ta_metricsCertificateFingerprints = [''aabb'']\<rparr>,
     ad_Shutdown = False\<rparr>"

lemma sample_fingerprints:
  "client_fingerprints sample_security = Inr [''1122'']" "metrics_fingerprints sample_security = Inr [''aabb'']"
  by code_simp+

lemma sample_loaded: "loaded sample_daemon"
  by (simp add: loaded_def load_tls_def sample_daemon_def sample_fingerprints bind_sum_ok)

definition token_request :: "string \<Rightarrow> string \<Rightarrow> string \<Rightarrow> http_req" where
  "token_request path inst secret = \<lparr>hr_Method = ''POST'', hr_Path = path,
     hr_Form = Inr (\<lambda>k. if k = ''instance'' then inst else if k = ''secret'' then secret else []),
     hr_RemoteAddr = ''10.0.0.7:4000'', hr_TLS = Some [], hr_Body = []\<rparr>"

lemma token_request_unknown:
  "default_authenticate x sample_daemon (token_request path inst secret) s = (Inl (Errorf ''Failed to authenticate request'' []), s)"
  by (simp add: default_authenticate_def unix_authenticate_def cert_authenticate_def token_request_def sample_daemon_def run_simps)

lemma worker_endpoint_post:
  "endpoint_action (worker_endpoint path h) ''POST'' = Inr \<lparr>ac_Handler = Some h, ac_Access = Some (''server'', ''can_edit''),
     ac_Authenticator = Some token_authenticate, ac_AllowUntrusted = False\<rparr>"
  by (simp add: endpoint_action_def worker_endpoint_def)

theorem handler_only_for_permitted_witness:
  "\<forall>(en :: string task_env) enc e. \<exists>n er.
     serve parse_ext sample_daemon (\<lambda>_. None) ''internal'' (worker_command_cmd parse_ext en enc)
       (token_request ''/internal/worker/eight/:command'' [] ''five'') (two_entries, e) = (Inr (ErrorReply n er), (two_entries, e))"
proof (intro allI)
  fix en :: "string task_env" and enc e
  let ?r = "token_request ''/internal/worker/eight/:command'' [] ''five''"
  let ?act = "\<lparr>ac_Handler = Some (\<lambda>r. worker_command_post parse_ext en enc (path_uuid r)), ac_Access = Some (''server'', ''can_edit''),
     ac_Authenticator = Some token_authenticate, ac_AllowUntrusted = False\<rparr>"
  obtain rr t e' where run: "serve parse_ext sample_daemon (\<lambda>_. None) ''internal'' (worker_command_cmd parse_ext en enc) ?r
      (two_entries, e) = (rr, (t, e'))" by (metis prod_cases3)
  have act: "endpoint_action (worker_command_cmd parse_ext en enc) (hr_Method ?r) = Inr ?act"
    by (simp add: worker_command_cmd_def worker_endpoint_post token_request_def)
  have "uuid_from_url parse_ext ?r = Inr 8" by code_simp
  then have "token_instance parse_ext ?r (\<lambda>k. if k = ''instance'' then [] else if k = ''secret'' then ''five'' else []) = Inr 8"
    by (simp add: token_instance_def)
  then have "fst (check_queue_token parse_ext ?r two_entries) \<noteq> Inr a" for a
    using two_entries_queue(2)
    by (simp add: check_queue_token_def run_simps token_request_def parse_ext_def queue_get_def queue_repo_get_run other_entry_def)
  then have "fst (token_authenticate parse_ext sample_daemon ?r two_entries) \<noteq> Inr a" for a
    by (auto simp: token_authenticate_def run_simps token_request_unknown split: prod.splits sum.splits)
  moreover have "known_authenticator (ac_Authenticator ?act)" by (simp add: known_authenticator_def)
  ultimately show "\<exists>n er. serve parse_ext sample_daemon (\<lambda>_. None) ''internal'' (worker_command_cmd parse_ext en enc) ?r (two_entries, e) =
      (Inr (ErrorReply n er), (two_entries, e))"
    using handler_only_for_permitted [OF run act] run by (auto simp: authenticate_with_def)
qed

theorem metrics_client_confined_witness:
  "\<forall>(en :: string task_env) dec e.
     serve plain_ext sample_daemon (\<lambda>_. None) ''internal'' (worker_update_cmd plain_ext en dec)
       ((token_request ''/internal/worker/eight/:update'' [] [])\<lparr>hr_TLS := Some
          [Some \<lparr>pc_NotBefore = 0, pc_NotAfter = 2000, pc_Fingerprint = ''aabb''\<rparr>]\<rparr>) (two_entries, e) =
       (Inr (ErrorReply 403 (StatusErr 403 ''Client certificate is restricted to metrics access'' [])), (two_entries, e))"
proof (intro allI)
  fix en :: "string task_env" and dec e
  let ?c = "\<lparr>pc_NotBefore = 0, pc_NotAfter = 2000, pc_Fingerprint = ''aabb''\<rparr>"
  let ?r = "(token_request ''/internal/worker/eight/:update'' [] [])\<lparr>hr_TLS := Some [Some ?c]\<rparr>"
  let ?h = "\<lambda>r. worker_update_post plain_ext en dec (path_uuid r) (hr_Body r)"
  let ?act = "\<lparr>ac_Handler = Some ?h, ac_Access = Some (''server'', ''can_edit''),
     ac_Authenticator = Some token_authenticate, ac_AllowUntrusted = False\<rparr>"
  have act: "endpoint_action (worker_update_cmd plain_ext en dec) (hr_Method ?r) = Inr ?act"
    by (simp add: worker_update_cmd_def worker_endpoint_post token_request_def)
  have now: "\<not> time_before (x_now plain_ext) (pc_NotBefore ?c)" "\<not> time_after (x_now plain_ext) (pc_NotAfter ?c)"
    by (simp_all add: plain_ext_def time_before_def time_after_def)
  have ms: "metrics_fingerprints (ad_Security sample_daemon) = Inr [''aabb'']"
    by (simp add: sample_daemon_def sample_fingerprints)
  have fp: "\<exists>f \<in> set [''aabb'']. canonical_fingerprint f = pc_Fingerprint ?c" by code_simp
  have r: "hr_TLS ?r = Some (Some ?c # [])" "no_oidc sample_daemon ?r" "\<not> ad_Shutdown sample_daemon"
    by (simp_all add: no_oidc_def sample_daemon_def)
  from metrics_client_confined [OF r(1,2) sample_loaded now ms fp _ act _ _ _ r(3), of ?h "''can_edit''" "\<lambda>_. None" "''internal''" two_entries e]
  show "serve plain_ext sample_daemon (\<lambda>_. None) ''internal'' (worker_update_cmd plain_ext en dec) ?r (two_entries, e) =
       (Inr (ErrorReply 403 (StatusErr 403 ''Client certificate is restricted to metrics access'' [])), (two_entries, e))" by simp
qed

theorem token_accepted_iff_witness:
  "token_authenticate parse_ext sample_daemon (token_request ''/internal/worker/seven/:update'' [] ''five'') two_entries =
     (Inr worker_auth, two_entries)"
proof -
  let ?r = "token_request ''/internal/worker/seven/:update'' [] ''five''"
  have "uuid_from_url parse_ext ?r = Inr 7" by code_simp
  then have "token_instance parse_ext ?r (\<lambda>k. if k = ''instance'' then [] else if k = ''secret'' then ''five'' else []) = Inr 7"
    by (simp add: token_instance_def)
  moreover have "x_uuid_parse parse_ext ''five'' = Some (q_SecretToken sample_entry)"
    by (simp add: parse_ext_def sample_entry_def)
  ultimately show ?thesis
    using two_entries_queue(1) token_accepted_iff [OF token_request_unknown, of parse_ext _ _ _ two_entries worker_auth two_entries]
    by (auto simp: token_request_def)
qed

lemma other_entry_fails:
  "fst (worker_update_post parse_ext en (\<lambda>_. Inr failed_report) ''eight'' [] (two_entries, e)) = Inr ()"
  "map_option q_MigrationStatus (queue_lookup (w_db (fst (snd
     (worker_update_post parse_ext en (\<lambda>_. Inr failed_report) ''eight'' [] (two_entries, e))))) 8) = Some MIGRATIONSTATUS_ERROR"
  by code_simp+

theorem token_opens_other_entries_witness:
  "\<forall>(en :: string task_env) e. \<exists>t e' q.
     serve parse_ext sample_daemon (\<lambda>_. None) ''internal'' (worker_update_cmd parse_ext en (\<lambda>_. Inr failed_report))
       (token_request ''/internal/worker/eight/:update'' ''seven'' ''five'') (two_entries, e) = (Inr (Answer ()), (t, e')) \<and>
     queue_map t 8 = Some q \<and> q_MigrationStatus q = MIGRATIONSTATUS_ERROR"
proof (intro allI)
  fix en :: "string task_env" and e
  let ?dec = "\<lambda>_ :: string. (Inr failed_report :: err + worker_response)"
  let ?r = "token_request ''/internal/worker/eight/:update'' ''seven'' ''five''"
  let ?h = "\<lambda>r. worker_update_post parse_ext en ?dec (path_uuid r) (hr_Body r)"
  let ?form = "\<lambda>k. if k = ''instance'' then ''seven'' else if k = ''secret'' then ''five'' else []"
  let ?act = "\<lparr>ac_Handler = Some ?h, ac_Access = Some (''server'', ''can_edit''),
     ac_Authenticator = Some token_authenticate, ac_AllowUntrusted = False\<rparr>"
  have act: "endpoint_action (worker_update_cmd parse_ext en ?dec) (hr_Method ?r) = Inr ?act"
    by (simp add: worker_update_cmd_def worker_endpoint_post token_request_def)
  have path: "path_uuid ?r = ''eight''" "hr_Body ?r = []" by code_simp+
  have form: "hr_Form ?r = Inr ?form" "x_uuid_parse parse_ext (?form ''instance'') = Some 7" "?form ''instance'' \<noteq> []"
    "x_uuid_parse parse_ext (?form ''secret'') = Some (q_SecretToken sample_entry)" "\<not> ad_Shutdown sample_daemon"
    by (simp_all add: token_request_def parse_ext_def sample_entry_def sample_daemon_def)
  obtain t e' where run: "?h ?r (two_entries, e) = (Inr (), (t, e'))" and q: "map_option q_MigrationStatus (queue_map t 8) = Some MIGRATIONSTATUS_ERROR"
    using other_entry_fails [of en e] path
    by (cases "?h ?r (two_entries, e)") (auto simp: queue_map_def)
  have "serve parse_ext sample_daemon (\<lambda>_. None) ''internal'' (worker_update_cmd parse_ext en ?dec) ?r (two_entries, e) =
      bindm (attempt (?h ?r)) (\<lambda>res. ret (reply_of (\<lambda>_. None) res)) (two_entries, e)"
    using token_opens_other_entries [OF token_request_unknown form(1,2,3) two_entries_queue(1) form(4) act _ _ _ form(5),
        of ?h "''can_edit''" "\<lambda>_. None" "''internal''" e] by simp
  also have "\<dots> = (Inr (Answer ()), (t, e'))" using run by (simp add: run_simps reply_of_def)
  finally show "\<exists>t e' q. serve parse_ext sample_daemon (\<lambda>_. None) ''internal'' (worker_update_cmd parse_ext en ?dec) ?r (two_entries, e) =
      (Inr (Answer ()), (t, e')) \<and> queue_map t 8 = Some q \<and> q_MigrationStatus q = MIGRATIONSTATUS_ERROR"
    using q by auto
qed

end
