(* ===== verification/Spec2Isabelle.thy ===== *)
theory Spec2Isabelle
  imports Batch_Properties Catalog_Service Warning_Service Artifact_Service Startup Incus_Target Task_Facts Disk_Facts Worker_Facts Access_Facts
begin

text \<open>
  \<^bold>\<open>The migration manager.\<close> The daemon moves virtual machines from VMware to Incus. It imports
  instances and networks from sources, lets the user group instances into batches with migration
  windows, and puts the instances of a started batch into a queue. Periodic tasks create the VM on
  the target, in which a worker runs that copies the disks: first in the background, while the source
  VM is still running, then once more inside a migration window, with the source VM off. The worker
  asks the daemon for commands and reports back; at the end a task gives the VM its final
  configuration.

  \<^bold>\<open>Parts and theories.\<close>

  \<^item> Base: \<open>Prelude\<close> (computations over a state with errors, their rules), \<open>Go_Runtime\<close> and \<open>Go_Net\<close>
    (what the program uses of Go's standard library: wrapping durations, texts, errors, maps,
    addresses), \<open>Externals\<close> (one record of everything that is not under \<^verbatim>\<open>src/\<close> and pure: clock, random
    generator, parsers, tables of libraries), \<open>Concurrent\<close> (\<^verbatim>\<open>internal/util/concurrent.go\<close>).
  \<^item> Data: \<open>Api_Types\<close>, \<open>Api_Endpoints\<close> (\<^verbatim>\<open>shared/api\<close>); \<open>Model_Window\<close>, \<open>Model_Instance\<close>,
    \<open>Model_Network\<close>, \<open>Model_Queue\<close>, \<open>Model_Batch\<close>, \<open>Model_Endpoint\<close>, \<open>Model_Warning\<close>, \<open>Model_Artifact\<close>
    (\<^verbatim>\<open>internal/migration/*_model.go\<close>, \<^verbatim>\<open>filter.go\<close>), \<open>Scriptlet\<close> (\<^verbatim>\<open>internal/scriptlet\<close>).
  \<^item> Database: \<open>Store\<close> (tables, transactions, the daemon's whole state \<open>world\<close>), \<open>Repo\<close>,
    \<open>Catalog_Repo\<close> (\<^verbatim>\<open>internal/migration/repo/sqlite\<close>).
  \<^item> Services (\<^verbatim>\<open>internal/migration/*_service.go\<close>): \<open>Instance_Service\<close>, \<open>Queue_Base\<close>, \<open>Queue_Service\<close>,
    \<open>Window_Service\<close>, \<open>Batch_Service\<close>, \<open>Catalog_Service\<close> (sources, targets, networks),
    \<open>Warning_Service\<close>, \<open>Artifact_Service\<close>; \<open>Handler\<close> (\<^verbatim>\<open>internal/queue\<close> and the recount at startup).
  \<^item> Endpoints: \<open>Properties\<close> (\<^verbatim>\<open>internal/properties\<close>), \<open>Incus_Config\<close>, \<open>Incus_Target\<close>
    (\<^verbatim>\<open>internal/target\<close>), \<open>VMware_Data\<close>, \<open>VMware_Source\<close> (\<^verbatim>\<open>internal/source/vmware.go\<close>).
  \<^item> Periodic tasks (\<^verbatim>\<open>cmd/migration-managerd/internal/api/workers.go\<close>): \<open>Tasks\<close> (state, blocked
    entries), \<open>Import_Tasks\<close> (\<open>beginImports\<close>, \<open>createTargetVM\<close>), \<open>Final_Tasks\<close>
    (\<open>finalizeCompleteInstances\<close>, the last checks and the final configuration).
  \<^item> The daemon's API: \<open>Access\<close> (authentication, permissions and the handler in front of every endpoint:
    \<^verbatim>\<open>authenticate.go\<close> and \<open>createCmd\<close> in \<^verbatim>\<open>cmd/migration-managerd/internal/api\<close>,
    \<^verbatim>\<open>internal/server/auth\<close>), \<open>Worker_Api\<close> (\<^verbatim>\<open>api_worker.go\<close>: commands for and reports of the worker).
  \<^item> The worker: \<open>Disk_Copy\<close> (\<^verbatim>\<open>internal/migratekit\<close> and \<open>ImportDisks\<close> of
    \<^verbatim>\<open>internal/source/vmware_linux.go\<close>: snapshots, change ids, full and incremental copies), \<open>Worker\<close>
    (\<^verbatim>\<open>cmd/migration-manager-worker/internal/worker/worker.go\<close>: requests, artifacts, commands, the loop).
  \<^item> Lemmas and properties over several parts: \<open>Queue_Frame\<close>, \<open>Scheduling\<close>, \<open>Reporting\<close>, \<open>Lifecycle\<close>,
    \<open>Accounting\<close>, \<open>Batch_Properties\<close>, \<open>Startup\<close>, \<open>VMware_Facts\<close>, \<open>Task_Facts\<close>, \<open>Disk_Facts\<close>,
    \<open>Worker_Facts\<close>, \<open>Access_Facts\<close>.

  \<^bold>\<open>How the parts meet.\<close> The services share the \<open>world\<close>: the database and the counters in memory. The
  tasks call the services and, beside them, a target (\<open>incus_client\<close>) and a source (\<open>vsphere\<close>). The
  worker has a state of its own beside that of its machine (\<open>host\<close>: devices and files); it reaches the
  daemon by requests, which \<open>serve\<close> takes to the handlers of \<open>Worker_Api\<close>, and calls \<open>import_disks\<close> with its own surroundings (\<open>worker_disks\<close>), in which a
  progress message is a request to the daemon.

  \<^bold>\<open>Correspondence.\<close> A struct is a record with the fields' names behind a prefix, a Go string type with
  constants a datatype, a nil-able slice or pointer an option; a Go map is a function to options, a
  finite map, or, where it is iterated over, an association list without duplicate keys. Operations of
  the daemon are computations on \<open>world\<close>; an error is the left value of a sum, and the state is
  returned with it, because caches in memory stay written. Calls to VMware and Incus are actions
  on an arbitrary state of the outside world. A panic is an error value that the code does not
  handle. Integers that can overflow (durations, memory sizes) wrap around explicitly; addresses and
  UUIDs are 128-bit words, disk contents lists of 8-bit words. What the code does concurrently for
  several targets or instances is done in the order of the list.

  \<^bold>\<open>What the lemmas show.\<close>

  \<^item> \<open>Store\<close> states the laws of a keyed table as a locale, interpreted by every table of the database,
    and \<open>Concurrent\<close> those of an import counter, interpreted by the cache; the services' lemmas rest on
    them. \<open>Concurrent\<close> also has the lock by identifier as a transition system and its mutual exclusion.
  \<^item> \<open>Queue_Frame\<close> and \<open>Reporting\<close> describe the effect of every operation of the queue; on them rest the
    refinement of an abstract machine (\<open>Lifecycle\<close>), the limits and windows (\<open>Scheduling\<close>) and the
    accounting of running imports over any history (\<open>Accounting\<close>, \<open>Startup\<close>).
  \<^item> \<open>Batch_Properties\<close> shows that failed operations leave the database as it was; \<open>Warning_Service\<close> and
    \<open>Artifact_Service\<close> hold the invariants of their tables.
  \<^item> \<open>Incus_Config\<close>, \<open>Incus_Target\<close>, \<open>VMware_Facts\<close>: what is read from a VM is what is written to the
    target, every VM found is imported or warned about, and only VMs of the migration are deleted.
  \<^item> \<open>Task_Facts\<close>: limits on creations, the end of a migration, conflicts and resets.
  \<^item> \<open>Disk_Facts\<close>: copies end and leave the device equal to the snapshot, also after failed attempts.
  \<^item> \<open>Worker_Facts\<close>: the worker's artifacts are current, its requests go to the trusted daemon only,
    and a success is reported only after all steps; and two ways in which a second attempt goes wrong.
  \<^item> \<open>Worker_Api\<close>: whatever a worker's call returns, the queue has made at most one step of the abstract
    machine; what an error after the command leaves behind.
  \<^item> \<open>Access_Facts\<close>: a handler runs only for permitted users, clients for metrics read nothing else,
    and what the token of a worker opens.

  Some properties state what the code does where that is not what it should do; the manifest's
  findings name them.

  \<^bold>\<open>Loops and fuel.\<close> Recursions are structural or have a termination proof (the chunks of a copy, by what
  is left of the area). The rounds of an incremental copy and the worker's loop need not end: they are
  partial functions into options, and the end of the import is a theorem under the hypothesis that
  VMware's answers get further. The wait for Incus' agent takes the number of questions before its
  timeout as an argument, and its end is shown for every such number. Retries are those of the code.

  \<^bold>\<open>Not modelled.\<close> The database's schema and its updates (\<^verbatim>\<open>internal/db\<close>), and the generated mappers beyond
  the statements that the repositories use: SQL texts, of which only the effect on tables is stated.
  The other endpoints of the HTTP API (\<^verbatim>\<open>cmd/migration-managerd/internal/api/api_*.go\<close>),
  the libraries behind OIDC and OpenFGA (parameters of \<open>Access\<close>), the periodic synchronisation with sources except its recount at startup, the daemon's start-up:
  they decode requests and call the services modelled here. NSX and vROps clients
  (\<^verbatim>\<open>internal/source/nsx.go\<close>, \<^verbatim>\<open>vrops.go\<close>): REST calls. What prepares the copied system
  (\<^verbatim>\<open>internal/worker\<close>): calls of system programs on mounted disks, and scripts. The command line clients, the
  user interface, logging, metrics, generated mocks and middleware, TLS set-up: input and output only.
  Of the parts that are modelled: texts of log messages and life-cycle events, progress percentages,
  pauses, time-outs of contexts (a call that is cut off returns an error), signal handlers, and the
  image backup that the daemon builds (its existence and content are parameters).
\<close>

end
